(* ===== verification/TA_Prelude.thy ===== *)
theory TA_Prelude
  imports
    Main
    "HOL-Library.Word"
    "HOL-Library.Char_ord"
    "HOL-Library.List_Lexorder"
    "HOL-Library.Product_Lexorder"
    "HOL-Library.Sublist"
    "HOL-Library.Code_Target_Nat"
begin

text \<open>
  Shared vocabulary of the development.

  \<^item> Results: \<open>Result<T, E>\<close> is the sum type \<open>'e + 'a\<close> (\<open>Inl\<close> is \<open>Err\<close>), with \<open>rbind\<close>
    for the question-mark operator, \<open>ok_or\<close>, \<open>map_err\<close> and \<open>collect_results\<close>.
  \<^item> Strings: a Rust \<open>str\<close> is its UTF-8 byte sequence, a list of 8-bit \<open>char\<close>s.  \<open>len\<close> is
    \<open>length\<close>, ordering is bytewise, \<open>trim\<close> and \<open>split_whitespace\<close> know the encodings of every
    Unicode \<open>White_Space\<close> character, and \<open>chars().count()\<close> counts the bytes that do not
    continue a character.
  \<^item> Vectors: \<open>sort_by\<close> is the stable \<open>sort_key\<close>, \<open>dedup_by\<close> keeps the first element of a
    run, \<open>truncate\<close> is \<open>take\<close>.
  \<^item> Machine integers: \<open>u8\<close>, \<open>u16\<close>, \<open>u32\<close>, \<open>u64\<close> and \<open>usize\<close> are words; durations and
    instants are unbounded and carry their checked bounds in the operations.
\<close>

named_theorems result_simps \<open>rewrite rules for results\<close>
named_theorems str_simps \<open>rewrite rules for Rust string operations\<close>

type_synonym u8 = "8 word"
type_synonym u16 = "16 word"
type_synonym u32 = "32 word"
type_synonym u64 = "64 word"
type_synonym usize = "64 word"
type_synonym uuid = "128 word"
type_synonym ('e, 'a) result = "'e + 'a"

section \<open>Results\<close>

definition rbind :: "'e + 'a \<Rightarrow> ('a \<Rightarrow> 'e + 'b) \<Rightarrow> 'e + 'b" where
  "rbind r f = (case r of Inl e \<Rightarrow> Inl e | Inr x \<Rightarrow> f x)"

definition ok_or :: "'e \<Rightarrow> 'a option \<Rightarrow> 'e + 'a" where
  "ok_or e r = (case r of None \<Rightarrow> Inl e | Some x \<Rightarrow> Inr x)"

definition map_err :: "('e \<Rightarrow> 'f) \<Rightarrow> 'e + 'a \<Rightarrow> 'f + 'a" where
  "map_err f r = (case r of Inl e \<Rightarrow> Inl (f e) | Inr x \<Rightarrow> Inr x)"

definition is_ok :: "'e + 'a \<Rightarrow> bool" where
  "is_ok r = (case r of Inl _ \<Rightarrow> False | Inr _ \<Rightarrow> True)"

text \<open>\<open>collect::<Result<Vec<_>, _>>()\<close>: the first error in order wins.\<close>

fun collect_results :: "('e + 'a) list \<Rightarrow> 'e + 'a list" where
  "collect_results [] = Inr []"
| "collect_results (r # rs) = rbind r (\<lambda>x. rbind (collect_results rs) (\<lambda>xs. Inr (x # xs)))"

lemma rbind_simps [simp, result_simps]:
  "rbind (Inl e) f = Inl e" "rbind (Inr x) f = f x"
  by (simp_all add: rbind_def)

lemma ok_or_simps [simp, result_simps]:
  "ok_or e None = Inl e" "ok_or e (Some x) = Inr x"
  by (simp_all add: ok_or_def)

lemma map_err_simps [simp, result_simps]:
  "map_err f (Inl e) = Inl (f e)" "map_err f (Inr x) = Inr x"
  by (simp_all add: map_err_def)

lemma is_ok_simps [simp, result_simps]: "is_ok (Inl e) = False" "is_ok (Inr x) = True"
  by (simp_all add: is_ok_def)

lemma rbind_eq_Inr [simp, result_simps]:
  "rbind r f = Inr y \<longleftrightarrow> (\<exists>x. r = Inr x \<and> f x = Inr y)"
  by (cases r) auto

lemma rbind_eq_Inl [result_simps]:
  "rbind r f = Inl e \<longleftrightarrow> r = Inl e \<or> (\<exists>x. r = Inr x \<and> f x = Inl e)"
  by (cases r) auto

lemma ok_or_eq_Inr [simp, result_simps]: "ok_or e r = Inr x \<longleftrightarrow> r = Some x"
  by (cases r) auto

lemma ok_or_eq_Inl [simp, result_simps]: "ok_or e r = Inl e' \<longleftrightarrow> r = None \<and> e' = e"
  by (cases r) auto

lemma map_err_eq_Inr [simp, result_simps]: "map_err f r = Inr x \<longleftrightarrow> r = Inr x"
  by (cases r) auto

lemma map_err_eq_Inl [result_simps]: "map_err f r = Inl e \<longleftrightarrow> (\<exists>e'. r = Inl e' \<and> e = f e')"
  by (cases r) auto

lemma is_ok_iff: "is_ok r \<longleftrightarrow> (\<exists>x. r = Inr x)"
  by (cases r) auto

lemma collect_results_Inr:
  "collect_results rs = Inr xs \<longleftrightarrow> rs = map Inr xs"
proof (induction rs arbitrary: xs)
  case Nil
  then show ?case by auto
next
  case (Cons r rs)
  then show ?case by (cases xs) (cases r; auto)+
qed

lemma collect_results_append:
  "collect_results (xs @ ys) = rbind (collect_results xs) (\<lambda>a. rbind (collect_results ys) (\<lambda>b. Inr (a @ b)))"
proof (induction xs)
  case Nil
  then show ?case by (cases "collect_results ys") auto
next
  case (Cons x xs)
  then show ?case by (cases x; cases "collect_results xs"; cases "collect_results ys") auto
qed

lemma is_ok_collect_results: "is_ok (collect_results rs) = list_all is_ok rs"
proof (induction rs)
  case (Cons r rs)
  then show ?case by (cases r; cases "collect_results rs") auto
qed simp

lemma is_ok_rbind: "is_ok (rbind r f) \<longleftrightarrow> (\<exists>x. r = Inr x \<and> is_ok (f x))"
  by (cases r) auto

lemma is_ok_map_err [simp, result_simps]: "is_ok (map_err f r) = is_ok r"
  by (cases r) auto

lemma collect_results_map_Inr [simp]: "collect_results (map (\<lambda>x. Inr (f x)) xs) = Inr (map f xs)"
  by (induction xs) auto

section \<open>Strings as UTF-8 bytes\<close>

definition byte_val :: "char \<Rightarrow> nat" where
  "byte_val c = of_char c"

definition is_ascii_lowercase :: "char \<Rightarrow> bool" where
  "is_ascii_lowercase c = (97 \<le> byte_val c \<and> byte_val c \<le> 122)"

definition is_ascii_uppercase :: "char \<Rightarrow> bool" where
  "is_ascii_uppercase c = (65 \<le> byte_val c \<and> byte_val c \<le> 90)"

definition is_ascii_digit :: "char \<Rightarrow> bool" where
  "is_ascii_digit c = (48 \<le> byte_val c \<and> byte_val c \<le> 57)"

definition is_ascii_alphanumeric :: "char \<Rightarrow> bool" where
  "is_ascii_alphanumeric c = (is_ascii_lowercase c \<or> is_ascii_uppercase c \<or> is_ascii_digit c)"

definition is_ascii_hexdigit :: "char \<Rightarrow> bool" where
  "is_ascii_hexdigit c =
     (is_ascii_digit c \<or> (97 \<le> byte_val c \<and> byte_val c \<le> 102) \<or> (65 \<le> byte_val c \<and> byte_val c \<le> 70))"

definition is_ascii_graphic :: "char \<Rightarrow> bool" where
  "is_ascii_graphic c = (33 \<le> byte_val c \<and> byte_val c \<le> 126)"

definition ascii_lower :: "char \<Rightarrow> char" where
  "ascii_lower c = (if is_ascii_uppercase c then char_of (byte_val c + 32) else c)"

definition to_ascii_lowercase :: "string \<Rightarrow> string" where
  "to_ascii_lowercase s = map ascii_lower s"

definition eq_ignore_ascii_case :: "string \<Rightarrow> string \<Rightarrow> bool" where
  "eq_ignore_ascii_case s t = (to_ascii_lowercase s = to_ascii_lowercase t)"

text \<open>Whitespace: the one-, two- and three-byte encodings of \<open>White_Space\<close>.\<close>

definition ws1 :: "char \<Rightarrow> bool" where
  "ws1 a = ((9 \<le> byte_val a \<and> byte_val a \<le> 13) \<or> byte_val a = 32)"

definition ws2 :: "char \<Rightarrow> char \<Rightarrow> bool" where
  "ws2 a b = (byte_val a = 0xC2 \<and> (byte_val b = 0x85 \<or> byte_val b = 0xA0))"

definition ws3 :: "char \<Rightarrow> char \<Rightarrow> char \<Rightarrow> bool" where
  "ws3 a b c =
     ((byte_val a = 0xE1 \<and> byte_val b = 0x9A \<and> byte_val c = 0x80)
      \<or> (byte_val a = 0xE2 \<and> byte_val b = 0x80
         \<and> ((0x80 \<le> byte_val c \<and> byte_val c \<le> 0x8A)
            \<or> byte_val c = 0xA8 \<or> byte_val c = 0xA9 \<or> byte_val c = 0xAF))
      \<or> (byte_val a = 0xE2 \<and> byte_val b = 0x81 \<and> byte_val c = 0x9F)
      \<or> (byte_val a = 0xE3 \<and> byte_val b = 0x80 \<and> byte_val c = 0x80))"

text \<open>The number of bytes of the whitespace character a string starts with, zero for none.\<close>

fun ws_len :: "(char \<Rightarrow> char \<Rightarrow> bool) \<Rightarrow> (char \<Rightarrow> char \<Rightarrow> char \<Rightarrow> bool) \<Rightarrow> string \<Rightarrow> nat" where
  "ws_len p q [] = 0"
| "ws_len p q [a] = (if ws1 a then 1 else 0)"
| "ws_len p q [a, b] = (if ws1 a then 1 else if p a b then 2 else 0)"
| "ws_len p q (a # b # c # s) =
     (if ws1 a then 1 else if p a b then 2 else if q a b c then 3 else 0)"

function strip_ws ::
    "(char \<Rightarrow> char \<Rightarrow> bool) \<Rightarrow> (char \<Rightarrow> char \<Rightarrow> char \<Rightarrow> bool) \<Rightarrow> string \<Rightarrow> string" where
  "strip_ws p q s = (if ws_len p q s = 0 then s else strip_ws p q (drop (ws_len p q s) s))"
  by pat_completeness auto
termination
proof (relation "measure (\<lambda>(p, q, s). length s)", simp, clarsimp)
  fix p q and s :: string
  assume "0 < ws_len p q s"
  then show "length s - ws_len p q s < length s"
    by (cases "(p, q, s)" rule: ws_len.cases) (auto split: if_splits)
qed

declare strip_ws.simps [simp del]

definition trim_start :: "string \<Rightarrow> string" where
  "trim_start s = strip_ws ws2 ws3 s"

definition trim_end :: "string \<Rightarrow> string" where
  "trim_end s = rev (strip_ws (\<lambda>b a. ws2 a b) (\<lambda>c b a. ws3 a b c) (rev s))"

definition trim :: "string \<Rightarrow> string" where
  "trim s = trim_end (trim_start s)"

text \<open>\<open>split_whitespace\<close>: the maximal non-empty runs between whitespace characters.\<close>

function split_ws :: "string \<Rightarrow> string \<Rightarrow> string list" where
  "split_ws cur [] = (if cur = [] then [] else [rev cur])"
| "split_ws cur (c # s) =
     (if ws_len ws2 ws3 (c # s) = 0 then split_ws (c # cur) s
      else (if cur = [] then [] else [rev cur]) @
           split_ws [] (drop (ws_len ws2 ws3 (c # s)) (c # s)))"
  by pat_completeness auto
termination
  by (relation "measure (\<lambda>(cur, s). length s)") auto

definition split_whitespace :: "string \<Rightarrow> string list" where
  "split_whitespace s = split_ws [] s"

definition has_whitespace :: "string \<Rightarrow> bool" where
  "has_whitespace s = list_ex (\<lambda>i. ws_len ws2 ws3 (drop i s) \<noteq> 0) [0..<length s]"

text \<open>\<open>chars().count()\<close>: bytes that start a character.\<close>

definition is_char_start :: "char \<Rightarrow> bool" where
  "is_char_start c = (byte_val c < 0x80 \<or> 0xC0 \<le> byte_val c)"

definition chars_count :: "string \<Rightarrow> nat" where
  "chars_count s = length (filter is_char_start s)"

text \<open>\<open>std::str::from_utf8\<close>: well-formed UTF-8.\<close>

definition utf8_cont :: "char \<Rightarrow> nat \<Rightarrow> nat \<Rightarrow> bool" where
  "utf8_cont c lo hi = (lo \<le> byte_val c \<and> byte_val c \<le> hi)"

fun utf8_ok :: "string \<Rightarrow> bool" where
  "utf8_ok [] = True"
| "utf8_ok (a # s) =
     (if byte_val a < 0x80 then utf8_ok s
      else if 0xC2 \<le> byte_val a \<and> byte_val a \<le> 0xDF then
        (case s of b # s' \<Rightarrow> utf8_cont b 0x80 0xBF \<and> utf8_ok s' | _ \<Rightarrow> False)
      else if 0xE0 \<le> byte_val a \<and> byte_val a \<le> 0xEF then
        (case s of b # c # s' \<Rightarrow>
           utf8_cont b (if byte_val a = 0xE0 then 0xA0 else 0x80) (if byte_val a = 0xED then 0x9F else 0xBF)
           \<and> utf8_cont c 0x80 0xBF \<and> utf8_ok s' | _ \<Rightarrow> False)
      else if 0xF0 \<le> byte_val a \<and> byte_val a \<le> 0xF4 then
        (case s of b # c # d # s' \<Rightarrow>
           utf8_cont b (if byte_val a = 0xF0 then 0x90 else 0x80) (if byte_val a = 0xF4 then 0x8F else 0xBF)
           \<and> utf8_cont c 0x80 0xBF \<and> utf8_cont d 0x80 0xBF \<and> utf8_ok s' | _ \<Rightarrow> False)
      else False)"

text \<open>Substring search: \<open>starts_with\<close>, \<open>ends_with\<close>, \<open>find\<close> and \<open>contains\<close>.\<close>

definition starts_with :: "string \<Rightarrow> string \<Rightarrow> bool" where
  "starts_with s p = (take (length p) s = p)"

definition ends_with :: "string \<Rightarrow> string \<Rightarrow> bool" where
  "ends_with s p = (length p \<le> length s \<and> drop (length s - length p) s = p)"

fun find_str :: "string \<Rightarrow> string \<Rightarrow> nat option" where
  "find_str [] p = (if p = [] then Some 0 else None)"
| "find_str (c # s) p =
     (if starts_with (c # s) p then Some 0 else map_option Suc (find_str s p))"

definition contains_str :: "string \<Rightarrow> string \<Rightarrow> bool" where
  "contains_str s p = (find_str s p \<noteq> None)"

text \<open>\<open>split(c)\<close> and \<open>split_once(c)\<close> on a one-byte separator; \<open>join(" ")\<close>.\<close>

fun split_on :: "char \<Rightarrow> string \<Rightarrow> string list" where
  "split_on d [] = [[]]"
| "split_on d (c # s) =
     (if c = d then [] # split_on d s
      else case split_on d s of [] \<Rightarrow> [[c]] | t # ts \<Rightarrow> (c # t) # ts)"

definition split_once :: "string \<Rightarrow> string \<Rightarrow> (string \<times> string) option" where
  "split_once s p = map_option (\<lambda>i. (take i s, drop (i + length p) s)) (find_str s p)"

fun join_with :: "string \<Rightarrow> string list \<Rightarrow> string" where
  "join_with d [] = []"
| "join_with d [t] = t"
| "join_with d (t # u # ts) = t @ d @ join_with d (u # ts)"

definition strip_suffix :: "string \<Rightarrow> string \<Rightarrow> string option" where
  "strip_suffix s p = (if ends_with s p then Some (take (length s - length p) s) else None)"

definition trim_end_matches :: "char \<Rightarrow> string \<Rightarrow> string" where
  "trim_end_matches c s = rev (dropWhile (\<lambda>x. x = c) (rev s))"

section \<open>Vectors\<close>

text \<open>\<open>dedup_by\<close> with a key: consecutive elements with equal keys keep only the first.\<close>

fun dedup_key :: "('a \<Rightarrow> 'k) \<Rightarrow> 'a list \<Rightarrow> 'a list" where
  "dedup_key k [] = []"
| "dedup_key k [x] = [x]"
| "dedup_key k (x # y # xs) = (if k x = k y then dedup_key k (x # xs) else x # dedup_key k (y # xs))"

text \<open>A \<open>BTreeMap\<close> is the list of its entries in the order of their keys.\<close>

fun btree_insert :: "'k::linorder \<Rightarrow> 'v \<Rightarrow> ('k \<times> 'v) list \<Rightarrow> ('k \<times> 'v) list" where
  "btree_insert k v [] = [(k, v)]"
| "btree_insert k v ((a, b) # m) =
     (if k < a then (k, v) # (a, b) # m else if k = a then (a, v) # m else (a, b) # btree_insert k v m)"

lemma btree_insert_keys [simp]: "fst ` set (btree_insert k v m) = insert k (fst ` set m)"
  by (induction k v m rule: btree_insert.induct) auto

lemma map_of_btree_insert [simp]: "sorted_wrt (<) (map fst m) \<Longrightarrow> map_of (btree_insert k v m) = (map_of m)(k \<mapsto> v)"
  by (induction k v m rule: btree_insert.induct) (auto simp: fun_eq_iff)

lemma sorted_btree_insert [simp]:
  "sorted_wrt (<) (map fst m) \<Longrightarrow> sorted_wrt (<) (map fst (btree_insert k v m))"
proof (induction k v m rule: btree_insert.induct)
  case (2 k v a b m)
  have "fst ` set (btree_insert k v m) = insert k (fst ` set m)" by (rule btree_insert_keys)
  then have "\<forall>x \<in> set (btree_insert k v m). fst x \<in> insert k (fst ` set m)" by blast
  with 2 show ?case by (fastforce simp: not_less_iff_gr_or_eq)
qed simp

section \<open>Lemmas on trimming\<close>

lemma ws_len_le: "ws_len p q s \<le> length s"
  by (cases "(p, q, s)" rule: ws_len.cases) auto

lemma strip_ws_fix: "ws_len p q s = 0 \<Longrightarrow> strip_ws p q s = s"
  by (simp add: strip_ws.simps)

lemma ws_len_strip_ws [simp]: "ws_len p q (strip_ws p q s) = 0"
  by (induction p q s rule: strip_ws.induct) (subst strip_ws.simps, simp)

lemma strip_ws_idem [simp]: "strip_ws p q (strip_ws p q s) = strip_ws p q s"
  by (simp add: strip_ws_fix)

lemma strip_ws_suffix: "suffix (strip_ws p q s) s"
proof (induction p q s rule: strip_ws.induct)
  case (1 p q s)
  show ?case
  proof (cases "ws_len p q s = 0")
    case True
    then show ?thesis by (simp add: strip_ws_fix)
  next
    case False
    with "1" have "suffix (strip_ws p q (drop (ws_len p q s) s)) s"
      by (meson suffix_drop suffix_order.trans)
    with False show ?thesis by (subst strip_ws.simps) simp
  qed
qed

lemma ws_len_prefix: "prefix t s \<Longrightarrow> ws_len p q s = 0 \<Longrightarrow> ws_len p q t = 0"
proof -
  assume "prefix t s" and z: "ws_len p q s = 0"
  then obtain u where "s = t @ u" by (auto simp: prefix_def)
  with z show ?thesis
    by (cases "(p, q, t)" rule: ws_len.cases; cases u; cases "tl u")
       (auto split: if_splits)
qed

lemma trim_end_prefix: "prefix (trim_end s) s"
  by (metis rev_rev_ident strip_ws_suffix suffix_to_prefix trim_end_def)

lemma trim_idem [simp, str_simps]: "trim (trim s) = trim s"
proof -
  have "ws_len ws2 ws3 (trim s) = 0"
    unfolding trim_def
    by (rule ws_len_prefix [OF trim_end_prefix]) (simp add: trim_start_def)
  then have "trim_start (trim s) = trim s"
    by (simp add: trim_start_def strip_ws_fix)
  then show ?thesis
    by (simp add: trim_def trim_end_def)
qed

lemma length_trim_le: "length (trim s) \<le> length s"
proof -
  have "length (trim s) \<le> length (trim_start s)"
    unfolding trim_def by (intro prefix_length_le trim_end_prefix)
  also have "\<dots> \<le> length s"
    unfolding trim_start_def by (intro suffix_length_le strip_ws_suffix)
  finally show ?thesis .
qed

lemma trim_Nil [simp, str_simps]: "trim [] = []"
  by (simp add: trim_def trim_end_def trim_start_def strip_ws_fix)

text \<open>A string whose first and last bytes are ASCII and not whitespace is its own trimming.\<close>

lemma strip_ws_ascii:
  assumes "\<And>a b. p a b \<Longrightarrow> 0x80 \<le> byte_val a" and "\<And>a b c. q a b c \<Longrightarrow> 0x80 \<le> byte_val a"
    and "s \<noteq> []" and "byte_val (hd s) < 0x80" and "\<not> ws1 (hd s)"
  shows "strip_ws p q s = s"
proof -
  have "ws_len p q s = 0"
    using assms by (cases "(p, q, s)" rule: ws_len.cases) (fastforce split: if_splits)+
  then show ?thesis by (rule strip_ws_fix)
qed

lemma trim_ascii:
  assumes "s \<noteq> []" and "byte_val (hd s) < 0x80" and "\<not> ws1 (hd s)"
    and "byte_val (last s) < 0x80" and "\<not> ws1 (last s)"
  shows "trim s = s"
proof -
  have "trim_start s = s"
    unfolding trim_start_def
    using assms by (intro strip_ws_ascii) (auto simp: ws2_def ws3_def)
  moreover have "trim_end s = s"
    unfolding trim_end_def
    using assms by (subst strip_ws_ascii) (auto simp: ws2_def ws3_def hd_rev)
  ultimately show ?thesis by (simp add: trim_def)
qed

section \<open>Lemmas on case folding and searching\<close>

lemma ascii_lower_idem [simp]: "ascii_lower (ascii_lower c) = ascii_lower c"
  by (auto simp: ascii_lower_def is_ascii_uppercase_def byte_val_def)

lemma to_ascii_lowercase_idem [simp, str_simps]:
  "to_ascii_lowercase (to_ascii_lowercase s) = to_ascii_lowercase s"
  by (simp add: to_ascii_lowercase_def)

lemma length_to_ascii_lowercase [simp]: "length (to_ascii_lowercase s) = length s"
  by (simp add: to_ascii_lowercase_def)

lemma to_ascii_lowercase_Nil [simp]: "to_ascii_lowercase s = [] \<longleftrightarrow> s = []"
  by (simp add: to_ascii_lowercase_def)

lemma to_ascii_lowercase_no_upper: "c \<in> set (to_ascii_lowercase s) \<Longrightarrow> \<not> is_ascii_uppercase c"
  by (auto simp: to_ascii_lowercase_def ascii_lower_def is_ascii_uppercase_def byte_val_def)

lemma eq_ignore_ascii_case_refl [simp]: "eq_ignore_ascii_case s s"
  by (simp add: eq_ignore_ascii_case_def)

lemma eq_ignore_ascii_case_sym: "eq_ignore_ascii_case s t \<Longrightarrow> eq_ignore_ascii_case t s"
  by (simp add: eq_ignore_ascii_case_def)

lemma starts_with_iff: "starts_with s p \<longleftrightarrow> (\<exists>t. s = p @ t)"
  unfolding starts_with_def by (metis append_eq_conv_conj append_take_drop_id)

lemma ends_with_iff: "ends_with s p \<longleftrightarrow> (\<exists>t. s = t @ p)"
proof
  assume "ends_with s p"
  then have "s = take (length s - length p) s @ p"
    by (metis append_take_drop_id ends_with_def)
  then show "\<exists>t. s = t @ p" ..
qed (auto simp: ends_with_def)

lemma find_str_Some:
  "find_str s p = Some i \<Longrightarrow> i + length p \<le> length s \<and> (\<exists>t. s = take i s @ p @ t)"
proof (induction s p arbitrary: i rule: find_str.induct)
  case (1 p)
  then show ?case by (auto split: if_splits)
next
  case (2 c s p)
  show ?case
  proof (cases "starts_with (c # s) p")
    case True
    then obtain t where t: "c # s = p @ t" by (auto simp: starts_with_iff)
    then have "length p \<le> length (c # s)" by (metis length_append le_add1)
    moreover have "i = 0" using True 2 by simp
    ultimately show ?thesis using t by simp
  next
    case False
    with 2 obtain j where j: "find_str s p = Some j" "i = Suc j" by auto
    with False 2 show ?thesis by auto
  qed
qed

lemma find_str_None: "find_str s p = None \<longleftrightarrow> (\<nexists>u v. s = u @ p @ v)"
proof (induction s p rule: find_str.induct)
  case (1 p)
  then show ?case by auto
next
  case (2 c s p)
  show ?case
  proof (cases "starts_with (c # s) p")
    case True
    then obtain v where "c # s = [] @ p @ v" by (auto simp: starts_with_iff)
    moreover have "find_str (c # s) p \<noteq> None" using True by simp
    ultimately show ?thesis by blast
  next
    case False
    have "(\<exists>u v. c # s = u @ p @ v) \<longleftrightarrow> (\<exists>u v. s = u @ p @ v)"
      using False unfolding starts_with_iff
      by (metis append_Cons append_Nil list.exhaust list.inject)
    with 2 False show ?thesis by simp
  qed
qed

lemma contains_str_iff: "contains_str s p \<longleftrightarrow> (\<exists>u v. s = u @ p @ v)"
  using find_str_None [of s p] by (auto simp: contains_str_def)

lemma find_str_least:
  "find_str s p = Some i \<Longrightarrow> length u < i \<Longrightarrow> s \<noteq> u @ p @ v"
proof (induction s p arbitrary: i u rule: find_str.induct)
  case (1 p)
  then show ?case by (auto split: if_splits)
next
  case (2 c s p)
  then have nsw: "\<not> starts_with (c # s) p" by auto
  with 2 obtain j where "find_str s p = Some j" "i = Suc j" by auto
  with 2 nsw show ?case by (cases u) (auto simp: starts_with_iff)
qed

section \<open>Lemmas on splitting at whitespace\<close>

definition no_ws :: "string \<Rightarrow> bool" where
  "no_ws s = (\<forall>i < length s. ws_len ws2 ws3 (drop i s) = 0)"

lemma has_whitespace_iff: "has_whitespace s \<longleftrightarrow> \<not> no_ws s"
  by (auto simp: has_whitespace_def no_ws_def list_ex_iff)

lemma no_ws_Cons: "no_ws (c # s) \<longleftrightarrow> ws_len ws2 ws3 (c # s) = 0 \<and> no_ws s"
  by (auto simp: no_ws_def All_less_Suc2 simp del: ws_len.simps)

lemma no_ws_Nil [simp]: "no_ws []"
  by (simp add: no_ws_def)

lemma ws_len_space: "ws_len ws2 ws3 u = 0 \<Longrightarrow> u \<noteq> [] \<Longrightarrow> ws_len ws2 ws3 (u @ CHR '' '' # v) = 0"
  by (cases "(ws2, ws3, u)" rule: ws_len.cases; cases v)
     (auto simp: ws2_def ws3_def byte_val_def split: if_splits)

lemma split_ws_tokens:
  assumes "\<forall>i < length cur. ws_len ws2 ws3 (drop i (rev cur @ s)) = 0" and "t \<in> set (split_ws cur s)"
  shows "t \<noteq> [] \<and> no_ws t"
  using assms
proof (induction cur s rule: split_ws.induct)
  case (1 cur)
  then show ?case by (auto simp: no_ws_def split: if_splits)
next
  case (2 cur c s)
  show ?case
  proof (cases "ws_len ws2 ws3 (c # s) = 0")
    case True
    have "\<forall>i < length (c # cur). ws_len ws2 ws3 (drop i (rev (c # cur) @ s)) = 0"
      using 2(3) True by (auto simp: less_Suc_eq simp del: ws_len.simps)
    with 2 True show ?thesis by (simp del: ws_len.simps)
  next
    case False
    have "no_ws (rev cur)"
      unfolding no_ws_def
    proof (intro allI impI)
      fix i assume i: "i < length (rev cur)"
      then have "prefix (drop i (rev cur)) (drop i (rev cur @ c # s))" by simp
      moreover have "ws_len ws2 ws3 (drop i (rev cur @ c # s)) = 0" using 2(3) i by simp
      ultimately show "ws_len ws2 ws3 (drop i (rev cur)) = 0" by (rule ws_len_prefix)
    qed
    with 2 False show ?thesis by (auto simp del: ws_len.simps split: if_splits)
  qed
qed

lemma split_whitespace_tokens: "t \<in> set (split_whitespace s) \<Longrightarrow> t \<noteq> [] \<and> no_ws t"
  unfolding split_whitespace_def by (rule split_ws_tokens) auto

lemma split_ws_token: "no_ws t \<Longrightarrow> split_ws cur t = (if rev cur @ t = [] then [] else [rev cur @ t])"
  by (induction t arbitrary: cur) (auto simp: no_ws_Cons simp del: ws_len.simps)

lemma split_ws_token_space:
  "no_ws t \<Longrightarrow> rev cur @ t \<noteq> [] \<Longrightarrow>
     split_ws cur (t @ CHR '' '' # v) = (rev cur @ t) # split_ws [] v"
proof (induction t arbitrary: cur)
  case Nil
  have "ws_len ws2 ws3 (CHR '' '' # v) = 1"
    by (cases "(ws2, ws3, CHR '' '' # v)" rule: ws_len.cases) (auto simp: ws1_def byte_val_def)
  with Nil show ?case by (simp del: ws_len.simps)
next
  case (Cons c t)
  have "ws_len ws2 ws3 ((c # t) @ CHR '' '' # v) = 0"
    using Cons(2) by (intro ws_len_space) (auto simp: no_ws_Cons simp del: ws_len.simps)
  moreover have "split_ws (c # cur) (t @ CHR '' '' # v) = (rev (c # cur) @ t) # split_ws [] v"
    using Cons by (intro Cons.IH) (auto simp: no_ws_Cons)
  ultimately show ?case by (simp del: ws_len.simps)
qed

lemma trim_start_token: "no_ws u \<Longrightarrow> trim_start u = u"
  by (cases u) (auto simp: trim_start_def strip_ws_fix no_ws_def dest: spec [of _ 0])

lemma trim_end_token:
  assumes u: "no_ws u" "u \<noteq> []" and w: "w = [] \<or> last w = CHR '' ''"
  shows "trim_end (w @ u) = w @ u"
proof -
  obtain a r where ra: "u = r @ [a]" using u(2) by (cases u rule: rev_cases) auto
  have at: "ws_len ws2 ws3 (drop i u) = 0" if "i < length u" for i
    using u(1) that unfolding no_ws_def by blast
  have 1: "\<not> ws1 a" using at [of "length r"] ra by (simp split: if_splits)
  have 2: "\<not> ws2 b a" if "r = r' @ [b]" for r' b
    using at [of "length r'"] that ra by (auto split: if_splits)
  have 3: "\<not> ws3 c b a" if "r = r' @ [c, b]" for r' b c
    using at [of "length r'"] that ra by (auto split: if_splits)
  have sp: "\<not> ws2 (CHR '' '') x" "\<not> ws3 (CHR '' '') x y" "\<not> ws3 y (CHR '' '') x" for x y
    by (auto simp: ws2_def ws3_def byte_val_def)
  have "ws_len (\<lambda>b a. ws2 a b) (\<lambda>c b a. ws3 a b c) (rev (w @ u)) = 0"
  proof (cases r rule: rev_cases)
    case Nil
    then show ?thesis
      using 1 w sp ra by (cases w rule: rev_cases; cases "butlast w" rule: rev_cases) auto
  next
    case (snoc r' b)
    show ?thesis
    proof (cases r' rule: rev_cases)
      case Nil
      then show ?thesis
        using 1 2 [of "[]" b] snoc w sp ra by (cases w rule: rev_cases) auto
    next
      case (snoc r'' c)
      then show ?thesis
        using 1 2 [of r' b] 3 [of r'' c b] \<open>r = r' @ [b]\<close> ra by auto
    qed
  qed
  then show ?thesis by (simp add: trim_end_def strip_ws_fix)
qed

lemma join_with_snoc:
  "ts \<noteq> [] \<Longrightarrow> join_with d (ts @ [t]) = join_with d ts @ d @ t"
  by (induction d ts rule: join_with.induct) auto

lemma trim_join:
  assumes "\<forall>t \<in> set ts. t \<noteq> [] \<and> no_ws t"
  shows "trim (join_with '' '' ts) = join_with '' '' ts"
proof (cases ts rule: rev_cases)
  case (snoc us u)
  have "\<exists>w. join_with '' '' ts = w @ u \<and> (w = [] \<or> last w = CHR '' '')"
    unfolding snoc by (cases "us = []") (auto simp: join_with_snoc)
  then obtain w where w: "join_with '' '' ts = w @ u" "w = [] \<or> last w = CHR '' ''" by blast
  have "trim_end (join_with '' '' ts) = join_with '' '' ts"
    unfolding w(1) using assms snoc w(2) by (intro trim_end_token) auto
  moreover have "trim_start (join_with '' '' ts) = join_with '' '' ts"
  proof (cases "('' '', ts)" rule: join_with.cases)
    case (2 d t)
    then show ?thesis using assms trim_start_token [of t] by simp
  next
    case (3 d t v vs)
    then have "ws_len ws2 ws3 (t @ CHR '' '' # join_with '' '' (v # vs)) = 0"
      using assms by (intro ws_len_space) (auto simp: no_ws_def dest: spec [of _ 0])
    with 3 show ?thesis by (auto simp: trim_start_def strip_ws_fix)
  qed (use snoc in auto)
  ultimately show ?thesis by (simp add: trim_def)
qed simp

lemma split_whitespace_join:
  "\<forall>t \<in> set ts. t \<noteq> [] \<and> no_ws t \<Longrightarrow> split_whitespace (join_with '' '' ts) = ts"
proof (induction "'' ''" ts rule: join_with.induct)
  case (2 t)
  then show ?case by (simp add: split_whitespace_def split_ws_token)
next
  case (3 t u ts)
  then show ?case by (simp add: split_whitespace_def split_ws_token_space)
qed (simp add: split_whitespace_def)

lemma split_whitespace_rejoin [simp]:
  "split_whitespace (join_with '' '' (split_whitespace s)) = split_whitespace s"
  by (intro split_whitespace_join ballI split_whitespace_tokens)

lemma ws_len_ascii: "byte_val c < 0x80 \<Longrightarrow> \<not> ws1 c \<Longrightarrow> ws_len ws2 ws3 (c # s) = 0"
  by (cases "(ws2, ws3, c # s)" rule: ws_len.cases) (auto simp: ws2_def ws3_def)

lemma no_ws_ascii_Cons: "byte_val c < 0x80 \<Longrightarrow> \<not> ws1 c \<Longrightarrow> no_ws (c # s) = no_ws s"
  by (simp add: no_ws_Cons ws_len_ascii del: ws_len.simps)

lemma no_ws_ascii: "\<forall>c \<in> set s. byte_val c < 0x80 \<and> \<not> ws1 c \<Longrightarrow> no_ws s"
  by (induction s) (simp_all add: no_ws_ascii_Cons)

lemma split_whitespace_token: "no_ws s \<Longrightarrow> split_whitespace s = (if s = [] then [] else [s])"
  by (simp add: split_whitespace_def split_ws_token)

lemma ascii_lower_high [simp]:
  "byte_val (ascii_lower c) = (if is_ascii_uppercase c then byte_val c + 32 else byte_val c)"
  by (auto simp: ascii_lower_def is_ascii_uppercase_def byte_val_def)

lemma ws_lower [simp]:
  "ws1 (ascii_lower a) = ws1 a" "ws2 (ascii_lower a) (ascii_lower b) = ws2 a b"
  "ws3 (ascii_lower a) (ascii_lower b) (ascii_lower c) = ws3 a b c"
  by (auto simp: ws1_def ws2_def ws3_def is_ascii_uppercase_def)

lemma ws_len_lower [simp]: "ws_len ws2 ws3 (map ascii_lower s) = ws_len ws2 ws3 s"
  by (cases "(ws2, ws3, s)" rule: ws_len.cases) auto

lemma split_ws_lower:
  "split_ws (map ascii_lower cur) (map ascii_lower s) = map (map ascii_lower) (split_ws cur s)"
proof (induction cur s rule: split_ws.induct)
  case (1 cur)
  then show ?case by (simp add: rev_map)
next
  case (2 cur c s)
  have len: "ws_len ws2 ws3 (ascii_lower c # map ascii_lower s) = ws_len ws2 ws3 (c # s)"
    using ws_len_lower [of "c # s"] by simp
  have "drop n (ascii_lower c # map ascii_lower s) = map ascii_lower (drop n (c # s))" for n
    by (cases n) (auto simp: drop_map)
  then show ?case
    using 2 len by (simp add: rev_map del: ws_len.simps drop_Cons')
qed

lemma split_whitespace_lower:
  "split_whitespace (to_ascii_lowercase s) = map to_ascii_lowercase (split_whitespace s)"
  using split_ws_lower [of "[]" s] by (simp add: split_whitespace_def to_ascii_lowercase_def [abs_def])

lemma join_with_lower:
  "to_ascii_lowercase (join_with '' '' ts) = join_with '' '' (map to_ascii_lowercase ts)"
  by (induction "'' ''" ts rule: join_with.induct)
     (auto simp: to_ascii_lowercase_def ascii_lower_def is_ascii_uppercase_def byte_val_def)

section \<open>Lemmas on sorting and removing duplicates\<close>

lemma set_dedup_key_subset: "set (dedup_key k xs) \<subseteq> set xs"
  by (induction k xs rule: dedup_key.induct) auto

lemma dedup_key_keys [simp]: "k ` set (dedup_key k xs) = k ` set xs"
  by (induction k xs rule: dedup_key.induct) auto

lemma dedup_key_Nil [simp]: "dedup_key k xs = [] \<longleftrightarrow> xs = []"
  by (induction k xs rule: dedup_key.induct) auto

lemma sort_key_Nil_iff [simp]: "sort_key k xs = [] \<longleftrightarrow> xs = []"
  by (metis length_0_conv length_sort)

lemma sorted_dedup_key:
  "sorted (map k xs) \<Longrightarrow> sorted_wrt (<) (map (k :: 'a \<Rightarrow> 'b::linorder) (dedup_key k xs))"
proof (induction k xs rule: dedup_key.induct)
  case (3 k x y xs)
  show ?case
  proof (cases "k x = k y")
    case True
    with 3 show ?thesis by simp
  next
    case False
    with 3 have le: "k x < k y" and s: "sorted (map k (y # xs))" by auto
    have "\<forall>z \<in> k ` set (y # xs). k x < z"
      using le s by auto
    then have "\<forall>z \<in> k ` set (dedup_key k (y # xs)). k x < z"
      by (simp only: dedup_key_keys)
    with False 3 s show ?thesis by auto
  qed
qed auto

lemma distinct_dedup_sort:
  "distinct (map k (dedup_key k (sort_key (k :: 'a \<Rightarrow> 'b::linorder) xs)))"
  using sorted_dedup_key [of k "sort_key k xs"] strict_sorted_iff by auto

text \<open>\<open>sort\<close> followed by \<open>dedup\<close> lists the elements of a set in increasing order.\<close>

abbreviation dedup :: "'a list \<Rightarrow> 'a list" where
  "dedup xs \<equiv> dedup_key (\<lambda>x. x) xs"

lemma dedup_set [simp]: "set (dedup xs) = set xs"
  using dedup_key_keys [of "\<lambda>x. x" xs] by simp

lemma sorted_dedup: "sorted xs \<Longrightarrow> sorted_wrt (<) (dedup (xs :: 'a::linorder list))"
  using sorted_dedup_key [of "\<lambda>x. x" xs] by simp

lemma dedup_sort: "dedup (sort xs) = sorted_list_of_set (set (xs :: 'a::linorder list))"
proof -
  have "sorted_wrt (<) (dedup (sort xs))" by (simp add: sorted_dedup)
  then show ?thesis
    by (metis dedup_set set_sort sorted_list_of_set.idem_if_sorted_distinct strict_sorted_iff)
qed

lemma distinct_map_eq: "distinct (map f xs) \<Longrightarrow> x \<in> set xs \<Longrightarrow> y \<in> set xs \<Longrightarrow> f x = f y \<Longrightarrow> x = y"
  by (auto simp: distinct_map inj_on_def)

end
