(* ===== verification/Scheduling.thy ===== *)
theory Scheduling
  imports TA_Prelude
begin

text \<open>
  \<^verbatim>\<open>crates/models/src/scheduler.rs\<close> and \<^verbatim>\<open>crates/models/src/crawl_job.rs\<close>: retry settings with
  their exponential delays, crawl failures, and the versioned crawl job with its wire form.
  A \<open>std::time::Duration\<close> is its number of nanoseconds, bounded by \<open>DURATION_LIMIT\<close> (64 bits of
  seconds); an instant is an integer number of nanoseconds.
\<close>

type_synonym duration = nat
type_synonym instant = int

definition from_secs :: "nat \<Rightarrow> duration" where
  "from_secs n = n * 1000000000"

definition from_millis :: "nat \<Rightarrow> duration" where
  "from_millis n = n * 1000000"

definition DURATION_LIMIT :: nat where
  "DURATION_LIMIT = 2 ^ 64 * 1000000000"

text \<open>\<open>Duration::checked_mul\<close> and \<open>u32::checked_shl\<close>.\<close>

definition duration_checked_mul :: "duration \<Rightarrow> u32 \<Rightarrow> duration option" where
  "duration_checked_mul d k = (if d * unat k < DURATION_LIMIT then Some (d * unat k) else None)"

definition u32_checked_shl :: "u32 \<Rightarrow> u32 \<Rightarrow> u32 option" where
  "u32_checked_shl x n = (if unat n < 32 then Some (push_bit (unat n) x) else None)"

section \<open>Scheduler settings\<close>

datatype scheduler_settings_error = CrawlRetryBase | OutboxPublishLimit | OutboxRetryBase

record scheduler_settings =
  max_crawl_retries :: u8
  crawl_retry_base :: duration
  max_outbox_publish_attempts :: u8
  outbox_retry_base :: duration

definition DEFAULT_MAX_CRAWL_RETRIES :: u8 where "DEFAULT_MAX_CRAWL_RETRIES = 3"
definition DEFAULT_CRAWL_RETRY_BASE :: duration where "DEFAULT_CRAWL_RETRY_BASE = from_secs (5 * 60)"
definition DEFAULT_MAX_OUTBOX_PUBLISH_ATTEMPTS :: u8 where "DEFAULT_MAX_OUTBOX_PUBLISH_ATTEMPTS = 5"
definition DEFAULT_OUTBOX_RETRY_BASE :: duration where "DEFAULT_OUTBOX_RETRY_BASE = from_secs 5"

definition SchedulerSettings_default :: scheduler_settings where
  "SchedulerSettings_default =
     \<lparr>max_crawl_retries = DEFAULT_MAX_CRAWL_RETRIES,
      crawl_retry_base = DEFAULT_CRAWL_RETRY_BASE,
      max_outbox_publish_attempts = DEFAULT_MAX_OUTBOX_PUBLISH_ATTEMPTS,
      outbox_retry_base = DEFAULT_OUTBOX_RETRY_BASE\<rparr>"

definition SchedulerSettings_new ::
    "u8 \<Rightarrow> duration \<Rightarrow> u8 \<Rightarrow> duration \<Rightarrow> (scheduler_settings_error, scheduler_settings) result" where
  "SchedulerSettings_new max_retries retry_base max_publish publish_base =
     (if retry_base = 0 then Inl CrawlRetryBase
      else if max_publish = 0 then Inl OutboxPublishLimit
      else if publish_base = 0 then Inl OutboxRetryBase
      else Inr \<lparr>max_crawl_retries = max_retries, crawl_retry_base = retry_base,
                max_outbox_publish_attempts = max_publish, outbox_retry_base = publish_base\<rparr>)"

definition exponential_delay :: "duration \<Rightarrow> u8 \<Rightarrow> u8 \<Rightarrow> duration option" where
  "exponential_delay base number maximum =
     (if number = 0 \<or> number > maximum then None
      else case u32_checked_shl 1 (ucast (number - 1)) of
             None \<Rightarrow> None
           | Some factor \<Rightarrow> duration_checked_mul base factor)"

definition crawl_retry_delay :: "scheduler_settings \<Rightarrow> u8 \<Rightarrow> duration option" where
  "crawl_retry_delay settings retry_number =
     exponential_delay (crawl_retry_base settings) retry_number (max_crawl_retries settings)"

definition outbox_retry_delay :: "scheduler_settings \<Rightarrow> u8 \<Rightarrow> duration option" where
  "outbox_retry_delay settings attempt_number =
     exponential_delay (outbox_retry_base settings) attempt_number
       (max_outbox_publish_attempts settings)"

section \<open>Failures and outcomes\<close>

datatype crawl_failure_error = EmptyCode | EmptySummary | SummaryTooLong

record crawl_failure =
  failure_code :: string
  failure_summary :: string

definition CrawlFailure_new :: "string \<Rightarrow> string \<Rightarrow> (crawl_failure_error, crawl_failure) result" where
  "CrawlFailure_new code summary =
     (let code = trim code; summary = trim summary in
      if code = [] then Inl EmptyCode
      else if summary = [] then Inl EmptySummary
      else if length summary > 1024 then Inl SummaryTooLong
      else Inr \<lparr>failure_code = code, failure_summary = summary\<rparr>)"

datatype crawl_attempt_outcome = OutcomeSucceeded | OutcomeFailed crawl_failure

datatype scheduler_repository_error = SchedNotFound | SchedUnavailable

section \<open>Crawl jobs\<close>

datatype crawl_job_id = CrawlJobId (crawl_job_id_as_uuid: uuid)
datatype domain_id = DomainId (domain_id_as_uuid: uuid)
datatype correlation_id = CorrelationId (correlation_id_as_uuid: uuid)
datatype idempotency_key = IdempotencyKey (idempotency_key_as_str: string)
datatype crawl_job_owner = OwnerScheduler

datatype crawl_job_error = EmptyIdempotencyKey | UnsupportedSchemaVersion u16

definition CRAWL_JOB_SCHEMA_VERSION :: u16 where
  "CRAWL_JOB_SCHEMA_VERSION = 1"

definition IdempotencyKey_parse :: "string \<Rightarrow> (crawl_job_error, idempotency_key) result" where
  "IdempotencyKey_parse input =
     (let input = trim input in
      if input = [] then Inl EmptyIdempotencyKey else Inr (IdempotencyKey input))"

record crawl_job_v1 =
  job_id :: crawl_job_id
  job_domain_id :: domain_id
  job_correlation_id :: correlation_id
  job_idempotency_key :: idempotency_key

definition job_schema_version :: "crawl_job_v1 \<Rightarrow> u16" where
  "job_schema_version job = CRAWL_JOB_SCHEMA_VERSION"

definition job_owner :: "crawl_job_v1 \<Rightarrow> crawl_job_owner" where
  "job_owner job = OwnerScheduler"

record crawl_job_wire =
  wire_schema_version :: u16
  wire_owner :: crawl_job_owner
  wire_job_id :: uuid
  wire_domain_id :: uuid
  wire_correlation_id :: uuid
  wire_idempotency_key :: string

definition CrawlJobV1_serialize :: "crawl_job_v1 \<Rightarrow> crawl_job_wire" where
  "CrawlJobV1_serialize job =
     \<lparr>wire_schema_version = job_schema_version job, wire_owner = job_owner job,
      wire_job_id = crawl_job_id_as_uuid (job_id job),
      wire_domain_id = domain_id_as_uuid (job_domain_id job),
      wire_correlation_id = correlation_id_as_uuid (job_correlation_id job),
      wire_idempotency_key = idempotency_key_as_str (job_idempotency_key job)\<rparr>"

definition CrawlJobV1_deserialize :: "crawl_job_wire \<Rightarrow> (crawl_job_error, crawl_job_v1) result" where
  "CrawlJobV1_deserialize wire =
     (if wire_schema_version wire \<noteq> CRAWL_JOB_SCHEMA_VERSION
      then Inl (UnsupportedSchemaVersion (wire_schema_version wire))
      else rbind (IdempotencyKey_parse (wire_idempotency_key wire)) (\<lambda>key.
           Inr \<lparr>job_id = CrawlJobId (wire_job_id wire), job_domain_id = DomainId (wire_domain_id wire),
                job_correlation_id = CorrelationId (wire_correlation_id wire),
                job_idempotency_key = key\<rparr>))"

section \<open>Lemmas\<close>

lemma unat_u8_pred: "(n :: u8) \<noteq> 0 \<Longrightarrow> unat (n - 1) = unat n - 1"
  by (simp add: unat_minus_one)

lemma u32_checked_shl_one:
  "u32_checked_shl 1 (ucast (n :: u8)) = (if unat n < 32 then Some (2 ^ unat n) else None)"
proof -
  have "unat (ucast n :: u32) = unat n"
    by (simp add: unsigned_ucast_eq take_bit_nat_eq_self_iff order_less_trans [OF unsigned_less])
  then show ?thesis
    by (simp add: u32_checked_shl_def push_bit_of_1)
qed

lemma unat_u32_pow: "n < 32 \<Longrightarrow> unat (2 ^ n :: u32) = 2 ^ n"
proof -
  assume "n < 32"
  then have "(2 :: nat) ^ n < 2 ^ 32" by (rule power_strict_increasing) simp
  moreover have "unat (2 ^ n :: u32) = unat (of_nat (2 ^ n) :: u32)" by simp
  ultimately show ?thesis by (simp only: unat_of_nat) simp
qed

lemma exponential_delay_eq:
  "exponential_delay base n m =
     (if n \<noteq> 0 \<and> n \<le> m \<and> unat n \<le> 32 \<and> base * 2 ^ (unat n - 1) < DURATION_LIMIT
      then Some (base * 2 ^ (unat n - 1)) else None)"
proof (cases "n = 0 \<or> n > m")
  case True
  then show ?thesis by (auto simp: exponential_delay_def)
next
  case False
  then have "unat (n - 1) = unat n - 1" "0 < unat n"
    by (auto simp: unat_u8_pred unat_gt_0)
  with False show ?thesis
    by (auto simp: exponential_delay_def u32_checked_shl_one duration_checked_mul_def unat_u32_pow)
qed

definition settings_ok :: "scheduler_settings \<Rightarrow> bool" where
  "settings_ok s = (0 < crawl_retry_base s \<and> 0 < max_outbox_publish_attempts s \<and> 0 < outbox_retry_base s)"

lemma SchedulerSettings_new_ok: "SchedulerSettings_new a b c d = Inr s \<Longrightarrow> settings_ok s"
  by (auto simp: SchedulerSettings_new_def settings_ok_def word_gt_0 split: if_splits)

definition failure_ok :: "crawl_failure \<Rightarrow> bool" where
  "failure_ok f = (failure_code f \<noteq> [] \<and> failure_summary f \<noteq> []
     \<and> length (failure_summary f) \<le> 1024
     \<and> trim (failure_code f) = failure_code f \<and> trim (failure_summary f) = failure_summary f)"

lemma CrawlFailure_new_ok: "CrawlFailure_new c s = Inr f \<Longrightarrow> failure_ok f"
  by (auto simp: CrawlFailure_new_def failure_ok_def Let_def split: if_splits)

definition key_ok :: "idempotency_key \<Rightarrow> bool" where
  "key_ok k = (idempotency_key_as_str k \<noteq> [] \<and> trim (idempotency_key_as_str k) = idempotency_key_as_str k)"

lemma IdempotencyKey_parse_ok: "IdempotencyKey_parse s = Inr k \<Longrightarrow> key_ok k"
  by (auto simp: IdempotencyKey_parse_def key_ok_def Let_def split: if_splits)

lemma IdempotencyKey_parse_as_str: "key_ok k \<Longrightarrow> IdempotencyKey_parse (idempotency_key_as_str k) = Inr k"
  by (cases k) (simp add: IdempotencyKey_parse_def key_ok_def)

section \<open>Properties\<close>

text \<open>
  The retry delay of attempt \<open>n\<close> is the base delay times two to the \<open>n - 1\<close>; it is
  undefined exactly for attempt 0, for attempts past the configured maximum, past 32, or when the
  delay does not fit a duration.  The same holds for crawl retries and outbox publications.
\<close>

theorem retry_delay_exponential:
  "crawl_retry_delay s n =
     (if n \<noteq> 0 \<and> n \<le> max_crawl_retries s \<and> unat n \<le> 32
         \<and> crawl_retry_base s * 2 ^ (unat n - 1) < DURATION_LIMIT
      then Some (crawl_retry_base s * 2 ^ (unat n - 1)) else None)
   \<and> outbox_retry_delay s n =
     (if n \<noteq> 0 \<and> n \<le> max_outbox_publish_attempts s \<and> unat n \<le> 32
         \<and> outbox_retry_base s * 2 ^ (unat n - 1) < DURATION_LIMIT
      then Some (outbox_retry_base s * 2 ^ (unat n - 1)) else None)"
  by (simp add: crawl_retry_delay_def outbox_retry_delay_def exponential_delay_eq)

text \<open>
  Every crawl job whose idempotency key came from the key parser survives the wire: reading
  back its serialised form gives the same job, and the serialised form always carries schema
  version 1 and the scheduler as owner.
\<close>

theorem crawl_job_roundtrip:
  assumes "IdempotencyKey_parse raw = Inr (job_idempotency_key job)"
  shows "CrawlJobV1_deserialize (CrawlJobV1_serialize job) = Inr job
     \<and> wire_schema_version (CrawlJobV1_serialize job) = 1
     \<and> wire_owner (CrawlJobV1_serialize job) = OwnerScheduler"
  using IdempotencyKey_parse_as_str [OF IdempotencyKey_parse_ok [OF assms]]
  by (simp add: CrawlJobV1_deserialize_def CrawlJobV1_serialize_def job_schema_version_def
      CRAWL_JOB_SCHEMA_VERSION_def job_owner_def)

definition sample_job :: crawl_job_v1 where
  "sample_job = \<lparr>job_id = CrawlJobId 1, job_domain_id = DomainId 2,
     job_correlation_id = CorrelationId 3, job_idempotency_key = IdempotencyKey ''crawl:1''\<rparr>"

theorem crawl_job_roundtrip_witness:
  "CrawlJobV1_deserialize (CrawlJobV1_serialize sample_job) = Inr sample_job
   \<and> wire_schema_version (CrawlJobV1_serialize sample_job) = 1
   \<and> wire_owner (CrawlJobV1_serialize sample_job) = OwnerScheduler"
proof (rule crawl_job_roundtrip)
  show "IdempotencyKey_parse '' crawl:1 '' = Inr (job_idempotency_key sample_job)"
    by code_simp
qed

end
