(* ===== verification/Detection_Model.thy ===== *)
theory Detection_Model
  imports TA_Prelude
begin

text \<open>
  \<^verbatim>\<open>crates/models/src/detection.rs\<close>: slugs, rule versions, confidences, evidence items and
  detections.  Newtypes are one-constructor datatypes, so that only the parsing functions say
  which values are accepted; evidence has the derived lexicographic order.
\<close>

section \<open>Data\<close>

datatype technology_slug = TechnologySlug (technology_slug_as_str: string)

datatype technology_category_slug =
  TechnologyCategorySlug (technology_category_slug_as_str: string)

datatype rule_slug = RuleSlug (rule_slug_as_str: string)

datatype rule_version = RuleVersion (rule_version_get: u16)

datatype detection_confidence = DetectionConfidence (confidence_get: u8)

datatype detection_method = DeterministicRule

datatype detection_evidence_source = EvHtml | EvHeader | EvScript | EvDns | EvTls

datatype detection_error =
    InvalidTechnologySlug
  | InvalidTechnologyCategorySlug
  | InvalidRuleSlug
  | InvalidRuleVersion
  | InvalidConfidence
  | InvalidEvidenceKey
  | InvalidEvidenceValue
  | MissingEvidence

record detection_evidence =
  ev_source :: detection_evidence_source
  ev_key :: string
  ev_value :: string

record detection =
  det_technology_slug :: technology_slug
  det_technology_category_slug :: technology_category_slug
  det_rule_slug :: rule_slug
  det_rule_version :: rule_version
  det_confidence :: detection_confidence
  det_method :: detection_method
  det_evidence :: "detection_evidence list"

definition MAX_SLUG_LENGTH :: nat where
  "MAX_SLUG_LENGTH = 64"

definition MAX_EVIDENCE_KEY_LENGTH :: nat where
  "MAX_EVIDENCE_KEY_LENGTH = 128"

definition MAX_EVIDENCE_VALUE_LENGTH :: nat where
  "MAX_EVIDENCE_VALUE_LENGTH = 2048"

section \<open>Orders\<close>

text \<open>The derived \<open>Ord\<close> of the source enumeration is the order of its constructors.\<close>

fun evidence_source_index :: "detection_evidence_source \<Rightarrow> nat" where
  "evidence_source_index EvHtml = 0"
| "evidence_source_index EvHeader = 1"
| "evidence_source_index EvScript = 2"
| "evidence_source_index EvDns = 3"
| "evidence_source_index EvTls = 4"

lemma evidence_source_index_inj [simp]:
  "evidence_source_index a = evidence_source_index b \<longleftrightarrow> a = b"
  by (cases a; cases b) auto

instantiation detection_evidence_source :: linorder
begin

definition less_eq_detection_evidence_source_def:
  "a \<le> b \<longleftrightarrow> evidence_source_index a \<le> evidence_source_index b"

definition less_detection_evidence_source_def:
  "a < b \<longleftrightarrow> evidence_source_index a < evidence_source_index b"

instance
  by standard
    (auto simp: less_eq_detection_evidence_source_def less_detection_evidence_source_def
      dest: antisym)

end

text \<open>The derived \<open>Ord\<close> of the evidence struct compares its fields in order.\<close>

instantiation detection_evidence_ext :: (linorder) linorder
begin

definition less_eq_detection_evidence_ext_def:
  "a \<le> b \<longleftrightarrow> (ev_source a, ev_key a, ev_value a, detection_evidence.more a)
     \<le> (ev_source b, ev_key b, ev_value b, detection_evidence.more b)"

definition less_detection_evidence_ext_def:
  "a < b \<longleftrightarrow> (ev_source a, ev_key a, ev_value a, detection_evidence.more a)
     < (ev_source b, ev_key b, ev_value b, detection_evidence.more b)"

instance
proof
  fix a b c :: "'a detection_evidence_scheme"
  show "a < b \<longleftrightarrow> a \<le> b \<and> \<not> b \<le> a"
    unfolding less_eq_detection_evidence_ext_def less_detection_evidence_ext_def
    by (rule less_le_not_le)
  show "a \<le> a"
    unfolding less_eq_detection_evidence_ext_def by (rule order_refl)
  show "a \<le> b \<Longrightarrow> b \<le> c \<Longrightarrow> a \<le> c"
    unfolding less_eq_detection_evidence_ext_def by (rule order_trans)
  show "a \<le> b \<Longrightarrow> b \<le> a \<Longrightarrow> a = b"
    unfolding less_eq_detection_evidence_ext_def
    by (drule (1) antisym) (simp add: detection_evidence.equality)
  show "a \<le> b \<or> b \<le> a"
    unfolding less_eq_detection_evidence_ext_def by (rule linear)
qed

end

section \<open>Operations\<close>

definition valid_slug :: "string \<Rightarrow> string option" where
  "valid_slug value =
     (let value = trim value in
      if value = []
         \<or> length value > MAX_SLUG_LENGTH
         \<or> starts_with value ''-''
         \<or> ends_with value ''-''
         \<or> \<not> list_all (\<lambda>byte. is_ascii_lowercase byte \<or> is_ascii_digit byte \<or> byte = CHR ''-'') value
      then None
      else Some value)"

definition bounded_required :: "string \<Rightarrow> nat \<Rightarrow> string option" where
  "bounded_required value limit =
     (let value = trim value in
      if value \<noteq> [] \<and> chars_count value \<le> limit then Some value else None)"

definition TechnologySlug_parse :: "string \<Rightarrow> (detection_error, technology_slug) result" where
  "TechnologySlug_parse value =
     ok_or InvalidTechnologySlug (map_option TechnologySlug (valid_slug value))"

definition TechnologyCategorySlug_parse ::
    "string \<Rightarrow> (detection_error, technology_category_slug) result" where
  "TechnologyCategorySlug_parse value =
     ok_or InvalidTechnologyCategorySlug (map_option TechnologyCategorySlug (valid_slug value))"

definition RuleSlug_parse :: "string \<Rightarrow> (detection_error, rule_slug) result" where
  "RuleSlug_parse value = ok_or InvalidRuleSlug (map_option RuleSlug (valid_slug value))"

definition RuleVersion_new :: "u16 \<Rightarrow> (detection_error, rule_version) result" where
  "RuleVersion_new value = (if value = 0 then Inl InvalidRuleVersion else Inr (RuleVersion value))"

definition DetectionConfidence_new :: "u8 \<Rightarrow> (detection_error, detection_confidence) result" where
  "DetectionConfidence_new value =
     (if value > 100 then Inl InvalidConfidence else Inr (DetectionConfidence value))"

fun detection_method_as_str :: "detection_method \<Rightarrow> string" where
  "detection_method_as_str DeterministicRule = ''deterministic_rule''"

fun detection_evidence_source_as_str :: "detection_evidence_source \<Rightarrow> string" where
  "detection_evidence_source_as_str EvHtml = ''html''"
| "detection_evidence_source_as_str EvHeader = ''header''"
| "detection_evidence_source_as_str EvScript = ''script''"
| "detection_evidence_source_as_str EvDns = ''dns''"
| "detection_evidence_source_as_str EvTls = ''tls''"

definition DetectionEvidence_new ::
    "detection_evidence_source \<Rightarrow> string \<Rightarrow> string \<Rightarrow> (detection_error, detection_evidence) result" where
  "DetectionEvidence_new source key value =
     rbind (ok_or InvalidEvidenceKey (bounded_required key MAX_EVIDENCE_KEY_LENGTH)) (\<lambda>key.
     rbind (ok_or InvalidEvidenceValue (bounded_required value MAX_EVIDENCE_VALUE_LENGTH)) (\<lambda>value.
     Inr \<lparr>ev_source = source, ev_key = key, ev_value = value\<rparr>))"

definition Detection_new ::
    "technology_slug \<Rightarrow> technology_category_slug \<Rightarrow> rule_slug \<Rightarrow> rule_version \<Rightarrow>
     detection_confidence \<Rightarrow> detection_method \<Rightarrow> detection_evidence list \<Rightarrow>
     (detection_error, detection) result" where
  "Detection_new technology category rule version confidence method evidence =
     (let evidence = dedup (sort evidence) in
      if evidence = [] then Inl MissingEvidence
      else Inr \<lparr>det_technology_slug = technology, det_technology_category_slug = category,
                det_rule_slug = rule, det_rule_version = version,
                det_confidence = confidence, det_method = method, det_evidence = evidence\<rparr>)"

section \<open>Lemmas\<close>

definition slug_ok :: "string \<Rightarrow> bool" where
  "slug_ok s = (0 < length s \<and> length s \<le> MAX_SLUG_LENGTH
     \<and> hd s \<noteq> CHR ''-'' \<and> last s \<noteq> CHR ''-''
     \<and> (\<forall>c \<in> set s. is_ascii_lowercase c \<or> is_ascii_digit c \<or> c = CHR ''-''))"

lemma starts_with_char [simp]: "starts_with s [c] \<longleftrightarrow> s \<noteq> [] \<and> hd s = c"
  by (cases s) (auto simp: starts_with_def)

lemma ends_with_char [simp]: "ends_with s [c] \<longleftrightarrow> s \<noteq> [] \<and> last s = c"
  by (cases s rule: rev_cases) (auto simp: ends_with_def)

lemma valid_slug_iff: "valid_slug s = Some t \<longleftrightarrow> t = trim s \<and> slug_ok t"
  by (auto simp: valid_slug_def slug_ok_def Let_def list_all_iff)

lemma slug_char_ascii:
  assumes "is_ascii_lowercase c \<or> is_ascii_digit c \<or> c = CHR ''-''"
  shows "byte_val c < 0x80 \<and> \<not> ws1 c"
  using assms
  by (auto simp: is_ascii_lowercase_def is_ascii_digit_def ws1_def byte_val_def)

lemma slug_ok_trim: "slug_ok s \<Longrightarrow> trim s = s"
proof (rule trim_ascii)
  assume ok: "slug_ok s"
  then have "hd s \<in> set s" "last s \<in> set s" by (auto simp: slug_ok_def)
  moreover have "\<forall>c \<in> set s. byte_val c < 0x80 \<and> \<not> ws1 c"
    by (intro ballI slug_char_ascii) (use ok in \<open>simp add: slug_ok_def\<close>)
  ultimately have "byte_val (hd s) < 0x80 \<and> \<not> ws1 (hd s)" "byte_val (last s) < 0x80 \<and> \<not> ws1 (last s)"
    by blast+
  then show "byte_val (hd s) < 0x80" "\<not> ws1 (hd s)" "byte_val (last s) < 0x80" "\<not> ws1 (last s)"
    by auto
qed (auto simp: slug_ok_def)

lemma valid_slug_ok [simp]: "slug_ok s \<Longrightarrow> valid_slug s = Some s"
  by (simp add: valid_slug_iff slug_ok_trim)

lemma bounded_required_iff:
  "bounded_required s n = Some t \<longleftrightarrow> t = trim s \<and> t \<noteq> [] \<and> chars_count t \<le> n"
  by (auto simp: bounded_required_def Let_def)

text \<open>The evidence items a constructor accepts.\<close>

definition evidence_ok :: "detection_evidence \<Rightarrow> bool" where
  "evidence_ok e = (ev_key e \<noteq> [] \<and> trim (ev_key e) = ev_key e
     \<and> chars_count (ev_key e) \<le> MAX_EVIDENCE_KEY_LENGTH
     \<and> ev_value e \<noteq> [] \<and> trim (ev_value e) = ev_value e
     \<and> chars_count (ev_value e) \<le> MAX_EVIDENCE_VALUE_LENGTH)"

lemma DetectionEvidence_new_ok: "DetectionEvidence_new s k v = Inr e \<Longrightarrow> evidence_ok e"
  by (auto simp: DetectionEvidence_new_def evidence_ok_def bounded_required_iff)

lemma Detection_new_Inr:
  "Detection_new t c r v f m ev = Inr d \<longleftrightarrow>
     ev \<noteq> [] \<and> d = \<lparr>det_technology_slug = t, det_technology_category_slug = c, det_rule_slug = r,
        det_rule_version = v, det_confidence = f, det_method = m,
        det_evidence = sorted_list_of_set (set ev)\<rparr>"
  by (auto simp: Detection_new_def dedup_sort [symmetric] Let_def)

lemma Detection_new_Inl: "Detection_new t c r v f m ev = Inl e \<longleftrightarrow> ev = [] \<and> e = MissingEvidence"
  by (auto simp: Detection_new_def Let_def)

section \<open>Properties\<close>

text \<open>
  Slug parsing accepts exactly the strings whose trimmed form is 1 to 64 lowercase letters,
  digits and hyphens that neither start nor end with a hyphen, stores that trimmed form, and
  parsing a stored slug again gives the same slug, for each of the three slug types.
\<close>

theorem slug_parse_sound_and_stable:
  "(TechnologySlug_parse s = Inr t \<longleftrightarrow> t = TechnologySlug (trim s) \<and> slug_ok (trim s))
   \<and> (TechnologyCategorySlug_parse s = Inr c \<longleftrightarrow> c = TechnologyCategorySlug (trim s) \<and> slug_ok (trim s))
   \<and> (RuleSlug_parse s = Inr r \<longleftrightarrow> r = RuleSlug (trim s) \<and> slug_ok (trim s))
   \<and> (slug_ok (trim s) = (TechnologySlug_parse (trim s) = Inr (TechnologySlug (trim s))))"
proof -
  have "(TechnologySlug_parse s = Inr t) = (t = TechnologySlug (trim s) \<and> slug_ok (trim s))" for s t
    by (auto simp: TechnologySlug_parse_def valid_slug_iff)
  moreover have
    "(TechnologyCategorySlug_parse s = Inr c) = (c = TechnologyCategorySlug (trim s) \<and> slug_ok (trim s))"
    by (auto simp: TechnologyCategorySlug_parse_def valid_slug_iff)
  moreover have "(RuleSlug_parse s = Inr r) = (r = RuleSlug (trim s) \<and> slug_ok (trim s))"
    by (auto simp: RuleSlug_parse_def valid_slug_iff)
  ultimately show ?thesis by simp
qed

text \<open>
  A detection is built exactly when there is evidence; it then lists every distinct evidence
  item once, in strictly increasing order, and keeps the other arguments as they are.
\<close>

theorem detection_evidence_canonical:
  "(case Detection_new t c r v f m ev of
      Inl e \<Rightarrow> ev = [] \<and> e = MissingEvidence
    | Inr d \<Rightarrow> ev \<noteq> [] \<and> set (det_evidence d) = set ev
        \<and> sorted_wrt (<) (det_evidence d)
        \<and> det_technology_slug d = t \<and> det_confidence d = f \<and> det_rule_version d = v)"
  by (auto simp: Detection_new_Inl Detection_new_Inr split: sum.splits)

end
