(* ===== verification/Projection.thy ===== *)
theory Projection
  imports Detection_Model "HOL-Library.Option_ord"
begin

text \<open>
  \<^verbatim>\<open>crates/models/src/projection.rs\<close>: the pure transition from a domain's current technologies
  and the observations of one snapshot to the activations, deactivations and material changes.
  The abstract specification is a set transition on technology slugs (\<open>next_slugs\<close>); the lemmas
  show that the lists of the transition, and separately the change log, implement it.
\<close>

section \<open>Data\<close>

datatype rule_observation_status = Detected | ConfirmedAbsent | Unknown

fun rule_observation_status_as_str :: "rule_observation_status \<Rightarrow> string" where
  "rule_observation_status_as_str Detected = ''detected''"
| "rule_observation_status_as_str ConfirmedAbsent = ''confirmed_absent''"
| "rule_observation_status_as_str Unknown = ''unknown''"

record rule_observation =
  obs_technology_slug :: technology_slug
  obs_technology_category_slug :: technology_category_slug
  obs_rule_slug :: rule_slug
  obs_rule_version :: rule_version
  obs_status :: rule_observation_status

record current_technology =
  ct_technology_slug :: technology_slug
  ct_technology_category_slug :: technology_category_slug

datatype technology_change_kind = Added | Removed | Migrated

fun technology_change_kind_as_str :: "technology_change_kind \<Rightarrow> string" where
  "technology_change_kind_as_str Added = ''added''"
| "technology_change_kind_as_str Removed = ''removed''"
| "technology_change_kind_as_str Migrated = ''migrated''"

record technology_change =
  change_kind :: technology_change_kind
  change_from :: "current_technology option"
  change_to :: "current_technology option"

record projection_transition =
  activate :: "current_technology list"
  deactivate :: "current_technology list"
  changes :: "technology_change list"

section \<open>The transition\<close>

definition slug_of :: "current_technology \<Rightarrow> string" where
  "slug_of state = technology_slug_as_str (ct_technology_slug state)"

text \<open>The lists the observation loop fills.\<close>

record observation_lists =
  additions :: "current_technology list"
  removals :: "current_technology list"
  activated :: "current_technology list"
  deactivated :: "current_technology list"

definition previous_by_slug :: "current_technology list \<Rightarrow> string \<Rightarrow> current_technology option" where
  "previous_by_slug previous = map_of (rev (map (\<lambda>state. (slug_of state, state)) previous))"

definition observed_state :: "rule_observation \<Rightarrow> current_technology" where
  "observed_state observation =
     \<lparr>ct_technology_slug = obs_technology_slug observation,
      ct_technology_category_slug = obs_technology_category_slug observation\<rparr>"

definition observe ::
    "current_technology list \<Rightarrow> rule_observation \<Rightarrow> observation_lists \<Rightarrow> observation_lists" where
  "observe previous observation acc =
     (let state = observed_state observation;
          was_current = (previous_by_slug previous (slug_of state) \<noteq> None)
      in case obs_status observation of
           Detected \<Rightarrow>
             acc\<lparr>activated := activated acc @ [state],
                 additions := additions acc @ (if \<not> was_current then [state] else [])\<rparr>
         | ConfirmedAbsent \<Rightarrow>
             (if was_current
              then acc\<lparr>removals := removals acc @ [state], deactivated := deactivated acc @ [state]\<rparr>
              else acc)
         | Unknown \<Rightarrow> acc)"

definition observe_all :: "current_technology list \<Rightarrow> rule_observation list \<Rightarrow> observation_lists" where
  "observe_all previous observations =
     fold (observe previous) observations
       \<lparr>additions = [], removals = [], activated = [], deactivated = []\<rparr>"

text \<open>
  The migration loop: an addition is paired with a removal when each is the only one of its kind
  in their category.  The accumulator is (migrated additions, migrated removals, changes).
\<close>

definition same_category :: "current_technology \<Rightarrow> current_technology \<Rightarrow> bool" where
  "same_category a b = (ct_technology_category_slug a = ct_technology_category_slug b)"

definition pair_migration ::
    "current_technology list \<Rightarrow> current_technology list \<Rightarrow> current_technology \<Rightarrow>
     string set \<times> string set \<times> technology_change list \<Rightarrow>
     string set \<times> string set \<times> technology_change list" where
  "pair_migration adds rems addition acc =
     (case acc of (migrated_additions, migrated_removals, chs) \<Rightarrow>
        (case filter (\<lambda>removal. same_category removal addition) rems of
           [removal] \<Rightarrow>
             (if length (filter (\<lambda>candidate. same_category candidate addition) adds) = 1
              then (insert (slug_of addition) migrated_additions,
                    insert (slug_of removal) migrated_removals,
                    chs @ [\<lparr>change_kind = Migrated, change_from = Some removal,
                            change_to = Some addition\<rparr>])
              else acc)
         | _ \<Rightarrow> acc))"

definition derive_changes ::
    "current_technology list \<Rightarrow> current_technology list \<Rightarrow> technology_change list" where
  "derive_changes adds rems =
     (case fold (pair_migration adds rems) adds ({}, {}, []) of
        (migrated_additions, migrated_removals, chs) \<Rightarrow>
          chs
          @ map (\<lambda>addition. \<lparr>change_kind = Added, change_from = None, change_to = Some addition\<rparr>)
              (filter (\<lambda>addition. slug_of addition \<notin> migrated_additions) adds)
          @ map (\<lambda>removal. \<lparr>change_kind = Removed, change_from = Some removal, change_to = None\<rparr>)
              (filter (\<lambda>removal. slug_of removal \<notin> migrated_removals) rems))"

definition change_sort_key :: "technology_change \<Rightarrow> string \<times> string option" where
  "change_sort_key change =
     (technology_change_kind_as_str (change_kind change),
      map_option slug_of
        (case change_to change of Some state \<Rightarrow> Some state | None \<Rightarrow> change_from change))"

definition derive_projection ::
    "current_technology list \<Rightarrow> rule_observation list \<Rightarrow> projection_transition" where
  "derive_projection previous observations =
     (let acc = observe_all previous observations
      in \<lparr>activate = dedup_key slug_of (sort_key slug_of (activated acc)),
          deactivate = dedup_key slug_of (sort_key slug_of (deactivated acc)),
          changes = sort_key change_sort_key (derive_changes (additions acc) (removals acc))\<rparr>)"

section \<open>Abstract specification\<close>

text \<open>The slugs an evaluation reports as detected and as confirmed absent.\<close>

definition slugs_with :: "rule_observation_status \<Rightarrow> rule_observation list \<Rightarrow> string set" where
  "slugs_with st observations =
     set (map (\<lambda>ob. slug_of (observed_state ob)) (filter (\<lambda>ob. obs_status ob = st) observations))"

definition next_slugs :: "string set \<Rightarrow> rule_observation list \<Rightarrow> string set" where
  "next_slugs current observations =
     (current - slugs_with ConfirmedAbsent observations) \<union> slugs_with Detected observations"

text \<open>Executing a transition on the set of current slugs: deactivations first, then activations.\<close>

definition apply_transition :: "string set \<Rightarrow> projection_transition \<Rightarrow> string set" where
  "apply_transition current tr =
     (current - slug_of ` set (deactivate tr)) \<union> slug_of ` set (activate tr)"

text \<open>Replaying a change log on the set of current slugs.\<close>

definition change_from_slugs :: "technology_change list \<Rightarrow> string set" where
  "change_from_slugs chs = {slug_of st |ch st. ch \<in> set chs \<and> change_from ch = Some st}"

definition change_to_slugs :: "technology_change list \<Rightarrow> string set" where
  "change_to_slugs chs = {slug_of st |ch st. ch \<in> set chs \<and> change_to ch = Some st}"

definition replay_changes :: "string set \<Rightarrow> technology_change list \<Rightarrow> string set" where
  "replay_changes current chs = (current - change_from_slugs chs) \<union> change_to_slugs chs"

section \<open>Lemmas on the observation loop\<close>

lemma was_current_iff:
  "previous_by_slug previous s \<noteq> None \<longleftrightarrow> s \<in> slug_of ` set previous"
  by (auto simp: previous_by_slug_def map_of_eq_None_iff image_image)

lemma observe_all_gen:
  assumes "acc' = fold (observe previous) observations acc"
  shows "additions acc' = additions acc @ map observed_state
           (filter (\<lambda>ob. obs_status ob = Detected
              \<and> slug_of (observed_state ob) \<notin> slug_of ` set previous) observations)
       \<and> removals acc' = removals acc @ map observed_state
           (filter (\<lambda>ob. obs_status ob = ConfirmedAbsent
              \<and> slug_of (observed_state ob) \<in> slug_of ` set previous) observations)
       \<and> activated acc' = activated acc @ map observed_state
           (filter (\<lambda>ob. obs_status ob = Detected) observations)
       \<and> deactivated acc' = deactivated acc @ map observed_state
           (filter (\<lambda>ob. obs_status ob = ConfirmedAbsent
              \<and> slug_of (observed_state ob) \<in> slug_of ` set previous) observations)"
  using assms
proof (induction observations arbitrary: acc)
  case Nil
  then show ?case by simp
next
  case (Cons ob obs)
  let ?a = "observe previous ob acc"
  have "acc' = fold (observe previous) obs ?a" using Cons.prems by simp
  note IH = Cons.IH [OF this]
  show ?case
    using IH was_current_iff [of previous "slug_of (observed_state ob)"]
    by (auto simp: observe_def Let_def split: rule_observation_status.splits)
qed

lemma observe_all_lists:
  "additions (observe_all previous observations) = map observed_state
     (filter (\<lambda>ob. obs_status ob = Detected
        \<and> slug_of (observed_state ob) \<notin> slug_of ` set previous) observations)"
  "removals (observe_all previous observations) = map observed_state
     (filter (\<lambda>ob. obs_status ob = ConfirmedAbsent
        \<and> slug_of (observed_state ob) \<in> slug_of ` set previous) observations)"
  "activated (observe_all previous observations) = map observed_state
     (filter (\<lambda>ob. obs_status ob = Detected) observations)"
  "deactivated (observe_all previous observations) = map observed_state
     (filter (\<lambda>ob. obs_status ob = ConfirmedAbsent
        \<and> slug_of (observed_state ob) \<in> slug_of ` set previous) observations)"
  using observe_all_gen [OF observe_all_def [of previous observations]] by simp_all

lemma observe_all_slugs:
  "slug_of ` set (additions (observe_all previous observations)) =
     slugs_with Detected observations - slug_of ` set previous"
  "slug_of ` set (removals (observe_all previous observations)) =
     slugs_with ConfirmedAbsent observations \<inter> slug_of ` set previous"
  "slug_of ` set (activated (observe_all previous observations)) = slugs_with Detected observations"
  "slug_of ` set (deactivated (observe_all previous observations)) =
     slugs_with ConfirmedAbsent observations \<inter> slug_of ` set previous"
  by (auto simp: observe_all_lists slugs_with_def image_image)

section \<open>Lemmas on the change log\<close>

text \<open>The pairs the migration loop emits, as a list comprehension over the additions.\<close>

definition migration_of ::
    "current_technology list \<Rightarrow> current_technology list \<Rightarrow> current_technology \<Rightarrow>
     current_technology option" where
  "migration_of adds rems addition =
     (case filter (\<lambda>removal. same_category removal addition) rems of
        [removal] \<Rightarrow>
          (if length (filter (\<lambda>candidate. same_category candidate addition) adds) = 1
           then Some removal else None)
      | _ \<Rightarrow> None)"

definition migrations ::
    "current_technology list \<Rightarrow> current_technology list \<Rightarrow> current_technology list \<Rightarrow>
     (current_technology \<times> current_technology) list" where
  "migrations adds rems xs =
     concat (map (\<lambda>a. case migration_of adds rems a of None \<Rightarrow> [] | Some r \<Rightarrow> [(r, a)]) xs)"

definition migrated_change :: "current_technology \<times> current_technology \<Rightarrow> technology_change" where
  "migrated_change p =
     \<lparr>change_kind = Migrated, change_from = Some (fst p), change_to = Some (snd p)\<rparr>"

lemma pair_migration_eq:
  "pair_migration adds rems a (ma, mr, chs) =
     (case migration_of adds rems a of
        None \<Rightarrow> (ma, mr, chs)
      | Some r \<Rightarrow> (insert (slug_of a) ma, insert (slug_of r) mr, chs @ [migrated_change (r, a)]))"
  by (simp add: pair_migration_def migration_of_def migrated_change_def split: list.splits)

lemma fold_pair_migration:
  "fold (pair_migration adds rems) xs (ma, mr, chs) =
     (ma \<union> slug_of ` snd ` set (migrations adds rems xs),
      mr \<union> slug_of ` fst ` set (migrations adds rems xs),
      chs @ map migrated_change (migrations adds rems xs))"
  by (induction xs arbitrary: ma mr chs)
     (auto simp: migrations_def pair_migration_eq split: option.splits)

lemma derive_changes_eq:
  "derive_changes adds rems =
     map migrated_change (migrations adds rems adds)
     @ map (\<lambda>a. \<lparr>change_kind = Added, change_from = None, change_to = Some a\<rparr>)
         (filter (\<lambda>a. slug_of a \<notin> slug_of ` snd ` set (migrations adds rems adds)) adds)
     @ map (\<lambda>r. \<lparr>change_kind = Removed, change_from = Some r, change_to = None\<rparr>)
         (filter (\<lambda>r. slug_of r \<notin> slug_of ` fst ` set (migrations adds rems adds)) rems)"
  by (simp add: derive_changes_def fold_pair_migration)

lemma migration_of_Some:
  "migration_of adds rems a = Some r \<longleftrightarrow>
     filter (\<lambda>x. same_category x a) rems = [r]
     \<and> length (filter (\<lambda>x. same_category x a) adds) = 1"
  by (auto simp: migration_of_def split: list.splits if_splits)

lemma migrations_set:
  "(r, a) \<in> set (migrations adds rems xs) \<longleftrightarrow> a \<in> set xs \<and> migration_of adds rems a = Some r"
  by (auto simp: migrations_def split: option.splits)

lemma migration_of_removal:
  assumes "migration_of adds rems a = Some r"
  shows "r \<in> set rems \<and> same_category r a"
proof -
  have "r \<in> set (filter (\<lambda>x. same_category x a) rems)"
    using assms by (simp add: migration_of_Some)
  then show ?thesis by simp
qed

lemma change_slugs_append [simp]:
  "change_to_slugs (xs @ ys) = change_to_slugs xs \<union> change_to_slugs ys"
  "change_from_slugs (xs @ ys) = change_from_slugs xs \<union> change_from_slugs ys"
  by (auto simp: change_to_slugs_def change_from_slugs_def)

lemma change_slugs_migrated [simp]:
  "change_to_slugs (map migrated_change ms) = slug_of ` snd ` set ms"
  "change_from_slugs (map migrated_change ms) = slug_of ` fst ` set ms"
  by (force simp: change_to_slugs_def change_from_slugs_def migrated_change_def)+

lemma change_slugs_added [simp]:
  "change_to_slugs (map (\<lambda>a. \<lparr>change_kind = k, change_from = None, change_to = Some a\<rparr>) xs) =
     slug_of ` set xs"
  "change_from_slugs (map (\<lambda>a. \<lparr>change_kind = k, change_from = None, change_to = Some a\<rparr>) xs) = {}"
  by (force simp: change_to_slugs_def change_from_slugs_def)+

lemma change_slugs_removed [simp]:
  "change_to_slugs (map (\<lambda>r. \<lparr>change_kind = k, change_from = Some r, change_to = None\<rparr>) xs) = {}"
  "change_from_slugs (map (\<lambda>r. \<lparr>change_kind = k, change_from = Some r, change_to = None\<rparr>) xs) =
     slug_of ` set xs"
  by (force simp: change_to_slugs_def change_from_slugs_def)+

lemma migrations_subset:
  "snd ` set (migrations adds rems adds) \<subseteq> set adds"
  "fst ` set (migrations adds rems adds) \<subseteq> set rems"
  by (auto simp: migrations_set dest: migration_of_removal)

lemma derive_changes_slugs:
  "change_to_slugs (derive_changes adds rems) = slug_of ` set adds"
  "change_from_slugs (derive_changes adds rems) = slug_of ` set rems"
  using migrations_subset [of adds rems] unfolding derive_changes_eq
  by (simp_all only: change_slugs_append change_slugs_migrated change_slugs_added
      change_slugs_removed set_filter) blast+

lemma derive_changes_migrated:
  "ch \<in> set (derive_changes adds rems) \<and> change_kind ch = Migrated \<longleftrightarrow>
     ch \<in> migrated_change ` set (migrations adds rems adds)"
  unfolding derive_changes_eq by (auto simp: migrated_change_def)

lemma change_slugs_sort [simp]:
  "change_to_slugs (sort_key k chs) = change_to_slugs chs"
  "change_from_slugs (sort_key k chs) = change_from_slugs chs"
  by (simp_all add: change_to_slugs_def change_from_slugs_def)

section \<open>Properties\<close>

text \<open>
  C3: executing the transition (deactivate, then activate) on a domain's current technologies
  leaves exactly the technologies detected in the snapshot together with the earlier ones that the
  snapshot did not confirm absent; in particular an unknown observation never removes anything.
\<close>

theorem derive_projection_refines_next_slugs:
  "apply_transition (slug_of ` set previous) (derive_projection previous observations) =
     next_slugs (slug_of ` set previous) observations"
  by (auto simp: apply_transition_def derive_projection_def next_slugs_def Let_def observe_all_slugs)

text \<open>
  C4: when no technology is reported both detected and confirmed absent (the schema has one rule
  per technology), replaying the recorded changes on the previous technologies gives the same
  next state as executing the transition: the change history is complete and has no false entry.
\<close>

theorem change_log_replays_projection:
  assumes "slugs_with Detected observations \<inter> slugs_with ConfirmedAbsent observations = {}"
  shows "replay_changes (slug_of ` set previous) (changes (derive_projection previous observations)) =
     apply_transition (slug_of ` set previous) (derive_projection previous observations)"
  using assms
  by (auto simp: replay_changes_def apply_transition_def derive_projection_def Let_def
      derive_changes_slugs observe_all_slugs)

text \<open>A concrete evaluation: a framework migration, an untouched host and a repeated detection.\<close>

definition sample_technology :: "string \<Rightarrow> string \<Rightarrow> current_technology" where
  "sample_technology slug category =
     \<lparr>ct_technology_slug = TechnologySlug slug,
      ct_technology_category_slug = TechnologyCategorySlug category\<rparr>"

definition sample_observation ::
    "string \<Rightarrow> string \<Rightarrow> rule_observation_status \<Rightarrow> rule_observation" where
  "sample_observation slug category st =
     \<lparr>obs_technology_slug = TechnologySlug slug,
      obs_technology_category_slug = TechnologyCategorySlug category,
      obs_rule_slug = RuleSlug (slug @ ''-v1''), obs_rule_version = RuleVersion 1,
      obs_status = st\<rparr>"

definition sample_previous :: "current_technology list" where
  "sample_previous = [sample_technology ''nextjs'' ''framework'', sample_technology ''cloudflare'' ''hosting'']"

definition sample_observations :: "rule_observation list" where
  "sample_observations =
     [sample_observation ''nextjs'' ''framework'' ConfirmedAbsent,
      sample_observation ''remix'' ''framework'' Detected,
      sample_observation ''cloudflare'' ''hosting'' Unknown]"

theorem change_log_replays_projection_witness:
  "replay_changes (slug_of ` set sample_previous)
     (changes (derive_projection sample_previous sample_observations)) =
   apply_transition (slug_of ` set sample_previous)
     (derive_projection sample_previous sample_observations)"
  by (rule change_log_replays_projection) code_simp

text \<open>
  A change is recorded as a migration exactly when, within one category, the snapshot adds a
  single technology and removes a single one; it then records that removal and that addition.
\<close>

theorem migrations_are_unique_in_category:
  fixes previous observations
  defines "acc \<equiv> observe_all previous observations"
  shows "ch \<in> set (changes (derive_projection previous observations)) \<and> change_kind ch = Migrated \<longleftrightarrow>
     (\<exists>a r. a \<in> set (additions acc) \<and> ch = migrated_change (r, a)
        \<and> filter (\<lambda>x. same_category x a) (removals acc) = [r]
        \<and> length (filter (\<lambda>x. same_category x a) (additions acc)) = 1)"
proof -
  have "ch \<in> set (changes (derive_projection previous observations)) \<and> change_kind ch = Migrated \<longleftrightarrow>
      ch \<in> migrated_change ` set (migrations (additions acc) (removals acc) (additions acc))"
    by (simp add: derive_projection_def Let_def acc_def derive_changes_migrated)
  then show ?thesis
    by (force simp: image_iff migrations_set migration_of_Some)
qed

text \<open>
  Activations and deactivations are listed once each, in increasing slug order;
  only technologies that were current are deactivated; the change list is sorted by kind and slug.
\<close>

theorem derive_projection_canonical:
  "sorted_wrt (<) (map slug_of (activate (derive_projection previous observations)))
   \<and> sorted_wrt (<) (map slug_of (deactivate (derive_projection previous observations)))
   \<and> slug_of ` set (deactivate (derive_projection previous observations)) \<subseteq> slug_of ` set previous
   \<and> sorted (map change_sort_key (changes (derive_projection previous observations)))"
  by (auto simp: derive_projection_def Let_def sorted_dedup_key observe_all_slugs)

text \<open>
  Evaluating the same observations again on the state they produced reports no change, so a
  repeated snapshot adds nothing to the history.
\<close>

theorem repeated_observations_change_nothing:
  assumes "slugs_with Detected observations \<inter> slugs_with ConfirmedAbsent observations = {}"
    and "slug_of ` set current =
      apply_transition (slug_of ` set previous) (derive_projection previous observations)"
  shows "changes (derive_projection current observations) = []"
proof -
  have cur: "slug_of ` set current =
      (slug_of ` set previous - slugs_with ConfirmedAbsent observations)
      \<union> slugs_with Detected observations"
    using assms(2) by (auto simp: apply_transition_def derive_projection_def Let_def observe_all_slugs)
  then have "slug_of ` set (additions (observe_all current observations)) = {}"
    "slug_of ` set (removals (observe_all current observations)) = {}"
    using assms(1) unfolding observe_all_slugs cur by auto
  then have "additions (observe_all current observations) = []"
    "removals (observe_all current observations) = []"
    by simp_all
  then show ?thesis
    by (simp add: derive_projection_def Let_def derive_changes_def)
qed

theorem repeated_observations_change_nothing_witness:
  "changes (derive_projection
     [sample_technology ''remix'' ''framework'', sample_technology ''cloudflare'' ''hosting'']
     sample_observations) = []"
  by (rule repeated_observations_change_nothing [where previous = sample_previous]; code_simp)

end
