(* ===== verification/Domain_Model.thy ===== *)
theory Domain_Model
  imports Scheduling
begin

text \<open>
  \<^verbatim>\<open>crates/models/src/lib.rs\<close>: canonical domains, crawl policies and the domain service.
  The \<^verbatim>\<open>url\<close> crate is a parameter: \<open>url_parse\<close> stands for \<open>Url::parse\<close>, and a parsed URL is the
  record of what its accessors return.  The repository the service calls is a parameter of each
  service operation; the listing contract a repository promises is the locale \<open>domain_listing\<close>,
  in which the pagination of \<open>DomainService::list_active\<close> is proved once.
\<close>

section \<open>URLs\<close>

datatype url_host = HostDomain string | HostIpv4 u32 | HostIpv6 "128 word"

record url =
  url_scheme :: string
  url_username :: string
  url_password :: "string option"
  url_host_of :: "url_host option"
  url_port :: "u16 option"
  url_path :: string
  url_query :: "string option"
  url_fragment :: "string option"

section \<open>Canonical domains\<close>

datatype canonical_domain = CanonicalDomain (canonical_domain_as_str: string)

datatype canonical_domain_error =
    CdEmpty
  | CdInvalidUrl
  | CdUnsupportedScheme
  | CdCredentialsNotAllowed
  | CdMissingHost
  | CdInvalidHost
  | CdIpLiteralNotAllowed
  | CdLocalhostNotAllowed
  | CdTooLong

text \<open>The checks on a parsed URL.\<close>

definition canonical_of_url :: "url \<Rightarrow> (canonical_domain_error, canonical_domain) result" where
  "canonical_of_url u =
     (if \<not> (url_scheme u = ''http'' \<or> url_scheme u = ''https'') then Inl CdUnsupportedScheme
      else if url_username u \<noteq> [] \<or> url_password u \<noteq> None then Inl CdCredentialsNotAllowed
      else case url_host_of u of
             None \<Rightarrow> Inl CdMissingHost
           | Some (HostIpv4 _) \<Rightarrow> Inl CdIpLiteralNotAllowed
           | Some (HostIpv6 _) \<Rightarrow> Inl CdIpLiteralNotAllowed
           | Some (HostDomain host) \<Rightarrow>
               (let canonical = (case strip_suffix host ''.'' of Some h \<Rightarrow> h | None \<Rightarrow> host) in
                if canonical = [] then Inl CdInvalidHost
                else if canonical = ''localhost'' then Inl CdLocalhostNotAllowed
                else if length canonical > 253 then Inl CdTooLong
                else Inr (CanonicalDomain canonical)))"

definition CanonicalDomain_parse ::
    "(string \<Rightarrow> url option) \<Rightarrow> string \<Rightarrow> (canonical_domain_error, canonical_domain) result" where
  "CanonicalDomain_parse url_parse input =
     (let input = trim input in
      if input = [] then Inl CdEmpty
      else if (case split_once input ''://'' of
                 Some (_, rest) \<Rightarrow>
                   starts_with rest ''/'' \<or> starts_with rest ''?'' \<or> starts_with rest ''#''
               | None \<Rightarrow> False)
      then Inl CdMissingHost
      else
        (let candidate = (if contains_str input ''://'' then input else ''https://'' @ input) in
         rbind (ok_or CdInvalidUrl (url_parse candidate)) canonical_of_url))"

section \<open>Crawl policies\<close>

datatype crawl_priority = High | Medium | Low

fun crawl_priority_as_str :: "crawl_priority \<Rightarrow> string" where
  "crawl_priority_as_str High = ''high''"
| "crawl_priority_as_str Medium = ''medium''"
| "crawl_priority_as_str Low = ''low''"

definition MEDIUM_CRAWL_INTERVAL :: duration where
  "MEDIUM_CRAWL_INTERVAL = from_secs (7 * 24 * 60 * 60)"

fun default_interval :: "crawl_priority \<Rightarrow> duration" where
  "default_interval High = from_secs (24 * 60 * 60)"
| "default_interval Medium = MEDIUM_CRAWL_INTERVAL"
| "default_interval Low = from_secs (30 * 24 * 60 * 60)"

datatype crawl_policy_error = ZeroInterval

record crawl_policy =
  priority :: crawl_priority
  desired_interval :: duration

definition CrawlPolicy_new ::
    "crawl_priority \<Rightarrow> duration \<Rightarrow> (crawl_policy_error, crawl_policy) result" where
  "CrawlPolicy_new prio interval =
     (if interval = 0 then Inl ZeroInterval
      else Inr \<lparr>priority = prio, desired_interval = interval\<rparr>)"

record domain_creation_defaults =
  defaults_crawl_policy :: crawl_policy

definition DomainCreationDefaults_default :: domain_creation_defaults where
  "DomainCreationDefaults_default =
     \<lparr>defaults_crawl_policy = \<lparr>priority = Medium, desired_interval = MEDIUM_CRAWL_INTERVAL\<rparr>\<rparr>"

section \<open>The domain service\<close>

record domain =
  dom_id :: domain_id
  dom_canonical_domain :: canonical_domain

record new_domain =
  new_canonical_domain :: canonical_domain
  new_crawl_policy :: crawl_policy

datatype domain_repository_error = RepoDuplicate | RepoUnavailable

datatype domain_service_error =
    SvcInvalidInput canonical_domain_error
  | SvcDuplicate
  | SvcUnavailable

fun service_error_from :: "domain_repository_error \<Rightarrow> domain_service_error" where
  "service_error_from RepoDuplicate = SvcDuplicate"
| "service_error_from RepoUnavailable = SvcUnavailable"

record domain_list_page =
  page_domains :: "domain list"
  page_next_cursor :: "canonical_domain option"

text \<open>
  Each operation takes the repository method it calls as a function on the repository state, which
  a failing call leaves as it is (its transaction is rolled back).
\<close>

definition DomainService_create ::
    "(string \<Rightarrow> url option) \<Rightarrow> ('s \<Rightarrow> new_domain \<Rightarrow> (domain_repository_error, domain \<times> 's) result) \<Rightarrow>
     domain_creation_defaults \<Rightarrow> 's \<Rightarrow> string \<Rightarrow> (domain_service_error, domain \<times> 's) result" where
  "DomainService_create url_parse repo_create defaults st input =
     rbind (map_err SvcInvalidInput (CanonicalDomain_parse url_parse input)) (\<lambda>canonical.
       map_err service_error_from
         (repo_create st \<lparr>new_canonical_domain = canonical,
                          new_crawl_policy = defaults_crawl_policy defaults\<rparr>))"

definition DomainService_create_manual ::
    "(string \<Rightarrow> url option) \<Rightarrow>
     ('s \<Rightarrow> new_domain \<Rightarrow> string \<Rightarrow> (domain_repository_error, domain \<times> 's) result) \<Rightarrow>
     domain_creation_defaults \<Rightarrow> 's \<Rightarrow> string \<Rightarrow> string \<Rightarrow> (domain_service_error, domain \<times> 's) result" where
  "DomainService_create_manual url_parse repo_create_with_audit defaults st input actor_subject =
     rbind (map_err SvcInvalidInput (CanonicalDomain_parse url_parse input)) (\<lambda>canonical.
       map_err service_error_from
         (repo_create_with_audit st
            \<lparr>new_canonical_domain = canonical, new_crawl_policy = defaults_crawl_policy defaults\<rparr>
            actor_subject))"

definition DomainService_find_active ::
    "(string \<Rightarrow> url option) \<Rightarrow>
     ('s \<Rightarrow> canonical_domain \<Rightarrow> (domain_repository_error, domain option) result) \<Rightarrow>
     's \<Rightarrow> string \<Rightarrow> (domain_service_error, domain option) result" where
  "DomainService_find_active url_parse repo_find st input =
     rbind (map_err SvcInvalidInput (CanonicalDomain_parse url_parse input)) (\<lambda>canonical.
       map_err service_error_from (repo_find st canonical))"

definition usize_checked_add :: "nat \<Rightarrow> nat \<Rightarrow> nat option" where
  "usize_checked_add a b = (if a + b < 2 ^ 64 then Some (a + b) else None)"

definition DomainService_list_active ::
    "('s \<Rightarrow> canonical_domain option \<Rightarrow> nat \<Rightarrow> (domain_repository_error, domain list) result) \<Rightarrow>
     's \<Rightarrow> canonical_domain option \<Rightarrow> nat \<Rightarrow> (domain_service_error, domain_list_page) result" where
  "DomainService_list_active repo_list st after limit =
     rbind (ok_or SvcUnavailable (usize_checked_add limit 1)) (\<lambda>fetch_limit.
     rbind (map_err service_error_from (repo_list st after fetch_limit)) (\<lambda>domains.
       (let next_cursor =
              (if length domains > limit
               then (if limit - 1 < length domains
                     then Some (dom_canonical_domain (domains ! (limit - 1))) else None)
               else None)
        in Inr \<lparr>page_domains = take limit domains, page_next_cursor = next_cursor\<rparr>)))"

section \<open>Lemmas on canonical domains\<close>

text \<open>What every accepted canonical domain satisfies.\<close>

definition canonical_ok :: "string \<Rightarrow> bool" where
  "canonical_ok s = (s \<noteq> [] \<and> length s \<le> 253 \<and> s \<noteq> ''localhost'')"

lemma strip_suffix_Some: "strip_suffix s p = Some t \<longleftrightarrow> s = t @ p"
  by (auto simp: strip_suffix_def ends_with_iff)

lemma strip_suffix_None: "strip_suffix s p = None \<longleftrightarrow> (\<nexists>t. s = t @ p)"
  by (simp add: strip_suffix_def ends_with_iff)

lemma canonical_of_url_Inr:
  "canonical_of_url u = Inr d \<Longrightarrow>
     (url_scheme u = ''http'' \<or> url_scheme u = ''https'') \<and> url_username u = [] \<and> url_password u = None
     \<and> (url_host_of u = Some (HostDomain (canonical_domain_as_str d))
        \<or> url_host_of u = Some (HostDomain (canonical_domain_as_str d @ ''.'')))
     \<and> canonical_ok (canonical_domain_as_str d)"
  by (auto simp: canonical_of_url_def canonical_ok_def Let_def strip_suffix_Some strip_suffix_None
      split: if_splits option.splits url_host.splits)

lemma CanonicalDomain_parse_Inr:
  "CanonicalDomain_parse up s = Inr d \<Longrightarrow>
     \<exists>u. up (if contains_str (trim s) ''://'' then trim s else ''https://'' @ trim s) = Some u
         \<and> canonical_of_url u = Inr d"
  by (auto simp: CanonicalDomain_parse_def Let_def split: if_splits)

text \<open>
  A canonical name that reads back: the URL crate reports a bare host of the form it produced
  itself (lowercase, no whitespace, no scheme separator) as that host with the default scheme.
\<close>

definition host_reads_back :: "(string \<Rightarrow> url option) \<Rightarrow> string \<Rightarrow> bool" where
  "host_reads_back up h =
     (trim h = h \<and> \<not> contains_str h ''://''
      \<and> (\<exists>u. up (''https://'' @ h) = Some u \<and> url_scheme u = ''https'' \<and> url_username u = []
             \<and> url_password u = None \<and> url_host_of u = Some (HostDomain h)))"

lemma split_once_None: "split_once s p = None \<longleftrightarrow> \<not> contains_str s p"
  by (simp add: split_once_def contains_str_def)

lemma CanonicalDomain_parse_reads_back:
  assumes "host_reads_back up h" and "canonical_ok h" and "last h \<noteq> CHR ''.''"
  shows "CanonicalDomain_parse up h = Inr (CanonicalDomain h)"
proof -
  have no_dot: "strip_suffix h ''.'' = None"
    using assms(3) by (auto simp: strip_suffix_None)
  have no_scheme: "split_once h ''://'' = None" and fix_h: "trim h = h" and bare: "\<not> contains_str h ''://''"
    using assms(1) by (simp_all add: split_once_None host_reads_back_def)
  obtain u where u: "up (''https://'' @ h) = Some u" "url_scheme u = ''https''" "url_username u = []"
    "url_password u = None" "url_host_of u = Some (HostDomain h)"
    using assms(1) unfolding host_reads_back_def by blast
  have "canonical_of_url u = Inr (CanonicalDomain h)"
    using assms(2) u no_dot by (simp add: canonical_of_url_def canonical_ok_def)
  moreover have "CanonicalDomain_parse up h = canonical_of_url u"
    unfolding CanonicalDomain_parse_def Let_def fix_h no_scheme if_not_P [OF bare]
    using assms(2) bare by (simp only: u canonical_ok_def option.case ok_or_simps rbind_simps if_False)
  ultimately show ?thesis by simp
qed

section \<open>The listing contract and pagination\<close>

text \<open>
  What the domain service needs of a repository: on a well-formed state a listing after a cursor is
  an initial segment of the active domains whose sort key exceeds the cursor's, and the sort keys
  of the active domains increase strictly.
\<close>

locale domain_listing =
  fixes repo_list :: "'s \<Rightarrow> canonical_domain option \<Rightarrow> nat \<Rightarrow> (domain_repository_error, domain list) result"
    and active :: "'s \<Rightarrow> domain list"
    and key :: "canonical_domain \<Rightarrow> 'k::linorder"
    and wf :: "'s \<Rightarrow> bool"
    and max_fetch :: nat
  assumes list_law: "wf st \<Longrightarrow> n \<le> max_fetch \<Longrightarrow>
      repo_list st after n =
        Inr (take n (filter (\<lambda>d. case after of None \<Rightarrow> True
                                  | Some c \<Rightarrow> key c < key (dom_canonical_domain d)) (active st)))"
    and active_sorted: "wf st \<Longrightarrow> sorted_wrt (<) (map (\<lambda>d. key (dom_canonical_domain d)) (active st))"
    and max_fetch_bound: "max_fetch < 2 ^ 64"
begin

text \<open>The domains still to be listed after a cursor.\<close>

definition rest :: "'s \<Rightarrow> canonical_domain option \<Rightarrow> domain list" where
  "rest st after =
     filter (\<lambda>d. case after of None \<Rightarrow> True | Some c \<Rightarrow> key c < key (dom_canonical_domain d)) (active st)"

lemma rest_sorted:
  "wf st \<Longrightarrow> sorted_wrt (<) (map (\<lambda>d. key (dom_canonical_domain d)) (rest st after))"
  unfolding rest_def
  by (drule active_sorted) (simp add: sorted_wrt_map sorted_wrt_filter)

lemma list_active_page:
  assumes "wf st" and "0 < limit" and "limit < max_fetch"
  shows "DomainService_list_active repo_list st after limit =
    Inr \<lparr>page_domains = take limit (rest st after),
         page_next_cursor = (if length (rest st after) > limit
            then Some (dom_canonical_domain (rest st after ! (limit - 1))) else None)\<rparr>"
proof -
  have "usize_checked_add limit 1 = Some (limit + 1)"
    using assms(3) max_fetch_bound by (simp add: usize_checked_add_def)
  moreover have "repo_list st after (limit + 1) = Inr (take (limit + 1) (rest st after))"
    using list_law [OF assms(1), of "limit + 1" after] assms(3) by (simp add: rest_def)
  ultimately show ?thesis
    using assms(2) by (auto simp: DomainService_list_active_def Let_def min_def)
qed

lemma rest_after_cursor:
  assumes "wf st" and "i < length (rest st after)"
  shows "rest st (Some (dom_canonical_domain (rest st after ! i))) = drop (Suc i) (rest st after)"
proof -
  let ?k = "\<lambda>d. key (dom_canonical_domain d)"
  let ?r = "rest st after"
  have cut: "filter (\<lambda>d. ?k (xs ! i) < ?k d) xs = drop (Suc i) xs"
    if "sorted_wrt (<) (map ?k xs)" "i < length xs" for xs i
    using that
  proof (induction xs arbitrary: i)
    case (Cons x xs)
    show ?case
    proof (cases i)
      case 0
      with Cons.prems show ?thesis by (auto intro!: filter_True)
    next
      case (Suc j)
      with Cons.prems have "?k x < ?k (xs ! j)" by (auto simp: nth_mem)
      then have "\<not> ?k (xs ! j) < ?k x" by (rule less_not_sym)
      with Suc Cons show ?thesis by auto
    qed
  qed simp
  have le: "?k d > ?k (?r ! i) \<Longrightarrow> (case after of None \<Rightarrow> True | Some c \<Rightarrow> key c < ?k d)" for d
  proof -
    assume gt: "?k d > ?k (?r ! i)"
    have "?r ! i \<in> set ?r" using assms(2) by simp
    then show ?thesis using gt by (auto simp: rest_def split: option.splits)
  qed
  have "rest st (Some (dom_canonical_domain (?r ! i))) = filter (\<lambda>d. ?k (?r ! i) < ?k d) ?r"
    unfolding rest_def [of st "Some _"] using le
    by (auto simp: rest_def intro!: filter_cong)
  then show ?thesis using cut [OF rest_sorted [OF assms(1)] assms(2)] by simp
qed

end

text \<open>Following the cursors from page to page, as a client of the listing does.\<close>

fun walk_pages ::
    "nat \<Rightarrow> (canonical_domain option \<Rightarrow> (domain_service_error, domain_list_page) result) \<Rightarrow>
     canonical_domain option \<Rightarrow> domain list option" where
  "walk_pages 0 fetch after = None"
| "walk_pages (Suc n) fetch after =
     (case fetch after of
        Inl _ \<Rightarrow> None
      | Inr page \<Rightarrow>
          (case page_next_cursor page of
             None \<Rightarrow> Some (page_domains page)
           | Some c \<Rightarrow> map_option ((@) (page_domains page)) (walk_pages n fetch (Some c))))"

context domain_listing
begin

lemma walk_pages_rest:
  assumes "wf st" and "0 < limit" and "limit < max_fetch" and "length (rest st after) < fuel"
  shows "walk_pages fuel (\<lambda>a. DomainService_list_active repo_list st a limit) after =
    Some (rest st after)"
  using assms(4)
proof (induction fuel arbitrary: after)
  case 0
  then show ?case by simp
next
  case (Suc fuel)
  let ?r = "rest st after"
  show ?case
  proof (cases "length ?r > limit")
    case True
    have next_rest: "rest st (Some (dom_canonical_domain (?r ! (limit - 1)))) = drop limit ?r"
      using rest_after_cursor [OF assms(1), of "limit - 1" after] True assms(2) by simp
    with Suc True assms(2) show ?thesis
      by (simp add: list_active_page [OF assms(1-3)] next_rest)
  next
    case False
    then show ?thesis by (simp add: list_active_page [OF assms(1-3)])
  qed
qed

lemma walk_pages_all:
  assumes "wf st" and "0 < limit" and "limit < max_fetch" and "length (active st) < fuel"
  shows "walk_pages fuel (\<lambda>a. DomainService_list_active repo_list st a limit) None = Some (active st)"
  using walk_pages_rest [of st limit None fuel] assms by (simp add: rest_def)

end

section \<open>Properties\<close>

text \<open>
  A string is accepted as a canonical domain only if its URL has the scheme http or https, no
  credentials and a domain name as host; the stored name is that host less one trailing dot, is
  not empty, is not localhost and is at most 253 bytes long.
\<close>

theorem canonical_domain_safe:
  assumes "CanonicalDomain_parse url_parse input = Inr d"
  shows "\<exists>u. url_parse (if contains_str (trim input) ''://'' then trim input
                        else ''https://'' @ trim input) = Some u
     \<and> (url_scheme u = ''http'' \<or> url_scheme u = ''https'')
     \<and> url_username u = [] \<and> url_password u = None
     \<and> (url_host_of u = Some (HostDomain (canonical_domain_as_str d))
        \<or> url_host_of u = Some (HostDomain (canonical_domain_as_str d @ ''.'')))
     \<and> canonical_domain_as_str d \<noteq> [] \<and> canonical_domain_as_str d \<noteq> ''localhost''
     \<and> length (canonical_domain_as_str d) \<le> 253"
  using CanonicalDomain_parse_Inr [OF assms] canonical_of_url_Inr
  unfolding canonical_ok_def by blast

text \<open>A URL parser for the samples: a scheme and a host, nothing else.\<close>

definition sample_url :: "string \<Rightarrow> string \<Rightarrow> url" where
  "sample_url scheme host =
     \<lparr>url_scheme = scheme, url_username = [], url_password = None,
      url_host_of = Some (HostDomain host), url_port = None, url_path = ''/'',
      url_query = None, url_fragment = None\<rparr>"

definition sample_url_parse :: "string \<Rightarrow> url option" where
  "sample_url_parse s =
     (if starts_with s ''https://'' then Some (sample_url ''https'' (to_ascii_lowercase (drop 8 s)))
      else None)"

theorem canonical_domain_safe_witness:
  "\<exists>u. sample_url_parse (if contains_str (trim '' Example.COM. '') ''://'' then trim '' Example.COM. ''
                        else ''https://'' @ trim '' Example.COM. '') = Some u
     \<and> (url_scheme u = ''http'' \<or> url_scheme u = ''https'')
     \<and> url_username u = [] \<and> url_password u = None
     \<and> (url_host_of u = Some (HostDomain (canonical_domain_as_str (CanonicalDomain ''example.com'')))
        \<or> url_host_of u = Some (HostDomain (canonical_domain_as_str (CanonicalDomain ''example.com'') @ ''.'')))
     \<and> canonical_domain_as_str (CanonicalDomain ''example.com'') \<noteq> []
     \<and> canonical_domain_as_str (CanonicalDomain ''example.com'') \<noteq> ''localhost''
     \<and> length (canonical_domain_as_str (CanonicalDomain ''example.com'')) \<le> 253"
  by (rule canonical_domain_safe) code_simp

text \<open>
  A stored canonical domain that the URL crate reads back as the same host and that has no
  trailing dot parses to itself, so re-reading a row (as every repository does) never changes or
  rejects it.
\<close>

theorem canonical_domain_stable:
  assumes "CanonicalDomain_parse url_parse input = Inr d"
    and "host_reads_back url_parse (canonical_domain_as_str d)"
    and "last (canonical_domain_as_str d) \<noteq> CHR ''.''"
  shows "CanonicalDomain_parse url_parse (canonical_domain_as_str d) = Inr d"
proof -
  have "canonical_ok (canonical_domain_as_str d)"
    using CanonicalDomain_parse_Inr [OF assms(1)] canonical_of_url_Inr by blast
  with assms(2,3) have "CanonicalDomain_parse url_parse (canonical_domain_as_str d) =
      Inr (CanonicalDomain (canonical_domain_as_str d))"
    by (intro CanonicalDomain_parse_reads_back)
  then show ?thesis by simp
qed

lemma sample_reads_back: "host_reads_back sample_url_parse ''example.com''"
proof -
  have "trim ''example.com'' = ''example.com'' \<and> \<not> contains_str ''example.com'' ''://''" by code_simp
  moreover have "sample_url_parse (''https://'' @ ''example.com'') = Some (sample_url ''https'' ''example.com'')"
    by code_simp
  ultimately show ?thesis unfolding host_reads_back_def by (simp add: sample_url_def)
qed

theorem canonical_domain_stable_witness:
  "CanonicalDomain_parse sample_url_parse (canonical_domain_as_str (CanonicalDomain ''example.com'')) =
     Inr (CanonicalDomain ''example.com'')"
proof -
  have "CanonicalDomain_parse sample_url_parse ''Example.com'' = Inr (CanonicalDomain ''example.com'')"
    by code_simp
  moreover have "host_reads_back sample_url_parse (canonical_domain_as_str (CanonicalDomain ''example.com''))"
    using sample_reads_back by simp
  moreover have "last (canonical_domain_as_str (CanonicalDomain ''example.com'')) \<noteq> CHR ''.''" by simp
  ultimately show ?thesis by (rule canonical_domain_stable)
qed

end
