(* ===== verification/Json.thy ===== *)
theory Json
  imports TA_Prelude
begin

text \<open>
  JSON values as the code sees them through \<^verbatim>\<open>serde_json\<close>: an object is the list of its members,
  numbers are integers or floats kept as text, and the accessors return \<open>None\<close> on another kind of
  value.
\<close>

datatype json =
    JNull | JBool bool | JInt int | JFloat string | JString string
  | JArray "json list" | JObject "(string \<times> json) list"

fun as_object :: "json \<Rightarrow> (string \<times> json) list option" where
  "as_object (JObject members) = Some members"
| "as_object _ = None"

fun as_array :: "json \<Rightarrow> json list option" where
  "as_array (JArray items) = Some items"
| "as_array _ = None"

fun as_str :: "json \<Rightarrow> string option" where
  "as_str (JString s) = Some s"
| "as_str _ = None"

fun as_u64 :: "json \<Rightarrow> u64 option" where
  "as_u64 (JInt i) = (if 0 \<le> i \<and> i < 2 ^ 64 then Some (word_of_int i) else None)"
| "as_u64 _ = None"

text \<open>\<open>u8::try_from\<close> and \<open>Option::filter\<close>.\<close>

definition u8_of_u64 :: "u64 \<Rightarrow> u8 option" where
  "u8_of_u64 w = (if w \<le> 255 then Some (ucast w) else None)"

definition option_filter :: "('a \<Rightarrow> bool) \<Rightarrow> 'a option \<Rightarrow> 'a option" where
  "option_filter P x = (case x of Some y \<Rightarrow> if P y then Some y else None | None \<Rightarrow> None)"

lemma option_filter_simps [simp]:
  "option_filter P None = None" "option_filter P (Some y) = (if P y then Some y else None)"
  by (simp_all add: option_filter_def)

lemma option_filter_eq_Some [simp]: "option_filter P x = Some y \<longleftrightarrow> x = Some y \<and> P y"
  by (cases x) auto

lemma as_u64_word [simp]: "as_u64 (JInt (uint (w :: u64))) = Some w"
  using uint_lt2p [of w] by simp

lemma u8_of_json [simp]: "Option.bind (as_u64 (JInt (uint (b :: u8)))) u8_of_u64 = Some b"
proof -
  have b: "uint b < 256" using uint_lt2p [of b] by simp
  then have "as_u64 (JInt (uint b)) = Some (ucast b)"
    by (simp add: unsigned_ucast_eq)
  moreover have "(ucast b :: u64) \<le> 255"
    using b by (simp add: word_le_def unsigned_ucast_eq take_bit_eq_mod)
  moreover have "ucast (ucast b :: u64) = b"
    by (rule bit_word_eqI) (simp add: bit_unsigned_iff)
  ultimately show ?thesis
    by (simp add: u8_of_u64_def)
qed

end
