(* ===== verification/Tables.thy ===== *)
theory Tables
  imports Domain_Model Json
begin

text \<open>
  The relational state the repositories of \<^verbatim>\<open>crates/database\<close> share, as the migrations under
  \<^verbatim>\<open>database/migrations\<close> declare it: a table is the list of its rows, a statement is a function on
  it, and every CHECK, UNIQUE and trigger a statement can meet is a guard that fails it.  A failed
  statement fails its transaction, which then leaves the database as it was.  What lies outside
  the repository (the URL crate, the collation and case folding of the database, random UUIDs and
  their display form, the calendar limits of the \<^verbatim>\<open>time\<close> crate) is the record \<open>env\<close> of functions.
\<close>

section \<open>The environment\<close>

record env =
  env_url_parse :: "string \<Rightarrow> url option"
  env_collate :: "string \<Rightarrow> string"
  env_lower :: "string \<Rightarrow> string"
  env_uuid :: "nat \<Rightarrow> uuid"
  env_uuid_str :: "uuid \<Rightarrow> string"
  env_uuid_parse :: "string \<Rightarrow> uuid option"
  env_timestamp_str :: "instant \<Rightarrow> string"
  env_interval :: "duration \<Rightarrow> duration option"
  env_checked_add :: "instant \<Rightarrow> duration \<Rightarrow> instant option"
  env_checked_sub :: "instant \<Rightarrow> duration \<Rightarrow> instant option"

text \<open>
  What the code relies on: adding or subtracting a duration gives the exact instant or nothing,
  the interval type keeps a duration exactly or rejects it, and a collation orders strings totally
  (two strings with one sort key are equal).
\<close>

definition env_ok :: "env \<Rightarrow> bool" where
  "env_ok E =
     ((\<forall>t d t'. env_checked_add E t d = Some t' \<longrightarrow> t' = t + int d)
      \<and> (\<forall>t d t'. env_checked_sub E t d = Some t' \<longrightarrow> t' = t - int d)
      \<and> (\<forall>d d'. env_interval E d = Some d' \<longrightarrow> d' = d)
      \<and> inj (env_collate E))"

lemma env_add: "env_ok E \<Longrightarrow> env_checked_add E t d = Some t' \<Longrightarrow> t' = t + int d"
  unfolding env_ok_def by blast

lemma env_sub: "env_ok E \<Longrightarrow> env_checked_sub E t d = Some t' \<Longrightarrow> t' = t - int d"
  unfolding env_ok_def by blast

section \<open>Rows\<close>

record domain_row =
  dr_id :: uuid
  dr_canonical_domain :: string
  dr_archived_at :: "instant option"

record policy_row =
  pol_domain_id :: uuid
  pol_is_enabled :: bool
  pol_priority :: string
  pol_desired_interval :: duration
  pol_last_crawl_at :: "instant option"
  pol_last_successful_crawl_at :: "instant option"
  pol_next_crawl_at :: "instant option"
  pol_consecutive_failure_count :: int
  pol_last_failure_at :: "instant option"
  pol_terminal_failure_at :: "instant option"
  pol_created_at :: instant
  pol_updated_at :: instant

datatype attempt_status = Queued | Running | Succeeded | Failed | Cancelled

record attempt_row =
  att_id :: uuid
  att_domain_id :: uuid
  att_job_id :: uuid
  att_correlation_id :: uuid
  att_idempotency_key :: string
  att_number :: int
  att_status :: attempt_status
  att_queued_at :: instant
  att_started_at :: "instant option"
  att_finished_at :: "instant option"
  att_failure_code :: "string option"
  att_failure_summary :: "string option"
  att_created_at :: instant

record outbox_row =
  obx_attempt_id :: uuid
  obx_domain_id :: uuid
  obx_job_id :: uuid
  obx_correlation_id :: uuid
  obx_idempotency_key :: string
  obx_available_at :: instant
  obx_next_publish_at :: instant
  obx_publish_attempt_count :: int
  obx_published_at :: "instant option"
  obx_terminal_failure_at :: "instant option"
  obx_last_error_summary :: "string option"
  obx_created_at :: instant
  obx_updated_at :: instant

record audit_row =
  aud_actor_subject :: string
  aud_action :: string
  aud_domain_id :: "uuid option"
  aud_resource_kind :: string
  aud_resource_id :: uuid
  aud_metadata :: json

record refresh_row =
  rfr_domain_id :: uuid
  rfr_requested_at :: instant

record db =
  db_domains :: "domain_row list"
  db_policies :: "policy_row list"
  db_attempts :: "attempt_row list"
  db_outbox :: "outbox_row list"
  db_audit :: "audit_row list"
  db_refresh :: "refresh_row list"
  db_drawn :: nat

definition empty_db :: db where
  "empty_db = \<lparr>db_domains = [], db_policies = [], db_attempts = [], db_outbox = [], db_audit = [],
     db_refresh = [], db_drawn = 0\<rparr>"

text \<open>A fresh random UUID: the next one of the environment's sequence.\<close>

definition draw_uuid :: "env \<Rightarrow> db \<Rightarrow> uuid \<times> db" where
  "draw_uuid E d = (env_uuid E (db_drawn d), d\<lparr>db_drawn := db_drawn d + 1\<rparr>)"

section \<open>Constraints\<close>

text \<open>SQL \<open>btrim\<close> removes spaces only; \<open>opt_ge\<close> is a comparison that NULL satisfies.\<close>

definition btrim :: "string \<Rightarrow> string" where
  "btrim s = rev (dropWhile (\<lambda>c. c = CHR '' '') (rev (dropWhile (\<lambda>c. c = CHR '' '') s)))"

definition opt_ge :: "instant option \<Rightarrow> instant \<Rightarrow> bool" where
  "opt_ge t lo = (case t of None \<Rightarrow> True | Some x \<Rightarrow> lo \<le> x)"

definition domain_check :: "env \<Rightarrow> domain_row \<Rightarrow> bool" where
  "domain_check E r =
     (dr_canonical_domain r = env_lower E (dr_canonical_domain r)
      \<and> dr_canonical_domain r = btrim (dr_canonical_domain r) \<and> 0 < chars_count (dr_canonical_domain r))"

definition policy_check :: "policy_row \<Rightarrow> bool" where
  "policy_check p =
     (pol_priority p \<in> {''high'', ''medium'', ''low''} \<and> 0 < pol_desired_interval p
      \<and> 0 \<le> pol_consecutive_failure_count p \<and> opt_ge (pol_last_crawl_at p) (pol_created_at p)
      \<and> opt_ge (pol_last_successful_crawl_at p) (pol_created_at p)
      \<and> opt_ge (pol_next_crawl_at p) (pol_created_at p) \<and> opt_ge (pol_last_failure_at p) (pol_created_at p)
      \<and> opt_ge (pol_terminal_failure_at p) (pol_created_at p))"

fun lifecycle_valid :: "attempt_status \<Rightarrow> instant option \<Rightarrow> instant option \<Rightarrow> string option \<Rightarrow> bool" where
  "lifecycle_valid Queued s f c = (s = None \<and> f = None \<and> c = None)"
| "lifecycle_valid Running s f c = (s \<noteq> None \<and> f = None \<and> c = None)"
| "lifecycle_valid Succeeded s f c = (s \<noteq> None \<and> f \<noteq> None \<and> c = None)"
| "lifecycle_valid Failed s f c = (s \<noteq> None \<and> f \<noteq> None \<and> c \<noteq> None)"
| "lifecycle_valid Cancelled s f c = (f \<noteq> None)"

definition finished_valid :: "attempt_row \<Rightarrow> bool" where
  "finished_valid a =
     (case att_finished_at a of
        None \<Rightarrow> True
      | Some f \<Rightarrow> (case att_started_at a of None \<Rightarrow> False | Some s \<Rightarrow> s \<le> f)
                 \<or> (att_status a = Cancelled \<and> att_queued_at a \<le> f))"

definition summary_bounded :: "string option \<Rightarrow> bool" where
  "summary_bounded s = (case s of None \<Rightarrow> True | Some x \<Rightarrow> chars_count x \<le> 1024)"

definition attempt_check :: "attempt_row \<Rightarrow> bool" where
  "attempt_check a =
     (0 < chars_count (btrim (att_idempotency_key a)) \<and> 0 < att_number a \<and> att_number a < 2 ^ 15
      \<and> att_created_at a \<le> att_queued_at a \<and> opt_ge (att_started_at a) (att_queued_at a)
      \<and> finished_valid a
      \<and> lifecycle_valid (att_status a) (att_started_at a) (att_finished_at a) (att_failure_code a)
      \<and> summary_bounded (att_failure_summary a))"

definition outbox_check :: "outbox_row \<Rightarrow> bool" where
  "outbox_check b =
     (0 < chars_count (btrim (obx_idempotency_key b))
      \<and> 0 \<le> obx_publish_attempt_count b \<and> obx_publish_attempt_count b < 2 ^ 15
      \<and> obx_created_at b \<le> obx_available_at b \<and> obx_created_at b \<le> obx_next_publish_at b
      \<and> opt_ge (obx_published_at b) (obx_created_at b)
      \<and> opt_ge (obx_terminal_failure_at b) (obx_created_at b)
      \<and> (obx_published_at b = None \<or> obx_terminal_failure_at b = None)
      \<and> summary_bounded (obx_last_error_summary b))"

definition audit_check :: "audit_row \<Rightarrow> bool" where
  "audit_check a =
     (btrim (aud_actor_subject a) \<noteq> []
      \<and> aud_resource_kind a \<in> {''domain'', ''import'', ''crawl_attempt'', ''detection_rule'', ''country_enrichment''}
      \<and> (case aud_metadata a of JObject _ \<Rightarrow> True | _ \<Rightarrow> False))"

section \<open>Statements\<close>

text \<open>INSERT under a row check and a list of unique keys; UPDATE under a row check and a trigger.\<close>

definition sql_insert :: "('r \<Rightarrow> bool) \<Rightarrow> ('r \<Rightarrow> 'r \<Rightarrow> bool) \<Rightarrow> 'r \<Rightarrow> 'r list \<Rightarrow> 'r list option" where
  "sql_insert check clash r rows =
     (if check r \<and> \<not> list_ex (clash r) rows then Some (rows @ [r]) else None)"

definition sql_update ::
    "('r \<Rightarrow> bool) \<Rightarrow> ('r \<Rightarrow> bool) \<Rightarrow> ('r \<Rightarrow> bool) \<Rightarrow> ('r \<Rightarrow> 'r) \<Rightarrow> 'r list \<Rightarrow> 'r list option" where
  "sql_update check frozen sel f rows =
     (if list_all (\<lambda>r. sel r \<longrightarrow> \<not> frozen r \<and> check (f r)) rows
      then Some (map (\<lambda>r. if sel r then f r else r) rows) else None)"

definition terminal_status :: "attempt_status \<Rightarrow> bool" where
  "terminal_status s = (s = Succeeded \<or> s = Failed \<or> s = Cancelled)"

definition active_status :: "attempt_status \<Rightarrow> bool" where
  "active_status s = (s = Queued \<or> s = Running)"

definition insert_attempt :: "attempt_row \<Rightarrow> attempt_row list \<Rightarrow> attempt_row list option" where
  "insert_attempt = sql_insert attempt_check
     (\<lambda>a b. att_id a = att_id b \<or> att_idempotency_key a = att_idempotency_key b)"

definition insert_outbox :: "outbox_row \<Rightarrow> outbox_row list \<Rightarrow> outbox_row list option" where
  "insert_outbox = sql_insert outbox_check
     (\<lambda>a b. obx_attempt_id a = obx_attempt_id b \<or> obx_job_id a = obx_job_id b
            \<or> obx_idempotency_key a = obx_idempotency_key b)"

definition update_attempts ::
    "(attempt_row \<Rightarrow> bool) \<Rightarrow> (attempt_row \<Rightarrow> attempt_row) \<Rightarrow> attempt_row list \<Rightarrow> attempt_row list option" where
  "update_attempts = sql_update attempt_check (\<lambda>a. terminal_status (att_status a))"

definition update_outbox ::
    "(outbox_row \<Rightarrow> bool) \<Rightarrow> (outbox_row \<Rightarrow> outbox_row) \<Rightarrow> outbox_row list \<Rightarrow> outbox_row list option" where
  "update_outbox = sql_update outbox_check (\<lambda>_. False)"

definition update_policies ::
    "(policy_row \<Rightarrow> bool) \<Rightarrow> (policy_row \<Rightarrow> policy_row) \<Rightarrow> policy_row list \<Rightarrow> policy_row list option" where
  "update_policies = sql_update policy_check (\<lambda>_. False)"

definition insert_audit :: "audit_row \<Rightarrow> db \<Rightarrow> db option" where
  "insert_audit a d = (if audit_check a then Some (d\<lparr>db_audit := db_audit d @ [a]\<rparr>) else None)"

section \<open>Lemmas on statements\<close>

named_theorems sql_simps \<open>what a successful statement did\<close>

lemma sql_insert_Some [sql_simps]:
  "sql_insert check clash r rows = Some rows' \<longleftrightarrow>
     check r \<and> (\<forall>x \<in> set rows. \<not> clash r x) \<and> rows' = rows @ [r]"
  by (auto simp: sql_insert_def list_ex_iff)

lemma sql_update_Some [sql_simps]:
  "sql_update check frozen sel f rows = Some rows' \<longleftrightarrow>
     (\<forall>r \<in> set rows. sel r \<longrightarrow> \<not> frozen r \<and> check (f r)) \<and> rows' = map (\<lambda>r. if sel r then f r else r) rows"
  by (auto simp: sql_update_def list_all_iff)

lemma terminal_iff_not_active [simp]: "terminal_status s \<longleftrightarrow> \<not> active_status s"
  by (cases s) (auto simp: terminal_status_def active_status_def)

lemma insert_audit_Some [sql_simps]:
  "insert_audit a d = Some d' \<longleftrightarrow> audit_check a \<and> d' = d\<lparr>db_audit := db_audit d @ [a]\<rparr>"
  by (auto simp: insert_audit_def)

end
