(* ===== verification/Domain_Store.thy ===== *)
theory Domain_Store
  imports Tables
begin

text \<open>
  \<^verbatim>\<open>crates/database/src/domain_repository.rs\<close>: the Postgres domain repository.  The repository
  meets the listing contract of the domain service (an interpretation of \<open>domain_listing\<close>), so
  following its cursors lists every active domain once and in order.
\<close>

section \<open>Operations\<close>

text \<open>A failed INSERT either violates the unique index on active names or is any other error.\<close>

datatype insert_error = UniqueViolation | OtherDatabaseError

fun map_database_error :: "insert_error \<Rightarrow> domain_repository_error" where
  "map_database_error UniqueViolation = RepoDuplicate"
| "map_database_error OtherDatabaseError = RepoUnavailable"

definition insert_domain_row :: "env \<Rightarrow> domain_row \<Rightarrow> domain_row list \<Rightarrow> (insert_error, domain_row list) result" where
  "insert_domain_row E r rows =
     (if \<not> domain_check E r \<or> list_ex (\<lambda>x. dr_id x = dr_id r) rows then Inl OtherDatabaseError
      else if list_ex (\<lambda>x. dr_archived_at x = None \<and> dr_canonical_domain x = dr_canonical_domain r) rows
      then Inl UniqueViolation
      else Inr (rows @ [r]))"

definition insert_policy_row :: "policy_row \<Rightarrow> policy_row list \<Rightarrow> (insert_error, policy_row list) result" where
  "insert_policy_row p rows =
     ok_or OtherDatabaseError
       (sql_insert policy_check (\<lambda>a b. pol_domain_id a = pol_domain_id b) p rows)"

definition new_policy_row :: "uuid \<Rightarrow> string \<Rightarrow> duration \<Rightarrow> instant \<Rightarrow> policy_row" where
  "new_policy_row i prio interval db_now =
     \<lparr>pol_domain_id = i, pol_is_enabled = True, pol_priority = prio, pol_desired_interval = interval,
      pol_last_crawl_at = None, pol_last_successful_crawl_at = None, pol_next_crawl_at = None,
      pol_consecutive_failure_count = 0, pol_last_failure_at = None, pol_terminal_failure_at = None,
      pol_created_at = db_now, pol_updated_at = db_now\<rparr>"

definition row_to_domain :: "env \<Rightarrow> domain_row \<Rightarrow> (domain_repository_error, domain) result" where
  "row_to_domain E r =
     rbind (map_err (\<lambda>_. RepoUnavailable) (CanonicalDomain_parse (env_url_parse E) (dr_canonical_domain r)))
       (\<lambda>c. Inr \<lparr>dom_id = DomainId (dr_id r), dom_canonical_domain = c\<rparr>)"

definition insert_domain ::
    "env \<Rightarrow> instant \<Rightarrow> db \<Rightarrow> new_domain \<Rightarrow> (domain_repository_error, domain \<times> db) result" where
  "insert_domain E db_now d nd =
     rbind (ok_or RepoUnavailable (env_interval E (desired_interval (new_crawl_policy nd)))) (\<lambda>interval.
     (let (i, d) = draw_uuid E d;
          r = \<lparr>dr_id = i, dr_canonical_domain = canonical_domain_as_str (new_canonical_domain nd),
               dr_archived_at = None\<rparr>
      in
      rbind (map_err map_database_error (insert_domain_row E r (db_domains d))) (\<lambda>domains.
      rbind (map_err map_database_error
               (insert_policy_row
                  (new_policy_row i (crawl_priority_as_str (priority (new_crawl_policy nd))) interval db_now)
                  (db_policies d))) (\<lambda>policies.
      rbind (row_to_domain E r) (\<lambda>result.
        Inr (result, d\<lparr>db_domains := domains, db_policies := policies\<rparr>))))))"

definition repository_create ::
    "env \<Rightarrow> instant \<Rightarrow> db \<Rightarrow> new_domain \<Rightarrow> (domain_repository_error, domain \<times> db) result" where
  "repository_create E db_now d nd = insert_domain E db_now d nd"

definition repository_create_with_audit ::
    "env \<Rightarrow> instant \<Rightarrow> db \<Rightarrow> new_domain \<Rightarrow> string \<Rightarrow> (domain_repository_error, domain \<times> db) result" where
  "repository_create_with_audit E db_now d nd actor =
     rbind (insert_domain E db_now d nd) (\<lambda>(result, d).
     rbind (ok_or RepoUnavailable
              (insert_audit
                 \<lparr>aud_actor_subject = actor, aud_action = ''domain.created'',
                  aud_domain_id = Some (domain_id_as_uuid (dom_id result)),
                  aud_resource_kind = ''domain'',
                  aud_resource_id = domain_id_as_uuid (dom_id result), aud_metadata = JObject []\<rparr> d)) (\<lambda>d.
       Inr (result, d)))"

definition find_active_by_canonical ::
    "env \<Rightarrow> db \<Rightarrow> canonical_domain \<Rightarrow> (domain_repository_error, domain option) result" where
  "find_active_by_canonical E d c =
     (case find (\<lambda>r. dr_canonical_domain r = canonical_domain_as_str c \<and> dr_archived_at r = None) (db_domains d) of
        None \<Rightarrow> Inr None
      | Some r \<Rightarrow> rbind (row_to_domain E r) (\<lambda>x. Inr (Some x)))"

text \<open>\<open>LIMIT\<close> binds a signed 64-bit integer; \<open>ORDER BY\<close> and \<open>>\<close> use the collation.\<close>

definition i64_try_from :: "nat \<Rightarrow> nat option" where
  "i64_try_from n = (if n < 2 ^ 63 then Some n else None)"

definition repository_list_active ::
    "env \<Rightarrow> db \<Rightarrow> canonical_domain option \<Rightarrow> nat \<Rightarrow> (domain_repository_error, domain list) result" where
  "repository_list_active E d after limit =
     rbind (ok_or RepoUnavailable (i64_try_from limit)) (\<lambda>limit.
       (let rows = take limit (sort_key (\<lambda>r. env_collate E (dr_canonical_domain r))
              (filter (\<lambda>r. dr_archived_at r = None
                 \<and> (case after of None \<Rightarrow> True
                    | Some c \<Rightarrow> env_collate E (canonical_domain_as_str c) < env_collate E (dr_canonical_domain r)))
                (db_domains d)))
        in collect_results (map (row_to_domain E) rows)))"

lemma find_last: "xs = ys @ [y] \<Longrightarrow> P y \<Longrightarrow> (\<And>z. z \<in> set ys \<Longrightarrow> \<not> P z) \<Longrightarrow> find P xs = Some y"
  by (induction ys arbitrary: xs) auto

section \<open>The store invariant\<close>

text \<open>
  Ids identify domains, active names are unique, every domain has exactly one crawl policy, and
  every active name reads back as itself.
\<close>

definition active_rows :: "db \<Rightarrow> domain_row list" where
  "active_rows d = filter (\<lambda>r. dr_archived_at r = None) (db_domains d)"

definition reads_back :: "env \<Rightarrow> string \<Rightarrow> bool" where
  "reads_back E s = (CanonicalDomain_parse (env_url_parse E) s = Inr (CanonicalDomain s))"

definition domains_unique :: "db \<Rightarrow> bool" where
  "domains_unique d =
     (distinct (map dr_id (db_domains d)) \<and> distinct (map dr_canonical_domain (active_rows d)))"

definition policies_match :: "db \<Rightarrow> bool" where
  "policies_match d =
     (distinct (map pol_domain_id (db_policies d)) \<and> pol_domain_id ` set (db_policies d) = dr_id ` set (db_domains d))"

definition domain_store_ok :: "env \<Rightarrow> db \<Rightarrow> bool" where
  "domain_store_ok E d =
     (domains_unique d \<and> policies_match d \<and> (\<forall>r \<in> set (active_rows d). reads_back E (dr_canonical_domain r)))"

definition domain_of_row :: "domain_row \<Rightarrow> domain" where
  "domain_of_row r =
     \<lparr>dom_id = DomainId (dr_id r), dom_canonical_domain = CanonicalDomain (dr_canonical_domain r)\<rparr>"

definition active_domains :: "env \<Rightarrow> db \<Rightarrow> domain list" where
  "active_domains E d =
     map domain_of_row (sort_key (\<lambda>r. env_collate E (dr_canonical_domain r)) (active_rows d))"

lemma row_to_domain_reads_back: "reads_back E (dr_canonical_domain r) \<Longrightarrow> row_to_domain E r = Inr (domain_of_row r)"
  by (simp add: row_to_domain_def reads_back_def domain_of_row_def)

lemma dom_canonical_of_row [simp]: "dom_canonical_domain (domain_of_row r) = CanonicalDomain (dr_canonical_domain r)"
  by (simp add: domain_of_row_def)

lemma dom_id_of_row [simp]: "dom_id (domain_of_row r) = DomainId (dr_id r)"
  by (simp add: domain_of_row_def)

lemma insert_domain_row_Inr:
  "insert_domain_row E r rows = Inr rows' \<longleftrightarrow>
     domain_check E r \<and> (\<forall>x \<in> set rows. dr_id x \<noteq> dr_id r)
     \<and> (\<forall>x \<in> set rows. dr_archived_at x = None \<longrightarrow> dr_canonical_domain x \<noteq> dr_canonical_domain r)
     \<and> rows' = rows @ [r]"
  by (auto simp: insert_domain_row_def list_ex_iff)

lemma insert_policy_row_Inr:
  "insert_policy_row p rows = Inr rows' \<longleftrightarrow>
     policy_check p \<and> (\<forall>x \<in> set rows. pol_domain_id p \<noteq> pol_domain_id x) \<and> rows' = rows @ [p]"
  by (auto simp: insert_policy_row_def sql_simps)

text \<open>What a successful insertion did.\<close>

lemma insert_domain_Inr:
  assumes "insert_domain E t d nd = Inr (x, d')"
  obtains i p where
    "d' = d\<lparr>db_drawn := db_drawn d + 1,
            db_domains := db_domains d @ [\<lparr>dr_id = i,
              dr_canonical_domain = canonical_domain_as_str (new_canonical_domain nd), dr_archived_at = None\<rparr>],
            db_policies := db_policies d @ [p]\<rparr>"
    and "domain_check E \<lparr>dr_id = i,
           dr_canonical_domain = canonical_domain_as_str (new_canonical_domain nd), dr_archived_at = None\<rparr>"
    and "env_interval E (desired_interval (new_crawl_policy nd)) \<noteq> None"
    and "policy_check p" and "pol_domain_id p = i" and "i = env_uuid E (db_drawn d)"
    and "dom_id x = DomainId i"
    and "CanonicalDomain_parse (env_url_parse E) (canonical_domain_as_str (new_canonical_domain nd)) =
           Inr (dom_canonical_domain x)"
    and "\<forall>r \<in> set (db_domains d). dr_id r \<noteq> i"
    and "\<forall>r \<in> set (active_rows d). dr_canonical_domain r \<noteq> canonical_domain_as_str (new_canonical_domain nd)"
  using assms
  by (auto simp: insert_domain_def draw_uuid_def Let_def insert_domain_row_Inr insert_policy_row_Inr
      row_to_domain_def new_policy_row_def active_rows_def)

lemma domain_check_name:
  "dr_canonical_domain r = dr_canonical_domain r' \<Longrightarrow> domain_check E r = domain_check E r'"
  by (simp add: domain_check_def)

text \<open>Inserting an active name again is a duplicate, whatever its policy.\<close>

lemma insert_domain_again:
  assumes "r \<in> set (active_rows d)" and "dr_canonical_domain r = canonical_domain_as_str (new_canonical_domain nd)"
    and "domain_check E r" and "env_interval E (desired_interval (new_crawl_policy nd)) \<noteq> None"
    and "env_uuid E (db_drawn d) \<notin> dr_id ` set (db_domains d)"
  shows "insert_domain E t d nd = Inl RepoDuplicate"
proof -
  let ?r = "\<lparr>dr_id = env_uuid E (db_drawn d),
    dr_canonical_domain = canonical_domain_as_str (new_canonical_domain nd), dr_archived_at = None\<rparr>"
  have "domain_check E ?r" using assms(2,3) domain_check_name [of r ?r E] by simp
  moreover have "list_ex (\<lambda>x. dr_archived_at x = None \<and> dr_canonical_domain x = dr_canonical_domain ?r) (db_domains d)"
    using assms(1,2) by (auto simp: list_ex_iff active_rows_def)
  moreover have "\<not> list_ex (\<lambda>x. dr_id x = dr_id ?r) (db_domains d)"
    using assms(5) by (auto simp: list_ex_iff image_iff)
  ultimately have "insert_domain_row E ?r (db_domains d) = Inl UniqueViolation"
    unfolding insert_domain_row_def by (simp only: simp_thms if_False if_True)
  then show ?thesis
    using assms(4) by (auto simp: insert_domain_def draw_uuid_def Let_def)
qed

lemma insert_domain_ok:
  assumes ins: "insert_domain E t d nd = Inr (x, d')" and ok: "domain_store_ok E d"
    and rb: "reads_back E (canonical_domain_as_str (new_canonical_domain nd))"
  shows "domain_store_ok E d'"
proof -
  from ins obtain i p where d': "d' = d\<lparr>db_drawn := db_drawn d + 1,
            db_domains := db_domains d @ [\<lparr>dr_id = i,
              dr_canonical_domain = canonical_domain_as_str (new_canonical_domain nd), dr_archived_at = None\<rparr>],
            db_policies := db_policies d @ [p]\<rparr>"
    and p: "pol_domain_id p = i" and fresh: "\<forall>r \<in> set (db_domains d). dr_id r \<noteq> i"
    and new: "\<forall>r \<in> set (active_rows d). dr_canonical_domain r \<noteq> canonical_domain_as_str (new_canonical_domain nd)"
    by (rule insert_domain_Inr)
  have "domains_unique d'" using ok fresh new
    by (auto simp: d' domain_store_ok_def domains_unique_def active_rows_def)
  moreover have "policies_match d'" using ok fresh p
    by (auto simp: d' domain_store_ok_def policies_match_def)
  moreover have "\<forall>r \<in> set (active_rows d'). reads_back E (dr_canonical_domain r)"
    using ok rb by (auto simp: d' domain_store_ok_def active_rows_def)
  ultimately show ?thesis by (simp add: domain_store_ok_def)
qed

section \<open>The listing contract\<close>

lemma sort_key_filter_commute: "filter P (sort_key f xs) = sort_key f (filter P xs)"
  by (rule filter_sort)

lemma listing_law:
  assumes ok: "domain_store_ok E d" and n: "n \<le> 2 ^ 63 - 1"
  shows "repository_list_active E d after n =
    Inr (take n (filter (\<lambda>x. case after of None \<Rightarrow> True
      | Some c \<Rightarrow> env_collate E (canonical_domain_as_str c)
           < env_collate E (canonical_domain_as_str (dom_canonical_domain x))) (active_domains E d)))"
proof -
  let ?P = "\<lambda>r. case after of None \<Rightarrow> True
      | Some c \<Rightarrow> env_collate E (canonical_domain_as_str c) < env_collate E (dr_canonical_domain r)"
  let ?s = "sort_key (\<lambda>r. env_collate E (dr_canonical_domain r)) (active_rows d)"
  have "i64_try_from n = Some n" using n by (simp add: i64_try_from_def)
  moreover have "filter (\<lambda>r. dr_archived_at r = None \<and> ?P r) (db_domains d) = filter ?P (active_rows d)"
    by (simp add: active_rows_def conj_commute)
  moreover have rows: "map (row_to_domain E) (take n (filter ?P ?s)) = map (\<lambda>r. Inr (domain_of_row r)) (take n (filter ?P ?s))"
    using ok by (intro map_cong refl row_to_domain_reads_back)
      (auto simp: domain_store_ok_def dest!: in_set_takeD)
  ultimately have "repository_list_active E d after n = collect_results (map (row_to_domain E) (take n (filter ?P ?s)))"
    by (simp only: repository_list_active_def ok_or_simps rbind_simps Let_def filter_sort)
  then have "repository_list_active E d after n = Inr (map domain_of_row (take n (filter ?P ?s)))"
    by (simp only: rows collect_results_map_Inr)
  moreover have "filter (\<lambda>x. case after of None \<Rightarrow> True
      | Some c \<Rightarrow> env_collate E (canonical_domain_as_str c)
           < env_collate E (canonical_domain_as_str (dom_canonical_domain x))) (map domain_of_row ?s)
      = map domain_of_row (filter ?P ?s)"
    by (simp only: filter_map comp_def dom_canonical_of_row canonical_domain.sel)
  ultimately show ?thesis by (simp add: active_domains_def take_map)
qed

lemma active_domains_sorted:
  assumes "inj (env_collate E)" and "domain_store_ok E d"
  shows "sorted_wrt (<) (map (\<lambda>x. env_collate E (canonical_domain_as_str (dom_canonical_domain x))) (active_domains E d))"
proof -
  let ?k = "\<lambda>r. env_collate E (dr_canonical_domain r)"
  have "distinct (map ?k (active_rows d))"
    using assms by (auto simp: domain_store_ok_def domains_unique_def distinct_map inj_on_def inj_def)
  then have "distinct (map ?k (sort_key ?k (active_rows d)))"
    by (simp add: distinct_map)
  then have "sorted_wrt (<) (map ?k (sort_key ?k (active_rows d)))"
    by (simp add: strict_sorted_iff)
  then show ?thesis by (simp add: active_domains_def comp_def)
qed

interpretation pg_listing: domain_listing
  "repository_list_active E" "active_domains E" "\<lambda>c. env_collate E (canonical_domain_as_str c)"
  "\<lambda>d. domain_store_ok E d \<and> inj (env_collate E)" "2 ^ 63 - 1"
  for E
  by unfold_locales (auto simp: listing_law active_domains_sorted)

section \<open>Properties\<close>

text \<open>
  C11: reading the active domains page by page, following each page's cursor to the next one,
  ends and lists every active domain of the database exactly once, in collation order, for every
  page size from 1 up to the largest bind value.
\<close>

theorem listing_walk_complete:
  assumes "domain_store_ok E d" and "inj (env_collate E)" and "0 < limit" and "limit < 2 ^ 63 - 1"
  shows "walk_pages (Suc (length (db_domains d)))
           (\<lambda>a. DomainService_list_active (repository_list_active E) d a limit) None =
         Some (map domain_of_row (sort_key (\<lambda>r. env_collate E (dr_canonical_domain r)) (active_rows d)))"
proof -
  have "length (active_domains E d) < Suc (length (db_domains d))"
    by (simp add: active_domains_def active_rows_def less_Suc_eq_le)
  then have "walk_pages (Suc (length (db_domains d)))
           (\<lambda>a. DomainService_list_active (repository_list_active E) d a limit) None = Some (active_domains E d)"
    using assms by (intro pg_listing.walk_pages_all) auto
  then show ?thesis by (simp add: active_domains_def)
qed

text \<open>An environment for the samples.\<close>

definition sample_env :: env where
  "sample_env = \<lparr>env_url_parse = sample_url_parse, env_collate = (\<lambda>s. s), env_lower = to_ascii_lowercase,
     env_uuid = of_nat, env_uuid_str = (\<lambda>u. ''u'' @ replicate (unat u) CHR ''1''),
     env_uuid_parse = (\<lambda>s. case s of c # n \<Rightarrow> if c = CHR ''u'' then Some (of_nat (length n)) else None | [] \<Rightarrow> None),
     env_timestamp_str = (\<lambda>t. replicate (nat t) CHR ''t''),
     env_interval = Some, env_checked_add = (\<lambda>t d. Some (t + int d)), env_checked_sub = (\<lambda>t d. Some (t - int d))\<rparr>"

definition sample_db :: db where
  "sample_db = empty_db\<lparr>
     db_domains := [\<lparr>dr_id = 101, dr_canonical_domain = ''b.com'', dr_archived_at = None\<rparr>,
                    \<lparr>dr_id = 102, dr_canonical_domain = ''a.com'', dr_archived_at = None\<rparr>],
     db_policies := [new_policy_row 101 ''high'' 1000 0, new_policy_row 102 ''low'' 1000 0]\<rparr>"

lemma sample_db_ok: "domain_store_ok sample_env sample_db"
proof -
  have "domains_unique sample_db" by code_simp
  moreover have "policies_match sample_db" by code_simp
  moreover have "list_all (\<lambda>r. CanonicalDomain_parse (env_url_parse sample_env) (dr_canonical_domain r)
      = Inr (CanonicalDomain (dr_canonical_domain r))) (active_rows sample_db)"
    by code_simp
  ultimately show ?thesis by (auto simp: domain_store_ok_def list_all_iff reads_back_def)
qed

lemma sample_env_collate: "inj (env_collate sample_env)"
  by (simp add: sample_env_def)

theorem listing_walk_complete_witness:
  "walk_pages (Suc (length (db_domains sample_db)))
     (\<lambda>a. DomainService_list_active (repository_list_active sample_env) sample_db a 1) None =
   Some (map domain_of_row (sort_key (\<lambda>r. env_collate sample_env (dr_canonical_domain r)) (active_rows sample_db)))"
  by (rule listing_walk_complete [OF sample_db_ok sample_env_collate]) simp_all

text \<open>
  Creating a domain through the service keeps the store well formed, leaves every other row
  as it was, and makes the name findable; creating it again is refused as a duplicate.
\<close>

theorem create_find_duplicate:
  assumes "domain_store_ok E d"
    and "DomainService_create (env_url_parse E) (repository_create E t) defaults d input = Inr (x, d')"
    and "host_reads_back (env_url_parse E) (canonical_domain_as_str (dom_canonical_domain x))"
    and "CanonicalDomain_parse (env_url_parse E) input = Inr (dom_canonical_domain x)"
    and "last (canonical_domain_as_str (dom_canonical_domain x)) \<noteq> CHR ''.''"
    and "env_uuid E (db_drawn d') \<notin> dr_id ` set (db_domains d')"
  shows "domain_store_ok E d' \<and> (\<exists>r. db_domains d' = db_domains d @ [r] \<and> domain_of_row r = x)
     \<and> DomainService_find_active (env_url_parse E) (find_active_by_canonical E) d' input = Inr (Some x)
     \<and> DomainService_create (env_url_parse E) (repository_create E t) defaults d' input = Inl SvcDuplicate"
proof -
  let ?c = "dom_canonical_domain x"
  let ?nd = "\<lparr>new_canonical_domain = ?c, new_crawl_policy = defaults_crawl_policy defaults\<rparr>"
  have svc: "DomainService_create (env_url_parse E) (repository_create E t) defaults s input =
      map_err service_error_from (insert_domain E t s ?nd)" for s
    using assms(4) by (simp add: DomainService_create_def repository_create_def)
  with assms(2) have ins: "insert_domain E t d ?nd = Inr (x, d')" by simp
  have "canonical_ok (canonical_domain_as_str ?c)"
    using CanonicalDomain_parse_Inr [OF assms(4)] canonical_of_url_Inr by blast
  then have rb: "reads_back E (canonical_domain_as_str ?c)"
    unfolding reads_back_def using assms(3,5) by (intro CanonicalDomain_parse_reads_back)
  have ok: "domain_store_ok E d'" using insert_domain_ok [OF ins assms(1)] rb by simp
  from ins obtain i p where d': "d' = d\<lparr>db_drawn := db_drawn d + 1,
            db_domains := db_domains d @ [\<lparr>dr_id = i,
              dr_canonical_domain = canonical_domain_as_str ?c, dr_archived_at = None\<rparr>],
            db_policies := db_policies d @ [p]\<rparr>"
    and chk: "domain_check E \<lparr>dr_id = i, dr_canonical_domain = canonical_domain_as_str ?c, dr_archived_at = None\<rparr>"
    and iv: "env_interval E (desired_interval (defaults_crawl_policy defaults)) \<noteq> None"
    and xid: "dom_id x = DomainId i"
    and new: "\<forall>r \<in> set (active_rows d). dr_canonical_domain r \<noteq> canonical_domain_as_str ?c"
    by (elim insert_domain_Inr) simp
  let ?r = "\<lparr>dr_id = i, dr_canonical_domain = canonical_domain_as_str ?c, dr_archived_at = None\<rparr>"
  have x: "domain_of_row ?r = x" using xid by (simp add: domain_of_row_def)
  have "find (\<lambda>r. dr_canonical_domain r = canonical_domain_as_str ?c \<and> dr_archived_at r = None) (db_domains d') = Some ?r"
    using new by (intro find_last) (auto simp: d' active_rows_def)
  then have "DomainService_find_active (env_url_parse E) (find_active_by_canonical E) d' input = Inr (Some x)"
    using assms(4) rb x by (simp add: DomainService_find_active_def find_active_by_canonical_def row_to_domain_reads_back)
  moreover have "insert_domain E t d' ?nd = Inl RepoDuplicate"
    using assms(6) iv chk by (intro insert_domain_again [of ?r]) (simp_all add: d' active_rows_def)
  moreover have "db_domains d' = db_domains d @ [?r]" by (simp add: d')
  ultimately show ?thesis using ok x by (auto simp: svc)
qed

definition sample_created :: "domain \<times> db" where
  "sample_created =
     (case DomainService_create (env_url_parse sample_env) (repository_create sample_env 5)
             DomainCreationDefaults_default sample_db ''c.com'' of
        Inr r \<Rightarrow> r | Inl _ \<Rightarrow> (domain_of_row \<lparr>dr_id = 0, dr_canonical_domain = [], dr_archived_at = None\<rparr>, empty_db))"

theorem create_find_duplicate_witness:
  "domain_store_ok sample_env (snd sample_created)
   \<and> (\<exists>r. db_domains (snd sample_created) = db_domains sample_db @ [r] \<and> domain_of_row r = fst sample_created)
   \<and> DomainService_find_active (env_url_parse sample_env) (find_active_by_canonical sample_env)
        (snd sample_created) ''c.com'' = Inr (Some (fst sample_created))
   \<and> DomainService_create (env_url_parse sample_env) (repository_create sample_env 5)
        DomainCreationDefaults_default (snd sample_created) ''c.com'' = Inl SvcDuplicate"
proof (rule create_find_duplicate [OF sample_db_ok])
  have name: "dom_canonical_domain (fst sample_created) = CanonicalDomain ''c.com''" by code_simp
  have env: "env_url_parse sample_env = sample_url_parse" by (simp add: sample_env_def)
  show "DomainService_create (env_url_parse sample_env) (repository_create sample_env 5)
      DomainCreationDefaults_default sample_db ''c.com'' = Inr (fst sample_created, snd sample_created)"
    by code_simp
  have "trim ''c.com'' = ''c.com'' \<and> \<not> contains_str ''c.com'' ''://''" by code_simp
  moreover have "sample_url_parse (''https://'' @ ''c.com'') = Some (sample_url ''https'' ''c.com'')"
    by code_simp
  ultimately show "host_reads_back (env_url_parse sample_env)
      (canonical_domain_as_str (dom_canonical_domain (fst sample_created)))"
    by (simp add: name env host_reads_back_def sample_url_def)
  show "CanonicalDomain_parse (env_url_parse sample_env) ''c.com'' = Inr (dom_canonical_domain (fst sample_created))"
    unfolding name by code_simp
  show "last (canonical_domain_as_str (dom_canonical_domain (fst sample_created))) \<noteq> CHR ''.''"
    by (simp add: name)
  show "env_uuid sample_env (db_drawn (snd sample_created)) \<notin> dr_id ` set (db_domains (snd sample_created))"
    by code_simp
qed

end
