(* ===== verification/Schedule_Store.thy ===== *)
theory Schedule_Store
  imports Domain_Store
begin

text \<open>
  \<^verbatim>\<open>crates/database/src/scheduler_repository.rs\<close>, the attempt claims of
  \<^verbatim>\<open>crates/database/src/worker_repository.rs\<close> and the two operations of other repositories that
  also change crawl attempts or policies (the administrator's retry and the public refresh): the
  scheduling state of every domain.  Each transaction is one atomic step on the tables of \<open>Tables\<close>.
\<close>

section \<open>Jobs\<close>

definition sched :: "'a option \<Rightarrow> (scheduler_repository_error, 'a) result" where
  "sched r = ok_or SchedUnavailable r"

definition new_job_with_correlation ::
    "env \<Rightarrow> uuid \<Rightarrow> uuid \<Rightarrow> uuid \<Rightarrow> (scheduler_repository_error, crawl_job_v1) result" where
  "new_job_with_correlation E domain_id correlation_id j =
     rbind (map_err (\<lambda>_. SchedUnavailable) (IdempotencyKey_parse (''crawl:'' @ env_uuid_str E j))) (\<lambda>key.
       Inr \<lparr>job_id = CrawlJobId j, job_domain_id = DomainId domain_id,
            job_correlation_id = CorrelationId correlation_id, job_idempotency_key = key\<rparr>)"

text \<open>\<open>new_job\<close> draws the correlation id after the job id its caller drew.\<close>

definition new_job ::
    "env \<Rightarrow> db \<Rightarrow> uuid \<Rightarrow> uuid \<Rightarrow> (scheduler_repository_error, crawl_job_v1 \<times> db) result" where
  "new_job E d domain_id j =
     (let (correlation_id, d) = draw_uuid E d in
      rbind (new_job_with_correlation E domain_id correlation_id j) (\<lambda>job. Inr (job, d)))"

definition queued_attempt :: "uuid \<Rightarrow> crawl_job_v1 \<Rightarrow> int \<Rightarrow> instant \<Rightarrow> instant \<Rightarrow> attempt_row" where
  "queued_attempt i job number available_at created_at =
     \<lparr>att_id = i, att_domain_id = domain_id_as_uuid (job_domain_id job),
      att_job_id = crawl_job_id_as_uuid (job_id job),
      att_correlation_id = correlation_id_as_uuid (job_correlation_id job),
      att_idempotency_key = idempotency_key_as_str (job_idempotency_key job),
      att_number = number, att_status = Queued, att_queued_at = available_at,
      att_started_at = None, att_finished_at = None, att_failure_code = None,
      att_failure_summary = None, att_created_at = created_at\<rparr>"

definition pending_outbox :: "uuid \<Rightarrow> crawl_job_v1 \<Rightarrow> instant \<Rightarrow> instant \<Rightarrow> outbox_row" where
  "pending_outbox i job available_at created_at =
     \<lparr>obx_attempt_id = i, obx_domain_id = domain_id_as_uuid (job_domain_id job),
      obx_job_id = crawl_job_id_as_uuid (job_id job),
      obx_correlation_id = correlation_id_as_uuid (job_correlation_id job),
      obx_idempotency_key = idempotency_key_as_str (job_idempotency_key job),
      obx_available_at = available_at, obx_next_publish_at = available_at,
      obx_publish_attempt_count = 0, obx_published_at = None, obx_terminal_failure_at = None,
      obx_last_error_summary = None, obx_created_at = created_at, obx_updated_at = created_at\<rparr>"

definition insert_attempt_and_outbox ::
    "env \<Rightarrow> db \<Rightarrow> crawl_job_v1 \<Rightarrow> int \<Rightarrow> instant \<Rightarrow> instant \<Rightarrow> (scheduler_repository_error, db) result" where
  "insert_attempt_and_outbox E d job number available_at created_at =
     (let (attempt_id, d) = draw_uuid E d in
      rbind (sched (insert_attempt (queued_attempt attempt_id job number available_at created_at) (db_attempts d)))
        (\<lambda>attempts.
      rbind (sched (insert_outbox (pending_outbox attempt_id job available_at created_at) (db_outbox d)))
        (\<lambda>outbox. Inr (d\<lparr>db_attempts := attempts, db_outbox := outbox\<rparr>))))"

definition add_std_duration ::
    "env \<Rightarrow> instant \<Rightarrow> duration \<Rightarrow> (scheduler_repository_error, instant) result" where
  "add_std_duration E now d = sched (env_checked_add E now d)"

section \<open>Reserving due domains\<close>

definition has_active_attempt :: "db \<Rightarrow> uuid \<Rightarrow> bool" where
  "has_active_attempt d i =
     list_ex (\<lambda>a. att_domain_id a = i \<and> active_status (att_status a)) (db_attempts d)"

definition priority_rank :: "string \<Rightarrow> nat" where
  "priority_rank p = (if p = ''high'' then 0 else if p = ''medium'' then 1 else 2)"

text \<open>The sort key of a policy: priority, then \<open>next_crawl_at NULLS FIRST\<close>, then the domain id.\<close>

definition due_key :: "policy_row \<Rightarrow> nat \<times> nat \<times> instant \<times> nat" where
  "due_key p =
     (priority_rank (pol_priority p),
      (case pol_next_crawl_at p of None \<Rightarrow> 0 | Some _ \<Rightarrow> 1),
      (case pol_next_crawl_at p of None \<Rightarrow> 0 | Some t \<Rightarrow> t),
      unat (pol_domain_id p))"

definition due :: "db \<Rightarrow> instant \<Rightarrow> policy_row \<Rightarrow> bool" where
  "due d now p =
     (list_ex (\<lambda>r. dr_id r = pol_domain_id p \<and> dr_archived_at r = None) (db_domains d)
      \<and> pol_is_enabled p
      \<and> (case pol_next_crawl_at p of None \<Rightarrow> True | Some t \<Rightarrow> t \<le> now)
      \<and> \<not> has_active_attempt d (pol_domain_id p))"

text \<open>\<open>locked\<close>: the policy rows another transaction holds, which SKIP LOCKED passes over.\<close>

definition select_due :: "db \<Rightarrow> (uuid \<Rightarrow> bool) \<Rightarrow> instant \<Rightarrow> nat \<Rightarrow> uuid list" where
  "select_due d locked now limit =
     map pol_domain_id
       (take limit (filter (\<lambda>p. \<not> locked (pol_domain_id p)) (sort_key due_key (filter (due d now) (db_policies d)))))"

definition reserve_policy :: "instant \<Rightarrow> policy_row \<Rightarrow> policy_row" where
  "reserve_policy now p =
     p\<lparr>pol_next_crawl_at := Some (now + int (pol_desired_interval p)), pol_terminal_failure_at := None,
       pol_updated_at := now\<rparr>"

definition reserve_one ::
    "env \<Rightarrow> instant \<Rightarrow> db \<Rightarrow> uuid \<Rightarrow> (scheduler_repository_error, crawl_job_v1 \<times> db) result" where
  "reserve_one E now d domain_id =
     (let (new_job_id, d) = draw_uuid E d in
      rbind (new_job E d domain_id new_job_id) (\<lambda>(job, d).
      rbind (insert_attempt_and_outbox E d job 1 now now) (\<lambda>d.
      rbind (sched (update_policies (\<lambda>p. pol_domain_id p = domain_id) (reserve_policy now) (db_policies d)))
        (\<lambda>policies. Inr (job, d\<lparr>db_policies := policies\<rparr>)))))"

fun reserve_rows ::
    "env \<Rightarrow> instant \<Rightarrow> db \<Rightarrow> uuid list \<Rightarrow> (scheduler_repository_error, crawl_job_v1 list \<times> db) result" where
  "reserve_rows E now d [] = Inr ([], d)"
| "reserve_rows E now d (i # is) =
     rbind (reserve_one E now d i) (\<lambda>(job, d).
     rbind (reserve_rows E now d is) (\<lambda>(jobs, d). Inr (job # jobs, d)))"

definition reserve_due ::
    "env \<Rightarrow> (uuid \<Rightarrow> bool) \<Rightarrow> db \<Rightarrow> instant \<Rightarrow> nat \<Rightarrow>
     (scheduler_repository_error, crawl_job_v1 list \<times> db) result" where
  "reserve_due E locked d now limit =
     (if limit = 0 then Inr ([], d)
      else rbind (sched (i64_try_from limit)) (\<lambda>limit. reserve_rows E now d (select_due d locked now limit)))"

section \<open>The outbox\<close>

record pending_crawl_job =
  pending_job :: crawl_job_v1
  pending_available_at :: instant
  pending_publish_attempt_count :: u8

definition u8_try_from :: "int \<Rightarrow> u8 option" where
  "u8_try_from n = (if 0 \<le> n \<and> n < 256 then Some (of_int n) else None)"

definition row_to_pending_job :: "outbox_row \<Rightarrow> (scheduler_repository_error, pending_crawl_job) result" where
  "row_to_pending_job b =
     rbind (sched (u8_try_from (obx_publish_attempt_count b))) (\<lambda>count.
     rbind (map_err (\<lambda>_. SchedUnavailable) (IdempotencyKey_parse (obx_idempotency_key b))) (\<lambda>key.
       Inr \<lparr>pending_job = \<lparr>job_id = CrawlJobId (obx_job_id b), job_domain_id = DomainId (obx_domain_id b),
              job_correlation_id = CorrelationId (obx_correlation_id b), job_idempotency_key = key\<rparr>,
            pending_available_at = obx_available_at b, pending_publish_attempt_count = count\<rparr>))"

definition publishable :: "instant \<Rightarrow> outbox_row \<Rightarrow> bool" where
  "publishable now b =
     (obx_published_at b = None \<and> obx_terminal_failure_at b = None
      \<and> obx_available_at b \<le> now \<and> obx_next_publish_at b \<le> now)"

definition pending_publications ::
    "db \<Rightarrow> instant \<Rightarrow> nat \<Rightarrow> (scheduler_repository_error, pending_crawl_job list) result" where
  "pending_publications d now limit =
     (if limit = 0 then Inr []
      else rbind (sched (i64_try_from limit)) (\<lambda>limit.
        collect_results (map row_to_pending_job
          (take limit (sort_key (\<lambda>b. (obx_available_at b, obx_created_at b))
             (filter (publishable now) (db_outbox d)))))))"

definition mark_published ::
    "db \<Rightarrow> crawl_job_id \<Rightarrow> instant \<Rightarrow> (scheduler_repository_error, db) result" where
  "mark_published d j now =
     (let sel = (\<lambda>b. obx_job_id b = crawl_job_id_as_uuid j \<and> obx_published_at b = None
                     \<and> obx_terminal_failure_at b = None) in
      rbind (sched (update_outbox sel (\<lambda>b. b\<lparr>obx_published_at := Some now, obx_updated_at := now\<rparr>) (db_outbox d)))
        (\<lambda>outbox. if list_ex sel (db_outbox d) then Inr (d\<lparr>db_outbox := outbox\<rparr>) else Inl SchedNotFound))"

definition i16_checked_succ :: "int \<Rightarrow> int option" where
  "i16_checked_succ n = (if n + 1 < 2 ^ 15 then Some (n + 1) else None)"

definition publish_error :: string where
  "publish_error = ''Redis publication failed''"

definition record_publish_failure ::
    "env \<Rightarrow> db \<Rightarrow> crawl_job_id \<Rightarrow> instant \<Rightarrow> scheduler_settings \<Rightarrow> (scheduler_repository_error, db) result" where
  "record_publish_failure E d j now settings =
     rbind (ok_or SchedNotFound (find (\<lambda>b. obx_job_id b = crawl_job_id_as_uuid j) (db_outbox d))) (\<lambda>b.
     if obx_published_at b \<noteq> None \<or> obx_terminal_failure_at b \<noteq> None then Inr d
     else
       rbind (sched (i16_checked_succ (obx_publish_attempt_count b))) (\<lambda>next.
       rbind (sched (u8_try_from next)) (\<lambda>next_u8.
       if next_u8 \<ge> max_outbox_publish_attempts settings then
         rbind (sched (update_outbox (\<lambda>b. obx_job_id b = crawl_job_id_as_uuid j)
                  (\<lambda>b. b\<lparr>obx_publish_attempt_count := next, obx_terminal_failure_at := Some now,
                         obx_last_error_summary := Some publish_error, obx_updated_at := now\<rparr>) (db_outbox d)))
           (\<lambda>outbox. Inr (d\<lparr>db_outbox := outbox\<rparr>))
       else
         rbind (sched (outbox_retry_delay settings next_u8)) (\<lambda>delay.
         rbind (add_std_duration E now delay) (\<lambda>next_publish_at.
         rbind (sched (update_outbox (\<lambda>b. obx_job_id b = crawl_job_id_as_uuid j)
                  (\<lambda>b. b\<lparr>obx_publish_attempt_count := next, obx_next_publish_at := next_publish_at,
                         obx_last_error_summary := Some publish_error, obx_updated_at := now\<rparr>) (db_outbox d)))
           (\<lambda>outbox. Inr (d\<lparr>db_outbox := outbox\<rparr>)))))))"

section \<open>Outcomes\<close>

text \<open>The attempt a job names, when its domain has a policy (the statement joins the two).\<close>

definition find_attempt :: "db \<Rightarrow> uuid \<Rightarrow> attempt_row option" where
  "find_attempt d j =
     find (\<lambda>a. att_job_id a = j \<and> list_ex (\<lambda>p. pol_domain_id p = att_domain_id a) (db_policies d)) (db_attempts d)"

definition coalesce :: "'a option \<Rightarrow> 'a \<Rightarrow> 'a option" where
  "coalesce x y = (case x of None \<Rightarrow> Some y | Some _ \<Rightarrow> x)"

definition succeed_attempt :: "instant \<Rightarrow> attempt_row \<Rightarrow> attempt_row" where
  "succeed_attempt now a =
     a\<lparr>att_status := Succeeded, att_started_at := coalesce (att_started_at a) now, att_finished_at := Some now\<rparr>"

definition fail_attempt :: "instant \<Rightarrow> crawl_failure \<Rightarrow> attempt_row \<Rightarrow> attempt_row" where
  "fail_attempt now failure a =
     a\<lparr>att_status := Failed, att_started_at := coalesce (att_started_at a) now, att_finished_at := Some now,
       att_failure_code := Some (failure_code failure), att_failure_summary := Some (failure_summary failure)\<rparr>"

definition succeed_policy :: "instant \<Rightarrow> policy_row \<Rightarrow> policy_row" where
  "succeed_policy now p =
     p\<lparr>pol_last_crawl_at := Some now, pol_last_successful_crawl_at := Some now,
       pol_next_crawl_at := Some (now + int (pol_desired_interval p)), pol_consecutive_failure_count := 0,
       pol_last_failure_at := None, pol_terminal_failure_at := None, pol_updated_at := now\<rparr>"

definition retry_policy :: "instant \<Rightarrow> instant \<Rightarrow> policy_row \<Rightarrow> policy_row" where
  "retry_policy now retry_at p =
     p\<lparr>pol_last_crawl_at := Some now, pol_next_crawl_at := Some retry_at,
       pol_consecutive_failure_count := pol_consecutive_failure_count p + 1,
       pol_last_failure_at := Some now, pol_updated_at := now\<rparr>"

definition exhaust_policy :: "instant \<Rightarrow> policy_row \<Rightarrow> policy_row" where
  "exhaust_policy now p =
     p\<lparr>pol_last_crawl_at := Some now, pol_next_crawl_at := Some (now + int (pol_desired_interval p)),
       pol_consecutive_failure_count := pol_consecutive_failure_count p + 1,
       pol_last_failure_at := Some now, pol_terminal_failure_at := Some now, pol_updated_at := now\<rparr>"

definition set_attempt ::
    "db \<Rightarrow> uuid \<Rightarrow> (attempt_row \<Rightarrow> attempt_row) \<Rightarrow> (scheduler_repository_error, db) result" where
  "set_attempt d i f =
     rbind (sched (update_attempts (\<lambda>a. att_id a = i) f (db_attempts d))) (\<lambda>attempts.
       Inr (d\<lparr>db_attempts := attempts\<rparr>))"

definition set_policy ::
    "db \<Rightarrow> uuid \<Rightarrow> (policy_row \<Rightarrow> policy_row) \<Rightarrow> (scheduler_repository_error, db) result" where
  "set_policy d i f =
     rbind (sched (update_policies (\<lambda>p. pol_domain_id p = i) f (db_policies d))) (\<lambda>policies.
       Inr (d\<lparr>db_policies := policies\<rparr>))"

definition record_failed ::
    "env \<Rightarrow> db \<Rightarrow> attempt_row \<Rightarrow> crawl_failure \<Rightarrow> instant \<Rightarrow> scheduler_settings \<Rightarrow>
     (scheduler_repository_error, db) result" where
  "record_failed E d a failure now settings =
     rbind (set_attempt d (att_id a) (fail_attempt now failure)) (\<lambda>d.
     rbind (sched (u8_try_from (att_number a))) (\<lambda>number.
     if number \<le> max_crawl_retries settings then
       rbind (sched (crawl_retry_delay settings number)) (\<lambda>delay.
       rbind (add_std_duration E now delay) (\<lambda>retry_at.
       (let (new_job_id, d) = draw_uuid E d in
        rbind (new_job_with_correlation E (att_domain_id a) (att_correlation_id a) new_job_id) (\<lambda>retry.
        rbind (insert_attempt_and_outbox E d retry (uint number + 1) retry_at now) (\<lambda>d.
          set_policy d (att_domain_id a) (retry_policy now retry_at))))))
     else set_policy d (att_domain_id a) (exhaust_policy now)))"

definition record_attempt_outcome ::
    "env \<Rightarrow> db \<Rightarrow> crawl_job_id \<Rightarrow> crawl_attempt_outcome \<Rightarrow> instant \<Rightarrow> scheduler_settings \<Rightarrow>
     (scheduler_repository_error, db) result" where
  "record_attempt_outcome E d j outcome now settings =
     rbind (ok_or SchedNotFound (find_attempt d (crawl_job_id_as_uuid j))) (\<lambda>a.
     if terminal_status (att_status a) then Inr d
     else case outcome of
            OutcomeSucceeded \<Rightarrow>
              rbind (set_attempt d (att_id a) (succeed_attempt now)) (\<lambda>d.
                set_policy d (att_domain_id a) (succeed_policy now))
          | OutcomeFailed failure \<Rightarrow> record_failed E d a failure now settings)"

section \<open>Stale attempts\<close>

definition lease_expired :: "(crawl_failure_error, crawl_failure) result" where
  "lease_expired = CrawlFailure_new ''worker_lease_expired''
     ''Worker did not record an outcome before its crawl lease expired''"

definition stale :: "instant \<Rightarrow> attempt_row \<Rightarrow> bool" where
  "stale before a =
     (att_status a = Running \<and> (case att_started_at a of None \<Rightarrow> False | Some t \<Rightarrow> t \<le> before))"

definition stale_jobs :: "db \<Rightarrow> instant \<Rightarrow> nat \<Rightarrow> uuid list" where
  "stale_jobs d before limit =
     map att_job_id (take limit
       (sort_key (\<lambda>a. (case att_started_at a of None \<Rightarrow> 0 | Some t \<Rightarrow> t, unat (att_id a)))
          (filter (stale before) (db_attempts d))))"

text \<open>
  Each stale job is recorded in a transaction of its own: an error ends the loop and keeps what
  the transactions before it committed.
\<close>

fun expire_jobs ::
    "env \<Rightarrow> crawl_failure \<Rightarrow> instant \<Rightarrow> scheduler_settings \<Rightarrow> db \<Rightarrow> uuid list \<Rightarrow>
     (scheduler_repository_error, unit) result \<times> db" where
  "expire_jobs E failure now settings d [] = (Inr (), d)"
| "expire_jobs E failure now settings d (j # js) =
     (case record_attempt_outcome E d (CrawlJobId j) (OutcomeFailed failure) now settings of
        Inl e \<Rightarrow> (Inl e, d)
      | Inr d' \<Rightarrow> expire_jobs E failure now settings d' js)"

definition recover_stale_attempts ::
    "env \<Rightarrow> db \<Rightarrow> instant \<Rightarrow> duration \<Rightarrow> nat \<Rightarrow> scheduler_settings \<Rightarrow>
     (scheduler_repository_error, nat) result \<times> db" where
  "recover_stale_attempts E d now stale_after limit settings =
     (if limit = 0 then (Inr 0, d)
      else case rbind (sched (env_checked_sub E now stale_after)) (\<lambda>before.
                rbind (sched (i64_try_from limit)) (\<lambda>limit.
                rbind (map_err (\<lambda>_. SchedUnavailable) lease_expired) (\<lambda>failure.
                  Inr (stale_jobs d before limit, failure)))) of
             Inl e \<Rightarrow> (Inl e, d)
           | Inr (jobs, failure) \<Rightarrow>
               (case expire_jobs E failure now settings d jobs of
                  (Inl e, d') \<Rightarrow> (Inl e, d')
                | (Inr _, d') \<Rightarrow> (Inr (length jobs), d')))"

section \<open>Claiming an attempt\<close>

datatype claimed_crawl_attempt = Ready canonical_domain | Terminal

datatype crawl_worker_repository_error = WorkerNotFound | WorkerUnavailable

definition job_matches :: "crawl_job_v1 \<Rightarrow> attempt_row \<Rightarrow> bool" where
  "job_matches job a =
     (att_job_id a = crawl_job_id_as_uuid (job_id job)
      \<and> att_domain_id a = domain_id_as_uuid (job_domain_id job)
      \<and> att_correlation_id a = correlation_id_as_uuid (job_correlation_id job)
      \<and> att_idempotency_key a = idempotency_key_as_str (job_idempotency_key job))"

definition start_attempt :: "instant \<Rightarrow> attempt_row \<Rightarrow> attempt_row" where
  "start_attempt now a = a\<lparr>att_status := Running, att_started_at := coalesce (att_started_at a) now\<rparr>"

definition claim_attempt ::
    "env \<Rightarrow> db \<Rightarrow> crawl_job_v1 \<Rightarrow> instant \<Rightarrow>
     (crawl_worker_repository_error, claimed_crawl_attempt \<times> db) result" where
  "claim_attempt E d job started_at =
     rbind (ok_or WorkerNotFound
              (find (\<lambda>a. job_matches job a \<and> list_ex (\<lambda>r. dr_id r = att_domain_id a) (db_domains d)) (db_attempts d)))
       (\<lambda>a.
     if terminal_status (att_status a) then Inr (Terminal, d)
     else
       rbind (ok_or WorkerUnavailable (find (\<lambda>r. dr_id r = att_domain_id a) (db_domains d))) (\<lambda>r.
       rbind (map_err (\<lambda>_. WorkerUnavailable) (CanonicalDomain_parse (env_url_parse E) (dr_canonical_domain r)))
         (\<lambda>canonical.
       rbind (ok_or WorkerUnavailable
                (update_attempts (\<lambda>x. att_id x = att_id a) (start_attempt started_at) (db_attempts d))) (\<lambda>attempts.
         Inr (Ready canonical, d\<lparr>db_attempts := attempts\<rparr>)))))"

fun worker_error_from :: "scheduler_repository_error \<Rightarrow> crawl_worker_repository_error" where
  "worker_error_from SchedNotFound = WorkerNotFound"
| "worker_error_from SchedUnavailable = WorkerUnavailable"

definition record_failure ::
    "env \<Rightarrow> db \<Rightarrow> crawl_job_v1 \<Rightarrow> crawl_failure \<Rightarrow> instant \<Rightarrow> scheduler_settings \<Rightarrow>
     (crawl_worker_repository_error, db) result" where
  "record_failure E d job failure finished_at settings =
     map_err worker_error_from
       (record_attempt_outcome E d (job_id job) (OutcomeFailed failure) finished_at settings)"

end
