(* ===== verification/Refresh_Store.thy ===== *)
theory Refresh_Store
  imports Schedule_Store
begin

text \<open>
  The other writers of the scheduling tables: \<^verbatim>\<open>request_refresh\<close> of
  \<^verbatim>\<open>crates/database/src/public_refresh_repository.rs\<close> (the public, rate-limited refresh) and
  \<^verbatim>\<open>request_domain_crawl\<close>, \<^verbatim>\<open>retry_terminal_attempt\<close> and \<^verbatim>\<open>crawl_attempts\<close> of
  \<^verbatim>\<open>crates/database/src/admin_workflow_repository.rs\<close>.
\<close>

section \<open>The public refresh\<close>

datatype public_refresh_error = RefreshNotFound | RefreshDisabled | RateLimited nat | RefreshUnavailable

record public_refresh_request =
  accepted_at :: instant
  next_allowed_at :: instant

text \<open>The policy of an active domain, found by name (the statements join the two tables).\<close>

definition policy_of_name :: "db \<Rightarrow> string \<Rightarrow> policy_row option" where
  "policy_of_name d name =
     find (\<lambda>p. list_ex (\<lambda>r. dr_id r = pol_domain_id p \<and> dr_canonical_domain r = name \<and> dr_archived_at r = None)
                 (db_domains d)) (db_policies d)"

text \<open>\<open>ORDER BY requested_at DESC LIMIT 1\<close>.\<close>

definition last_request :: "db \<Rightarrow> uuid \<Rightarrow> instant option" where
  "last_request d i =
     (case map rfr_requested_at (filter (\<lambda>r. rfr_domain_id r = i) (db_refresh d)) of
        [] \<Rightarrow> None
      | t # ts \<Rightarrow> Some (foldl max t ts))"

definition refresh_policy :: "instant \<Rightarrow> policy_row \<Rightarrow> policy_row" where
  "refresh_policy t p =
     p\<lparr>pol_next_crawl_at := Some (max t (pol_created_at p)), pol_terminal_failure_at := None, pol_updated_at := t\<rparr>"

definition request_refresh ::
    "env \<Rightarrow> db \<Rightarrow> canonical_domain \<Rightarrow> instant \<Rightarrow> duration \<Rightarrow>
     (public_refresh_error, public_refresh_request \<times> db) result" where
  "request_refresh E d name requested_at cooldown =
     rbind (ok_or RefreshUnavailable (env_checked_add E requested_at cooldown)) (\<lambda>next_allowed.
     rbind (ok_or RefreshNotFound (policy_of_name d (canonical_domain_as_str name))) (\<lambda>p.
     if \<not> pol_is_enabled p then Inl RefreshDisabled
     else
       rbind (case last_request d (pol_domain_id p) of
                None \<Rightarrow> Inr ()
              | Some last_requested \<Rightarrow>
                  rbind (ok_or RefreshUnavailable (env_checked_add E last_requested cooldown)) (\<lambda>next.
                    if requested_at < next
                    then Inl (RateLimited (nat (max ((next - requested_at) div 1000000000) 1)))
                    else Inr ())) (\<lambda>_.
       rbind (ok_or RefreshUnavailable
                (update_policies (\<lambda>q. pol_domain_id q = pol_domain_id p) (refresh_policy requested_at) (db_policies d)))
         (\<lambda>policies.
         Inr (\<lparr>accepted_at = requested_at, next_allowed_at = next_allowed\<rparr>,
              d\<lparr>db_policies := policies,
                db_refresh := db_refresh d @ [\<lparr>rfr_domain_id = pol_domain_id p, rfr_requested_at = requested_at\<rparr>]\<rparr>)))))"

section \<open>Administrator operations on crawls\<close>

datatype admin_operation_error = AdminNotFound | AdminValidation | AdminConflict | AdminUnavailable

datatype admin_crawl_retry_state =
    InProgress | AutomaticRetryScheduled | ManualRetryAvailable | ManualRetryBlocked | NotApplicable

record admin_crawl_attempt =
  aca_job_id :: string
  aca_canonical_domain :: string
  aca_attempt_number :: u16
  aca_status :: attempt_status
  aca_queued_at :: instant
  aca_finished_at :: "instant option"
  aca_failure_code :: "string option"
  aca_failure_summary :: "string option"
  aca_retry_state :: admin_crawl_retry_state
  aca_retry_eligible :: bool

definition admin :: "'a option \<Rightarrow> (admin_operation_error, 'a) result" where
  "admin r = ok_or AdminUnavailable r"

definition request_domain_crawl ::
    "env \<Rightarrow> db \<Rightarrow> canonical_domain \<Rightarrow> string \<Rightarrow> instant \<Rightarrow> (admin_operation_error, db) result" where
  "request_domain_crawl E d name actor now =
     rbind (ok_or AdminNotFound (policy_of_name d (canonical_domain_as_str name))) (\<lambda>p.
     if \<not> pol_is_enabled p then Inl AdminConflict
     else
       rbind (admin (update_policies (\<lambda>q. pol_domain_id q = pol_domain_id p)
                (\<lambda>q. q\<lparr>pol_next_crawl_at := Some now, pol_updated_at := now\<rparr>) (db_policies d))) (\<lambda>policies.
       rbind (admin (insert_audit
                \<lparr>aud_actor_subject = actor, aud_action = ''domain.crawl_requested'', aud_domain_id = None,
                 aud_resource_kind = ''domain'', aud_resource_id = pol_domain_id p,
                 aud_metadata = JObject [(''scheduled_at'', JString (env_timestamp_str E now))]\<rparr>
                (d\<lparr>db_policies := policies\<rparr>))) Inr))"

definition retry_blocking_code :: "string option \<Rightarrow> bool" where
  "retry_blocking_code c =
     (c = Some ''unsafe_target'' \<or> c = Some ''robots_denied'' \<or> c = Some ''cancelled'')"

text \<open>The attempt, the domain and the policy a job id selects in the statement's three-way join.\<close>

definition find_attempt_join :: "db \<Rightarrow> uuid \<Rightarrow> (attempt_row \<times> domain_row \<times> policy_row) option" where
  "find_attempt_join d j =
     (case find (\<lambda>a. att_job_id a = j \<and> list_ex (\<lambda>r. dr_id r = att_domain_id a) (db_domains d)
                     \<and> list_ex (\<lambda>p. pol_domain_id p = att_domain_id a) (db_policies d)) (db_attempts d) of
        None \<Rightarrow> None
      | Some a \<Rightarrow>
          (case (find (\<lambda>r. dr_id r = att_domain_id a) (db_domains d),
                 find (\<lambda>p. pol_domain_id p = att_domain_id a) (db_policies d)) of
             (Some r, Some p) \<Rightarrow> Some (a, r, p)
           | _ \<Rightarrow> None))"

definition u16_try_from :: "int \<Rightarrow> u16 option" where
  "u16_try_from n = (if 0 \<le> n \<and> n < 65536 then Some (of_int n) else None)"

text \<open>The job the retry inserts: the key is formatted from the new id without going through the parser.\<close>

definition retry_job :: "env \<Rightarrow> attempt_row \<Rightarrow> uuid \<Rightarrow> crawl_job_v1" where
  "retry_job E a j =
     \<lparr>job_id = CrawlJobId j, job_domain_id = DomainId (att_domain_id a),
      job_correlation_id = CorrelationId (att_correlation_id a),
      job_idempotency_key = IdempotencyKey (''crawl:'' @ env_uuid_str E j)\<rparr>"

definition retry_terminal_attempt ::
    "env \<Rightarrow> db \<Rightarrow> string \<Rightarrow> string \<Rightarrow> instant \<Rightarrow> (admin_operation_error, admin_crawl_attempt \<times> db) result" where
  "retry_terminal_attempt E d job_id_text actor now =
     rbind (ok_or AdminValidation (env_uuid_parse E job_id_text)) (\<lambda>j.
     rbind (ok_or AdminNotFound (find_attempt_join d j)) (\<lambda>(a, r, p).
     if att_status a \<noteq> Failed \<or> pol_terminal_failure_at p = None \<or> retry_blocking_code (att_failure_code a)
     then Inl AdminConflict
     else
       rbind (admin (i16_checked_succ (att_number a))) (\<lambda>next_number.
       (let (next_job_id, d) = draw_uuid E d in
        rbind (map_err (\<lambda>_. AdminUnavailable)
                 (insert_attempt_and_outbox E d (retry_job E a next_job_id) next_number now now)) (\<lambda>d.
        rbind (map_err (\<lambda>_. AdminUnavailable)
                 (set_policy d (att_domain_id a)
                    (\<lambda>q. q\<lparr>pol_terminal_failure_at := None, pol_next_crawl_at := Some now, pol_updated_at := now\<rparr>)))
          (\<lambda>d.
        rbind (admin (insert_audit
                 \<lparr>aud_actor_subject = actor, aud_action = ''crawl_attempt.retry_requested'', aud_domain_id = None,
                  aud_resource_kind = ''crawl_attempt'', aud_resource_id = att_id a,
                  aud_metadata = JObject [(''previous_job_id'', JString (env_uuid_str E j)),
                                          (''next_job_id'', JString (env_uuid_str E next_job_id))]\<rparr> d)) (\<lambda>d.
        rbind (admin (u16_try_from next_number)) (\<lambda>number.
          Inr (\<lparr>aca_job_id = env_uuid_str E next_job_id, aca_canonical_domain = dr_canonical_domain r,
                aca_attempt_number = number, aca_status = Queued, aca_queued_at = now,
                aca_finished_at = None, aca_failure_code = None, aca_failure_summary = None,
                aca_retry_state = InProgress, aca_retry_eligible = False\<rparr>, d)))))))))"

section \<open>Lemmas\<close>

lemma foldl_max_ge: "x \<in> set (t # ts) \<Longrightarrow> x \<le> foldl max t (ts :: 'a::linorder list)"
proof (induction ts arbitrary: t)
  case (Cons y ts)
  have acc: "z \<le> foldl max z us" for z :: 'a and us
    by (induction us arbitrary: z) (auto intro: order_trans [OF max.cobounded1])
  from Cons.prems consider "x \<le> max t y" | "x \<in> set ts" by auto
  then show ?case
  proof cases
    case 1
    then have "x \<le> foldl max (max t y) ts" using acc by (rule order_trans)
    then show ?thesis by simp
  next
    case 2
    then have "x \<in> set (max t y # ts)" by simp
    then have "x \<le> foldl max (max t y) ts" by (rule Cons.IH)
    then show ?thesis by simp
  qed
qed simp

lemma foldl_max_in: "foldl max t (ts :: 'a::linorder list) \<in> set (t # ts)"
  by (induction ts arbitrary: t) (auto simp: max_def)

lemma last_request_max:
  "r \<in> set (db_refresh d) \<Longrightarrow> rfr_domain_id r = i \<Longrightarrow> \<exists>t. last_request d i = Some t \<and> rfr_requested_at r \<le> t"
proof -
  assume "r \<in> set (db_refresh d)" "rfr_domain_id r = i"
  then have m: "rfr_requested_at r \<in> set (map rfr_requested_at (filter (\<lambda>r. rfr_domain_id r = i) (db_refresh d)))"
    by auto
  then obtain t ts where "map rfr_requested_at (filter (\<lambda>r. rfr_domain_id r = i) (db_refresh d)) = t # ts"
    by (cases "map rfr_requested_at (filter (\<lambda>r. rfr_domain_id r = i) (db_refresh d))") auto
  with m show ?thesis by (simp add: last_request_def foldl_max_ge del: list.set)
qed

section \<open>Properties\<close>

text \<open>
  C12: an accepted refresh request comes at least one cooldown after every earlier request of the
  domain, is recorded, and makes the domain due at once (unless the policy was created later); all
  other policies and every crawl attempt are left alone.
\<close>

theorem refresh_respects_cooldown:
  assumes "env_ok E" and "request_refresh E d name t cooldown = Inr (req, d')"
  shows "\<exists>p. policy_of_name d (canonical_domain_as_str name) = Some p \<and> pol_is_enabled p
     \<and> (\<forall>r \<in> set (db_refresh d). rfr_domain_id r = pol_domain_id p \<longrightarrow> rfr_requested_at r + int cooldown \<le> t)
     \<and> db_refresh d' = db_refresh d @ [\<lparr>rfr_domain_id = pol_domain_id p, rfr_requested_at = t\<rparr>]
     \<and> db_policies d' = map (\<lambda>q. if pol_domain_id q = pol_domain_id p then refresh_policy t q else q) (db_policies d)
     \<and> db_attempts d' = db_attempts d \<and> next_allowed_at req = t + int cooldown"
proof -
  have add: "env_checked_add E a c = Some b \<Longrightarrow> b = a + int c" for a b c
    using assms(1) unfolding env_ok_def by blast
  from assms(2) obtain p where p: "policy_of_name d (canonical_domain_as_str name) = Some p" "pol_is_enabled p"
    and lim: "\<And>x. last_request d (pol_domain_id p) = Some x \<Longrightarrow> x + int cooldown \<le> t"
    and d': "d' = d\<lparr>db_policies := map (\<lambda>q. if pol_domain_id q = pol_domain_id p then refresh_policy t q else q) (db_policies d),
                db_refresh := db_refresh d @ [\<lparr>rfr_domain_id = pol_domain_id p, rfr_requested_at = t\<rparr>]\<rparr>"
    and n: "next_allowed_at req = t + int cooldown"
    by (auto simp: request_refresh_def update_policies_def sql_simps dest!: add split: if_splits option.splits)
  have "\<forall>r \<in> set (db_refresh d). rfr_domain_id r = pol_domain_id p \<longrightarrow> rfr_requested_at r + int cooldown \<le> t"
    using last_request_max lim by fastforce
  with p d' n show ?thesis by auto
qed

definition sample_refresh :: "public_refresh_request \<times> db" where
  "sample_refresh =
     (case request_refresh sample_env sample_db (CanonicalDomain ''a.com'') 60 3600 of
        Inr r \<Rightarrow> r | Inl _ \<Rightarrow> (\<lparr>accepted_at = 0, next_allowed_at = 0\<rparr>, empty_db))"

lemma sample_env_ok: "env_ok sample_env"
  by (simp add: env_ok_def sample_env_def)

theorem refresh_respects_cooldown_witness:
  "\<exists>p. policy_of_name sample_db (canonical_domain_as_str (CanonicalDomain ''a.com'')) = Some p \<and> pol_is_enabled p
     \<and> (\<forall>r \<in> set (db_refresh sample_db). rfr_domain_id r = pol_domain_id p \<longrightarrow> rfr_requested_at r + int 3600 \<le> 60)
     \<and> db_refresh (snd sample_refresh) = db_refresh sample_db @ [\<lparr>rfr_domain_id = pol_domain_id p, rfr_requested_at = 60\<rparr>]
     \<and> db_policies (snd sample_refresh) =
         map (\<lambda>q. if pol_domain_id q = pol_domain_id p then refresh_policy 60 q else q) (db_policies sample_db)
     \<and> db_attempts (snd sample_refresh) = db_attempts sample_db
     \<and> next_allowed_at (fst sample_refresh) = 60 + int 3600"
proof (rule refresh_respects_cooldown [OF sample_env_ok])
  show "request_refresh sample_env sample_db (CanonicalDomain ''a.com'') 60 3600 = Inr (fst sample_refresh, snd sample_refresh)"
    by code_simp
qed

end
