(* ===== verification/Schedule_Invariants.thy ===== *)
theory Schedule_Invariants
  imports Refresh_Store
begin

text \<open>
  The scheduling tables as a state machine: one transition per committed operation of the
  repositories, labelled with the job it acts for.  The invariant holds in every reachable state:
  at most one attempt of a domain is queued or running, a terminally failed policy has none, every
  attempt has exactly its own outbox row, and every row satisfies its constraints.
\<close>

section \<open>The step relation\<close>

inductive sched_step :: "env \<Rightarrow> uuid option \<Rightarrow> db \<Rightarrow> db \<Rightarrow> bool" for E where
  create: "repository_create E t d nd = Inr (x, d') \<Longrightarrow> sched_step E None d d'"
| create_audit: "repository_create_with_audit E t d nd actor = Inr (x, d') \<Longrightarrow> sched_step E None d d'"
| reserve: "reserve_due E locked d now limit = Inr (jobs, d') \<Longrightarrow> sched_step E None d d'"
| recover: "recover_stale_attempts E d now stale_after limit settings = (r, d') \<Longrightarrow> sched_step E None d d'"
| published: "mark_published d j now = Inr d' \<Longrightarrow> sched_step E None d d'"
| publish_failed: "record_publish_failure E d j now settings = Inr d' \<Longrightarrow> sched_step E None d d'"
| claim: "claim_attempt E d job t = Inr (c, d') \<Longrightarrow> sched_step E (Some (crawl_job_id_as_uuid (job_id job))) d d'"
| outcome: "record_attempt_outcome E d j oc now settings = Inr d' \<Longrightarrow>
    sched_step E (Some (crawl_job_id_as_uuid j)) d d'"
| refresh: "request_refresh E d name t cooldown = Inr (req, d') \<Longrightarrow> sched_step E None d d'"
| request_crawl: "request_domain_crawl E d name actor now = Inr d' \<Longrightarrow> sched_step E None d d'"
| retry: "retry_terminal_attempt E d text actor now = Inr (r, d') \<Longrightarrow> sched_step E None d d'"

inductive reachable :: "env \<Rightarrow> db \<Rightarrow> bool" for E where
  initial: "reachable E empty_db"
| step: "reachable E d \<Longrightarrow> sched_step E l d d' \<Longrightarrow> reachable E d'"

section \<open>The invariant\<close>

definition active_at :: "db \<Rightarrow> uuid \<Rightarrow> attempt_row list" where
  "active_at d i = filter (\<lambda>a. att_domain_id a = i \<and> active_status (att_status a)) (db_attempts d)"

definition att_ident :: "attempt_row \<Rightarrow> uuid \<times> uuid \<times> uuid \<times> uuid \<times> string" where
  "att_ident a = (att_id a, att_domain_id a, att_job_id a, att_correlation_id a, att_idempotency_key a)"

definition obx_ident :: "outbox_row \<Rightarrow> uuid \<times> uuid \<times> uuid \<times> uuid \<times> string" where
  "obx_ident b = (obx_attempt_id b, obx_domain_id b, obx_job_id b, obx_correlation_id b, obx_idempotency_key b)"

definition attempts_ok :: "db \<Rightarrow> bool" where
  "attempts_ok d =
     (distinct (map att_id (db_attempts d)) \<and> distinct (map att_job_id (db_attempts d))
      \<and> map att_ident (db_attempts d) = map obx_ident (db_outbox d)
      \<and> (\<forall>a \<in> set (db_attempts d). attempt_check a) \<and> (\<forall>b \<in> set (db_outbox d). outbox_check b)
      \<and> (\<forall>i. length (active_at d i) \<le> 1))"

definition policies_ok :: "db \<Rightarrow> bool" where
  "policies_ok d =
     (distinct (map pol_domain_id (db_policies d)) \<and> (\<forall>p \<in> set (db_policies d). policy_check p)
      \<and> (\<forall>p \<in> set (db_policies d). pol_terminal_failure_at p \<noteq> None \<longrightarrow> active_at d (pol_domain_id p) = []))"

definition sched_inv :: "db \<Rightarrow> bool" where
  "sched_inv d = (attempts_ok d \<and> policies_ok d)"

section \<open>Elementary updates\<close>

lemma active_at_iff: "has_active_attempt d i \<longleftrightarrow> active_at d i \<noteq> []"
  by (auto simp: has_active_attempt_def active_at_def filter_empty_conv list_ex_iff)

lemma active_at_mem: "a \<in> set (active_at d i) \<longleftrightarrow> a \<in> set (db_attempts d) \<and> att_domain_id a = i \<and> active_status (att_status a)"
  by (auto simp: active_at_def)

lemma active_at_cong: "db_attempts d = db_attempts d' \<Longrightarrow> active_at d = active_at d'"
  by (simp add: active_at_def fun_eq_iff)

lemma active_at_other [simp]:
  "active_at (d\<lparr>db_policies := ps\<rparr>) = active_at d" "active_at (d\<lparr>db_drawn := n\<rparr>) = active_at d"
  "active_at (d\<lparr>db_domains := ds\<rparr>) = active_at d" "active_at (d\<lparr>db_outbox := bs\<rparr>) = active_at d"
  "active_at (d\<lparr>db_audit := us\<rparr>) = active_at d" "active_at (d\<lparr>db_refresh := rs\<rparr>) = active_at d"
  by (simp_all add: active_at_def fun_eq_iff)

lemma attempts_ok_cong:
  "db_attempts d = db_attempts d' \<Longrightarrow> db_outbox d = db_outbox d' \<Longrightarrow> attempts_ok d = attempts_ok d'"
  using active_at_cong [of d d'] by (simp add: attempts_ok_def)

text \<open>What a job says of the rows inserted for it.\<close>

lemma queued_attempt_sel [simp]:
  "att_id (queued_attempt i job n t c) = i"
  "att_domain_id (queued_attempt i job n t c) = domain_id_as_uuid (job_domain_id job)"
  "att_job_id (queued_attempt i job n t c) = crawl_job_id_as_uuid (job_id job)"
  "att_status (queued_attempt i job n t c) = Queued"
  "att_number (queued_attempt i job n t c) = n"
  "att_correlation_id (queued_attempt i job n t c) = correlation_id_as_uuid (job_correlation_id job)"
  "att_queued_at (queued_attempt i job n t c) = t"
  by (simp_all add: queued_attempt_def)

lemma ident_of_job [simp]: "att_ident (queued_attempt i job n t c) = obx_ident (pending_outbox i job t c)"
  by (simp add: att_ident_def obx_ident_def queued_attempt_def pending_outbox_def)

lemma active_Queued [simp]: "active_status Queued" "active_status Running"
  by (simp_all add: active_status_def)

lemma insert_attempt_and_outbox_Inr:
  "insert_attempt_and_outbox E d job n t c = Inr d' \<longleftrightarrow>
     (let i = env_uuid E (db_drawn d); a = queued_attempt i job n t c; b = pending_outbox i job t c in
      attempt_check a \<and> outbox_check b
      \<and> (\<forall>x \<in> set (db_attempts d). att_id x \<noteq> i \<and> att_idempotency_key x \<noteq> att_idempotency_key a)
      \<and> (\<forall>x \<in> set (db_outbox d). obx_attempt_id x \<noteq> i \<and> obx_job_id x \<noteq> att_job_id a
            \<and> obx_idempotency_key x \<noteq> obx_idempotency_key b)
      \<and> d' = d\<lparr>db_drawn := db_drawn d + 1, db_attempts := db_attempts d @ [a], db_outbox := db_outbox d @ [b]\<rparr>)"
  by (auto simp: insert_attempt_and_outbox_def draw_uuid_def sched_def Let_def insert_attempt_def
      insert_outbox_def sql_simps pending_outbox_def queued_attempt_def)

lemma ident_job_ids:
  assumes "map att_ident as = map obx_ident bs"
  shows "map att_job_id as = map obx_job_id bs"
proof -
  have "map (\<lambda>x. fst (snd (snd x))) (map att_ident as) = map (\<lambda>x. fst (snd (snd x))) (map obx_ident bs)"
    using assms by simp
  then show ?thesis by (simp add: comp_def att_ident_def obx_ident_def)
qed

lemma insert_attempt_ok:
  assumes ok: "attempts_ok d" and ins: "insert_attempt_and_outbox E d job n t c = Inr d'"
    and free: "active_at d (domain_id_as_uuid (job_domain_id job)) = []"
  shows "attempts_ok d'"
    and "active_at d' i = (if i = domain_id_as_uuid (job_domain_id job)
           then [queued_attempt (env_uuid E (db_drawn d)) job n t c] else active_at d i)"
    and "db_policies d' = db_policies d"
proof -
  let ?a = "queued_attempt (env_uuid E (db_drawn d)) job n t c"
  let ?b = "pending_outbox (env_uuid E (db_drawn d)) job t c"
  from ins have d': "d' = d\<lparr>db_drawn := db_drawn d + 1, db_attempts := db_attempts d @ [?a], db_outbox := db_outbox d @ [?b]\<rparr>"
    and chk: "attempt_check ?a" "outbox_check ?b"
    and new: "\<forall>x \<in> set (db_attempts d). att_id x \<noteq> env_uuid E (db_drawn d)"
    and newj: "\<forall>x \<in> set (db_outbox d). obx_job_id x \<noteq> att_job_id ?a"
    by (auto simp: insert_attempt_and_outbox_Inr Let_def)
  have act: "active_at d' i = (if i = domain_id_as_uuid (job_domain_id job) then [?a] else active_at d i)" for i
    using free by (auto simp: d' active_at_def)
  have "att_job_id ?a \<notin> att_job_id ` set (db_attempts d)"
  proof -
    have "set (map att_job_id (db_attempts d)) = set (map obx_job_id (db_outbox d))"
      using ok ident_job_ids by (metis attempts_ok_def)
    with newj show ?thesis by (auto simp del: queued_attempt_sel)
  qed
  then show "attempts_ok d'"
    using ok chk new act by (auto simp: attempts_ok_def d')
  show "active_at d' i = (if i = domain_id_as_uuid (job_domain_id job) then [?a] else active_at d i)"
    by (rule act)
  show "db_policies d' = db_policies d" by (simp add: d')
qed

text \<open>Updating the one attempt with a given id.\<close>

lemma set_attempt_Inr:
  "set_attempt d i f = Inr d' \<longleftrightarrow>
     (\<forall>a \<in> set (db_attempts d). att_id a = i \<longrightarrow> active_status (att_status a) \<and> attempt_check (f a))
     \<and> d' = d\<lparr>db_attempts := map (\<lambda>a. if att_id a = i then f a else a) (db_attempts d)\<rparr>"
  by (auto simp: set_attempt_def sched_def update_attempts_def sql_simps)

lemma set_policy_Inr:
  "set_policy d i f = Inr d' \<longleftrightarrow>
     (\<forall>p \<in> set (db_policies d). pol_domain_id p = i \<longrightarrow> policy_check (f p))
     \<and> d' = d\<lparr>db_policies := map (\<lambda>p. if pol_domain_id p = i then f p else p) (db_policies d)\<rparr>"
  by (auto simp: set_policy_def sched_def update_policies_def sql_simps)

lemma attempts_ok_update:
  assumes ok: "attempts_ok d"
    and d': "d' = d\<lparr>db_attempts := map (\<lambda>a. if att_id a = i then f a else a) (db_attempts d)\<rparr>"
    and keep: "\<And>a. att_ident (f a) = att_ident a"
    and chk: "\<forall>a \<in> set (db_attempts d). att_id a = i \<longrightarrow> attempt_check (f a)"
    and act: "\<And>k. length (active_at d' k) \<le> length (active_at d k)"
  shows "attempts_ok d'"
proof -
  let ?g = "\<lambda>a. if att_id a = i then f a else a"
  have kept: "att_ident (?g a) = att_ident a" for a using keep by simp
  then have "att_id (?g a) = att_id a" "att_job_id (?g a) = att_job_id a" for a
    unfolding att_ident_def by blast+
  with kept have maps: "map att_ident (map ?g xs) = map att_ident xs" "map att_id (map ?g xs) = map att_id xs"
    "map att_job_id (map ?g xs) = map att_job_id xs" for xs
    unfolding map_map comp_def by (metis (mono_tags, lifting))+
  have "length (active_at d' k) \<le> 1" for k
    using act [of k] ok le_trans unfolding attempts_ok_def by blast
  moreover have "\<forall>a \<in> set (map ?g (db_attempts d)). attempt_check a"
    using ok chk by (auto simp: attempts_ok_def)
  moreover have "db_attempts d' = map ?g (db_attempts d)" "db_outbox d' = db_outbox d" by (simp_all add: d')
  ultimately show ?thesis using ok unfolding attempts_ok_def by (simp only: maps) simp
qed

lemma filter_finished:
  "(\<And>a. \<not> active_status (att_status (f a))) \<Longrightarrow>
   filter (\<lambda>a. att_domain_id a = k \<and> active_status (att_status a)) (map (\<lambda>a. if att_id a = i then f a else a) as) =
   filter (\<lambda>a. att_id a \<noteq> i) (filter (\<lambda>a. att_domain_id a = k \<and> active_status (att_status a)) as)"
  by (induction as) auto

lemma finish_attempt:
  assumes ok: "attempts_ok d" and set: "set_attempt d (att_id a) f = Inr d'"
    and a: "a \<in> set (active_at d k)"
    and f: "\<And>x. att_ident (f x) = att_ident x" "\<And>x. \<not> active_status (att_status (f x))"
  shows "attempts_ok d'" and "active_at d' k = []"
    and "\<And>j. j \<noteq> k \<Longrightarrow> active_at d' j = filter (\<lambda>x. att_id x \<noteq> att_id a) (active_at d j)"
    and "db_policies d' = db_policies d"
proof -
  from set have d': "d' = d\<lparr>db_attempts := map (\<lambda>x. if att_id x = att_id a then f x else x) (db_attempts d)\<rparr>"
    and chk: "\<forall>x \<in> set (db_attempts d). att_id x = att_id a \<longrightarrow> attempt_check (f x)"
    by (auto simp: set_attempt_Inr)
  have act: "active_at d' j = filter (\<lambda>x. att_id x \<noteq> att_id a) (active_at d j)" for j
    by (simp add: d' active_at_def filter_finished f(2))
  show "attempts_ok d'"
    using ok d' f(1) chk by (rule attempts_ok_update) (simp add: act)
  have "length (active_at d k) \<le> 1" using ok by (simp add: attempts_ok_def)
  with a have "active_at d k = [a]"
    by (cases "active_at d k") (auto simp: le_Suc_eq)
  then show "active_at d' k = []" by (simp add: act)
  show "\<And>j. j \<noteq> k \<Longrightarrow> active_at d' j = filter (\<lambda>x. att_id x \<noteq> att_id a) (active_at d j)"
    by (rule act)
  show "db_policies d' = db_policies d" by (simp add: d')
qed

lemma ident_kept [simp]:
  "att_ident (fail_attempt t x a) = att_ident a" "att_ident (succeed_attempt t a) = att_ident a"
  "att_ident (start_attempt t a) = att_ident a"
  by (simp_all add: att_ident_def fail_attempt_def succeed_attempt_def start_attempt_def)

lemma status_finished [simp]:
  "\<not> active_status (att_status (fail_attempt t x a))" "\<not> active_status (att_status (succeed_attempt t a))"
  "active_status (att_status (start_attempt t a))"
  by (simp_all add: active_status_def fail_attempt_def succeed_attempt_def start_attempt_def)

text \<open>Updating the policies of one domain.\<close>

lemma policies_ok_update:
  assumes ok: "policies_ok d"
    and pol: "db_policies d' = map (\<lambda>p. if pol_domain_id p = i then f p else p) (db_policies d)"
    and keep: "\<And>p. pol_domain_id (f p) = pol_domain_id p"
    and chk: "\<forall>p \<in> set (db_policies d). pol_domain_id p = i \<longrightarrow> policy_check (f p)"
    and here: "\<And>p. p \<in> set (db_policies d) \<Longrightarrow> pol_domain_id p = i \<Longrightarrow>
                 pol_terminal_failure_at (f p) \<noteq> None \<Longrightarrow> active_at d' i = []"
    and there: "\<And>k. k \<noteq> i \<Longrightarrow> active_at d k = [] \<Longrightarrow> active_at d' k = []"
  shows "policies_ok d'"
proof -
  have ids: "map pol_domain_id (map (\<lambda>p. if pol_domain_id p = i then f p else p) xs) = map pol_domain_id xs" for xs
    by (induction xs) (auto simp: keep)
  have "\<forall>p \<in> set (db_policies d'). policy_check p"
    using ok chk by (auto simp: pol policies_ok_def)
  moreover have "\<forall>p \<in> set (db_policies d'). pol_terminal_failure_at p \<noteq> None \<longrightarrow> active_at d' (pol_domain_id p) = []"
    using ok here there by (auto simp: pol policies_ok_def keep)
  moreover have "distinct (map pol_domain_id (db_policies d'))"
    using ok unfolding policies_ok_def pol ids by simp
  ultimately show ?thesis by (simp add: policies_ok_def)
qed

lemma policies_ok_same:
  assumes "policies_ok d" and "db_policies d' = db_policies d" and "active_at d' = active_at d"
  shows "policies_ok d'"
  using assms by (simp add: policies_ok_def)

lemma pol_domain_kept [simp]:
  "pol_domain_id (reserve_policy t p) = pol_domain_id p" "pol_domain_id (succeed_policy t p) = pol_domain_id p"
  "pol_domain_id (retry_policy t u p) = pol_domain_id p" "pol_domain_id (exhaust_policy t p) = pol_domain_id p"
  "pol_domain_id (refresh_policy t p) = pol_domain_id p"
  by (simp_all add: reserve_policy_def succeed_policy_def retry_policy_def exhaust_policy_def refresh_policy_def)

lemma pol_terminal_after [simp]:
  "pol_terminal_failure_at (reserve_policy t p) = None" "pol_terminal_failure_at (succeed_policy t p) = None"
  "pol_terminal_failure_at (refresh_policy t p) = None"
  "pol_terminal_failure_at (retry_policy t u p) = pol_terminal_failure_at p"
  by (simp_all add: reserve_policy_def succeed_policy_def retry_policy_def refresh_policy_def)

section \<open>Every operation keeps the invariant\<close>

text \<open>Reserving a domain with no active attempt.\<close>

lemma reserve_one_Inr:
  assumes "reserve_one E now d i = Inr (job, d')"
  obtains d1 where "insert_attempt_and_outbox E (d\<lparr>db_drawn := db_drawn d + 1 + 1\<rparr>) job 1 now now = Inr d1"
    and "domain_id_as_uuid (job_domain_id job) = i"
    and "set_policy d1 i (reserve_policy now) = Inr d'"
  using assms
  by (auto simp: reserve_one_def new_job_def new_job_with_correlation_def draw_uuid_def set_policy_def)

lemma reserve_one_ok:
  assumes inv: "sched_inv d" and res: "reserve_one E now d i = Inr (job, d')" and free: "active_at d i = []"
  shows "sched_inv d'" and "\<And>k. k \<noteq> i \<Longrightarrow> active_at d' k = active_at d k"
    and "db_domains d' = db_domains d"
proof -
  let ?d = "d\<lparr>db_drawn := db_drawn d + 1 + 1\<rparr>"
  from res obtain d1 where ins: "insert_attempt_and_outbox E ?d job 1 now now = Inr d1"
    and i: "domain_id_as_uuid (job_domain_id job) = i" and pol: "set_policy d1 i (reserve_policy now) = Inr d'"
    by (rule reserve_one_Inr)
  have ok0: "attempts_ok ?d" using inv attempts_ok_cong [of ?d d] by (simp add: sched_inv_def)
  have act0: "active_at ?d = active_at d" by (rule active_at_cong) simp
  note ins_ok = insert_attempt_ok [OF ok0 ins, unfolded i act0, OF free]
  have d': "d' = d1\<lparr>db_policies := map (\<lambda>p. if pol_domain_id p = i then reserve_policy now p else p) (db_policies d1)\<rparr>"
    and chk: "\<forall>p \<in> set (db_policies d1). pol_domain_id p = i \<longrightarrow> policy_check (reserve_policy now p)"
    using pol by (auto simp: set_policy_Inr)
  have act: "active_at d' = active_at d1" by (rule active_at_cong) (simp add: d')
  have "attempts_ok d'" using ins_ok(1) attempts_ok_cong [of d' d1] by (simp add: d')
  moreover have "policies_ok d'"
  proof (rule policies_ok_update)
    show "policies_ok d" using inv by (simp add: sched_inv_def)
    show "db_policies d' = map (\<lambda>p. if pol_domain_id p = i then reserve_policy now p else p) (db_policies d)"
      using ins_ok(3) by (simp add: d')
    show "\<forall>p \<in> set (db_policies d). pol_domain_id p = i \<longrightarrow> policy_check (reserve_policy now p)"
      using chk ins_ok(3) by simp
  qed (simp_all add: act ins_ok(2))
  ultimately show "sched_inv d'" by (simp add: sched_inv_def)
  show "\<And>k. k \<noteq> i \<Longrightarrow> active_at d' k = active_at d k" by (simp add: act ins_ok(2))
  show "db_domains d' = db_domains d"
    using ins by (auto simp: d' insert_attempt_and_outbox_Inr Let_def)
qed

lemma reserve_rows_ok:
  assumes "sched_inv d" and "reserve_rows E now d is = Inr (jobs, d')"
    and "distinct is" and "\<forall>i \<in> set is. active_at d i = []"
  shows "sched_inv d' \<and> (\<forall>k. k \<notin> set is \<longrightarrow> active_at d' k = active_at d k)"
  using assms
proof (induction "is" arbitrary: d jobs)
  case (Cons i "is")
  from Cons.prems(2) obtain job d1 jobs1 where one: "reserve_one E now d i = Inr (job, d1)"
    and rest: "reserve_rows E now d1 is = Inr (jobs1, d')"
    by auto
  note one_ok = reserve_one_ok [OF Cons.prems(1) one]
  have free: "active_at d i = []" using Cons.prems(4) by simp
  have "\<forall>k \<in> set is. active_at d1 k = []"
  proof
    fix k assume "k \<in> set is"
    with Cons.prems(3,4) have "k \<noteq> i" "active_at d k = []" by auto
    with one_ok(2) [OF free] show "active_at d1 k = []" by simp
  qed
  with Cons.IH [OF one_ok(1) [OF free] rest] Cons.prems(3) one_ok(2) [OF free]
  show ?case by auto
qed simp

lemma select_due_props:
  assumes "policies_ok d"
  shows "distinct (select_due d locked now n)" and "\<forall>i \<in> set (select_due d locked now n). active_at d i = []"
proof -
  let ?s = "filter (\<lambda>p. \<not> locked (pol_domain_id p)) (sort_key due_key (filter (due d now) (db_policies d)))"
  have "distinct (map pol_domain_id (db_policies d))" using assms by (simp add: policies_ok_def)
  then have "distinct (map pol_domain_id ?s)"
    by (auto simp: distinct_map inj_on_def)
  then show "distinct (select_due d locked now n)"
    unfolding select_due_def take_map [symmetric] by (rule distinct_take)
  show "\<forall>i \<in> set (select_due d locked now n). active_at d i = []"
    by (auto simp: select_due_def due_def active_at_iff dest!: in_set_takeD)
qed

lemma reserve_due_ok:
  assumes "sched_inv d" and "reserve_due E locked d now limit = Inr (jobs, d')"
  shows "sched_inv d'"
proof (cases "limit = 0")
  case True
  with assms show ?thesis by (simp add: reserve_due_def)
next
  case False
  with assms(2) obtain n where "reserve_rows E now d (select_due d locked now n) = Inr (jobs, d')"
    by (auto simp: reserve_due_def)
  with reserve_rows_ok [OF assms(1)] select_due_props assms(1) show ?thesis
    by (meson sched_inv_def)
qed

text \<open>Recording an outcome.\<close>

lemma find_attempt_Some:
  "find_attempt d j = Some a \<Longrightarrow>
     a \<in> set (db_attempts d) \<and> att_job_id a = j \<and> (\<exists>p \<in> set (db_policies d). pol_domain_id p = att_domain_id a)"
  by (auto simp: find_attempt_def list_ex_iff find_Some_iff)

lemma record_success_ok:
  assumes inv: "sched_inv d" and a: "a \<in> set (db_attempts d)" "active_status (att_status a)"
    and s: "set_attempt d (att_id a) (succeed_attempt now) = Inr d1"
    and p: "set_policy d1 (att_domain_id a) (succeed_policy now) = Inr d'"
  shows "sched_inv d'"
proof -
  have "a \<in> set (active_at d (att_domain_id a))" using a by (simp add: active_at_mem)
  note fin = finish_attempt [OF conjunct1 [OF inv [unfolded sched_inv_def]] s this]
  have d': "d' = d1\<lparr>db_policies := map (\<lambda>p. if pol_domain_id p = att_domain_id a then succeed_policy now p else p) (db_policies d1)\<rparr>"
    and chk: "\<forall>p \<in> set (db_policies d1). pol_domain_id p = att_domain_id a \<longrightarrow> policy_check (succeed_policy now p)"
    using p by (auto simp: set_policy_Inr)
  have act: "active_at d' = active_at d1" by (rule active_at_cong) (simp add: d')
  have "attempts_ok d'" using fin(1) attempts_ok_cong [of d' d1] by (simp add: d')
  moreover have "policies_ok d'"
    using inv chk fin(2,4) by (intro policies_ok_update [of d d' "att_domain_id a" "succeed_policy now"])
      (auto simp: sched_inv_def act fin(3) d')
  ultimately show ?thesis by (simp add: sched_inv_def)
qed

lemma record_failed_cases:
  assumes "record_failed E d a failure now settings = Inr d'"
  obtains (retry) d1 d2 number delay job retry_at where
      "set_attempt d (att_id a) (fail_attempt now failure) = Inr d1"
      "u8_try_from (att_number a) = Some number" "number \<le> max_crawl_retries settings"
      "crawl_retry_delay settings number = Some delay" "env_checked_add E now delay = Some retry_at"
      "new_job_with_correlation E (att_domain_id a) (att_correlation_id a) (env_uuid E (db_drawn d1)) = Inr job"
      "insert_attempt_and_outbox E (d1\<lparr>db_drawn := db_drawn d1 + 1\<rparr>) job (uint number + 1) retry_at now = Inr d2"
      "set_policy d2 (att_domain_id a) (retry_policy now retry_at) = Inr d'"
  | (exhaust) d1 number where
      "set_attempt d (att_id a) (fail_attempt now failure) = Inr d1"
      "u8_try_from (att_number a) = Some number" "\<not> number \<le> max_crawl_retries settings"
      "set_policy d1 (att_domain_id a) (exhaust_policy now) = Inr d'"
proof -
  from assms obtain d1 number where d1: "set_attempt d (att_id a) (fail_attempt now failure) = Inr d1"
    "u8_try_from (att_number a) = Some number"
    by (auto simp: record_failed_def sched_def)
  show thesis
  proof (cases "number \<le> max_crawl_retries settings")
    case True
    with assms d1 retry show thesis
      by (auto simp: record_failed_def draw_uuid_def add_std_duration_def sched_def)
  next
    case False
    with assms d1 exhaust show thesis by (auto simp: record_failed_def sched_def)
  qed
qed

lemma new_job_domain:
  "new_job_with_correlation E i c j = Inr job \<Longrightarrow>
     job_domain_id job = DomainId i \<and> job_correlation_id job = CorrelationId c \<and> job_id job = CrawlJobId j"
  by (auto simp: new_job_with_correlation_def)

lemma record_failed_ok:
  assumes inv: "sched_inv d" and a: "a \<in> set (db_attempts d)" "active_status (att_status a)"
    and rec: "record_failed E d a failure now settings = Inr d'"
  shows "sched_inv d'"
proof -
  let ?i = "att_domain_id a"
  have mem: "a \<in> set (active_at d ?i)" using a by (simp add: active_at_mem)
  have ok: "attempts_ok d" "policies_ok d" using inv by (simp_all add: sched_inv_def)
  from rec show ?thesis
  proof (cases rule: record_failed_cases)
    case (retry d1 d2 number delay job retry_at)
    let ?d1 = "d1\<lparr>db_drawn := db_drawn d1 + 1\<rparr>"
    note fin = finish_attempt [OF ok(1) retry(1) mem ident_kept(1) status_finished(1)]
    have i: "domain_id_as_uuid (job_domain_id job) = ?i" using new_job_domain [OF retry(6)] by simp
    have act1: "active_at ?d1 = active_at d1" by (rule active_at_cong) simp
    have "attempts_ok ?d1" using fin(1) attempts_ok_cong [of ?d1 d1] by simp
    note ins = insert_attempt_ok [OF this retry(7), unfolded i act1, OF fin(2)]
    have d': "d' = d2\<lparr>db_policies := map (\<lambda>p. if pol_domain_id p = ?i then retry_policy now retry_at p else p) (db_policies d2)\<rparr>"
      and chk: "\<forall>p \<in> set (db_policies d2). pol_domain_id p = ?i \<longrightarrow> policy_check (retry_policy now retry_at p)"
      using retry(8) by (auto simp: set_policy_Inr)
    have pols: "db_policies d2 = db_policies d" using ins(3) fin(4) by simp
    have act: "active_at d' = active_at d2" by (rule active_at_cong) (simp add: d')
    have "attempts_ok d'" using ins(1) attempts_ok_cong [of d' d2] by (simp add: d')
    moreover have "policies_ok d'"
    proof (rule policies_ok_update [OF ok(2)])
      show "db_policies d' = map (\<lambda>p. if pol_domain_id p = ?i then retry_policy now retry_at p else p) (db_policies d)"
        by (simp add: d' pols)
      show "\<forall>p \<in> set (db_policies d). pol_domain_id p = ?i \<longrightarrow> policy_check (retry_policy now retry_at p)"
        using chk pols by simp
      show "active_at d' ?i = []" if "p \<in> set (db_policies d)" "pol_domain_id p = ?i"
        "pol_terminal_failure_at (retry_policy now retry_at p) \<noteq> None" for p
        using that ok(2) mem by (auto simp: policies_ok_def)
      show "active_at d' k = []" if "k \<noteq> ?i" "active_at d k = []" for k
        using that by (simp add: act ins(2) fin(3))
    qed simp
    ultimately show ?thesis by (simp add: sched_inv_def)
  next
    case (exhaust d1 number)
    note fin = finish_attempt [OF ok(1) exhaust(1) mem ident_kept(1) status_finished(1)]
    have d': "d' = d1\<lparr>db_policies := map (\<lambda>p. if pol_domain_id p = ?i then exhaust_policy now p else p) (db_policies d1)\<rparr>"
      and chk: "\<forall>p \<in> set (db_policies d1). pol_domain_id p = ?i \<longrightarrow> policy_check (exhaust_policy now p)"
      using exhaust(4) by (auto simp: set_policy_Inr)
    have act: "active_at d' = active_at d1" by (rule active_at_cong) (simp add: d')
    have "attempts_ok d'" using fin(1) attempts_ok_cong [of d' d1] by (simp add: d')
    moreover have "policies_ok d'"
      using ok chk fin(2,4) by (intro policies_ok_update [of d d' ?i "exhaust_policy now"]) (auto simp: act fin(3) d')
    ultimately show ?thesis by (simp add: sched_inv_def)
  qed
qed

lemma record_attempt_outcome_ok:
  assumes "sched_inv d" and "record_attempt_outcome E d j oc now settings = Inr d'"
  shows "sched_inv d'"
proof -
  from assms(2) obtain a where a: "find_attempt d (crawl_job_id_as_uuid j) = Some a"
    by (auto simp: record_attempt_outcome_def)
  note mem = find_attempt_Some [OF a]
  show ?thesis
  proof (cases "active_status (att_status a)")
    case True
    with assms mem a show ?thesis
      by (cases oc) (auto simp: record_attempt_outcome_def intro: record_success_ok record_failed_ok)
  next
    case False
    with assms a show ?thesis by (simp add: record_attempt_outcome_def)
  qed
qed

lemma expire_jobs_ok: "sched_inv d \<Longrightarrow> sched_inv (snd (expire_jobs E failure now settings d js))"
  by (induction js arbitrary: d) (auto split: sum.split intro: record_attempt_outcome_ok)

lemma recover_stale_ok:
  "sched_inv d \<Longrightarrow> recover_stale_attempts E d now stale_after limit settings = (r, d') \<Longrightarrow> sched_inv d'"
  using expire_jobs_ok [of d E _ now settings]
  by (auto simp: recover_stale_attempts_def split: if_splits sum.splits prod.splits) (metis snd_conv)+

text \<open>Creating domains, publishing, claiming, refreshing and retrying.\<close>

lemma insert_domain_inv:
  assumes "sched_inv d" and "insert_domain E t d nd = Inr (x, d')"
  shows "sched_inv d'"
proof -
  from assms(2) obtain i p domains policies where
    pol: "insert_policy_row p (db_policies d) = Inr policies" and t: "pol_terminal_failure_at p = None"
    and d': "d' = d\<lparr>db_drawn := db_drawn d + 1, db_domains := domains, db_policies := policies\<rparr>"
    by (auto simp: insert_domain_def draw_uuid_def Let_def new_policy_row_def)
  have "attempts_ok d'" using assms(1) attempts_ok_cong [of d' d] by (simp add: d' sched_inv_def)
  moreover have "policies_ok d'"
    using assms(1) pol t by (auto simp: d' sched_inv_def policies_ok_def insert_policy_row_Inr)
  ultimately show ?thesis by (simp add: sched_inv_def)
qed

lemma outbox_update_ok:
  assumes inv: "sched_inv d" and upd: "update_outbox sel f (db_outbox d) = Some bs"
    and keep: "\<And>b. obx_ident (f b) = obx_ident b"
  shows "sched_inv (d\<lparr>db_outbox := bs\<rparr>)"
proof -
  have bs: "bs = map (\<lambda>b. if sel b then f b else b) (db_outbox d)"
    and chk: "\<forall>b \<in> set (db_outbox d). sel b \<longrightarrow> outbox_check (f b)"
    using upd by (auto simp: update_outbox_def sql_simps)
  have "map obx_ident bs = map obx_ident (db_outbox d)"
    by (simp add: bs keep)
  moreover have "\<forall>b \<in> set bs. outbox_check b"
    using inv chk by (auto simp: bs sched_inv_def attempts_ok_def)
  ultimately show ?thesis using inv by (simp add: sched_inv_def attempts_ok_def policies_ok_def)
qed

lemma mark_published_ok: "sched_inv d \<Longrightarrow> mark_published d j now = Inr d' \<Longrightarrow> sched_inv d'"
  by (auto simp: mark_published_def sched_def Let_def obx_ident_def split: if_splits intro!: outbox_update_ok)

lemma record_publish_failure_ok:
  "sched_inv d \<Longrightarrow> record_publish_failure E d j now settings = Inr d' \<Longrightarrow> sched_inv d'"
  by (auto simp: record_publish_failure_def sched_def obx_ident_def split: if_splits intro!: outbox_update_ok)

lemma claim_attempt_Inr:
  assumes "claim_attempt E d job t = Inr (c, d')"
  obtains (terminal) "c = Terminal" "d' = d"
  | (ready) a cd where "c = Ready cd" "a \<in> set (db_attempts d)" "job_matches job a" "active_status (att_status a)"
      "set_attempt d (att_id a) (start_attempt t) = Inr d'"
proof -
  from assms obtain a where a: "find (\<lambda>a. job_matches job a \<and> list_ex (\<lambda>r. dr_id r = att_domain_id a) (db_domains d)) (db_attempts d) = Some a"
    by (auto simp: claim_attempt_def)
  then have mem: "a \<in> set (db_attempts d)" "job_matches job a" by (auto simp: find_Some_iff)
  show thesis
  proof (cases "active_status (att_status a)")
    case True
    with assms a mem ready show thesis
      by (auto simp: claim_attempt_def set_attempt_def sched_def)
  next
    case False
    with assms a terminal show thesis by (auto simp: claim_attempt_def)
  qed
qed

lemma filter_started:
  assumes "\<And>x. att_domain_id (f x) = att_domain_id x" and "\<And>x. active_status (att_status (f x))"
    and "\<forall>x \<in> set as. att_id x = i \<longrightarrow> active_status (att_status x)"
  shows "length (filter (\<lambda>a. att_domain_id a = k \<and> active_status (att_status a)) (map (\<lambda>a. if att_id a = i then f a else a) as)) =
    length (filter (\<lambda>a. att_domain_id a = k \<and> active_status (att_status a)) as)"
  using assms(3) by (induction as) (auto simp: assms(1,2))

lemma set_attempt_start_ok:
  assumes inv: "sched_inv d" and s: "set_attempt d i (start_attempt t) = Inr d'"
  shows "sched_inv d'"
proof -
  have d': "d' = d\<lparr>db_attempts := map (\<lambda>x. if att_id x = i then start_attempt t x else x) (db_attempts d)\<rparr>"
    and chk: "\<forall>x \<in> set (db_attempts d). att_id x = i \<longrightarrow> attempt_check (start_attempt t x)"
    and act: "\<forall>x \<in> set (db_attempts d). att_id x = i \<longrightarrow> active_status (att_status x)"
    using s by (auto simp: set_attempt_Inr)
  have dom: "att_domain_id (start_attempt t x) = att_domain_id x" for x by (simp add: start_attempt_def)
  have len: "length (active_at d' k) = length (active_at d k)" for k
    unfolding active_at_def using filter_started [OF dom status_finished(3) act, of k] by (simp add: d')
  have "attempts_ok d'"
    by (rule attempts_ok_update [OF conjunct1 [OF inv [unfolded sched_inv_def]] d' ident_kept(3) chk]) (simp add: len)
  moreover have "policies_ok d'"
  proof -
    have "active_at d' k = [] \<longleftrightarrow> active_at d k = []" for k using len [of k] by (metis length_0_conv)
    moreover have "db_policies d' = db_policies d" by (simp add: d')
    ultimately show ?thesis using inv by (auto simp: sched_inv_def policies_ok_def)
  qed
  ultimately show ?thesis by (simp add: sched_inv_def)
qed

lemma claim_attempt_ok: "sched_inv d \<Longrightarrow> claim_attempt E d job t = Inr (c, d') \<Longrightarrow> sched_inv d'"
  by (elim claim_attempt_Inr) (auto intro: set_attempt_start_ok)

lemma sched_inv_policy_update:
  assumes inv: "sched_inv d" and att: "db_attempts d' = db_attempts d" "db_outbox d' = db_outbox d"
    and upd: "update_policies sel f (db_policies d) = Some (db_policies d')"
    and sel: "sel = (\<lambda>q. pol_domain_id q = i)"
    and f: "\<And>p. pol_domain_id (f p) = pol_domain_id p"
      "\<And>p. pol_terminal_failure_at (f p) = None \<or> pol_terminal_failure_at (f p) = pol_terminal_failure_at p"
  shows "sched_inv d'"
proof -
  have act: "active_at d' = active_at d" by (rule active_at_cong) (rule att)
  have "policies_ok d'"
  proof (rule policies_ok_update)
    show "policies_ok d" using inv by (simp add: sched_inv_def)
    show "db_policies d' = map (\<lambda>p. if pol_domain_id p = i then f p else p) (db_policies d)"
      using upd by (simp add: update_policies_def sql_simps sel)
    show "\<forall>p \<in> set (db_policies d). pol_domain_id p = i \<longrightarrow> policy_check (f p)"
      using upd by (simp add: update_policies_def sql_simps sel)
    show "active_at d' i = []" if "p \<in> set (db_policies d)" "pol_domain_id p = i" "pol_terminal_failure_at (f p) \<noteq> None" for p
    proof -
      have "pol_terminal_failure_at p \<noteq> None" using f(2) [of p] that(3) by auto
      then show ?thesis using inv that(1,2) by (auto simp: act sched_inv_def policies_ok_def)
    qed
  qed (simp_all add: f(1) act)
  moreover have "attempts_ok d'" using inv attempts_ok_cong [of d' d] att by (simp add: sched_inv_def)
  ultimately show ?thesis by (simp add: sched_inv_def)
qed

lemma request_refresh_ok:
  assumes "sched_inv d" and "request_refresh E d name t cooldown = Inr (req, d')"
  shows "sched_inv d'"
proof -
  from assms(2) have "\<exists>i. update_policies (\<lambda>q. pol_domain_id q = i) (refresh_policy t) (db_policies d) =
      Some (db_policies d')" and "db_attempts d' = db_attempts d" "db_outbox d' = db_outbox d"
    by (auto simp: request_refresh_def split: if_splits option.splits)
  then obtain i where upd: "update_policies (\<lambda>q. pol_domain_id q = i) (refresh_policy t) (db_policies d) = Some (db_policies d')"
    and same: "db_attempts d' = db_attempts d" "db_outbox d' = db_outbox d" by blast
  show ?thesis by (rule sched_inv_policy_update [OF assms(1) same upd refl]) simp_all
qed

lemma request_domain_crawl_ok:
  assumes "sched_inv d" and "request_domain_crawl E d name actor now = Inr d'"
  shows "sched_inv d'"
proof -
  from assms(2) have "\<exists>i. update_policies (\<lambda>q. pol_domain_id q = i)
       (\<lambda>q. q\<lparr>pol_next_crawl_at := Some now, pol_updated_at := now\<rparr>) (db_policies d) = Some (db_policies d')"
    and "db_attempts d' = db_attempts d" "db_outbox d' = db_outbox d"
    by (auto simp: request_domain_crawl_def admin_def insert_audit_Some split: if_splits)
  then obtain i where upd: "update_policies (\<lambda>q. pol_domain_id q = i) (\<lambda>q. q\<lparr>pol_next_crawl_at := Some now, pol_updated_at := now\<rparr>) (db_policies d) = Some (db_policies d')"
    and same: "db_attempts d' = db_attempts d" "db_outbox d' = db_outbox d" by blast
  show ?thesis by (rule sched_inv_policy_update [OF assms(1) same upd refl]) simp_all
qed

lemma retry_terminal_attempt_Inr:
  assumes "retry_terminal_attempt E d text actor now = Inr (r, d')"
  obtains a p n d1 d2 where "a \<in> set (db_attempts d)" "p \<in> set (db_policies d)" "pol_domain_id p = att_domain_id a"
    "att_status a = Failed" "pol_terminal_failure_at p \<noteq> None" "\<not> retry_blocking_code (att_failure_code a)"
    "insert_attempt_and_outbox E (d\<lparr>db_drawn := db_drawn d + 1\<rparr>) (retry_job E a (env_uuid E (db_drawn d))) n now now = Inr d1"
    "set_policy d1 (att_domain_id a)
       (\<lambda>q. q\<lparr>pol_terminal_failure_at := None, pol_next_crawl_at := Some now, pol_updated_at := now\<rparr>) = Inr d2"
    "db_attempts d' = db_attempts d2" "db_outbox d' = db_outbox d2" "db_policies d' = db_policies d2"
    "n = att_number a + 1"
proof -
  from assms obtain j a r' p where j: "env_uuid_parse E text = Some j" "find_attempt_join d j = Some (a, r', p)"
    by (auto simp: retry_terminal_attempt_def)
  then have "a \<in> set (db_attempts d)" "p \<in> set (db_policies d)" "pol_domain_id p = att_domain_id a"
    by (auto simp: find_attempt_join_def find_Some_iff split: option.splits)
  with assms j that show thesis
    by (auto simp: retry_terminal_attempt_def draw_uuid_def admin_def insert_audit_Some i16_checked_succ_def
        split: if_splits)
qed

lemma retry_job_domain [simp]: "job_domain_id (retry_job E a j) = DomainId (att_domain_id a)"
  by (simp add: retry_job_def)

lemma retry_terminal_attempt_ok:
  assumes inv: "sched_inv d" and ret: "retry_terminal_attempt E d text actor now = Inr (r, d')"
  shows "sched_inv d'"
proof -
  let ?f = "\<lambda>q. q\<lparr>pol_terminal_failure_at := None, pol_next_crawl_at := Some now, pol_updated_at := now\<rparr>"
  let ?d = "d\<lparr>db_drawn := db_drawn d + 1\<rparr>"
  from ret obtain a p n d1 d2 where p: "p \<in> set (db_policies d)" "pol_domain_id p = att_domain_id a"
    "pol_terminal_failure_at p \<noteq> None"
    and ins: "insert_attempt_and_outbox E ?d (retry_job E a (env_uuid E (db_drawn d))) n now now = Inr d1"
    and pol: "set_policy d1 (att_domain_id a) ?f = Inr d2"
    and eq: "db_attempts d' = db_attempts d2" "db_outbox d' = db_outbox d2" "db_policies d' = db_policies d2"
    by (rule retry_terminal_attempt_Inr)
  have free: "active_at d (att_domain_id a) = []" using inv p by (auto simp: sched_inv_def policies_ok_def)
  have "attempts_ok ?d" using inv attempts_ok_cong [of ?d d] by (simp add: sched_inv_def)
  note ins_ok = insert_attempt_ok [OF this ins, simplified, OF free]
  have d2: "d2 = d1\<lparr>db_policies := map (\<lambda>p. if pol_domain_id p = att_domain_id a then ?f p else p) (db_policies d1)\<rparr>"
    and chk: "\<forall>p \<in> set (db_policies d1). pol_domain_id p = att_domain_id a \<longrightarrow> policy_check (?f p)"
    using pol by (auto simp: set_policy_Inr)
  have act: "active_at d' = active_at d1" using active_at_cong [OF eq(1)] by (simp add: d2)
  have "attempts_ok d'" using ins_ok(1) attempts_ok_cong [of d' d1] eq by (simp add: d2)
  moreover have "policies_ok d'"
    using inv chk ins_ok(3) by (intro policies_ok_update [of d d' "att_domain_id a" ?f])
      (auto simp: sched_inv_def eq d2 act ins_ok(2))
  ultimately show ?thesis by (simp add: sched_inv_def)
qed

lemma sched_inv_audit [simp]: "sched_inv (d\<lparr>db_audit := us\<rparr>) = sched_inv d"
  by (simp add: sched_inv_def attempts_ok_def policies_ok_def)

lemmas operations_keep_inv =
  insert_domain_inv reserve_due_ok recover_stale_ok mark_published_ok record_publish_failure_ok
  claim_attempt_ok record_attempt_outcome_ok request_refresh_ok request_domain_crawl_ok retry_terminal_attempt_ok

lemma sched_step_inv: "sched_step E l d d' \<Longrightarrow> sched_inv d \<Longrightarrow> sched_inv d'"
proof (induction rule: sched_step.induct)
  case (create t d nd x d')
  then show ?case by (auto simp: repository_create_def intro: insert_domain_inv)
next
  case (create_audit t d nd actor x d')
  then show ?case by (auto simp: repository_create_with_audit_def insert_audit_Some dest: insert_domain_inv)
qed (blast intro: operations_keep_inv)+

lemma empty_db_inv: "sched_inv empty_db"
  by (simp add: sched_inv_def attempts_ok_def policies_ok_def active_at_def empty_db_def)

lemma reachable_inv: "reachable E d \<Longrightarrow> sched_inv d"
  by (induction rule: reachable.induct) (auto intro: empty_db_inv sched_step_inv)

end
