(* ===== verification/Schedule_Properties.thy ===== *)
theory Schedule_Properties
  imports Schedule_Invariants
begin

text \<open>
  What the scheduling operations achieve: the reachable states, how attempts evolve, which domains
  are reserved, how a failure is retried, and what happens to a domain whose job could not be
  published.
\<close>

section \<open>How attempts evolve\<close>

definition evolves :: "attempt_row \<Rightarrow> attempt_row \<Rightarrow> bool" where
  "evolves a b =
     (b = a \<or> (att_ident b = att_ident a \<and> att_number b = att_number a \<and> active_status (att_status a)
               \<and> (att_status b = Running \<or> att_status b = Succeeded \<or> att_status b = Failed)))"

definition attempts_evolve :: "attempt_row list \<Rightarrow> attempt_row list \<Rightarrow> bool" where
  "attempts_evolve as bs = (length as \<le> length bs \<and> list_all2 evolves as (take (length as) bs))"

lemma evolves_refl [simp]: "evolves a a"
  by (simp add: evolves_def)



lemma attempts_evolve_refl [simp]: "attempts_evolve as as"
  by (simp add: attempts_evolve_def list_all2_same)






lemma set_policy_attempts: "set_policy d i f = Inr d' \<Longrightarrow> db_attempts d' = db_attempts d"
  by (auto simp: set_policy_Inr)






lemma recover_stale_db:
  assumes "recover_stale_attempts E d now stale_after limit settings = (r, d')"
  obtains "d' = d"
  | failure before n where "d' = snd (expire_jobs E failure now settings d (stale_jobs d before n))"
  using assms
  by (auto simp: recover_stale_attempts_def split: if_splits sum.splits prod.splits) (metis snd_conv)+


section \<open>What a step leaves alone\<close>

lemma set_attempt_keeps:
  "set_attempt d i f = Inr d' \<Longrightarrow> a \<in> set (db_attempts d) \<Longrightarrow> att_id a \<noteq> i \<Longrightarrow> a \<in> set (db_attempts d')"
  by (force simp: set_attempt_Inr)

lemma insert_attempt_keeps:
  "insert_attempt_and_outbox E d job n t c = Inr d' \<Longrightarrow>
     set (db_attempts d) \<subseteq> set (db_attempts d') \<and> set (db_outbox d) \<subseteq> set (db_outbox d')"
  by (auto simp: insert_attempt_and_outbox_Inr Let_def)

lemma set_policy_keeps: "set_policy d i f = Inr d' \<Longrightarrow> db_attempts d' = db_attempts d \<and> db_outbox d' = db_outbox d"
  by (auto simp: set_policy_Inr)

lemma set_attempt_outbox: "set_attempt d i f = Inr d' \<Longrightarrow> db_outbox d' = db_outbox d"
  by (auto simp: set_attempt_Inr)

lemma record_failed_keeps:
  assumes "record_failed E d x failure now settings = Inr d'"
  shows "(\<forall>a \<in> set (db_attempts d). att_id a \<noteq> att_id x \<longrightarrow> a \<in> set (db_attempts d'))
     \<and> set (db_outbox d) \<subseteq> set (db_outbox d')"
  using assms
proof (cases rule: record_failed_cases)
  case (retry d1 d2 number delay job retry_at)
  have "set (db_attempts d1) \<subseteq> set (db_attempts d') \<and> set (db_outbox d1) \<subseteq> set (db_outbox d')"
    using insert_attempt_keeps [OF retry(7)] set_policy_keeps [OF retry(8)] by simp
  with set_attempt_keeps [OF retry(1)] set_attempt_outbox [OF retry(1)] show ?thesis by auto
next
  case (exhaust d1 number)
  with set_attempt_keeps [OF exhaust(1)] set_attempt_outbox [OF exhaust(1)] set_policy_keeps [OF exhaust(4)]
  show ?thesis by auto
qed

lemma attempts_distinct:
  "attempts_ok d \<Longrightarrow> a \<in> set (db_attempts d) \<Longrightarrow> x \<in> set (db_attempts d) \<Longrightarrow> att_id a = att_id x \<Longrightarrow> a = x"
  "attempts_ok d \<Longrightarrow> a \<in> set (db_attempts d) \<Longrightarrow> x \<in> set (db_attempts d) \<Longrightarrow> att_job_id a = att_job_id x \<Longrightarrow> a = x"
  by (auto simp: attempts_ok_def distinct_map inj_on_def)

lemma outbox_distinct:
  assumes "attempts_ok d" and "b \<in> set (db_outbox d)" and "c \<in> set (db_outbox d)" and "obx_job_id b = obx_job_id c"
  shows "b = c"
proof -
  have "distinct (map obx_job_id (db_outbox d))"
    using assms(1) ident_job_ids by (metis attempts_ok_def)
  with assms(2-) show ?thesis by (auto simp: distinct_map inj_on_def)
qed

lemma record_attempt_outcome_keeps:
  assumes ok: "attempts_ok d" and rec: "record_attempt_outcome E d j oc now settings = Inr d'"
  shows "(\<forall>a \<in> set (db_attempts d). att_job_id a \<noteq> crawl_job_id_as_uuid j \<longrightarrow> a \<in> set (db_attempts d'))
     \<and> set (db_outbox d) \<subseteq> set (db_outbox d')"
proof -
  from rec obtain x where x: "find_attempt d (crawl_job_id_as_uuid j) = Some x"
    by (auto simp: record_attempt_outcome_def)
  note mem = find_attempt_Some [OF x]
  have other: "att_id a \<noteq> att_id x" if "a \<in> set (db_attempts d)" "att_job_id a \<noteq> crawl_job_id_as_uuid j" for a
    using attempts_distinct(1) [OF ok that(1)] mem that(2) by auto
  show ?thesis
  proof (cases "active_status (att_status x)")
    case True
    show ?thesis
    proof (cases oc)
      case OutcomeSucceeded
      with rec x True obtain d1 where d1: "set_attempt d (att_id x) (succeed_attempt now) = Inr d1"
        "set_policy d1 (att_domain_id x) (succeed_policy now) = Inr d'"
        by (auto simp: record_attempt_outcome_def)
      then show ?thesis
        using set_attempt_keeps [OF d1(1)] set_attempt_outbox [OF d1(1)] set_policy_keeps [OF d1(2)] other by auto
    next
      case (OutcomeFailed failure)
      with rec x True have "record_failed E d x failure now settings = Inr d'"
        by (simp add: record_attempt_outcome_def)
      from record_failed_keeps [OF this] other show ?thesis by auto
    qed
  next
    case False
    with rec x show ?thesis by (simp add: record_attempt_outcome_def)
  qed
qed

lemma expire_jobs_keeps:
  "sched_inv d \<Longrightarrow>
     (\<forall>a \<in> set (db_attempts d). att_job_id a \<notin> set js \<longrightarrow>
        a \<in> set (db_attempts (snd (expire_jobs E failure now settings d js))))
     \<and> set (db_outbox d) \<subseteq> set (db_outbox (snd (expire_jobs E failure now settings d js)))"
proof (induction js arbitrary: d)
  case (Cons j js)
  show ?case
  proof (cases "record_attempt_outcome E d (CrawlJobId j) (OutcomeFailed failure) now settings")
    case (Inr d1)
    have "attempts_ok d" using Cons.prems by (simp add: sched_inv_def)
    note keep = record_attempt_outcome_keeps [OF this Inr]
    note rest = Cons.IH [OF record_attempt_outcome_ok [OF Cons.prems Inr]]
    show ?thesis using keep rest by (auto simp: Inr)
  qed simp
qed simp

lemma stale_jobs_running:
  "j \<in> set (stale_jobs d before n) \<Longrightarrow> \<exists>x \<in> set (db_attempts d). att_job_id x = j \<and> att_status x = Running"
  by (auto simp: stale_jobs_def stale_def dest!: in_set_takeD)

lemma reserve_rows_keeps:
  "reserve_rows E now d is = Inr (jobs, d') \<Longrightarrow>
     set (db_attempts d) \<subseteq> set (db_attempts d') \<and> set (db_outbox d) \<subseteq> set (db_outbox d')"
proof (induction "is" arbitrary: d jobs)
  case (Cons i "is")
  from Cons.prems obtain job d1 jobs1 where one: "reserve_one E now d i = Inr (job, d1)"
    and rest: "reserve_rows E now d1 is = Inr (jobs1, d')"
    by auto
  from one obtain d2 where ins: "insert_attempt_and_outbox E (d\<lparr>db_drawn := db_drawn d + 1 + 1\<rparr>) job 1 now now = Inr d2"
    and pol: "set_policy d2 i (reserve_policy now) = Inr d1"
    by (rule reserve_one_Inr)
  from insert_attempt_keeps [OF ins] set_policy_keeps [OF pol] Cons.IH [OF rest] show ?case by auto
qed simp

lemma update_outbox_keeps:
  "update_outbox sel f bs = Some bs' \<Longrightarrow> b \<in> set bs \<Longrightarrow> \<not> sel b \<Longrightarrow> b \<in> set bs'"
  by (force simp: update_outbox_def sql_simps)

lemma publish_failure_keeps:
  assumes ok: "attempts_ok d" and rec: "record_publish_failure E d j now settings = Inr d'"
    and b: "b \<in> set (db_outbox d)" "obx_terminal_failure_at b \<noteq> None"
  shows "b \<in> set (db_outbox d')"
proof -
  from rec obtain c where c: "find (\<lambda>b. obx_job_id b = crawl_job_id_as_uuid j) (db_outbox d) = Some c"
    by (auto simp: record_publish_failure_def)
  then have mem: "c \<in> set (db_outbox d)" "obx_job_id c = crawl_job_id_as_uuid j" by (auto simp: find_Some_iff)
  show ?thesis
  proof (cases "obx_job_id b = crawl_job_id_as_uuid j")
    case True
    then have "b = c" using outbox_distinct [OF ok b(1) mem(1)] mem(2) by simp
    with rec c b show ?thesis by (simp add: record_publish_failure_def)
  next
    case False
    then show ?thesis
      using rec c b update_outbox_keeps [OF _ b(1)]
      by (auto simp: record_publish_failure_def sched_def split: if_splits)
  qed
qed

lemma retry_keeps:
  assumes "retry_terminal_attempt E d text actor now = Inr (r, d')"
  shows "set (db_attempts d) \<subseteq> set (db_attempts d') \<and> set (db_outbox d) \<subseteq> set (db_outbox d')"
  using assms
proof (rule retry_terminal_attempt_Inr)
  fix a n d1 d2
  assume ins: "insert_attempt_and_outbox E (d\<lparr>db_drawn := db_drawn d + 1\<rparr>) (retry_job E a (env_uuid E (db_drawn d))) n now now = Inr d1"
    and pol: "set_policy d1 (att_domain_id a)
      (\<lambda>q. q\<lparr>pol_terminal_failure_at := None, pol_next_crawl_at := Some now, pol_updated_at := now\<rparr>) = Inr d2"
    and "db_attempts d' = db_attempts d2" "db_outbox d' = db_outbox d2"
  then show ?thesis using insert_attempt_keeps [OF ins] set_policy_keeps [OF pol] by auto
qed

lemma sched_step_keeps:
  assumes "sched_step E l d d'" and "sched_inv d"
  shows "(\<forall>a \<in> set (db_attempts d). att_status a = Queued \<longrightarrow> l \<noteq> Some (att_job_id a) \<longrightarrow> a \<in> set (db_attempts d'))
     \<and> (\<forall>b \<in> set (db_outbox d). obx_terminal_failure_at b \<noteq> None \<longrightarrow> b \<in> set (db_outbox d'))"
  using assms
proof (induction rule: sched_step.induct)
  case (create t d nd x d')
  then show ?case by (auto simp: repository_create_def elim!: insert_domain_Inr)
next
  case (create_audit t d nd actor x d')
  then show ?case
    by (auto simp: repository_create_with_audit_def insert_audit_Some elim!: insert_domain_Inr)
next
  case (reserve locked d now limit jobs d')
  then show ?case using reserve_rows_keeps by (fastforce simp: reserve_due_def split: if_splits)
next
  case (recover d now stale_after limit settings r d')
  from recover(1) show ?case
  proof (rule recover_stale_db)
    fix failure before n
    assume d': "d' = snd (expire_jobs E failure now settings d (stale_jobs d before n))"
    have "attempts_ok d" using recover(2) by (simp add: sched_inv_def)
    have "att_job_id a \<notin> set (stale_jobs d before n)" if a: "a \<in> set (db_attempts d)" "att_status a = Queued" for a
    proof
      assume "att_job_id a \<in> set (stale_jobs d before n)"
      then obtain x where "x \<in> set (db_attempts d)" "att_job_id x = att_job_id a" "att_status x = Running"
        using stale_jobs_running by blast
      with attempts_distinct(2) [OF \<open>attempts_ok d\<close>] a show False by (metis attempt_status.distinct(1))
    qed
    with expire_jobs_keeps [OF recover(2), of "stale_jobs d before n" E failure now settings]
    show ?thesis by (auto simp: d')
  qed simp
next
  case (published d j now d')
  then show ?case by (auto simp: mark_published_def sched_def Let_def split: if_splits dest: update_outbox_keeps)
next
  case (publish_failed d j now settings d')
  have "db_attempts d' = db_attempts d"
    using publish_failed by (auto simp: record_publish_failure_def split: if_splits)
  moreover have "attempts_ok d" using publish_failed(2) by (simp add: sched_inv_def)
  ultimately show ?case using publish_failure_keeps [OF _ publish_failed(1)] by auto
next
  case (claim d job t c d')
  from claim(1) show ?case
  proof (rule claim_attempt_Inr)
    fix x cd
    assume x: "x \<in> set (db_attempts d)" "job_matches job x" and s: "set_attempt d (att_id x) (start_attempt t) = Inr d'"
    have "att_id a \<noteq> att_id x" if "a \<in> set (db_attempts d)" "att_job_id a \<noteq> crawl_job_id_as_uuid (job_id job)" for a
      using attempts_distinct(1) [of d a x] that x claim(2) by (auto simp: sched_inv_def job_matches_def)
    with set_attempt_keeps [OF s] set_attempt_outbox [OF s] show ?thesis by auto
  qed simp
next
  case (outcome d j oc now settings d')
  then show ?case using record_attempt_outcome_keeps [OF _ outcome(1)] by (auto simp: sched_inv_def)
next
  case (refresh d name t cooldown req d')
  then show ?case by (auto simp: request_refresh_def split: if_splits option.splits)
next
  case (request_crawl d name actor now d')
  then show ?case by (auto simp: request_domain_crawl_def admin_def insert_audit_Some split: if_splits)
next
  case (retry d job_text actor now r d')
  then show ?case using retry_keeps by blast
qed

text \<open>A run in which no worker acts for job \<open>j\<close>.\<close>

inductive run_without :: "env \<Rightarrow> uuid \<Rightarrow> db \<Rightarrow> db \<Rightarrow> bool" for E j where
  stay: "run_without E j d d"
| move: "run_without E j d d1 \<Longrightarrow> sched_step E l d1 d2 \<Longrightarrow> l \<noteq> Some j \<Longrightarrow> run_without E j d d2"

lemma run_without_keeps:
  assumes "run_without E (att_job_id a) d d'" and "sched_inv d" and "a \<in> set (db_attempts d)" and "att_status a = Queued"
    and "b \<in> set (db_outbox d)" and "obx_terminal_failure_at b \<noteq> None"
  shows "sched_inv d' \<and> a \<in> set (db_attempts d') \<and> b \<in> set (db_outbox d')"
  using assms
proof (induction rule: run_without.induct)
  case (move d d1 l d2)
  with sched_step_keeps [OF move(2)] sched_step_inv [OF move(2)] show ?case by blast
qed simp

lemma active_blocks_selection:
  "a \<in> set (db_attempts d) \<Longrightarrow> active_status (att_status a) \<Longrightarrow> att_domain_id a \<notin> set (select_due d locked now n)"
  by (auto simp: select_due_def due_def has_active_attempt_def list_ex_iff dest!: in_set_takeD)

lemma reserve_rows_rows:
  "reserve_rows E now d is = Inr (jobs, d') \<Longrightarrow>
     map (\<lambda>job. domain_id_as_uuid (job_domain_id job)) jobs = is
     \<and> (\<exists>as. db_attempts d' = db_attempts d @ as \<and> map att_domain_id as = is
            \<and> map att_job_id as = map (\<lambda>job. crawl_job_id_as_uuid (job_id job)) jobs
            \<and> (\<forall>a \<in> set as. att_status a = Queued \<and> att_number a = 1 \<and> att_queued_at a = now))"
proof (induction "is" arbitrary: d jobs)
  case (Cons i "is")
  from Cons.prems obtain job d1 jobs1 where one: "reserve_one E now d i = Inr (job, d1)"
    and rest: "reserve_rows E now d1 is = Inr (jobs1, d')" and jobs: "jobs = job # jobs1"
    by auto
  from one obtain d2 where ins: "insert_attempt_and_outbox E (d\<lparr>db_drawn := db_drawn d + 1 + 1\<rparr>) job 1 now now = Inr d2"
    and dom: "domain_id_as_uuid (job_domain_id job) = i" and pol: "set_policy d2 i (reserve_policy now) = Inr d1"
    by (rule reserve_one_Inr)
  let ?a = "queued_attempt (env_uuid E (db_drawn d + 1 + 1)) job 1 now now"
  have d1: "db_attempts d1 = db_attempts d @ [?a]"
    using ins set_policy_attempts [OF pol] by (auto simp: insert_attempt_and_outbox_Inr Let_def)
  from Cons.IH [OF rest] obtain as where as: "db_attempts d' = db_attempts d1 @ as" "map att_domain_id as = is"
    "map att_job_id as = map (\<lambda>job. crawl_job_id_as_uuid (job_id job)) jobs1"
    "\<forall>a \<in> set as. att_status a = Queued \<and> att_number a = 1 \<and> att_queued_at a = now"
    "map (\<lambda>job. domain_id_as_uuid (job_domain_id job)) jobs1 = is"
    by blast
  have "db_attempts d' = db_attempts d @ (?a # as)" using as(1) d1 by simp
  with as(2-) dom jobs show ?case by (intro conjI exI [of _ "?a # as"]) auto
qed simp

lemma sorted_take_rest:
  assumes "sorted (map k xs)" and "x \<in> set (take n xs)" and "y \<in> set (drop n xs)"
  shows "k x \<le> (k y :: 'b::linorder)"
proof -
  have "sorted (map k (take n xs) @ map k (drop n xs))" using assms(1) by (metis append_take_drop_id map_append)
  with assms(2,3) show ?thesis by (auto simp: sorted_append)
qed

section \<open>Properties\<close>

text \<open>
  C1: in every state the scheduler, the workers, the administrators and the public can reach, a
  domain has at most one queued or running attempt, a terminally failed policy has none, the
  outbox holds exactly one row per attempt with the attempt's own identity, and every row of the
  three tables satisfies its constraints.
\<close>

theorem reachable_states_consistent:
  assumes "reachable E d"
  shows "length (active_at d i) \<le> 1
     \<and> map att_ident (db_attempts d) = map obx_ident (db_outbox d)
     \<and> distinct (map att_job_id (db_attempts d))
     \<and> (\<forall>p \<in> set (db_policies d). pol_terminal_failure_at p \<noteq> None \<longrightarrow> \<not> has_active_attempt d (pol_domain_id p))
     \<and> (\<forall>a \<in> set (db_attempts d). attempt_check a) \<and> (\<forall>b \<in> set (db_outbox d). outbox_check b)
     \<and> (\<forall>p \<in> set (db_policies d). policy_check p)"
  using reachable_inv [OF assms]
  by (auto simp: sched_inv_def attempts_ok_def policies_ok_def active_at_iff)

definition sample_new :: new_domain where
  "sample_new = \<lparr>new_canonical_domain = CanonicalDomain ''c.com'',
     new_crawl_policy = \<lparr>priority = High, desired_interval = 1000\<rparr>\<rparr>"

definition sample_settings :: scheduler_settings where
  "sample_settings = \<lparr>max_crawl_retries = 1, crawl_retry_base = 10, max_outbox_publish_attempts = 1,
     outbox_retry_base = 5\<rparr>"

definition right_or :: "'a \<Rightarrow> 'e + 'a \<Rightarrow> 'a" where
  "right_or x r = (case r of Inl _ \<Rightarrow> x | Inr y \<Rightarrow> y)"

text \<open>A domain is created, reserved, and its job fails to be published.\<close>

definition sample_d1 :: db where
  "sample_d1 = right_or empty_db (map_sum id snd (repository_create sample_env 0 empty_db sample_new))"

definition sample_d2 :: db where
  "sample_d2 = right_or empty_db (map_sum id snd (reserve_due sample_env (\<lambda>_. False) sample_d1 5 10))"

definition sample_d3 :: db where
  "sample_d3 = right_or empty_db (record_publish_failure sample_env sample_d2 (CrawlJobId 1) 6 sample_settings)"

definition sample_d4 :: db where
  "sample_d4 = right_or empty_db
     (map_sum id snd (request_refresh sample_env sample_d3 (CanonicalDomain ''c.com'') 7 1))"

lemma sample_steps:
  "\<exists>x. repository_create sample_env 0 empty_db sample_new = Inr (x, sample_d1)"
  "\<exists>jobs. reserve_due sample_env (\<lambda>_. False) sample_d1 5 10 = Inr (jobs, sample_d2)"
  "record_publish_failure sample_env sample_d2 (CrawlJobId 1) 6 sample_settings = Inr sample_d3"
  "\<exists>r. request_refresh sample_env sample_d3 (CanonicalDomain ''c.com'') 7 1 = Inr (r, sample_d4)"
proof -
  have pick: "is_ok r \<Longrightarrow> \<exists>x. r = Inr (x, right_or e (map_sum id snd r))" for e :: db and r :: "'e + ('b \<times> db)"
    by (cases r) (auto simp: right_or_def)
  have pick1: "is_ok r \<Longrightarrow> r = Inr (right_or e r)" for e :: db and r :: "'e + db"
    by (cases r) (auto simp: right_or_def)
  have "is_ok (repository_create sample_env 0 empty_db sample_new)" by code_simp
  then show "\<exists>x. repository_create sample_env 0 empty_db sample_new = Inr (x, sample_d1)"
    unfolding sample_d1_def by (rule pick)
  have "is_ok (reserve_due sample_env (\<lambda>_. False) sample_d1 5 10)" by code_simp
  then show "\<exists>jobs. reserve_due sample_env (\<lambda>_. False) sample_d1 5 10 = Inr (jobs, sample_d2)"
    unfolding sample_d2_def by (rule pick)
  have "is_ok (record_publish_failure sample_env sample_d2 (CrawlJobId 1) 6 sample_settings)" by code_simp
  then show "record_publish_failure sample_env sample_d2 (CrawlJobId 1) 6 sample_settings = Inr sample_d3"
    unfolding sample_d3_def by (rule pick1)
  have "is_ok (request_refresh sample_env sample_d3 (CanonicalDomain ''c.com'') 7 1)" by code_simp
  then show "\<exists>r. request_refresh sample_env sample_d3 (CanonicalDomain ''c.com'') 7 1 = Inr (r, sample_d4)"
    unfolding sample_d4_def by (rule pick)
qed

lemma sample_reachable: "reachable sample_env sample_d2" "reachable sample_env sample_d3"
proof -
  have "reachable sample_env sample_d1"
    using sample_steps(1) by (blast intro: reachable.intros sched_step.intros)
  then show d2: "reachable sample_env sample_d2"
    using sample_steps(2) by (blast intro: reachable.intros sched_step.intros)
  show "reachable sample_env sample_d3"
    using d2 sample_steps(3) by (blast intro: reachable.intros sched_step.intros)
qed

theorem reachable_states_consistent_witness:
  "length (active_at sample_d2 0) \<le> 1 \<and> length (db_attempts sample_d2) = 1
   \<and> map att_ident (db_attempts sample_d2) = map obx_ident (db_outbox sample_d2)
   \<and> list_all (\<lambda>p. pol_terminal_failure_at p = None \<or> \<not> has_active_attempt sample_d2 (pol_domain_id p)) (db_policies sample_d2)
   \<and> list_all attempt_check (db_attempts sample_d2) \<and> list_all outbox_check (db_outbox sample_d2)
   \<and> list_all policy_check (db_policies sample_d2)"
proof -
  have "length (db_attempts sample_d2) = 1" by code_simp
  with reachable_states_consistent [OF sample_reachable(1), of 0] show ?thesis
    unfolding list_all_iff by blast
qed





text \<open>
  C5: when a job's publication has failed for good, its domain is never crawled again: as long as
  no worker acts for that job (none ever receives it), whatever else the scheduler, the
  administrators or the public do, the attempt stays queued, the outbox row stays failed and is
  never offered for publication, and the domain is never selected as due.
\<close>

theorem lost_publication_blocks_domain:
  assumes "sched_inv d" and "a \<in> set (db_attempts d)" and "att_status a = Queued"
    and "b \<in> set (db_outbox d)" and "obx_job_id b = att_job_id a" and "obx_terminal_failure_at b \<noteq> None"
    and "run_without E (att_job_id a) d d'"
  shows "a \<in> set (db_attempts d') \<and> b \<in> set (db_outbox d')
     \<and> (\<forall>c \<in> set (filter (publishable now) (db_outbox d')). obx_job_id c \<noteq> att_job_id a)
     \<and> att_domain_id a \<notin> set (select_due d' locked now limit)"
proof -
  have keep: "sched_inv d'" "a \<in> set (db_attempts d')" "b \<in> set (db_outbox d')"
    using run_without_keeps [OF assms(7,1-4,6)] by auto
  have "\<forall>c \<in> set (filter (publishable now) (db_outbox d')). obx_job_id c \<noteq> att_job_id a"
  proof (intro ballI notI)
    fix c assume c: "c \<in> set (filter (publishable now) (db_outbox d'))" and eq: "obx_job_id c = att_job_id a"
    have "attempts_ok d'" using keep(1) by (simp add: sched_inv_def)
    then have "c = b" using c eq assms(5) keep(3) by (intro outbox_distinct [of d' c b]) simp_all
    with c assms(6) show False by (simp add: publishable_def)
  qed
  with keep active_blocks_selection [OF keep(2)] assms(3) show ?thesis by simp
qed

theorem lost_publication_blocks_domain_witness:
  "hd (db_attempts sample_d3) \<in> set (db_attempts sample_d4) \<and> hd (db_outbox sample_d3) \<in> set (db_outbox sample_d4)
   \<and> list_all (\<lambda>c. obx_job_id c \<noteq> att_job_id (hd (db_attempts sample_d3))) (filter (publishable 100) (db_outbox sample_d4))
   \<and> att_domain_id (hd (db_attempts sample_d3)) \<notin> set (select_due sample_d4 (\<lambda>_. False) 100 10)"
  unfolding list_all_iff
proof (rule lost_publication_blocks_domain)
  show "sched_inv sample_d3" by (rule reachable_inv [OF sample_reachable(2)])
  have ne: "db_attempts sample_d3 \<noteq> []" "db_outbox sample_d3 \<noteq> []" by code_simp+
  then show "hd (db_attempts sample_d3) \<in> set (db_attempts sample_d3)" "hd (db_outbox sample_d3) \<in> set (db_outbox sample_d3)"
    by simp_all
  show "att_status (hd (db_attempts sample_d3)) = Queued" by code_simp
  show "obx_job_id (hd (db_outbox sample_d3)) = att_job_id (hd (db_attempts sample_d3))" by code_simp
  show "obx_terminal_failure_at (hd (db_outbox sample_d3)) \<noteq> None" by code_simp
  show "run_without sample_env (att_job_id (hd (db_attempts sample_d3))) sample_d3 sample_d4"
    using sample_steps(4) run_without.stay by (blast intro: run_without.move [where l = None] sched_step.refresh)
qed


text \<open>
  C7: a successful reservation takes the most urgent due domains that no other transaction holds:
  as many as the limit allows, in the order of priority, due time and id, and no domain left out is
  more urgent than one that was taken.  Each of them gets one first attempt, queued now.
\<close>

theorem reserve_due_takes_most_urgent:
  assumes "reserve_due E locked d now limit = Inr (jobs, d')" and "0 < limit"
  shows "\<exists>ps rest. sort_key due_key (filter (\<lambda>p. due d now p \<and> \<not> locked (pol_domain_id p)) (db_policies d)) = ps @ rest
     \<and> length ps = min limit (length (ps @ rest))
     \<and> (\<forall>p \<in> set ps. \<forall>q \<in> set rest. due_key p \<le> due_key q)
     \<and> map (\<lambda>job. domain_id_as_uuid (job_domain_id job)) jobs = map pol_domain_id ps
     \<and> (\<exists>as. db_attempts d' = db_attempts d @ as \<and> map att_domain_id as = map pol_domain_id ps
            \<and> (\<forall>a \<in> set as. att_status a = Queued \<and> att_number a = 1 \<and> att_queued_at a = now))"
proof -
  let ?u = "sort_key due_key (filter (\<lambda>p. due d now p \<and> \<not> locked (pol_domain_id p)) (db_policies d))"
  from assms have "reserve_rows E now d (select_due d locked now limit) = Inr (jobs, d')"
    by (auto simp: reserve_due_def sched_def i64_try_from_def split: if_splits)
  moreover have "select_due d locked now limit = map pol_domain_id (take limit ?u)"
    by (simp add: select_due_def filter_sort conj_commute)
  ultimately have rows: "reserve_rows E now d (map pol_domain_id (take limit ?u)) = Inr (jobs, d')" by (simp only:)
  have "map (\<lambda>job. domain_id_as_uuid (job_domain_id job)) jobs = map pol_domain_id (take limit ?u)
     \<and> (\<exists>as. db_attempts d' = db_attempts d @ as \<and> map att_domain_id as = map pol_domain_id (take limit ?u)
            \<and> (\<forall>a \<in> set as. att_status a = Queued \<and> att_number a = 1 \<and> att_queued_at a = now))"
    using reserve_rows_rows [OF rows] by blast
  moreover have "\<forall>p \<in> set (take limit ?u). \<forall>q \<in> set (drop limit ?u). due_key p \<le> due_key q"
    by (intro ballI sorted_take_rest [of due_key ?u]) simp_all
  moreover have "?u = take limit ?u @ drop limit ?u" by simp
  ultimately show ?thesis by (intro exI [of _ "take limit ?u"] exI [of _ "drop limit ?u"]) (simp add: min.commute)
qed

definition sample_d5 :: db where
  "sample_d5 = right_or empty_db (map_sum id snd (reserve_due sample_env (\<lambda>_. False) sample_db 5 1))"

definition sample_jobs :: "crawl_job_v1 list" where
  "sample_jobs = right_or [] (map_sum id fst (reserve_due sample_env (\<lambda>_. False) sample_db 5 1))"

theorem reserve_due_takes_most_urgent_witness:
  "\<exists>ps rest. sort_key due_key (filter (\<lambda>p. due sample_db 5 p \<and> \<not> (\<lambda>_. False) (pol_domain_id p)) (db_policies sample_db)) = ps @ rest
     \<and> length ps = min 1 (length (ps @ rest))
     \<and> (\<forall>p \<in> set ps. \<forall>q \<in> set rest. due_key p \<le> due_key q)
     \<and> map (\<lambda>job. domain_id_as_uuid (job_domain_id job)) sample_jobs = map pol_domain_id ps
     \<and> (\<exists>as. db_attempts sample_d5 = db_attempts sample_db @ as \<and> map att_domain_id as = map pol_domain_id ps
            \<and> (\<forall>a \<in> set as. att_status a = Queued \<and> att_number a = 1 \<and> att_queued_at a = 5))"
proof (rule reserve_due_takes_most_urgent)
  have "is_ok (reserve_due sample_env (\<lambda>_. False) sample_db 5 1)" by code_simp
  then show "reserve_due sample_env (\<lambda>_. False) sample_db 5 1 = Inr (sample_jobs, sample_d5)"
    unfolding sample_jobs_def sample_d5_def is_ok_iff by (auto simp: right_or_def)
qed simp

text \<open>
  C6: recording a failure either queues exactly one retry, numbered one higher, for the same domain
  and correlation id, after the exponential delay; or, once the configured retries are used up,
  queues nothing and marks the policy as terminally failed.  Every other attempt is left alone.
\<close>

theorem failure_retries_or_exhausts:
  assumes "env_ok E" and "find_attempt d j = Some a" and "active_status (att_status a)"
    and "record_attempt_outcome E d (CrawlJobId j) (OutcomeFailed failure) now settings = Inr d'"
  shows "(\<exists>n. att_number a \<le> uint (max_crawl_retries settings)
            \<and> db_attempts d' = map (\<lambda>x. if att_id x = att_id a then fail_attempt now failure x else x) (db_attempts d) @ [n]
            \<and> att_status n = Queued \<and> att_domain_id n = att_domain_id a \<and> att_correlation_id n = att_correlation_id a
            \<and> att_number n = att_number a + 1
            \<and> att_queued_at n = now + int (crawl_retry_base settings * 2 ^ (nat (att_number a) - 1))
            \<and> db_policies d' = map (\<lambda>p. if pol_domain_id p = att_domain_id a then retry_policy now (att_queued_at n) p else p) (db_policies d))
       \<or> (att_number a > uint (max_crawl_retries settings)
            \<and> db_attempts d' = map (\<lambda>x. if att_id x = att_id a then fail_attempt now failure x else x) (db_attempts d)
            \<and> db_policies d' = map (\<lambda>p. if pol_domain_id p = att_domain_id a then exhaust_policy now p else p) (db_policies d))"
proof -
  have num: "uint k = att_number a \<and> unat k = nat (att_number a)" if "u8_try_from (att_number a) = Some k" for k
    using that by (auto simp: u8_try_from_def uint_word_of_int take_bit_eq_mod unsigned_of_int nat_mod_distrib split: if_splits)
  from assms(2-4) have "record_failed E d a failure now settings = Inr d'"
    by (simp add: record_attempt_outcome_def)
  then show ?thesis
  proof (cases rule: record_failed_cases)
    case (retry d1 d2 number delay job retry_at)
    let ?n = "queued_attempt (env_uuid E (db_drawn d1 + 1)) job (uint number + 1) retry_at now"
    have d1: "db_attempts d1 = map (\<lambda>x. if att_id x = att_id a then fail_attempt now failure x else x) (db_attempts d)"
      "db_policies d1 = db_policies d" using retry(1) by (auto simp: set_attempt_Inr)
    have d2: "db_attempts d2 = db_attempts d1 @ [?n]" "db_policies d2 = db_policies d1"
      using retry(7) by (auto simp: insert_attempt_and_outbox_Inr Let_def)
    have d': "db_attempts d' = db_attempts d2"
      "db_policies d' = map (\<lambda>p. if pol_domain_id p = att_domain_id a then retry_policy now retry_at p else p) (db_policies d2)"
      using retry(8) by (auto simp: set_policy_Inr)
    have "delay = crawl_retry_base settings * 2 ^ (nat (att_number a) - 1)"
      using retry(4) num [OF retry(2)] by (auto simp: crawl_retry_delay_def exponential_delay_eq split: if_splits)
    then have "retry_at = now + int (crawl_retry_base settings * 2 ^ (nat (att_number a) - 1))"
      using env_add [OF assms(1) retry(5)] by simp
    with d1 d2 d' new_job_domain [OF retry(6)] num [OF retry(2)] retry(3) show ?thesis
      by (intro disjI1 exI [of _ ?n]) (simp add: word_le_def)
  next
    case (exhaust d1 number)
    then show ?thesis using num [OF exhaust(2)]
      by (auto simp: set_attempt_Inr set_policy_Inr word_le_def not_le)
  qed
qed

definition sample_d6 :: db where
  "sample_d6 = right_or empty_db
     (record_attempt_outcome sample_env sample_d2 (CrawlJobId 1)
        (OutcomeFailed \<lparr>failure_code = ''timeout'', failure_summary = ''slow''\<rparr>) 50 sample_settings)"

definition sample_attempt :: attempt_row where
  "sample_attempt = hd (db_attempts sample_d2)"

theorem failure_retries_or_exhausts_witness:
  "(\<exists>n. att_number sample_attempt \<le> uint (max_crawl_retries sample_settings)
            \<and> db_attempts sample_d6 = map (\<lambda>x. if att_id x = att_id sample_attempt
                 then fail_attempt 50 \<lparr>failure_code = ''timeout'', failure_summary = ''slow''\<rparr> x else x) (db_attempts sample_d2) @ [n]
            \<and> att_status n = Queued \<and> att_domain_id n = att_domain_id sample_attempt
            \<and> att_correlation_id n = att_correlation_id sample_attempt
            \<and> att_number n = att_number sample_attempt + 1
            \<and> att_queued_at n = 50 + int (crawl_retry_base sample_settings * 2 ^ (nat (att_number sample_attempt) - 1))
            \<and> db_policies sample_d6 = map (\<lambda>p. if pol_domain_id p = att_domain_id sample_attempt
                 then retry_policy 50 (att_queued_at n) p else p) (db_policies sample_d2))
       \<or> (att_number sample_attempt > uint (max_crawl_retries sample_settings)
            \<and> db_attempts sample_d6 = map (\<lambda>x. if att_id x = att_id sample_attempt
                 then fail_attempt 50 \<lparr>failure_code = ''timeout'', failure_summary = ''slow''\<rparr> x else x) (db_attempts sample_d2)
            \<and> db_policies sample_d6 = map (\<lambda>p. if pol_domain_id p = att_domain_id sample_attempt
                 then exhaust_policy 50 p else p) (db_policies sample_d2))"
proof (rule failure_retries_or_exhausts [OF sample_env_ok])
  show "find_attempt sample_d2 1 = Some sample_attempt" by code_simp
  show "active_status (att_status sample_attempt)" by code_simp
  have "is_ok (record_attempt_outcome sample_env sample_d2 (CrawlJobId 1)
      (OutcomeFailed \<lparr>failure_code = ''timeout'', failure_summary = ''slow''\<rparr>) 50 sample_settings)" by code_simp
  then show "record_attempt_outcome sample_env sample_d2 (CrawlJobId 1)
      (OutcomeFailed \<lparr>failure_code = ''timeout'', failure_summary = ''slow''\<rparr>) 50 sample_settings = Inr sample_d6"
    unfolding sample_d6_def is_ok_iff by (auto simp: right_or_def)
qed

end
