(* ===== verification/Std_Net.thy ===== *)
theory Std_Net
  imports TA_Prelude
begin

text \<open>
  What the crates use of \<^verbatim>\<open>std::net\<close>: IP addresses, their octets and segments, the IPv4-mapped
  form, and the \<open>Display\<close> forms.
\<close>

unbundle bit_operations_syntax

section \<open>Numbers in text\<close>

fun dec_str :: "nat \<Rightarrow> string" where
  "dec_str n = (if n < 10 then [char_of (48 + n)] else dec_str (n div 10) @ [char_of (48 + n mod 10)])"

definition hex_digit :: "nat \<Rightarrow> char" where
  "hex_digit d = (if d < 10 then char_of (48 + d) else char_of (87 + d))"

fun hex_str :: "nat \<Rightarrow> string" where
  "hex_str n = (if n < 16 then [hex_digit n] else hex_str (n div 16) @ [hex_digit (n mod 16)])"

declare dec_str.simps [simp del] hex_str.simps [simp del]

section \<open>Addresses\<close>

datatype ip_addr = V4 u32 | V6 "128 word"

definition octet4 :: "u32 \<Rightarrow> nat \<Rightarrow> u8" where
  "octet4 w k = ucast (drop_bit (24 - 8 * k) w)"

definition octet6 :: "128 word \<Rightarrow> nat \<Rightarrow> u8" where
  "octet6 w k = ucast (drop_bit (120 - 8 * k) w)"

definition segment6 :: "128 word \<Rightarrow> nat \<Rightarrow> u16" where
  "segment6 w k = ucast (drop_bit (112 - 16 * k) w)"

text \<open>\<open>Ipv6Addr::to_ipv4_mapped\<close>: \<open>::ffff:0:0/96\<close>.\<close>

definition to_ipv4_mapped :: "128 word \<Rightarrow> u32 option" where
  "to_ipv4_mapped w = (if drop_bit 32 w = 0xFFFF then Some (ucast w) else None)"

section \<open>Display\<close>

definition ipv4_str :: "u32 \<Rightarrow> string" where
  "ipv4_str w = join_with ''.'' (map (\<lambda>k. dec_str (unat (octet4 w k))) [0..<4])"

text \<open>The first longest run of zero segments, as its start and length.\<close>

fun zero_run :: "nat \<Rightarrow> nat \<times> nat \<Rightarrow> nat \<times> nat \<Rightarrow> u16 list \<Rightarrow> nat \<times> nat" where
  "zero_run i current longest [] = longest"
| "zero_run i (cs, cl) (ls, ll) (s # ss) =
     (if s = 0 then
        (let current = (if cl = 0 then i else cs, cl + 1) in
         zero_run (i + 1) current (if snd current > ll then current else (ls, ll)) ss)
      else zero_run (i + 1) (0, 0) (ls, ll) ss)"

definition segments_str :: "u16 list \<Rightarrow> string" where
  "segments_str ss = join_with '':'' (map (\<lambda>s. hex_str (unat s)) ss)"

definition ipv6_str :: "128 word \<Rightarrow> string" where
  "ipv6_str w =
     (case to_ipv4_mapped w of
        Some v4 \<Rightarrow> ''::ffff:'' @ ipv4_str v4
      | None \<Rightarrow>
          (let segments = map (segment6 w) [0..<8];
               (start, len) = zero_run 0 (0, 0) (0, 0) segments in
           if len > 1 then segments_str (take start segments) @ ''::'' @ segments_str (drop (start + len) segments)
           else segments_str segments))"

fun ip_addr_str :: "ip_addr \<Rightarrow> string" where
  "ip_addr_str (V4 w) = ipv4_str w"
| "ip_addr_str (V6 w) = ipv6_str w"

section \<open>Characters of the display forms\<close>

definition addr_char :: "char \<Rightarrow> bool" where
  "addr_char c = (is_ascii_digit c \<or> (97 \<le> byte_val c \<and> byte_val c \<le> 102) \<or> c = CHR ''.'' \<or> c = CHR '':'')"

lemma dec_digit_addr: "(d :: nat) < 10 \<Longrightarrow> addr_char (char_of (48 + d))"
  by (simp add: addr_char_def is_ascii_digit_def byte_val_def)

lemma dec_str_chars: "dec_str n \<noteq> [] \<and> list_all addr_char (dec_str n)"
  by (induction n rule: dec_str.induct) (subst (1 2) dec_str.simps, auto simp: dec_digit_addr)

lemma hex_digit_addr: "d < 16 \<Longrightarrow> addr_char (hex_digit d)"
  by (auto simp: hex_digit_def addr_char_def is_ascii_digit_def byte_val_def)

lemma hex_str_chars: "hex_str n \<noteq> [] \<and> list_all addr_char (hex_str n)"
  by (induction n rule: hex_str.induct) (subst (1 2) hex_str.simps, auto simp: hex_digit_addr)

lemma join_with_all:
  "list_all P d \<Longrightarrow> \<forall>t \<in> set ts. list_all P t \<Longrightarrow> list_all P (join_with d ts)"
  by (induction d ts rule: join_with.induct) auto

lemma addr_sep: "addr_char (CHR ''.'')" "addr_char (CHR '':'')" "addr_char (CHR ''f'')"
  by (simp_all add: addr_char_def byte_val_def is_ascii_digit_def)

lemma ipv4_str_chars: "ipv4_str w \<noteq> [] \<and> list_all addr_char (ipv4_str w)"
  using dec_str_chars
  by (auto simp: ipv4_str_def upt_rec addr_sep intro!: join_with_all)

lemma segments_str_chars: "list_all addr_char (segments_str ss)"
  using hex_str_chars by (auto simp: segments_str_def addr_sep intro!: join_with_all)

lemma segments_str_Nil: "segments_str ss = [] \<longleftrightarrow> ss = []"
  by (cases ss rule: remdups_adj.cases) (auto simp: segments_str_def hex_str_chars)

lemma ip_addr_str_chars: "ip_addr_str a \<noteq> [] \<and> list_all addr_char (ip_addr_str a)"
proof (cases a)
  case (V4 w)
  then show ?thesis by (simp add: ipv4_str_chars)
next
  case (V6 w)
  then show ?thesis
    by (auto simp: ipv6_str_def ipv4_str_chars segments_str_chars segments_str_Nil addr_sep Let_def
        split: option.splits prod.splits)
qed

end
