(* ===== verification/Crawler_Net.thy ===== *)
theory Crawler_Net
  imports Domain_Model Std_Net
begin

text \<open>
  \<^verbatim>\<open>crates/crawler/src/lib.rs\<close>, the network-safety half: the crawler configuration, crawl URLs,
  the classification of IP addresses as public, the validation of resolved addresses, the header
  filter and the bounded reading of a response body.
\<close>

unbundle bit_operations_syntax

section \<open>Configuration\<close>

record crawler_config =
  user_agent :: string
  robots_user_agent :: string
  contact :: string
  connect_timeout :: duration
  read_timeout :: duration
  total_timeout :: duration
  dns_timeout :: duration
  dns_max_addresses :: nat
  tls_timeout :: duration
  tls_max_addresses :: nat
  max_redirects :: nat
  max_response_bytes :: nat
  politeness_delay :: duration

definition DEFAULT_USER_AGENT :: string where "DEFAULT_USER_AGENT = ''TechAtlas/0.1''"
definition DEFAULT_ROBOTS_USER_AGENT :: string where "DEFAULT_ROBOTS_USER_AGENT = ''TechAtlas''"
definition DEFAULT_CONTACT :: string where "DEFAULT_CONTACT = ''mailto:ops@techatlas.invalid''"

definition CrawlerConfig_default :: crawler_config where
  "CrawlerConfig_default =
     \<lparr>user_agent = DEFAULT_USER_AGENT, robots_user_agent = DEFAULT_ROBOTS_USER_AGENT, contact = DEFAULT_CONTACT,
      connect_timeout = from_secs 5, read_timeout = from_secs 15, total_timeout = from_secs 30,
      dns_timeout = from_secs 5, dns_max_addresses = 16, tls_timeout = from_secs 5, tls_max_addresses = 4,
      max_redirects = 10, max_response_bytes = 10 * 1024 * 1024, politeness_delay = from_secs 1\<rparr>"

datatype crawler_config_error =
    EmptyUserAgent | InvalidUserAgent | EmptyRobotsUserAgent | EmptyContact | ZeroTimeout
  | ZeroTlsAddressLimit | ZeroDnsAddressLimit | ZeroRedirectLimit | ZeroBodyLimit | ZeroPolitenessDelay

text \<open>\<open>header_ok\<close>: \<open>HeaderValue::from_str\<close> accepts the value (the \<^verbatim>\<open>http\<close> crate).\<close>

definition CrawlerConfig_validate ::
    "(string \<Rightarrow> bool) \<Rightarrow> crawler_config \<Rightarrow> (crawler_config_error, unit) result" where
  "CrawlerConfig_validate header_ok c =
     (if trim (user_agent c) = [] then Inl EmptyUserAgent
      else if \<not> header_ok (user_agent c @ '' (+'' @ contact c @ '')'') then Inl InvalidUserAgent
      else if trim (robots_user_agent c) = [] then Inl EmptyRobotsUserAgent
      else if trim (contact c) = [] then Inl EmptyContact
      else if connect_timeout c = 0 \<or> read_timeout c = 0 \<or> total_timeout c = 0 \<or> dns_timeout c = 0
              \<or> tls_timeout c = 0 then Inl ZeroTimeout
      else if max_redirects c = 0 then Inl ZeroRedirectLimit
      else if tls_max_addresses c = 0 then Inl ZeroTlsAddressLimit
      else if dns_max_addresses c = 0 then Inl ZeroDnsAddressLimit
      else if max_response_bytes c = 0 then Inl ZeroBodyLimit
      else if politeness_delay c = 0 then Inl ZeroPolitenessDelay
      else Inr ())"

section \<open>Crawl URLs\<close>

datatype crawl_url = CrawlUrl (crawl_url_as_url: url)

datatype crawl_url_error =
    UrlEmpty | UrlInvalid | UrlUnsupportedScheme | UrlMissingHost | UrlCredentialsNotAllowed
  | UrlFragmentNotAllowed | UrlIpLiteralNotAllowed | UrlLocalhostNotAllowed

definition CrawlUrl_from_url :: "url \<Rightarrow> (crawl_url_error, crawl_url) result" where
  "CrawlUrl_from_url u =
     (if \<not> (url_scheme u = ''http'' \<or> url_scheme u = ''https'') then Inl UrlUnsupportedScheme
      else if url_username u \<noteq> [] \<or> url_password u \<noteq> None then Inl UrlCredentialsNotAllowed
      else if url_fragment u \<noteq> None then Inl UrlFragmentNotAllowed
      else case url_host_of u of
             None \<Rightarrow> Inl UrlMissingHost
           | Some (HostDomain host) \<Rightarrow>
               if eq_ignore_ascii_case host ''localhost'' then Inl UrlLocalhostNotAllowed else Inr (CrawlUrl u)
           | Some _ \<Rightarrow> Inl UrlIpLiteralNotAllowed)"

definition CrawlUrl_parse :: "(string \<Rightarrow> url option) \<Rightarrow> string \<Rightarrow> (crawl_url_error, crawl_url) result" where
  "CrawlUrl_parse url_parse input =
     (let input = trim input in
      if input = [] then Inl UrlEmpty
      else
        (let candidate = (if contains_str input ''://'' then input else ''https://'' @ input) in
         rbind (ok_or UrlInvalid (url_parse candidate)) CrawlUrl_from_url))"

definition crawl_url_host :: "crawl_url \<Rightarrow> string" where
  "crawl_url_host t = (case url_host_of (crawl_url_as_url t) of Some (HostDomain h) \<Rightarrow> h | _ \<Rightarrow> [])"

definition robots_url :: "crawl_url \<Rightarrow> (crawl_url_error, crawl_url) result" where
  "robots_url t =
     CrawlUrl_from_url ((crawl_url_as_url t)\<lparr>url_path := ''/robots.txt'', url_query := None, url_fragment := None\<rparr>)"

text \<open>\<open>url_join\<close>: \<open>Url::join\<close>.\<close>

definition redirect_target ::
    "(url \<Rightarrow> string \<Rightarrow> url option) \<Rightarrow> crawl_url \<Rightarrow> string \<Rightarrow> (crawl_url_error, crawl_url) result" where
  "redirect_target url_join t location =
     rbind (ok_or UrlInvalid (url_join (crawl_url_as_url t) location)) CrawlUrl_from_url"

section \<open>Public addresses\<close>

definition is_public_ipv4 :: "u32 \<Rightarrow> bool" where
  "is_public_ipv4 w =
     (let a = octet4 w 0; b = octet4 w 1; c = octet4 w 2 in
      \<not> (a = 0 \<or> a = 10 \<or> (a = 100 \<and> 64 \<le> b \<and> b \<le> 127) \<or> a = 127 \<or> (a = 169 \<and> b = 254)
         \<or> (a = 172 \<and> 16 \<le> b \<and> b \<le> 31) \<or> (a = 192 \<and> b = 0) \<or> (a = 192 \<and> b = 2) \<or> (a = 192 \<and> b = 168)
         \<or> (a = 198 \<and> 18 \<le> b \<and> b \<le> 19) \<or> (a = 198 \<and> b = 51 \<and> c = 100) \<or> (a = 203 \<and> b = 0 \<and> c = 113)
         \<or> 224 \<le> a))"

text \<open>\<open>Ipv6Addr::is_loopback\<close>, \<open>is_unspecified\<close> and \<open>is_multicast\<close> are written out.\<close>

fun is_public_address :: "ip_addr \<Rightarrow> bool" where
  "is_public_address (V4 w) = is_public_ipv4 w"
| "is_public_address (V6 w) =
     (case to_ipv4_mapped w of
        Some mapped \<Rightarrow> is_public_ipv4 mapped
      | None \<Rightarrow>
          w \<noteq> 1 \<and> w \<noteq> 0 \<and> octet6 w 0 \<noteq> 0xFF
          \<and> \<not> (octet6 w 0 AND 0xFE = 0xFC)
          \<and> \<not> (octet6 w 0 = 0xFE \<and> octet6 w 1 AND 0xC0 = 0x80)
          \<and> \<not> (octet6 w 0 = 0x20 \<and> octet6 w 1 = 0x01 \<and> octet6 w 2 = 0x0D \<and> octet6 w 3 = 0xB8))"

datatype dns_resolver_error = Lookup string | NoAddresses string

datatype dns_safety_error =
    Resolution dns_resolver_error | DnsTimeout | BlockedAddress string ip_addr

record socket_addr =
  sa_ip :: ip_addr
  sa_port :: u16

fun validate_addresses :: "string \<Rightarrow> socket_addr list \<Rightarrow> (dns_safety_error, unit) result" where
  "validate_addresses host [] = Inr ()"
| "validate_addresses host (a # as) =
     (if \<not> is_public_address (sa_ip a) then Inl (BlockedAddress host (sa_ip a)) else validate_addresses host as)"

definition system_resolve ::
    "(string \<Rightarrow> socket_addr list option) \<Rightarrow> string \<Rightarrow> (dns_resolver_error, socket_addr list) result" where
  "system_resolve lookup_host host =
     rbind (ok_or (Lookup host) (lookup_host host)) (\<lambda>addresses.
       if addresses = [] then Inl (NoAddresses host) else Inr addresses)"

definition resolve_checked ::
    "(string \<Rightarrow> (dns_resolver_error, socket_addr list) result) \<Rightarrow> string \<Rightarrow>
     (dns_safety_error, socket_addr list) result" where
  "resolve_checked resolve host =
     rbind (map_err Resolution (resolve host)) (\<lambda>addresses.
     rbind (validate_addresses host addresses) (\<lambda>_. Inr addresses))"

section \<open>Responses\<close>

type_synonym headers = "(string \<times> string) list"

record http_response =
  resp_status :: u16
  resp_headers :: headers
  resp_body :: string

definition response_header :: "http_response \<Rightarrow> string \<Rightarrow> string option" where
  "response_header r name = map_of (resp_headers r) (to_ascii_lowercase name)"

definition is_sensitive_header :: "string \<Rightarrow> bool" where
  "is_sensitive_header name =
     (name \<in> {''authorization'', ''proxy-authorization'', ''cookie'', ''set-cookie'', ''set-cookie2'',
               ''x-api-key'', ''x-auth-token'', ''x-amz-security-token''}
      \<or> contains_str name ''token'' \<or> contains_str name ''secret'' \<or> name = ''api-key'' \<or> ends_with name ''-key'')"

text \<open>
  The header map is the list of its entries in iteration order, and \<open>to_str\<close> is
  \<open>HeaderValue::to_str\<close>; collecting into a map keeps the last value of a name.
\<close>

definition safe_headers :: "('v \<Rightarrow> string option) \<Rightarrow> (string \<times> 'v) list \<Rightarrow> headers" where
  "safe_headers to_str hs =
     foldl (\<lambda>m (name, value).
              (let name = to_ascii_lowercase name in
               if is_sensitive_header name then m
               else case to_str value of None \<Rightarrow> m | Some v \<Rightarrow> btree_insert name v m))
       [] hs"

datatype http_transport_error =
    TransportCancelled
  | Request bool
  | TransportTooLarge nat nat
  | TransportFailed string

text \<open>What awaiting the next chunk gives: cancellation, an error (with its timeout flag), or bytes.\<close>

datatype chunk_event = ChunkCancelled | ChunkError bool | Chunk string

definition saturating_add_u64 :: "nat \<Rightarrow> nat \<Rightarrow> nat" where
  "saturating_add_u64 a b = min (a + b) (2 ^ 64 - 1)"

fun read_chunks :: "nat \<Rightarrow> string \<Rightarrow> chunk_event list \<Rightarrow> (http_transport_error, string) result" where
  "read_chunks limit body [] = Inr body"
| "read_chunks limit body (ChunkCancelled # es) = Inl TransportCancelled"
| "read_chunks limit body (ChunkError t # es) = Inl (Request t)"
| "read_chunks limit body (Chunk c # es) =
     (let observed = saturating_add_u64 (length body) (length c) in
      if observed > limit then Inl (TransportTooLarge limit observed) else read_chunks limit (body @ c) es)"

text \<open>What sending the request gives.\<close>

datatype 'v send_event =
    SendCancelled
  | SendError bool
  | Response u16 "nat option" "(string \<times> 'v) list" "chunk_event list"

fun transport_get ::
    "('v \<Rightarrow> string option) \<Rightarrow> nat \<Rightarrow> 'v send_event \<Rightarrow> (http_transport_error, http_response) result" where
  "transport_get to_str limit SendCancelled = Inl TransportCancelled"
| "transport_get to_str limit (SendError t) = Inl (Request t)"
| "transport_get to_str limit (Response status content_length hs chunks) =
     (case content_length of
        Some n \<Rightarrow> if n > limit then Inl (TransportTooLarge limit n)
                  else rbind (read_chunks limit [] chunks) (\<lambda>body.
                    Inr \<lparr>resp_status = status, resp_headers = safe_headers to_str hs, resp_body = body\<rparr>)
      | None \<Rightarrow> rbind (read_chunks limit [] chunks) (\<lambda>body.
                    Inr \<lparr>resp_status = status, resp_headers = safe_headers to_str hs, resp_body = body\<rparr>))"

section \<open>Lemmas\<close>

definition crawl_url_ok :: "crawl_url \<Rightarrow> bool" where
  "crawl_url_ok t =
     ((url_scheme (crawl_url_as_url t) = ''http'' \<or> url_scheme (crawl_url_as_url t) = ''https'')
      \<and> url_username (crawl_url_as_url t) = [] \<and> url_password (crawl_url_as_url t) = None
      \<and> url_fragment (crawl_url_as_url t) = None
      \<and> (\<exists>h. url_host_of (crawl_url_as_url t) = Some (HostDomain h) \<and> \<not> eq_ignore_ascii_case h ''localhost''))"

lemma CrawlUrl_from_url_ok: "CrawlUrl_from_url u = Inr t \<Longrightarrow> crawl_url_ok t \<and> crawl_url_as_url t = u"
  by (auto simp: CrawlUrl_from_url_def crawl_url_ok_def split: if_splits option.splits url_host.splits)

lemma CrawlUrl_parse_ok: "CrawlUrl_parse up s = Inr t \<Longrightarrow> crawl_url_ok t"
  by (auto simp: CrawlUrl_parse_def Let_def dest: CrawlUrl_from_url_ok split: if_splits)

lemma redirect_target_ok: "redirect_target uj t loc = Inr t' \<Longrightarrow> crawl_url_ok t'"
  by (auto simp: redirect_target_def dest: CrawlUrl_from_url_ok)

lemma robots_url_ok:
  assumes "crawl_url_ok t"
  shows "\<exists>r. robots_url t = Inr r \<and> crawl_url_ok r \<and> crawl_url_host r = crawl_url_host t"
  using assms by (auto simp: robots_url_def CrawlUrl_from_url_def crawl_url_ok_def crawl_url_host_def)

lemma validate_addresses_Inr:
  "validate_addresses host as = Inr () \<longleftrightarrow> (\<forall>a \<in> set as. is_public_address (sa_ip a))"
  by (induction as) auto

lemma read_chunks_Inr:
  "read_chunks limit body es = Inr b \<Longrightarrow> length body \<le> limit \<Longrightarrow> limit < 2 ^ 64 - 1 \<Longrightarrow>
     length b \<le> limit \<and> (\<exists>cs. es = map Chunk cs \<and> b = body @ concat cs)"
proof (induction limit body es rule: read_chunks.induct)
  case (4 limit body c es)
  then have le: "length body + length c \<le> limit"
    by (auto simp: saturating_add_u64_def Let_def split: if_splits)
  with 4 have "length b \<le> limit \<and> (\<exists>cs. es = map Chunk cs \<and> b = (body @ c) @ concat cs)"
    by (auto simp: saturating_add_u64_def Let_def split: if_splits)
  then obtain cs where "length b \<le> limit" "es = map Chunk cs" "b = (body @ c) @ concat cs" by blast
  then show ?case by (intro conjI exI [of _ "c # cs"]) simp_all
qed auto

lemma safe_headers_dom: "n \<in> fst ` set (safe_headers to_str hs) \<Longrightarrow>
    \<not> is_sensitive_header n \<and> (\<exists>m \<in> fst ` set hs. n = to_ascii_lowercase m)"
proof (induction hs rule: rev_induct)
  case (snoc h hs)
  obtain m v where h: "h = (m, v)" by (cases h)
  show ?case
    using snoc by (auto simp: h safe_headers_def Let_def split: if_splits option.splits)
qed (simp add: safe_headers_def)

section \<open>Address blocks\<close>

text \<open>Membership in a CIDR block, and the blocks the comments of the code name.\<close>

definition in_block :: "nat \<Rightarrow> nat \<Rightarrow> nat \<times> nat \<Rightarrow> bool" where
  "in_block width n block = (n div 2 ^ (width - snd block) = fst block div 2 ^ (width - snd block))"

definition ipv4 :: "nat \<Rightarrow> nat \<Rightarrow> nat \<Rightarrow> nat \<Rightarrow> nat" where
  "ipv4 a b c d = ((a * 256 + b) * 256 + c) * 256 + d"

definition special_blocks4 :: "(nat \<times> nat) list" where
  "special_blocks4 =
     [(ipv4 0 0 0 0, 8), (ipv4 10 0 0 0, 8), (ipv4 100 64 0 0, 10), (ipv4 127 0 0 0, 8), (ipv4 169 254 0 0, 16),
      (ipv4 172 16 0 0, 12), (ipv4 192 0 0 0, 16), (ipv4 192 2 0 0, 16), (ipv4 192 168 0 0, 16),
      (ipv4 198 18 0 0, 15), (ipv4 198 51 100 0, 24), (ipv4 203 0 113 0, 24), (ipv4 224 0 0 0, 3)]"

definition special_blocks6 :: "(nat \<times> nat) list" where
  "special_blocks6 =
     [(0, 128), (1, 128), (0xFF00 * 2 ^ 112, 8), (0xFC00 * 2 ^ 112, 7), (0xFE80 * 2 ^ 112, 10),
      (0x20010DB8 * 2 ^ 96, 32)]"

lemma div_div_pow: "k \<le> m \<Longrightarrow> n div 2 ^ m = (n div 2 ^ k) div 2 ^ (m - k)" for n :: nat
  by (metis div_mult2_eq le_add_diff_inverse power_add)
lemma unat_octet4: "k \<le> 3 \<Longrightarrow> unat (octet4 w k) = unat w div 2 ^ (24 - 8 * k) mod 256"
  unfolding octet4_def unsigned_ucast_eq unat_drop_bit_eq by (simp add: drop_bit_eq_div take_bit_eq_mod)

lemma unat_octet6: "k \<le> 15 \<Longrightarrow> unat (octet6 w k) = unat w div 2 ^ (120 - 8 * k) mod 256"
  unfolding octet6_def unsigned_ucast_eq unat_drop_bit_eq by (simp add: drop_bit_eq_div take_bit_eq_mod)

lemma octets_quot:
  fixes n :: nat
  assumes "n < 2 ^ 32"
  defines "a \<equiv> n div 2 ^ 24 mod 256" and "b \<equiv> n div 2 ^ 16 mod 256" and "c \<equiv> n div 2 ^ 8 mod 256"
  shows "n div 2 ^ 24 = a" "n div 2 ^ 16 = a * 256 + b" "n div 2 ^ 8 = (a * 256 + b) * 256 + c" "b < 256" "c < 256" "a < 256"
proof -
  show a: "n div 2 ^ 24 = a" using assms(1) by (simp add: a_def)
  have "n div 2 ^ 24 = n div 2 ^ 16 div 256" using div_div_pow [of 16 24 n] by simp
  then show b: "n div 2 ^ 16 = a * 256 + b" using a unfolding b_def by (metis div_mult_mod_eq)
  have "n div 2 ^ 16 = n div 2 ^ 8 div 256" using div_div_pow [of 8 16 n] by simp
  then show "n div 2 ^ 8 = (a * 256 + b) * 256 + c" using b unfolding c_def by (metis div_mult_mod_eq)
qed (simp_all add: a_def b_def c_def)

lemma octets_quot2:
  fixes n :: nat
  assumes "n < 2 ^ 32"
  defines "a \<equiv> n div 2 ^ 24 mod 256" and "b \<equiv> n div 2 ^ 16 mod 256"
  shows "n div 2 ^ 22 = a * 4 + b div 64"  "n div 2 ^ 20 = a * 16 + b div 16" "n div 2 ^ 17 = a * 128 + b div 2"  "n div 2 ^ 29 = a div 32"
proof -
  note q = octets_quot [OF assms(1), folded a_def b_def]
  have "n div 2 ^ 22 = (a * 256 + b) div 64" using div_div_pow [of 16 22 n] q by simp
  then show "n div 2 ^ 22 = a * 4 + b div 64" by simp
  have "n div 2 ^ 20 = (a * 256 + b) div 16" using div_div_pow [of 16 20 n] q by simp
  then show "n div 2 ^ 20 = a * 16 + b div 16" by simp
  have "n div 2 ^ 17 = (a * 256 + b) div 2" using div_div_pow [of 16 17 n] q by simp
  then show "n div 2 ^ 17 = a * 128 + b div 2" by simp
  show "n div 2 ^ 29 = a div 32" using div_div_pow [of 24 29 n] q by simp
qed

lemma digits_eq:
  fixes m :: nat
  assumes "v < m" and "v' < m"
  shows "u * m + v = u' * m + v' \<longleftrightarrow> u = u' \<and> v = v'"
proof
  assume eq: "u * m + v = u' * m + v'"
  have "u = (u * m + v) div m" "v = (u * m + v) mod m" using assms by simp_all
  moreover have "u' = (u' * m + v') div m" "v' = (u' * m + v') mod m" using assms by simp_all
  ultimately show "u = u' \<and> v = v'" using eq by simp
qed simp

lemma blocks:
  fixes n :: nat
  assumes "n < 2 ^ 32"
  defines "a \<equiv> n div 2 ^ 24 mod 256" and "b \<equiv> n div 2 ^ 16 mod 256" and "c \<equiv> n div 2 ^ 8 mod 256"
  shows block8: "x < 256 \<Longrightarrow> in_block 32 n (ipv4 x 0 0 0, 8) \<longleftrightarrow> a = x"
    and block10: "in_block 32 n (ipv4 100 64 0 0, 10) \<longleftrightarrow> a = 100 \<and> 64 \<le> b \<and> b \<le> 127"
    and block12: "in_block 32 n (ipv4 172 16 0 0, 12) \<longleftrightarrow> a = 172 \<and> 16 \<le> b \<and> b \<le> 31"
    and block15: "in_block 32 n (ipv4 198 18 0 0, 15) \<longleftrightarrow> a = 198 \<and> 18 \<le> b \<and> b \<le> 19"
    and block16: "y < 256 \<Longrightarrow> in_block 32 n (ipv4 x y 0 0, 16) \<longleftrightarrow> a = x \<and> b = y"
    and block24: "y < 256 \<Longrightarrow> z < 256 \<Longrightarrow> in_block 32 n (ipv4 x y z 0, 24) \<longleftrightarrow> a = x \<and> b = y \<and> c = z"
    and block3: "in_block 32 n (ipv4 224 0 0 0, 3) \<longleftrightarrow> 224 \<le> a"
proof -
  note q = octets_quot [OF assms(1), folded a_def b_def c_def] octets_quot2 [OF assms(1), folded a_def b_def]
  note [simp] = in_block_def ipv4_def
  show "x < 256 \<Longrightarrow> in_block 32 n (ipv4 x 0 0 0, 8) \<longleftrightarrow> a = x"
    using q(1) by simp
  show "in_block 32 n (ipv4 100 64 0 0, 10) \<longleftrightarrow> a = 100 \<and> 64 \<le> b \<and> b \<le> 127"
  proof -
    have "b div 64 < 4" "b div 64 = 1 \<longleftrightarrow> 64 \<le> b \<and> b \<le> 127" using q(4) by auto
    with digits_eq [of "b div 64" 4 1 a 100]
    have "a * 4 + b div 64 = 401 \<longleftrightarrow> a = 100 \<and> 64 \<le> b \<and> b \<le> 127" by simp
    then show ?thesis using q(7) by simp
  qed
  show "in_block 32 n (ipv4 172 16 0 0, 12) \<longleftrightarrow> a = 172 \<and> 16 \<le> b \<and> b \<le> 31"
  proof -
    have "b div 16 < 16" "b div 16 = 1 \<longleftrightarrow> 16 \<le> b \<and> b \<le> 31" using q(4) by auto
    with digits_eq [of "b div 16" 16 1 a 172]
    have "a * 16 + b div 16 = 2753 \<longleftrightarrow> a = 172 \<and> 16 \<le> b \<and> b \<le> 31" by simp
    then show ?thesis using q(8) by simp
  qed
  show "in_block 32 n (ipv4 198 18 0 0, 15) \<longleftrightarrow> a = 198 \<and> 18 \<le> b \<and> b \<le> 19"
  proof -
    have "b div 2 < 128" "b div 2 = 9 \<longleftrightarrow> 18 \<le> b \<and> b \<le> 19" using q(4) by auto
    with digits_eq [of "b div 2" 128 9 a 198]
    have "a * 128 + b div 2 = 25353 \<longleftrightarrow> a = 198 \<and> 18 \<le> b \<and> b \<le> 19" by simp
    then show ?thesis using q(9) by simp
  qed
  show "y < 256 \<Longrightarrow> in_block 32 n (ipv4 x y 0 0, 16) \<longleftrightarrow> a = x \<and> b = y"
    using q(2,4) digits_eq [of b 256 y a x] by (simp add: mult.commute)
  show "y < 256 \<Longrightarrow> z < 256 \<Longrightarrow> in_block 32 n (ipv4 x y z 0, 24) \<longleftrightarrow> a = x \<and> b = y \<and> c = z"
    using q(3,4,5) digits_eq [of b 256 y a x] digits_eq [of c 256 z "a * 256 + b" "x * 256 + y"] by (simp add: mult.commute)
  have "a div 32 = 7 \<longleftrightarrow> 224 \<le> a" using q(6) by auto
  then show "in_block 32 n (ipv4 224 0 0 0, 3) \<longleftrightarrow> 224 \<le> a" using q(10) by simp
qed

lemma is_public_ipv4_blocks: "is_public_ipv4 w = (\<not> list_ex (in_block 32 (unat w)) special_blocks4)"
proof -
  have n: "unat w < 2 ^ 32" using unsigned_less [of w] by simp
  have o: "unat (octet4 w 0) = unat w div 2 ^ 24 mod 256" "unat (octet4 w 1) = unat w div 2 ^ 16 mod 256"
    "unat (octet4 w 2) = unat w div 2 ^ 8 mod 256"
    by (simp_all add: unat_octet4)
  show ?thesis
    unfolding is_public_ipv4_def special_blocks4_def Let_def word_le_nat_alt word_unat_eq_iff o
    by (simp add: blocks [OF n] del: power.simps)
qed

text \<open>Bit masks of an octet as quotients.\<close>

lemma and_high:
  fixes x :: "8 word"
  shows "unat (x AND NOT (mask n)) = unat x div 2 ^ n * 2 ^ n"
proof -
  have "unat (x AND NOT (mask n)) = push_bit n (drop_bit n (unat x))"
  proof (rule bit_eqI)
    fix i
    show "bit (unat (x AND NOT (mask n))) i = bit (push_bit n (drop_bit n (unat x))) i"
      using bit_imp_le_length [of x i]
      by (auto simp: bit_unsigned_iff bit_and_iff bit_not_iff bit_mask_iff bit_push_bit_iff bit_drop_bit_eq)
  qed
  then show ?thesis by (simp add: push_bit_eq_mult drop_bit_eq_div)
qed

lemma octet_masks:
  fixes x :: "8 word"
  shows "x AND 0xFE = 0xFC \<longleftrightarrow> unat x div 2 = 126" and "x AND 0xC0 = 0x80 \<longleftrightarrow> unat x div 64 = 2"
proof -
  have m: "NOT (mask 1 :: 8 word) = 0xFE" "NOT (mask 6 :: 8 word) = 0xC0" by (simp_all add: mask_eq_exp_minus_1)
  show "x AND 0xFE = 0xFC \<longleftrightarrow> unat x div 2 = 126"
    using and_high [of x 1] unfolding m by (simp add: word_unat_eq_iff) 
  show "x AND 0xC0 = 0x80 \<longleftrightarrow> unat x div 64 = 2"
    using and_high [of x 6] unfolding m by (simp add: word_unat_eq_iff)
qed

lemma octets6_quot:
  fixes n :: nat
  assumes "n < 2 ^ 128"
  defines "a \<equiv> n div 2 ^ 120 mod 256" and "b \<equiv> n div 2 ^ 112 mod 256" and "c \<equiv> n div 2 ^ 104 mod 256"
    and "d \<equiv> n div 2 ^ 96 mod 256"
  shows "n div 2 ^ 120 = a" "n div 2 ^ 112 = a * 256 + b"
    "n div 2 ^ 96 = ((a * 256 + b) * 256 + c) * 256 + d" "a < 256" "b < 256" "c < 256" "d < 256"
proof -
  show a: "n div 2 ^ 120 = a" using assms(1) by (simp add: a_def)
  have "n div 2 ^ 120 = n div 2 ^ 112 div 256" using div_div_pow [of 112 120 n] by simp
  then show b: "n div 2 ^ 112 = a * 256 + b" using a unfolding b_def by (metis div_mult_mod_eq)
  have "n div 2 ^ 112 = n div 2 ^ 104 div 256" using div_div_pow [of 104 112 n] by simp
  then have c: "n div 2 ^ 104 = (a * 256 + b) * 256 + c" using b unfolding c_def by (metis div_mult_mod_eq)
  have "n div 2 ^ 104 = n div 2 ^ 96 div 256" using div_div_pow [of 96 104 n] by simp
  then show "n div 2 ^ 96 = ((a * 256 + b) * 256 + c) * 256 + d" using c unfolding d_def by (metis div_mult_mod_eq)
qed (simp_all add: a_def b_def c_def d_def)

lemma blocks6:
  fixes n :: nat
  assumes "n < 2 ^ 128"
  defines "a \<equiv> n div 2 ^ 120 mod 256" and "b \<equiv> n div 2 ^ 112 mod 256" and "c \<equiv> n div 2 ^ 104 mod 256"
    and "d \<equiv> n div 2 ^ 96 mod 256"
  shows "list_ex (in_block 128 n) special_blocks6 \<longleftrightarrow>
     n = 0 \<or> n = 1 \<or> a = 255 \<or> a div 2 = 126 \<or> (a = 254 \<and> b div 64 = 2)
     \<or> (a = 32 \<and> b = 1 \<and> c = 13 \<and> d = 184)"
proof -
  note q = octets6_quot [OF assms(1), folded a_def b_def c_def d_def]
  have "n div 2 ^ 121 = a div 2" using div_div_pow [of 120 121 n] q(1) by simp
  then have seven: "in_block 128 n (0xFC00 * 2 ^ 112, 7) \<longleftrightarrow> a div 2 = 126" by (simp add: in_block_def)
  have eight: "in_block 128 n (0xFF00 * 2 ^ 112, 8) \<longleftrightarrow> a = 255" using q(1) by (simp add: in_block_def)
  have "n div 2 ^ 118 = (a * 256 + b) div 64" using div_div_pow [of 112 118 n] q(2) by simp
  then have "n div 2 ^ 118 = a * 4 + b div 64" by simp
  moreover have "a * 4 + b div 64 = 1018 \<longleftrightarrow> a = 254 \<and> b div 64 = 2"
    using digits_eq [of "b div 64" 4 2 a 254] q(5) by auto
  ultimately have ten: "in_block 128 n (0xFE80 * 2 ^ 112, 10) \<longleftrightarrow> a = 254 \<and> b div 64 = 2"
    by (simp add: in_block_def)
  have "((a * 256 + b) * 256 + c) * 256 + d = 0x20010DB8 \<longleftrightarrow> a = 32 \<and> b = 1 \<and> c = 13 \<and> d = 184"
    using digits_eq [of d 256 184 "(a * 256 + b) * 256 + c" "(32 * 256 + 1) * 256 + 13"]
      digits_eq [of c 256 13 "a * 256 + b" "32 * 256 + 1"] digits_eq [of b 256 1 a 32] q(5-7) by simp
  then have "in_block 128 n (0x20010DB8 * 2 ^ 96, 32) \<longleftrightarrow> a = 32 \<and> b = 1 \<and> c = 13 \<and> d = 184"
    using q(3) by (simp add: in_block_def)
  moreover have "in_block 128 n (0, 128) \<longleftrightarrow> n = 0" "in_block 128 n (1, 128) \<longleftrightarrow> n = 1"
    by (simp_all add: in_block_def)
  ultimately show ?thesis
    using seven eight ten unfolding special_blocks6_def list_ex_iff list.set by blast
qed

lemma is_public_v6_blocks:
  "is_public_address (V6 w) =
     (if in_block 128 (unat w) (0xFFFF * 2 ^ 32, 96) then is_public_ipv4 (ucast w)
      else \<not> list_ex (in_block 128 (unat w)) special_blocks6)"
proof -
  have n: "unat w < 2 ^ 128" using unsigned_less [of w] by simp
  have o: "unat (octet6 w 0) = unat w div 2 ^ 120 mod 256" "unat (octet6 w 1) = unat w div 2 ^ 112 mod 256"
    "unat (octet6 w 2) = unat w div 2 ^ 104 mod 256" "unat (octet6 w 3) = unat w div 2 ^ 96 mod 256"
    by (simp_all add: unat_octet6)
  have "unat (drop_bit 32 w) = unat w div 2 ^ 32"
    unfolding unat_drop_bit_eq by (simp add: drop_bit_eq_div)
  then have mapped: "drop_bit 32 w = 0xFFFF \<longleftrightarrow> in_block 128 (unat w) (0xFFFF * 2 ^ 32, 96)"
    by (simp add: in_block_def word_unat_eq_iff)
  have "w \<noteq> 1 \<longleftrightarrow> unat w \<noteq> 1" "w \<noteq> 0 \<longleftrightarrow> unat w \<noteq> 0" by (simp_all add: word_unat_eq_iff)
  moreover have "octet6 w 0 \<noteq> 0xFF \<longleftrightarrow> unat (octet6 w 0) \<noteq> 255" "octet6 w 0 = 0xFE \<longleftrightarrow> unat (octet6 w 0) = 254"
    "octet6 w 0 = 0x20 \<longleftrightarrow> unat (octet6 w 0) = 32" "octet6 w 1 = 0x01 \<longleftrightarrow> unat (octet6 w 1) = 1"
    "octet6 w 2 = 0x0D \<longleftrightarrow> unat (octet6 w 2) = 13" "octet6 w 3 = 0xB8 \<longleftrightarrow> unat (octet6 w 3) = 184"
    by (simp_all add: word_unat_eq_iff)
  ultimately show ?thesis
    unfolding is_public_address.simps to_ipv4_mapped_def mapped blocks6 [OF n] octet_masks
    by (auto simp only: if_True if_False option.case o simp_thms de_Morgan_disj split: if_split)
qed

section \<open>Properties\<close>

text \<open>
  The addresses the crawler may contact are exactly those outside the listed special-purpose
  blocks: thirteen IPv4 blocks, and for IPv6 the unspecified, loopback, multicast, unique-local,
  link-local and documentation blocks, an IPv4-mapped address counting as the IPv4 address it maps.
\<close>

theorem public_address_blocks:
  "is_public_address (V4 v) = (\<not> list_ex (in_block 32 (unat v)) special_blocks4)
   \<and> is_public_address (V6 w) =
       (if in_block 128 (unat w) (0xFFFF * 2 ^ 32, 96)
        then \<not> list_ex (in_block 32 (unat (ucast w :: u32))) special_blocks4
        else \<not> list_ex (in_block 128 (unat w)) special_blocks6)"
  unfolding is_public_v6_blocks is_public_address.simps(1) is_public_ipv4_blocks by simp

text \<open>
  The comment of the pattern \<open>(192, 2, _)\<close> names 192.0.2.0/24; it blocks the public 192.2.0.0/16.
\<close>

lemma public_192_2_blocked: "\<not> is_public_address (V4 (of_nat (ipv4 192 2 0 1)))"
  by code_simp

text \<open>
  IPv6 forms that embed a loopback IPv4 address, other than the mapped one, count as public:
  the IPv4-compatible, the 6to4 and the NAT64 form of 127.0.0.1.
\<close>

theorem embedded_loopback_public:
  "is_public_address (V6 0x7F000001) \<and> is_public_address (V6 0x20027F00000100000000000000000000)
   \<and> is_public_address (V6 0x0064FF9B00000000000000007F000001)"
  unfolding is_public_v6_blocks in_block_def special_blocks6_def by simp

text \<open>
  A response the transport returns never exceeds the byte limit, is the concatenation of the
  chunks received, and carries no sensitive header; header names are lowercase.
\<close>

theorem transport_response_bounded:
  assumes "transport_get to_str limit (Response status cl hs chunks) = Inr r" and "limit < 2 ^ 64 - 1"
  shows "length (resp_body r) \<le> limit \<and> (\<exists>cs. chunks = map Chunk cs \<and> resp_body r = concat cs)
     \<and> fst ` set (resp_headers r) \<inter> {n. is_sensitive_header n} = {}
     \<and> fst ` set (resp_headers r) \<subseteq> to_ascii_lowercase ` fst ` set hs"
proof -
  from assms(1) have body: "read_chunks limit [] chunks = Inr (resp_body r)"
    and h: "resp_headers r = safe_headers to_str hs"
    by (auto split: option.splits if_splits)
  have "fst ` set (safe_headers to_str hs) \<subseteq> to_ascii_lowercase ` fst ` set hs"
    using safe_headers_dom [of _ to_str hs] by blast
  with read_chunks_Inr [OF body] assms(2) safe_headers_dom [of _ to_str hs] show ?thesis
    unfolding h by auto
qed

definition sample_response :: http_response where
  "sample_response = \<lparr>resp_status = 200, resp_headers = safe_headers Some [(''Server'', ''nginx''), (''Set-Cookie'', ''x'')],
     resp_body = ''hello''\<rparr>"

theorem transport_response_bounded_witness:
  "length (resp_body sample_response) \<le> 5
   \<and> (\<exists>cs. [Chunk ''he'', Chunk ''llo''] = map Chunk cs \<and> resp_body sample_response = concat cs)
   \<and> fst ` set (resp_headers sample_response) \<inter> {n. is_sensitive_header n} = {}
   \<and> fst ` set (resp_headers sample_response) \<subseteq> to_ascii_lowercase ` fst ` set [(''Server'', ''nginx''), (''Set-Cookie'', ''x'')]"
proof (rule transport_response_bounded)
  show "transport_get Some 5 (Response 200 (Some 5) [(''Server'', ''nginx''), (''Set-Cookie'', ''x'')]
      [Chunk ''he'', Chunk ''llo'']) = Inr sample_response"
    by (simp add: sample_response_def saturating_add_u64_def)
qed simp

end
