(* ===== verification/Crawler_Robots.thy ===== *)
theory Crawler_Robots
  imports Crawler_Net
begin

text \<open>
  \<^verbatim>\<open>crates/crawler/src/lib.rs\<close>, the robots half: parsing \<^verbatim>\<open>robots.txt\<close> into groups, choosing the
  groups of a user agent, and deciding a target by its most specific matching rule.  The reference
  for pattern matching is \<open>glob_prefix\<close> and \<open>glob_full\<close>, in which a star stands for any string.
\<close>

section \<open>Policies\<close>

record robots_rule =
  rule_pattern :: string
  rule_allow :: bool

record robots_group =
  group_agents :: "string list"
  group_rules :: "robots_rule list"

record robots_policy =
  policy_rules :: "robots_rule list"

datatype robots_parse_error =
    RobotsEmptyUserAgent
  | InvalidDirective nat
  | EmptyAgent nat
  | RuleBeforeAgent nat

definition RobotsPolicy_allow_all :: robots_policy where
  "RobotsPolicy_allow_all = \<lparr>policy_rules = []\<rparr>"

text \<open>\<open>str::lines\<close>: line feeds end lines, a carriage return before one is dropped.\<close>

fun strip_cr :: "string list \<Rightarrow> string list" where
  "strip_cr [] = []"
| "strip_cr [l] = (if l = [] then [] else [l])"
| "strip_cr (l # m # ls) =
     (case strip_suffix l [CHR 0x0D] of Some l' \<Rightarrow> l' | None \<Rightarrow> l) # strip_cr (m # ls)"

definition lines :: "string \<Rightarrow> string list" where
  "lines s = strip_cr (split_on (CHR 0x0A) s)"

text \<open>The groups finished so far and the current one, after one line.\<close>

record robots_parse =
  parse_groups :: "robots_group list"
  parse_current :: "robots_group option"

definition parse_directive ::
    "nat \<Rightarrow> string \<Rightarrow> string \<Rightarrow> robots_parse \<Rightarrow> (robots_parse_error, robots_parse) result" where
  "parse_directive n field val st =
     (if field = ''user-agent'' then
        if val = [] then Inl (EmptyAgent n)
        else
          (let flush = (case parse_current st of None \<Rightarrow> None
                        | Some g \<Rightarrow> if group_rules g \<noteq> [] then Some g else None);
               groups = (case flush of None \<Rightarrow> parse_groups st | Some g \<Rightarrow> parse_groups st @ [g]);
               current = (case flush of None \<Rightarrow> parse_current st | Some _ \<Rightarrow> None);
               group = (case current of None \<Rightarrow> \<lparr>group_agents = [], group_rules = []\<rparr> | Some g \<Rightarrow> g)
           in Inr \<lparr>parse_groups = groups,
                   parse_current = Some (group\<lparr>group_agents := group_agents group @ [to_ascii_lowercase val]\<rparr>)\<rparr>)
      else if field = ''allow'' \<or> field = ''disallow'' then
        (case parse_current st of
           None \<Rightarrow> Inl (RuleBeforeAgent n)
         | Some g \<Rightarrow>
             if val = [] then Inr st
             else Inr (st\<lparr>parse_current := Some (g\<lparr>group_rules := group_rules g @
                          [\<lparr>rule_pattern = val, rule_allow = (field = ''allow'')\<rparr>]\<rparr>)\<rparr>))
      else Inr st)"

definition parse_line :: "nat \<Rightarrow> string \<Rightarrow> robots_parse \<Rightarrow> (robots_parse_error, robots_parse) result" where
  "parse_line n raw st =
     (let line = trim (hd (split_on (CHR ''#'') raw)) in
      if line = [] then Inr st
      else rbind (ok_or (InvalidDirective n) (split_once line '':'')) (\<lambda>(field, val).
             parse_directive n (to_ascii_lowercase (trim field)) (trim val) st))"

fun parse_lines :: "nat \<Rightarrow> string list \<Rightarrow> robots_parse \<Rightarrow> (robots_parse_error, robots_parse) result" where
  "parse_lines n [] st = Inr st"
| "parse_lines n (l # ls) st = rbind (parse_line n l st) (parse_lines (n + 1) ls)"

definition parse_robots_groups :: "string \<Rightarrow> (robots_parse_error, robots_group list) result" where
  "parse_robots_groups document =
     rbind (parse_lines 1 (lines document) \<lparr>parse_groups = [], parse_current = None\<rparr>) (\<lambda>st.
       Inr (parse_groups st @ (case parse_current st of None \<Rightarrow> [] | Some g \<Rightarrow> [g])))"

definition RobotsPolicy_parse :: "string \<Rightarrow> string \<Rightarrow> (robots_parse_error, robots_policy) result" where
  "RobotsPolicy_parse agent_name document =
     (if trim agent_name = [] then Inl RobotsEmptyUserAgent
      else rbind (parse_robots_groups document) (\<lambda>groups.
        (let agent = to_ascii_lowercase (trim agent_name);
             specific = filter (\<lambda>g. list_ex (\<lambda>c. c = agent) (group_agents g)) groups;
             matching = (if specific = [] then filter (\<lambda>g. list_ex (\<lambda>c. c = ''*'') (group_agents g)) groups
                         else specific)
         in Inr \<lparr>policy_rules = concat (map group_rules matching)\<rparr>)))"

section \<open>Matching\<close>

text \<open>The loop over the segments of a pattern; \<open>None\<close> is the early \<open>return false\<close>.\<close>

fun match_segments :: "bool \<Rightarrow> string list \<Rightarrow> string \<Rightarrow> nat \<Rightarrow> nat option" where
  "match_segments first [] path cursor = Some cursor"
| "match_segments first (seg # segs) path cursor =
     (if seg = [] then match_segments False segs path cursor
      else if first then
        if \<not> starts_with path seg then None else match_segments False segs path (length seg)
      else case find_str (drop cursor path) seg of
             None \<Rightarrow> None
           | Some offset \<Rightarrow> match_segments False segs path (cursor + offset + length seg))"

definition robots_pattern_matches :: "string \<Rightarrow> string \<Rightarrow> bool" where
  "robots_pattern_matches pat path =
     (let anchored = ends_with pat ''$'';
          pat = (case strip_suffix pat ''$'' of Some p \<Rightarrow> p | None \<Rightarrow> pat)
      in case match_segments True (split_on (CHR ''*'') pat) path 0 of
           None \<Rightarrow> False
         | Some cursor \<Rightarrow> \<not> anchored \<or> ends_with pat ''*'' \<or> cursor = length path)"

definition rule_specificity :: "robots_rule \<Rightarrow> nat" where
  "rule_specificity r = chars_count (filter (\<lambda>c. c \<noteq> CHR ''*'' \<and> c \<noteq> CHR ''$'') (rule_pattern r))"

definition robots_path :: "crawl_url \<Rightarrow> string" where
  "robots_path t =
     url_path (crawl_url_as_url t)
       @ (case url_query (crawl_url_as_url t) of None \<Rightarrow> [] | Some q \<Rightarrow> ''?'' @ q)"

definition better_rule :: "(nat \<times> bool) option \<Rightarrow> robots_rule \<Rightarrow> bool" where
  "better_rule winner r =
     (case winner of None \<Rightarrow> True
      | Some (best, best_allow) \<Rightarrow>
          rule_specificity r > best \<or> (rule_specificity r = best \<and> rule_allow r \<and> \<not> best_allow))"

fun pick_winner :: "string \<Rightarrow> (nat \<times> bool) option \<Rightarrow> robots_rule list \<Rightarrow> (nat \<times> bool) option" where
  "pick_winner path winner [] = winner"
| "pick_winner path winner (r # rs) =
     pick_winner path
       (if robots_pattern_matches (rule_pattern r) path \<and> better_rule winner r
        then Some (rule_specificity r, rule_allow r) else winner) rs"

definition RobotsPolicy_allows :: "robots_policy \<Rightarrow> crawl_url \<Rightarrow> bool" where
  "RobotsPolicy_allows p t =
     (case pick_winner (robots_path t) None (policy_rules p) of None \<Rightarrow> True | Some (_, allow) \<Rightarrow> allow)"

section \<open>The reference for patterns\<close>

text \<open>A star stands for any string; \<open>q\<close> says what may follow the pattern.\<close>

fun glob :: "(string \<Rightarrow> bool) \<Rightarrow> string \<Rightarrow> string \<Rightarrow> bool" where
  "glob q [] s = q s"
| "glob q (c # p) [] = (c = CHR ''*'' \<and> glob q p [])"
| "glob q (c # p) (d # s) =
     (if c = CHR ''*'' then glob q p (d # s) \<or> glob q (c # p) s else c = d \<and> glob q p s)"

definition glob_prefix :: "string \<Rightarrow> string \<Rightarrow> bool" where
  "glob_prefix p s = glob (\<lambda>_. True) p s"

definition glob_full :: "string \<Rightarrow> string \<Rightarrow> bool" where
  "glob_full p s = glob (\<lambda>r. r = []) p s"

text \<open>The segments of a pattern found one after another, and what is left.\<close>

fun segs_at :: "string list \<Rightarrow> string \<Rightarrow> string \<Rightarrow> bool" where
  "segs_at [] s t = (t = s)"
| "segs_at (g # gs) s t = (\<exists>x u. s = x @ g @ u \<and> segs_at gs u t)"

lemma split_on_ne: "split_on d s \<noteq> []"
  by (induction s) (auto split: list.splits)

lemma split_on_Cons_ne: "c \<noteq> d \<Longrightarrow> split_on d (c # s) = (c # hd (split_on d s)) # tl (split_on d s)"
  using split_on_ne [of d s] by (cases "split_on d s") auto

lemma glob_star: "glob q (CHR ''*'' # p) s \<longleftrightarrow> (\<exists>x u. s = x @ u \<and> glob q p u)"
proof (induction s)
  case (Cons c s)
  have "(\<exists>x u. c # s = x @ u \<and> glob q p u) \<longleftrightarrow> glob q p (c # s) \<or> (\<exists>x u. s = x @ u \<and> glob q p u)"
    by (metis append_Cons append_Nil list.exhaust list.inject)
  with Cons show ?case by simp
qed auto

lemma glob_segs:
  "glob q p s \<longleftrightarrow> (\<exists>u t. s = hd (split_on (CHR ''*'') p) @ u \<and> segs_at (tl (split_on (CHR ''*'') p)) u t \<and> q t)"
proof (induction p arbitrary: s)
  case (Cons c p)
  show ?case
  proof (cases "c = CHR ''*''")
    case True
    obtain g gs where g: "split_on (CHR ''*'') p = g # gs" using split_on_ne by (meson list.exhaust)
    show ?thesis unfolding True glob_star Cons.IH by (auto simp: g)
  next
    case False
    have sp: "split_on (CHR ''*'') (c # p) = (c # hd (split_on (CHR ''*'') p)) # tl (split_on (CHR ''*'') p)"
      by (rule split_on_Cons_ne [OF False])
    show ?thesis
    proof (cases s)
      case Nil
      then show ?thesis using False by (simp add: sp del: split_on.simps)
    next
      case (Cons d s')
      then show ?thesis using False Cons.IH [of s'] by (auto simp: sp Cons simp del: split_on.simps)
    qed
  qed
qed auto

lemma segs_at_earlier: "segs_at gs u t \<Longrightarrow> \<exists>t'. segs_at gs (y @ u) t'"
proof (cases gs)
  case (Cons g gs')
  assume "segs_at gs u t"
  with Cons obtain x u' where "u = x @ g @ u'" "segs_at gs' u' t" by auto
  then have "y @ u = (y @ x) @ g @ u'" by simp
  with \<open>segs_at gs' u' t\<close> show ?thesis unfolding Cons segs_at.simps by blast
qed simp

lemma segs_at_last_free: "segs_at (gs @ [[]]) s t \<Longrightarrow> segs_at (gs @ [[]]) s []"
  by (induction gs arbitrary: s) fastforce+

lemma split_on_ends:
  "ends_with p [d] \<Longrightarrow> \<exists>ys. split_on d p = ys @ [[]] \<and> ys \<noteq> []"
proof -
  assume "ends_with p [d]"
  then obtain r where p: "p = r @ [d]" by (auto simp: ends_with_iff)
  have "\<exists>ys. split_on d (r @ [d]) = ys @ [[]] \<and> ys \<noteq> []"
  proof (induction r)
    case (Cons c r)
    then obtain ys where "split_on d (r @ [d]) = ys @ [[]]" "ys \<noteq> []" by blast
    then obtain z zs where "split_on d (r @ [d]) = z # zs @ [[]]" by (cases ys) auto
    then show ?case by auto
  qed simp
  then show ?thesis by (simp add: p)
qed

section \<open>The matcher against the reference\<close>

lemma match_segments_sound:
  "match_segments False gs path k = Some m \<Longrightarrow> k \<le> length path \<Longrightarrow>
     m \<le> length path \<and> segs_at gs (drop k path) (drop m path)"
proof (induction gs arbitrary: k)
  case (Cons g gs)
  show ?case
  proof (cases "g = []")
    case True
    with Cons have "m \<le> length path \<and> segs_at gs (drop k path) (drop m path)" by simp
    with True show ?thesis by (auto intro: exI [of _ "[]"])
  next
    case False
    with Cons.prems obtain off where off: "find_str (drop k path) g = Some off"
      and rest: "match_segments False gs path (k + off + length g) = Some m"
      by (auto split: option.splits)
    from find_str_Some [OF off] obtain u where len: "off + length g \<le> length (drop k path)"
      and eq: "drop k path = take off (drop k path) @ g @ u" by blast
    have "drop (k + off + length g) path = drop (off + length g) (drop k path)" by (simp add: ac_simps)
    also have "\<dots> = u" using eq len
      by (metis append.assoc append_eq_conv_conj length_append length_take min.absorb2 add_leD1)
    finally have u: "drop (k + off + length g) path = u" .
    have "k + off + length g \<le> length path" using len Cons.prems(2) by simp
    with Cons.IH [OF rest] u eq show ?thesis by (metis segs_at.simps(2))
  qed
qed simp

lemma match_segments_complete:
  "segs_at gs (drop k path) t \<Longrightarrow> match_segments False gs path k \<noteq> None"
proof (induction gs arbitrary: k t)
  case (Cons g gs)
  from Cons.prems obtain x u where eq: "drop k path = x @ g @ u" and rest: "segs_at gs u t" by auto
  show ?case
  proof (cases "g = []")
    case True
    with eq segs_at_earlier [OF rest, of x] Cons.IH show ?thesis by auto
  next
    case False
    from eq find_str_None [of "drop k path" g] obtain off where off: "find_str (drop k path) g = Some off" by blast
    have "off \<le> length x" using find_str_least [OF off, of x u] eq by (meson not_le)
    then have "drop (k + off + length g) path = drop (off + length g) (x @ g @ u)"
      by (metis add.commute add.left_commute drop_drop eq)
    also have "\<dots> = drop (off + length g) (x @ g) @ u" using \<open>off \<le> length x\<close> by simp
    finally have "\<exists>t'. segs_at gs (drop (k + off + length g) path) t'"
      using segs_at_earlier [OF rest, of "drop (off + length g) (x @ g)"] by (simp only:)
    with Cons.IH False off show ?thesis by auto
  qed
qed simp

text \<open>The first segment is anchored at the start.\<close>

lemma match_first:
  "match_segments True (g # gs) path 0 =
     (if starts_with path g then match_segments False gs path (length g) else None)"
  by (simp add: starts_with_def)

lemma match_pattern_segs:
  "match_segments True (split_on (CHR ''*'') p) path 0 = Some m \<Longrightarrow>
     m \<le> length path \<and> (\<exists>u. path = hd (split_on (CHR ''*'') p) @ u \<and> segs_at (tl (split_on (CHR ''*'') p)) u (drop m path))"
proof -
  assume m: "match_segments True (split_on (CHR ''*'') p) path 0 = Some m"
  obtain g gs where g: "split_on (CHR ''*'') p = g # gs" using split_on_ne by (meson list.exhaust)
  with m obtain u where u: "path = g @ u" and rest: "match_segments False gs path (length g) = Some m"
    unfolding g match_first by (auto simp: starts_with_iff split: if_splits)
  from match_segments_sound [OF rest] u show ?thesis by (auto simp: g)
qed

lemma match_pattern_complete:
  "path = hd (split_on (CHR ''*'') p) @ u \<Longrightarrow> segs_at (tl (split_on (CHR ''*'') p)) u t \<Longrightarrow>
     match_segments True (split_on (CHR ''*'') p) path 0 \<noteq> None"
proof -
  assume u: "path = hd (split_on (CHR ''*'') p) @ u" and t: "segs_at (tl (split_on (CHR ''*'') p)) u t"
  obtain g gs where g: "split_on (CHR ''*'') p = g # gs" using split_on_ne by (meson list.exhaust)
  have "match_segments False gs path (length g) \<noteq> None"
    using t u by (intro match_segments_complete [of gs _ path t]) (simp add: g)
  moreover have "starts_with path g" using u by (simp add: g starts_with_iff)
  ultimately show ?thesis unfolding g match_first by simp
qed

lemma unanchored_matches: "\<not> ends_with p ''$'' \<Longrightarrow> robots_pattern_matches p path = glob_prefix p path"
proof -
  assume p: "\<not> ends_with p ''$''"
  then have "robots_pattern_matches p path \<longleftrightarrow> match_segments True (split_on (CHR ''*'') p) path 0 \<noteq> None"
    by (auto simp: robots_pattern_matches_def strip_suffix_def Let_def split: option.splits)
  also have "\<dots> \<longleftrightarrow> glob_prefix p path"
    unfolding glob_prefix_def glob_segs using match_pattern_segs match_pattern_complete by blast
  finally show ?thesis .
qed

lemma anchored_matches:
  assumes "robots_pattern_matches (p @ ''$'') path"
  shows "glob_full p path"
proof -
  have strip: "strip_suffix (p @ ''$'') ''$'' = Some p" and ends: "ends_with (p @ ''$'') ''$''"
    by (auto simp: strip_suffix_Some ends_with_iff)
  from assms obtain m where m: "match_segments True (split_on (CHR ''*'') p) path 0 = Some m"
    and fin: "ends_with p ''*'' \<or> m = length path"
    unfolding robots_pattern_matches_def Let_def strip using ends by (auto split: option.splits)
  from match_pattern_segs [OF m] obtain u where u: "path = hd (split_on (CHR ''*'') p) @ u"
    and segs: "segs_at (tl (split_on (CHR ''*'') p)) u (drop m path)" by blast
  have "segs_at (tl (split_on (CHR ''*'') p)) u []"
  proof (cases "m = length path")
    case True
    with segs show ?thesis by simp
  next
    case False
    with fin obtain ys where "split_on (CHR ''*'') p = ys @ [[]]" "ys \<noteq> []" using split_on_ends by blast
    with segs show ?thesis using segs_at_last_free [of "tl ys"] by simp
  qed
  with u show ?thesis unfolding glob_full_def glob_segs by blast
qed

section \<open>The winning rule\<close>

definition rule_matches :: "string \<Rightarrow> robots_rule \<Rightarrow> bool" where
  "rule_matches path r = robots_pattern_matches (rule_pattern r) path"

fun winner_of :: "string \<Rightarrow> robots_rule list \<Rightarrow> (nat \<times> bool) option \<Rightarrow> bool" where
  "winner_of path rs None = (\<forall>r \<in> set rs. \<not> rule_matches path r)"
| "winner_of path rs (Some (k, b)) =
     ((\<exists>r \<in> set rs. rule_matches path r \<and> rule_specificity r = k)
      \<and> (\<forall>r \<in> set rs. rule_matches path r \<longrightarrow> rule_specificity r \<le> k)
      \<and> (b \<longleftrightarrow> (\<exists>r \<in> set rs. rule_matches path r \<and> rule_allow r \<and> rule_specificity r = k)))"

lemma winner_of_step:
  assumes "winner_of path rs w"
  shows "winner_of path (rs @ [r])
    (if robots_pattern_matches (rule_pattern r) path \<and> better_rule w r then Some (rule_specificity r, rule_allow r) else w)"
proof (cases w)
  case None
  with assms show ?thesis by (auto simp: rule_matches_def better_rule_def)
next
  case (Some kb)
  obtain k b where kb: "kb = (k, b)" by (cases kb)
  with assms Some have w: "winner_of path rs (Some (k, b))" by simp
  consider "\<not> rule_matches path r" | "rule_matches path r" "rule_specificity r > k"
    | "rule_matches path r" "rule_specificity r < k" | "rule_matches path r" "rule_specificity r = k"
    by linarith
  then show ?thesis
  proof cases
    case 2
    with w have "\<forall>x \<in> set rs. rule_matches path x \<longrightarrow> rule_specificity x < rule_specificity r" by fastforce
    with 2 w show ?thesis by (fastforce simp: Some kb rule_matches_def better_rule_def)
  qed (use w in \<open>auto simp: Some kb rule_matches_def better_rule_def\<close>)
qed

lemma pick_winner_of: "winner_of path ms w \<Longrightarrow> winner_of path (ms @ rs) (pick_winner path w rs)"
proof (induction rs arbitrary: ms w)
  case (Cons r rs)
  from Cons.IH [OF winner_of_step [OF Cons.prems, of r]] show ?case by simp
qed simp

lemma allows_iff:
  "RobotsPolicy_allows p t =
     (\<forall>r \<in> set (filter (\<lambda>r. rule_matches (robots_path t) r \<and> \<not> rule_allow r) (policy_rules p)).
        \<exists>a \<in> set (policy_rules p). rule_matches (robots_path t) a \<and> rule_allow a
          \<and> rule_specificity r \<le> rule_specificity a)"
proof -
  let ?w = "pick_winner (robots_path t) None (policy_rules p)"
  have w: "winner_of (robots_path t) (policy_rules p) ?w"
    using pick_winner_of [of "robots_path t" "[]" None "policy_rules p"] by simp
  show ?thesis
  proof (cases ?w)
    case None
    with w show ?thesis by (auto simp: RobotsPolicy_allows_def)
  next
    case (Some kb)
    obtain k b where kb: "kb = (k, b)" by (cases kb)
    with w Some have w': "winner_of (robots_path t) (policy_rules p) (Some (k, b))" by simp
    have "RobotsPolicy_allows p t = b" by (simp add: RobotsPolicy_allows_def Some kb)
    moreover have "b" if "\<forall>r \<in> set (filter (\<lambda>r. rule_matches (robots_path t) r \<and> \<not> rule_allow r) (policy_rules p)).
        \<exists>a \<in> set (policy_rules p). rule_matches (robots_path t) a \<and> rule_allow a \<and> rule_specificity r \<le> rule_specificity a"
    proof -
      from w' obtain r where r: "r \<in> set (policy_rules p)" "rule_matches (robots_path t) r" "rule_specificity r = k" by auto
      show b
      proof (cases "rule_allow r")
        case True
        with r w' show ?thesis by auto
      next
        case False
        with that r obtain a where "a \<in> set (policy_rules p)" "rule_matches (robots_path t) a" "rule_allow a" "k \<le> rule_specificity a"
          by auto
        with w' show ?thesis by (metis le_antisym winner_of.simps(2))
      qed
    qed
    ultimately show ?thesis using w' by auto
  qed
qed

section \<open>Properties\<close>

text \<open>
  C9: without a final dollar sign a rule matches exactly the paths that start with its pattern, a
  star standing for any string; with one, it matches only paths the whole pattern describes.
\<close>

theorem robots_patterns_match_reference:
  "(\<not> ends_with pat ''$'' \<longrightarrow> robots_pattern_matches pat path = glob_prefix pat path)
   \<and> (robots_pattern_matches (pat @ ''$'') path \<longrightarrow> glob_full pat path)"
  using unanchored_matches anchored_matches by blast

theorem robots_patterns_match_reference_witness:
  "glob_prefix ''/a*z'' ''/abcz/d'' \<and> robots_pattern_matches ''/a*z'' ''/abcz/d'' \<and> glob_full ''/a*z'' ''/abcz''"
proof -
  have "\<not> ends_with ''/a*z'' ''$''" "robots_pattern_matches ''/a*z'' ''/abcz/d''"
    "robots_pattern_matches (''/a*z'' @ ''$'') ''/abcz''"
    by code_simp+
  with robots_patterns_match_reference [of "''/a*z''" "''/abcz/d''"]
    robots_patterns_match_reference [of "''/a*z''" "''/abcz''"]
  show ?thesis by blast
qed

text \<open>
  The converse fails for anchored patterns: every segment is taken at its first occurrence, so
  a final segment that occurs earlier in the path is missed, and a target that a disallow rule
  describes is allowed.
\<close>

theorem anchored_pattern_misses:
  "glob_full ''/*.pdf'' ''/a.pdf/b.pdf'' \<and> \<not> robots_pattern_matches ''/*.pdf$'' ''/a.pdf/b.pdf''
   \<and> RobotsPolicy_allows \<lparr>policy_rules = [\<lparr>rule_pattern = ''/*.pdf$'', rule_allow = False\<rparr>]\<rparr>
       (CrawlUrl ((sample_url ''https'' ''a.com'')\<lparr>url_path := ''/a.pdf/b.pdf''\<rparr>))"
  by code_simp

text \<open>
  C10: a target is allowed exactly when every matching disallow rule is outweighed by a matching
  allow rule that is at least as specific; with no matching rule it is allowed.
\<close>

theorem robots_most_specific_rule_decides:
  "RobotsPolicy_allows p t =
     list_all (\<lambda>r. list_ex (\<lambda>a. rule_matches (robots_path t) a \<and> rule_allow a
                            \<and> rule_specificity r \<le> rule_specificity a) (policy_rules p))
       (filter (\<lambda>r. rule_matches (robots_path t) r \<and> \<not> rule_allow r) (policy_rules p))"
  unfolding list_all_iff list_ex_iff by (rule allows_iff)

end
