(* ===== verification/Crawler_Fetch.thy ===== *)
theory Crawler_Fetch
  imports Crawler_Robots
begin

text \<open>
  \<^verbatim>\<open>crates/crawler/src/lib.rs\<close>, the acquisition itself: \<open>Crawler::fetch\<close>, the robots lookup, the
  redirect loop, the validation of each target, the optional TLS probe and the error mappings.
  DNS, the HTTP transport and the TLS handshake are the functions of the record \<open>net\<close>, on a network
  state of any type \<open>'w\<close>, so that successive calls may answer differently.  The model also returns
  the list of requests made, each with the addresses its target was validated to.
\<close>

section \<open>Types\<close>

datatype capture_unavailable_reason = NotCaptured | NotApplicableReason | TimeoutReason | ConnectionFailed | Invalid

datatype 'a capture = Captured 'a | Unavailable capture_unavailable_reason

record dns_capture =
  dns_queried_name :: string
  dns_addresses :: "ip_addr list"

datatype tls_validation = Verified | ValidationFailed

record tls_capture =
  tls_validation_of :: tls_validation
  tls_protocol :: "string option"
  tls_cipher_suite :: "string option"
  tls_certificate_subject :: "string option"
  tls_certificate_issuer :: "string option"
  tls_subject_alternative_names :: "string list"
  tls_certificate_not_before :: "instant option"
  tls_certificate_not_after :: "instant option"

record crawl_redirect =
  redirect_from :: crawl_url
  redirect_to :: crawl_url
  redirect_status :: u16

record crawl_response =
  final_url :: crawl_url
  resolved_addresses :: "ip_addr list"
  redirects :: "crawl_redirect list"
  crawl_status :: u16
  crawl_headers :: headers
  crawl_body :: string
  crawl_dns :: "dns_capture capture"
  crawl_tls :: "tls_capture capture"

text \<open>An error; a robots failure carries what its reason text is made of.\<close>

datatype crawl_error =
    CrawlCancelled
  | CrawlTimeout
  | CrawlDns dns_safety_error
  | CrawlTransport http_transport_error
  | CrawlResponseTooLarge nat nat
  | RedirectLimitExceeded nat
  | MissingRedirectLocation
  | InvalidRedirectTarget crawl_url_error
  | RobotsDenied crawl_url
  | RobotsUnavailable robots_reason
and robots_reason =
    ReasonUrl crawl_url_error
  | ReasonFetch crawl_error
  | ReasonStatus u16
  | ReasonUtf8
  | ReasonParse robots_parse_error

text \<open>What waiting for a resolution, under the timeout and the cancellation, gives.\<close>

datatype dns_event = DnsCancelled | DnsTimedOut | DnsAnswer "(dns_resolver_error, socket_addr list) result"

datatype probe_event = ProbeRuns | ProbeCancelled | ProbeTimedOut

record 'w net =
  net_resolve :: "'w \<Rightarrow> string \<Rightarrow> dns_event \<times> 'w"
  net_get :: "'w \<Rightarrow> crawl_url \<Rightarrow> nat \<Rightarrow> (http_transport_error, http_response) result \<times> 'w"
  net_handshake :: "'w \<Rightarrow> string \<Rightarrow> ip_addr \<Rightarrow> u16 \<Rightarrow> bool \<Rightarrow> tls_capture option \<times> 'w"
  net_probe :: "'w \<Rightarrow> probe_event"
  net_join :: "url \<Rightarrow> string \<Rightarrow> url option"

record crawler =
  crawler_config_of :: crawler_config
  tls_capture_enabled :: bool

type_synonym request_log = "(crawl_url \<times> ip_addr list) list"

section \<open>Error mappings\<close>

definition is_redirect :: "u16 \<Rightarrow> bool" where
  "is_redirect status = (300 \<le> status \<and> status < 400)"

fun map_transport_error :: "http_transport_error \<Rightarrow> crawl_error" where
  "map_transport_error TransportCancelled = CrawlCancelled"
| "map_transport_error (Request timed_out) = (if timed_out then CrawlTimeout else CrawlTransport (Request timed_out))"
| "map_transport_error (TransportTooLarge limit observed) = CrawlResponseTooLarge limit observed"
| "map_transport_error (TransportFailed message) = CrawlTransport (TransportFailed message)"

definition map_robots_fetch_error :: "crawl_error \<Rightarrow> crawl_error" where
  "map_robots_fetch_error e =
     (case e of CrawlCancelled \<Rightarrow> e
      | CrawlDns (BlockedAddress _ _) \<Rightarrow> e
      | _ \<Rightarrow> RobotsUnavailable (ReasonFetch e))"

definition is_retryable :: "crawl_error \<Rightarrow> bool" where
  "is_retryable e =
     (case e of
        CrawlDns (Resolution _) \<Rightarrow> True
      | CrawlDns DnsTimeout \<Rightarrow> True
      | CrawlTimeout \<Rightarrow> True
      | CrawlTransport (Request _) \<Rightarrow> True
      | CrawlTransport (TransportFailed _) \<Rightarrow> True
      | RobotsUnavailable _ \<Rightarrow> True
      | _ \<Rightarrow> False)"

section \<open>Validating a target\<close>

text \<open>The derived order of \<open>IpAddr\<close>: IPv4 before IPv6, then by value.\<close>

fun ip_key :: "ip_addr \<Rightarrow> nat \<times> nat" where
  "ip_key (V4 w) = (0, unat w)"
| "ip_key (V6 w) = (1, unat w)"

definition validate_target ::
    "'w net \<Rightarrow> crawler \<Rightarrow> 'w \<Rightarrow> crawl_url \<Rightarrow> (crawl_error, ip_addr list) result \<times> 'w" where
  "validate_target N c w t =
     (case net_resolve N w (crawl_url_host t) of
        (DnsCancelled, w) \<Rightarrow> (Inl CrawlCancelled, w)
      | (DnsTimedOut, w) \<Rightarrow> (Inl (CrawlDns DnsTimeout), w)
      | (DnsAnswer answer, w) \<Rightarrow>
          (rbind (map_err (\<lambda>e. CrawlDns (Resolution e)) answer) (\<lambda>addresses.
           rbind (map_err CrawlDns (validate_addresses (crawl_url_host t) addresses)) (\<lambda>_.
             Inr (take (dns_max_addresses (crawler_config_of c))
                    (dedup_key ip_key (sort_key ip_key (map sa_ip addresses)))))), w))"

section \<open>The TLS probe\<close>

text \<open>\<open>port_or_known_default().unwrap_or(443)\<close>: the target's scheme is \<^verbatim>\<open>https\<close> here.\<close>

definition tls_port :: "crawl_url \<Rightarrow> u16" where
  "tls_port t = (case url_port (crawl_url_as_url t) of Some p \<Rightarrow> p | None \<Rightarrow> 443)"

fun tls_probe ::
    "'w net \<Rightarrow> 'w \<Rightarrow> string \<Rightarrow> u16 \<Rightarrow> tls_capture option \<Rightarrow> ip_addr list \<Rightarrow> tls_capture capture \<times> 'w" where
  "tls_probe N w host port fallback [] =
     ((case fallback of None \<Rightarrow> Unavailable ConnectionFailed | Some capture \<Rightarrow> Captured capture), w)"
| "tls_probe N w host port fallback (a # as) =
     (case net_handshake N w host a port True of
        (Some capture, w) \<Rightarrow> (Captured capture, w)
      | (None, w) \<Rightarrow>
          (case net_handshake N w host a port False of
             (Some capture, w) \<Rightarrow>
               tls_probe N w host port (case fallback of None \<Rightarrow> Some capture | Some f \<Rightarrow> Some f) as
           | (None, w) \<Rightarrow> tls_probe N w host port fallback as))"

definition capture_tls ::
    "'w net \<Rightarrow> crawler \<Rightarrow> 'w \<Rightarrow> crawl_url \<Rightarrow> ip_addr list \<Rightarrow> tls_capture capture \<times> 'w" where
  "capture_tls N c w t addresses =
     (if \<not> tls_capture_enabled c then (Unavailable NotCaptured, w)
      else if url_scheme (crawl_url_as_url t) \<noteq> ''https'' then (Unavailable NotApplicableReason, w)
      else
        (let candidates = take (tls_max_addresses (crawler_config_of c)) addresses in
         if candidates = [] then (Unavailable Invalid, w)
         else case net_probe N w of
                ProbeCancelled \<Rightarrow> (Unavailable ConnectionFailed, w)
              | ProbeTimedOut \<Rightarrow> (Unavailable TimeoutReason, w)
              | ProbeRuns \<Rightarrow> tls_probe N w (crawl_url_host t) (tls_port t) None candidates))"

text \<open>What a certificate's names may keep.\<close>

definition sanitized_hostname :: "string \<Rightarrow> string option" where
  "sanitized_hostname s =
     (let s = to_ascii_lowercase (trim_end_matches (CHR ''.'') (trim s)) in
      if s \<noteq> [] \<and> length s \<le> 253
         \<and> list_all (\<lambda>c. is_ascii_alphanumeric c \<or> c = CHR ''.'' \<or> c = CHR ''-'' \<or> c = CHR ''*'') s
      then Some s else None)"

definition sanitized_certificate_label :: "string \<Rightarrow> string option" where
  "sanitized_certificate_label s =
     (let s = trim s in
      if s \<noteq> [] \<and> length s \<le> 256 \<and> \<not> contains_str s ''@''
         \<and> list_all (\<lambda>c. is_ascii_graphic c \<or> c = CHR '' '') s
      then Some s else None)"

section \<open>The redirect loop\<close>

text \<open>What a response that is not a redirect becomes.\<close>

definition finish_fetch ::
    "'w net \<Rightarrow> crawler \<Rightarrow> 'w \<Rightarrow> bool \<Rightarrow> crawl_url \<Rightarrow> ip_addr list \<Rightarrow> crawl_redirect list \<Rightarrow> http_response \<Rightarrow>
     crawl_response \<times> 'w" where
  "finish_fetch N c w capture_optional t addresses chain r =
     (let dns = (if capture_optional
                 then Captured \<lparr>dns_queried_name = crawl_url_host t, dns_addresses = addresses\<rparr>
                 else Unavailable NotCaptured);
          (tls, w) = (if capture_optional then capture_tls N c w t addresses else (Unavailable NotCaptured, w))
      in (\<lparr>final_url = t, resolved_addresses = addresses, redirects = chain, crawl_status = resp_status r,
           crawl_headers = resp_headers r, crawl_body = resp_body r, crawl_dns = dns, crawl_tls = tls\<rparr>, w))"

text \<open>
  One iteration either ends the loop or gives the next target with its redirect.  The loop counts
  redirects up to the configured limit, so it ends.
\<close>

definition fetch_once ::
    "'w net \<Rightarrow> crawler \<Rightarrow> bool \<Rightarrow> 'w \<Rightarrow> crawl_url \<Rightarrow> nat \<Rightarrow> crawl_redirect list \<Rightarrow>
     ((crawl_error, crawl_response + crawl_redirect) result \<times> request_log) \<times> 'w" where
  "fetch_once N c capture_optional w t count chain =
     (case validate_target N c w t of
        (Inl e, w) \<Rightarrow> ((Inl e, []), w)
      | (Inr addresses, w) \<Rightarrow>
          (case net_get N w t (max_response_bytes (crawler_config_of c)) of
             (Inl e, w) \<Rightarrow> ((Inl (map_transport_error e), [(t, addresses)]), w)
           | (Inr r, w) \<Rightarrow>
               if length (resp_body r) > max_response_bytes (crawler_config_of c)
               then ((Inl (CrawlResponseTooLarge (max_response_bytes (crawler_config_of c)) (length (resp_body r))),
                      [(t, addresses)]), w)
               else if is_redirect (resp_status r) then
                 if count \<ge> max_redirects (crawler_config_of c)
                 then ((Inl (RedirectLimitExceeded (max_redirects (crawler_config_of c))), [(t, addresses)]), w)
                 else
                   ((rbind (ok_or MissingRedirectLocation (response_header r ''location'')) (\<lambda>location.
                     rbind (map_err InvalidRedirectTarget (redirect_target (net_join N) t location)) (\<lambda>next_target.
                       Inr (Inr \<lparr>redirect_from = t, redirect_to = next_target, redirect_status = resp_status r\<rparr>))),
                     [(t, addresses)]), w)
               else
                 (let (response, w) = finish_fetch N c w capture_optional t addresses chain r
                  in ((Inr (Inl response), [(t, addresses)]), w))))"

lemma fetch_once_redirect_count:
  "fetch_once N c b w t count chain = ((Inr (Inr r), l), w') \<Longrightarrow> count < max_redirects (crawler_config_of c)"
  by (auto simp: fetch_once_def Let_def split: prod.splits sum.splits if_splits)

function fetch_unchecked ::
    "'w net \<Rightarrow> crawler \<Rightarrow> bool \<Rightarrow> 'w \<Rightarrow> crawl_url \<Rightarrow> nat \<Rightarrow> crawl_redirect list \<Rightarrow> request_log \<Rightarrow>
     ((crawl_error, crawl_response) result \<times> request_log) \<times> 'w" where
  "fetch_unchecked N c capture_optional w t count chain log =
     (case fetch_once N c capture_optional w t count chain of
        ((Inl e, l), w) \<Rightarrow> ((Inl e, log @ l), w)
      | ((Inr (Inl response), l), w) \<Rightarrow> ((Inr response, log @ l), w)
      | ((Inr (Inr redirect), l), w) \<Rightarrow>
          fetch_unchecked N c capture_optional w (redirect_to redirect) (count + 1) (chain @ [redirect]) (log @ l))"
  by pat_completeness auto

termination
  by (relation "measure (\<lambda>(N, c, b, w, t, count, chain, log). max_redirects (crawler_config_of c) - count)")
     (auto dest!: fetch_once_redirect_count [OF sym])

declare fetch_unchecked.simps [simp del]

section \<open>Robots and fetch\<close>

definition read_robots :: "crawler \<Rightarrow> crawl_response \<Rightarrow> (crawl_error, robots_policy) result" where
  "read_robots c r =
     (if crawl_status r = 404 then Inr RobotsPolicy_allow_all
      else if \<not> (200 \<le> crawl_status r \<and> crawl_status r < 300)
      then Inl (RobotsUnavailable (ReasonStatus (crawl_status r)))
      else if \<not> utf8_ok (crawl_body r) then Inl (RobotsUnavailable ReasonUtf8)
      else map_err (\<lambda>e. RobotsUnavailable (ReasonParse e))
             (RobotsPolicy_parse (robots_user_agent (crawler_config_of c)) (crawl_body r)))"

definition robots_policy_of ::
    "'w net \<Rightarrow> crawler \<Rightarrow> bool \<Rightarrow> 'w \<Rightarrow> crawl_url \<Rightarrow> ((crawl_error, robots_policy) result \<times> request_log) \<times> 'w" where
  "robots_policy_of N c cancelled w t =
     (if cancelled then ((Inl CrawlCancelled, []), w)
      else case robots_url t of
             Inl e \<Rightarrow> ((Inl (RobotsUnavailable (ReasonUrl e)), []), w)
           | Inr u \<Rightarrow>
               (case fetch_unchecked N c False w u 0 [] [] of
                  ((r, log), w) \<Rightarrow> ((rbind (map_err map_robots_fetch_error r) (read_robots c), log), w)))"

text \<open>\<open>cancelled\<close>: whether the token is cancelled at each of the two checks.\<close>

definition fetch ::
    "'w net \<Rightarrow> crawler \<Rightarrow> bool \<Rightarrow> bool \<Rightarrow> 'w \<Rightarrow> crawl_url \<Rightarrow>
     ((crawl_error, crawl_response) result \<times> request_log) \<times> 'w" where
  "fetch N c cancelled cancelled' w t =
     (if cancelled then ((Inl CrawlCancelled, []), w)
      else case robots_policy_of N c cancelled' w t of
             ((Inl e, log), w) \<Rightarrow> ((Inl e, log), w)
           | ((Inr robots, log), w) \<Rightarrow>
               if \<not> RobotsPolicy_allows robots t then ((Inl (RobotsDenied t), log), w)
               else fetch_unchecked N c True w t 0 [] log)"

record politeness_request =
  polite_domain :: string
  polite_minimum_delay :: duration

definition PolitenessRequest_for_target :: "crawl_url \<Rightarrow> crawler_config \<Rightarrow> politeness_request" where
  "PolitenessRequest_for_target t config =
     \<lparr>polite_domain = crawl_url_host t, polite_minimum_delay = politeness_delay config\<rparr>"

definition Crawler_new ::
    "(string \<Rightarrow> bool) \<Rightarrow> crawler_config \<Rightarrow> (crawler_config_error, crawler) result" where
  "Crawler_new header_ok config =
     rbind (CrawlerConfig_validate header_ok config) (\<lambda>_.
       Inr \<lparr>crawler_config_of = config, tls_capture_enabled = False\<rparr>)"

definition Crawler_with_system_resolver ::
    "(string \<Rightarrow> bool) \<Rightarrow> crawler_config \<Rightarrow> (crawler_config_error, crawler) result" where
  "Crawler_with_system_resolver header_ok config =
     rbind (Crawler_new header_ok config) (\<lambda>c. Inr (c\<lparr>tls_capture_enabled := True\<rparr>))"

section \<open>Lemmas\<close>

lemma validate_target_Inr:
  "validate_target N c w t = (Inr addresses, w') \<Longrightarrow>
     (\<forall>a \<in> set addresses. is_public_address a) \<and> length addresses \<le> dns_max_addresses (crawler_config_of c)
     \<and> sorted_wrt (<) (map ip_key addresses)"
proof -
  assume v: "validate_target N c w t = (Inr addresses, w')"
  then obtain as where "net_resolve N w (crawl_url_host t) = (DnsAnswer (Inr as), w')"
    and as: "\<forall>a \<in> set as. is_public_address (sa_ip a)"
    and eq: "addresses = take (dns_max_addresses (crawler_config_of c)) (dedup_key ip_key (sort_key ip_key (map sa_ip as)))"
    by (auto simp: validate_target_def validate_addresses_Inr split: prod.splits dns_event.splits)
  have "set addresses \<subseteq> set (map sa_ip as)"
    unfolding eq using set_dedup_key_subset [of ip_key "sort_key ip_key (map sa_ip as)"] set_take_subset by fastforce
  moreover have "sorted_wrt (<) (map ip_key addresses)"
    unfolding eq take_map [symmetric] by (intro sorted_wrt_take sorted_dedup_key) simp
  ultimately show ?thesis using as by (auto simp: eq)
qed

definition log_ok :: "request_log \<Rightarrow> bool" where
  "log_ok log = (\<forall>e \<in> set log. crawl_url_ok (fst e) \<and> (\<forall>a \<in> set (snd e). is_public_address a))"

lemma log_ok_append [simp]: "log_ok (xs @ ys) \<longleftrightarrow> log_ok xs \<and> log_ok ys"
  by (auto simp: log_ok_def)

lemma log_ok_Nil [simp]: "log_ok []"
  by (simp add: log_ok_def)

lemma fetch_once_log:
  assumes "fetch_once N c b w t count chain = ((r, l), w')" and "crawl_url_ok t"
  shows "log_ok l \<and> length l \<le> 1"
  using assms validate_target_Inr [of N c w t]
  by (auto simp: fetch_once_def Let_def log_ok_def split: prod.splits sum.splits if_splits)

lemma fetch_once_redirect:
  assumes "fetch_once N c b w t count chain = ((Inr (Inr r), l), w')"
  shows "redirect_from r = t \<and> crawl_url_ok (redirect_to r) \<and> is_redirect (redirect_status r)"
  using assms redirect_target_ok
  by (auto simp: fetch_once_def Let_def split: prod.splits sum.splits if_splits)

definition response_ok :: "crawler \<Rightarrow> crawl_response \<Rightarrow> bool" where
  "response_ok c r =
     (length (crawl_body r) \<le> max_response_bytes (crawler_config_of c) \<and> \<not> is_redirect (crawl_status r)
      \<and> (\<forall>a \<in> set (resolved_addresses r). is_public_address a)
      \<and> length (resolved_addresses r) \<le> dns_max_addresses (crawler_config_of c))"

lemma finish_fetch_sel:
  "finish_fetch N c w b t as chain r = (resp, w') \<Longrightarrow>
     final_url resp = t \<and> redirects resp = chain \<and> resolved_addresses resp = as
     \<and> crawl_body resp = resp_body r \<and> crawl_status resp = resp_status r
     \<and> crawl_dns resp = (if b then Captured \<lparr>dns_queried_name = crawl_url_host t, dns_addresses = as\<rparr> else Unavailable NotCaptured)"
  by (auto simp: finish_fetch_def Let_def split: prod.splits)

lemma fetch_once_response:
  assumes "fetch_once N c b w t count chain = ((Inr (Inl resp), l), w')"
  shows "final_url resp = t \<and> redirects resp = chain \<and> response_ok c resp"
proof -
  from assms obtain as w1 r w2 where v: "validate_target N c w t = (Inr as, w1)"
    and g: "net_get N w1 t (max_response_bytes (crawler_config_of c)) = (Inr r, w2)"
    and len: "\<not> length (resp_body r) > max_response_bytes (crawler_config_of c)"
    and st: "\<not> is_redirect (resp_status r)" and fin: "finish_fetch N c w2 b t as chain r = (resp, w')"
    by (auto simp: fetch_once_def Let_def split: prod.splits sum.splits if_splits)
  from finish_fetch_sel [OF fin] validate_target_Inr [OF v] len st show ?thesis
    by (simp add: response_ok_def)
qed

text \<open>A chain of redirects from one URL to another.\<close>

fun chain_links :: "crawl_url \<Rightarrow> crawl_redirect list \<Rightarrow> crawl_url \<Rightarrow> bool" where
  "chain_links s [] t = (s = t)"
| "chain_links s (r # rs) t =
     (redirect_from r = s \<and> crawl_url_ok (redirect_to r) \<and> is_redirect (redirect_status r)
      \<and> chain_links (redirect_to r) rs t)"

lemma chain_links_snoc:
  "chain_links s (rs @ [r]) t \<longleftrightarrow>
     chain_links s rs (redirect_from r) \<and> crawl_url_ok (redirect_to r) \<and> is_redirect (redirect_status r) \<and> redirect_to r = t"
  by (induction rs arbitrary: s) auto

lemma fetch_unchecked_safe:
  assumes "fetch_unchecked N c b w t count chain log = ((r, log'), w')"
    and "crawl_url_ok t" and "log_ok log" and "chain_links s chain t" and "length chain = count"
    and "count \<le> max_redirects (crawler_config_of c)"
  shows "log_ok log' \<and> length log' \<le> length log + (max_redirects (crawler_config_of c) + 1 - count)
     \<and> (\<forall>resp. r = Inr resp \<longrightarrow> chain_links s (redirects resp) (final_url resp)
          \<and> length (redirects resp) \<le> max_redirects (crawler_config_of c) \<and> response_ok c resp)"
  using assms
proof (induction N c b w t count chain log rule: fetch_unchecked.induct)
  case (1 N c b w t count chain log)
  obtain res l w1 where once: "fetch_once N c b w t count chain = ((res, l), w1)" by (metis surj_pair)
  note l = fetch_once_log [OF once "1.prems"(2)]
  show ?case
  proof (cases res)
    case (Inl e)
    with once "1.prems" l show ?thesis by (auto simp: fetch_unchecked.simps)
  next
    case (Inr x)
    show ?thesis
    proof (cases x)
      case (Inl resp)
      have one: "fetch_once N c b w t count chain = ((Inr (Inl resp), l), w1)" using once Inr Inl by simp
      from fetch_once_response [OF one] "1.prems" l show ?thesis
        by (auto simp: fetch_unchecked.simps one)
    next
      case (Inr redirect)
      have one: "fetch_once N c b w t count chain = ((Inr (Inr redirect), l), w1)"
        using once \<open>res = Inr x\<close> Inr by simp
      note red = fetch_once_redirect [OF one] and lt = fetch_once_redirect_count [OF one]
      have run: "fetch_unchecked N c b w1 (redirect_to redirect) (count + 1) (chain @ [redirect]) (log @ l) = ((r, log'), w')"
        using "1.prems"(1) by (subst (asm) fetch_unchecked.simps) (simp add: one)
      have chain: "chain_links s (chain @ [redirect]) (redirect_to redirect)"
        using "1.prems"(4) red by (simp add: chain_links_snoc)
      have "log_ok log' \<and> length log' \<le> length (log @ l) + (max_redirects (crawler_config_of c) + 1 - (count + 1))
        \<and> (\<forall>resp. r = Inr resp \<longrightarrow> chain_links s (redirects resp) (final_url resp)
          \<and> length (redirects resp) \<le> max_redirects (crawler_config_of c) \<and> response_ok c resp)"
        using "1.IH" [OF one [symmetric] refl refl refl run] red "1.prems"(3,5) l chain lt by simp
      with l lt show ?thesis by auto
    qed
  qed
qed

section \<open>Properties\<close>

text \<open>
  C2: whatever the network answers, a fetch ends after at most two times (one plus the redirect
  limit) requests; every request goes to a vetted URL (http or https, no credentials, a domain
  name that is not localhost) whose name has just resolved to public addresses only; and a
  response it returns ends a chain of at most that many redirects starting at the target, is not
  itself a redirect, stays within the byte limit and lists only public addresses.
\<close>

theorem fetch_contacts_only_vetted_targets:
  assumes "crawl_url_ok t" and "fetch N c cancelled cancelled' w t = ((r, log), w')"
  shows "(\<forall>e \<in> set log. crawl_url_ok (fst e) \<and> (\<forall>a \<in> set (snd e). is_public_address a))
     \<and> length log \<le> 2 * (max_redirects (crawler_config_of c) + 1)
     \<and> (\<forall>resp. r = Inr resp \<longrightarrow> chain_links t (redirects resp) (final_url resp)
          \<and> length (redirects resp) \<le> max_redirects (crawler_config_of c) \<and> response_ok c resp)"
proof -
  let ?m = "max_redirects (crawler_config_of c)"
  have robots: "log_ok l \<and> length l \<le> ?m + 1" if "robots_policy_of N c cancelled' w t = ((p, l), w1)" for p l w1
  proof -
    from robots_url_ok [OF assms(1)] obtain u where u: "robots_url t = Inr u" "crawl_url_ok u" by blast
    with that show ?thesis
      using fetch_unchecked_safe [of N c False w u 0 "[]" "[]" _ _ _ u]
      by (auto simp: robots_policy_of_def split: if_splits prod.splits)
  qed
  show ?thesis
  proof (cases cancelled)
    case True
    with assms(2) show ?thesis by (auto simp: fetch_def)
  next
    case False
    obtain p l w1 where p: "robots_policy_of N c cancelled' w t = ((p, l), w1)" by (metis surj_pair)
    note lp = robots [OF p]
    show ?thesis
    proof (cases "\<exists>q. p = Inr q \<and> RobotsPolicy_allows q t")
      case True
      with p False assms(2) have run: "fetch_unchecked N c True w1 t 0 [] l = ((r, log), w')"
        by (auto simp: fetch_def)
      from fetch_unchecked_safe [OF run assms(1), of t] lp show ?thesis by (auto simp: log_ok_def)
    next
      case no: False
      with p False assms(2) have "log = l \<and> (\<forall>resp. r \<noteq> Inr resp)"
        by (auto simp: fetch_def split: sum.splits if_splits)
      with lp show ?thesis by (auto simp: log_ok_def)
    qed
  qed
qed

definition sample_net :: "nat net" where
  "sample_net =
     \<lparr>net_resolve = (\<lambda>w h. (DnsAnswer (Inr [\<lparr>sa_ip = V4 0x08080808, sa_port = 0\<rparr>]), w + 1)),
      net_get = (\<lambda>w u limit.
        (if url_path (crawl_url_as_url u) = ''/robots.txt''
         then Inr \<lparr>resp_status = 404, resp_headers = [], resp_body = []\<rparr>
         else Inr \<lparr>resp_status = 200, resp_headers = [], resp_body = ''hi''\<rparr>, w + 1)),
      net_handshake = (\<lambda>w h a p v. (None, w)), net_probe = (\<lambda>w. ProbeRuns), net_join = (\<lambda>u s. None)\<rparr>"

definition sample_crawler :: crawler where
  "sample_crawler = \<lparr>crawler_config_of = CrawlerConfig_default, tls_capture_enabled = False\<rparr>"

definition sample_target :: crawl_url where
  "sample_target = CrawlUrl (sample_url ''https'' ''example.com'')"

lemma sample_target_ok: "crawl_url_ok sample_target"
proof -
  have "\<not> eq_ignore_ascii_case ''example.com'' ''localhost''" by code_simp
  then show ?thesis by (simp add: sample_target_def crawl_url_ok_def sample_url_def)
qed

definition sample_fetch :: "((crawl_error, crawl_response) result \<times> request_log) \<times> nat" where
  "sample_fetch = fetch sample_net sample_crawler False False 0 sample_target"

theorem fetch_contacts_only_vetted_targets_witness:
  "list_all (\<lambda>e. crawl_url_ok (fst e) \<and> list_all is_public_address (snd e)) (snd (fst sample_fetch))
     \<and> length (snd (fst sample_fetch)) \<le> 2 * (max_redirects (crawler_config_of sample_crawler) + 1)
     \<and> (\<exists>resp. fst (fst sample_fetch) = Inr resp \<and> chain_links sample_target (redirects resp) (final_url resp)
          \<and> length (redirects resp) \<le> max_redirects (crawler_config_of sample_crawler) \<and> response_ok sample_crawler resp)"
proof -
  have run: "fetch sample_net sample_crawler False False 0 sample_target = ((fst (fst sample_fetch), snd (fst sample_fetch)), snd sample_fetch)"
    by (simp add: sample_fetch_def)
  have "is_ok (fst (fst sample_fetch))" by code_simp
  then obtain resp where "fst (fst sample_fetch) = Inr resp" by (auto simp: is_ok_iff)
  with fetch_contacts_only_vetted_targets [OF sample_target_ok run] show ?thesis
    unfolding list_all_iff by blast
qed


end
