(* ===== verification/Parser.thy ===== *)
theory Parser
  imports Std_Net
begin

text \<open>
  \<^verbatim>\<open>crates/parser/src/lib.rs\<close>: captured artifacts become sorted, normalised evidence, together with
  the availability of each source.  The HTML document tree is built by the \<^verbatim>\<open>scraper\<close> crate, a
  parameter here: \<open>parse_document\<close> gives, in document order, the text nodes of the title elements
  and the attributes of the meta and script elements.  The shared accumulators of the source
  (\<open>&mut evidence\<close>, \<open>&mut availability\<close>) are passed as a pair.  A \<open>BTreeMap\<close> of headers is the list
  of its entries in key order.
\<close>

section \<open>Data\<close>

datatype unavailable_cause = NotCaptured | Invalid | Unsupported

datatype 'a artifact_input = Captured 'a | InputUnavailable unavailable_cause

record dns_artifact =
  queried_name :: string
  addresses :: "ip_addr list"

record tls_artifact =
  protocol :: "string option"
  cipher_suite :: "string option"
  certificate_subject :: "string option"
  certificate_issuer :: "string option"
  subject_alternative_names :: "string list"

record artifact_bundle =
  bundle_html :: "string artifact_input"
  bundle_headers :: "(string \<times> string) list artifact_input"
  bundle_dns :: "dns_artifact artifact_input"
  bundle_tls :: "tls_artifact artifact_input"

definition ArtifactBundle_default :: artifact_bundle where
  "ArtifactBundle_default =
     \<lparr>bundle_html = InputUnavailable NotCaptured, bundle_headers = InputUnavailable NotCaptured,
      bundle_dns = InputUnavailable NotCaptured, bundle_tls = InputUnavailable NotCaptured\<rparr>"

datatype artifact_source = ArtHtml | ArtHeader | ArtScript | ArtDns | ArtTls

record normalized_evidence =
  ne_source :: artifact_source
  ne_key :: string
  ne_value :: string

datatype signal_availability = Available | Unavailable unavailable_cause

type_synonym availability_map = "artifact_source \<rightharpoonup> signal_availability"

record parsed_artifacts =
  pa_evidence :: "normalized_evidence list"
  pa_availability :: availability_map

definition availability :: "parsed_artifacts \<Rightarrow> artifact_source \<Rightarrow> signal_availability" where
  "availability parsed source =
     (case pa_availability parsed source of Some a \<Rightarrow> a | None \<Rightarrow> Unavailable NotCaptured)"

section \<open>Orders\<close>

fun artifact_source_index :: "artifact_source \<Rightarrow> nat" where
  "artifact_source_index ArtHtml = 0"
| "artifact_source_index ArtHeader = 1"
| "artifact_source_index ArtScript = 2"
| "artifact_source_index ArtDns = 3"
| "artifact_source_index ArtTls = 4"

lemma artifact_source_index_inj [simp]: "artifact_source_index a = artifact_source_index b \<longleftrightarrow> a = b"
  by (cases a; cases b) auto

instantiation artifact_source :: linorder
begin

definition less_eq_artifact_source_def: "a \<le> b \<longleftrightarrow> artifact_source_index a \<le> artifact_source_index b"

definition less_artifact_source_def: "a < b \<longleftrightarrow> artifact_source_index a < artifact_source_index b"

instance
  by standard (auto simp: less_eq_artifact_source_def less_artifact_source_def dest: antisym)

end

instantiation normalized_evidence_ext :: (linorder) linorder
begin

definition less_eq_normalized_evidence_ext_def:
  "a \<le> b \<longleftrightarrow> (ne_source a, ne_key a, ne_value a, normalized_evidence.more a)
     \<le> (ne_source b, ne_key b, ne_value b, normalized_evidence.more b)"

definition less_normalized_evidence_ext_def:
  "a < b \<longleftrightarrow> (ne_source a, ne_key a, ne_value a, normalized_evidence.more a)
     < (ne_source b, ne_key b, ne_value b, normalized_evidence.more b)"

instance
proof
  fix a b c :: "'a normalized_evidence_scheme"
  show "a < b \<longleftrightarrow> a \<le> b \<and> \<not> b \<le> a"
    unfolding less_eq_normalized_evidence_ext_def less_normalized_evidence_ext_def
    by (rule less_le_not_le)
  show "a \<le> a"
    unfolding less_eq_normalized_evidence_ext_def by (rule order_refl)
  show "a \<le> b \<Longrightarrow> b \<le> c \<Longrightarrow> a \<le> c"
    unfolding less_eq_normalized_evidence_ext_def by (rule order_trans)
  show "a \<le> b \<Longrightarrow> b \<le> a \<Longrightarrow> a = b"
    unfolding less_eq_normalized_evidence_ext_def
    by (drule (1) antisym) (simp add: normalized_evidence.equality)
  show "a \<le> b \<or> b \<le> a"
    unfolding less_eq_normalized_evidence_ext_def by (rule linear)
qed

end

section \<open>Normalisation\<close>

definition item :: "artifact_source \<Rightarrow> string \<Rightarrow> string \<Rightarrow> normalized_evidence" where
  "item source key value = \<lparr>ne_source = source, ne_key = key, ne_value = value\<rparr>"

definition normalized :: "string \<Rightarrow> string option" where
  "normalized value =
     (let value = join_with '' '' (split_whitespace value) in
      if value \<noteq> [] then Some value else None)"

definition normalized_key :: "string \<Rightarrow> string option" where
  "normalized_key value = map_option to_ascii_lowercase (normalized value)"

definition normalized_hostname :: "string \<Rightarrow> string option" where
  "normalized_hostname value =
     (case normalized value of
        None \<Rightarrow> None
      | Some value \<Rightarrow>
          (let value = to_ascii_lowercase (trim_end_matches (CHR ''.'') value) in
           if value \<noteq> [] \<and> \<not> has_whitespace value then Some value else None))"

definition is_sensitive_evidence_header :: "string \<Rightarrow> bool" where
  "is_sensitive_evidence_header name =
     (name \<in> {''authorization'', ''proxy-authorization'', ''cookie'', ''set-cookie'', ''set-cookie2'',
               ''x-api-key'', ''x-auth-token'', ''x-amz-security-token''}
      \<or> contains_str name ''token'' \<or> contains_str name ''secret'' \<or> name = ''api-key'' \<or> ends_with name ''-key'')"

fun unavailable_reason :: "'a artifact_input \<Rightarrow> unavailable_cause" where
  "unavailable_reason (Captured _) = Invalid"
| "unavailable_reason (InputUnavailable reason) = reason"

section \<open>Extraction\<close>

type_synonym attributes = "string \<rightharpoonup> string"

record html_document =
  doc_titles :: "string list list"
  doc_metas :: "attributes list"
  doc_scripts :: "attributes list"

type_synonym parse_state = "normalized_evidence list \<times> availability_map"

definition or_else :: "'a option \<Rightarrow> 'a option \<Rightarrow> 'a option" where
  "or_else a b = (case a of None \<Rightarrow> b | Some x \<Rightarrow> Some x)"

definition title_evidence :: "html_document \<Rightarrow> normalized_evidence list" where
  "title_evidence document =
     (case doc_titles document of
        [] \<Rightarrow> []
      | title # _ \<Rightarrow>
          (case normalized (concat title) of None \<Rightarrow> [] | Some title \<Rightarrow> [item ArtHtml ''title'' title]))"

definition meta_evidence :: "attributes \<Rightarrow> normalized_evidence list" where
  "meta_evidence attr =
     (case Option.bind (or_else (or_else (attr ''name'') (attr ''property'')) (attr ''http-equiv'')) normalized_key of
        None \<Rightarrow> []
      | Some key \<Rightarrow>
          (case Option.bind (attr ''content'') normalized of
             None \<Rightarrow> []
           | Some value \<Rightarrow> [item ArtHtml (''meta.'' @ key) value]))"

definition script_evidence :: "attributes \<Rightarrow> normalized_evidence list" where
  "script_evidence attr =
     (case Option.bind (attr ''src'') normalized of None \<Rightarrow> [] | Some source \<Rightarrow> [item ArtScript ''src'' source])"

definition parse_html ::
    "(string \<Rightarrow> html_document) \<Rightarrow> string artifact_input \<Rightarrow> parse_state \<Rightarrow> parse_state" where
  "parse_html parse_document input st =
     (case st of (evidence, avail) \<Rightarrow>
      (case input of
         InputUnavailable _ \<Rightarrow>
           (let reason = unavailable_reason input in
            (evidence, avail(ArtHtml \<mapsto> Unavailable reason, ArtScript \<mapsto> Unavailable reason)))
       | Captured bytes \<Rightarrow>
           if \<not> utf8_ok bytes then
             (evidence, avail(ArtHtml \<mapsto> Unavailable Invalid, ArtScript \<mapsto> Unavailable Invalid))
           else
             (let document = parse_document bytes in
              (evidence @ title_evidence document @ concat (map meta_evidence (doc_metas document))
                 @ concat (map script_evidence (doc_scripts document)),
               avail(ArtHtml \<mapsto> Available, ArtScript \<mapsto> Available)))))"

fun push_headers :: "(string \<times> string) list \<Rightarrow> normalized_evidence list \<Rightarrow> normalized_evidence list" where
  "push_headers [] evidence = evidence"
| "push_headers ((name, value) # headers) evidence =
     (case normalized_key name of
        None \<Rightarrow> push_headers headers evidence
      | Some name \<Rightarrow>
          if is_sensitive_evidence_header name then push_headers headers evidence
          else (case normalized value of
                  None \<Rightarrow> push_headers headers evidence
                | Some value \<Rightarrow> push_headers headers (evidence @ [item ArtHeader name value])))"

definition parse_headers ::
    "(string \<times> string) list artifact_input \<Rightarrow> parse_state \<Rightarrow> parse_state" where
  "parse_headers input st =
     (case st of (evidence, avail) \<Rightarrow>
      (case input of
         InputUnavailable _ \<Rightarrow> (evidence, avail(ArtHeader \<mapsto> Unavailable (unavailable_reason input)))
       | Captured headers \<Rightarrow> (push_headers headers evidence, avail(ArtHeader \<mapsto> Available))))"

definition parse_dns :: "dns_artifact artifact_input \<Rightarrow> parse_state \<Rightarrow> parse_state" where
  "parse_dns input st =
     (case st of (evidence, avail) \<Rightarrow>
      (case input of
         InputUnavailable _ \<Rightarrow> (evidence, avail(ArtDns \<mapsto> Unavailable (unavailable_reason input)))
       | Captured dns \<Rightarrow>
           (case normalized_hostname (queried_name dns) of
              None \<Rightarrow> (evidence, avail(ArtDns \<mapsto> Unavailable Invalid))
            | Some name \<Rightarrow>
                (evidence @ item ArtDns ''queried_name'' name
                   # map (\<lambda>address. item ArtDns ''address'' (ip_addr_str address)) (addresses dns),
                 avail(ArtDns \<mapsto> Available)))))"

definition push_some :: "string \<Rightarrow> string option \<Rightarrow> normalized_evidence list \<times> bool \<Rightarrow> normalized_evidence list \<times> bool" where
  "push_some key value st =
     (case value of None \<Rightarrow> st | Some value \<Rightarrow> (fst st @ [item ArtTls key value], True))"

definition parse_tls :: "tls_artifact artifact_input \<Rightarrow> parse_state \<Rightarrow> parse_state" where
  "parse_tls input st =
     (case st of (evidence, avail) \<Rightarrow>
      (case input of
         InputUnavailable _ \<Rightarrow> (evidence, avail(ArtTls \<mapsto> Unavailable (unavailable_reason input)))
       | Captured tls \<Rightarrow>
           (let st = fold (\<lambda>(key, value). push_some key (Option.bind value normalized))
                       [(''protocol'', protocol tls), (''cipher_suite'', cipher_suite tls),
                        (''certificate_subject'', certificate_subject tls),
                        (''certificate_issuer'', certificate_issuer tls)] (evidence, False);
                st = fold (\<lambda>name. push_some ''subject_alternative_name'' (normalized_hostname name))
                       (subject_alternative_names tls) st in
            (fst st, avail(ArtTls \<mapsto> (if snd st then Available else Unavailable Invalid))))))"

definition parse :: "(string \<Rightarrow> html_document) \<Rightarrow> artifact_bundle \<Rightarrow> parsed_artifacts" where
  "parse parse_document input =
     (let st = ([], Map.empty);
          st = parse_html parse_document (bundle_html input) st;
          st = parse_headers (bundle_headers input) st;
          st = parse_dns (bundle_dns input) st;
          st = parse_tls (bundle_tls input) st in
      \<lparr>pa_evidence = dedup (sort (fst st)), pa_availability = snd st\<rparr>)"

section \<open>Normalised strings\<close>

lemma normalized_fix: "normalized s = Some t \<Longrightarrow> normalized t = Some t"
  by (auto simp: normalized_def Let_def split: if_splits)

lemma normalized_no_ws: "no_ws s \<Longrightarrow> s \<noteq> [] \<Longrightarrow> normalized s = Some s"
  by (simp add: normalized_def split_whitespace_token)

lemma normalized_key_fix: "normalized_key s = Some t \<Longrightarrow> normalized_key t = Some t"
  by (auto simp: normalized_key_def normalized_def split_whitespace_lower Let_def join_with_lower [symmetric]
      split: if_splits)

lemma normalized_hostname_fix: "normalized_hostname s = Some t \<Longrightarrow> normalized t = Some t"
  by (auto simp: normalized_hostname_def Let_def has_whitespace_iff intro: normalized_no_ws
      split: option.splits if_splits)

lemma addr_char_ascii: "addr_char c \<Longrightarrow> byte_val c < 0x80 \<and> \<not> ws1 c"
  by (auto simp: addr_char_def is_ascii_digit_def ws1_def byte_val_def)

lemma normalized_ip_addr: "normalized (ip_addr_str a) = Some (ip_addr_str a)"
  using ip_addr_str_chars [of a]
  by (intro normalized_no_ws no_ws_ascii) (auto simp: list_all_iff dest: addr_char_ascii)

lemma normalized_tokens:
  "normalized s = Some s \<Longrightarrow> \<exists>t ts. s = join_with '' '' (t # ts) \<and> (\<forall>u \<in> set (t # ts). u \<noteq> [] \<and> no_ws u)"
proof -
  assume "normalized s = Some s"
  then have s: "s = join_with '' '' (split_whitespace s)" "s \<noteq> []"
    by (auto simp: normalized_def Let_def split: if_splits)
  then obtain t ts where "split_whitespace s = t # ts" by (cases "split_whitespace s") auto
  with s show ?thesis using split_whitespace_tokens by metis
qed

lemma no_ws_meta: "no_ws t \<Longrightarrow> no_ws (''meta.'' @ t)"
  by (simp add: no_ws_ascii_Cons byte_val_def ws1_def)

lemma lower_meta: "to_ascii_lowercase (''meta.'' @ k) = ''meta.'' @ to_ascii_lowercase k"
  by (simp add: to_ascii_lowercase_def ascii_lower_def is_ascii_uppercase_def byte_val_def)

lemma normalized_meta: "normalized k = Some k \<Longrightarrow> normalized (''meta.'' @ k) = Some (''meta.'' @ k)"
proof -
  assume "normalized k = Some k"
  then obtain t ts where k: "k = join_with '' '' (t # ts)" and ok: "\<forall>u \<in> set (t # ts). u \<noteq> [] \<and> no_ws u"
    using normalized_tokens by blast
  have j: "join_with '' '' ((''meta.'' @ t) # ts) = ''meta.'' @ k"
    unfolding k by (cases ts) simp_all
  have "split_whitespace (join_with '' '' ((''meta.'' @ t) # ts)) = (''meta.'' @ t) # ts"
    using ok no_ws_meta by (intro split_whitespace_join) auto
  then have "split_whitespace (''meta.'' @ k) = (''meta.'' @ t) # ts"
    unfolding j .
  then show ?thesis using j by (simp add: normalized_def Let_def)
qed

lemma normalized_key_iff: "normalized_key k = Some k \<longleftrightarrow> normalized k = Some k \<and> to_ascii_lowercase k = k"
proof
  assume k: "normalized_key k = Some k"
  then obtain m where m: "normalized k = Some m" "k = to_ascii_lowercase m"
    by (auto simp: normalized_key_def)
  then have "normalized m = Some m" by (blast intro: normalized_fix)
  with m have "normalized k = Some k"
    by (auto simp: normalized_def Let_def split_whitespace_lower join_with_lower [symmetric] split: if_splits)
  with m show "normalized k = Some k \<and> to_ascii_lowercase k = k" by simp
qed (simp add: normalized_key_def)

lemma normalized_key_meta: "normalized_key k = Some k \<Longrightarrow> normalized_key (''meta.'' @ k) = Some (''meta.'' @ k)"
  by (simp add: normalized_key_iff normalized_meta lower_meta del: append.simps)

section \<open>Invariant of the accumulators\<close>

definition evidence_normal :: "normalized_evidence \<Rightarrow> bool" where
  "evidence_normal e =
     (normalized_key (ne_key e) = Some (ne_key e) \<and> normalized (ne_value e) = Some (ne_value e)
      \<and> (ne_source e = ArtHeader \<longrightarrow> \<not> is_sensitive_evidence_header (ne_key e)))"

definition extends :: "artifact_source set \<Rightarrow> parse_state \<Rightarrow> parse_state \<Rightarrow> bool" where
  "extends S st st' =
     (\<exists>new. fst st' = fst st @ new
        \<and> (\<forall>e \<in> set new. evidence_normal e \<and> ne_source e \<in> S \<and> snd st' (ne_source e) = Some Available)
        \<and> (\<forall>s. s \<notin> S \<longrightarrow> snd st' s = snd st s))"

lemma extends_trans:
  assumes "extends S a b" and "extends T b c" and "S \<inter> T = {}"
  shows "extends (S \<union> T) a c"
proof -
  from assms(1) obtain n1 where 1: "fst b = fst a @ n1"
    "\<forall>e \<in> set n1. evidence_normal e \<and> ne_source e \<in> S \<and> snd b (ne_source e) = Some Available"
    "\<forall>s. s \<notin> S \<longrightarrow> snd b s = snd a s" unfolding extends_def by blast
  from assms(2) obtain n2 where 2: "fst c = fst b @ n2"
    "\<forall>e \<in> set n2. evidence_normal e \<and> ne_source e \<in> T \<and> snd c (ne_source e) = Some Available"
    "\<forall>s. s \<notin> T \<longrightarrow> snd c s = snd b s" unfolding extends_def by blast
  have "\<forall>e \<in> set n1. snd c (ne_source e) = Some Available"
    using 1(2) 2(3) assms(3) by (metis IntI empty_iff)
  with 1 2 have "\<forall>e \<in> set (n1 @ n2). evidence_normal e \<and> ne_source e \<in> S \<union> T \<and> snd c (ne_source e) = Some Available"
    by auto
  with 1 2 show ?thesis unfolding extends_def by (intro exI [of _ "n1 @ n2"]) auto
qed

lemma item_simps [simp]:
  "ne_source (item s k v) = s" "ne_key (item s k v) = k" "ne_value (item s k v) = v"
  "item s k v = item s' k' v' \<longleftrightarrow> s = s' \<and> k = k' \<and> v = v'"
  by (simp_all add: item_def)

lemma constant_keys [simp]:
  "normalized_key ''title'' = Some ''title''" "normalized_key ''src'' = Some ''src''"
  "normalized_key ''queried_name'' = Some ''queried_name''" "normalized_key ''address'' = Some ''address''"
  "normalized_key ''protocol'' = Some ''protocol''" "normalized_key ''cipher_suite'' = Some ''cipher_suite''"
  "normalized_key ''certificate_subject'' = Some ''certificate_subject''"
  "normalized_key ''certificate_issuer'' = Some ''certificate_issuer''"
  "normalized_key ''subject_alternative_name'' = Some ''subject_alternative_name''"
  by code_simp+

lemma title_evidence_normal: "e \<in> set (title_evidence d) \<Longrightarrow> evidence_normal e \<and> ne_source e = ArtHtml"
proof (cases "doc_titles d")
  case (Cons t ts)
  moreover assume "e \<in> set (title_evidence d)"
  ultimately show ?thesis
    by (cases "normalized (concat t)") (auto simp: title_evidence_def evidence_normal_def dest: normalized_fix)
qed (simp add: title_evidence_def)

lemma bind_normalized_fix: "Option.bind a normalized = Some v \<Longrightarrow> normalized v = Some v"
  "Option.bind a normalized_key = Some v \<Longrightarrow> normalized_key v = Some v"
  by (auto simp: bind_eq_Some_conv dest: normalized_fix normalized_key_fix)

lemma meta_evidence_normal: "e \<in> set (meta_evidence a) \<Longrightarrow> evidence_normal e \<and> ne_source e = ArtHtml"
  by (cases "Option.bind (or_else (or_else (a ''name'') (a ''property'')) (a ''http-equiv'')) normalized_key";
      cases "Option.bind (a ''content'') normalized")
     (auto simp: meta_evidence_def evidence_normal_def bind_normalized_fix normalized_key_meta simp del: append.simps)

lemma script_evidence_normal: "e \<in> set (script_evidence a) \<Longrightarrow> evidence_normal e \<and> ne_source e = ArtScript"
  by (cases "Option.bind (a ''src'') normalized")
     (auto simp: script_evidence_def evidence_normal_def bind_normalized_fix)

lemma parse_html_extends: "extends {ArtHtml, ArtScript} st (parse_html d i st)"
proof (cases st; cases i)
  fix ev av b assume st: "st = (ev, av)" "i = Captured b"
  show ?thesis
  proof (cases "utf8_ok b")
    case True
    let ?new = "title_evidence (d b) @ concat (map meta_evidence (doc_metas (d b)))
      @ concat (map script_evidence (doc_scripts (d b)))"
    have "\<forall>e \<in> set ?new. evidence_normal e \<and> ne_source e \<in> {ArtHtml, ArtScript}"
      using title_evidence_normal meta_evidence_normal script_evidence_normal by fastforce
    with True st show ?thesis
      unfolding extends_def by (intro exI [of _ ?new]) (auto simp: parse_html_def Let_def)
  qed (auto simp: st parse_html_def extends_def)
qed (auto simp: parse_html_def extends_def)

lemma push_headers_app: "push_headers hs ev = ev @ push_headers hs []"
proof (induction hs arbitrary: ev)
  case (Cons h hs)
  obtain n v where h: "h = (n, v)" by (cases h)
  show ?case
    unfolding h push_headers.simps
    using Cons [of ev] Cons [of "ev @ [item ArtHeader n' v']" for n' v'] Cons [of "[item ArtHeader n' v']" for n' v']
    by (auto split: option.splits)
qed simp

lemma push_headers_iff:
  "e \<in> set (push_headers hs []) \<longleftrightarrow>
     (\<exists>n w k v. (n, w) \<in> set hs \<and> normalized_key n = Some k \<and> \<not> is_sensitive_evidence_header k
        \<and> normalized w = Some v \<and> e = item ArtHeader k v)"
proof (induction hs)
  case (Cons h hs)
  obtain n v where h: "h = (n, v)" by (cases h)
  show ?case
    unfolding h push_headers.simps
    using Cons push_headers_app [of hs "[item ArtHeader n' v']" for n' v']
    by (auto split: option.splits)
qed simp

lemma parse_headers_extends: "extends {ArtHeader} st (parse_headers i st)"
proof (cases st; cases i)
  fix ev av hs assume st: "st = (ev, av)" "i = Captured hs"
  have "evidence_normal e \<and> ne_source e = ArtHeader" if "e \<in> set (push_headers hs [])" for e
  proof -
    from that obtain n w k v where e: "e = item ArtHeader k v" "normalized_key n = Some k"
      "normalized w = Some v" "\<not> is_sensitive_evidence_header k" unfolding push_headers_iff by blast
    then show ?thesis
      using normalized_key_fix [OF e(2)] normalized_fix [OF e(3)] by (simp add: evidence_normal_def)
  qed
  then show ?thesis
    using push_headers_app [of hs ev]
    unfolding extends_def st by (intro exI [of _ "push_headers hs []"]) (auto simp: parse_headers_def)
qed (auto simp: parse_headers_def extends_def)

lemma parse_dns_extends: "extends {ArtDns} st (parse_dns i st)"
proof (cases st; cases i)
  fix ev av dns assume st: "st = (ev, av)" "i = Captured dns"
  show ?thesis
    unfolding st extends_def
    by (auto simp: parse_dns_def evidence_normal_def normalized_ip_addr dest: normalized_hostname_fix
        split: option.splits)
qed (auto simp: parse_dns_def extends_def)

text \<open>The TLS loops only append items, and the flag is set as soon as one was appended.\<close>

definition tls_ok :: "normalized_evidence list \<Rightarrow> normalized_evidence list \<times> bool \<Rightarrow> bool" where
  "tls_ok ev st = (\<exists>new. fst st = ev @ new \<and> (snd st = (new \<noteq> []))
     \<and> (\<forall>e \<in> set new. evidence_normal e \<and> ne_source e = ArtTls))"

lemma tls_ok_push:
  assumes "tls_ok ev st" and "normalized_key k = Some k" and "\<And>t. v = Some t \<Longrightarrow> normalized t = Some t"
  shows "tls_ok ev (push_some k v st)"
proof (cases v)
  case (Some t)
  obtain new where "fst st = ev @ new" "\<forall>e \<in> set new. evidence_normal e \<and> ne_source e = ArtTls"
    using assms(1) unfolding tls_ok_def by blast
  with Some assms(2,3) show ?thesis
    unfolding tls_ok_def
    by (intro exI [of _ "new @ [item ArtTls k t]"]) (auto simp: push_some_def evidence_normal_def)
qed (use assms in \<open>simp add: push_some_def\<close>)

lemma tls_ok_names:
  "tls_ok ev st \<Longrightarrow>
     tls_ok ev (fold (\<lambda>name. push_some ''subject_alternative_name'' (normalized_hostname name)) names st)"
proof (induction names arbitrary: st)
  case (Cons name names)
  have "tls_ok ev (push_some ''subject_alternative_name'' (normalized_hostname name) st)"
    by (rule tls_ok_push [OF Cons.prems]) (auto intro: normalized_hostname_fix)
  then show ?case unfolding fold_Cons comp_def by (rule Cons.IH)
qed simp

lemma parse_tls_extends: "extends {ArtTls} st (parse_tls i st)"
proof (cases st; cases i)
  fix ev av tls assume st: "st = (ev, av)" "i = Captured tls"
  let ?st = "fold (\<lambda>(key, value). push_some key (Option.bind value normalized))
                       [(''protocol'', protocol tls), (''cipher_suite'', cipher_suite tls),
                        (''certificate_subject'', certificate_subject tls),
                        (''certificate_issuer'', certificate_issuer tls)] (ev, False)"
  let ?st' = "fold (\<lambda>name. push_some ''subject_alternative_name'' (normalized_hostname name))
                (subject_alternative_names tls) ?st"
  have "tls_ok ev (ev, False)" by (simp add: tls_ok_def)
  then have "tls_ok ev ?st"
    by (auto intro!: tls_ok_push simp: bind_eq_Some_conv dest: normalized_fix)
  then have "tls_ok ev ?st'" by (rule tls_ok_names)
  then show ?thesis
    unfolding st parse_tls_def extends_def tls_ok_def Let_def by auto
qed (auto simp: parse_tls_def extends_def)

section \<open>The whole parse\<close>

definition header_items :: "(string \<times> string) list artifact_input \<Rightarrow> normalized_evidence list" where
  "header_items i = (case i of Captured hs \<Rightarrow> push_headers hs [] | InputUnavailable _ \<Rightarrow> [])"

lemma parse_headers_fst: "fst (parse_headers i st) = fst st @ header_items i"
proof (cases i)
  case (Captured hs)
  then show ?thesis
    using push_headers_app [of hs "fst st"] by (cases st) (simp add: parse_headers_def header_items_def)
qed (cases st, simp add: parse_headers_def header_items_def)

definition parsed_state :: "(string \<Rightarrow> html_document) \<Rightarrow> artifact_bundle \<Rightarrow> parse_state" where
  "parsed_state d b =
     parse_tls (bundle_tls b) (parse_dns (bundle_dns b) (parse_headers (bundle_headers b)
       (parse_html d (bundle_html b) ([], Map.empty))))"

lemma parse_state:
  "parse d b = \<lparr>pa_evidence = sorted_list_of_set (set (fst (parsed_state d b))), pa_availability = snd (parsed_state d b)\<rparr>"
  by (simp add: parse_def parsed_state_def Let_def dedup_sort)

lemma parsed_state_extends: "extends UNIV ([], Map.empty) (parsed_state d b)"
proof -
  have "extends ((({ArtHtml, ArtScript} \<union> {ArtHeader}) \<union> {ArtDns}) \<union> {ArtTls}) ([], Map.empty) (parsed_state d b)"
    unfolding parsed_state_def
    by (rule extends_trans [OF extends_trans [OF extends_trans [OF parse_html_extends parse_headers_extends]
          parse_dns_extends] parse_tls_extends]) auto
  moreover have "(({ArtHtml, ArtScript} \<union> {ArtHeader}) \<union> {ArtDns}) \<union> {ArtTls} = UNIV"
    using artifact_source.exhaust by auto
  ultimately show ?thesis by simp
qed

lemma extends_other:
  assumes "extends S st st'" and "ne_source e \<notin> S"
  shows "e \<in> set (fst st') \<longleftrightarrow> e \<in> set (fst st)"
  using assms unfolding extends_def by auto

lemma parsed_headers:
  "item ArtHeader k v \<in> set (fst (parsed_state d b)) \<longleftrightarrow> item ArtHeader k v \<in> set (header_items (bundle_headers b))"
  unfolding parsed_state_def
  by (simp add: extends_other [OF parse_tls_extends] extends_other [OF parse_dns_extends]
      extends_other [OF parse_html_extends] parse_headers_fst)

section \<open>Properties\<close>

text \<open>
  The evidence of a parse is strictly sorted; every item has a lowercase key and a value without
  leading, trailing or repeated whitespace, never comes from a sensitive header, and comes only from a
  source that is reported available.  The header items are exactly the normalised, non-sensitive
  headers of the capture.
\<close>

theorem parse_evidence_canonical:
  "sorted_wrt (<) (pa_evidence (parse d b))
   \<and> list_all (\<lambda>e. evidence_normal e \<and> availability (parse d b) (ne_source e) = Available) (pa_evidence (parse d b))
   \<and> (item ArtHeader k v \<in> set (pa_evidence (parse d b)) \<longleftrightarrow>
        (\<exists>hs n w. bundle_headers b = Captured hs \<and> (n, w) \<in> set hs \<and> normalized_key n = Some k
           \<and> \<not> is_sensitive_evidence_header k \<and> normalized w = Some v))"
proof (intro conjI)
  show "sorted_wrt (<) (pa_evidence (parse d b))" by (simp add: parse_state)
  show "list_all (\<lambda>e. evidence_normal e \<and> availability (parse d b) (ne_source e) = Available) (pa_evidence (parse d b))"
    using parsed_state_extends [of d b]
    by (auto simp: extends_def parse_state availability_def list_all_iff)
  show "item ArtHeader k v \<in> set (pa_evidence (parse d b)) \<longleftrightarrow>
        (\<exists>hs n w. bundle_headers b = Captured hs \<and> (n, w) \<in> set hs \<and> normalized_key n = Some k
           \<and> \<not> is_sensitive_evidence_header k \<and> normalized w = Some v)"
    by (cases "bundle_headers b") (auto simp: parse_state parsed_headers header_items_def push_headers_iff)
qed

end
