(* ===== verification/Detector.thy ===== *)
theory Detector
  imports Parser Projection Json "HOL-Library.Multiset"
begin

text \<open>
  \<^verbatim>\<open>crates/detector/src/lib.rs\<close>: the static rule catalogue, the evaluation of static and of
  database-owned rules over parsed evidence, and version extraction.  Regular expressions come from
  the \<^verbatim>\<open>regex\<close> crate and are a parameter: compiling a pattern, the number of capture groups (the
  whole match included) and the text of group one in a value.
\<close>

section \<open>Data\<close>

datatype detector_error = InvalidRuleDefinition | InvalidDetection detection_error

datatype signal_matcher = EqualsIgnoreCase string | ContainsIgnoreCase string | Present

record signal_definition =
  sig_source :: artifact_source
  sig_key :: string
  sig_matcher :: signal_matcher
  sig_weight :: u8

record rule_definition =
  rule_technology_slug :: string
  rule_technology_category_slug :: string
  rule_rule_slug :: string
  rule_version_no :: u16
  rule_threshold :: u8
  rule_signals :: "signal_definition list"

record active_detection_rule =
  active_technology_slug :: string
  active_technology_category_slug :: string
  active_rule_slug :: string
  active_version :: u16
  active_definition :: json

record rule_evaluation =
  re_detection :: "detection option"
  re_observation :: rule_observation
  re_technology_version :: "string option"

record detection_evaluation =
  de_detections :: "detection list"
  de_observations :: "rule_observation list"

record 'r regex_lib =
  rx_new :: "string \<Rightarrow> 'r option"
  rx_captures_len :: "'r \<Rightarrow> nat"
  rx_capture :: "'r \<Rightarrow> string \<Rightarrow> string option"

section \<open>The catalogue\<close>

definition DETECTION_THRESHOLD :: u8 where "DETECTION_THRESHOLD = 70"

definition MAX_CONFIDENCE :: u8 where "MAX_CONFIDENCE = 100"

definition detection_threshold :: u8 where "detection_threshold = DETECTION_THRESHOLD"

definition NEXTJS_SIGNALS :: "signal_definition list" where
  "NEXTJS_SIGNALS =
     [\<lparr>sig_source = ArtHeader, sig_key = ''x-powered-by'', sig_matcher = ContainsIgnoreCase ''next.js'', sig_weight = 90\<rparr>,
      \<lparr>sig_source = ArtScript, sig_key = ''src'', sig_matcher = ContainsIgnoreCase ''/_next/'', sig_weight = 75\<rparr>,
      \<lparr>sig_source = ArtHtml, sig_key = ''meta.generator'', sig_matcher = EqualsIgnoreCase ''next.js'', sig_weight = 80\<rparr>]"

definition STRIPE_SIGNALS :: "signal_definition list" where
  "STRIPE_SIGNALS =
     [\<lparr>sig_source = ArtScript, sig_key = ''src'', sig_matcher = ContainsIgnoreCase ''js.stripe.com'', sig_weight = 95\<rparr>]"

definition CLOUDFLARE_SIGNALS :: "signal_definition list" where
  "CLOUDFLARE_SIGNALS =
     [\<lparr>sig_source = ArtHeader, sig_key = ''server'', sig_matcher = EqualsIgnoreCase ''cloudflare'', sig_weight = 90\<rparr>,
      \<lparr>sig_source = ArtHeader, sig_key = ''cf-ray'', sig_matcher = Present, sig_weight = 80\<rparr>]"

definition POSTHOG_SIGNALS :: "signal_definition list" where
  "POSTHOG_SIGNALS =
     [\<lparr>sig_source = ArtScript, sig_key = ''src'', sig_matcher = ContainsIgnoreCase ''posthog.com'', sig_weight = 90\<rparr>]"

definition SHOPIFY_SIGNALS :: "signal_definition list" where
  "SHOPIFY_SIGNALS =
     [\<lparr>sig_source = ArtScript, sig_key = ''src'', sig_matcher = ContainsIgnoreCase ''cdn.shopify.com'', sig_weight = 95\<rparr>,
      \<lparr>sig_source = ArtHeader, sig_key = ''x-shopify-stage'', sig_matcher = Present, sig_weight = 90\<rparr>]"

definition WORDPRESS_SIGNALS :: "signal_definition list" where
  "WORDPRESS_SIGNALS =
     [\<lparr>sig_source = ArtHeader, sig_key = ''x-powered-by'', sig_matcher = ContainsIgnoreCase ''wordpress'', sig_weight = 90\<rparr>]"

definition DRUPAL_SIGNALS :: "signal_definition list" where
  "DRUPAL_SIGNALS =
     [\<lparr>sig_source = ArtHeader, sig_key = ''x-generator'', sig_matcher = ContainsIgnoreCase ''drupal'', sig_weight = 90\<rparr>,
      \<lparr>sig_source = ArtHtml, sig_key = ''meta.generator'', sig_matcher = ContainsIgnoreCase ''drupal'', sig_weight = 90\<rparr>]"

definition EXPRESS_SIGNALS :: "signal_definition list" where
  "EXPRESS_SIGNALS =
     [\<lparr>sig_source = ArtHeader, sig_key = ''x-powered-by'', sig_matcher = EqualsIgnoreCase ''express'', sig_weight = 90\<rparr>]"

definition catalogue_rule ::
    "string \<Rightarrow> string \<Rightarrow> string \<Rightarrow> signal_definition list \<Rightarrow> rule_definition" where
  "catalogue_rule technology category rule signals =
     \<lparr>rule_technology_slug = technology, rule_technology_category_slug = category, rule_rule_slug = rule,
      rule_version_no = 1, rule_threshold = DETECTION_THRESHOLD, rule_signals = signals\<rparr>"

definition INITIAL_RULES :: "rule_definition list" where
  "INITIAL_RULES =
     [catalogue_rule ''nextjs'' ''framework'' ''nextjs-v1'' NEXTJS_SIGNALS,
      catalogue_rule ''stripe'' ''payment-provider'' ''stripe-v1'' STRIPE_SIGNALS,
      catalogue_rule ''cloudflare'' ''hosting'' ''cloudflare-v1'' CLOUDFLARE_SIGNALS,
      catalogue_rule ''posthog'' ''analytics'' ''posthog-v1'' POSTHOG_SIGNALS,
      catalogue_rule ''shopify'' ''ecommerce'' ''shopify-v1'' SHOPIFY_SIGNALS,
      catalogue_rule ''wordpress'' ''cms'' ''wordpress-v1'' WORDPRESS_SIGNALS,
      catalogue_rule ''drupal'' ''cms'' ''drupal-v1'' DRUPAL_SIGNALS,
      catalogue_rule ''express'' ''framework'' ''express-v1'' EXPRESS_SIGNALS]"

definition initial_rules :: "rule_definition list" where
  "initial_rules = INITIAL_RULES"

section \<open>Matching\<close>

definition saturating_add :: "u8 \<Rightarrow> u8 \<Rightarrow> u8" where
  "saturating_add a b = (if unat a + unat b > 255 then 255 else a + b)"

definition contains_ignore_case :: "string \<Rightarrow> string \<Rightarrow> bool" where
  "contains_ignore_case value expected = contains_str (to_ascii_lowercase value) (to_ascii_lowercase expected)"

definition signal_matches :: "signal_definition \<Rightarrow> normalized_evidence \<Rightarrow> bool" where
  "signal_matches s evidence =
     (ne_source evidence = sig_source s \<and> eq_ignore_ascii_case (ne_key evidence) (sig_key s)
      \<and> (case sig_matcher s of
           EqualsIgnoreCase expected \<Rightarrow> eq_ignore_ascii_case (ne_value evidence) expected
         | ContainsIgnoreCase expected \<Rightarrow> contains_ignore_case (ne_value evidence) expected
         | Present \<Rightarrow> ne_value evidence \<noteq> []))"

definition matches_dynamic :: "string \<Rightarrow> string \<Rightarrow> string option \<Rightarrow> bool" where
  "matches_dynamic value matcher expected =
     (if matcher = ''present'' then value \<noteq> []
      else if matcher = ''equals_ignore_case'' then
        (case expected of None \<Rightarrow> False | Some expected \<Rightarrow> eq_ignore_ascii_case value expected)
      else if matcher = ''contains_ignore_case'' then
        (case expected of None \<Rightarrow> False | Some expected \<Rightarrow> contains_ignore_case value expected)
      else False)"

definition parse_source :: "string option \<Rightarrow> (detector_error, artifact_source) result" where
  "parse_source value =
     (if value = Some ''html'' then Inr ArtHtml
      else if value = Some ''header'' then Inr ArtHeader
      else if value = Some ''script'' then Inr ArtScript
      else if value = Some ''dns'' then Inr ArtDns
      else if value = Some ''tls'' then Inr ArtTls
      else Inl InvalidRuleDefinition)"

fun evidence_source_of :: "artifact_source \<Rightarrow> detection_evidence_source" where
  "evidence_source_of ArtHtml = EvHtml"
| "evidence_source_of ArtHeader = EvHeader"
| "evidence_source_of ArtScript = EvScript"
| "evidence_source_of ArtDns = EvDns"
| "evidence_source_of ArtTls = EvTls"

definition to_detection_evidence :: "normalized_evidence \<Rightarrow> (detector_error, detection_evidence) result" where
  "to_detection_evidence evidence =
     map_err InvalidDetection
       (DetectionEvidence_new (evidence_source_of (ne_source evidence)) (ne_key evidence) (ne_value evidence))"

section \<open>Static rules\<close>

text \<open>One turn of the loop over the signals: the matching items raise the confidence and are kept.\<close>

definition add_matches ::
    "u8 \<Rightarrow> normalized_evidence list \<Rightarrow> u8 \<times> detection_evidence list \<Rightarrow>
     (detector_error, u8 \<times> detection_evidence list) result" where
  "add_matches weight matched st =
     (if matched = [] then Inr st
      else rbind (collect_results (map to_detection_evidence matched)) (\<lambda>evidence.
             Inr (min (saturating_add (fst st) weight) MAX_CONFIDENCE, snd st @ evidence)))"

fun evaluate_signals ::
    "signal_definition list \<Rightarrow> parsed_artifacts \<Rightarrow> u8 \<times> detection_evidence list \<Rightarrow>
     (detector_error, u8 \<times> detection_evidence list) result" where
  "evaluate_signals [] parsed st = Inr st"
| "evaluate_signals (s # signals) parsed st =
     rbind (add_matches (sig_weight s) (filter (signal_matches s) (pa_evidence parsed)) st) (\<lambda>st.
       evaluate_signals signals parsed st)"

text \<open>What both evaluations do after their loop: parse the identifiers, decide and record.\<close>

definition conclude ::
    "string \<Rightarrow> string \<Rightarrow> string \<Rightarrow> u16 \<Rightarrow> u8 \<Rightarrow> u8 \<Rightarrow> detection_evidence list \<Rightarrow> bool \<Rightarrow>
     (detector_error, detection option \<times> rule_observation) result" where
  "conclude technology category rule version threshold confidence matched coverage =
     rbind (map_err InvalidDetection (TechnologySlug_parse technology)) (\<lambda>technology.
     rbind (map_err InvalidDetection (TechnologyCategorySlug_parse category)) (\<lambda>category.
     rbind (map_err InvalidDetection (RuleSlug_parse rule)) (\<lambda>rule.
     rbind (map_err InvalidDetection (RuleVersion_new version)) (\<lambda>version.
     rbind (if confidence \<ge> threshold then
              rbind (map_err InvalidDetection (DetectionConfidence_new confidence)) (\<lambda>confidence.
              map_err InvalidDetection
                (map_sum id Some (Detection_new technology category rule version confidence DeterministicRule matched)))
            else Inr None) (\<lambda>detection.
     Inr (detection,
          \<lparr>obs_technology_slug = technology, obs_technology_category_slug = category, obs_rule_slug = rule,
           obs_rule_version = version,
           obs_status = (if detection \<noteq> None then Detected
                         else if matched = [] \<and> coverage then ConfirmedAbsent
                         else Unknown)\<rparr>))))))"

definition evaluate_rule :: "rule_definition \<Rightarrow> parsed_artifacts \<Rightarrow> (detector_error, rule_evaluation) result" where
  "evaluate_rule rule parsed =
     rbind (evaluate_signals (rule_signals rule) parsed (0, [])) (\<lambda>(confidence, matched).
     rbind (conclude (rule_technology_slug rule) (rule_technology_category_slug rule) (rule_rule_slug rule)
              (rule_version_no rule) (rule_threshold rule) confidence matched
              (list_all (\<lambda>s. availability parsed (sig_source s) = Available) (rule_signals rule)))
       (\<lambda>(detection, observation).
     Inr \<lparr>re_detection = detection, re_observation = observation, re_technology_version = None\<rparr>))"

definition summarise :: "rule_evaluation list \<Rightarrow> detection_evaluation" where
  "summarise evaluations =
     \<lparr>de_detections = sort_key (\<lambda>d. technology_slug_as_str (det_technology_slug d))
        (List.map_filter re_detection evaluations),
      de_observations = map re_observation evaluations\<rparr>"

definition evaluate :: "parsed_artifacts \<Rightarrow> (detector_error, detection_evaluation) result" where
  "evaluate parsed =
     rbind (collect_results (map (\<lambda>rule. evaluate_rule rule parsed) initial_rules)) (\<lambda>evaluations.
     Inr (summarise evaluations))"

section \<open>Active rules\<close>

definition member_u8 :: "(string \<times> json) list \<Rightarrow> string \<Rightarrow> (detector_error, u8) result" where
  "member_u8 obj name =
     ok_or InvalidRuleDefinition
       (option_filter (\<lambda>value. value > 0) (Option.bind (Option.bind (map_of obj name) as_u64) u8_of_u64))"

fun evaluate_active_signals ::
    "json list \<Rightarrow> parsed_artifacts \<Rightarrow> u8 \<times> detection_evidence list \<Rightarrow> bool \<Rightarrow>
     (detector_error, (u8 \<times> detection_evidence list) \<times> bool) result" where
  "evaluate_active_signals [] parsed st coverage = Inr (st, coverage)"
| "evaluate_active_signals (s # signals) parsed st coverage =
     rbind (ok_or InvalidRuleDefinition (as_object s)) (\<lambda>s.
     rbind (parse_source (Option.bind (map_of s ''source'') as_str)) (\<lambda>source.
     rbind (ok_or InvalidRuleDefinition
              (option_filter (\<lambda>value. trim value \<noteq> []) (Option.bind (map_of s ''key'') as_str))) (\<lambda>key.
     rbind (ok_or InvalidRuleDefinition (Option.bind (map_of s ''match'') as_str)) (\<lambda>matcher.
     let expected = Option.bind (map_of s ''value'') as_str in
     rbind (member_u8 s ''weight'') (\<lambda>weight.
     let coverage = (coverage \<and> availability parsed source = Available);
         matched = filter (\<lambda>item. ne_source item = source \<and> eq_ignore_ascii_case (ne_key item) key
                             \<and> matches_dynamic (ne_value item) matcher expected) (pa_evidence parsed) in
     rbind (add_matches weight matched st) (\<lambda>st.
     evaluate_active_signals signals parsed st coverage))))))"

fun find_map :: "('a \<Rightarrow> 'b option) \<Rightarrow> 'a list \<Rightarrow> 'b option" where
  "find_map f [] = None"
| "find_map f (x # xs) = (case f x of Some y \<Rightarrow> Some y | None \<Rightarrow> find_map f xs)"

definition extract_dynamic_version ::
    "'r regex_lib \<Rightarrow> (string \<times> json) list \<Rightarrow> parsed_artifacts \<Rightarrow> (detector_error, string option) result" where
  "extract_dynamic_version rx obj parsed =
     (case map_of obj ''version_evidence'' of
        None \<Rightarrow> Inr None
      | Some version_evidence \<Rightarrow>
          rbind (ok_or InvalidRuleDefinition (as_object version_evidence)) (\<lambda>version_evidence.
          rbind (parse_source (Option.bind (map_of version_evidence ''source'') as_str)) (\<lambda>source.
          rbind (ok_or InvalidRuleDefinition
                   (option_filter (\<lambda>value. trim value \<noteq> [] \<and> length value \<le> 128)
                      (Option.bind (map_of version_evidence ''key'') as_str))) (\<lambda>key.
          rbind (ok_or InvalidRuleDefinition
                   (option_filter (\<lambda>value. value \<noteq> [] \<and> length value \<le> 256)
                      (Option.bind (map_of version_evidence ''pattern'') as_str))) (\<lambda>pattern.
          rbind (ok_or InvalidRuleDefinition (rx_new rx pattern)) (\<lambda>regex.
          if rx_captures_len rx regex \<noteq> 2 then Inl InvalidRuleDefinition
          else Inr (option_filter (\<lambda>value. value \<noteq> [] \<and> chars_count value \<le> 128)
                      (map_option trim
                         (find_map (\<lambda>item. rx_capture rx regex (ne_value item))
                            (filter (\<lambda>item. ne_source item = source \<and> eq_ignore_ascii_case (ne_key item) key)
                               (pa_evidence parsed)))))))))))"

definition evaluate_active_rule ::
    "'r regex_lib \<Rightarrow> active_detection_rule \<Rightarrow> parsed_artifacts \<Rightarrow> (detector_error, rule_evaluation) result" where
  "evaluate_active_rule rx rule parsed =
     rbind (ok_or InvalidRuleDefinition (as_object (active_definition rule))) (\<lambda>obj.
     rbind (member_u8 obj ''threshold'') (\<lambda>threshold.
     rbind (ok_or InvalidRuleDefinition
              (option_filter (\<lambda>signals. signals \<noteq> []) (Option.bind (map_of obj ''signals'') as_array))) (\<lambda>signals.
     rbind (evaluate_active_signals signals parsed (0, []) True) (\<lambda>((confidence, matched), coverage).
     rbind (conclude (active_technology_slug rule) (active_technology_category_slug rule) (active_rule_slug rule)
              (active_version rule) threshold confidence matched coverage) (\<lambda>(detection, observation).
     rbind (if detection \<noteq> None then extract_dynamic_version rx obj parsed else Inr None) (\<lambda>version.
     Inr \<lparr>re_detection = detection, re_observation = observation, re_technology_version = version\<rparr>))))))"

definition evaluate_active ::
    "'r regex_lib \<Rightarrow> parsed_artifacts \<Rightarrow> active_detection_rule list \<Rightarrow> (detector_error, detection_evaluation) result" where
  "evaluate_active rx parsed rules =
     rbind (collect_results (map (\<lambda>rule. evaluate_active_rule rx rule parsed) rules)) (\<lambda>evaluations.
     Inr (summarise evaluations))"

definition evaluate_reprocessing ::
    "'r regex_lib \<Rightarrow> parsed_artifacts \<Rightarrow> active_detection_rule \<Rightarrow> (detector_error, rule_evaluation) result" where
  "evaluate_reprocessing rx parsed rule =
     rbind (evaluate_active_rule rx rule parsed) (\<lambda>evaluation.
     Inr \<lparr>re_detection = re_detection evaluation, re_observation = re_observation evaluation,
          re_technology_version = re_technology_version evaluation\<rparr>)"

section \<open>What a rule observes\<close>

definition matched_items :: "signal_definition list \<Rightarrow> parsed_artifacts \<Rightarrow> normalized_evidence list" where
  "matched_items signals parsed = concat (map (\<lambda>s. filter (signal_matches s) (pa_evidence parsed)) signals)"

text \<open>The score of a rule: the weights of the signals that match some item, capped at 100.\<close>

definition rule_score :: "signal_definition list \<Rightarrow> parsed_artifacts \<Rightarrow> nat" where
  "rule_score signals parsed =
     min 100 (sum_list (map (\<lambda>s. if list_ex (signal_matches s) (pa_evidence parsed) then unat (sig_weight s) else 0) signals))"

definition rule_verdict :: "parsed_artifacts \<Rightarrow> rule_definition \<Rightarrow> rule_observation_status" where
  "rule_verdict parsed rule =
     (if unat (rule_threshold rule) \<le> rule_score (rule_signals rule) parsed then Detected
      else if matched_items (rule_signals rule) parsed = []
              \<and> list_all (\<lambda>s. availability parsed (sig_source s) = Available) (rule_signals rule)
      then ConfirmedAbsent else Unknown)"

lemma unat_capped_add: "unat (min (saturating_add c w) MAX_CONFIDENCE) = min 100 (unat c + unat w)"
proof -
  have "unat (saturating_add c w) = min 255 (unat c + unat w)"
    using unat_add_lem [of c w] by (auto simp: saturating_add_def)
  then show ?thesis
    by (auto simp: MAX_CONFIDENCE_def min_def word_le_nat_alt)
qed

lemma list_ex_filter: "list_ex P xs \<longleftrightarrow> filter P xs \<noteq> []"
  by (auto simp: list_ex_iff filter_empty_conv)

text \<open>The loop over the signals, in closed form.\<close>

fun confidence_after :: "signal_definition list \<Rightarrow> parsed_artifacts \<Rightarrow> u8 \<Rightarrow> u8" where
  "confidence_after [] parsed c = c"
| "confidence_after (s # signals) parsed c =
     confidence_after signals parsed
       (if filter (signal_matches s) (pa_evidence parsed) = [] then c
        else min (saturating_add c (sig_weight s)) MAX_CONFIDENCE)"

lemma evaluate_signals_closed:
  "evaluate_signals signals parsed (c, ev) =
     rbind (collect_results (map to_detection_evidence (matched_items signals parsed)))
       (\<lambda>new. Inr (confidence_after signals parsed c, ev @ new))"
proof (induction signals arbitrary: c ev)
  case Nil
  then show ?case by (simp add: matched_items_def)
next
  case (Cons s signals)
  let ?m = "filter (signal_matches s) (pa_evidence parsed)"
  have m: "matched_items (s # signals) parsed = ?m @ matched_items signals parsed"
    by (simp add: matched_items_def)
  show ?case
  proof (cases "collect_results (map to_detection_evidence ?m)")
    case (Inl e)
    then have "?m \<noteq> []" by auto
    with Inl show ?thesis
      by (simp add: m add_matches_def collect_results_append)
  next
    case (Inr new)
    then have "?m = [] \<Longrightarrow> new = []" by simp
    with Inr Cons show ?thesis
      by (cases "?m = []"; cases "collect_results (map to_detection_evidence (matched_items signals parsed))")
         (simp_all add: m add_matches_def collect_results_append)
  qed
qed

lemma confidence_after_score:
  "unat c \<le> 100 \<Longrightarrow> unat (confidence_after signals parsed c) =
     min 100 (unat c + sum_list (map (\<lambda>s. if list_ex (signal_matches s) (pa_evidence parsed)
                                          then unat (sig_weight s) else 0) signals))"
proof (induction signals arbitrary: c)
  case (Cons s signals)
  then show ?case
    by (simp add: list_ex_filter unat_capped_add) (simp add: min_def)
qed simp

lemma confidence_score: "unat (confidence_after signals parsed 0) = rule_score signals parsed"
  using confidence_after_score [of 0 signals parsed] by (simp add: rule_score_def)

lemma rule_score_le: "rule_score signals parsed \<le> 100"
  by (simp add: rule_score_def)

lemma no_match_no_score: "matched_items signals parsed = [] \<Longrightarrow> rule_score signals parsed = 0"
  by (induction signals) (auto simp: matched_items_def list_ex_filter rule_score_def min_def split: if_splits)

section \<open>Closed form of a static rule\<close>

definition rule_ok :: "rule_definition \<Rightarrow> bool" where
  "rule_ok rule = (slug_ok (rule_technology_slug rule) \<and> slug_ok (rule_technology_category_slug rule)
     \<and> slug_ok (rule_rule_slug rule) \<and> rule_version_no rule \<noteq> 0 \<and> rule_threshold rule > 0)"

definition rule_detection :: "rule_definition \<Rightarrow> parsed_artifacts \<Rightarrow> detection_evidence list \<Rightarrow> detection" where
  "rule_detection rule parsed evidence =
     \<lparr>det_technology_slug = TechnologySlug (rule_technology_slug rule),
      det_technology_category_slug = TechnologyCategorySlug (rule_technology_category_slug rule),
      det_rule_slug = RuleSlug (rule_rule_slug rule), det_rule_version = RuleVersion (rule_version_no rule),
      det_confidence = DetectionConfidence (confidence_after (rule_signals rule) parsed 0),
      det_method = DeterministicRule, det_evidence = sorted_list_of_set (set evidence)\<rparr>"

definition rule_outcome :: "rule_definition \<Rightarrow> parsed_artifacts \<Rightarrow> detection_evidence list \<Rightarrow> rule_evaluation" where
  "rule_outcome rule parsed evidence =
     \<lparr>re_detection = (if rule_verdict parsed rule = Detected then Some (rule_detection rule parsed evidence) else None),
      re_observation =
        \<lparr>obs_technology_slug = TechnologySlug (rule_technology_slug rule),
         obs_technology_category_slug = TechnologyCategorySlug (rule_technology_category_slug rule),
         obs_rule_slug = RuleSlug (rule_rule_slug rule), obs_rule_version = RuleVersion (rule_version_no rule),
         obs_status = rule_verdict parsed rule\<rparr>,
      re_technology_version = None\<rparr>"

lemma slug_parse_ok [simp]:
  "slug_ok s \<Longrightarrow> TechnologySlug_parse s = Inr (TechnologySlug s)"
  "slug_ok s \<Longrightarrow> TechnologyCategorySlug_parse s = Inr (TechnologyCategorySlug s)"
  "slug_ok s \<Longrightarrow> RuleSlug_parse s = Inr (RuleSlug s)"
  by (simp_all add: TechnologySlug_parse_def TechnologyCategorySlug_parse_def RuleSlug_parse_def)

lemma confidence_le: "confidence_after signals parsed 0 \<le> 100"
  using rule_score_le [of signals parsed] by (simp add: word_le_nat_alt confidence_score)

lemma verdict_Detected:
  "rule_verdict parsed rule = Detected \<longleftrightarrow> rule_threshold rule \<le> confidence_after (rule_signals rule) parsed 0"
  by (simp add: rule_verdict_def word_le_nat_alt confidence_score)

lemma evaluate_rule_closed:
  assumes ok: "rule_ok rule"
  shows "evaluate_rule rule parsed =
     rbind (collect_results (map to_detection_evidence (matched_items (rule_signals rule) parsed)))
       (\<lambda>new. Inr (rule_outcome rule parsed new))"
proof (cases "collect_results (map to_detection_evidence (matched_items (rule_signals rule) parsed))")
  case (Inl e)
  then show ?thesis by (simp add: evaluate_rule_def evaluate_signals_closed)
next
  case (Inr new)
  let ?c = "confidence_after (rule_signals rule) parsed 0"
  have len: "new = [] \<longleftrightarrow> matched_items (rule_signals rule) parsed = []"
    using Inr by (auto simp: collect_results_Inr dest: arg_cong [of _ _ length])
  have conf: "DetectionConfidence_new ?c = Inr (DetectionConfidence ?c)"
    using confidence_le by (simp add: DetectionConfidence_new_def not_less)
  have pos: "new \<noteq> []" if "rule_threshold rule \<le> ?c"
  proof
    assume "new = []"
    then have "unat ?c = 0" using len no_match_no_score confidence_score by metis
    then have "?c = 0" by (simp add: unat_eq_0)
    with that ok show False by (simp add: rule_ok_def)
  qed
  have conc: "conclude (rule_technology_slug rule) (rule_technology_category_slug rule) (rule_rule_slug rule)
              (rule_version_no rule) (rule_threshold rule) ?c new
              (list_all (\<lambda>s. availability parsed (sig_source s) = Available) (rule_signals rule))
            = Inr (re_detection (rule_outcome rule parsed new), re_observation (rule_outcome rule parsed new))"
  proof (cases "rule_threshold rule \<le> ?c")
    case True
    have "Detection_new t c r v f m new = Inr \<lparr>det_technology_slug = t, det_technology_category_slug = c,
        det_rule_slug = r, det_rule_version = v, det_confidence = f, det_method = m,
        det_evidence = sorted_list_of_set (set new)\<rparr>" for t c r v f m
      using pos [OF True] by (simp add: Detection_new_Inr)
    moreover have "rule_verdict parsed rule = Detected" using True by (simp add: verdict_Detected)
    ultimately show ?thesis
      using True ok
      by (simp add: conclude_def rule_ok_def RuleVersion_new_def conf rule_outcome_def rule_detection_def map_sum_def)
  next
    case False
    then have "rule_verdict parsed rule \<noteq> Detected" by (simp add: verdict_Detected)
    moreover have "rule_verdict parsed rule =
        (if new = [] \<and> list_all (\<lambda>s. availability parsed (sig_source s) = Available) (rule_signals rule)
         then ConfirmedAbsent else Unknown)"
      using calculation len by (auto simp: rule_verdict_def)
    ultimately show ?thesis
      using False ok by (simp add: conclude_def rule_ok_def RuleVersion_new_def rule_outcome_def)
  qed
  show ?thesis
    using Inr conc by (simp add: evaluate_rule_def evaluate_signals_closed rule_outcome_def)
qed

lemma slug_okI: "valid_slug s = Some s \<Longrightarrow> slug_ok s"
  by (simp add: valid_slug_iff)

lemma initial_rules_ok: "\<forall>rule \<in> set initial_rules. rule_ok rule"
proof -
  have "list_all (\<lambda>rule. valid_slug (rule_technology_slug rule) = Some (rule_technology_slug rule)
     \<and> valid_slug (rule_technology_category_slug rule) = Some (rule_technology_category_slug rule)
     \<and> valid_slug (rule_rule_slug rule) = Some (rule_rule_slug rule)
     \<and> rule_version_no rule \<noteq> 0 \<and> rule_threshold rule > 0) initial_rules"
    by code_simp
  then show ?thesis by (auto simp: list_all_iff rule_ok_def intro: slug_okI)
qed

section \<open>Closed form of the catalogue\<close>

definition as_detection_evidence :: "normalized_evidence \<Rightarrow> detection_evidence" where
  "as_detection_evidence e =
     \<lparr>ev_source = evidence_source_of (ne_source e), ev_key = trim (ne_key e), ev_value = trim (ne_value e)\<rparr>"

lemma to_detection_evidence_Inr: "to_detection_evidence e = Inr x \<Longrightarrow> x = as_detection_evidence e"
  by (auto simp: to_detection_evidence_def DetectionEvidence_new_def bounded_required_iff as_detection_evidence_def)

lemma collect_evidence_Inr:
  "collect_results (map to_detection_evidence es) = Inr new \<Longrightarrow> new = map as_detection_evidence es"
proof (induction es arbitrary: new)
  case (Cons e es)
  then show ?case by (auto dest: to_detection_evidence_Inr)
qed simp

lemma evaluate_rule_Inr:
  assumes "rule_ok rule" and "evaluate_rule rule parsed = Inr e"
  shows "e = rule_outcome rule parsed (map as_detection_evidence (matched_items (rule_signals rule) parsed))"
  using assms by (auto simp: evaluate_rule_closed dest!: collect_evidence_Inr)

definition rule_results :: "parsed_artifacts \<Rightarrow> rule_evaluation list" where
  "rule_results parsed =
     map (\<lambda>rule. rule_outcome rule parsed (map as_detection_evidence (matched_items (rule_signals rule) parsed)))
       initial_rules"

lemma evaluate_Inr: "evaluate parsed = Inr r \<Longrightarrow> r = summarise (rule_results parsed)"
proof -
  assume "evaluate parsed = Inr r"
  then obtain evs where evs: "map (\<lambda>rule. evaluate_rule rule parsed) initial_rules = map Inr evs"
    and r: "r = summarise evs"
    by (auto simp: evaluate_def collect_results_Inr)
  have "evs = rule_results parsed"
  proof (rule nth_equalityI)
    show len: "length evs = length (rule_results parsed)"
      using evs by (auto simp: rule_results_def dest: arg_cong [of _ _ length])
    fix i assume i: "i < length evs"
    with len have i': "i < length initial_rules" by (simp add: rule_results_def)
    have "evaluate_rule (initial_rules ! i) parsed = Inr (evs ! i)"
      using evs i i' by (metis nth_map)
    then show "evs ! i = rule_results parsed ! i"
      using i' initial_rules_ok by (simp add: rule_results_def evaluate_rule_Inr)
  qed
  with r show ?thesis by simp
qed

lemma map_sort_key: "map k (sort_key k xs) = sort (map (k :: 'a \<Rightarrow> 'b :: linorder) xs)"
proof (rule properties_for_sort [symmetric])
  show "mset (map k (sort_key k xs)) = mset (map k xs)" by (metis mset_map mset_sort)
qed simp

lemma map_filter_outcomes:
  "List.map_filter re_detection (map (\<lambda>rule. rule_outcome rule parsed (f rule)) rules) =
     map (\<lambda>rule. rule_detection rule parsed (f rule)) (filter (\<lambda>rule. rule_verdict parsed rule = Detected) rules)"
  by (induction rules) (simp_all add: rule_outcome_def map_filter_simps)

section \<open>Which evidence is accepted\<close>

lemma chars_count_le: "chars_count s \<le> length s"
  by (simp add: chars_count_def)

lemma normalized_trim: "normalized s = Some s \<Longrightarrow> trim s = s \<and> s \<noteq> []"
proof -
  assume n: "normalized s = Some s"
  then obtain t ts where s: "s = join_with '' '' (t # ts)" "\<forall>u \<in> set (t # ts). u \<noteq> [] \<and> no_ws u"
    using normalized_tokens by blast
  with trim_join have "trim s = s" by blast
  moreover have "s \<noteq> []" using n by (auto simp: normalized_def Let_def split: if_splits)
  ultimately show ?thesis ..
qed

lemma is_ok_to_detection_evidence:
  assumes "evidence_normal e"
  shows "is_ok (to_detection_evidence e) \<longleftrightarrow>
     chars_count (ne_key e) \<le> MAX_EVIDENCE_KEY_LENGTH \<and> chars_count (ne_value e) \<le> MAX_EVIDENCE_VALUE_LENGTH"
proof -
  have "trim (ne_key e) = ne_key e \<and> ne_key e \<noteq> []" "trim (ne_value e) = ne_value e \<and> ne_value e \<noteq> []"
    using assms by (auto simp: evidence_normal_def normalized_key_iff dest: normalized_trim)
  then show ?thesis
    by (simp add: to_detection_evidence_def DetectionEvidence_new_def bounded_required_def is_ok_rbind Let_def)
qed

lemma initial_signal_keys:
  "\<forall>rule \<in> set initial_rules. \<forall>s \<in> set (rule_signals rule). length (sig_key s) \<le> MAX_EVIDENCE_KEY_LENGTH"
proof -
  have "list_all (\<lambda>rule. list_all (\<lambda>s. length (sig_key s) \<le> MAX_EVIDENCE_KEY_LENGTH) (rule_signals rule)) initial_rules"
    by code_simp
  then show ?thesis by (simp add: list_all_iff)
qed

lemma matched_key_short:
  assumes "rule \<in> set initial_rules" and "e \<in> set (matched_items (rule_signals rule) parsed)"
  shows "chars_count (ne_key e) \<le> MAX_EVIDENCE_KEY_LENGTH"
proof -
  obtain s where s: "s \<in> set (rule_signals rule)" "signal_matches s e"
    using assms(2) by (auto simp: matched_items_def)
  then have "length (ne_key e) = length (sig_key s)"
    by (metis eq_ignore_ascii_case_def length_to_ascii_lowercase signal_matches_def)
  with s assms(1) initial_signal_keys chars_count_le [of "ne_key e"] show ?thesis by fastforce
qed

lemma parse_evidence_normal: "e \<in> set (pa_evidence (parse d b)) \<Longrightarrow> evidence_normal e"
  using parsed_state_extends [of d b] by (auto simp: parse_state extends_def)

lemma is_ok_evaluate:
  "is_ok (evaluate parsed) \<longleftrightarrow>
     list_all (\<lambda>rule. list_all (\<lambda>e. is_ok (to_detection_evidence e)) (matched_items (rule_signals rule) parsed)) initial_rules"
proof -
  have rbind_Inr: "is_ok (rbind r (\<lambda>x. Inr (f x))) = is_ok r" for r :: "'e + 'a" and f :: "'a \<Rightarrow> 'b"
    by (cases r) auto
  show ?thesis
    using initial_rules_ok
    by (auto simp: evaluate_def rbind_Inr is_ok_collect_results evaluate_rule_closed list_all_iff)
qed

section \<open>Static rules as active rules\<close>

fun artifact_source_name :: "artifact_source \<Rightarrow> string" where
  "artifact_source_name ArtHtml = ''html''"
| "artifact_source_name ArtHeader = ''header''"
| "artifact_source_name ArtScript = ''script''"
| "artifact_source_name ArtDns = ''dns''"
| "artifact_source_name ArtTls = ''tls''"

fun matcher_members :: "signal_matcher \<Rightarrow> (string \<times> json) list" where
  "matcher_members (EqualsIgnoreCase v) = [(''match'', JString ''equals_ignore_case''), (''value'', JString v)]"
| "matcher_members (ContainsIgnoreCase v) = [(''match'', JString ''contains_ignore_case''), (''value'', JString v)]"
| "matcher_members Present = [(''match'', JString ''present'')]"

definition encode_signal :: "signal_definition \<Rightarrow> json" where
  "encode_signal s =
     JObject ([(''source'', JString (artifact_source_name (sig_source s))), (''key'', JString (sig_key s))]
       @ matcher_members (sig_matcher s) @ [(''weight'', JInt (uint (sig_weight s)))])"

definition encode_rule :: "rule_definition \<Rightarrow> active_detection_rule" where
  "encode_rule rule =
     \<lparr>active_technology_slug = rule_technology_slug rule,
      active_technology_category_slug = rule_technology_category_slug rule,
      active_rule_slug = rule_rule_slug rule, active_version = rule_version_no rule,
      active_definition = JObject [(''threshold'', JInt (uint (rule_threshold rule))),
        (''signals'', JArray (map encode_signal (rule_signals rule)))]\<rparr>"

definition encodable :: "rule_definition \<Rightarrow> bool" where
  "encodable rule = (rule_threshold rule > 0 \<and> rule_signals rule \<noteq> []
     \<and> list_all (\<lambda>s. sig_weight s > 0 \<and> trim (sig_key s) \<noteq> []) (rule_signals rule))"

lemma parse_source_name [simp]: "parse_source (Some (artifact_source_name src)) = Inr src"
  by (cases src) (simp_all add: parse_source_def)

lemma member_u8_JInt:
  "map_of obj name = Some (JInt (uint w)) \<Longrightarrow> w > 0 \<Longrightarrow> member_u8 obj name = Inr w"
  unfolding member_u8_def by (simp del: as_u64.simps)

lemma encode_signal_matches:
  "(ne_source e = sig_source s \<and> eq_ignore_ascii_case (ne_key e) (sig_key s)
     \<and> matches_dynamic (ne_value e)
         (case sig_matcher s of EqualsIgnoreCase _ \<Rightarrow> ''equals_ignore_case''
          | ContainsIgnoreCase _ \<Rightarrow> ''contains_ignore_case'' | Present \<Rightarrow> ''present'')
         (case sig_matcher s of EqualsIgnoreCase v \<Rightarrow> Some v | ContainsIgnoreCase v \<Rightarrow> Some v | Present \<Rightarrow> None))
   = signal_matches s e"
  by (cases "sig_matcher s") (simp_all add: signal_matches_def matches_dynamic_def)

lemma evaluate_active_signals_encode:
  assumes "list_all (\<lambda>s. sig_weight s > 0 \<and> trim (sig_key s) \<noteq> []) signals"
  shows "evaluate_active_signals (map encode_signal signals) parsed st cov =
     rbind (evaluate_signals signals parsed st) (\<lambda>st.
       Inr (st, cov \<and> list_all (\<lambda>s. availability parsed (sig_source s) = Available) signals))"
  using assms
proof (induction signals arbitrary: st cov)
  case (Cons s signals)
  let ?m = "filter (signal_matches s) (pa_evidence parsed)"
  have w: "sig_weight s > 0" "trim (sig_key s) \<noteq> []" using Cons.prems by auto
  have step: "evaluate_active_signals (map encode_signal (s # signals)) parsed st cov =
     rbind (add_matches (sig_weight s) ?m st) (\<lambda>st.
       evaluate_active_signals (map encode_signal signals) parsed st
         (cov \<and> availability parsed (sig_source s) = Available))"
    using w encode_signal_matches [of _ s]
    by (cases "sig_matcher s") (simp_all add: encode_signal_def member_u8_JInt Let_def)
  show ?case
    unfolding step using Cons by (cases "add_matches (sig_weight s) ?m st") simp_all
qed simp

lemma evaluate_active_encode:
  assumes "encodable rule"
  shows "evaluate_active_rule rx (encode_rule rule) parsed = evaluate_rule rule parsed"
proof -
  let ?d = "[(''threshold'', JInt (uint (rule_threshold rule))),
    (''signals'', JArray (map encode_signal (rule_signals rule)))]"
  have th: "member_u8 ?d ''threshold'' = Inr (rule_threshold rule)"
    using assms by (simp add: member_u8_JInt encodable_def)
  have nv: "extract_dynamic_version rx ?d parsed = Inr None"
    by (simp add: extract_dynamic_version_def)
  show ?thesis
    using assms
    by (simp add: evaluate_active_rule_def encode_rule_def th nv evaluate_active_signals_encode encodable_def
        evaluate_rule_def split: sum.splits prod.splits)
       (auto simp: rbind_def nv split: sum.splits prod.splits)
qed

lemma initial_rules_encodable: "list_all encodable initial_rules"
  by code_simp

section \<open>Properties\<close>

text \<open>
  C13: when the catalogue is evaluated, there is one observation per rule in catalogue order, whose
  status is the specified verdict: detected exactly when the capped sum of the weights of the matching
  signals reaches the threshold, confirmed absent only when nothing matched and every source of the
  rule was available, unknown otherwise.  The detections are those of the detected rules, sorted by
  technology, each with that score and exactly the matched evidence.
\<close>

theorem evaluate_verdicts:
  assumes "evaluate parsed = Inr r"
  shows "map obs_status (de_observations r) = map (rule_verdict parsed) initial_rules
    \<and> map (\<lambda>ob. rule_slug_as_str (obs_rule_slug ob)) (de_observations r) = map rule_rule_slug initial_rules
    \<and> map (\<lambda>d. technology_slug_as_str (det_technology_slug d)) (de_detections r) =
       sort (map rule_technology_slug (filter (\<lambda>rule. rule_verdict parsed rule = Detected) initial_rules))
    \<and> list_all (\<lambda>d. list_ex (\<lambda>rule. det_technology_slug d = TechnologySlug (rule_technology_slug rule)
            \<and> unat (confidence_get (det_confidence d)) = rule_score (rule_signals rule) parsed
            \<and> set (det_evidence d) = as_detection_evidence ` set (matched_items (rule_signals rule) parsed))
          initial_rules) (de_detections r)"
proof (intro conjI)
  have r: "r = summarise (rule_results parsed)" using assms by (rule evaluate_Inr)
  show "map obs_status (de_observations r) = map (rule_verdict parsed) initial_rules"
    by (simp add: r summarise_def rule_results_def rule_outcome_def)
  show "map (\<lambda>ob. rule_slug_as_str (obs_rule_slug ob)) (de_observations r) = map rule_rule_slug initial_rules"
    by (simp add: r summarise_def rule_results_def rule_outcome_def)
  show "map (\<lambda>d. technology_slug_as_str (det_technology_slug d)) (de_detections r) =
       sort (map rule_technology_slug (filter (\<lambda>rule. rule_verdict parsed rule = Detected) initial_rules))"
    by (simp add: r summarise_def rule_results_def map_filter_outcomes map_sort_key rule_detection_def comp_def)
  show "list_all (\<lambda>d. list_ex (\<lambda>rule. det_technology_slug d = TechnologySlug (rule_technology_slug rule)
            \<and> unat (confidence_get (det_confidence d)) = rule_score (rule_signals rule) parsed
            \<and> set (det_evidence d) = as_detection_evidence ` set (matched_items (rule_signals rule) parsed))
          initial_rules) (de_detections r)"
    by (auto simp: r summarise_def rule_results_def map_filter_outcomes rule_detection_def confidence_score
        list_all_iff list_ex_iff)
qed

definition sample_document :: html_document where
  "sample_document = \<lparr>doc_titles = [[''Shop'']], doc_metas = [], doc_scripts = [[''src'' \<mapsto> ''https://js.stripe.com/v3'']]\<rparr>"

definition sample_bundle :: artifact_bundle where
  "sample_bundle = ArtifactBundle_default\<lparr>bundle_html := Captured ''<html>'',
     bundle_headers := Captured [(''cf-ray'', ''8a1''), (''server'', ''Cloudflare'')]\<rparr>"

lemma sample_evaluates: "is_ok (evaluate (parse (\<lambda>_. sample_document) sample_bundle))"
  by code_simp

theorem evaluate_verdicts_witness:
  "\<exists>r. evaluate (parse (\<lambda>_. sample_document) sample_bundle) = Inr r
     \<and> map (\<lambda>d. technology_slug_as_str (det_technology_slug d)) (de_detections r) = [''cloudflare'', ''stripe'']
     \<and> map obs_status (de_observations r) =
         [ConfirmedAbsent, Detected, Detected, ConfirmedAbsent, ConfirmedAbsent, ConfirmedAbsent, ConfirmedAbsent,
          ConfirmedAbsent]"
proof -
  obtain r where r: "evaluate (parse (\<lambda>_. sample_document) sample_bundle) = Inr r"
    using sample_evaluates by (auto simp: is_ok_iff)
  have "map (rule_verdict (parse (\<lambda>_. sample_document) sample_bundle)) initial_rules =
         [ConfirmedAbsent, Detected, Detected, ConfirmedAbsent, ConfirmedAbsent, ConfirmedAbsent, ConfirmedAbsent,
          ConfirmedAbsent]"
    by code_simp
  moreover have "sort (map rule_technology_slug (filter (\<lambda>rule.
      rule_verdict (parse (\<lambda>_. sample_document) sample_bundle) rule = Detected) initial_rules)) = [''cloudflare'', ''stripe'']"
    by code_simp
  ultimately show ?thesis
    using r evaluate_verdicts [OF r] by auto
qed

text \<open>
  Evaluating parsed evidence succeeds exactly when every item that some rule of the catalogue
  matches has at most 2048 characters; so a single longer header, meta or script value that matches
  one rule makes the evaluation of all rules fail.
\<close>

theorem evaluate_fails_on_long_values:
  "is_ok (evaluate (parse d b)) \<longleftrightarrow>
     list_all (\<lambda>rule. list_all (\<lambda>e. chars_count (ne_value e) \<le> 2048) (matched_items (rule_signals rule) (parse d b)))
       initial_rules"
proof -
  have "is_ok (to_detection_evidence e) \<longleftrightarrow> chars_count (ne_value e) \<le> 2048"
    if "rule \<in> set initial_rules" "e \<in> set (matched_items (rule_signals rule) (parse d b))" for rule e
  proof -
    have "evidence_normal e"
      using that(2) by (auto simp: matched_items_def intro: parse_evidence_normal)
    with matched_key_short [OF that] show ?thesis
      by (simp add: is_ok_to_detection_evidence MAX_EVIDENCE_VALUE_LENGTH_def)
  qed
  then show ?thesis by (auto simp: is_ok_evaluate list_all_iff)
qed

text \<open>
  The static catalogue and its database form agree: evaluating the JSON definitions of the
  catalogue's rules as active rules gives the same detections, observations and errors, whatever the
  evidence and the regular-expression engine.
\<close>

theorem active_catalogue_equals_static:
  "evaluate_active rx parsed (map encode_rule initial_rules) = evaluate parsed"
proof -
  have "map (\<lambda>rule. evaluate_active_rule rx rule parsed) (map encode_rule initial_rules)
      = map (\<lambda>rule. evaluate_rule rule parsed) initial_rules"
    using initial_rules_encodable by (auto simp: list_all_iff intro!: evaluate_active_encode)
  then show ?thesis by (simp only: evaluate_active_def evaluate_def)
qed

end
