(* ===== verification/Queue.thy ===== *)
theory Queue
  imports Crawler_Fetch
begin

text \<open>
  \<^verbatim>\<open>crates/queue/src/lib.rs\<close>: configuration, the politeness lease and the crawl-job queue on Redis
  streams.  Redis is a service: the record \<open>redis\<close> holds the commands the code sends, as functions on
  an abstract server state, what happens between two commands (time passes, other clients act), and
  the fate of a command on its way (it completes, is lost, or completes and its reply is lost).
  \<^verbatim>\<open>EVAL\<close> runs a script atomically, so a script is one function on the state.  Lua numbers are exact
  for the magnitudes involved (below two to the 53).
\<close>

section \<open>Configuration\<close>

definition as_millis :: "duration \<Rightarrow> nat" where
  "as_millis d = d div 1000000"

datatype redis_politeness_config_error = EmptyKeyPrefix | ZeroPolitenessOperationTimeout

record redis_politeness_config =
  key_prefix :: string
  politeness_operation_timeout :: duration

definition RedisPolitenessConfig_default :: redis_politeness_config where
  "RedisPolitenessConfig_default =
     \<lparr>key_prefix = ''techatlas:crawl-politeness:v1'', politeness_operation_timeout = from_secs 5\<rparr>"

definition RedisPolitenessConfig_new ::
    "string \<Rightarrow> duration \<Rightarrow> (redis_politeness_config_error, redis_politeness_config) result" where
  "RedisPolitenessConfig_new pfx operation_timeout =
     (let pfx = trim pfx in
      if pfx = [] then Inl EmptyKeyPrefix
      else if operation_timeout = 0 then Inl ZeroPolitenessOperationTimeout
      else Inr \<lparr>key_prefix = pfx, politeness_operation_timeout = operation_timeout\<rparr>)"

definition lease_key :: "redis_politeness_config \<Rightarrow> string \<Rightarrow> string" where
  "lease_key config domain = key_prefix config @ '':'' @ domain"

datatype redis_streams_config_error =
    EmptyName string | ZeroBatchSize | ZeroOperationTimeout | OperationTimeoutBeforeReadBlock
  | ZeroMaxDeliveries | DurationTooLarge

record redis_streams_config =
  stream_key :: string
  consumer_group :: string
  dead_letter_stream_key :: string
  dead_letter_index_key :: string
  batch_size :: nat
  read_block :: duration
  operation_timeout :: duration
  claim_idle :: duration
  max_deliveries :: nat

definition RedisStreamsConfig_default :: redis_streams_config where
  "RedisStreamsConfig_default =
     \<lparr>stream_key = ''techatlas:crawl-jobs:v1'', consumer_group = ''techatlas:crawl-workers:v1'',
      dead_letter_stream_key = ''techatlas:crawl-jobs:dead-letter:v1'',
      dead_letter_index_key = ''techatlas:crawl-jobs:dead-letter-index:v1'',
      batch_size = 10, read_block = from_secs 1, operation_timeout = from_secs 5,
      claim_idle = from_secs 60, max_deliveries = 5\<rparr>"

definition required_name :: "string \<Rightarrow> string \<Rightarrow> (redis_streams_config_error, string) result" where
  "required_name setting value =
     (let value = trim value in if value = [] then Inl (EmptyName setting) else Inr value)"

definition with_stream_names ::
    "redis_streams_config \<Rightarrow> string \<Rightarrow> string \<Rightarrow> string \<Rightarrow> string \<Rightarrow>
     (redis_streams_config_error, redis_streams_config) result" where
  "with_stream_names config stream grp dead_stream dead_index =
     rbind (required_name ''stream key'' stream) (\<lambda>stream.
     rbind (required_name ''consumer group'' grp) (\<lambda>grp.
     rbind (required_name ''dead-letter stream key'' dead_stream) (\<lambda>dead_stream.
     rbind (required_name ''dead-letter index key'' dead_index) (\<lambda>dead_index.
     Inr (config\<lparr>stream_key := stream, consumer_group := grp, dead_letter_stream_key := dead_stream,
                 dead_letter_index_key := dead_index\<rparr>)))))"

definition with_read_options ::
    "redis_streams_config \<Rightarrow> nat \<Rightarrow> duration \<Rightarrow> duration \<Rightarrow> (redis_streams_config_error, redis_streams_config) result" where
  "with_read_options config batch block_for timeout_after =
     (if batch = 0 then Inl ZeroBatchSize
      else if timeout_after = 0 then Inl ZeroOperationTimeout
      else if timeout_after < block_for then Inl OperationTimeoutBeforeReadBlock
      else Inr (config\<lparr>batch_size := batch, read_block := block_for, operation_timeout := timeout_after\<rparr>))"

definition with_recovery_policy ::
    "redis_streams_config \<Rightarrow> duration \<Rightarrow> nat \<Rightarrow> (redis_streams_config_error, redis_streams_config) result" where
  "with_recovery_policy config idle deliveries =
     (if deliveries = 0 then Inl ZeroMaxDeliveries
      else Inr (config\<lparr>claim_idle := idle, max_deliveries := deliveries\<rparr>))"

definition duration_millis :: "duration \<Rightarrow> (redis_streams_config_error, nat) result" where
  "duration_millis value = (if as_millis value < 2 ^ 64 then Inr (as_millis value) else Inl DurationTooLarge)"

datatype crawl_job_consumer_name = CrawlJobConsumerName (consumer_name_as_str: string)

definition CrawlJobConsumerName_parse :: "string \<Rightarrow> (unit, crawl_job_consumer_name) result" where
  "CrawlJobConsumerName_parse input =
     (let input = trim input in if input = [] then Inl () else Inr (CrawlJobConsumerName input))"

section \<open>The Redis server\<close>

datatype redis_error = RedisError "string option"

record stream_entry =
  entry_id :: string
  entry_map :: "string \<rightharpoonup> string option"

datatype fate = Completes | Lost | ReplyLost | Rejected redis_error

record 'st redis =
  rd_between :: "'st \<Rightarrow> 'st"
  rd_fate :: "'st \<Rightarrow> fate"
  rd_time :: "'st \<Rightarrow> nat \<times> nat"
  rd_get :: "'st \<Rightarrow> string \<Rightarrow> nat option"
  rd_set_px :: "string \<Rightarrow> nat \<Rightarrow> nat \<Rightarrow> 'st \<Rightarrow> 'st"
  rd_xgroup_create :: "string \<Rightarrow> string \<Rightarrow> 'st \<Rightarrow> (redis_error, unit) result \<times> 'st"
  rd_xadd :: "string \<Rightarrow> (string \<times> string) list \<Rightarrow> 'st \<Rightarrow> string option \<times> 'st"
  rd_xreadgroup :: "string \<Rightarrow> string \<Rightarrow> string \<Rightarrow> nat \<Rightarrow> nat \<Rightarrow> 'st \<Rightarrow> stream_entry list \<times> 'st"
  rd_xautoclaim :: "string \<Rightarrow> string \<Rightarrow> string \<Rightarrow> nat \<Rightarrow> nat \<Rightarrow> 'st \<Rightarrow> stream_entry list \<times> 'st"
  rd_xpending :: "string \<Rightarrow> string \<Rightarrow> string \<Rightarrow> 'st \<Rightarrow> nat list"
  rd_xack :: "string \<Rightarrow> string \<Rightarrow> string \<Rightarrow> 'st \<Rightarrow> nat \<times> 'st"
  rd_xdel :: "string \<Rightarrow> string \<Rightarrow> 'st \<Rightarrow> nat \<times> 'st"
  rd_hexists :: "'st \<Rightarrow> string \<Rightarrow> string \<Rightarrow> bool"
  rd_hset :: "string \<Rightarrow> string \<Rightarrow> string \<Rightarrow> 'st \<Rightarrow> 'st"
  rd_groups :: "string \<Rightarrow> 'st \<Rightarrow> (string \<times> nat option \<times> nat) list"

datatype call_failure = CallTimedOut | CallFailed redis_error

text \<open>One command under the operation timeout, on a connection that is opened the same way.\<close>

definition redis_call :: "'st redis \<Rightarrow> ('st \<Rightarrow> 'a \<times> 'st) \<Rightarrow> 'st \<Rightarrow> (call_failure, 'a) result \<times> 'st" where
  "redis_call rd f st =
     (let st = rd_between rd st in
      case rd_fate rd st of
        Completes \<Rightarrow> (case f st of (x, st') \<Rightarrow> (Inr x, st'))
      | Lost \<Rightarrow> (Inl CallTimedOut, st)
      | ReplyLost \<Rightarrow> (Inl CallTimedOut, snd (f st))
      | Rejected e \<Rightarrow> (Inl (CallFailed e), st))"

section \<open>The politeness lease\<close>

datatype redis_politeness_gate_error =
    GateInvalidConnectionConfiguration | GateTimedOut | GateUnavailable

fun gate_error :: "call_failure \<Rightarrow> redis_politeness_gate_error" where
  "gate_error CallTimedOut = GateTimedOut"
| "gate_error (CallFailed _) = GateUnavailable"

fun gate_error_str :: "redis_politeness_gate_error \<Rightarrow> string" where
  "gate_error_str GateInvalidConnectionConfiguration = ''invalid Redis connection configuration''"
| "gate_error_str GateTimedOut = ''Redis politeness operation timed out''"
| "gate_error_str GateUnavailable = ''Redis politeness gate is unavailable''"

definition now_millis :: "'st redis \<Rightarrow> 'st \<Rightarrow> nat" where
  "now_millis rd st = (case rd_time rd st of (secs, micros) \<Rightarrow> secs * 1000 + micros div 1000)"

definition politeness_lease_script :: "'st redis \<Rightarrow> string \<Rightarrow> nat \<Rightarrow> 'st \<Rightarrow> nat \<times> 'st" where
  "politeness_lease_script rd key delay_millis st =
     (let now = now_millis rd st;
          next_allowed = (case rd_get rd st key of None \<Rightarrow> 0 | Some v \<Rightarrow> v) in
      if next_allowed > now then (next_allowed - now, st)
      else (0, rd_set_px rd key (now + delay_millis) delay_millis st))"

definition lease_wait ::
    "'st redis \<Rightarrow> redis_politeness_config \<Rightarrow> string \<Rightarrow> duration \<Rightarrow> 'st \<Rightarrow>
     (redis_politeness_gate_error, duration) result \<times> 'st" where
  "lease_wait rd config domain delay st =
     (if as_millis delay \<ge> 2 ^ 64 then (Inl GateUnavailable, st)
      else if as_millis delay = 0 then (Inl GateUnavailable, st)
      else
        (case redis_call rd (\<lambda>st. ((), st)) st of
           (Inl e, st) \<Rightarrow> (Inl (gate_error e), st)
         | (Inr _, st) \<Rightarrow>
             (case redis_call rd (politeness_lease_script rd (lease_key config domain) (as_millis delay)) st of
                (Inl e, st) \<Rightarrow> (Inl (gate_error e), st)
              | (Inr wait_millis, st) \<Rightarrow> (Inr (from_millis wait_millis), st))))"

datatype politeness_gate_error = PolitenessCancelled | PolitenessUnavailable string

text \<open>
  The loop of \<open>acquire\<close> may wait for ever; not returning is \<open>None\<close>.  \<open>cancelled\<close> is the state of the
  cancellation token, and \<open>sleep\<close> waits and says whether it was cancelled meanwhile.
\<close>

partial_function (option) acquire_loop ::
    "'st redis \<Rightarrow> redis_politeness_config \<Rightarrow> ('st \<Rightarrow> bool) \<Rightarrow> (duration \<Rightarrow> 'st \<Rightarrow> bool \<times> 'st) \<Rightarrow>
     string \<Rightarrow> duration \<Rightarrow> 'st \<Rightarrow> ((politeness_gate_error, unit) result \<times> 'st) option" where
  "acquire_loop rd config cancelled sleep_for domain delay st =
     (if cancelled st then Some (Inl PolitenessCancelled, st)
      else
        (case lease_wait rd config domain delay st of
           (Inl e, st) \<Rightarrow> Some (Inl (PolitenessUnavailable (gate_error_str e)), st)
         | (Inr wait, st) \<Rightarrow>
             if wait = 0 then Some (Inr (), st)
             else
               (case sleep_for wait st of
                  (stopped, st) \<Rightarrow>
                    if stopped then Some (Inl PolitenessCancelled, st)
                    else acquire_loop rd config cancelled sleep_for domain delay st)))"

definition acquire ::
    "'st redis \<Rightarrow> redis_politeness_config \<Rightarrow> ('st \<Rightarrow> bool) \<Rightarrow> (duration \<Rightarrow> 'st \<Rightarrow> bool \<times> 'st) \<Rightarrow>
     politeness_request \<Rightarrow> 'st \<Rightarrow> ((politeness_gate_error, unit) result \<times> 'st) option" where
  "acquire rd config cancelled sleep_for request st =
     (if trim (polite_domain request) = [] then Some (Inl (PolitenessUnavailable ''empty crawl domain''), st)
      else acquire_loop rd config cancelled sleep_for (polite_domain request) (polite_minimum_delay request) st)"

section \<open>The crawl-job queue\<close>

definition PAYLOAD_FIELD :: string where "PAYLOAD_FIELD = ''payload''"

datatype crawl_job_receipt = CrawlJobReceipt (receipt_as_str: string)

record received_crawl_job =
  rcv_receipt :: crawl_job_receipt
  rcv_job :: crawl_job_v1
  rcv_delivery_count :: nat

datatype dead_letter_reason = DeliveryLimitExceeded | InvalidPayload

fun dead_letter_reason_as_str :: "dead_letter_reason \<Rightarrow> string" where
  "dead_letter_reason_as_str DeliveryLimitExceeded = ''delivery_limit_exceeded''"
| "dead_letter_reason_as_str InvalidPayload = ''invalid_payload''"

datatype crawl_job_queue_error =
    QueueTimedOut | QueueUnavailable redis_error | QueueSerialization | MissingPublishedEntryId
  | MissingPendingEntry string | AcknowledgementMissing string
  | QueueInvalidConfiguration redis_streams_config_error

text \<open>A step of the queue: a result and the next server state.\<close>

type_synonym ('st, 'a) queue_step = "'st \<Rightarrow> (crawl_job_queue_error, 'a) result \<times> 'st"

definition qbind :: "('st, 'a) queue_step \<Rightarrow> ('a \<Rightarrow> ('st, 'b) queue_step) \<Rightarrow> ('st, 'b) queue_step" where
  "qbind m f st = (case m st of (Inl e, st) \<Rightarrow> (Inl e, st) | (Inr x, st) \<Rightarrow> f x st)"

definition qreturn :: "'a \<Rightarrow> ('st, 'a) queue_step" where
  "qreturn x st = (Inr x, st)"

definition qfail :: "crawl_job_queue_error \<Rightarrow> ('st, 'a) queue_step" where
  "qfail e st = (Inl e, st)"

definition qlift :: "(redis_streams_config_error, 'a) result \<Rightarrow> ('st, 'a) queue_step" where
  "qlift r st = (map_err QueueInvalidConfiguration r, st)"

fun queue_error :: "call_failure \<Rightarrow> crawl_job_queue_error" where
  "queue_error CallTimedOut = QueueTimedOut"
| "queue_error (CallFailed e) = QueueUnavailable e"

definition execute :: "'st redis \<Rightarrow> ('st \<Rightarrow> 'a \<times> 'st) \<Rightarrow> ('st, 'a) queue_step" where
  "execute rd f st = (case redis_call rd f st of (r, st) \<Rightarrow> (map_err queue_error r, st))"

definition connection :: "'st redis \<Rightarrow> ('st, unit) queue_step" where
  "connection rd = execute rd (\<lambda>st. ((), st))"

definition ensure_group :: "'st redis \<Rightarrow> redis_streams_config \<Rightarrow> ('st, unit) queue_step" where
  "ensure_group rd config =
     qbind (connection rd) (\<lambda>_ st.
       case execute rd (rd_xgroup_create rd (stream_key config) (consumer_group config)) st of
         (Inr (Inr _), st) \<Rightarrow> (Inr (), st)
       | (Inr (Inl e), st) \<Rightarrow>
           if e = RedisError (Some ''BUSYGROUP'') then (Inr (), st) else (Inl (QueueUnavailable e), st)
       | (Inl (QueueUnavailable e), st) \<Rightarrow>
           if e = RedisError (Some ''BUSYGROUP'') then (Inr (), st) else (Inl (QueueUnavailable e), st)
       | (Inl e, st) \<Rightarrow> (Inl e, st))"

definition dead_letter_script ::
    "'st redis \<Rightarrow> redis_streams_config \<Rightarrow> string \<Rightarrow> string \<Rightarrow> nat \<Rightarrow> string \<Rightarrow> 'st \<Rightarrow> nat \<times> 'st" where
  "dead_letter_script rd config entry payload delivery_count reason st =
     (let st = (if \<not> rd_hexists rd st (dead_letter_index_key config) entry then
                  rd_hset rd (dead_letter_index_key config) entry ''1''
                    (snd (rd_xadd rd (dead_letter_stream_key config)
                       [(''source_stream'', stream_key config), (''source_entry_id'', entry),
                        (''payload'', payload), (''delivery_count'', dec_str delivery_count),
                        (''reason'', reason)] st))
                else st) in
      rd_xack rd (stream_key config) (consumer_group config) entry st)"

definition dead_letter ::
    "'st redis \<Rightarrow> redis_streams_config \<Rightarrow> string \<Rightarrow> string \<Rightarrow> nat \<Rightarrow> dead_letter_reason \<Rightarrow> ('st, unit) queue_step" where
  "dead_letter rd config entry payload delivery_count reason =
     qbind (connection rd) (\<lambda>_.
     qbind (execute rd (dead_letter_script rd config entry payload delivery_count (dead_letter_reason_as_str reason)))
       (\<lambda>_. qreturn ()))"

text \<open>\<open>parse_wire\<close> and \<open>wire_str\<close> read and write the JSON text of a wire message (\<^verbatim>\<open>serde_json\<close>).\<close>

definition job_from_str :: "(string \<Rightarrow> crawl_job_wire option) \<Rightarrow> string \<Rightarrow> crawl_job_v1 option" where
  "job_from_str parse_wire payload =
     (case parse_wire payload of
        None \<Rightarrow> None
      | Some wire \<Rightarrow> (case CrawlJobV1_deserialize wire of Inl _ \<Rightarrow> None | Inr job \<Rightarrow> Some job))"

definition payload_of :: "stream_entry \<Rightarrow> string option" where
  "payload_of e = Option.bind (entry_map e PAYLOAD_FIELD) (\<lambda>value. value)"

definition decode_entry ::
    "'st redis \<Rightarrow> redis_streams_config \<Rightarrow> (string \<Rightarrow> crawl_job_wire option) \<Rightarrow> stream_entry \<Rightarrow> nat \<Rightarrow>
     ('st, received_crawl_job option) queue_step" where
  "decode_entry rd config parse_wire e delivery_count =
     (case payload_of e of
        None \<Rightarrow>
          qbind (dead_letter rd config (entry_id e) [] delivery_count InvalidPayload) (\<lambda>_. qreturn None)
      | Some payload \<Rightarrow>
          (case job_from_str parse_wire payload of
             None \<Rightarrow>
               qbind (dead_letter rd config (entry_id e) payload delivery_count InvalidPayload) (\<lambda>_. qreturn None)
           | Some job \<Rightarrow>
               qreturn (Some \<lparr>rcv_receipt = CrawlJobReceipt (entry_id e), rcv_job = job,
                              rcv_delivery_count = delivery_count\<rparr>)))"

definition delivery_count_of :: "'st redis \<Rightarrow> redis_streams_config \<Rightarrow> string \<Rightarrow> ('st, nat) queue_step" where
  "delivery_count_of rd config entry =
     qbind (connection rd) (\<lambda>_.
     qbind (execute rd (\<lambda>st. (rd_xpending rd (stream_key config) (consumer_group config) entry st, st))) (\<lambda>ids.
     case ids of [] \<Rightarrow> qfail (MissingPendingEntry entry) | n # _ \<Rightarrow> qreturn n))"

definition entry_payload :: "stream_entry \<Rightarrow> string" where
  "entry_payload e = (case payload_of e of None \<Rightarrow> [] | Some payload \<Rightarrow> payload)"

definition publish ::
    "'st redis \<Rightarrow> redis_streams_config \<Rightarrow> (crawl_job_wire \<Rightarrow> string option) \<Rightarrow> crawl_job_v1 \<Rightarrow>
     ('st, crawl_job_receipt) queue_step" where
  "publish rd config wire_str job =
     (case wire_str (CrawlJobV1_serialize job) of
        None \<Rightarrow> qfail QueueSerialization
      | Some payload \<Rightarrow>
          qbind (connection rd) (\<lambda>_.
          qbind (execute rd (rd_xadd rd (stream_key config) [(PAYLOAD_FIELD, payload)])) (\<lambda>entry.
          case entry of None \<Rightarrow> qfail MissingPublishedEntryId | Some entry \<Rightarrow> qreturn (CrawlJobReceipt entry))))"

fun receive_entries ::
    "'st redis \<Rightarrow> redis_streams_config \<Rightarrow> (string \<Rightarrow> crawl_job_wire option) \<Rightarrow> stream_entry list \<Rightarrow>
     ('st, received_crawl_job list) queue_step" where
  "receive_entries rd config parse_wire [] = qreturn []"
| "receive_entries rd config parse_wire (e # es) =
     qbind (decode_entry rd config parse_wire e 1) (\<lambda>job.
     qbind (receive_entries rd config parse_wire es) (\<lambda>jobs.
     qreturn (case job of None \<Rightarrow> jobs | Some job \<Rightarrow> job # jobs)))"

definition receive ::
    "'st redis \<Rightarrow> redis_streams_config \<Rightarrow> (string \<Rightarrow> crawl_job_wire option) \<Rightarrow> crawl_job_consumer_name \<Rightarrow>
     ('st, received_crawl_job list) queue_step" where
  "receive rd config parse_wire consumer =
     qbind (ensure_group rd config) (\<lambda>_.
     qbind (qlift (duration_millis (read_block config))) (\<lambda>block_for.
     qbind (connection rd) (\<lambda>_.
     qbind (execute rd (rd_xreadgroup rd (stream_key config) (consumer_group config)
              (consumer_name_as_str consumer) block_for (batch_size config))) (\<lambda>entries.
     receive_entries rd config parse_wire entries))))"

fun reclaim_entries ::
    "'st redis \<Rightarrow> redis_streams_config \<Rightarrow> (string \<Rightarrow> crawl_job_wire option) \<Rightarrow> stream_entry list \<Rightarrow>
     ('st, received_crawl_job list) queue_step" where
  "reclaim_entries rd config parse_wire [] = qreturn []"
| "reclaim_entries rd config parse_wire (e # es) =
     qbind (delivery_count_of rd config (entry_id e)) (\<lambda>delivery_count.
     if delivery_count \<ge> max_deliveries config then
       qbind (dead_letter rd config (entry_id e) (entry_payload e) delivery_count DeliveryLimitExceeded) (\<lambda>_.
       reclaim_entries rd config parse_wire es)
     else
       qbind (decode_entry rd config parse_wire e delivery_count) (\<lambda>job.
       qbind (reclaim_entries rd config parse_wire es) (\<lambda>jobs.
       qreturn (case job of None \<Rightarrow> jobs | Some job \<Rightarrow> job # jobs))))"

definition reclaim_stale ::
    "'st redis \<Rightarrow> redis_streams_config \<Rightarrow> (string \<Rightarrow> crawl_job_wire option) \<Rightarrow> crawl_job_consumer_name \<Rightarrow>
     ('st, received_crawl_job list) queue_step" where
  "reclaim_stale rd config parse_wire consumer =
     qbind (ensure_group rd config) (\<lambda>_.
     qbind (connection rd) (\<lambda>_.
     qbind (qlift (duration_millis (claim_idle config))) (\<lambda>idle.
     qbind (execute rd (rd_xautoclaim rd (stream_key config) (consumer_group config)
              (consumer_name_as_str consumer) idle (batch_size config))) (\<lambda>claimed.
     reclaim_entries rd config parse_wire claimed))))"

definition acknowledge :: "'st redis \<Rightarrow> redis_streams_config \<Rightarrow> crawl_job_receipt \<Rightarrow> ('st, unit) queue_step" where
  "acknowledge rd config receipt =
     qbind (connection rd) (\<lambda>_.
     qbind (execute rd (rd_xack rd (stream_key config) (consumer_group config) (receipt_as_str receipt))) (\<lambda>acknowledged.
     if acknowledged = 1 then
       qbind (execute rd (rd_xdel rd (stream_key config) (receipt_as_str receipt))) (\<lambda>deleted.
       if deleted = 1 then qreturn () else qfail (AcknowledgementMissing (receipt_as_str receipt)))
     else qfail (AcknowledgementMissing (receipt_as_str receipt))))"

record admin_queue_snapshot =
  ready_count :: nat
  processing_count :: nat

definition snapshot ::
    "'st redis \<Rightarrow> redis_streams_config \<Rightarrow> 'st \<Rightarrow> admin_queue_snapshot option \<times> 'st" where
  "snapshot rd config st =
     (case qbind (ensure_group rd config) (\<lambda>_. qbind (connection rd) (\<lambda>_.
             execute rd (\<lambda>st. (rd_groups rd (stream_key config) st, st)))) st of
        (Inl _, st) \<Rightarrow> (None, st)
      | (Inr groups, st) \<Rightarrow>
          (case find (\<lambda>(name, _). name = consumer_group config) groups of
             None \<Rightarrow> (None, st)
           | Some (_, lag, pending) \<Rightarrow>
               if (case lag of None \<Rightarrow> 0 | Some n \<Rightarrow> n) < 2 ^ 64 \<and> pending < 2 ^ 64 then
                 (Some \<lparr>ready_count = (case lag of None \<Rightarrow> 0 | Some n \<Rightarrow> n), processing_count = pending\<rparr>, st)
               else (None, st)))"

section \<open>Lemmas on the lease\<close>

text \<open>
  What the lease relies on, for one key that only the script writes: the server's time never goes
  back, \<open>SET PX\<close> stores the value and its expiry, and a key stays until it expires.
\<close>

definition redis_lease_ok :: "'st redis \<Rightarrow> ('st \<Rightarrow> nat) \<Rightarrow> string \<Rightarrow> bool" where
  "redis_lease_ok rd expiry key =
     ((\<forall>st. now_millis rd st \<le> now_millis rd (rd_between rd st))
      \<and> (\<forall>st. now_millis rd (rd_between rd st) < expiry st \<longrightarrow>
            rd_get rd (rd_between rd st) key = rd_get rd st key \<and> expiry (rd_between rd st) = expiry st)
      \<and> (\<forall>st v px. rd_get rd (rd_set_px rd key v px st) key = Some v
            \<and> expiry (rd_set_px rd key v px st) = now_millis rd st + px
            \<and> now_millis rd (rd_set_px rd key v px st) = now_millis rd st))"

text \<open>
  A history of one key: other activity and executions of the script by any worker, with the list
  of the grants (server time and delay), in order.
\<close>

inductive lease_run :: "'st redis \<Rightarrow> string \<Rightarrow> 'st \<Rightarrow> (nat \<times> nat) list \<Rightarrow> 'st \<Rightarrow> bool" where
  start: "lease_run rd key st [] st"
| other: "lease_run rd key st gs st' \<Longrightarrow> lease_run rd key st gs (rd_between rd st')"
| granted: "lease_run rd key st gs st' \<Longrightarrow> politeness_lease_script rd key delay st' = (0, st'') \<Longrightarrow>
     lease_run rd key st (gs @ [(now_millis rd st', delay)]) st''"
| refused: "lease_run rd key st gs st' \<Longrightarrow> politeness_lease_script rd key delay st' = (w, st'') \<Longrightarrow> 0 < w \<Longrightarrow>
     lease_run rd key st gs st''"

definition lease_held :: "'st redis \<Rightarrow> ('st \<Rightarrow> nat) \<Rightarrow> string \<Rightarrow> (nat \<times> nat) list \<Rightarrow> 'st \<Rightarrow> bool" where
  "lease_held rd expiry key gs st =
     (gs \<noteq> [] \<longrightarrow> (case last gs of (t, d) \<Rightarrow>
        t \<le> now_millis rd st
        \<and> (now_millis rd st < t + d \<longrightarrow> rd_get rd st key = Some (t + d) \<and> expiry st = t + d)))"

lemma script_granted:
  assumes "politeness_lease_script rd key d st = (0, st')"
  shows "(case rd_get rd st key of None \<Rightarrow> 0 | Some v \<Rightarrow> v) \<le> now_millis rd st"
    and "st' = rd_set_px rd key (now_millis rd st + d) d st"
  using assms by (auto simp: politeness_lease_script_def Let_def split: if_splits)

lemma script_refused:
  "politeness_lease_script rd key d st = (w, st') \<Longrightarrow> 0 < w \<Longrightarrow> st' = st"
  by (auto simp: politeness_lease_script_def Let_def split: if_splits)

lemma lease_held_between:
  assumes "redis_lease_ok rd expiry key" and "lease_held rd expiry key gs st"
  shows "lease_held rd expiry key gs (rd_between rd st)"
proof (cases "gs = []")
  case False
  obtain t d where l: "last gs = (t, d)" by (cases "last gs")
  from assms(1) have mono: "now_millis rd st \<le> now_millis rd (rd_between rd st)"
    and keep: "now_millis rd (rd_between rd st) < expiry st \<Longrightarrow>
      rd_get rd (rd_between rd st) key = rd_get rd st key \<and> expiry (rd_between rd st) = expiry st"
    unfolding redis_lease_ok_def by auto
  show ?thesis
    using assms(2) False mono keep by (auto simp: lease_held_def l)
qed (simp add: lease_held_def)

lemma lease_run_held:
  assumes "lease_run rd key st gs st'" and "redis_lease_ok rd expiry key"
  shows "lease_held rd expiry key gs st' \<and> sorted_wrt (\<lambda>g h. fst g + snd g \<le> fst h) gs"
  using assms
proof induction
  case (start rd key st)
  then show ?case by (simp add: lease_held_def)
next
  case (other rd key st gs st')
  then show ?case by (simp add: lease_held_between)
next
  case (granted rd key st gs st' delay st'')
  note free = script_granted [OF granted(2)]
  have set: "rd_get rd st'' key = Some (now_millis rd st' + delay)" "expiry st'' = now_millis rd st' + delay"
    "now_millis rd st'' = now_millis rd st'"
    using granted.prems unfolding free(2) redis_lease_ok_def by auto
  have held: "lease_held rd expiry key gs st'" and srt: "sorted_wrt (\<lambda>g h. fst g + snd g \<le> fst h) gs"
    using granted by auto
  have "fst g + snd g \<le> now_millis rd st'" if g: "g \<in> set gs" for g
  proof -
    from g have ne: "gs \<noteq> []" by auto
    obtain t d where l: "last gs = (t, d)" by (cases "last gs")
    have last: "t + d \<le> now_millis rd st'"
      using held free(1) ne l by (auto simp: lease_held_def not_less [symmetric])
    show ?thesis
    proof (cases "g = last gs")
      case True
      with last l show ?thesis by simp
    next
      case False
      have "gs = butlast gs @ [last gs]" using ne by simp
      with srt have "sorted_wrt (\<lambda>g h. fst g + snd g \<le> fst h) (butlast gs @ [last gs])" by metis
      moreover have "g \<in> set (butlast gs)"
        using g False ne by (metis in_set_butlastD append_butlast_last_id in_set_conv_decomp rotate1.simps(2) set_ConsD set_rotate1)
      ultimately have "fst g + snd g \<le> t" by (simp add: sorted_wrt_append l)
      with last show ?thesis by simp
    qed
  qed
  with srt have "sorted_wrt (\<lambda>g h. fst g + snd g \<le> fst h) (gs @ [(now_millis rd st', delay)])"
    by (simp add: sorted_wrt_append)
  moreover have "lease_held rd expiry key (gs @ [(now_millis rd st', delay)]) st''"
    using set by (simp add: lease_held_def)
  ultimately show ?case by simp
next
  case (refused rd key st gs st' delay w st'')
  then show ?case using script_refused by metis
qed

text \<open>A successful acquisition ends right after a script execution that granted the lease.\<close>

definition after_grant :: "'st redis \<Rightarrow> redis_politeness_config \<Rightarrow> string \<Rightarrow> duration \<Rightarrow> 'st \<Rightarrow> bool" where
  "after_grant rd config domain delay st' =
     (\<exists>st. politeness_lease_script rd (lease_key config domain) (as_millis delay) st = (0, st'))"

lemma redis_call_Inr: "redis_call rd f st = (Inr x, st') \<Longrightarrow> f (rd_between rd st) = (x, st')"
  by (auto simp: redis_call_def Let_def split: fate.splits prod.splits)

lemma lease_wait_granted: "lease_wait rd config domain delay st = (Inr 0, st') \<Longrightarrow> after_grant rd config domain delay st'"
  by (auto simp: lease_wait_def after_grant_def from_millis_def dest!: redis_call_Inr
      split: if_splits prod.splits sum.splits)

lemma acquire_loop_after_grant:
  "acquire_loop rd config cancelled sleep_for domain delay st = Some (Inr (), st') \<Longrightarrow>
     after_grant rd config domain delay st'"
proof -
  have "fst y = Inr () \<longrightarrow> after_grant rd config domain delay (snd y)"
    if "acquire_loop rd config cancelled sleep_for domain delay st = Some y" for y
  proof (rule acquire_loop.raw_induct [where P = "\<lambda>rd config cancelled sleep_for domain delay st y.
      fst y = Inr () \<longrightarrow> after_grant rd config domain delay (snd y)", OF _ that])
    fix loop rd config cancelled sleep_for domain delay st y
    assume ih: "\<And>rd config cancelled sleep_for domain delay st y.
        loop rd config cancelled sleep_for domain delay st = Some y \<Longrightarrow>
        fst y = Inr () \<longrightarrow> after_grant rd config domain delay (snd y)"
      and body: "(if cancelled st then Some (Inl PolitenessCancelled, st)
        else (case lease_wait rd config domain delay st of
           (Inl e, st) \<Rightarrow> Some (Inl (PolitenessUnavailable (gate_error_str e)), st)
         | (Inr wait, st) \<Rightarrow>
             if wait = 0 then Some (Inr (), st)
             else (case sleep_for wait st of (stopped, st) \<Rightarrow>
                    if stopped then Some (Inl PolitenessCancelled, st)
                    else loop rd config cancelled sleep_for domain delay st))) = Some y"
    then show "fst y = Inr () \<longrightarrow> after_grant rd config domain delay (snd y)"
      by (auto dest: lease_wait_granted split: if_splits prod.splits sum.splits)
  qed
  then show "acquire_loop rd config cancelled sleep_for domain delay st = Some (Inr (), st') \<Longrightarrow>
     after_grant rd config domain delay st'"
    by fastforce
qed

text \<open>
  Nobody else asks for the key, no call fails and nothing is cancelled; the key may expire, and a
  sleep lasts at least as long as asked.
\<close>

definition uncontended ::
    "'st redis \<Rightarrow> string \<Rightarrow> ('st \<Rightarrow> bool) \<Rightarrow> (duration \<Rightarrow> 'st \<Rightarrow> bool \<times> 'st) \<Rightarrow> bool" where
  "uncontended rd key cancelled sleep_for =
     ((\<forall>st. rd_fate rd st = Completes \<and> \<not> cancelled st
         \<and> now_millis rd st \<le> now_millis rd (rd_between rd st)
         \<and> rd_get rd (rd_between rd st) key \<in> {None, rd_get rd st key})
      \<and> (\<forall>w st. \<not> fst (sleep_for w st)
         \<and> now_millis rd st + as_millis w \<le> now_millis rd (snd (sleep_for w st))
         \<and> rd_get rd (snd (sleep_for w st)) key \<in> {None, rd_get rd st key}))"

lemma lease_wait_uncontended:
  assumes "uncontended rd (lease_key config domain) cancelled sleep_for"
    and "0 < as_millis delay" "as_millis delay < 2 ^ 64"
  shows "lease_wait rd config domain delay st =
     (case politeness_lease_script rd (lease_key config domain) (as_millis delay) (rd_between rd (rd_between rd st)) of
        (w, st') \<Rightarrow> (Inr (from_millis w), st'))"
  using assms by (simp add: lease_wait_def redis_call_def uncontended_def split: prod.splits)

lemma from_millis_simps [simp]: "from_millis w = 0 \<longleftrightarrow> w = 0" "as_millis (from_millis w) = w"
  by (simp_all add: from_millis_def as_millis_def)

lemma lease_free:
  assumes "(case rd_get rd st key of None \<Rightarrow> 0 | Some v \<Rightarrow> v) \<le> now_millis rd st"
  shows "fst (politeness_lease_script rd key d st) = 0"
  using assms by (simp add: politeness_lease_script_def Let_def)

lemma acquire_loop_uncontended:
  assumes u: "uncontended rd (lease_key config domain) cancelled sleep_for"
    and d: "0 < as_millis delay" "as_millis delay < 2 ^ 64"
  shows "\<exists>st'. acquire_loop rd config cancelled sleep_for domain delay st = Some (Inr (), st')"
proof -
  let ?key = "lease_key config domain"
  let ?script = "politeness_lease_script rd ?key (as_millis delay)"
  let ?b = "\<lambda>st. rd_between rd (rd_between rd st)"
  have awake: "(case sleep_for w st of (stopped, st') \<Rightarrow> if stopped then A st' else B st') = B (snd (sleep_for w st))"
    for w st and A B :: "'a \<Rightarrow> 'b"
  proof -
    have "\<not> fst (sleep_for w st)" using u by (simp add: uncontended_def)
    then show ?thesis by (cases "sleep_for w st") simp
  qed
  have unfold: "acquire_loop rd config cancelled sleep_for domain delay st =
      (case ?script (?b st) of (w, st1) \<Rightarrow>
         if w = 0 then Some (Inr (), st1)
         else acquire_loop rd config cancelled sleep_for domain delay (snd (sleep_for (from_millis w) st1)))" for st
    using u
    by (subst acquire_loop.simps)
       (simp add: lease_wait_uncontended [OF u d] awake uncontended_def split: prod.splits)
  obtain w st1 where s1: "?script (?b st) = (w, st1)" by (cases "?script (?b st)")
  show ?thesis
  proof (cases "w = 0")
    case True
    with s1 show ?thesis by (simp add: unfold [of st])
  next
    case False
    then have st1: "st1 = ?b st" by (intro script_refused [OF s1]) simp
    obtain v where v: "rd_get rd st1 ?key = Some v" "w = v - now_millis rd st1" "now_millis rd st1 < v"
      using s1 False unfolding st1 by (auto simp: politeness_lease_script_def Let_def split: if_splits option.splits)
    let ?st2 = "snd (sleep_for (from_millis w) st1)"
    have slept: "now_millis rd st1 + as_millis (from_millis w) \<le> now_millis rd ?st2"
      "rd_get rd ?st2 ?key \<in> {None, rd_get rd st1 ?key}"
      using u by (simp_all add: uncontended_def del: from_millis_simps)
    have 2: "v \<le> now_millis rd ?st2" "rd_get rd ?st2 ?key \<in> {None, Some v}"
      using slept v by simp_all
    have step: "now_millis rd s \<le> now_millis rd (rd_between rd s)" "rd_get rd (rd_between rd s) ?key \<in> {None, rd_get rd s ?key}" for s
      using u by (auto simp: uncontended_def)
    have "v \<le> now_millis rd (?b ?st2)" "rd_get rd (?b ?st2) ?key \<in> {None, Some v}"
      using 2 step [of ?st2] step [of "rd_between rd ?st2"] by auto
    then have "fst (?script (?b ?st2)) = 0" by (intro lease_free) auto
    then have "acquire_loop rd config cancelled sleep_for domain delay ?st2 = Some (Inr (), snd (?script (?b ?st2)))"
      by (subst unfold) (cases "?script (?b ?st2)", simp)
    moreover have "acquire_loop rd config cancelled sleep_for domain delay st
        = acquire_loop rd config cancelled sleep_for domain delay ?st2"
      using s1 False by (subst unfold) simp
    ultimately show ?thesis by simp
  qed
qed

section \<open>Lemmas on dead letters\<close>

text \<open>
  What the dead-letter script relies on: \<open>XADD\<close> appends to the dead-letter stream, \<open>HSET\<close> adds to the
  index, and acknowledging and other activity touch neither.
\<close>

definition dead_store_ok ::
    "'st redis \<Rightarrow> redis_streams_config \<Rightarrow> ('st \<Rightarrow> (string \<times> string) list list) \<Rightarrow> bool" where
  "dead_store_ok rd config dead =
     (let index = \<lambda>st. rd_hexists rd st (dead_letter_index_key config) in
      (\<forall>st. dead (rd_between rd st) = dead st \<and> index (rd_between rd st) = index st)
      \<and> (\<forall>fields st. dead (snd (rd_xadd rd (dead_letter_stream_key config) fields st)) = dead st @ [fields]
           \<and> index (snd (rd_xadd rd (dead_letter_stream_key config) fields st)) = index st)
      \<and> (\<forall>e v st. dead (rd_hset rd (dead_letter_index_key config) e v st) = dead st
           \<and> index (rd_hset rd (dead_letter_index_key config) e v st) = (index st)(e := True))
      \<and> (\<forall>e st. dead (snd (rd_xack rd (stream_key config) (consumer_group config) e st)) = dead st
           \<and> index (snd (rd_xack rd (stream_key config) (consumer_group config) e st)) = index st))"

definition dead_count :: "('st \<Rightarrow> (string \<times> string) list list) \<Rightarrow> string \<Rightarrow> 'st \<Rightarrow> nat" where
  "dead_count dead e st = length (filter (\<lambda>fields. map_of fields ''source_entry_id'' = Some e) (dead st))"

text \<open>Calls of \<open>dead_letter\<close> by any worker, with the entries for which one has reported success.\<close>

inductive dead_run :: "'st redis \<Rightarrow> redis_streams_config \<Rightarrow> 'st \<Rightarrow> string set \<Rightarrow> 'st \<Rightarrow> bool" where
  start: "dead_run rd config st {} st"
| other: "dead_run rd config st done_ids st' \<Longrightarrow> dead_run rd config st done_ids (rd_between rd st')"
| confirmed: "dead_run rd config st done_ids st' \<Longrightarrow>
     dead_letter rd config e payload count reason st' = (Inr (), st'') \<Longrightarrow>
     dead_run rd config st (insert e done_ids) st''"
| failed: "dead_run rd config st done_ids st' \<Longrightarrow>
     dead_letter rd config e payload count reason st' = (Inl err, st'') \<Longrightarrow>
     dead_run rd config st done_ids st''"

definition dead_inv ::
    "'st redis \<Rightarrow> redis_streams_config \<Rightarrow> ('st \<Rightarrow> (string \<times> string) list list) \<Rightarrow> 'st \<Rightarrow> bool" where
  "dead_inv rd config dead st =
     (\<forall>e. dead_count dead e st = (if rd_hexists rd st (dead_letter_index_key config) e then 1 else 0))"

lemma dead_inv_between: "dead_store_ok rd config dead \<Longrightarrow> dead_inv rd config dead (rd_between rd st) = dead_inv rd config dead st"
  by (simp add: dead_inv_def dead_count_def dead_store_ok_def Let_def)

lemma dead_script:
  assumes ok: "dead_store_ok rd config dead" and inv: "dead_inv rd config dead st"
    and st'_def: "st' = snd (dead_letter_script rd config e payload n reason st)"
  shows "dead_inv rd config dead st'"
    and "rd_hexists rd st' (dead_letter_index_key config) = (rd_hexists rd st (dead_letter_index_key config))(e := True)"
proof -
  let ?ix = "dead_letter_index_key config"
  have "dead_inv rd config dead st' \<and> rd_hexists rd st' ?ix = (rd_hexists rd st ?ix)(e := True)"
  proof (cases "rd_hexists rd st ?ix e")
    case True
    then have "dead st' = dead st" "rd_hexists rd st' ?ix = rd_hexists rd st ?ix"
      using ok by (simp_all add: st'_def dead_letter_script_def dead_store_ok_def Let_def)
    with inv True show ?thesis by (auto simp: dead_inv_def dead_count_def fun_upd_idem)
  next
    case False
    then obtain fields where f: "dead st' = dead st @ [fields]" "map_of fields ''source_entry_id'' = Some e"
      "rd_hexists rd st' ?ix = (rd_hexists rd st ?ix)(e := True)"
      using ok by (simp add: st'_def dead_letter_script_def dead_store_ok_def Let_def)
    with inv False show ?thesis by (auto simp: dead_inv_def dead_count_def)
  qed
  then show "dead_inv rd config dead st'"
    and "rd_hexists rd st' ?ix = (rd_hexists rd st ?ix)(e := True)" by auto
qed

lemma redis_call_state:
  "redis_call rd f st = (r, st') \<Longrightarrow> st' = rd_between rd st \<or> st' = snd (f (rd_between rd st))"
  by (auto simp: redis_call_def Let_def split: fate.splits prod.splits)

lemma dead_letter_effect:
  assumes "dead_letter rd config e payload n reason st = (r, st')"
  shows "st' = rd_between rd st \<or> st' = rd_between rd (rd_between rd st)
     \<or> st' = snd (dead_letter_script rd config e payload n (dead_letter_reason_as_str reason) (rd_between rd (rd_between rd st)))"
    and "r = Inr () \<Longrightarrow>
       st' = snd (dead_letter_script rd config e payload n (dead_letter_reason_as_str reason) (rd_between rd (rd_between rd st)))"
proof -
  have conn: "redis_call rd (\<lambda>st. ((), st)) st = (x, s) \<Longrightarrow> s = rd_between rd st" for x s
    using redis_call_state by fastforce
  show "st' = rd_between rd st \<or> st' = rd_between rd (rd_between rd st)
     \<or> st' = snd (dead_letter_script rd config e payload n (dead_letter_reason_as_str reason) (rd_between rd (rd_between rd st)))"
    using assms
    by (auto simp: dead_letter_def qbind_def connection_def execute_def qreturn_def
        dest!: conn redis_call_state split: prod.splits sum.splits)
  show "st' = snd (dead_letter_script rd config e payload n (dead_letter_reason_as_str reason) (rd_between rd (rd_between rd st)))"
    if "r = Inr ()"
    using assms that
    by (auto simp: dead_letter_def qbind_def connection_def execute_def qreturn_def map_err_def
        dest!: conn redis_call_Inr split: prod.splits sum.splits)
qed

lemma dead_run_inv:
  assumes "dead_run rd config st ids st'" and "dead_store_ok rd config dead" and "dead_inv rd config dead st"
  shows "dead_inv rd config dead st' \<and> (\<forall>e \<in> ids. rd_hexists rd st' (dead_letter_index_key config) e)"
  using assms
proof induction
  case (other rd config st ids st')
  then show ?case by (auto simp: dead_inv_between dead_store_ok_def Let_def)
next
  case (confirmed rd config st ids st' e payload count reason st'')
  let ?b = "rd_between rd (rd_between rd st')"
  have st'': "st'' = snd (dead_letter_script rd config e payload count (dead_letter_reason_as_str reason) ?b)"
    by (rule dead_letter_effect(2) [OF confirmed(2) refl])
  have b: "dead_inv rd config dead ?b" "\<forall>e \<in> ids. rd_hexists rd ?b (dead_letter_index_key config) e"
    using confirmed by (auto simp: dead_inv_between dead_store_ok_def Let_def)
  show ?case
    using dead_script [OF confirmed.prems(1) b(1) st''] b(2) by auto
next
  case (failed rd config st ids st' e payload count reason err st'')
  let ?b = "rd_between rd (rd_between rd st')"
  have 1: "dead_inv rd config dead (rd_between rd st')" "\<forall>e \<in> ids. rd_hexists rd (rd_between rd st') (dead_letter_index_key config) e"
    using failed by (auto simp: dead_inv_between dead_store_ok_def Let_def)
  then have 2: "dead_inv rd config dead ?b" "\<forall>e \<in> ids. rd_hexists rd ?b (dead_letter_index_key config) e"
    using failed.prems by (auto simp: dead_inv_between dead_store_ok_def Let_def)
  show ?case
    using dead_letter_effect(1) [OF failed(2)]
  proof (elim disjE)
    assume "st'' = snd (dead_letter_script rd config e payload count (dead_letter_reason_as_str reason) ?b)"
    from dead_script [OF failed.prems(1) 2(1) this] 2(2) show ?thesis by auto
  qed (use 1 2 in simp_all)
qed simp

section \<open>Properties\<close>

text \<open>
  C14: whatever the workers do, two grants of the politeness lease of one domain are at least the
  delay of the earlier grant apart, by the clock of the Redis server; and a worker whose acquisition
  succeeds holds a grant.
\<close>

theorem politeness_grants_are_spaced:
  assumes "redis_lease_ok rd expiry (lease_key config domain)"
    and "lease_run rd (lease_key config domain) st gs st'"
    and "acquire_loop rd config cancelled sleep_for domain delay st' = Some (Inr (), st'')"
  shows "sorted_wrt (\<lambda>g h. fst g + snd g \<le> fst h) gs
    \<and> (\<exists>st. politeness_lease_script rd (lease_key config domain) (as_millis delay) st = (0, st''))"
  using lease_run_held [OF assms(2,1)] acquire_loop_after_grant [OF assms(3)]
  by (simp add: after_grant_def)

text \<open>A server that keeps the time, one expiring key, the dead-letter stream and its index.\<close>

record sample_server =
  srv_millis :: nat
  srv_lease :: "(nat \<times> nat) option"
  srv_dead :: "(string \<times> string) list list"
  srv_index :: "string list"

definition expire :: "sample_server \<Rightarrow> sample_server" where
  "expire st = (case srv_lease st of
     Some (v, e) \<Rightarrow> if e \<le> srv_millis st then st\<lparr>srv_lease := None\<rparr> else st | None \<Rightarrow> st)"

definition sample_redis :: "sample_server redis" where
  "sample_redis =
     \<lparr>rd_between = (\<lambda>st. expire (st\<lparr>srv_millis := srv_millis st + 1\<rparr>)),
      rd_fate = (\<lambda>st. Completes),
      rd_time = (\<lambda>st. (srv_millis st div 1000, srv_millis st mod 1000 * 1000)),
      rd_get = (\<lambda>st key. map_option fst (srv_lease st)),
      rd_set_px = (\<lambda>key v px st. st\<lparr>srv_lease := Some (v, srv_millis st + px)\<rparr>),
      rd_xgroup_create = (\<lambda>_ _ st. (Inr (), st)),
      rd_xadd = (\<lambda>_ fields st. (Some ''1-0'', st\<lparr>srv_dead := srv_dead st @ [fields]\<rparr>)),
      rd_xreadgroup = (\<lambda>_ _ _ _ _ st. ([], st)),
      rd_xautoclaim = (\<lambda>_ _ _ _ _ st. ([], st)),
      rd_xpending = (\<lambda>_ _ _ st. []),
      rd_xack = (\<lambda>_ _ _ st. (1, st)),
      rd_xdel = (\<lambda>_ _ st. (1, st)),
      rd_hexists = (\<lambda>st _ e. list_ex (\<lambda>x. x = e) (srv_index st)),
      rd_hset = (\<lambda>_ e _ st. st\<lparr>srv_index := e # srv_index st\<rparr>),
      rd_groups = (\<lambda>_ st. [])\<rparr>"

definition sample_expiry :: "sample_server \<Rightarrow> nat" where
  "sample_expiry st = (case srv_lease st of Some (v, e) \<Rightarrow> e | None \<Rightarrow> 0)"

definition sample_sleep :: "duration \<Rightarrow> sample_server \<Rightarrow> bool \<times> sample_server" where
  "sample_sleep w st = (False, expire (st\<lparr>srv_millis := srv_millis st + as_millis w\<rparr>))"

definition sample_state :: "nat \<Rightarrow> (nat \<times> nat) option \<Rightarrow> sample_server" where
  "sample_state now lease = \<lparr>srv_millis = now, srv_lease = lease, srv_dead = [], srv_index = []\<rparr>"

lemma sample_now [simp]: "now_millis sample_redis st = srv_millis st"
  by (simp add: now_millis_def sample_redis_def)

lemma expire_sel [simp]:
  "srv_millis (expire st) = srv_millis st" "srv_dead (expire st) = srv_dead st" "srv_index (expire st) = srv_index st"
  by (auto simp: expire_def split: option.splits prod.splits)

lemma sample_lease_ok: "redis_lease_ok sample_redis sample_expiry key"
  unfolding redis_lease_ok_def sample_now
  by (auto simp: sample_redis_def sample_expiry_def expire_def split: option.splits prod.splits if_splits)

lemma sample_uncontended: "uncontended sample_redis key (\<lambda>_. False) sample_sleep"
  unfolding uncontended_def sample_now
  by (auto simp: sample_redis_def sample_sleep_def expire_def split: option.splits prod.splits if_splits)

lemma sample_moves:
  "politeness_lease_script sample_redis key 2 (sample_state 5000 None) = (0, sample_state 5000 (Some (5002, 5002)))"
  "rd_between sample_redis (sample_state 5000 (Some (5002, 5002))) = sample_state 5001 (Some (5002, 5002))"
  "politeness_lease_script sample_redis key 2 (sample_state 5001 (Some (5002, 5002))) = (1, sample_state 5001 (Some (5002, 5002)))"
  "rd_between sample_redis (sample_state 5001 (Some (5002, 5002))) = sample_state 5002 None"
  "politeness_lease_script sample_redis key 2 (sample_state 5002 None) = (0, sample_state 5002 (Some (5004, 5004)))"
  unfolding politeness_lease_script_def sample_now
  by (simp_all add: sample_redis_def sample_state_def expire_def)

lemma sample_run:
  "lease_run sample_redis key (sample_state 5000 None) [(5000, 2), (5002, 2)] (sample_state 5002 (Some (5004, 5004)))"
proof -
  have "lease_run sample_redis key (sample_state 5000 None) [(5000, 2)] (sample_state 5000 (Some (5002, 5002)))"
    using lease_run.granted [OF lease_run.start sample_moves(1)] by (simp add: sample_state_def)
  then have "lease_run sample_redis key (sample_state 5000 None) [(5000, 2)] (sample_state 5001 (Some (5002, 5002)))"
    using lease_run.other sample_moves(2) by metis
  then have "lease_run sample_redis key (sample_state 5000 None) [(5000, 2)] (sample_state 5002 None)"
    using lease_run.other lease_run.refused [OF _ sample_moves(3)] sample_moves(4) by (metis zero_less_one)
  from lease_run.granted [OF this sample_moves(5)] show ?thesis by (simp add: sample_state_def)
qed

theorem politeness_grants_are_spaced_witness:
  "\<exists>st''. acquire_loop sample_redis RedisPolitenessConfig_default (\<lambda>_. False) sample_sleep ''example.com'' (from_millis 2)
       (sample_state 5002 (Some (5004, 5004))) = Some (Inr (), st'')
     \<and> sorted_wrt (\<lambda>g h. fst g + snd g \<le> fst h) [(5000 :: nat, 2), (5002, 2)]
     \<and> (\<exists>st. politeness_lease_script sample_redis (lease_key RedisPolitenessConfig_default ''example.com'') 2 st = (0, st''))"
proof -
  obtain st'' where acq: "acquire_loop sample_redis RedisPolitenessConfig_default (\<lambda>_. False) sample_sleep ''example.com''
      (from_millis 2) (sample_state 5002 (Some (5004, 5004))) = Some (Inr (), st'')"
    using acquire_loop_uncontended [OF sample_uncontended, of "from_millis 2"] by fastforce
  from politeness_grants_are_spaced [OF sample_lease_ok sample_run acq] acq show ?thesis by simp
qed

text \<open>
  C15: acquiring the lease of a non-empty domain, with a delay of at least a millisecond that fits 64
  bits, returns with success when no call fails, nothing is cancelled and nobody else asks for the
  domain, even though the source loops without a bound.
\<close>

theorem uncontended_acquire_returns:
  assumes "uncontended rd (lease_key config (polite_domain request)) cancelled sleep_for"
    and "trim (polite_domain request) \<noteq> []"
    and "0 < as_millis (polite_minimum_delay request)" and "as_millis (polite_minimum_delay request) < 2 ^ 64"
  shows "\<exists>st'. acquire rd config cancelled sleep_for request st = Some (Inr (), st')"
  using acquire_loop_uncontended [OF assms(1,3,4)] assms(2) by (simp add: acquire_def)

theorem uncontended_acquire_returns_witness:
  "\<exists>st'. acquire sample_redis RedisPolitenessConfig_default (\<lambda>_. False) sample_sleep
     \<lparr>polite_domain = ''example.com'', polite_minimum_delay = from_secs 1\<rparr> (sample_state 5000 (Some (5400, 5400)))
     = Some (Inr (), st')"
proof (rule uncontended_acquire_returns [OF sample_uncontended])
  show "trim (polite_domain \<lparr>polite_domain = ''example.com'', polite_minimum_delay = from_secs 1\<rparr>) \<noteq> []"
    by code_simp
qed (simp_all add: from_secs_def as_millis_def)

text \<open>
  C16: however often, by whichever workers and with whatever lost calls an entry is dead-lettered, the
  dead-letter stream holds at most one record of it, and exactly one once a call has reported
  success.
\<close>

theorem dead_letters_at_most_once:
  assumes "dead_store_ok rd config dead" and "dead st = []"
    and "\<And>e. \<not> rd_hexists rd st (dead_letter_index_key config) e"
    and "dead_run rd config st ids st'"
  shows "dead_count dead e st' \<le> 1 \<and> (e \<in> ids \<longrightarrow> dead_count dead e st' = 1)"
proof -
  have "dead_inv rd config dead st"
    using assms(2,3) by (simp add: dead_inv_def dead_count_def)
  from dead_run_inv [OF assms(4,1) this] show ?thesis by (auto simp: dead_inv_def)
qed

lemma sample_dead_ok: "dead_store_ok sample_redis RedisStreamsConfig_default srv_dead"
  by (auto simp: dead_store_ok_def sample_redis_def Let_def fun_eq_iff)

theorem dead_letters_at_most_once_witness:
  "dead_count srv_dead ''7-0'' (snd (dead_letter sample_redis RedisStreamsConfig_default ''7-0'' [] 5 InvalidPayload
     (snd (dead_letter sample_redis RedisStreamsConfig_default ''7-0'' [] 5 InvalidPayload (sample_state 5000 None))))) = 1"
proof -
  let ?dl = "\<lambda>st. dead_letter sample_redis RedisStreamsConfig_default ''7-0'' [] 5 InvalidPayload st"
  let ?s1 = "snd (?dl (sample_state 5000 None))"
  have ok: "?dl st = (Inr (), snd (?dl st))" for st
    by (simp add: dead_letter_def qbind_def qreturn_def connection_def execute_def redis_call_def
        sample_redis_def split: prod.splits)
  have "dead_run sample_redis RedisStreamsConfig_default (sample_state 5000 None) {''7-0'', ''7-0''} (snd (?dl ?s1))"
    using dead_run.confirmed [OF dead_run.confirmed [OF dead_run.start ok] ok] .
  from dead_letters_at_most_once [OF sample_dead_ok _ _ this, of "''7-0''"] show ?thesis
    by (simp add: sample_state_def sample_redis_def)
qed

end
