(* ===== verification/Worker_Model.thy ===== *)
theory Worker_Model
  imports Detector Scheduling
begin

text \<open>
  \<^verbatim>\<open>crates/models/src/worker.rs\<close>: the immutable records of a successful crawl (snapshot, country, DNS
  and TLS observations, raw artifact) and the constructors that validate them.
\<close>

section \<open>Snapshots\<close>

datatype crawl_snapshot_metadata_error = EmptyUrl string | InvalidHttpStatus | SensitiveHeader

record crawl_redirect_metadata =
  redirect_from_url :: string
  redirect_to_url :: string
  redirect_status :: u16

datatype country_observation_error = InvalidCountryCode | InvalidCountrySource | InvalidCountrySourceVersion

record country_observation =
  country_code :: string
  country_source :: string
  country_source_version :: string

record crawl_snapshot_metadata =
  requested_url :: string
  final_url :: string
  snapshot_redirects :: "crawl_redirect_metadata list"
  response_status :: u16
  response_headers :: "(string \<times> string) list"
  body_size_bytes :: u64
  captured_at :: instant
  snapshot_country :: "country_observation option"

definition required_url :: "string \<Rightarrow> string \<Rightarrow> (crawl_snapshot_metadata_error, string) result" where
  "required_url field value = (let value = trim value in if value = [] then Inl (EmptyUrl field) else Inr value)"

definition validate_status :: "u16 \<Rightarrow> (crawl_snapshot_metadata_error, u16) result" where
  "validate_status status = (if 100 \<le> status \<and> status \<le> 599 then Inr status else Inl InvalidHttpStatus)"

definition is_sensitive_snapshot_header :: "string \<Rightarrow> bool" where
  "is_sensitive_snapshot_header name =
     (let name = to_ascii_lowercase (trim name) in
      name \<in> {''authorization'', ''proxy-authorization'', ''cookie'', ''set-cookie'', ''set-cookie2'',
               ''x-api-key'', ''x-auth-token'', ''x-amz-security-token''}
      \<or> contains_str name ''token'' \<or> contains_str name ''secret'' \<or> name = ''api-key'' \<or> ends_with name ''-key'')"

definition CrawlRedirectMetadata_new ::
    "string \<Rightarrow> string \<Rightarrow> u16 \<Rightarrow> (crawl_snapshot_metadata_error, crawl_redirect_metadata) result" where
  "CrawlRedirectMetadata_new from_url to_url status =
     rbind (required_url ''redirect source URL'' from_url) (\<lambda>from_url.
     rbind (required_url ''redirect destination URL'' to_url) (\<lambda>to_url.
     rbind (validate_status status) (\<lambda>_.
     Inr \<lparr>redirect_from_url = from_url, redirect_to_url = to_url, redirect_status = status\<rparr>)))"

definition CrawlSnapshotMetadata_new ::
    "string \<Rightarrow> string \<Rightarrow> crawl_redirect_metadata list \<Rightarrow> u16 \<Rightarrow> (string \<times> string) list \<Rightarrow> u64 \<Rightarrow> instant \<Rightarrow>
     (crawl_snapshot_metadata_error, crawl_snapshot_metadata) result" where
  "CrawlSnapshotMetadata_new requested final redirects status headers body_size captured =
     (if list_ex (\<lambda>(name, _). is_sensitive_snapshot_header name) headers then Inl SensitiveHeader
      else
        rbind (required_url ''requested URL'' requested) (\<lambda>requested.
        rbind (required_url ''final URL'' final) (\<lambda>final.
        rbind (validate_status status) (\<lambda>status.
        Inr \<lparr>requested_url = requested, final_url = final, snapshot_redirects = redirects, response_status = status,
             response_headers = headers, body_size_bytes = body_size, captured_at = captured,
             snapshot_country = None\<rparr>))))"

definition with_country_observation ::
    "country_observation option \<Rightarrow> crawl_snapshot_metadata \<Rightarrow> crawl_snapshot_metadata" where
  "with_country_observation observation snapshot = snapshot\<lparr>snapshot_country := observation\<rparr>"

definition required_country_metadata :: "string \<Rightarrow> string option" where
  "required_country_metadata value =
     (let value = trim value in if value \<noteq> [] \<and> length value \<le> 128 then Some value else None)"

definition CountryObservation_new ::
    "string \<Rightarrow> string \<Rightarrow> string \<Rightarrow> (country_observation_error, country_observation) result" where
  "CountryObservation_new code source version =
     (let code = trim code in
      if length code \<noteq> 2 \<or> \<not> list_all is_ascii_uppercase code then Inl InvalidCountryCode
      else
        rbind (ok_or InvalidCountrySource (required_country_metadata source)) (\<lambda>source.
        rbind (ok_or InvalidCountrySourceVersion (required_country_metadata version)) (\<lambda>version.
        Inr \<lparr>country_code = code, country_source = source, country_source_version = version\<rparr>)))"

section \<open>Optional observations\<close>

datatype observation_unavailable_reason =
    ObsNotCaptured | ObsNotApplicable | ObsTimeout | ObsConnectionFailed | ObsInvalid

fun observation_unavailable_reason_as_str :: "observation_unavailable_reason \<Rightarrow> string" where
  "observation_unavailable_reason_as_str ObsNotCaptured = ''not_captured''"
| "observation_unavailable_reason_as_str ObsNotApplicable = ''not_applicable''"
| "observation_unavailable_reason_as_str ObsTimeout = ''timeout''"
| "observation_unavailable_reason_as_str ObsConnectionFailed = ''connection_failed''"
| "observation_unavailable_reason_as_str ObsInvalid = ''invalid''"

datatype crawl_observation_error = InvalidObservationSource | InvalidObservationValue string

definition required_observation_value ::
    "string \<Rightarrow> string \<Rightarrow> (crawl_observation_error, string option) result" where
  "required_observation_value field value =
     (let value = trim value in
      if value = [] \<or> length value > 512 then Inl (InvalidObservationValue field) else Inr (Some value))"

definition required_observation_source :: "string \<Rightarrow> (crawl_observation_error, string) result" where
  "required_observation_source value =
     rbind (required_observation_value ''observation source'' value) (\<lambda>value. ok_or InvalidObservationSource value)"

text \<open>\<open>transpose\<close> turns an optional result into a result of an option, \<open>flatten\<close> joins the options.\<close>

definition bounded_optional :: "string option \<Rightarrow> (crawl_observation_error, string option) result" where
  "bounded_optional value =
     (case option_filter (\<lambda>value. trim value \<noteq> []) value of
        None \<Rightarrow> Inr None
      | Some value \<Rightarrow> required_observation_value ''TLS observation value'' value)"

record crawl_dns_observation =
  dns_obs_source :: string
  dns_obs_observed_at :: instant
  dns_obs_queried_name :: "string option"
  dns_obs_addresses :: "ip_addr list"
  dns_obs_unavailable_reason :: "observation_unavailable_reason option"

definition CrawlDnsObservation_available ::
    "string \<Rightarrow> instant \<Rightarrow> string \<Rightarrow> ip_addr list \<Rightarrow> (crawl_observation_error, crawl_dns_observation) result" where
  "CrawlDnsObservation_available source observed_at name addrs =
     rbind (required_observation_source source) (\<lambda>source.
     rbind (required_observation_value ''DNS queried name'' name) (\<lambda>name.
     Inr \<lparr>dns_obs_source = source, dns_obs_observed_at = observed_at, dns_obs_queried_name = name,
          dns_obs_addresses = addrs, dns_obs_unavailable_reason = None\<rparr>))"

definition CrawlDnsObservation_unavailable ::
    "string \<Rightarrow> instant \<Rightarrow> observation_unavailable_reason \<Rightarrow> (crawl_observation_error, crawl_dns_observation) result" where
  "CrawlDnsObservation_unavailable source observed_at reason =
     rbind (required_observation_source source) (\<lambda>source.
     Inr \<lparr>dns_obs_source = source, dns_obs_observed_at = observed_at, dns_obs_queried_name = None,
          dns_obs_addresses = [], dns_obs_unavailable_reason = Some reason\<rparr>)"

datatype tls_certificate_validation = TlsVerified | TlsFailed

fun tls_certificate_validation_as_str :: "tls_certificate_validation \<Rightarrow> string" where
  "tls_certificate_validation_as_str TlsVerified = ''verified''"
| "tls_certificate_validation_as_str TlsFailed = ''validation_failed''"

record crawl_tls_observation =
  tls_obs_source :: string
  tls_obs_observed_at :: instant
  tls_obs_unavailable_reason :: "observation_unavailable_reason option"
  tls_obs_validation :: "tls_certificate_validation option"
  tls_obs_protocol :: "string option"
  tls_obs_cipher_suite :: "string option"
  tls_obs_certificate_subject :: "string option"
  tls_obs_certificate_issuer :: "string option"
  tls_obs_subject_alternative_names :: "string list"
  tls_obs_certificate_not_before :: "instant option"
  tls_obs_certificate_not_after :: "instant option"

definition CrawlTlsObservation_available ::
    "string \<Rightarrow> instant \<Rightarrow> tls_certificate_validation \<Rightarrow> string option \<Rightarrow> string option \<Rightarrow> string option \<Rightarrow>
     string option \<Rightarrow> string list \<Rightarrow> instant option \<Rightarrow> instant option \<Rightarrow>
     (crawl_observation_error, crawl_tls_observation) result" where
  "CrawlTlsObservation_available source observed_at validation proto cipher subject issuer names not_before not_after =
     rbind (required_observation_source source) (\<lambda>source.
     rbind (bounded_optional proto) (\<lambda>proto.
     rbind (bounded_optional cipher) (\<lambda>cipher.
     rbind (bounded_optional subject) (\<lambda>subject.
     rbind (bounded_optional issuer) (\<lambda>issuer.
     rbind (collect_results (map (\<lambda>value. bounded_optional (Some value)) names)) (\<lambda>names.
     Inr \<lparr>tls_obs_source = source, tls_obs_observed_at = observed_at, tls_obs_unavailable_reason = None,
          tls_obs_validation = Some validation, tls_obs_protocol = proto, tls_obs_cipher_suite = cipher,
          tls_obs_certificate_subject = subject, tls_obs_certificate_issuer = issuer,
          tls_obs_subject_alternative_names = List.map_filter (\<lambda>name. name) names,
          tls_obs_certificate_not_before = not_before, tls_obs_certificate_not_after = not_after\<rparr>))))))"

definition CrawlTlsObservation_unavailable ::
    "string \<Rightarrow> instant \<Rightarrow> observation_unavailable_reason \<Rightarrow> (crawl_observation_error, crawl_tls_observation) result" where
  "CrawlTlsObservation_unavailable source observed_at reason =
     rbind (required_observation_source source) (\<lambda>source.
     Inr \<lparr>tls_obs_source = source, tls_obs_observed_at = observed_at, tls_obs_unavailable_reason = Some reason,
          tls_obs_validation = None, tls_obs_protocol = None, tls_obs_cipher_suite = None,
          tls_obs_certificate_subject = None, tls_obs_certificate_issuer = None,
          tls_obs_subject_alternative_names = [], tls_obs_certificate_not_before = None,
          tls_obs_certificate_not_after = None\<rparr>)"

section \<open>Raw artifacts\<close>

datatype raw_artifact_kind = ResponseBody

fun raw_artifact_kind_as_str :: "raw_artifact_kind \<Rightarrow> string" where
  "raw_artifact_kind_as_str ResponseBody = ''response_body''"

datatype raw_artifact_compression = Zstd

fun raw_artifact_compression_as_str :: "raw_artifact_compression \<Rightarrow> string" where
  "raw_artifact_compression_as_str Zstd = ''zstd''"

datatype raw_artifact_metadata_error = InvalidStorageLocation | InvalidChecksum | InvalidCompressedSize

record raw_artifact_metadata =
  artifact_kind :: raw_artifact_kind
  storage_location :: string
  checksum_sha256 :: string
  artifact_compression :: raw_artifact_compression
  uncompressed_size_bytes :: u64
  compressed_size_bytes :: u64
  retention_expires_at :: instant

definition RawArtifactMetadata_response_body ::
    "string \<Rightarrow> string \<Rightarrow> raw_artifact_compression \<Rightarrow> u64 \<Rightarrow> u64 \<Rightarrow> instant \<Rightarrow>
     (raw_artifact_metadata_error, raw_artifact_metadata) result" where
  "RawArtifactMetadata_response_body location checksum compression uncompressed compressed expires =
     (let location = trim location in
      if location = [] \<or> starts_with location ''/''
         \<or> list_ex (\<lambda>component. component = ''..'') (split_on (CHR ''/'') location)
      then Inl InvalidStorageLocation
      else
        (let checksum = trim checksum in
         if length checksum \<noteq> 64
            \<or> \<not> list_all (\<lambda>byte. is_ascii_digit byte \<or> (is_ascii_lowercase byte \<and> is_ascii_hexdigit byte)) checksum
         then Inl InvalidChecksum
         else if compressed = 0 \<and> uncompressed \<noteq> 0 then Inl InvalidCompressedSize
         else Inr \<lparr>artifact_kind = ResponseBody, storage_location = location, checksum_sha256 = checksum,
                   artifact_compression = compression, uncompressed_size_bytes = uncompressed,
                   compressed_size_bytes = compressed, retention_expires_at = expires\<rparr>))"

record successful_crawl_record =
  rec_snapshot :: crawl_snapshot_metadata
  rec_artifact :: "raw_artifact_metadata option"
  rec_dns_observation :: crawl_dns_observation
  rec_tls_observation :: crawl_tls_observation
  rec_detections :: "detection list"
  rec_observations :: "rule_observation list"

end
