(* ===== verification/Worker_Store.thy ===== *)
theory Worker_Store
  imports Worker_Model Schedule_Invariants
begin

text \<open>
  \<^verbatim>\<open>crates/database/src/worker_repository.rs\<close>: the active rule catalogue and the success record.  The
  tables of the detection catalogue and of the crawl results are added to those of \<open>Tables\<close>; foreign
  keys hold by construction, since every reference written was read or inserted in the same
  transaction.  \<open>record_success\<close> is one transaction: an error leaves the store as it was.
\<close>

section \<open>Tables\<close>

record category_row =
  cat_id :: uuid
  cat_slug :: string

record technology_row =
  tech_id :: uuid
  tech_category_id :: uuid
  tech_slug :: string

record rule_row =
  rr_id :: uuid
  rr_technology_id :: uuid
  rr_slug :: string
  rr_active_version_id :: "uuid option"

record version_row =
  ver_id :: uuid
  ver_rule_id :: uuid
  ver_version :: int
  ver_definition :: json

record snapshot_row =
  snap_id :: uuid
  snap_attempt_id :: uuid
  snap_domain_id :: uuid
  snap_requested_url :: string
  snap_final_url :: string
  snap_redirect_chain :: json
  snap_response_status :: int
  snap_response_headers :: json
  snap_body_bytes :: int
  snap_captured_at :: instant

record country_row =
  cty_snapshot_id :: uuid
  cty_country_code :: string
  cty_source :: string
  cty_source_version :: string
  cty_observed_at :: instant

record dns_row =
  dnr_snapshot_id :: uuid
  dnr_source :: string
  dnr_observed_at :: instant
  dnr_queried_name :: "string option"
  dnr_addresses :: "json list"
  dnr_unavailable_reason :: "string option"

record tls_row =
  tlr_snapshot_id :: uuid
  tlr_source :: string
  tlr_observed_at :: instant
  tlr_unavailable_reason :: "string option"
  tlr_validation_status :: "string option"
  tlr_protocol :: "string option"
  tlr_cipher_suite :: "string option"
  tlr_certificate_subject :: "string option"
  tlr_certificate_issuer :: "string option"
  tlr_names :: "json list"
  tlr_not_before :: "instant option"
  tlr_not_after :: "instant option"

record artifact_row =
  art_id :: uuid
  art_snapshot_id :: uuid
  art_kind :: string
  art_storage_location :: string
  art_checksum :: string
  art_compression :: string
  art_uncompressed_size :: int
  art_compressed_size :: int
  art_retention_expires_at :: instant
  art_captured_at :: instant

record detection_row =
  dtr_id :: uuid
  dtr_snapshot_id :: uuid
  dtr_technology_id :: uuid
  dtr_version_id :: uuid
  dtr_confidence :: int
  dtr_method :: string
  dtr_observed_at :: instant

record evidence_row =
  evr_detection_id :: uuid
  evr_source :: string
  evr_key :: string
  evr_value :: string

record observation_row =
  obr_snapshot_id :: uuid
  obr_version_id :: uuid
  obr_status :: string
  obr_observed_at :: instant

record current_row =
  cur_domain_id :: uuid
  cur_technology_id :: uuid
  cur_detection_id :: uuid
  cur_first_snapshot_id :: uuid
  cur_last_snapshot_id :: uuid
  cur_first_observed_at :: instant
  cur_last_observed_at :: instant

record change_row =
  chr_id :: uuid
  chr_domain_id :: uuid
  chr_kind :: string
  chr_category_id :: uuid
  chr_prior_snapshot_id :: "uuid option"
  chr_current_snapshot_id :: uuid
  chr_prior_detection_id :: "uuid option"
  chr_current_detection_id :: "uuid option"
  chr_from_technology_id :: "uuid option"
  chr_to_technology_id :: "uuid option"
  chr_observed_at :: instant

record search_row =
  sea_id :: uuid
  sea_domain_id :: uuid
  sea_status :: string
  sea_attempt_count :: int
  sea_next_attempt_at :: instant
  sea_claimed_at :: "instant option"
  sea_last_error :: "string option"
  sea_last_indexed_at :: "instant option"
  sea_created_at :: instant
  sea_updated_at :: instant

record store =
  st_core :: db
  st_categories :: "category_row list"
  st_technologies :: "technology_row list"
  st_rules :: "rule_row list"
  st_versions :: "version_row list"
  st_snapshots :: "snapshot_row list"
  st_countries :: "country_row list"
  st_dns :: "dns_row list"
  st_tls :: "tls_row list"
  st_artifacts :: "artifact_row list"
  st_detections :: "detection_row list"
  st_evidence :: "evidence_row list"
  st_rule_observations :: "observation_row list"
  st_current :: "current_row list"
  st_changes :: "change_row list"
  st_search :: "search_row list"

section \<open>Constraints\<close>

definition present :: "string \<Rightarrow> bool" where
  "present s = (0 < chars_count (btrim s))"

definition snapshot_check :: "db \<Rightarrow> snapshot_row \<Rightarrow> bool" where
  "snapshot_check d s =
     (present (snap_requested_url s) \<and> present (snap_final_url s)
      \<and> 100 \<le> snap_response_status s \<and> snap_response_status s \<le> 599 \<and> 0 \<le> snap_body_bytes s
      \<and> list_ex (\<lambda>a. att_id a = snap_attempt_id s \<and> att_status a = Succeeded) (db_attempts d))"

definition country_check :: "country_row \<Rightarrow> bool" where
  "country_check c =
     (length (cty_country_code c) = 2 \<and> list_all is_ascii_uppercase (cty_country_code c)
      \<and> present (cty_source c) \<and> present (cty_source_version c))"

definition reason_valid :: "string option \<Rightarrow> bool" where
  "reason_valid r =
     (r \<in> {None, Some ''not_captured'', Some ''not_applicable'', Some ''timeout'', Some ''connection_failed'',
            Some ''invalid''})"

definition dns_check :: "dns_row \<Rightarrow> bool" where
  "dns_check r =
     (present (dnr_source r) \<and> reason_valid (dnr_unavailable_reason r)
      \<and> ((dnr_unavailable_reason r = None \<and> dnr_queried_name r \<noteq> None)
         \<or> (dnr_unavailable_reason r \<noteq> None \<and> dnr_queried_name r = None \<and> dnr_addresses r = [])))"

definition tls_check :: "tls_row \<Rightarrow> bool" where
  "tls_check r =
     (present (tlr_source r) \<and> reason_valid (tlr_unavailable_reason r)
      \<and> tlr_validation_status r \<in> {None, Some ''verified'', Some ''validation_failed''}
      \<and> ((tlr_unavailable_reason r = None \<and> tlr_validation_status r \<noteq> None)
         \<or> (tlr_unavailable_reason r \<noteq> None \<and> tlr_validation_status r = None \<and> tlr_protocol r = None
            \<and> tlr_cipher_suite r = None \<and> tlr_certificate_subject r = None \<and> tlr_certificate_issuer r = None
            \<and> tlr_names r = [] \<and> tlr_not_before r = None \<and> tlr_not_after r = None)))"

definition artifact_check :: "artifact_row \<Rightarrow> bool" where
  "artifact_check a =
     (art_kind a = ''response_body'' \<and> present (art_storage_location a)
      \<and> length (art_checksum a) = 64
      \<and> list_all (\<lambda>c. is_ascii_digit c \<or> (97 \<le> byte_val c \<and> byte_val c \<le> 102)) (art_checksum a)
      \<and> art_compression a = ''zstd'' \<and> 0 \<le> art_uncompressed_size a \<and> 0 \<le> art_compressed_size a
      \<and> (art_uncompressed_size a = 0 \<or> 0 < art_compressed_size a)
      \<and> art_captured_at a \<le> art_retention_expires_at a)"

definition detection_check :: "detection_row \<Rightarrow> bool" where
  "detection_check r = (0 \<le> dtr_confidence r \<and> dtr_confidence r \<le> 100 \<and> dtr_method r = ''deterministic_rule'')"

definition evidence_check :: "evidence_row \<Rightarrow> bool" where
  "evidence_check e =
     (evr_source e \<in> {''html'', ''header'', ''script'', ''dns'', ''tls''}
      \<and> 1 \<le> chars_count (btrim (evr_key e)) \<and> chars_count (btrim (evr_key e)) \<le> 128
      \<and> 1 \<le> chars_count (btrim (evr_value e)) \<and> chars_count (btrim (evr_value e)) \<le> 2048)"

definition change_check :: "change_row \<Rightarrow> bool" where
  "change_check c =
     ((chr_kind c = ''added'' \<and> chr_prior_snapshot_id c = None \<and> chr_prior_detection_id c = None
         \<and> chr_from_technology_id c = None \<and> chr_current_detection_id c \<noteq> None \<and> chr_to_technology_id c \<noteq> None)
      \<or> (chr_kind c = ''removed'' \<and> chr_prior_snapshot_id c \<noteq> None \<and> chr_prior_detection_id c \<noteq> None
         \<and> chr_from_technology_id c \<noteq> None \<and> chr_current_detection_id c = None \<and> chr_to_technology_id c = None)
      \<or> (chr_kind c = ''migrated'' \<and> chr_prior_snapshot_id c \<noteq> None \<and> chr_prior_detection_id c \<noteq> None
         \<and> chr_from_technology_id c \<noteq> None \<and> chr_current_detection_id c \<noteq> None \<and> chr_to_technology_id c \<noteq> None))"

definition current_check :: "current_row \<Rightarrow> bool" where
  "current_check c = (cur_first_observed_at c \<le> cur_last_observed_at c)"

definition search_check :: "search_row \<Rightarrow> bool" where
  "search_check r =
     (sea_status r \<in> {''pending'', ''processing'', ''retry'', ''dead''} \<and> 0 \<le> sea_attempt_count r
      \<and> summary_bounded (sea_last_error r))"

section \<open>The catalogue\<close>

definition i16_try_from :: "u16 \<Rightarrow> int option" where
  "i16_try_from w = (if uint w < 2 ^ 15 then Some (uint w) else None)"

definition u64_to_i64 :: "u64 \<Rightarrow> int option" where
  "u64_to_i64 w = (if uint w < 2 ^ 63 then Some (uint w) else None)"

definition wk :: "'a option \<Rightarrow> (crawl_worker_repository_error, 'a) result" where
  "wk r = ok_or WorkerUnavailable r"

definition rule_to_active ::
    "string \<Rightarrow> string \<Rightarrow> rule_row \<Rightarrow> version_row \<Rightarrow> (crawl_worker_repository_error, active_detection_rule) result" where
  "rule_to_active technology category r v =
     rbind (wk (if 0 \<le> ver_version v then Some (word_of_int (ver_version v)) else None)) (\<lambda>version.
     Inr \<lparr>active_technology_slug = technology, active_technology_category_slug = category,
          active_rule_slug = rr_slug r, active_version = version, active_definition = ver_definition v\<rparr>)"

definition active_detection_rules ::
    "env \<Rightarrow> store \<Rightarrow> (crawl_worker_repository_error, active_detection_rule list) result" where
  "active_detection_rules E st =
     collect_results (map (\<lambda>(t, c, r, v). rule_to_active (tech_slug t) (cat_slug c) r v)
       (sort_key (\<lambda>(t, c, r, v). env_collate E (rr_slug r))
         [(t, c, r, v). r \<leftarrow> st_rules st, t \<leftarrow> st_technologies st, tech_id t = rr_technology_id r,
            c \<leftarrow> st_categories st, cat_id c = tech_category_id t,
            v \<leftarrow> st_versions st, rr_active_version_id r = Some (ver_id v)]))"

definition joined_versions :: "store \<Rightarrow> string \<Rightarrow> string \<Rightarrow> string \<Rightarrow> int \<Rightarrow> (technology_row \<times> version_row) list" where
  "joined_versions st technology category rule version =
     [(t, v). t \<leftarrow> st_technologies st, tech_slug t = technology,
        c \<leftarrow> st_categories st, cat_id c = tech_category_id t \<and> cat_slug c = category,
        r \<leftarrow> st_rules st, rr_technology_id r = tech_id t \<and> rr_slug r = rule,
        v \<leftarrow> st_versions st, ver_rule_id v = rr_id r \<and> ver_version v = version]"

text \<open>The row a \<open>RETURNING\<close> clause gives to \<open>fetch_optional\<close>, and the statement that must insert exactly one row.\<close>

definition list_first :: "'a list \<Rightarrow> 'a option" where
  "list_first xs = (case xs of [] \<Rightarrow> None | x # _ \<Rightarrow> Some x)"

definition list_single :: "'a list \<Rightarrow> 'a option" where
  "list_single xs = (case xs of [x] \<Rightarrow> Some x | _ \<Rightarrow> None)"

lemma list_first_Some: "list_first xs = Some x \<longleftrightarrow> (\<exists>ys. xs = x # ys)"
  by (cases xs) (auto simp: list_first_def)

lemma list_single_Some: "list_single xs = Some x \<longleftrightarrow> xs = [x]"
  by (cases xs rule: remdups_adj.cases) (auto simp: list_single_def)

section \<open>Inserting the results of a crawl\<close>

definition fresh_uuid :: "env \<Rightarrow> store \<Rightarrow> uuid \<times> store" where
  "fresh_uuid E st = (case draw_uuid E (st_core st) of (i, d) \<Rightarrow> (i, st\<lparr>st_core := d\<rparr>))"

definition redirect_json :: "crawl_redirect_metadata \<Rightarrow> json" where
  "redirect_json r =
     JObject [(''from_url'', JString (redirect_from_url r)), (''to_url'', JString (redirect_to_url r)),
              (''status'', JInt (uint (redirect_status r)))]"

definition insert_snapshot ::
    "env \<Rightarrow> uuid \<Rightarrow> uuid \<Rightarrow> crawl_snapshot_metadata \<Rightarrow> store \<Rightarrow> (crawl_worker_repository_error, uuid \<times> store) result" where
  "insert_snapshot E attempt_id domain_id s st =
     rbind (wk (u64_to_i64 (body_size_bytes s))) (\<lambda>body_size.
     rbind (wk (i16_try_from (response_status s))) (\<lambda>status.
     (let (i, st) = fresh_uuid E st in
      rbind (wk (sql_insert (snapshot_check (st_core st))
               (\<lambda>a b. snap_id a = snap_id b \<or> snap_attempt_id a = snap_attempt_id b)
               \<lparr>snap_id = i, snap_attempt_id = attempt_id, snap_domain_id = domain_id,
                snap_requested_url = requested_url s, snap_final_url = final_url s,
                snap_redirect_chain = JArray (map redirect_json (snapshot_redirects s)),
                snap_response_status = status,
                snap_response_headers = JObject (map (\<lambda>(n, v). (n, JString v)) (response_headers s)),
                snap_body_bytes = body_size, snap_captured_at = captured_at s\<rparr>
               (st_snapshots st))) (\<lambda>rows.
      Inr (i, st\<lparr>st_snapshots := rows\<rparr>)))))"

definition insert_country ::
    "uuid \<Rightarrow> crawl_snapshot_metadata \<Rightarrow> store \<Rightarrow> (crawl_worker_repository_error, store) result" where
  "insert_country snapshot_id s st =
     (case snapshot_country s of
        None \<Rightarrow> Inr st
      | Some c \<Rightarrow>
          rbind (wk (sql_insert country_check (\<lambda>a b. cty_snapshot_id a = cty_snapshot_id b)
                   \<lparr>cty_snapshot_id = snapshot_id, cty_country_code = country_code c, cty_source = country_source c,
                    cty_source_version = country_source_version c, cty_observed_at = captured_at s\<rparr>
                   (st_countries st))) (\<lambda>rows.
          Inr (st\<lparr>st_countries := rows\<rparr>)))"

definition insert_dns ::
    "uuid \<Rightarrow> crawl_dns_observation \<Rightarrow> store \<Rightarrow> (crawl_worker_repository_error, store) result" where
  "insert_dns snapshot_id ob st =
     rbind (wk (sql_insert dns_check (\<lambda>a b. dnr_snapshot_id a = dnr_snapshot_id b)
              \<lparr>dnr_snapshot_id = snapshot_id, dnr_source = dns_obs_source ob,
               dnr_observed_at = dns_obs_observed_at ob, dnr_queried_name = dns_obs_queried_name ob,
               dnr_addresses = map (\<lambda>a. JString (ip_addr_str a)) (dns_obs_addresses ob),
               dnr_unavailable_reason =
                 map_option observation_unavailable_reason_as_str (dns_obs_unavailable_reason ob)\<rparr>
              (st_dns st))) (\<lambda>rows.
     Inr (st\<lparr>st_dns := rows\<rparr>))"

definition insert_tls ::
    "uuid \<Rightarrow> crawl_tls_observation \<Rightarrow> store \<Rightarrow> (crawl_worker_repository_error, store) result" where
  "insert_tls snapshot_id ob st =
     rbind (wk (sql_insert tls_check (\<lambda>a b. tlr_snapshot_id a = tlr_snapshot_id b)
              \<lparr>tlr_snapshot_id = snapshot_id, tlr_source = tls_obs_source ob, tlr_observed_at = tls_obs_observed_at ob,
               tlr_unavailable_reason =
                 map_option observation_unavailable_reason_as_str (tls_obs_unavailable_reason ob),
               tlr_validation_status = map_option tls_certificate_validation_as_str (tls_obs_validation ob),
               tlr_protocol = tls_obs_protocol ob, tlr_cipher_suite = tls_obs_cipher_suite ob,
               tlr_certificate_subject = tls_obs_certificate_subject ob,
               tlr_certificate_issuer = tls_obs_certificate_issuer ob,
               tlr_names = map JString (tls_obs_subject_alternative_names ob),
               tlr_not_before = tls_obs_certificate_not_before ob,
               tlr_not_after = tls_obs_certificate_not_after ob\<rparr>
              (st_tls st))) (\<lambda>rows.
     Inr (st\<lparr>st_tls := rows\<rparr>))"

definition insert_artifact ::
    "env \<Rightarrow> uuid \<Rightarrow> crawl_snapshot_metadata \<Rightarrow> raw_artifact_metadata option \<Rightarrow> store \<Rightarrow>
     (crawl_worker_repository_error, store) result" where
  "insert_artifact E snapshot_id s artifact st =
     (case artifact of
        None \<Rightarrow> Inr st
      | Some a \<Rightarrow>
          rbind (wk (u64_to_i64 (uncompressed_size_bytes a))) (\<lambda>uncompressed.
          rbind (wk (u64_to_i64 (compressed_size_bytes a))) (\<lambda>compressed.
          (let (i, st) = fresh_uuid E st in
           rbind (wk (sql_insert artifact_check (\<lambda>a b. art_id a = art_id b \<or> art_snapshot_id a = art_snapshot_id b)
                    \<lparr>art_id = i, art_snapshot_id = snapshot_id, art_kind = raw_artifact_kind_as_str (artifact_kind a),
                     art_storage_location = storage_location a, art_checksum = checksum_sha256 a,
                     art_compression = raw_artifact_compression_as_str (artifact_compression a),
                     art_uncompressed_size = uncompressed, art_compressed_size = compressed,
                     art_retention_expires_at = retention_expires_at a, art_captured_at = captured_at s\<rparr>
                    (st_artifacts st))) (\<lambda>rows.
           Inr (st\<lparr>st_artifacts := rows\<rparr>))))))"

definition insert_evidence ::
    "uuid \<Rightarrow> detection_evidence \<Rightarrow> evidence_row list \<Rightarrow> evidence_row list option" where
  "insert_evidence i e rows =
     sql_insert evidence_check (\<lambda>a b. a = b)
       \<lparr>evr_detection_id = i, evr_source = detection_evidence_source_as_str (ev_source e),
        evr_key = ev_key e, evr_value = ev_value e\<rparr> rows"

fun insert_evidences ::
    "uuid \<Rightarrow> detection_evidence list \<Rightarrow> evidence_row list \<Rightarrow> evidence_row list option" where
  "insert_evidences i [] rows = Some rows"
| "insert_evidences i (e # es) rows = Option.bind (insert_evidence i e rows) (insert_evidences i es)"

definition insert_detection_row ::
    "env \<Rightarrow> uuid \<Rightarrow> instant \<Rightarrow> detection \<Rightarrow> technology_row \<times> version_row \<Rightarrow> store \<Rightarrow>
     (crawl_worker_repository_error, uuid \<times> store) result" where
  "insert_detection_row E snapshot_id observed_at d tv st =
     (let (i, st) = fresh_uuid E st in
      rbind (wk (sql_insert detection_check
               (\<lambda>a b. dtr_id a = dtr_id b \<or> (dtr_snapshot_id a = dtr_snapshot_id b
                   \<and> dtr_technology_id a = dtr_technology_id b \<and> dtr_version_id a = dtr_version_id b))
               \<lparr>dtr_id = i, dtr_snapshot_id = snapshot_id, dtr_technology_id = tech_id (fst tv),
                dtr_version_id = ver_id (snd tv), dtr_confidence = uint (confidence_get (det_confidence d)),
                dtr_method = detection_method_as_str (det_method d), dtr_observed_at = observed_at\<rparr>
               (st_detections st))) (\<lambda>rows.
      rbind (wk (insert_evidences i (det_evidence d) (st_evidence st))) (\<lambda>evidence.
      Inr (i, st\<lparr>st_detections := rows, st_evidence := evidence\<rparr>))))"

definition insert_detection ::
    "env \<Rightarrow> uuid \<Rightarrow> instant \<Rightarrow> detection \<Rightarrow> store \<Rightarrow> (crawl_worker_repository_error, uuid \<times> store) result" where
  "insert_detection E snapshot_id observed_at d st =
     rbind (wk (i16_try_from (rule_version_get (det_rule_version d)))) (\<lambda>version.
     rbind (wk (list_first (joined_versions st (technology_slug_as_str (det_technology_slug d))
                  (technology_category_slug_as_str (det_technology_category_slug d))
                  (rule_slug_as_str (det_rule_slug d)) version))) (\<lambda>tv.
     insert_detection_row E snapshot_id observed_at d tv st))"

fun insert_detections ::
    "env \<Rightarrow> uuid \<Rightarrow> instant \<Rightarrow> detection list \<Rightarrow> (string \<rightharpoonup> uuid) \<Rightarrow> store \<Rightarrow>
     (crawl_worker_repository_error, (string \<rightharpoonup> uuid) \<times> store) result" where
  "insert_detections E snapshot_id observed_at [] ids st = Inr (ids, st)"
| "insert_detections E snapshot_id observed_at (d # ds) ids st =
     rbind (insert_detection E snapshot_id observed_at d st) (\<lambda>(i, st).
     insert_detections E snapshot_id observed_at ds (ids(technology_slug_as_str (det_technology_slug d) \<mapsto> i)) st)"

section \<open>The projection\<close>

definition insert_rule_observation ::
    "uuid \<Rightarrow> instant \<Rightarrow> rule_observation \<Rightarrow> store \<Rightarrow> (crawl_worker_repository_error, store) result" where
  "insert_rule_observation snapshot_id observed_at ob st =
     rbind (wk (i16_try_from (rule_version_get (obs_rule_version ob)))) (\<lambda>version.
     rbind (wk (list_single (joined_versions st (technology_slug_as_str (obs_technology_slug ob))
                  (technology_category_slug_as_str (obs_technology_category_slug ob))
                  (rule_slug_as_str (obs_rule_slug ob)) version))) (\<lambda>tv.
     rbind (wk (sql_insert (\<lambda>_. True)
              (\<lambda>a b. obr_snapshot_id a = obr_snapshot_id b \<and> obr_version_id a = obr_version_id b)
              \<lparr>obr_snapshot_id = snapshot_id, obr_version_id = ver_id (snd tv),
               obr_status = rule_observation_status_as_str (obs_status ob), obr_observed_at = observed_at\<rparr>
              (st_rule_observations st))) (\<lambda>rows.
     Inr (st\<lparr>st_rule_observations := rows\<rparr>))))"

fun insert_rule_observations ::
    "uuid \<Rightarrow> instant \<Rightarrow> rule_observation list \<Rightarrow> store \<Rightarrow> (crawl_worker_repository_error, store) result" where
  "insert_rule_observations snapshot_id observed_at [] st = Inr st"
| "insert_rule_observations snapshot_id observed_at (ob # obs) st =
     rbind (insert_rule_observation snapshot_id observed_at ob st) (insert_rule_observations snapshot_id observed_at obs)"

definition joined_current :: "store \<Rightarrow> uuid \<Rightarrow> (current_row \<times> technology_row \<times> category_row) list" where
  "joined_current st domain_id =
     [(cur, t, c). cur \<leftarrow> st_current st, cur_domain_id cur = domain_id,
        t \<leftarrow> st_technologies st, tech_id t = cur_technology_id cur,
        c \<leftarrow> st_categories st, cat_id c = tech_category_id t]"

definition row_to_current ::
    "current_row \<times> technology_row \<times> category_row \<Rightarrow> (crawl_worker_repository_error, current_technology) result" where
  "row_to_current row =
     (case row of (cur, t, c) \<Rightarrow>
        rbind (map_err (\<lambda>_. WorkerUnavailable) (TechnologySlug_parse (tech_slug t))) (\<lambda>technology.
        rbind (map_err (\<lambda>_. WorkerUnavailable) (TechnologyCategorySlug_parse (cat_slug c))) (\<lambda>category.
        Inr \<lparr>ct_technology_slug = technology, ct_technology_category_slug = category\<rparr>)))"

definition persisted_by_slug ::
    "(current_row \<times> technology_row \<times> category_row) list \<Rightarrow> string \<Rightarrow> (current_row \<times> technology_row \<times> category_row) option" where
  "persisted_by_slug rows = map_of (rev (map (\<lambda>(cur, t, c). (tech_slug t, (cur, t, c))) rows))"

definition deactivate_technology :: "uuid \<Rightarrow> current_technology \<Rightarrow> store \<Rightarrow> store" where
  "deactivate_technology domain_id state st =
     st\<lparr>st_current := filter (\<lambda>cur. \<not> (cur_domain_id cur = domain_id
          \<and> list_ex (\<lambda>t. tech_id t = cur_technology_id cur \<and> tech_slug t = slug_of state) (st_technologies st)))
        (st_current st)\<rparr>"

text \<open>INSERT ON CONFLICT DO UPDATE on the current technologies.\<close>

definition upsert_current ::
    "uuid \<Rightarrow> uuid \<Rightarrow> uuid \<Rightarrow> uuid \<Rightarrow> instant \<Rightarrow> current_row list \<Rightarrow> current_row list option" where
  "upsert_current domain_id technology_id detection_id snapshot_id observed_at rows =
     (let same = (\<lambda>cur. cur_domain_id cur = domain_id \<and> cur_technology_id cur = technology_id) in
      if list_ex same rows then
        sql_update current_check (\<lambda>_. False) same
          (\<lambda>cur. cur\<lparr>cur_detection_id := detection_id, cur_last_snapshot_id := snapshot_id,
                    cur_last_observed_at := observed_at\<rparr>) rows
      else
        sql_insert current_check (\<lambda>_ _. False)
          \<lparr>cur_domain_id = domain_id, cur_technology_id = technology_id, cur_detection_id = detection_id,
           cur_first_snapshot_id = snapshot_id, cur_last_snapshot_id = snapshot_id,
           cur_first_observed_at = observed_at, cur_last_observed_at = observed_at\<rparr> rows)"

fun upsert_all ::
    "uuid \<Rightarrow> uuid \<Rightarrow> uuid \<Rightarrow> instant \<Rightarrow> uuid list \<Rightarrow> current_row list \<Rightarrow> current_row list option" where
  "upsert_all domain_id detection_id snapshot_id observed_at [] rows = Some rows"
| "upsert_all domain_id detection_id snapshot_id observed_at (t # ts) rows =
     Option.bind (upsert_current domain_id t detection_id snapshot_id observed_at rows)
       (upsert_all domain_id detection_id snapshot_id observed_at ts)"

definition matching_technologies :: "store \<Rightarrow> string \<Rightarrow> string \<Rightarrow> uuid list" where
  "matching_technologies st technology category =
     [tech_id t. t \<leftarrow> st_technologies st, tech_slug t = technology,
        c \<leftarrow> st_categories st, cat_id c = tech_category_id t \<and> cat_slug c = category]"

definition activate_technology ::
    "uuid \<Rightarrow> uuid \<Rightarrow> instant \<Rightarrow> (string \<rightharpoonup> uuid) \<Rightarrow> current_technology \<Rightarrow> store \<Rightarrow>
     (crawl_worker_repository_error, store) result" where
  "activate_technology domain_id snapshot_id observed_at ids state st =
     rbind (wk (ids (slug_of state))) (\<lambda>detection_id.
     rbind (wk (upsert_all domain_id detection_id snapshot_id observed_at
              (matching_technologies st (slug_of state)
                 (technology_category_slug_as_str (ct_technology_category_slug state))) (st_current st))) (\<lambda>rows.
     Inr (st\<lparr>st_current := rows\<rparr>)))"

fun activate_technologies ::
    "uuid \<Rightarrow> uuid \<Rightarrow> instant \<Rightarrow> (string \<rightharpoonup> uuid) \<Rightarrow> current_technology list \<Rightarrow> store \<Rightarrow>
     (crawl_worker_repository_error, store) result" where
  "activate_technologies domain_id snapshot_id observed_at ids [] st = Inr st"
| "activate_technologies domain_id snapshot_id observed_at ids (s # ss) st =
     rbind (activate_technology domain_id snapshot_id observed_at ids s st)
       (activate_technologies domain_id snapshot_id observed_at ids ss)"

definition category_id_for :: "store \<Rightarrow> string \<Rightarrow> (crawl_worker_repository_error, uuid) result" where
  "category_id_for st slug = wk (map_option cat_id (find (\<lambda>c. cat_slug c = slug) (st_categories st)))"

definition technology_id_for :: "store \<Rightarrow> string \<Rightarrow> uuid option" where
  "technology_id_for st slug = map_option tech_id (find (\<lambda>t. tech_slug t = slug) (st_technologies st))"

definition insert_change ::
    "env \<Rightarrow> uuid \<Rightarrow> uuid \<Rightarrow> instant \<Rightarrow> (string \<rightharpoonup> uuid) \<Rightarrow>
     (string \<Rightarrow> (current_row \<times> technology_row \<times> category_row) option) \<Rightarrow> technology_change \<Rightarrow> store \<Rightarrow>
     (crawl_worker_repository_error, store) result" where
  "insert_change E domain_id snapshot_id observed_at ids persisted ch st =
     (let from = Option.bind (change_from ch) (\<lambda>s. persisted (slug_of s)); to = change_to ch in
      rbind (case (from, to) of
               (Some (cur, t, c), _) \<Rightarrow> Inr (cat_id c)
             | (None, Some current) \<Rightarrow>
                 category_id_for st (technology_category_slug_as_str (ct_technology_category_slug current))
             | (None, None) \<Rightarrow> Inl WorkerUnavailable) (\<lambda>category_id.
      (let (i, st) = fresh_uuid E st in
       rbind (wk (sql_insert change_check (\<lambda>a b. chr_id a = chr_id b)
                \<lparr>chr_id = i, chr_domain_id = domain_id, chr_kind = technology_change_kind_as_str (change_kind ch),
                 chr_category_id = category_id,
                 chr_prior_snapshot_id = map_option (\<lambda>(cur, t, c). cur_last_snapshot_id cur) from,
                 chr_current_snapshot_id = snapshot_id,
                 chr_prior_detection_id = map_option (\<lambda>(cur, t, c). cur_detection_id cur) from,
                 chr_current_detection_id = Option.bind to (\<lambda>s. ids (slug_of s)),
                 chr_from_technology_id = map_option (\<lambda>(cur, t, c). cur_technology_id cur) from,
                 chr_to_technology_id = Option.bind to (\<lambda>s. technology_id_for st (slug_of s)),
                 chr_observed_at = observed_at\<rparr>
                (st_changes st))) (\<lambda>rows.
       Inr (st\<lparr>st_changes := rows\<rparr>)))))"

fun insert_changes ::
    "env \<Rightarrow> uuid \<Rightarrow> uuid \<Rightarrow> instant \<Rightarrow> (string \<rightharpoonup> uuid) \<Rightarrow>
     (string \<Rightarrow> (current_row \<times> technology_row \<times> category_row) option) \<Rightarrow> technology_change list \<Rightarrow> store \<Rightarrow>
     (crawl_worker_repository_error, store) result" where
  "insert_changes E domain_id snapshot_id observed_at ids persisted [] st = Inr st"
| "insert_changes E domain_id snapshot_id observed_at ids persisted (ch # chs) st =
     rbind (insert_change E domain_id snapshot_id observed_at ids persisted ch st)
       (insert_changes E domain_id snapshot_id observed_at ids persisted chs)"

definition apply_projection ::
    "env \<Rightarrow> uuid \<Rightarrow> uuid \<Rightarrow> instant \<Rightarrow> rule_observation list \<Rightarrow> (string \<rightharpoonup> uuid) \<Rightarrow> store \<Rightarrow>
     (crawl_worker_repository_error, store) result" where
  "apply_projection E domain_id snapshot_id observed_at observations ids st =
     rbind (insert_rule_observations snapshot_id observed_at observations st) (\<lambda>st.
     (let rows = joined_current st domain_id in
      rbind (collect_results (map row_to_current rows)) (\<lambda>previous.
      (let transition = derive_projection previous observations;
           st = fold (deactivate_technology domain_id) (deactivate transition) st in
       rbind (activate_technologies domain_id snapshot_id observed_at ids (activate transition) st) (\<lambda>st.
       insert_changes E domain_id snapshot_id observed_at ids (persisted_by_slug rows) (changes transition) st)))))"

section \<open>The success record\<close>

definition find_job_attempt :: "db \<Rightarrow> crawl_job_v1 \<Rightarrow> attempt_row option" where
  "find_job_attempt d job =
     find (\<lambda>a. job_matches job a \<and> list_ex (\<lambda>p. pol_domain_id p = att_domain_id a) (db_policies d)) (db_attempts d)"

definition upsert_search ::
    "env \<Rightarrow> uuid \<Rightarrow> instant \<Rightarrow> store \<Rightarrow> (crawl_worker_repository_error, store) result" where
  "upsert_search E domain_id now st =
     (let (i, st) = fresh_uuid E st in
      rbind (wk (if list_ex (\<lambda>r. sea_domain_id r = domain_id) (st_search st) then
                   sql_update search_check (\<lambda>_. False) (\<lambda>r. sea_domain_id r = domain_id)
                     (\<lambda>r. r\<lparr>sea_status := ''pending'', sea_attempt_count := 0, sea_next_attempt_at := now,
                            sea_claimed_at := None, sea_last_error := None, sea_updated_at := now\<rparr>) (st_search st)
                 else
                   sql_insert search_check (\<lambda>a b. sea_id a = sea_id b)
                     \<lparr>sea_id = i, sea_domain_id = domain_id, sea_status = ''pending'', sea_attempt_count = 0,
                      sea_next_attempt_at = now, sea_claimed_at = None, sea_last_error = None,
                      sea_last_indexed_at = None, sea_created_at = now, sea_updated_at = now\<rparr> (st_search st)))
        (\<lambda>rows. Inr (st\<lparr>st_search := rows\<rparr>)))"

definition core_step ::
    "store \<Rightarrow> (scheduler_repository_error, db) result \<Rightarrow> (crawl_worker_repository_error, store) result" where
  "core_step st r = rbind (map_err worker_error_from r) (\<lambda>d. Inr (st\<lparr>st_core := d\<rparr>))"

definition record_success ::
    "env \<Rightarrow> store \<Rightarrow> crawl_job_v1 \<Rightarrow> successful_crawl_record \<Rightarrow> (crawl_worker_repository_error, store) result" where
  "record_success E st job rec =
     rbind (ok_or WorkerNotFound (find_job_attempt (st_core st) job)) (\<lambda>a.
     if terminal_status (att_status a) then Inr st
     else
       (let snapshot = rec_snapshot rec; now = captured_at snapshot in
        rbind (core_step st (set_attempt (st_core st) (att_id a) (succeed_attempt now))) (\<lambda>st.
        rbind (insert_snapshot E (att_id a) (att_domain_id a) snapshot st) (\<lambda>(snapshot_id, st).
        rbind (insert_country snapshot_id snapshot st) (\<lambda>st.
        rbind (insert_dns snapshot_id (rec_dns_observation rec) st) (\<lambda>st.
        rbind (insert_tls snapshot_id (rec_tls_observation rec) st) (\<lambda>st.
        rbind (insert_artifact E snapshot_id snapshot (rec_artifact rec) st) (\<lambda>st.
        rbind (insert_detections E snapshot_id now (rec_detections rec) Map.empty st) (\<lambda>(ids, st).
        rbind (apply_projection E (att_domain_id a) snapshot_id now (rec_observations rec) ids st) (\<lambda>st.
        rbind (upsert_search E (att_domain_id a) now st) (\<lambda>st.
        core_step st (set_policy (st_core st) (att_domain_id a) (succeed_policy now)))))))))))))"

end
