(* ===== verification/Worker_Properties.thy ===== *)
theory Worker_Properties
  imports Worker_Store
begin

text \<open>
  What the success record of a crawl does to the store: the tables before the projection only grow,
  the projection moves the current technologies of the domain to the set its observations demand, and
  the scheduling state takes the step of a recorded success.
\<close>

section \<open>Frames\<close>

definition same_catalogue :: "store \<Rightarrow> store \<Rightarrow> bool" where
  "same_catalogue st st' =
     (st_categories st' = st_categories st \<and> st_technologies st' = st_technologies st
      \<and> st_rules st' = st_rules st \<and> st_versions st' = st_versions st)"

definition only_drawn :: "db \<Rightarrow> db \<Rightarrow> bool" where
  "only_drawn d d' = (d' = d\<lparr>db_drawn := db_drawn d'\<rparr>)"

definition grows :: "store \<Rightarrow> store \<Rightarrow> bool" where
  "grows st st' =
     (same_catalogue st st' \<and> only_drawn (st_core st) (st_core st') \<and> st_current st' = st_current st)"

lemma only_drawn_refl [simp]: "only_drawn d d"
  by (simp add: only_drawn_def)

lemma only_drawn_trans [trans]: "only_drawn a b \<Longrightarrow> only_drawn b c \<Longrightarrow> only_drawn a c"
  unfolding only_drawn_def by (metis db.surjective db.update_convs(7))

lemma same_catalogue_refl [simp]: "same_catalogue st st"
  by (simp add: same_catalogue_def)

lemma same_catalogue_trans [trans]: "same_catalogue a b \<Longrightarrow> same_catalogue b c \<Longrightarrow> same_catalogue a c"
  by (simp add: same_catalogue_def)

lemma grows_refl [simp]: "grows st st"
  by (simp add: grows_def)

lemma grows_trans [trans]: "grows a b \<Longrightarrow> grows b c \<Longrightarrow> grows a c"
  unfolding grows_def by (metis only_drawn_trans same_catalogue_trans)

lemma fresh_uuid_grows: "fresh_uuid E st = (i, st') \<Longrightarrow> grows st st'"
  by (auto simp: fresh_uuid_def draw_uuid_def grows_def same_catalogue_def only_drawn_def)

lemma insert_snapshot_grows: "insert_snapshot E a d s st = Inr (i, st') \<Longrightarrow> grows st st'"
  by (auto simp: insert_snapshot_def fresh_uuid_def draw_uuid_def grows_def same_catalogue_def only_drawn_def)

lemma insert_country_grows: "insert_country i s st = Inr st' \<Longrightarrow> grows st st'"
  by (auto simp: insert_country_def grows_def same_catalogue_def split: option.splits)

lemma insert_dns_grows: "insert_dns i ob st = Inr st' \<Longrightarrow> grows st st'"
  by (auto simp: insert_dns_def grows_def same_catalogue_def)

lemma insert_tls_grows: "insert_tls i ob st = Inr st' \<Longrightarrow> grows st st'"
  by (auto simp: insert_tls_def grows_def same_catalogue_def)

lemma insert_artifact_grows: "insert_artifact E i s a st = Inr st' \<Longrightarrow> grows st st'"
  by (auto simp: insert_artifact_def fresh_uuid_def draw_uuid_def grows_def same_catalogue_def only_drawn_def
      split: option.splits)

lemma insert_detection_grows: "insert_detection E i t d st = Inr (j, st') \<Longrightarrow> grows st st'"
  by (auto simp: insert_detection_def insert_detection_row_def fresh_uuid_def draw_uuid_def grows_def
      same_catalogue_def only_drawn_def)

lemma insert_detections_grows: "insert_detections E i t ds ids st = Inr (ids', st') \<Longrightarrow> grows st st'"
proof (induction ds arbitrary: ids st)
  case (Cons d ds)
  then show ?case by (auto dest!: insert_detection_grows intro: grows_trans)
qed simp

lemma insert_rule_observation_Inr:
  assumes "insert_rule_observation i t ob st = Inr st'"
  shows "\<exists>version tv rows. joined_versions st (technology_slug_as_str (obs_technology_slug ob))
             (technology_category_slug_as_str (obs_technology_category_slug ob))
             (rule_slug_as_str (obs_rule_slug ob)) version = [tv] \<and> st' = st\<lparr>st_rule_observations := rows\<rparr>"
  using assms by (auto simp: insert_rule_observation_def wk_def list_single_Some)

lemma insert_rule_observation_grows: "insert_rule_observation i t ob st = Inr st' \<Longrightarrow> grows st st'"
  by (auto simp: grows_def same_catalogue_def dest: insert_rule_observation_Inr)

lemma insert_rule_observations_grows: "insert_rule_observations i t obs st = Inr st' \<Longrightarrow> grows st st'"
proof (induction obs arbitrary: st)
  case (Cons ob obs)
  then show ?case by (auto dest!: insert_rule_observation_grows intro: grows_trans)
qed simp

lemma insert_change_grows: "insert_change E d i t ids p ch st = Inr st' \<Longrightarrow> grows st st'"
  by (auto simp: insert_change_def fresh_uuid_def draw_uuid_def grows_def same_catalogue_def only_drawn_def Let_def)

lemma insert_changes_grows: "insert_changes E d i t ids p chs st = Inr st' \<Longrightarrow> grows st st'"
proof (induction chs arbitrary: st)
  case (Cons ch chs)
  then show ?case by (auto dest!: insert_change_grows intro: grows_trans)
qed simp

lemma upsert_search_grows: "upsert_search E d t st = Inr st' \<Longrightarrow> grows st st'"
  by (auto simp: upsert_search_def fresh_uuid_def draw_uuid_def grows_def same_catalogue_def only_drawn_def)

lemmas insert_grows =
  insert_snapshot_grows insert_country_grows insert_dns_grows insert_tls_grows insert_artifact_grows
  insert_detections_grows insert_rule_observations_grows insert_changes_grows upsert_search_grows

section \<open>Current technologies\<close>

definition current_slugs :: "store \<Rightarrow> uuid \<Rightarrow> string set" where
  "current_slugs st domain_id =
     {tech_slug t |cur t. cur \<in> set (st_current st) \<and> cur_domain_id cur = domain_id
        \<and> t \<in> set (st_technologies st) \<and> tech_id t = cur_technology_id cur}"

text \<open>
  What the keys, the foreign key and the slug CHECK of the catalogue tables give (of the slug pattern only
  its alphabet is needed; the schema does not bound the length of a slug).
\<close>

definition slug_column :: "string \<Rightarrow> bool" where
  "slug_column s = (s \<noteq> [] \<and> list_all (\<lambda>c. is_ascii_lowercase c \<or> is_ascii_digit c \<or> c = CHR ''-'') s)"

definition catalogue_ok :: "store \<Rightarrow> bool" where
  "catalogue_ok st =
     (distinct (map tech_id (st_technologies st)) \<and> distinct (map tech_slug (st_technologies st))
      \<and> (\<forall>t \<in> set (st_technologies st). slug_column (tech_slug t)
           \<and> (\<exists>c \<in> set (st_categories st). cat_id c = tech_category_id t)))"

lemma slug_column_trim:
  assumes "slug_column s"
  shows "trim s = s"
proof (rule trim_ascii)
  from assms have "hd s \<in> set s" "last s \<in> set s" by (auto simp: slug_column_def)
  moreover have "\<forall>c \<in> set s. byte_val c < 0x80 \<and> \<not> ws1 c"
    using assms slug_char_ascii by (auto simp: slug_column_def list_all_iff)
  ultimately show "byte_val (hd s) < 0x80" "\<not> ws1 (hd s)" "byte_val (last s) < 0x80" "\<not> ws1 (last s)" by auto
qed (use assms in \<open>auto simp: slug_column_def\<close>)

lemma catalogue_ok_same: "same_catalogue st st' \<Longrightarrow> catalogue_ok st' = catalogue_ok st"
  by (simp add: same_catalogue_def catalogue_ok_def)

lemma current_slugs_same:
  "same_catalogue st st' \<Longrightarrow> st_current st' = st_current st \<Longrightarrow> current_slugs st' = current_slugs st"
  by (simp add: same_catalogue_def current_slugs_def fun_eq_iff)

lemma tech_unique:
  "catalogue_ok st \<Longrightarrow> t \<in> set (st_technologies st) \<Longrightarrow> u \<in> set (st_technologies st) \<Longrightarrow>
     tech_id t = tech_id u \<or> tech_slug t = tech_slug u \<Longrightarrow> t = u"
  unfolding catalogue_ok_def by (auto dest: inj_onD [OF distinct_map [THEN iffD1, THEN conjunct2]])

lemma previous_slugs:
  assumes "catalogue_ok st" and "collect_results (map row_to_current (joined_current st d)) = Inr previous"
  shows "slug_of ` set previous = current_slugs st d"
proof -
  let ?rows = "joined_current st d"
  have conv: "map row_to_current ?rows = map Inr previous" using assms(2) by (simp add: collect_results_Inr)
  have one: "row_to_current (cur, t, c) = Inr s \<Longrightarrow> slug_of s = tech_slug t" if "t \<in> set (st_technologies st)" for cur t c s
    using that assms(1) by (auto simp: row_to_current_def slug_of_def catalogue_ok_def TechnologySlug_parse_def
        valid_slug_iff slug_column_trim)
  have same: "map slug_of previous = map (\<lambda>(cur, t, c). tech_slug t) ?rows"
  proof (rule nth_equalityI)
    show len: "length (map slug_of previous) = length (map (\<lambda>(cur, t, c). tech_slug t) ?rows)"
      using arg_cong [OF conv, of length] by simp
    fix k assume "k < length (map slug_of previous)"
    then have k: "k < length previous" "k < length ?rows" using len by simp_all
    obtain cur t c where row: "?rows ! k = (cur, t, c)" by (cases "?rows ! k")
    have "row_to_current (cur, t, c) = Inr (previous ! k)"
      using arg_cong [OF conv, of "\<lambda>xs. xs ! k"] k row by simp
    moreover have "t \<in> set (st_technologies st)"
      using nth_mem [OF k(2)] row by (auto simp: joined_current_def)
    ultimately show "map slug_of previous ! k = map (\<lambda>(cur, t, c). tech_slug t) ?rows ! k"
      using one k row by simp
  qed
  have "slug_of ` set previous = (\<lambda>(cur, t, c). tech_slug t) ` set ?rows"
    using arg_cong [OF same, of set] by simp
  also have "\<dots> = current_slugs st d"
    using assms(1) by (fastforce simp: joined_current_def current_slugs_def catalogue_ok_def image_iff)
  finally show ?thesis .
qed

text \<open>The primary keys of the table determine the slugs.\<close>

definition current_keys :: "current_row list \<Rightarrow> (uuid \<times> uuid) set" where
  "current_keys rows = (\<lambda>cur. (cur_domain_id cur, cur_technology_id cur)) ` set rows"

lemma current_slugs_keys:
  "current_slugs st e = tech_slug ` {t \<in> set (st_technologies st). (e, tech_id t) \<in> current_keys (st_current st)}"
  by (force simp: current_slugs_def current_keys_def)

lemma current_keys_map:
  "(\<And>r. cur_domain_id (f r) = cur_domain_id r \<and> cur_technology_id (f r) = cur_technology_id r) \<Longrightarrow>
     current_keys (map f rows) = current_keys rows"
  by (simp add: current_keys_def image_image)

lemma upsert_current_keys:
  assumes "upsert_current d t i s now rows = Some rows'"
  shows "current_keys rows' = insert (d, t) (current_keys rows)"
proof (cases "list_ex (\<lambda>cur. cur_domain_id cur = d \<and> cur_technology_id cur = t) rows")
  case True
  then have "(d, t) \<in> current_keys rows" by (auto simp: list_ex_iff current_keys_def)
  moreover have "current_keys rows' = current_keys rows"
    using assms True by (auto simp: upsert_current_def Let_def sql_update_Some intro!: current_keys_map)
  ultimately show ?thesis by auto
next
  case False
  with assms show ?thesis by (auto simp: upsert_current_def Let_def sql_insert_Some current_keys_def)
qed

lemma upsert_all_keys:
  "upsert_all d i s now ts rows = Some rows' \<Longrightarrow> current_keys rows' = current_keys rows \<union> Pair d ` set ts"
proof (induction ts arbitrary: rows)
  case (Cons t ts)
  from Cons.prems obtain mid where "upsert_current d t i s now rows = Some mid"
    and "upsert_all d i s now ts mid = Some rows'" by (auto simp: Option.bind_eq_Some_conv)
  then show ?case using Cons.IH upsert_current_keys by auto
qed simp

lemma deactivate_technology_catalogue [simp]: "same_catalogue st (deactivate_technology d s st)"
  "st_core (deactivate_technology d s st) = st_core st"
  by (simp_all add: deactivate_technology_def same_catalogue_def)

lemma deactivate_technology_slugs:
  assumes "catalogue_ok st"
  shows "current_slugs (deactivate_technology d s st) e = current_slugs st e - (if e = d then {slug_of s} else {})"
proof -
  have "(e, tech_id t) \<in> current_keys (st_current (deactivate_technology d s st)) \<longleftrightarrow>
      (e, tech_id t) \<in> current_keys (st_current st) \<and> \<not> (e = d \<and> tech_slug t = slug_of s)"
    if t: "t \<in> set (st_technologies st)" for t
  proof -
    have "list_ex (\<lambda>u. tech_id u = tech_id t \<and> tech_slug u = slug_of s) (st_technologies st)
        = (tech_slug t = slug_of s)"
      using t tech_unique [OF assms] by (auto simp: list_ex_iff)
    then show ?thesis by (auto simp: current_keys_def deactivate_technology_def)
  qed
  then show ?thesis unfolding current_slugs_keys by (auto simp: deactivate_technology_def)
qed

lemma deactivate_all:
  assumes "catalogue_ok st"
  shows "same_catalogue st (fold (deactivate_technology d) ss st) \<and> st_core (fold (deactivate_technology d) ss st) = st_core st
     \<and> current_slugs (fold (deactivate_technology d) ss st) e
       = current_slugs st e - (if e = d then slug_of ` set ss else {})"
  using assms
proof (induction ss arbitrary: st)
  case (Cons s ss)
  let ?st = "deactivate_technology d s st"
  have ok: "catalogue_ok ?st" using Cons.prems catalogue_ok_same [of st ?st] by simp
  have "same_catalogue st (fold (deactivate_technology d) ss ?st)"
    using Cons.IH [OF ok] same_catalogue_trans by (metis deactivate_technology_catalogue(1))
  then show ?case using Cons.IH [OF ok] deactivate_technology_slugs [OF Cons.prems, of d s e] by auto
qed simp

definition has_technology :: "store \<Rightarrow> current_technology \<Rightarrow> bool" where
  "has_technology st s =
     (matching_technologies st (slug_of s) (technology_category_slug_as_str (ct_technology_category_slug s)) \<noteq> [])"

lemma has_technology_same: "same_catalogue st st' \<Longrightarrow> has_technology st' s = has_technology st s"
  by (simp add: same_catalogue_def has_technology_def matching_technologies_def)

lemma activate_technology_slugs:
  assumes "activate_technology d i now ids s st = Inr st'" and "catalogue_ok st" and "has_technology st s"
  shows "same_catalogue st st' \<and> st_core st' = st_core st
    \<and> current_slugs st' e = current_slugs st e \<union> (if e = d then {slug_of s} else {})"
proof -
  let ?ts = "matching_technologies st (slug_of s) (technology_category_slug_as_str (ct_technology_category_slug s))"
  from assms(1) obtain det rows where up: "upsert_all d det i now ?ts (st_current st) = Some rows"
    and st': "st' = st\<lparr>st_current := rows\<rparr>"
    by (auto simp: activate_technology_def wk_def)
  have ts: "set ?ts = {tech_id t |t. t \<in> set (st_technologies st) \<and> tech_slug t = slug_of s
      \<and> (\<exists>c \<in> set (st_categories st). cat_id c = tech_category_id t
            \<and> cat_slug c = technology_category_slug_as_str (ct_technology_category_slug s))}"
    by (auto simp: matching_technologies_def)
  have "\<exists>t. t \<in> set (st_technologies st) \<and> tech_slug t = slug_of s \<and> tech_id t \<in> set ?ts"
    using assms(3) unfolding has_technology_def ts by (auto simp: set_empty [symmetric] ts simp del: set_empty)
  then obtain u where u: "u \<in> set (st_technologies st)" "tech_slug u = slug_of s" "tech_id u \<in> set ?ts" by blast
  have ids: "tech_id t \<in> set ?ts \<longleftrightarrow> t = u" if t: "t \<in> set (st_technologies st)" for t
  proof
    assume "tech_id t \<in> set ?ts"
    then obtain w where "w \<in> set (st_technologies st)" "tech_slug w = slug_of s" "tech_id t = tech_id w"
      unfolding ts by blast
    with tech_unique [OF assms(2) t, of w] tech_unique [OF assms(2) t u(1)] u(2) show "t = u" by simp
  qed (simp add: u)
  have "{t \<in> set (st_technologies st'). (e, tech_id t) \<in> current_keys (st_current st')}
      = {t \<in> set (st_technologies st). (e, tech_id t) \<in> current_keys (st_current st)} \<union> (if e = d then {u} else {})"
    using ids u(1) by (auto simp: st' upsert_all_keys [OF up])
  from arg_cong [OF this, of "image tech_slug"]
  have "current_slugs st' e = current_slugs st e \<union> (if e = d then {slug_of s} else {})"
    unfolding current_slugs_keys image_Un using u(2) by simp
  then show ?thesis by (simp add: st' same_catalogue_def)
qed

lemma activate_technologies_slugs:
  assumes "activate_technologies d i now ids ss st = Inr st'" and "catalogue_ok st"
    and "\<forall>s \<in> set ss. has_technology st s"
  shows "same_catalogue st st' \<and> st_core st' = st_core st
    \<and> current_slugs st' e = current_slugs st e \<union> (if e = d then slug_of ` set ss else {})"
  using assms
proof (induction ss arbitrary: st)
  case (Cons s ss)
  from Cons.prems(1) obtain mid where one: "activate_technology d i now ids s st = Inr mid"
    and rest: "activate_technologies d i now ids ss mid = Inr st'" by auto
  have a: "same_catalogue st mid" "st_core mid = st_core st"
    "current_slugs mid e = current_slugs st e \<union> (if e = d then {slug_of s} else {})"
    using activate_technology_slugs [OF one Cons.prems(2)] Cons.prems(3) by auto
  have "same_catalogue mid st' \<and> st_core st' = st_core mid
      \<and> current_slugs st' e = current_slugs mid e \<union> (if e = d then slug_of ` set ss else {})"
    using Cons.IH [OF rest] Cons.prems a(1) by (simp add: catalogue_ok_same has_technology_same)
  then show ?case using a same_catalogue_trans by auto
qed simp

lemma insert_rule_observations_technology:
  assumes "insert_rule_observations i t obs st = Inr st'" and "ob \<in> set obs"
  shows "has_technology st (observed_state ob)"
  using assms
proof (induction obs arbitrary: st)
  case (Cons x obs)
  from Cons.prems(1) obtain mid where x: "insert_rule_observation i t x st = Inr mid"
    and rest: "insert_rule_observations i t obs mid = Inr st'" by auto
  have same: "same_catalogue st mid" using insert_rule_observation_grows [OF x] by (simp add: grows_def)
  show ?case
  proof (cases "ob = x")
    case True
    obtain version t v where "joined_versions st (technology_slug_as_str (obs_technology_slug x))
             (technology_category_slug_as_str (obs_technology_category_slug x))
             (rule_slug_as_str (obs_rule_slug x)) version = [(t, v)]"
      using insert_rule_observation_Inr [OF x] by auto
    then have "(t, v) \<in> set (joined_versions st (technology_slug_as_str (obs_technology_slug x))
             (technology_category_slug_as_str (obs_technology_category_slug x))
             (rule_slug_as_str (obs_rule_slug x)) version)" by simp
    then have "tech_id t \<in> set (matching_technologies st (slug_of (observed_state ob))
        (technology_category_slug_as_str (ct_technology_category_slug (observed_state ob))))"
      by (auto simp: True joined_versions_def matching_technologies_def slug_of_def observed_state_def)
    then show ?thesis by (auto simp: has_technology_def)
  next
    case False
    then show ?thesis using Cons.IH [OF rest] Cons.prems(2) has_technology_same [OF same] by simp
  qed
qed simp

lemma transition_slugs:
  "slug_of ` set (activate (derive_projection previous obs)) = slugs_with Detected obs"
  "slug_of ` set (deactivate (derive_projection previous obs)) = slugs_with ConfirmedAbsent obs \<inter> slug_of ` set previous"
  using observe_all_slugs(3,4) [of previous obs] by (simp_all add: derive_projection_def Let_def dedup_key_keys)

lemma activate_observed:
  "s \<in> set (activate (derive_projection previous obs)) \<Longrightarrow> \<exists>ob \<in> set obs. s = observed_state ob"
  by (auto simp: derive_projection_def Let_def observe_all_lists dest!: set_dedup_key_subset [THEN subsetD])

lemma apply_projection_slugs:
  assumes run: "apply_projection E d i now obs ids st = Inr st'" and ok: "catalogue_ok st"
  shows "same_catalogue st st' \<and> only_drawn (st_core st) (st_core st')
    \<and> current_slugs st' e = (if e = d then next_slugs (current_slugs st d) obs else current_slugs st e)"
proof -
  from run obtain st1 previous st3 where
    r1: "insert_rule_observations i now obs st = Inr st1"
    and r2: "collect_results (map row_to_current (joined_current st1 d)) = Inr previous"
    and r3: "activate_technologies d i now ids (activate (derive_projection previous obs))
      (fold (deactivate_technology d) (deactivate (derive_projection previous obs)) st1) = Inr st3"
    and r4: "insert_changes E d i now ids (persisted_by_slug (joined_current st1 d))
      (changes (derive_projection previous obs)) st3 = Inr st'"
    by (auto simp: apply_projection_def Let_def)
  let ?tr = "derive_projection previous obs"
  let ?st2 = "fold (deactivate_technology d) (deactivate ?tr) st1"
  note g1 = insert_rule_observations_grows [OF r1, unfolded grows_def]
  have ok1: "catalogue_ok st1" using g1 ok catalogue_ok_same by blast
  note d2 = deactivate_all [OF ok1, of d "deactivate ?tr"]
  have ok2: "catalogue_ok ?st2" using d2 ok1 catalogue_ok_same by blast
  have "has_technology ?st2 s" if "s \<in> set (activate ?tr)" for s
    using activate_observed [OF that] insert_rule_observations_technology [OF r1]
      has_technology_same g1 d2 by metis
  then have a3: "same_catalogue ?st2 st3 \<and> st_core st3 = st_core ?st2
    \<and> current_slugs st3 e = current_slugs ?st2 e \<union> (if e = d then slug_of ` set (activate ?tr) else {})" for e
    using activate_technologies_slugs [OF r3 ok2] by blast
  note g4 = insert_changes_grows [OF r4, unfolded grows_def]
  have slugs: "current_slugs st1 = current_slugs st" "current_slugs st' = current_slugs st3"
    using g1 g4 current_slugs_same by blast+
  have prev: "slug_of ` set previous = current_slugs st d" using previous_slugs [OF ok1 r2] slugs by simp
  have "current_slugs st' e = (if e = d then next_slugs (current_slugs st d) obs else current_slugs st e)"
    using a3 [of e] d2 [of e] by (auto simp: slugs transition_slugs prev next_slugs_def)
  moreover have "same_catalogue st st'"
    using g1 d2 a3 g4 same_catalogue_trans by metis
  moreover have "only_drawn (st_core st) (st_core st')"
    using g1 d2 a3 g4 only_drawn_trans by metis
  ultimately show ?thesis by blast
qed

section \<open>The success record\<close>

lemma record_success_Inr:
  assumes "record_success E st job rec = Inr st'" and "find_job_attempt (st_core st) job = Some a"
    and "active_status (att_status a)"
  obtains d1 i ids st1 st2 st3 d' where
    "set_attempt (st_core st) (att_id a) (succeed_attempt (captured_at (rec_snapshot rec))) = Inr d1"
    "grows (st\<lparr>st_core := d1\<rparr>) st1"
    "apply_projection E (att_domain_id a) i (captured_at (rec_snapshot rec)) (rec_observations rec) ids st1 = Inr st2"
    "grows st2 st3"
    "set_policy (st_core st3) (att_domain_id a) (succeed_policy (captured_at (rec_snapshot rec))) = Inr d'"
    "st' = st3\<lparr>st_core := d'\<rparr>"
proof -
  let ?s = "rec_snapshot rec"
  from assms obtain d1 i ids sa sb sc sd se st1 st2 st3 d' where
    r: "set_attempt (st_core st) (att_id a) (succeed_attempt (captured_at ?s)) = Inr d1"
    and g: "insert_snapshot E (att_id a) (att_domain_id a) ?s (st\<lparr>st_core := d1\<rparr>) = Inr (i, sa)"
      "insert_country i ?s sa = Inr sb" "insert_dns i (rec_dns_observation rec) sb = Inr sc"
      "insert_tls i (rec_tls_observation rec) sc = Inr sd" "insert_artifact E i ?s (rec_artifact rec) sd = Inr se"
      "insert_detections E i (captured_at ?s) (rec_detections rec) Map.empty se = Inr (ids, st1)"
    and ap: "apply_projection E (att_domain_id a) i (captured_at ?s) (rec_observations rec) ids st1 = Inr st2"
    and us: "upsert_search E (att_domain_id a) (captured_at ?s) st2 = Inr st3"
    and sp: "set_policy (st_core st3) (att_domain_id a) (succeed_policy (captured_at ?s)) = Inr d'"
    and st': "st' = st3\<lparr>st_core := d'\<rparr>"
    by (auto simp: record_success_def core_step_def Let_def)
  have "grows (st\<lparr>st_core := d1\<rparr>) st1"
    using insert_snapshot_grows [OF g(1)] insert_country_grows [OF g(2)] insert_dns_grows [OF g(3)]
      insert_tls_grows [OF g(4)] insert_artifact_grows [OF g(5)] insert_detections_grows [OF g(6)]
    by (blast intro: grows_trans)
  from that [OF r this ap upsert_search_grows [OF us] sp st'] show ?thesis .
qed

lemma activate_technologies_core:
  "activate_technologies d i now ids ss st = Inr st' \<Longrightarrow> st_core st' = st_core st"
  by (induction ss arbitrary: st) (auto simp: activate_technology_def)

lemma deactivate_all_core: "st_core (fold (deactivate_technology d) ss st) = st_core st"
  by (induction ss arbitrary: st) (auto simp: deactivate_technology_def)

lemma apply_projection_core:
  assumes "apply_projection E d i now obs ids st = Inr st'"
  shows "only_drawn (st_core st) (st_core st')"
proof -
  from assms obtain st1 previous st3 where
    "insert_rule_observations i now obs st = Inr st1"
    and act: "activate_technologies d i now ids (activate (derive_projection previous obs))
      (fold (deactivate_technology d) (deactivate (derive_projection previous obs)) st1) = Inr st3"
    and "insert_changes E d i now ids (persisted_by_slug (joined_current st1 d))
      (changes (derive_projection previous obs)) st3 = Inr st'"
    by (auto simp: apply_projection_def Let_def)
  then have "only_drawn (st_core st) (st_core st1)" "only_drawn (st_core st3) (st_core st')"
    using insert_rule_observations_grows insert_changes_grows unfolding grows_def by blast+
  moreover have "st_core st3 = st_core st1"
    using activate_technologies_core [OF act] by (simp add: deactivate_all_core)
  ultimately show ?thesis using only_drawn_trans by metis
qed

lemma record_success_same_core:
  assumes "record_success E st job rec = Inr st'" and "find_job_attempt (st_core st) job = Some a"
    and "active_status (att_status a)"
  shows "\<exists>d1 n d'. set_attempt (st_core st) (att_id a) (succeed_attempt (captured_at (rec_snapshot rec))) = Inr d1
     \<and> set_policy d1 (att_domain_id a) (succeed_policy (captured_at (rec_snapshot rec))) = Inr d'
     \<and> st_core st' = d'\<lparr>db_drawn := n\<rparr>"
proof -
  let ?now = "captured_at (rec_snapshot rec)"
  obtain d1 i ids st1 st2 st3 d' where
    r: "set_attempt (st_core st) (att_id a) (succeed_attempt ?now) = Inr d1"
    and g: "grows (st\<lparr>st_core := d1\<rparr>) st1" "grows st2 st3"
    and ap: "apply_projection E (att_domain_id a) i ?now (rec_observations rec) ids st1 = Inr st2"
    and sp: "set_policy (st_core st3) (att_domain_id a) (succeed_policy ?now) = Inr d'"
    and st': "st' = st3\<lparr>st_core := d'\<rparr>"
    by (rule record_success_Inr [OF assms])
  note mid = apply_projection_core [OF ap]
  have "only_drawn d1 (st_core st1)" "only_drawn (st_core st1) (st_core st2)" "only_drawn (st_core st2) (st_core st3)"
    using g mid by (simp_all add: grows_def)
  then have "only_drawn d1 (st_core st3)" by (blast intro: only_drawn_trans)
  then have "st_core st3 = d1\<lparr>db_drawn := db_drawn (st_core st3)\<rparr>" by (simp add: only_drawn_def)
  then obtain n where n: "st_core st3 = d1\<lparr>db_drawn := n\<rparr>" by blast
  show ?thesis
    using r sp unfolding n st' by (intro exI [of _ d1] exI [of _ n] exI [of _ "d'\<lparr>db_drawn := db_drawn d1\<rparr>"])
      (auto simp: set_policy_Inr)
qed

lemma find_map:
  "(\<And>x. P (f x) = P x) \<Longrightarrow> find P (map f xs) = map_option f (find P xs)"
  by (induction xs) auto

lemma finished_job_attempt:
  assumes "find_job_attempt d job = Some a" and "set_attempt d (att_id a) (succeed_attempt now) = Inr d1"
    and "set_policy d1 (att_domain_id a) (succeed_policy now) = Inr d'"
  shows "find_job_attempt (d'\<lparr>db_drawn := n\<rparr>) job = Some (succeed_attempt now a)"
proof -
  let ?f = "\<lambda>x. if att_id x = att_id a then succeed_attempt now x else x"
  let ?g = "\<lambda>p. if pol_domain_id p = att_domain_id a then succeed_policy now p else p"
  have d': "db_attempts d' = map ?f (db_attempts d)" "db_policies d' = map ?g (db_policies d)"
    using assms(2,3) by (auto simp: set_attempt_Inr set_policy_Inr)
  have pol: "list_ex (\<lambda>p. pol_domain_id p = e) (db_policies d') = list_ex (\<lambda>p. pol_domain_id p = e) (db_policies d)" for e
  proof -
    have "map pol_domain_id (db_policies d') = map pol_domain_id (db_policies d)" by (simp add: d' succeed_policy_def)
    from arg_cong [OF this, of "\<lambda>xs. e \<in> set xs"] show ?thesis by (auto simp: list_ex_iff)
  qed
  have "find_job_attempt (d'\<lparr>db_drawn := n\<rparr>) job = map_option ?f (find_job_attempt d job)"
    unfolding find_job_attempt_def db.select_convs db.update_convs
    by (simp add: pol d'(1) find_map job_matches_def succeed_attempt_def)
  then show ?thesis using assms(1) by simp
qed

section \<open>A sample crawl\<close>

text \<open>A queued job of one domain succeeds: nginx is detected, php is confirmed absent.\<close>

definition sample_attempt :: attempt_row where
  "sample_attempt = \<lparr>att_id = 3, att_domain_id = 0, att_job_id = 1, att_correlation_id = 2,
     att_idempotency_key = ''crawl:u1'', att_number = 1, att_status = Queued, att_queued_at = 5, att_started_at = None,
     att_finished_at = None, att_failure_code = None, att_failure_summary = None, att_created_at = 5\<rparr>"

definition sample_policy :: policy_row where
  "sample_policy = \<lparr>pol_domain_id = 0, pol_is_enabled = True, pol_priority = ''high'', pol_desired_interval = 1000,
     pol_last_crawl_at = None, pol_last_successful_crawl_at = None, pol_next_crawl_at = Some 1005,
     pol_consecutive_failure_count = 0, pol_last_failure_at = None, pol_terminal_failure_at = None,
     pol_created_at = 0, pol_updated_at = 5\<rparr>"

definition sample_outbox :: outbox_row where
  "sample_outbox = \<lparr>obx_attempt_id = 3, obx_domain_id = 0, obx_job_id = 1, obx_correlation_id = 2,
     obx_idempotency_key = ''crawl:u1'', obx_available_at = 5, obx_next_publish_at = 5, obx_publish_attempt_count = 0,
     obx_published_at = None, obx_terminal_failure_at = None, obx_last_error_summary = None, obx_created_at = 5,
     obx_updated_at = 5\<rparr>"

definition sample_core :: db where
  "sample_core = empty_db\<lparr>db_policies := [sample_policy], db_attempts := [sample_attempt],
     db_outbox := [sample_outbox], db_drawn := 4\<rparr>"

definition sample_crawl_job :: crawl_job_v1 where
  "sample_crawl_job = \<lparr>job_id = CrawlJobId 1, job_domain_id = DomainId 0, job_correlation_id = CorrelationId 2,
     job_idempotency_key = IdempotencyKey ''crawl:u1''\<rparr>"

definition sample_store :: store where
  "sample_store = \<lparr>st_core = sample_core, st_categories = [\<lparr>cat_id = 1, cat_slug = ''web''\<rparr>],
     st_technologies = [\<lparr>tech_id = 2, tech_category_id = 1, tech_slug = ''nginx''\<rparr>,
                        \<lparr>tech_id = 3, tech_category_id = 1, tech_slug = ''php''\<rparr>],
     st_rules = [\<lparr>rr_id = 4, rr_technology_id = 2, rr_slug = ''nginx-server'', rr_active_version_id = Some 6\<rparr>,
                 \<lparr>rr_id = 5, rr_technology_id = 3, rr_slug = ''php-server'', rr_active_version_id = Some 7\<rparr>],
     st_versions = [\<lparr>ver_id = 6, ver_rule_id = 4, ver_version = 1, ver_definition = JNull\<rparr>,
                    \<lparr>ver_id = 7, ver_rule_id = 5, ver_version = 1, ver_definition = JNull\<rparr>],
     st_snapshots = [], st_countries = [], st_dns = [], st_tls = [], st_artifacts = [], st_detections = [],
     st_evidence = [], st_rule_observations = [],
     st_current = [\<lparr>cur_domain_id = 0, cur_technology_id = 3, cur_detection_id = 8,
                    cur_first_snapshot_id = 9, cur_last_snapshot_id = 9, cur_first_observed_at = 0,
                    cur_last_observed_at = 0\<rparr>],
     st_changes = [], st_search = []\<rparr>"

definition sample_observation :: "string \<Rightarrow> rule_observation_status \<Rightarrow> rule_observation" where
  "sample_observation s status = \<lparr>obs_technology_slug = TechnologySlug s,
     obs_technology_category_slug = TechnologyCategorySlug ''web'', obs_rule_slug = RuleSlug (s @ ''-server''),
     obs_rule_version = RuleVersion 1, obs_status = status\<rparr>"

definition sample_record :: successful_crawl_record where
  "sample_record = \<lparr>
     rec_snapshot = \<lparr>requested_url = ''https://c.com/'', final_url = ''https://c.com/'', snapshot_redirects = [],
       response_status = 200, response_headers = [(''server'', ''nginx'')], body_size_bytes = 4, captured_at = 9,
       snapshot_country = None\<rparr>,
     rec_artifact = None,
     rec_dns_observation = \<lparr>dns_obs_source = ''crawler'', dns_obs_observed_at = 9, dns_obs_queried_name = None,
       dns_obs_addresses = [], dns_obs_unavailable_reason = Some ObsNotCaptured\<rparr>,
     rec_tls_observation = \<lparr>tls_obs_source = ''crawler'', tls_obs_observed_at = 9,
       tls_obs_unavailable_reason = Some ObsNotCaptured, tls_obs_validation = None, tls_obs_protocol = None,
       tls_obs_cipher_suite = None, tls_obs_certificate_subject = None, tls_obs_certificate_issuer = None,
       tls_obs_subject_alternative_names = [], tls_obs_certificate_not_before = None,
       tls_obs_certificate_not_after = None\<rparr>,
     rec_detections = [\<lparr>det_technology_slug = TechnologySlug ''nginx'',
       det_technology_category_slug = TechnologyCategorySlug ''web'', det_rule_slug = RuleSlug ''nginx-server'',
       det_rule_version = RuleVersion 1, det_confidence = DetectionConfidence 90, det_method = DeterministicRule,
       det_evidence = [\<lparr>ev_source = EvHeader, ev_key = ''server'', ev_value = ''nginx''\<rparr>]\<rparr>],
     rec_observations = [sample_observation ''nginx'' Detected, sample_observation ''php'' ConfirmedAbsent]\<rparr>"

lemma sample_success: "is_ok (record_success sample_env sample_store sample_crawl_job sample_record)"
  by code_simp

lemma sample_find: "find_job_attempt (st_core sample_store) sample_crawl_job = Some sample_attempt"
  by code_simp

lemma sample_active: "active_status (att_status sample_attempt)"
  by code_simp

lemma sample_catalogue: "catalogue_ok sample_store"
proof -
  have "slug_column ''nginx''" "slug_column ''php''" by code_simp+
  then show ?thesis by (simp add: catalogue_ok_def sample_store_def)
qed

lemma sample_current: "current_slugs sample_store (att_domain_id sample_attempt) = {''php''}"
  by (auto simp: current_slugs_keys current_keys_def sample_store_def sample_attempt_def image_iff
      conj_disj_distribR ex_disj_distrib)

section \<open>Properties\<close>

text \<open>
  C17: recording a successful crawl moves the current technologies of its domain to exactly the set
  its observations demand (detected ones in, confirmed absences out, the rest untouched), and leaves
  every other domain's technologies as they were.
\<close>

theorem success_projects_observations:
  assumes "record_success E st job rec = Inr st'" and "find_job_attempt (st_core st) job = Some a"
    and "active_status (att_status a)" and "catalogue_ok st"
  shows "current_slugs st' e =
    (if e = att_domain_id a then next_slugs (current_slugs st e) (rec_observations rec) else current_slugs st e)"
proof -
  obtain d1 i ids st1 st2 st3 d' where
    g: "grows (st\<lparr>st_core := d1\<rparr>) st1" "grows st2 st3"
    and ap: "apply_projection E (att_domain_id a) i (captured_at (rec_snapshot rec)) (rec_observations rec) ids st1 = Inr st2"
    and st': "st' = st3\<lparr>st_core := d'\<rparr>"
    by (rule record_success_Inr [OF assms(1-3)])
  have "catalogue_ok st1" using g(1) assms(4) by (auto simp: grows_def same_catalogue_def catalogue_ok_def)
  note ap' = apply_projection_slugs [OF ap this]
  have "current_slugs st1 = current_slugs st" "current_slugs st' = current_slugs st2"
    using g by (auto simp: grows_def same_catalogue_def current_slugs_def fun_eq_iff st')
  then show ?thesis using ap' [of e] by simp
qed

theorem success_projects_observations_witness:
  "\<exists>st'. record_success sample_env sample_store sample_crawl_job sample_record = Inr st'
     \<and> current_slugs sample_store (att_domain_id sample_attempt) = {''php''}
     \<and> current_slugs st' (att_domain_id sample_attempt) = {''nginx''}"
proof -
  obtain st' where run: "record_success sample_env sample_store sample_crawl_job sample_record = Inr st'"
    using sample_success by (auto simp: is_ok_iff)
  have "next_slugs {''php''} (rec_observations sample_record) = {''nginx''}"
    by (simp add: next_slugs_def slugs_with_def sample_record_def sample_observation_def slug_of_def observed_state_def)
  then show ?thesis
    using success_projects_observations [OF run sample_find sample_active sample_catalogue, of "att_domain_id sample_attempt"]
      run by (simp add: sample_current)
qed

text \<open>
  C18: a success is recorded at most once: delivering the job again, with whatever record, changes
  nothing; and recording it keeps the scheduling invariant.
\<close>

theorem success_recorded_once:
  assumes run: "record_success E st job rec = Inr st'" and inv: "sched_inv (st_core st)"
  shows "record_success E' st' job rec' = Inr st' \<and> sched_inv (st_core st')"
proof -
  obtain a where a: "find_job_attempt (st_core st) job = Some a"
    using run by (auto simp: record_success_def)
  show ?thesis
  proof (cases "active_status (att_status a)")
    case True
    obtain d1 n d' where step: "set_attempt (st_core st) (att_id a) (succeed_attempt (captured_at (rec_snapshot rec))) = Inr d1"
      "set_policy d1 (att_domain_id a) (succeed_policy (captured_at (rec_snapshot rec))) = Inr d'"
      and core: "st_core st' = d'\<lparr>db_drawn := n\<rparr>"
      using record_success_same_core [OF run a True] by blast
    have "a \<in> set (db_attempts (st_core st))" using a by (auto simp: find_job_attempt_def find_Some_iff)
    then have "sched_inv d'" using record_success_ok [OF inv _ True step] by blast
    moreover have "record_success E' st' job rec' = Inr st'"
      using finished_job_attempt [OF a step, of n]
      by (simp add: record_success_def core succeed_attempt_def active_status_def)
    ultimately show ?thesis by (simp add: core sched_inv_def attempts_ok_def policies_ok_def)
  next
    case False
    with run a have "st' = st" by (simp add: record_success_def)
    with False a inv show ?thesis by (simp add: record_success_def)
  qed
qed

theorem success_recorded_once_witness:
  "\<exists>st'. record_success sample_env sample_store sample_crawl_job sample_record = Inr st'
     \<and> record_success sample_env st' sample_crawl_job sample_record = Inr st' \<and> sched_inv (st_core st')"
proof -
  obtain st' where run: "record_success sample_env sample_store sample_crawl_job sample_record = Inr st'"
    using sample_success by (auto simp: is_ok_iff)
  have "attempt_check sample_attempt" "outbox_check sample_outbox" "policy_check sample_policy"
    "att_ident sample_attempt = obx_ident sample_outbox" by code_simp+
  then have "sched_inv (st_core sample_store)"
    by (simp add: sample_store_def sample_core_def sched_inv_def attempts_ok_def policies_ok_def active_at_def
        sample_policy_def)
  from success_recorded_once [OF run this] run show ?thesis by blast
qed

end
