(* ===== verification/Artifact_Store.thy ===== *)
theory Artifact_Store
  imports Worker_Model Crawler_Fetch
begin

text \<open>
  \<^verbatim>\<open>crates/storage/src/lib.rs\<close>: the content-addressed store of raw artifacts, and the part of
  \<^verbatim>\<open>crates/crawler/src/lib.rs\<close> that decides which response bodies are stored and redacts them.  The file
  system is the record \<open>disk\<close> of the calls the code makes, on a state of any type; zstd and SHA-256
  are functions; the compiled regular expressions are the record \<open>html_regexes\<close>.
\<close>

section \<open>Redacted HTML\<close>

text \<open>
  A search splits its input into unmatched text and matches; a match has its text and its named groups.
\<close>

datatype segment = Unmatched string | Matched string "string \<rightharpoonup> string"

record html_regexes =
  tag_segments :: "string \<Rightarrow> segment list"
  attribute_captures :: "string \<Rightarrow> (string \<rightharpoonup> string) list"
  value_segments :: "string \<Rightarrow> (string \<Rightarrow> segment list) option"

definition replace_all :: "(string \<Rightarrow> (string \<rightharpoonup> string) \<Rightarrow> string) \<Rightarrow> segment list \<Rightarrow> string" where
  "replace_all f segments =
     concat (map (\<lambda>s. case s of Unmatched t \<Rightarrow> t | Matched t groups \<Rightarrow> f t groups) segments)"

definition unwrap_or :: "'a \<Rightarrow> 'a option \<Rightarrow> 'a" where
  "unwrap_or x r = (case r of None \<Rightarrow> x | Some y \<Rightarrow> y)"

definition SENSITIVE_NEEDLES :: "string list" where
  "SENSITIVE_NEEDLES = [''password'', ''passphrase'', ''token'', ''secret'', ''api-key'', ''apikey'', ''credential'',
     ''auth'', ''cookie'', ''session'', ''private-key'', ''email'', ''phone'', ''telephone'', ''address'',
     ''social-security'', ''ssn'', ''birth'']"

definition sensitive_attribute :: "(string \<rightharpoonup> string) \<Rightarrow> bool" where
  "sensitive_attribute captures =
     (let name = to_ascii_lowercase (unwrap_or [] (captures ''name'')) in
      if name \<notin> {''name'', ''id'', ''autocomplete'', ''property'', ''http-equiv''} then False
      else
        (let value = to_ascii_lowercase (unwrap_or []
               (case captures ''double'' of
                  Some v \<Rightarrow> Some v
                | None \<Rightarrow> (case captures ''single'' of Some v \<Rightarrow> Some v | None \<Rightarrow> captures ''bare''))) in
         list_ex (\<lambda>needle. contains_str value needle) SENSITIVE_NEEDLES))"

definition tag_has_sensitive_identifier :: "html_regexes \<Rightarrow> string \<Rightarrow> bool" where
  "tag_has_sensitive_identifier R tag = list_ex sensitive_attribute (attribute_captures R tag)"

definition redact_tag_attribute :: "html_regexes \<Rightarrow> string \<Rightarrow> string \<Rightarrow> string" where
  "redact_tag_attribute R tag attribute =
     (case value_segments R attribute of
        None \<Rightarrow> tag
      | Some expression \<Rightarrow>
          replace_all (\<lambda>_ captures. unwrap_or [] (captures ''prefix'') @ [CHR 0x22] @ ''[redacted]'' @ [CHR 0x22])
            (expression tag))"

definition redact_html_persistence_values :: "html_regexes \<Rightarrow> string \<Rightarrow> string" where
  "redact_html_persistence_values R html =
     replace_all (\<lambda>original captures.
         (let tag = to_ascii_lowercase (unwrap_or [] (captures ''tag'')) in
          if tag_has_sensitive_identifier R original then
            if tag = ''input'' then redact_tag_attribute R original ''value''
            else redact_tag_attribute R original ''content''
          else original))
       (tag_segments R html)"

definition sanitized_html_for_storage :: "html_regexes \<Rightarrow> crawl_response \<Rightarrow> string option" where
  "sanitized_html_for_storage R response =
     Option.bind (map_of (crawl_headers response) ''content-type'') (\<lambda>content_type.
     (let media_type = trim (hd (split_on (CHR '';'') content_type)) in
      if \<not> eq_ignore_ascii_case media_type ''text/html'' \<and> \<not> eq_ignore_ascii_case media_type ''application/xhtml+xml''
      then None
      else if \<not> utf8_ok (crawl_body response) then None
      else Some (redact_html_persistence_values R (crawl_body response))))"

section \<open>The disk\<close>

datatype io_error = IoNotFound | IoOther string

datatype raw_artifact_store_error =
    StoreInvalidRoot | StoreInvalidLocation | StoreNotFound | StoreCompression | StoreIntegrity
  | StoreUnsupportedCompression | StoreSize | StoreUnavailable | StoreIo io_error

text \<open>
  \<open>dk_write_new\<close> opens a file that must not exist, writes and syncs it; \<open>dk_uuid\<close> draws the text of a
  random UUID.  Each call may see a state other processes have changed.
\<close>

record 'd disk =
  dk_exists :: "string \<Rightarrow> 'd \<Rightarrow> bool"
  dk_read :: "string \<Rightarrow> 'd \<Rightarrow> (io_error, string) result"
  dk_create_dir_all :: "string \<Rightarrow> 'd \<Rightarrow> (io_error, unit) result \<times> 'd"
  dk_write_new :: "string \<Rightarrow> string \<Rightarrow> 'd \<Rightarrow> (io_error, unit) result \<times> 'd"
  dk_rename :: "string \<Rightarrow> string \<Rightarrow> 'd \<Rightarrow> (io_error, unit) result \<times> 'd"
  dk_remove :: "string \<Rightarrow> 'd \<Rightarrow> 'd"
  dk_uuid :: "'d \<Rightarrow> string \<times> 'd"

record codecs =
  zstd_encode :: "string \<Rightarrow> string option"
  zstd_decode :: "string \<Rightarrow> string option"
  sha256_digest :: "string \<Rightarrow> string"

section \<open>Paths and checksums\<close>

definition path_join :: "string \<Rightarrow> string \<Rightarrow> string" where
  "path_join root location = (if root = [] \<or> ends_with root ''/'' then root @ location else root @ ''/'' @ location)"

definition path_parent :: "string \<Rightarrow> string option" where
  "path_parent path =
     (case dropWhile (\<lambda>c. c \<noteq> CHR ''/'') (rev path) of
        [] \<Rightarrow> (if path = [] then None else Some [])
      | _ # p \<Rightarrow> Some (rev p))"

definition hex_byte :: "char \<Rightarrow> string" where
  "hex_byte c = [hex_digit (byte_val c div 16), hex_digit (byte_val c mod 16)]"

definition checksum :: "codecs \<Rightarrow> string \<Rightarrow> string" where
  "checksum C contents = concat (map hex_byte (sha256_digest C contents))"

definition location_for :: "string \<Rightarrow> string" where
  "location_for hex = ''sha256/'' @ take 2 hex @ ''/'' @ hex @ ''.zst''"

definition u64_of_len :: "string \<Rightarrow> u64 option" where
  "u64_of_len s = (if length s < 2 ^ 64 then Some (of_nat (length s)) else None)"

fun map_read_error :: "io_error \<Rightarrow> raw_artifact_store_error" where
  "map_read_error IoNotFound = StoreNotFound"
| "map_read_error (IoOther m) = StoreIo (IoOther m)"

definition LocalRawArtifactStore_new :: "string \<Rightarrow> (raw_artifact_store_error, string) result" where
  "LocalRawArtifactStore_new root = (if root = [] then Inl StoreInvalidRoot else Inr root)"

section \<open>Storing and retrieving\<close>

definition write_temporary ::
    "'d disk \<Rightarrow> string \<Rightarrow> string \<Rightarrow> string \<Rightarrow> 'd \<Rightarrow> (io_error, unit) result \<times> 'd" where
  "write_temporary D temporary path contents d =
     (case dk_write_new D temporary contents d of
        (Inl e, d) \<Rightarrow> (Inl e, d)
      | (Inr _, d) \<Rightarrow> dk_rename D temporary path d)"

definition write_atomically ::
    "'d disk \<Rightarrow> string \<Rightarrow> string \<Rightarrow> 'd \<Rightarrow> (raw_artifact_store_error, unit) result \<times> 'd" where
  "write_atomically D path contents d =
     (if dk_exists D path d then (Inr (), d)
      else case path_parent path of
             None \<Rightarrow> (Inl StoreInvalidLocation, d)
           | Some parent \<Rightarrow>
               (case dk_create_dir_all D parent d of
                  (Inl e, d) \<Rightarrow> (Inl (StoreIo e), d)
                | (Inr _, d) \<Rightarrow>
                    (case dk_uuid D d of (uuid, d) \<Rightarrow>
                       (let temporary = path_join parent (''.artifact-'' @ uuid @ ''.tmp'') in
                        case write_temporary D temporary path contents d of
                          (Inr _, d) \<Rightarrow> (Inr (), d)
                        | (Inl e, d) \<Rightarrow>
                            (let d = dk_remove D temporary d in
                             if dk_exists D path d then (Inr (), d) else (Inl (StoreIo e), d))))))"

definition read_back ::
    "'d disk \<Rightarrow> codecs \<Rightarrow> string \<Rightarrow> string \<Rightarrow> 'd \<Rightarrow> (raw_artifact_store_error, string) result" where
  "read_back D C path contents d =
     rbind (map_err map_read_error (dk_read D path d)) (\<lambda>stored_compressed.
     rbind (ok_or StoreIntegrity (zstd_decode C stored_compressed)) (\<lambda>stored_contents.
     if stored_contents \<noteq> contents then Inl StoreIntegrity else Inr stored_compressed))"

definition store_blocking ::
    "'d disk \<Rightarrow> codecs \<Rightarrow> string \<Rightarrow> string \<Rightarrow> instant \<Rightarrow> 'd \<Rightarrow>
     (raw_artifact_store_error, raw_artifact_metadata) result \<times> 'd" where
  "store_blocking D C root contents expires d =
     (let hex = checksum C contents; location = location_for hex; path = path_join root location in
      case zstd_encode C contents of
        None \<Rightarrow> (Inl StoreCompression, d)
      | Some compressed \<Rightarrow>
          (case u64_of_len contents of
             None \<Rightarrow> (Inl StoreSize, d)
           | Some uncompressed_size \<Rightarrow>
               (case write_atomically D path compressed d of
                  (Inl e, d) \<Rightarrow> (Inl e, d)
                | (Inr _, d) \<Rightarrow>
                    (rbind (read_back D C path contents d) (\<lambda>stored.
                     rbind (ok_or StoreSize (u64_of_len stored)) (\<lambda>compressed_size.
                     map_err (\<lambda>_. StoreIntegrity)
                       (RawArtifactMetadata_response_body location hex Zstd uncompressed_size compressed_size expires))),
                     d))))"

definition retrieve_blocking ::
    "'d disk \<Rightarrow> codecs \<Rightarrow> string \<Rightarrow> raw_artifact_metadata \<Rightarrow> 'd \<Rightarrow> (raw_artifact_store_error, string) result" where
  "retrieve_blocking D C root artifact d =
     (if artifact_compression artifact \<noteq> Zstd then Inl StoreUnsupportedCompression
      else
        (let expected_location = location_for (checksum_sha256 artifact) in
         if storage_location artifact \<noteq> expected_location then Inl StoreInvalidLocation
         else
           rbind (map_err map_read_error (dk_read D (path_join root expected_location) d)) (\<lambda>compressed.
           rbind (ok_or StoreSize (u64_of_len compressed)) (\<lambda>compressed_size.
           if compressed_size \<noteq> compressed_size_bytes artifact then Inl StoreIntegrity
           else
             rbind (ok_or StoreIntegrity (zstd_decode C compressed)) (\<lambda>contents.
             rbind (ok_or StoreSize (u64_of_len contents)) (\<lambda>contents_size.
             if contents_size \<noteq> uncompressed_size_bytes artifact \<or> checksum C contents \<noteq> checksum_sha256 artifact
             then Inl StoreIntegrity
             else Inr contents))))))"

section \<open>Lemmas\<close>

lemma hex_digit_lower: "n < 16 \<Longrightarrow> is_ascii_lowercase (hex_digit n) \<or> is_ascii_digit (hex_digit n)"
  by (auto simp: hex_digit_def is_ascii_digit_def is_ascii_lowercase_def byte_val_def)

lemma byte_val_less: "byte_val c < 256"
  by (simp add: byte_val_def)

lemma checksum_chars: "c \<in> set (checksum C contents) \<Longrightarrow> is_ascii_lowercase c \<or> is_ascii_digit c \<or> c = CHR ''-''"
  using hex_digit_lower [of "byte_val b div 16" for b] hex_digit_lower [of "byte_val b mod 16" for b] byte_val_less
  by (auto simp: checksum_def hex_byte_def less_mult_imp_div_less)

lemma checksum_trim [simp]: "trim (checksum C contents) = checksum C contents"
proof (cases "checksum C contents = []")
  case True
  then show ?thesis by (simp only:) code_simp
next
  case False
  have "byte_val c < 0x80 \<and> \<not> ws1 c" if "c \<in> set (checksum C contents)" for c
    by (rule slug_char_ascii) (rule checksum_chars [OF that])
  from this [OF hd_in_set [OF False]] this [OF last_in_set [OF False]] show ?thesis
    using False by (intro trim_ascii) auto
qed

lemma location_trim [simp]: "trim (location_for s) = location_for s"
  by (rule trim_ascii) (simp_all add: location_for_def byte_val_def ws1_def)

lemma store_blocking_Inr:
  assumes "store_blocking D C root contents expires d = (Inr meta, d')"
  obtains stored where
    "dk_read D (path_join root (location_for (checksum C contents))) d' = Inr stored"
    "zstd_decode C stored = Some contents" "length contents < 2 ^ 64" "length stored < 2 ^ 64"
    "meta = \<lparr>artifact_kind = ResponseBody, storage_location = location_for (checksum C contents),
       checksum_sha256 = checksum C contents, artifact_compression = Zstd,
       uncompressed_size_bytes = of_nat (length contents), compressed_size_bytes = of_nat (length stored),
       retention_expires_at = expires\<rparr>"
proof -
  let ?path = "path_join root (location_for (checksum C contents))"
  from assms obtain compressed where w: "length contents < 2 ^ 64"
    and r: "rbind (read_back D C ?path contents d') (\<lambda>stored.
              rbind (ok_or StoreSize (u64_of_len stored)) (\<lambda>compressed_size.
              map_err (\<lambda>_. StoreIntegrity)
                (RawArtifactMetadata_response_body (location_for (checksum C contents)) (checksum C contents) Zstd
                   (of_nat (length contents)) compressed_size expires))) = Inr meta"
    by (auto simp: store_blocking_def u64_of_len_def Let_def split: option.splits prod.splits sum.splits if_splits)
  from r obtain stored where rb: "read_back D C ?path contents d' = Inr stored" and l: "length stored < 2 ^ 64"
    and m: "RawArtifactMetadata_response_body (location_for (checksum C contents)) (checksum C contents) Zstd
       (of_nat (length contents)) (of_nat (length stored)) expires = Inr meta"
    by (auto simp: u64_of_len_def split: if_splits)
  have "dk_read D ?path d' = Inr stored" "zstd_decode C stored = Some contents"
    using rb by (auto simp: read_back_def split: if_splits)
  moreover have "meta = \<lparr>artifact_kind = ResponseBody, storage_location = location_for (checksum C contents),
       checksum_sha256 = checksum C contents, artifact_compression = Zstd,
       uncompressed_size_bytes = of_nat (length contents), compressed_size_bytes = of_nat (length stored),
       retention_expires_at = expires\<rparr>"
    using m by (auto simp: RawArtifactMetadata_response_body_def Let_def split: if_splits)
  ultimately show ?thesis using that w l by blast
qed

lemma retrieve_blocking_Inr:
  "retrieve_blocking D C root meta d = Inr contents \<Longrightarrow>
     checksum C contents = checksum_sha256 meta \<and> u64_of_len contents = Some (uncompressed_size_bytes meta)"
  by (auto simp: retrieve_blocking_def Let_def split: if_splits)

section \<open>Properties\<close>

text \<open>
  C21: whatever the disk and the codecs do, an artifact whose storage was reported as successful is
  retrieved unchanged from the same disk, and on any later disk a successful retrieval returns
  contents of the same length and SHA-256 checksum, whoever changed the file meanwhile.
\<close>

theorem stored_artifact_roundtrip:
  assumes "store_blocking D C root contents expires d = (Inr meta, d')"
  shows "retrieve_blocking D C root meta d' = Inr contents
    \<and> (\<forall>later. retrieve_blocking D C root meta d2 = Inr later \<longrightarrow>
         length later = length contents \<and> checksum C later = checksum C contents)"
proof -
  obtain stored where s: "dk_read D (path_join root (location_for (checksum C contents))) d' = Inr stored"
    "zstd_decode C stored = Some contents" "length contents < 2 ^ 64" "length stored < 2 ^ 64"
    and meta: "meta = \<lparr>artifact_kind = ResponseBody, storage_location = location_for (checksum C contents),
       checksum_sha256 = checksum C contents, artifact_compression = Zstd,
       uncompressed_size_bytes = of_nat (length contents), compressed_size_bytes = of_nat (length stored),
       retention_expires_at = expires\<rparr>"
    by (rule store_blocking_Inr [OF assms])
  have "retrieve_blocking D C root meta d' = Inr contents"
    using s by (simp add: retrieve_blocking_def meta u64_of_len_def Let_def)
  moreover have "length later = length contents \<and> checksum C later = checksum C contents"
    if "retrieve_blocking D C root meta d2 = Inr later" for later
  proof -
    have "u64_of_len later = Some (of_nat (length contents))" "checksum C later = checksum C contents"
      using retrieve_blocking_Inr [OF that] by (simp_all add: meta)
    then have "(of_nat (length later) :: u64) = of_nat (length contents)" "length later < 2 ^ 64"
      by (auto simp: u64_of_len_def split: if_splits)
    with s(3) have "length later = length contents"
      by (simp add: word_of_nat_eq_iff take_bit_nat_eq_self)
    then show ?thesis using \<open>checksum C later = checksum C contents\<close> by blast
  qed
  ultimately show ?thesis by blast
qed

text \<open>
  An object that does not decode to the contents its address promises is never repaired: storing
  those contents again leaves the disk as it is and fails, for ever.
\<close>

theorem damaged_object_never_repaired:
  assumes "dk_exists D (path_join root (location_for (checksum C contents))) d"
    and "dk_read D (path_join root (location_for (checksum C contents))) d = Inr damaged"
    and "zstd_decode C damaged \<noteq> Some contents"
    and "zstd_encode C contents = Some compressed" and "length contents < 2 ^ 64"
  shows "store_blocking D C root contents expires d = (Inl StoreIntegrity, d)"
  using assms
  by (cases "zstd_decode C damaged") (simp_all add: store_blocking_def Let_def u64_of_len_def write_atomically_def read_back_def)

section \<open>A sample disk\<close>

text \<open>Files in a map that never fails, with a codec that adds a marker.\<close>

definition sample_disk :: "(string \<rightharpoonup> string) disk" where
  "sample_disk =
     \<lparr>dk_exists = (\<lambda>p d. d p \<noteq> None), dk_read = (\<lambda>p d. ok_or IoNotFound (d p)),
      dk_create_dir_all = (\<lambda>p d. (Inr (), d)), dk_write_new = (\<lambda>p s d. (Inr (), d(p \<mapsto> s))),
      dk_rename = (\<lambda>p q d. (Inr (), (d(p := None))(q := d p))), dk_remove = (\<lambda>p d. d(p := None)),
      dk_uuid = (\<lambda>d. (''0'', d))\<rparr>"

definition sample_codecs :: codecs where
  "sample_codecs =
     \<lparr>zstd_encode = (\<lambda>s. Some (CHR ''z'' # s)),
      zstd_decode = (\<lambda>s. case s of c # t \<Rightarrow> if c = CHR ''z'' then Some t else None | [] \<Rightarrow> None),
      sha256_digest = (\<lambda>s. replicate 32 CHR 0x2a)\<rparr>"

theorem stored_artifact_roundtrip_witness:
  "\<exists>meta d'. store_blocking sample_disk sample_codecs ''data'' ''<p>'' 7 Map.empty = (Inr meta, d')
     \<and> retrieve_blocking sample_disk sample_codecs ''data'' meta d' = Inr ''<p>''"
proof -
  have "is_ok (fst (store_blocking sample_disk sample_codecs ''data'' ''<p>'' 7 Map.empty))" by code_simp
  then obtain meta d' where run: "store_blocking sample_disk sample_codecs ''data'' ''<p>'' 7 Map.empty = (Inr meta, d')"
    by (cases "store_blocking sample_disk sample_codecs ''data'' ''<p>'' 7 Map.empty") (auto simp: is_ok_iff)
  with stored_artifact_roundtrip [OF run] show ?thesis by blast
qed

theorem damaged_object_never_repaired_witness:
  "store_blocking sample_disk sample_codecs ''data'' ''<p>'' 7
     [path_join ''data'' (location_for (checksum sample_codecs ''<p>'')) \<mapsto> ''garbage'']
   = (Inl StoreIntegrity, [path_join ''data'' (location_for (checksum sample_codecs ''<p>'')) \<mapsto> ''garbage''])"
  by (rule damaged_object_never_repaired [where damaged = "''garbage''" and compressed = "''z<p>''"])
     (simp_all add: sample_disk_def sample_codecs_def)

end
