(* ===== verification/Worker_Service.thy ===== *)
theory Worker_Service
  imports Worker_Properties Artifact_Store Queue
begin

text \<open>
  \<^verbatim>\<open>apps/worker/src/lib.rs\<close>: what a worker does with one delivery of a crawl job, from the claim of
  the attempt over politeness, acquisition, parsing and detection to the record of its outcome, and
  the acknowledgement that follows it.  The record \<open>services\<close> holds what lies outside: the network, the
  Redis server, the disk, the codecs and regular expressions, and \<open>sv_between\<close>, what other processes do
  to the database between two transactions of the worker.
\<close>

section \<open>Text of errors\<close>

fun crawl_url_error_str :: "crawl_url_error \<Rightarrow> string" where
  "crawl_url_error_str UrlEmpty = ''crawl URL is empty''"
| "crawl_url_error_str UrlInvalid = ''crawl URL is invalid''"
| "crawl_url_error_str UrlUnsupportedScheme = ''crawl URL must use HTTP or HTTPS''"
| "crawl_url_error_str UrlMissingHost = ''crawl URL is missing a host''"
| "crawl_url_error_str UrlCredentialsNotAllowed = ''crawl URL credentials are not allowed''"
| "crawl_url_error_str UrlFragmentNotAllowed = ''crawl URL fragments are not allowed''"
| "crawl_url_error_str UrlIpLiteralNotAllowed = ''crawl URL IP literals are not allowed''"
| "crawl_url_error_str UrlLocalhostNotAllowed = ''crawl URL localhost is not allowed''"

fun dns_resolver_error_str :: "dns_resolver_error \<Rightarrow> string" where
  "dns_resolver_error_str (Lookup host) = ''DNS lookup failed for '' @ host"
| "dns_resolver_error_str (NoAddresses host) = ''DNS lookup returned no addresses for '' @ host"

fun dns_safety_error_str :: "dns_safety_error \<Rightarrow> string" where
  "dns_safety_error_str (Resolution e) = dns_resolver_error_str e"
| "dns_safety_error_str DnsTimeout = ''DNS resolution timed out''"
| "dns_safety_error_str (BlockedAddress host address) =
     ''DNS resolution for '' @ host @ '' included blocked address '' @ ip_addr_str address"

definition too_large_str :: "nat \<Rightarrow> nat \<Rightarrow> string" where
  "too_large_str limit observed =
     ''response body exceeded the '' @ dec_str limit @ ''-byte limit ('' @ dec_str observed @ '' bytes)''"

fun http_transport_error_str :: "http_transport_error \<Rightarrow> string" where
  "http_transport_error_str TransportCancelled = ''HTTP request was cancelled''"
| "http_transport_error_str (Request _) = ''HTTP request failed''"
| "http_transport_error_str (TransportTooLarge limit observed) = too_large_str limit observed"
| "http_transport_error_str (TransportFailed message) = ''HTTP transport failed: '' @ message"

fun robots_parse_error_str :: "robots_parse_error \<Rightarrow> string" where
  "robots_parse_error_str RobotsEmptyUserAgent = ''robots user agent must not be empty''"
| "robots_parse_error_str (InvalidDirective line) =
     ''robots directive on line '' @ dec_str line @ '' is missing '' @ [CHR 0x27] @ '':'' @ [CHR 0x27]"
| "robots_parse_error_str (EmptyAgent line) = ''robots user-agent on line '' @ dec_str line @ '' is empty''"
| "robots_parse_error_str (RuleBeforeAgent line) =
     ''robots allow/disallow rule on line '' @ dec_str line @ '' appears before a user-agent''"

text \<open>\<open>url_str\<close> is \<open>Url::as_str\<close>.\<close>

fun crawl_error_str :: "(url \<Rightarrow> string) \<Rightarrow> crawl_error \<Rightarrow> string"
  and robots_reason_str :: "(url \<Rightarrow> string) \<Rightarrow> robots_reason \<Rightarrow> string" where
  "crawl_error_str url_str CrawlCancelled = ''crawl was cancelled''"
| "crawl_error_str url_str CrawlTimeout = ''crawl request timed out''"
| "crawl_error_str url_str (CrawlDns e) = dns_safety_error_str e"
| "crawl_error_str url_str (CrawlTransport e) = http_transport_error_str e"
| "crawl_error_str url_str (CrawlResponseTooLarge limit observed) = too_large_str limit observed"
| "crawl_error_str url_str (RedirectLimitExceeded limit) = ''redirect limit of '' @ dec_str limit @ '' exceeded''"
| "crawl_error_str url_str MissingRedirectLocation = ''redirect response did not include a valid Location header''"
| "crawl_error_str url_str (InvalidRedirectTarget _) = ''redirect target is invalid''"
| "crawl_error_str url_str (RobotsDenied target) = ''robots policy denies '' @ url_str (crawl_url_as_url target)"
| "crawl_error_str url_str (RobotsUnavailable reason) =
     ''robots policy could not be safely obtained: '' @ robots_reason_str url_str reason"
| "robots_reason_str url_str (ReasonUrl e) = crawl_url_error_str e"
| "robots_reason_str url_str (ReasonFetch e) = crawl_error_str url_str e"
| "robots_reason_str url_str (ReasonStatus status) = ''robots.txt returned HTTP '' @ dec_str (unat status)"
| "robots_reason_str url_str ReasonUtf8 = ''robots.txt was not valid UTF-8''"
| "robots_reason_str url_str (ReasonParse e) = robots_parse_error_str e"

fun politeness_gate_error_str :: "politeness_gate_error \<Rightarrow> string" where
  "politeness_gate_error_str PolitenessCancelled = ''politeness wait was cancelled''"
| "politeness_gate_error_str (PolitenessUnavailable reason) = ''politeness gate is unavailable: '' @ reason"

fun failure_code_for_politeness :: "politeness_gate_error \<Rightarrow> string" where
  "failure_code_for_politeness PolitenessCancelled = ''cancelled''"
| "failure_code_for_politeness (PolitenessUnavailable _) = ''politeness_unavailable''"

fun failure_code_for_crawl :: "crawl_error \<Rightarrow> string" where
  "failure_code_for_crawl CrawlCancelled = ''cancelled''"
| "failure_code_for_crawl CrawlTimeout = ''network_timeout''"
| "failure_code_for_crawl (CrawlDns (BlockedAddress _ _)) = ''unsafe_target''"
| "failure_code_for_crawl (CrawlDns DnsTimeout) = ''dns_timeout''"
| "failure_code_for_crawl (CrawlDns (Resolution _)) = ''dns_failure''"
| "failure_code_for_crawl (CrawlTransport _) = ''network_failure''"
| "failure_code_for_crawl (CrawlResponseTooLarge _ _) = ''body_limit_exceeded''"
| "failure_code_for_crawl (RedirectLimitExceeded _) = ''redirect_limit_exceeded''"
| "failure_code_for_crawl MissingRedirectLocation = ''invalid_redirect''"
| "failure_code_for_crawl (InvalidRedirectTarget _) = ''invalid_redirect''"
| "failure_code_for_crawl (RobotsDenied _) = ''robots_denied''"
| "failure_code_for_crawl (RobotsUnavailable _) = ''robots_unavailable''"

section \<open>Bounded summaries\<close>

text \<open>\<open>chars()\<close>: a first byte with the continuation bytes after it.\<close>

function utf8_chars :: "string \<Rightarrow> string list" where
  "utf8_chars [] = []"
| "utf8_chars (c # s) =
     (c # takeWhile (\<lambda>x. \<not> is_char_start x) s) # utf8_chars (dropWhile (\<lambda>x. \<not> is_char_start x) s)"
  by pat_completeness auto

termination
  by (relation "measure length") (auto simp: le_imp_less_Suc length_dropWhile_le)

fun bound_chars :: "nat \<Rightarrow> string \<Rightarrow> string list \<Rightarrow> string" where
  "bound_chars n bounded [] = bounded"
| "bound_chars n bounded (character # characters) =
     (if length bounded + length character > n then bounded else bound_chars n (bounded @ character) characters)"

definition bounded_summary :: "string \<Rightarrow> string" where
  "bounded_summary summary =
     (let bounded = bound_chars 1024 [] (utf8_chars (trim summary)) in
      if bounded = [] then ''crawl processing failed'' else bounded)"

section \<open>Preparing a snapshot\<close>

datatype worker_process_error =
    ProcessRepository crawl_worker_repository_error
  | ProcessFailure crawl_failure_error
  | ProcessSnapshot crawl_snapshot_metadata_error
  | ProcessDetection detector_error
  | ProcessObservation crawl_observation_error
  | ProcessBodySize

datatype worker_runtime_error =
    RuntimeQueue crawl_job_queue_error
  | RuntimeProcessing worker_process_error

record prepared_snapshot =
  prep_snapshot :: crawl_snapshot_metadata
  prep_persistable_html :: "string option"
  prep_dns_observation :: crawl_dns_observation
  prep_tls_observation :: crawl_tls_observation
  prep_detections :: "detection list"
  prep_observations :: "rule_observation list"

fun observation_reason :: "capture_unavailable_reason \<Rightarrow> observation_unavailable_reason" where
  "observation_reason Crawler_Fetch.NotCaptured = ObsNotCaptured"
| "observation_reason NotApplicableReason = ObsNotApplicable"
| "observation_reason TimeoutReason = ObsTimeout"
| "observation_reason ConnectionFailed = ObsConnectionFailed"
| "observation_reason Crawler_Fetch.Invalid = ObsInvalid"

fun parser_reason :: "capture_unavailable_reason \<Rightarrow> unavailable_cause" where
  "parser_reason Crawler_Fetch.NotCaptured = Parser.NotCaptured"
| "parser_reason NotApplicableReason = Unsupported"
| "parser_reason Crawler_Fetch.Invalid = Parser.Invalid"
| "parser_reason TimeoutReason = Parser.NotCaptured"
| "parser_reason ConnectionFailed = Parser.NotCaptured"

fun dns_observation ::
    "dns_capture capture \<Rightarrow> instant \<Rightarrow> (crawl_observation_error, crawl_dns_observation) result" where
  "dns_observation (Crawler_Fetch.Captured c) observed_at =
     CrawlDnsObservation_available ''crawler_dns_v1'' observed_at (dns_queried_name c) (dns_addresses c)"
| "dns_observation (Crawler_Fetch.Unavailable reason) observed_at =
     CrawlDnsObservation_unavailable ''crawler_dns_v1'' observed_at (observation_reason reason)"

fun tls_validation_status :: "tls_validation \<Rightarrow> tls_certificate_validation" where
  "tls_validation_status Verified = TlsVerified"
| "tls_validation_status ValidationFailed = TlsFailed"

fun tls_observation ::
    "tls_capture capture \<Rightarrow> instant \<Rightarrow> (crawl_observation_error, crawl_tls_observation) result" where
  "tls_observation (Crawler_Fetch.Captured c) observed_at =
     CrawlTlsObservation_available ''crawler_tls_v1'' observed_at (tls_validation_status (tls_validation_of c))
       (tls_protocol c) (tls_cipher_suite c) (tls_certificate_subject c) (tls_certificate_issuer c)
       (tls_subject_alternative_names c) (tls_certificate_not_before c) (tls_certificate_not_after c)"
| "tls_observation (Crawler_Fetch.Unavailable reason) observed_at =
     CrawlTlsObservation_unavailable ''crawler_tls_v1'' observed_at (observation_reason reason)"

fun parser_dns :: "dns_capture capture \<Rightarrow> dns_artifact artifact_input" where
  "parser_dns (Crawler_Fetch.Captured c) =
     Parser.Captured \<lparr>queried_name = dns_queried_name c, addresses = dns_addresses c\<rparr>"
| "parser_dns (Crawler_Fetch.Unavailable reason) = InputUnavailable (parser_reason reason)"

fun parser_tls :: "tls_capture capture \<Rightarrow> tls_artifact artifact_input" where
  "parser_tls (Crawler_Fetch.Captured c) =
     Parser.Captured \<lparr>protocol = tls_protocol c, cipher_suite = tls_cipher_suite c,
       certificate_subject = tls_certificate_subject c, certificate_issuer = tls_certificate_issuer c,
       subject_alternative_names = tls_subject_alternative_names c\<rparr>"
| "parser_tls (Crawler_Fetch.Unavailable reason) = InputUnavailable (parser_reason reason)"

definition redirect_metadata ::
    "(url \<Rightarrow> string) \<Rightarrow> crawl_redirect \<Rightarrow> (crawl_snapshot_metadata_error, crawl_redirect_metadata) result" where
  "redirect_metadata url_str r =
     CrawlRedirectMetadata_new (url_str (crawl_url_as_url (redirect_from r))) (url_str (crawl_url_as_url (redirect_to r)))
       (Crawler_Fetch.redirect_status r)"

section \<open>Services\<close>

record ('n, 'r, 'd, 'x) services =
  sv_env :: env
  sv_between :: "store \<Rightarrow> store"
  sv_net :: "'n net"
  sv_fetch_cancelled :: "'n \<Rightarrow> bool \<times> bool"
  sv_redis :: "'r redis"
  sv_cancelled :: "'r \<Rightarrow> bool"
  sv_sleep :: "duration \<Rightarrow> 'r \<Rightarrow> bool \<times> 'r"
  sv_disk :: "'d disk"
  sv_codecs :: codecs
  sv_html_regexes :: html_regexes
  sv_document :: "string \<Rightarrow> html_document"
  sv_regex :: "'x regex_lib"
  sv_url_str :: "url \<Rightarrow> string"
  sv_saturating_add :: "instant \<Rightarrow> int \<Rightarrow> instant"

record worker_processor =
  wp_crawler :: crawler
  wp_politeness_config :: redis_politeness_config
  wp_artifact_root :: string
  wp_politeness_delay :: duration
  wp_artifact_retention :: int
  wp_scheduler_settings :: scheduler_settings
  wp_country_enricher :: "ip_addr list \<Rightarrow> country_observation option"

record ('n, 'r, 'd) world =
  wd_store :: store
  wd_net :: 'n
  wd_redis :: 'r
  wd_disk :: 'd

text \<open>The readings of \<open>now_utc()\<close> at the claim, after the fetch and when a failure is recorded.\<close>

record process_times =
  at_claim :: instant
  at_capture :: instant
  at_failure :: instant

definition between :: "('n, 'r, 'd, 'x) services \<Rightarrow> ('n, 'r, 'd) world \<Rightarrow> ('n, 'r, 'd) world" where
  "between S w = w\<lparr>wd_store := sv_between S (wd_store w)\<rparr>"

definition with_core :: "db \<Rightarrow> ('n, 'r, 'd) world \<Rightarrow> ('n, 'r, 'd) world" where
  "with_core d w = w\<lparr>wd_store := (wd_store w)\<lparr>st_core := d\<rparr>\<rparr>"

definition snapshot_from_response ::
    "('n, 'r, 'd, 'x) services \<Rightarrow> worker_processor \<Rightarrow> crawl_url \<Rightarrow> crawl_response \<Rightarrow> instant \<Rightarrow> active_detection_rule list \<Rightarrow>
     (worker_process_error, prepared_snapshot) result" where
  "snapshot_from_response S P requested response captured active_rules =
     (let country = wp_country_enricher P (resolved_addresses response) in
      rbind (map_err ProcessSnapshot (collect_results (map (redirect_metadata (sv_url_str S)) (redirects response)))) (\<lambda>hops.
      rbind (ok_or ProcessBodySize (u64_of_len (crawl_body response))) (\<lambda>body_size.
      (let persistable_html = sanitized_html_for_storage (sv_html_regexes S) response in
       rbind (map_err ProcessObservation (dns_observation (crawl_dns response) captured)) (\<lambda>dns_obs.
       rbind (map_err ProcessObservation (tls_observation (crawl_tls response) captured)) (\<lambda>tls_obs.
       (let parsed = parse (sv_document S)
              \<lparr>bundle_html = (case persistable_html of
                              Some html \<Rightarrow> Parser.Captured html | None \<Rightarrow> InputUnavailable Parser.NotCaptured),
               bundle_headers = Parser.Captured (crawl_headers response),
               bundle_dns = parser_dns (crawl_dns response), bundle_tls = parser_tls (crawl_tls response)\<rparr> in
        rbind (map_err ProcessDetection (evaluate_active (sv_regex S) parsed active_rules)) (\<lambda>evaluated.
        rbind (map_err ProcessSnapshot (CrawlSnapshotMetadata_new (sv_url_str S (crawl_url_as_url requested))
                 (sv_url_str S (crawl_url_as_url (Crawler_Fetch.final_url response))) hops (crawl_status response)
                 (crawl_headers response) body_size captured)) (\<lambda>snapshot.
        Inr \<lparr>prep_snapshot = with_country_observation country snapshot, prep_persistable_html = persistable_html,
             prep_dns_observation = dns_obs, prep_tls_observation = tls_obs,
             prep_detections = de_detections evaluated, prep_observations = de_observations evaluated\<rparr>)))))))))"

section \<open>Processing a delivery\<close>

definition process_failure ::
    "('n, 'r, 'd, 'x) services \<Rightarrow> worker_processor \<Rightarrow> instant \<Rightarrow> crawl_job_v1 \<Rightarrow> string \<Rightarrow> string \<Rightarrow> ('n, 'r, 'd) world \<Rightarrow>
     (worker_process_error, unit) result \<times> ('n, 'r, 'd) world" where
  "process_failure S P now job code summary w =
     (let w = between S w in
      case CrawlFailure_new code (bounded_summary summary) of
        Inl e \<Rightarrow> (Inl (ProcessFailure e), w)
      | Inr failure \<Rightarrow>
          (case record_failure (sv_env S) (st_core (wd_store w)) job failure now (wp_scheduler_settings P) of
             Inl e \<Rightarrow> (Inl (ProcessRepository e), w)
           | Inr d \<Rightarrow> (Inr (), with_core d w)))"

definition process_success ::
    "('n, 'r, 'd, 'x) services \<Rightarrow> crawl_job_v1 \<Rightarrow> prepared_snapshot \<Rightarrow> raw_artifact_metadata option \<Rightarrow>
     ('n, 'r, 'd) world \<Rightarrow> (worker_process_error, unit) result \<times> ('n, 'r, 'd) world" where
  "process_success S job prepared artifact w =
     (let w = between S w in
      case record_success (sv_env S) (wd_store w) job
             \<lparr>rec_snapshot = prep_snapshot prepared, rec_artifact = artifact,
              rec_dns_observation = prep_dns_observation prepared, rec_tls_observation = prep_tls_observation prepared,
              rec_detections = prep_detections prepared, rec_observations = prep_observations prepared\<rparr> of
        Inl e \<Rightarrow> (Inl (ProcessRepository e), w)
      | Inr st \<Rightarrow> (Inr (), w\<lparr>wd_store := st\<rparr>))"

definition process_response ::
    "('n, 'r, 'd, 'x) services \<Rightarrow> worker_processor \<Rightarrow> process_times \<Rightarrow> crawl_job_v1 \<Rightarrow> crawl_url \<Rightarrow> crawl_response \<Rightarrow>
     ('n, 'r, 'd) world \<Rightarrow> (worker_process_error, unit) result \<times> ('n, 'r, 'd) world" where
  "process_response S P clk job target response w =
     (let w = between S w; captured = at_capture clk in
      case rbind (map_err ProcessRepository (active_detection_rules (sv_env S) (wd_store w)))
             (snapshot_from_response S P target response captured) of
        Inl e \<Rightarrow> (Inl e, w)
      | Inr prepared \<Rightarrow>
          (case prep_persistable_html prepared of
             None \<Rightarrow> process_success S job prepared None w
           | Some contents \<Rightarrow>
               (case store_blocking (sv_disk S) (sv_codecs S) (wp_artifact_root P) contents
                       (sv_saturating_add S captured (wp_artifact_retention P)) (wd_disk w) of
                  (Inl _, d) \<Rightarrow>
                    process_failure S P (at_failure clk) job ''artifact_storage_failed''
                      ''raw artifact storage failed'' (w\<lparr>wd_disk := d\<rparr>)
                | (Inr artifact, d) \<Rightarrow> process_success S job prepared (Some artifact) (w\<lparr>wd_disk := d\<rparr>))))"

definition process_target ::
    "('n, 'r, 'd, 'x) services \<Rightarrow> worker_processor \<Rightarrow> process_times \<Rightarrow> crawl_job_v1 \<Rightarrow> crawl_url \<Rightarrow>
     ('n, 'r, 'd) world \<Rightarrow> (worker_process_error, unit) result \<times> ('n, 'r, 'd) world" where
  "process_target S P clk job target w =
     (case fetch (sv_net S) (wp_crawler P) (fst (sv_fetch_cancelled S (wd_net w))) (snd (sv_fetch_cancelled S (wd_net w)))
             (wd_net w) target of
        ((Inl e, _), n) \<Rightarrow>
          process_failure S P (at_failure clk) job (failure_code_for_crawl e) (crawl_error_str (sv_url_str S) e)
            (w\<lparr>wd_net := n\<rparr>)
      | ((Inr response, _), n) \<Rightarrow> process_response S P clk job target response (w\<lparr>wd_net := n\<rparr>))"

text \<open>The politeness gate may wait for ever, so processing may not return: \<open>None\<close>.\<close>

definition process ::
    "('n, 'r, 'd, 'x) services \<Rightarrow> worker_processor \<Rightarrow> process_times \<Rightarrow> crawl_job_v1 \<Rightarrow> ('n, 'r, 'd) world \<Rightarrow>
     ((worker_process_error, unit) result \<times> ('n, 'r, 'd) world) option" where
  "process S P clk job w =
     (case claim_attempt (sv_env S) (st_core (wd_store w)) job (at_claim clk) of
        Inl e \<Rightarrow> Some (Inl (ProcessRepository e), w)
      | Inr (Terminal, d) \<Rightarrow> Some (Inr (), with_core d w)
      | Inr (Ready canonical, d) \<Rightarrow>
          (let w = with_core d w in
           case CrawlUrl_parse (env_url_parse (sv_env S)) (canonical_domain_as_str canonical) of
             Inl e \<Rightarrow> Some (process_failure S P (at_failure clk) job ''invalid_target'' (crawl_url_error_str e) w)
           | Inr target \<Rightarrow>
               (case acquire (sv_redis S) (wp_politeness_config P) (sv_cancelled S) (sv_sleep S)
                       \<lparr>polite_domain = crawl_url_host target, polite_minimum_delay = wp_politeness_delay P\<rparr>
                       (wd_redis w) of
                  None \<Rightarrow> None
                | Some (Inl e, r) \<Rightarrow>
                    Some (process_failure S P (at_failure clk) job (failure_code_for_politeness e)
                            (politeness_gate_error_str e) (w\<lparr>wd_redis := r\<rparr>))
                | Some (Inr _, r) \<Rightarrow> Some (process_target S P clk job target (w\<lparr>wd_redis := r\<rparr>)))))"

definition process_and_acknowledge ::
    "('n, 'r, 'd, 'x) services \<Rightarrow> worker_processor \<Rightarrow> redis_streams_config \<Rightarrow> process_times \<Rightarrow> received_crawl_job \<Rightarrow>
     ('n, 'r, 'd) world \<Rightarrow> ((worker_runtime_error, unit) result \<times> ('n, 'r, 'd) world) option" where
  "process_and_acknowledge S P config clk received w =
     map_option (\<lambda>(r, w).
       case r of
         Inl e \<Rightarrow> (Inl (RuntimeProcessing e), w)
       | Inr _ \<Rightarrow>
           (case acknowledge (sv_redis S) config (rcv_receipt received) (wd_redis w) of
              (acked, r) \<Rightarrow> (map_err RuntimeQueue acked, w\<lparr>wd_redis := r\<rparr>)))
       (process S P clk (rcv_job received) w)"

text \<open>The clocks of the deliveries are given one by one.\<close>

fun process_deliveries ::
    "('n, 'r, 'd, 'x) services \<Rightarrow> worker_processor \<Rightarrow> redis_streams_config \<Rightarrow> (process_times \<times> received_crawl_job) list \<Rightarrow>
     ('n, 'r, 'd) world \<Rightarrow> ((worker_runtime_error, unit) result \<times> ('n, 'r, 'd) world) option" where
  "process_deliveries S P config [] w = Some (Inr (), w)"
| "process_deliveries S P config ((clk, received) # rest) w =
     (case process_and_acknowledge S P config clk received w of
        None \<Rightarrow> None
      | Some (Inl e, w) \<Rightarrow> Some (Inl e, w)
      | Some (Inr _, w) \<Rightarrow> process_deliveries S P config rest w)"

definition receive_and_process_once ::
    "('n, 'r, 'd, 'x) services \<Rightarrow> worker_processor \<Rightarrow> redis_streams_config \<Rightarrow> (string \<Rightarrow> crawl_job_wire option) \<Rightarrow>
     crawl_job_consumer_name \<Rightarrow> (nat \<Rightarrow> process_times) \<Rightarrow> ('n, 'r, 'd) world \<Rightarrow>
     ((worker_runtime_error, nat) result \<times> ('n, 'r, 'd) world) option" where
  "receive_and_process_once S P config parse_wire consumer clk w =
     (case qbind (reclaim_stale (sv_redis S) config parse_wire consumer) (\<lambda>reclaimed.
           qbind (receive (sv_redis S) config parse_wire consumer) (\<lambda>received. qreturn (reclaimed @ received)))
           (wd_redis w) of
        (Inl e, r) \<Rightarrow> Some (Inl (RuntimeQueue e), w\<lparr>wd_redis := r\<rparr>)
      | (Inr deliveries, r) \<Rightarrow>
          map_option (\<lambda>(res, w). (rbind res (\<lambda>_. Inr (length deliveries)), w))
            (process_deliveries S P config (zip (map clk [0..<length deliveries]) deliveries) (w\<lparr>wd_redis := r\<rparr>)))"

section \<open>Summaries are always valid\<close>

lemma strip_ws_rev_Nil:
  "strip_ws (\<lambda>b a. ws2 a b) (\<lambda>c b a. ws3 a b c) s = [] \<Longrightarrow> s = [] \<or> ws_len ws2 ws3 (rev s) \<noteq> 0"
proof (induction "length s" arbitrary: s rule: less_induct)
  case less
  let ?n = "ws_len (\<lambda>b a. ws2 a b) (\<lambda>c b a. ws3 a b c) s"
  show ?case
  proof (cases "?n = 0")
    case True
    with less.prems show ?thesis by (simp add: strip_ws_fix)
  next
    case False
    then have n: "0 < ?n" "?n \<le> length s" using ws_len_le by auto
    have rest: "strip_ws (\<lambda>b a. ws2 a b) (\<lambda>c b a. ws3 a b c) (drop ?n s) = []"
      using less.prems False by (subst (asm) strip_ws.simps) simp
    have "drop ?n s = [] \<or> ws_len ws2 ws3 (rev (drop ?n s)) \<noteq> 0"
      by (rule less.hyps [OF _ rest]) (use n in simp)
    then show ?thesis
    proof
      assume "drop ?n s = []"
      with n have "?n = length s" by simp
      with n show ?thesis
        by (cases "(\<lambda>b a. ws2 a b, \<lambda>c b a. ws3 a b c, s)" rule: ws_len.cases) (auto split: if_splits)
    next
      assume "ws_len ws2 ws3 (rev (drop ?n s)) \<noteq> 0"
      moreover have "prefix (rev (drop ?n s)) (rev s)" by (simp add: suffix_to_prefix [symmetric] suffix_drop)
      ultimately show ?thesis using ws_len_prefix [of "rev (drop ?n s)" "rev s" ws2 ws3] by auto
    qed
  qed
qed

lemma trim_prefix_of_trimmed:
  assumes "prefix p (trim s)" and "p \<noteq> []"
  shows "trim p \<noteq> []"
proof
  assume none: "trim p = []"
  have "ws_len ws2 ws3 (trim s) = 0"
    unfolding trim_def by (rule ws_len_prefix [OF trim_end_prefix]) (simp add: trim_start_def)
  with assms(1) have p: "ws_len ws2 ws3 p = 0" using ws_len_prefix by blast
  then have "trim p = trim_end p" by (simp add: trim_def trim_start_def strip_ws_fix)
  with none have "strip_ws (\<lambda>b a. ws2 a b) (\<lambda>c b a. ws3 a b c) (rev p) = []" by (simp add: trim_end_def)
  from strip_ws_rev_Nil [OF this] assms(2) p show False by simp
qed

lemma concat_utf8_chars: "concat (utf8_chars s) = s"
  by (induction s rule: utf8_chars.induct) auto

lemma bound_chars_prefix: "prefix (bound_chars n acc cs) (acc @ concat cs)"
  by (induction n acc cs rule: bound_chars.induct) (auto simp: prefix_def)

lemma bound_chars_length: "length acc \<le> n \<Longrightarrow> length (bound_chars n acc cs) \<le> n"
  by (induction n acc cs rule: bound_chars.induct) auto

lemma bounded_summary_valid: "trim (bounded_summary s) \<noteq> [] \<and> length (trim (bounded_summary s)) \<le> 1024"
proof (cases "bound_chars 1024 [] (utf8_chars (trim s)) = []")
  case True
  have "trim ''crawl processing failed'' \<noteq> [] \<and> length (trim ''crawl processing failed'') \<le> 1024" by code_simp
  with True show ?thesis by (simp add: bounded_summary_def)
next
  case False
  let ?b = "bound_chars 1024 [] (utf8_chars (trim s))"
  have "prefix ?b (trim s)" using bound_chars_prefix [of 1024 "[]" "utf8_chars (trim s)"] by (simp add: concat_utf8_chars)
  then have "trim ?b \<noteq> []" using trim_prefix_of_trimmed False by blast
  moreover have "length (trim ?b) \<le> 1024"
    using length_trim_le [of ?b] bound_chars_length [of "[]" 1024 "utf8_chars (trim s)"] by simp
  ultimately show ?thesis using False by (simp add: bounded_summary_def)
qed

definition failure_codes :: "string set" where
  "failure_codes = {''invalid_target'', ''cancelled'', ''politeness_unavailable'', ''network_timeout'', ''unsafe_target'',
     ''dns_timeout'', ''dns_failure'', ''network_failure'', ''body_limit_exceeded'', ''redirect_limit_exceeded'',
     ''invalid_redirect'', ''robots_denied'', ''robots_unavailable'', ''artifact_storage_failed''}"

lemma failure_codes_trim: "code \<in> failure_codes \<Longrightarrow> trim code = code \<and> code \<noteq> []"
  unfolding failure_codes_def by (elim insertE emptyE) (simp only:, code_simp)+

lemma failure_code_for_crawl_mem [simp]: "failure_code_for_crawl e \<in> failure_codes"
  by (cases e rule: failure_code_for_crawl.cases) (simp_all add: failure_codes_def)

lemma failure_code_for_politeness_mem [simp]: "failure_code_for_politeness e \<in> failure_codes"
  by (cases e) (simp_all add: failure_codes_def)

lemma CrawlFailure_new_bounded:
  "code \<in> failure_codes \<Longrightarrow>
     CrawlFailure_new code (bounded_summary s) = Inr \<lparr>failure_code = code, failure_summary = trim (bounded_summary s)\<rparr>"
  using failure_codes_trim [of code] bounded_summary_valid [of s]
  by (auto simp: CrawlFailure_new_def Let_def)

section \<open>Finished jobs\<close>

definition job_finished :: "db \<Rightarrow> crawl_job_v1 \<Rightarrow> bool" where
  "job_finished d job =
     list_ex (\<lambda>a. att_job_id a = crawl_job_id_as_uuid (job_id job) \<and> terminal_status (att_status a)) (db_attempts d)"

lemma job_finishedI:
  "a \<in> set (db_attempts d) \<Longrightarrow> att_job_id a = crawl_job_id_as_uuid (job_id job) \<Longrightarrow> \<not> active_status (att_status a) \<Longrightarrow>
     job_finished d job"
  by (auto simp: job_finished_def list_ex_iff)

lemma set_attempt_mem:
  "set_attempt d (att_id a) f = Inr d' \<Longrightarrow> a \<in> set (db_attempts d) \<Longrightarrow> f a \<in> set (db_attempts d')"
  by (auto simp: set_attempt_Inr image_iff)

lemma policy_update_attempts: "set_policy d i f = Inr d' \<Longrightarrow> db_attempts d' = db_attempts d"
  by (auto simp: set_policy_Inr)

lemma insert_attempt_extends:
  "insert_attempt_and_outbox E d job n t c = Inr d' \<Longrightarrow> set (db_attempts d) \<subseteq> set (db_attempts d')"
  by (auto simp: insert_attempt_and_outbox_Inr Let_def)

lemma record_failed_finishes:
  assumes "record_failed E d a failure now settings = Inr d'" and "a \<in> set (db_attempts d)"
  shows "fail_attempt now failure a \<in> set (db_attempts d')"
  using assms(1)
proof (cases rule: record_failed_cases)
  case (retry d1 d2 number delay job retry_at)
  then show ?thesis
    using set_attempt_mem [OF retry(1) assms(2)] insert_attempt_extends [OF retry(7)] policy_update_attempts [OF retry(8)] by auto
next
  case (exhaust d1 number)
  then show ?thesis using set_attempt_mem [OF exhaust(1) assms(2)] policy_update_attempts [OF exhaust(4)] by simp
qed

lemma record_failure_finishes:
  assumes "record_failure E d job failure now settings = Inr d'"
  shows "job_finished d' job"
proof -
  from assms have out: "record_attempt_outcome E d (job_id job) (OutcomeFailed failure) now settings = Inr d'"
    by (cases "record_attempt_outcome E d (job_id job) (OutcomeFailed failure) now settings") (auto simp: record_failure_def)
  then obtain a where f: "find_attempt d (crawl_job_id_as_uuid (job_id job)) = Some a"
    by (auto simp: record_attempt_outcome_def)
  note a = find_attempt_Some [OF f]
  show ?thesis
  proof (cases "active_status (att_status a)")
    case True
    with out f have "record_failed E d a failure now settings = Inr d'" by (simp add: record_attempt_outcome_def)
    from record_failed_finishes [OF this] a show ?thesis
      by (intro job_finishedI [of "fail_attempt now failure a"]) (auto simp: fail_attempt_def active_status_def)
  next
    case False
    with out f have "d' = d" by (simp add: record_attempt_outcome_def)
    with False a show ?thesis by (auto intro: job_finishedI)
  qed
qed

lemma record_success_finishes:
  assumes "record_success E st job rec = Inr st'"
  shows "job_finished (st_core st') job"
proof -
  obtain a where f: "find_job_attempt (st_core st) job = Some a" using assms by (auto simp: record_success_def)
  then have a: "a \<in> set (db_attempts (st_core st))" "att_job_id a = crawl_job_id_as_uuid (job_id job)"
    by (auto simp: find_job_attempt_def find_Some_iff job_matches_def)
  show ?thesis
  proof (cases "active_status (att_status a)")
    case True
    obtain d1 n d' where s: "set_attempt (st_core st) (att_id a) (succeed_attempt (captured_at (rec_snapshot rec))) = Inr d1"
      "set_policy d1 (att_domain_id a) (succeed_policy (captured_at (rec_snapshot rec))) = Inr d'"
      and core: "st_core st' = d'\<lparr>db_drawn := n\<rparr>"
      using record_success_same_core [OF assms f True] by blast
    show ?thesis
      using set_attempt_mem [OF s(1) a(1)] policy_update_attempts [OF s(2)] a(2)
      by (intro job_finishedI [of "succeed_attempt (captured_at (rec_snapshot rec)) a"])
         (auto simp: core succeed_attempt_def active_status_def)
  next
    case False
    with assms f have "st' = st" by (simp add: record_success_def)
    with False a show ?thesis by (auto intro: job_finishedI)
  qed
qed

lemma claim_terminal_finished:
  "claim_attempt E d job t = Inr (Terminal, d') \<Longrightarrow> job_finished d' job"
  by (auto simp: claim_attempt_def find_Some_iff job_matches_def split: if_splits intro!: job_finishedI [OF nth_mem])

section \<open>Outcomes of processing\<close>

text \<open>A step that records an outcome: it finishes the job, or fails with an error of the repository.\<close>

definition records :: "crawl_job_v1 \<Rightarrow> (worker_process_error, unit) result \<times> ('n, 'r, 'd) world \<Rightarrow> bool" where
  "records job rw =
     (case fst rw of Inr _ \<Rightarrow> job_finished (st_core (wd_store (snd rw))) job | Inl e \<Rightarrow> \<exists>x. e = ProcessRepository x)"

lemma process_failure_records: "code \<in> failure_codes \<Longrightarrow> records job (process_failure S P now job code s w)"
  by (auto simp: records_def process_failure_def Let_def CrawlFailure_new_bounded with_core_def
      intro: record_failure_finishes split: sum.splits)

lemma process_success_records: "records job (process_success S job prepared artifact w)"
  by (auto simp: records_def process_success_def Let_def intro: record_success_finishes split: sum.splits)

lemma process_response_records:
  "records job (process_response S P clk job target response w)
   \<or> (\<exists>e. process_response S P clk job target response w = (Inl e, between S w) \<and> (\<forall>x. e \<noteq> ProcessFailure x))"
proof (cases "rbind (map_err ProcessRepository (active_detection_rules (sv_env S) (wd_store (between S w))))
             (snapshot_from_response S P target response (at_capture clk))")
  case (Inl e)
  then have "e \<noteq> ProcessFailure x" for x
    by (auto simp: snapshot_from_response_def Let_def rbind_def map_err_def ok_or_def split: sum.splits option.splits)
  with Inl show ?thesis by (auto simp: process_response_def Let_def)
next
  case (Inr prepared)
  have "''artifact_storage_failed'' \<in> failure_codes" by (simp add: failure_codes_def)
  with Inr show ?thesis
    by (auto simp: process_response_def Let_def process_success_records
        intro: process_failure_records split: option.splits prod.splits sum.splits)
qed

lemma process_target_records:
  "records job (process_target S P clk job target w)
   \<or> (\<exists>e n. process_target S P clk job target w = (Inl e, between S (w\<lparr>wd_net := n\<rparr>)) \<and> (\<forall>x. e \<noteq> ProcessFailure x))"
proof -
  obtain r log n where f: "fetch (sv_net S) (wp_crawler P) (fst (sv_fetch_cancelled S (wd_net w)))
      (snd (sv_fetch_cancelled S (wd_net w))) (wd_net w) target = ((r, log), n)"
    by (cases "fetch (sv_net S) (wp_crawler P) (fst (sv_fetch_cancelled S (wd_net w)))
      (snd (sv_fetch_cancelled S (wd_net w))) (wd_net w) target" rule: prod.exhaust [case_product prod.exhaust]) auto
  show ?thesis
  proof (cases r)
    case (Inl e)
    then show ?thesis by (simp add: process_target_def f process_failure_records)
  next
    case (Inr response)
    with process_response_records [of job S P clk target response "w\<lparr>wd_net := n\<rparr>"] show ?thesis
      by (auto simp: process_target_def f)
  qed
qed

text \<open>Processing that returns has recorded an outcome, or failed and left what the claim wrote.\<close>

lemma process_outcome:
  assumes "process S P clk job w = Some (r, w')"
  shows "records job (r, w') \<or> (\<exists>e canonical d. r = Inl e \<and> (\<forall>x. e \<noteq> ProcessFailure x)
           \<and> claim_attempt (sv_env S) (st_core (wd_store w)) job (at_claim clk) = Inr (Ready canonical, d)
           \<and> wd_store w' = sv_between S ((wd_store w)\<lparr>st_core := d\<rparr>))"
proof (cases "claim_attempt (sv_env S) (st_core (wd_store w)) job (at_claim clk)")
  case (Inl e)
  with assms show ?thesis by (auto simp: process_def records_def)
next
  case (Inr cd)
  obtain c d where cd: "cd = (c, d)" by (cases cd)
  show ?thesis
  proof (cases c)
    case Terminal
    with assms Inr cd show ?thesis
      by (auto simp: process_def records_def with_core_def dest: claim_terminal_finished)
  next
    case (Ready canonical)
    have codes: "''invalid_target'' \<in> failure_codes" by (simp add: failure_codes_def)
    show ?thesis
    proof (cases "CrawlUrl_parse (env_url_parse (sv_env S)) (canonical_domain_as_str canonical)")
      case (Inl e)
      with assms Inr cd Ready have run: "process_failure S P (at_failure clk) job ''invalid_target''
          (crawl_url_error_str e) (with_core d w) = (r, w')" by (simp add: process_def Let_def)
      show ?thesis
        using process_failure_records [OF codes, of job S P "at_failure clk" "crawl_url_error_str e" "with_core d w"]
        unfolding run by blast
    next
      case target: (Inr target)
      let ?a = "acquire (sv_redis S) (wp_politeness_config P) (sv_cancelled S) (sv_sleep S)
                       \<lparr>polite_domain = crawl_url_host target, polite_minimum_delay = wp_politeness_delay P\<rparr>
                       (wd_redis (with_core d w))"
      from assms Inr cd Ready target obtain ar rd where a: "?a = Some (ar, rd)"
        by (auto simp: process_def Let_def split: option.splits)
      show ?thesis
      proof (cases ar)
        case (Inl e)
        with assms Inr cd Ready target a
        have run: "process_failure S P (at_failure clk) job (failure_code_for_politeness e)
            (politeness_gate_error_str e) ((with_core d w)\<lparr>wd_redis := rd\<rparr>) = (r, w')"
          by (simp add: process_def Let_def)
        show ?thesis
          using process_failure_records [OF failure_code_for_politeness_mem, of job S P "at_failure clk" e
              "politeness_gate_error_str e" "(with_core d w)\<lparr>wd_redis := rd\<rparr>"]
          unfolding run by blast
      next
        case gate: (Inr u)
        with assms Inr cd Ready target a
        have run: "(r, w') = process_target S P clk job target ((with_core d w)\<lparr>wd_redis := rd\<rparr>)"
          by (simp add: process_def Let_def)
        with process_target_records [of job S P clk target "(with_core d w)\<lparr>wd_redis := rd\<rparr>"] Inr cd Ready
        show ?thesis by (auto simp: between_def with_core_def)
      qed
    qed
  qed
qed

section \<open>Properties\<close>

text \<open>
  C19: a delivery is acknowledged only when its job is finished: when handling a delivery returns, either
  processing failed and the queue was not touched any more, or the job's attempt had succeeded or failed
  for good before the acknowledgement was sent.
\<close>

theorem acknowledged_jobs_are_finished:
  assumes "process_and_acknowledge S P config clk received w = Some (r, w')"
  shows "\<exists>outcome mid. process S P clk (rcv_job received) w = Some (outcome, mid) \<and> wd_store w' = wd_store mid
    \<and> (case outcome of
          Inl e \<Rightarrow> r = Inl (RuntimeProcessing e) \<and> w' = mid
        | Inr _ \<Rightarrow> job_finished (st_core (wd_store mid)) (rcv_job received)
            \<and> wd_redis w' = snd (acknowledge (sv_redis S) config (rcv_receipt received) (wd_redis mid)))"
proof -
  obtain outcome mid where run: "process S P clk (rcv_job received) w = Some (outcome, mid)"
    using assms by (auto simp: process_and_acknowledge_def)
  show ?thesis
  proof (cases outcome)
    case (Inl e)
    with run assms show ?thesis by (auto simp: process_and_acknowledge_def)
  next
    case (Inr u)
    then have "job_finished (st_core (wd_store mid)) (rcv_job received)"
      using process_outcome [OF run] by (auto simp: records_def)
    with Inr run assms show ?thesis by (auto simp: process_and_acknowledge_def split: prod.splits)
  qed
qed

text \<open>
  C20: every failure the worker records is valid (a processing error is never an invalid failure), and an
  error other than one of the repository is recorded nowhere: the attempt is left as the claim wrote it,
  running, until the scheduler's recovery of stale attempts finds it.
\<close>

theorem unrecorded_processing_errors:
  assumes "process S P clk job w = Some (Inl e, w')"
  shows "(\<exists>x. e = ProcessRepository x)
    \<or> ((\<forall>x. e \<noteq> ProcessFailure x)
       \<and> (\<exists>canonical d. claim_attempt (sv_env S) (st_core (wd_store w)) job (at_claim clk) = Inr (Ready canonical, d)
            \<and> wd_store w' = sv_between S ((wd_store w)\<lparr>st_core := d\<rparr>)))"
  using process_outcome [OF assms] by (auto simp: records_def)

section \<open>Sample deliveries\<close>

text \<open>
  One queued job.  With a cancelled worker its failure is recorded and acknowledged; otherwise the site is
  fetched and the active rule, whose stored definition is not an object, makes the evaluation fail.
\<close>

definition sample_services :: "bool \<Rightarrow> (nat, sample_server, string \<rightharpoonup> string, unit) services" where
  "sample_services cancel =
     \<lparr>sv_env = sample_env, sv_between = (\<lambda>st. st), sv_net = sample_net, sv_fetch_cancelled = (\<lambda>_. (False, False)),
      sv_redis = sample_redis, sv_cancelled = (\<lambda>_. cancel), sv_sleep = sample_sleep, sv_disk = sample_disk,
      sv_codecs = sample_codecs,
      sv_html_regexes = \<lparr>tag_segments = (\<lambda>s. [Unmatched s]), attribute_captures = (\<lambda>_. []), value_segments = (\<lambda>_. None)\<rparr>,
      sv_document = (\<lambda>_. \<lparr>doc_titles = [], doc_metas = [], doc_scripts = []\<rparr>),
      sv_regex = \<lparr>rx_new = (\<lambda>_. None), rx_captures_len = (\<lambda>_. 0), rx_capture = (\<lambda>_ _. None)\<rparr>,
      sv_url_str = (\<lambda>u. url_scheme u @ ''://'' @ url_path u), sv_saturating_add = (\<lambda>t d. t + d)\<rparr>"

definition sample_processor :: worker_processor where
  "sample_processor =
     \<lparr>wp_crawler = sample_crawler, wp_politeness_config = RedisPolitenessConfig_default, wp_artifact_root = ''data'',
      wp_politeness_delay = 1000000000, wp_artifact_retention = 0,
      wp_scheduler_settings = \<lparr>max_crawl_retries = 1, crawl_retry_base = 10, max_outbox_publish_attempts = 1,
        outbox_retry_base = 5\<rparr>,
      wp_country_enricher = (\<lambda>_. None)\<rparr>"

definition sample_world :: "(nat, sample_server, string \<rightharpoonup> string) world" where
  "sample_world =
     \<lparr>wd_store = sample_store\<lparr>st_core := sample_core\<lparr>db_domains :=
        [\<lparr>dr_id = 0, dr_canonical_domain = ''c.com'', dr_archived_at = None\<rparr>]\<rparr>\<rparr>,
      wd_net = 0, wd_redis = sample_state 5000 None, wd_disk = Map.empty\<rparr>"

definition sample_clock :: process_times where
  "sample_clock = \<lparr>at_claim = 6, at_capture = 7, at_failure = 8\<rparr>"

definition sample_received :: received_crawl_job where
  "sample_received = \<lparr>rcv_receipt = CrawlJobReceipt ''1-0'', rcv_job = sample_crawl_job, rcv_delivery_count = 1\<rparr>"

definition sample_request :: politeness_request where
  "sample_request = \<lparr>polite_domain = ''c.com'', polite_minimum_delay = 1000000000\<rparr>"

lemma sample_gate_cancelled:
  "acquire sample_redis RedisPolitenessConfig_default (\<lambda>_. True) sample_sleep sample_request (sample_state 5000 None)
     = Some (Inl PolitenessCancelled, sample_state 5000 None)"
proof -
  have "trim ''c.com'' \<noteq> []" by code_simp
  then show ?thesis by (simp add: acquire_def sample_request_def acquire_loop.simps)
qed

definition sample_leased :: sample_server where
  "sample_leased = snd (lease_wait sample_redis RedisPolitenessConfig_default ''c.com'' 1000000000 (sample_state 5000 None))"

lemma sample_gate_open:
  "acquire sample_redis RedisPolitenessConfig_default (\<lambda>_. False) sample_sleep sample_request (sample_state 5000 None)
     = Some (Inr (), sample_leased)"
proof -
  have "fst (lease_wait sample_redis RedisPolitenessConfig_default ''c.com'' 1000000000 (sample_state 5000 None)) = Inr 0"
    by code_simp
  moreover have "trim ''c.com'' \<noteq> []" by code_simp
  ultimately show ?thesis unfolding sample_leased_def
    by (cases "lease_wait sample_redis RedisPolitenessConfig_default ''c.com'' 1000000000 (sample_state 5000 None)")
       (simp add: acquire_def sample_request_def acquire_loop.simps)
qed

definition sample_claim :: "(crawl_worker_repository_error, claimed_crawl_attempt \<times> db) result" where
  "sample_claim = claim_attempt sample_env (st_core (wd_store sample_world)) sample_crawl_job 6"

definition sample_claimed :: db where
  "sample_claimed = (case sample_claim of Inr (_, d) \<Rightarrow> d | Inl _ \<Rightarrow> empty_db)"

definition sample_crawl_target :: crawl_url where
  "sample_crawl_target = CrawlUrl (sample_url ''https'' ''c.com'')"

lemma map_sum_fst_Inr:
  "map_sum id fst r = Inr c \<Longrightarrow> r = Inr (c, case r of Inr (_, d) \<Rightarrow> d | Inl _ \<Rightarrow> e)"
  by (cases r) auto

lemma sample_claim_ready: "sample_claim = Inr (Ready (CanonicalDomain ''c.com''), sample_claimed)"
proof -
  have "map_sum id fst sample_claim = Inr (Ready (CanonicalDomain ''c.com''))" by code_simp
  then show ?thesis unfolding sample_claimed_def by (rule map_sum_fst_Inr)
qed

lemma sample_target_parses:
  "CrawlUrl_parse sample_url_parse ''c.com'' = Inr sample_crawl_target" "crawl_url_host sample_crawl_target = ''c.com''"
  by code_simp+

lemma sample_sel:
  "sv_env (sample_services c) = sample_env" "sv_redis (sample_services c) = sample_redis"
  "sv_cancelled (sample_services c) = (\<lambda>_. c)" "sv_sleep (sample_services c) = sample_sleep"
  "env_url_parse sample_env = sample_url_parse" "wp_politeness_config sample_processor = RedisPolitenessConfig_default"
  "\<lparr>polite_domain = ''c.com'', polite_minimum_delay = wp_politeness_delay sample_processor\<rparr> = sample_request"
  "at_claim sample_clock = 6" "at_failure sample_clock = 8"
  by (simp_all add: sample_services_def sample_env_def sample_processor_def sample_request_def sample_clock_def)

lemma sample_process:
  "process (sample_services cancel) sample_processor sample_clock sample_crawl_job sample_world =
     (let w = with_core sample_claimed sample_world in
      case acquire sample_redis RedisPolitenessConfig_default (\<lambda>_. cancel) sample_sleep sample_request (wd_redis w) of
        None \<Rightarrow> None
      | Some (Inl e, r) \<Rightarrow>
          Some (process_failure (sample_services cancel) sample_processor 8 sample_crawl_job
                  (failure_code_for_politeness e) (politeness_gate_error_str e) (w\<lparr>wd_redis := r\<rparr>))
      | Some (Inr _, r) \<Rightarrow>
          Some (process_target (sample_services cancel) sample_processor sample_clock sample_crawl_job sample_crawl_target
                  (w\<lparr>wd_redis := r\<rparr>)))"
  unfolding process_def sample_sel sample_claim_ready [unfolded sample_claim_def]
  by (simp add: sample_target_parses sample_sel Let_def)

lemma sample_cancelled_process:
  "process (sample_services True) sample_processor sample_clock sample_crawl_job sample_world =
     Some (process_failure (sample_services True) sample_processor 8 sample_crawl_job ''cancelled''
             ''politeness wait was cancelled'' (with_core sample_claimed sample_world))"
proof -
  have w: "wd_redis (with_core sample_claimed sample_world) = sample_state 5000 None"
    by (simp add: with_core_def sample_world_def)
  have same: "(with_core sample_claimed sample_world)\<lparr>wd_redis := sample_state 5000 None\<rparr> = with_core sample_claimed sample_world"
    by (simp add: with_core_def sample_world_def)
  show ?thesis by (simp add: sample_process Let_def w sample_gate_cancelled same)
qed

lemma sample_cancelled_recorded:
  "is_ok (fst (process_failure (sample_services True) sample_processor 8 sample_crawl_job ''cancelled''
             ''politeness wait was cancelled'' (with_core sample_claimed sample_world)))"
  by code_simp

lemma sample_evaluation_fails:
  "fst (process_target (sample_services False) sample_processor sample_clock sample_crawl_job sample_crawl_target
     ((with_core sample_claimed sample_world)\<lparr>wd_redis := sample_leased\<rparr>)) = Inl (ProcessDetection InvalidRuleDefinition)"
  by code_simp

theorem acknowledged_jobs_are_finished_witness:
  "\<exists>r w'. process_and_acknowledge (sample_services True) sample_processor RedisStreamsConfig_default sample_clock
       sample_received sample_world = Some (r, w')
     \<and> job_finished (st_core (wd_store w')) sample_crawl_job"
proof -
  let ?out = "process_failure (sample_services True) sample_processor 8 sample_crawl_job ''cancelled''
             ''politeness wait was cancelled'' (with_core sample_claimed sample_world)"
  have "process_and_acknowledge (sample_services True) sample_processor RedisStreamsConfig_default
      sample_clock sample_received sample_world \<noteq> None"
    by (simp add: process_and_acknowledge_def sample_received_def sample_cancelled_process)
  then obtain r w' where run: "process_and_acknowledge (sample_services True) sample_processor RedisStreamsConfig_default
      sample_clock sample_received sample_world = Some (r, w')"
    by auto
  obtain u mid where out: "?out = (Inr u, mid)"
    using sample_cancelled_recorded by (cases ?out) (auto simp: is_ok_iff)
  from acknowledged_jobs_are_finished [OF run] out have "job_finished (st_core (wd_store w')) sample_crawl_job"
    by (auto simp: sample_received_def sample_cancelled_process)
  with run show ?thesis by blast
qed

theorem unrecorded_processing_errors_witness:
  "\<exists>w'. process (sample_services False) sample_processor sample_clock sample_crawl_job sample_world =
       Some (Inl (ProcessDetection InvalidRuleDefinition), w')
     \<and> wd_store w' = (wd_store sample_world)\<lparr>st_core := sample_claimed\<rparr>"
proof -
  have w: "wd_redis (with_core sample_claimed sample_world) = sample_state 5000 None"
    by (simp add: with_core_def sample_world_def)
  obtain w' where run: "process (sample_services False) sample_processor sample_clock sample_crawl_job sample_world =
       Some (Inl (ProcessDetection InvalidRuleDefinition), w')"
    using sample_evaluation_fails by (auto simp: sample_process Let_def w sample_gate_open prod_eq_iff)
  have "sv_between (sample_services False) = (\<lambda>st. st)" by (simp add: sample_services_def)
  with unrecorded_processing_errors [OF run] run show ?thesis
    by (auto simp: sample_sel sample_claim_ready [unfolded sample_claim_def])
qed

end
