(* ===== verification/Config.thy ===== *)
theory Config
  imports Queue
begin

text \<open>
  The configuration of the three services: \<open>AppConfig\<close> of the API (\<^verbatim>\<open>crates/common/src/lib.rs\<close>),
  \<open>SchedulerConfig\<close> (\<^verbatim>\<open>apps/scheduler/src/main.rs\<close>) and \<open>WorkerConfig\<close> (\<^verbatim>\<open>apps/worker/src/main.rs\<close>), each
  built from the same environment by its own helpers.  An environment is the list of its pairs, as
  \<open>env::vars()\<close> yields them; parsing of integers and of socket addresses is that of the standard library;
  \<open>url_parse\<close> is \<open>Url::parse\<close> and \<open>header_ok\<close> is \<open>HeaderValue::from_str\<close>.  Secrets are plain strings.
\<close>

section \<open>Numbers and socket addresses\<close>

text \<open>\<open>str::parse\<close> of an unsigned integer of the given width: an optional plus sign and digits, checked.\<close>

fun parse_digits :: "nat \<Rightarrow> nat \<Rightarrow> string \<Rightarrow> nat option" where
  "parse_digits bits acc [] = Some acc"
| "parse_digits bits acc (c # cs) =
     (if is_ascii_digit c \<and> acc * 10 + (byte_val c - 48) < 2 ^ bits
      then parse_digits bits (acc * 10 + (byte_val c - 48)) cs else None)"

definition parse_uint :: "nat \<Rightarrow> string \<Rightarrow> nat option" where
  "parse_uint bits s =
     (let ds = (if take 1 s = ''+'' then drop 1 s else s) in
      if ds = [] then None else parse_digits bits 0 ds)"

definition to_digit :: "nat \<Rightarrow> char \<Rightarrow> nat option" where
  "to_digit radix c =
     (let v = byte_val c;
          d = (if 48 \<le> v \<and> v \<le> 57 then v - 48 else if 97 \<le> v \<and> v \<le> 122 then v - 87
               else if 65 \<le> v \<and> v \<le> 90 then v - 55 else radix) in
      if d < radix then Some d else None)"

fun read_digits :: "nat \<Rightarrow> nat \<Rightarrow> nat \<Rightarrow> string \<Rightarrow> nat \<times> nat \<times> string" where
  "read_digits radix n acc [] = (n, acc, [])"
| "read_digits radix n acc (c # cs) =
     (case to_digit radix c of
        None \<Rightarrow> (n, acc, c # cs)
      | Some d \<Rightarrow> read_digits radix (n + 1) (acc * radix + d) cs)"

definition read_number :: "nat \<Rightarrow> nat option \<Rightarrow> bool \<Rightarrow> nat \<Rightarrow> string \<Rightarrow> (nat \<times> string) option" where
  "read_number radix max_digits allow_zero_prefix bits s =
     (case read_digits radix 0 0 s of
        (n, v, rest) \<Rightarrow>
          if n = 0 \<or> (case max_digits of None \<Rightarrow> False | Some m \<Rightarrow> m < n) \<or> 2 ^ bits \<le> v
             \<or> (\<not> allow_zero_prefix \<and> take 1 s = ''0'' \<and> 1 < n)
          then None else Some (v, rest))"

definition read_char :: "char \<Rightarrow> string \<Rightarrow> string option" where
  "read_char c s = (case s of [] \<Rightarrow> None | x # xs \<Rightarrow> if x = c then Some xs else None)"

definition read_separated :: "char \<Rightarrow> bool \<Rightarrow> (string \<Rightarrow> ('a \<times> string) option) \<Rightarrow> string \<Rightarrow> ('a \<times> string) option" where
  "read_separated c first f s = (if first then f s else Option.bind (read_char c s) f)"

fun read_octets :: "nat \<Rightarrow> bool \<Rightarrow> nat \<Rightarrow> string \<Rightarrow> (nat \<times> string) option" where
  "read_octets 0 first acc s = Some (acc, s)"
| "read_octets (Suc n) first acc s =
     Option.bind (read_separated (CHR ''.'') first (read_number 10 (Some 3) False 8) s)
       (\<lambda>(v, s). read_octets n False (acc * 256 + v) s)"

definition read_ipv4_addr :: "string \<Rightarrow> (nat \<times> string) option" where
  "read_ipv4_addr s = read_octets 4 True 0 s"

fun read_groups :: "nat \<Rightarrow> bool \<Rightarrow> string \<Rightarrow> nat list \<times> bool \<times> string" where
  "read_groups 0 first s = ([], False, s)"
| "read_groups (Suc left) first s =
     (case (if 0 < left then read_separated (CHR '':'') first read_ipv4_addr s else None) of
        Some (w, s) \<Rightarrow> ([w div 65536, w mod 65536], True, s)
      | None \<Rightarrow>
          (case read_separated (CHR '':'') first (read_number 16 (Some 4) True 16) s of
             None \<Rightarrow> ([], False, s)
           | Some (g, s) \<Rightarrow> (case read_groups left False s of (gs, v4, s) \<Rightarrow> (g # gs, v4, s))))"

definition segments_word :: "nat list \<Rightarrow> 128 word" where
  "segments_word gs = of_nat (foldl (\<lambda>acc g. acc * 65536 + g) 0 gs)"

definition read_ipv6_addr :: "string \<Rightarrow> (128 word \<times> string) option" where
  "read_ipv6_addr s =
     (case read_groups 8 True s of
        (front, v4, s) \<Rightarrow>
          if length front = 8 then Some (segments_word front, s)
          else if v4 then None
          else
            Option.bind (read_char (CHR '':'') s) (\<lambda>s. Option.bind (read_char (CHR '':'') s) (\<lambda>s.
            (case read_groups (8 - (length front + 1)) True s of
               (back, _, s) \<Rightarrow>
                 Some (segments_word (front @ replicate (8 - length front - length back) 0 @ back), s)))))"

datatype sock_addr = SockV4 u32 u16 | SockV6 "128 word" u16 u32

definition read_port :: "string \<Rightarrow> (u16 \<times> string) option" where
  "read_port s =
     Option.bind (read_char (CHR '':'') s) (\<lambda>s. map_option (\<lambda>(p, s). (of_nat p, s)) (read_number 10 None True 16 s))"

definition read_scope_id :: "string \<Rightarrow> u32 \<times> string" where
  "read_scope_id s =
     (case Option.bind (read_char (CHR ''%'') s) (read_number 10 None True 32) of
        None \<Rightarrow> (0, s)
      | Some (n, s) \<Rightarrow> (of_nat n, s))"

definition read_socket_addr_v4 :: "string \<Rightarrow> (sock_addr \<times> string) option" where
  "read_socket_addr_v4 s =
     Option.bind (read_ipv4_addr s) (\<lambda>(a, s). map_option (\<lambda>(p, s). (SockV4 (of_nat a) p, s)) (read_port s))"

definition read_socket_addr_v6 :: "string \<Rightarrow> (sock_addr \<times> string) option" where
  "read_socket_addr_v6 s =
     Option.bind (read_char (CHR ''['') s) (\<lambda>s.
     Option.bind (read_ipv6_addr s) (\<lambda>(a, s).
     (case read_scope_id s of
        (scope, s) \<Rightarrow>
          Option.bind (read_char (CHR '']'') s) (\<lambda>s. map_option (\<lambda>(p, s). (SockV6 a p scope, s)) (read_port s)))))"

definition SocketAddr_parse :: "string \<Rightarrow> sock_addr option" where
  "SocketAddr_parse s =
     (case (case read_socket_addr_v4 s of None \<Rightarrow> read_socket_addr_v6 s | r \<Rightarrow> r) of
        Some (a, []) \<Rightarrow> Some a
      | _ \<Rightarrow> None)"

section \<open>Environments\<close>

type_synonym env_map = "(string \<times> string) list"

definition collect_env :: "(string \<times> string) list \<Rightarrow> env_map" where
  "collect_env pairs = foldl (\<lambda>m (k, v). btree_insert k v m) [] pairs"

definition blank :: "string \<Rightarrow> bool" where
  "blank s = (trim s = [])"

text \<open>\<open>get(name).filter(|value| !value.trim().is_empty())\<close>.\<close>

definition non_blank :: "env_map \<Rightarrow> string \<Rightarrow> string option" where
  "non_blank values name = (case map_of values name of Some v \<Rightarrow> if blank v then None else Some v | None \<Rightarrow> None)"

section \<open>The configuration of the API\<close>

datatype config_error = ConfigMissing string | ConfigInvalid string

definition api_required :: "env_map \<Rightarrow> string \<Rightarrow> (config_error, string) result" where
  "api_required values name = ok_or (ConfigMissing name) (non_blank values name)"

definition api_required_url :: "(string \<Rightarrow> url option) \<Rightarrow> env_map \<Rightarrow> string \<Rightarrow> (config_error, string) result" where
  "api_required_url url_parse values name =
     rbind (api_required values name) (\<lambda>value.
     rbind (ok_or (ConfigInvalid name) (url_parse value)) (\<lambda>_. Inr value))"

text \<open>
  The same chain is written out for the rate limit, the timeout and the freshness window as in the helpers
  \<open>positive_u16\<close> and \<open>positive_u32\<close>; \<open>bits\<close> is the width of the integer type.
\<close>

definition api_positive :: "nat \<Rightarrow> env_map \<Rightarrow> string \<Rightarrow> nat \<Rightarrow> (config_error, nat) result" where
  "api_positive bits values name dflt =
     rbind (case non_blank values name of
              None \<Rightarrow> Inr dflt
            | Some value \<Rightarrow> ok_or (ConfigInvalid name) (parse_uint bits value)) (\<lambda>value.
     if value = 0 then Inl (ConfigInvalid name) else Inr value)"

definition api_positive_u16 :: "env_map \<Rightarrow> string \<Rightarrow> nat \<Rightarrow> (config_error, nat) result" where
  "api_positive_u16 = api_positive 16"

definition api_positive_u32 :: "env_map \<Rightarrow> string \<Rightarrow> nat \<Rightarrow> (config_error, nat) result" where
  "api_positive_u32 = api_positive 32"

record app_config =
  ac_bind_address :: sock_addr
  ac_database_url :: string
  ac_redis_url :: string
  ac_meilisearch_url :: url
  ac_meilisearch_master_key :: string
  ac_admin_oidc_issuer :: url
  ac_admin_oidc_audience :: string
  ac_admin_oidc_jwks_url :: url
  ac_admin_rate_limit_per_minute :: nat
  ac_admin_mutation_rate_limit_per_minute :: nat
  ac_log_filter :: string
  ac_dependency_check_timeout :: duration
  ac_public_stale_after_days :: nat
  ac_public_refresh_cooldown_hours :: nat

definition AppConfig_from_pairs ::
    "(string \<Rightarrow> url option) \<Rightarrow> (string \<times> string) list \<Rightarrow> (config_error, app_config) result" where
  "AppConfig_from_pairs url_parse pairs =
     (let values = collect_env pairs in
      rbind (ok_or (ConfigInvalid ''API_BIND_ADDRESS'') (SocketAddr_parse
               (case non_blank values ''API_BIND_ADDRESS'' of None \<Rightarrow> ''0.0.0.0:3000'' | Some v \<Rightarrow> v))) (\<lambda>bind_address.
      rbind (api_required_url url_parse values ''DATABASE_URL'') (\<lambda>database_url.
      rbind (api_required_url url_parse values ''REDIS_URL'') (\<lambda>redis_url.
      rbind (api_required_url url_parse values ''MEILISEARCH_URL'') (\<lambda>meilisearch_url.
      rbind (api_required values ''MEILI_MASTER_KEY'') (\<lambda>master_key.
      rbind (api_required_url url_parse values ''ADMIN_OIDC_ISSUER'') (\<lambda>issuer.
      rbind (api_required values ''ADMIN_OIDC_AUDIENCE'') (\<lambda>audience.
      rbind (api_required_url url_parse values ''ADMIN_OIDC_JWKS_URL'') (\<lambda>jwks_url.
      rbind (api_positive 32 values ''ADMIN_RATE_LIMIT_PER_MINUTE'' 60) (\<lambda>rate.
      rbind (api_positive_u32 values ''ADMIN_MUTATION_RATE_LIMIT_PER_MINUTE'' 30) (\<lambda>mutation_rate.
      rbind (api_positive 64 values ''DEPENDENCY_CHECK_TIMEOUT_MS'' 2000) (\<lambda>milliseconds.
      rbind (api_positive 16 values ''PUBLIC_STALE_AFTER_DAYS'' 30) (\<lambda>stale_days.
      rbind (api_positive_u16 values ''PUBLIC_REFRESH_COOLDOWN_HOURS'' 24) (\<lambda>cooldown_hours.
      rbind (ok_or (ConfigInvalid ''MEILISEARCH_URL'') (url_parse meilisearch_url)) (\<lambda>meilisearch.
      rbind (ok_or (ConfigInvalid ''ADMIN_OIDC_ISSUER'') (url_parse issuer)) (\<lambda>issuer.
      rbind (ok_or (ConfigInvalid ''ADMIN_OIDC_JWKS_URL'') (url_parse jwks_url)) (\<lambda>jwks.
      Inr \<lparr>ac_bind_address = bind_address, ac_database_url = database_url, ac_redis_url = redis_url,
           ac_meilisearch_url = meilisearch, ac_meilisearch_master_key = master_key, ac_admin_oidc_issuer = issuer,
           ac_admin_oidc_audience = audience, ac_admin_oidc_jwks_url = jwks, ac_admin_rate_limit_per_minute = rate,
           ac_admin_mutation_rate_limit_per_minute = mutation_rate,
           ac_log_filter = (case non_blank values ''RUST_LOG'' of None \<Rightarrow> ''techatlas_api=info,tower_http=info'' | Some v \<Rightarrow> v),
           ac_dependency_check_timeout = from_millis milliseconds, ac_public_stale_after_days = stale_days,
           ac_public_refresh_cooldown_hours = cooldown_hours\<rparr>)))))))))))))))))"

datatype dependency_status = DependencyReady | DependencyUnavailable

definition is_ready :: "dependency_status \<Rightarrow> bool" where
  "is_ready s = (s = DependencyReady)"

section \<open>The configuration of the scheduler\<close>

datatype scheduler_config_error = SchedulerMissing string | SchedulerInvalid string

definition has_accepted_scheme :: "string \<Rightarrow> string list \<Rightarrow> bool" where
  "has_accepted_scheme value accepted_schemes =
     ((case split_on (CHR '':'') value of [] \<Rightarrow> [] | t # _ \<Rightarrow> t) \<in> set accepted_schemes)"

definition sched_required_url :: "env_map \<Rightarrow> string \<Rightarrow> string list \<Rightarrow> (scheduler_config_error, string) result" where
  "sched_required_url values name accepted_schemes =
     rbind (ok_or (SchedulerMissing name) (non_blank values name)) (\<lambda>value.
     if has_accepted_scheme value accepted_schemes then Inr value else Inl (SchedulerInvalid name))"

definition sched_optional :: "env_map \<Rightarrow> string \<Rightarrow> string \<Rightarrow> string" where
  "sched_optional values name dflt = (case non_blank values name of None \<Rightarrow> dflt | Some v \<Rightarrow> v)"

definition sched_parse :: "nat \<Rightarrow> env_map \<Rightarrow> string \<Rightarrow> nat \<Rightarrow> (scheduler_config_error, nat) result" where
  "sched_parse bits values name dflt =
     ok_or (SchedulerInvalid name) (parse_uint bits (sched_optional values name (dec_str dflt)))"

definition sched_positive_millis :: "env_map \<Rightarrow> string \<Rightarrow> nat \<Rightarrow> (scheduler_config_error, duration) result" where
  "sched_positive_millis values name dflt =
     rbind (sched_parse 64 values name dflt) (\<lambda>value.
     if value = 0 then Inl (SchedulerInvalid name) else Inr (from_millis value))"

definition sched_positive_usize :: "env_map \<Rightarrow> string \<Rightarrow> nat \<Rightarrow> (scheduler_config_error, nat) result" where
  "sched_positive_usize values name dflt =
     rbind (sched_parse 64 values name dflt) (\<lambda>value.
     if value = 0 then Inl (SchedulerInvalid name) else Inr value)"

definition sched_positive_u8 :: "env_map \<Rightarrow> string \<Rightarrow> nat \<Rightarrow> (scheduler_config_error, u8) result" where
  "sched_positive_u8 values name dflt =
     rbind (sched_parse 8 values name dflt) (\<lambda>value.
     if value = 0 then Inl (SchedulerInvalid name) else Inr (of_nat value))"

definition positive_u8_or_zero :: "env_map \<Rightarrow> string \<Rightarrow> nat \<Rightarrow> (scheduler_config_error, u8) result" where
  "positive_u8_or_zero values name dflt = rbind (sched_parse 8 values name dflt) (\<lambda>value. Inr (of_nat value))"

definition bounded_minutes :: "env_map \<Rightarrow> string \<Rightarrow> nat \<Rightarrow> (scheduler_config_error, nat) result" where
  "bounded_minutes values name dflt =
     rbind (sched_parse 16 values name dflt) (\<lambda>value.
     if value > 1439 then Inl (SchedulerInvalid name) else Inr value)"

record scheduler_config =
  sc_bind_address :: sock_addr
  sc_database_url :: string
  sc_redis_url :: string
  sc_log_filter :: string
  sc_poll_interval :: duration
  sc_batch_size :: nat
  sc_stale_attempt_timeout :: duration
  sc_operation_timeout :: duration
  sc_adoption_snapshot_delay_minutes :: nat
  sc_scheduler_settings :: scheduler_settings

definition SchedulerConfig_from_pairs ::
    "(string \<times> string) list \<Rightarrow> (scheduler_config_error, scheduler_config) result" where
  "SchedulerConfig_from_pairs pairs =
     (let values = collect_env pairs in
      rbind (ok_or (SchedulerInvalid ''SCHEDULER_BIND_ADDRESS'')
               (SocketAddr_parse (sched_optional values ''SCHEDULER_BIND_ADDRESS'' ''0.0.0.0:3001''))) (\<lambda>bind_address.
      rbind (sched_required_url values ''DATABASE_URL'' [''postgres'', ''postgresql'']) (\<lambda>database_url.
      rbind (sched_required_url values ''REDIS_URL'' [''redis'', ''rediss'']) (\<lambda>redis_url.
      rbind (sched_positive_millis values ''SCHEDULER_POLL_INTERVAL_MS'' 1000) (\<lambda>poll_interval.
      rbind (sched_positive_millis values ''SCHEDULER_OPERATION_TIMEOUT_MS'' 5000) (\<lambda>timeout.
      rbind (sched_positive_usize values ''SCHEDULER_BATCH_SIZE'' 100) (\<lambda>batch.
      rbind (sched_positive_millis values ''SCHEDULER_STALE_ATTEMPT_TIMEOUT_MS'' 900000) (\<lambda>stale_timeout.
      rbind (positive_u8_or_zero values ''SCHEDULER_MAX_CRAWL_RETRIES'' 3) (\<lambda>max_retries.
      rbind (sched_positive_millis values ''SCHEDULER_CRAWL_RETRY_BASE_MS'' 300000) (\<lambda>retry_base.
      rbind (sched_positive_u8 values ''SCHEDULER_MAX_OUTBOX_PUBLISH_ATTEMPTS'' 5) (\<lambda>max_publish.
      rbind (sched_positive_millis values ''SCHEDULER_OUTBOX_RETRY_BASE_MS'' 5000) (\<lambda>publish_base.
      rbind (bounded_minutes values ''SCHEDULER_ADOPTION_SNAPSHOT_DELAY_MINUTES'' 5) (\<lambda>delay_minutes.
      rbind (map_err (\<lambda>_. SchedulerInvalid ''scheduler retry configuration'')
               (SchedulerSettings_new max_retries retry_base max_publish publish_base)) (\<lambda>settings.
      Inr \<lparr>sc_bind_address = bind_address, sc_database_url = database_url, sc_redis_url = redis_url,
           sc_log_filter = sched_optional values ''RUST_LOG'' ''techatlas_scheduler=info'',
           sc_poll_interval = poll_interval, sc_batch_size = batch, sc_stale_attempt_timeout = stale_timeout,
           sc_operation_timeout = timeout, sc_adoption_snapshot_delay_minutes = delay_minutes,
           sc_scheduler_settings = settings\<rparr>))))))))))))))"

section \<open>The configuration of the worker\<close>

datatype worker_config_error = WorkerMissing string | WorkerInvalid string

definition worker_optional :: "env_map \<Rightarrow> string \<Rightarrow> string \<Rightarrow> string" where
  "worker_optional values name dflt = (case map_of values name of None \<Rightarrow> dflt | Some v \<Rightarrow> v)"

definition worker_required_url ::
    "(string \<Rightarrow> url option) \<Rightarrow> env_map \<Rightarrow> string \<Rightarrow> string list \<Rightarrow> (worker_config_error, string) result" where
  "worker_required_url url_parse values name allowed_schemes =
     rbind (ok_or (WorkerMissing name) (map_of values name)) (\<lambda>value.
     rbind (ok_or (WorkerInvalid name) (url_parse value)) (\<lambda>parsed.
     if url_scheme parsed \<notin> set allowed_schemes \<or> url_host_of parsed = None then Inl (WorkerInvalid name)
     else Inr value))"

definition worker_required :: "env_map \<Rightarrow> string \<Rightarrow> (worker_config_error, string) result" where
  "worker_required values name = ok_or (WorkerMissing name) (non_blank values name)"

text \<open>The body shared by the worker's five positive-integer helpers; \<open>bits\<close> is the width of their type.\<close>

definition worker_positive :: "nat \<Rightarrow> env_map \<Rightarrow> string \<Rightarrow> nat \<Rightarrow> (worker_config_error, nat) result" where
  "worker_positive bits values name dflt =
     (let value = (case map_of values name of None \<Rightarrow> [] | Some v \<Rightarrow> v) in
      rbind (if value = [] then Inr dflt else ok_or (WorkerInvalid name) (parse_uint bits value)) (\<lambda>value.
      if value = 0 then Inl (WorkerInvalid name) else Inr value))"

definition worker_positive_millis :: "env_map \<Rightarrow> string \<Rightarrow> nat \<Rightarrow> (worker_config_error, duration) result" where
  "worker_positive_millis values name dflt =
     rbind (worker_positive 64 values name dflt) (\<lambda>value. Inr (from_millis value))"

definition worker_positive_usize :: "env_map \<Rightarrow> string \<Rightarrow> nat \<Rightarrow> (worker_config_error, nat) result" where
  "worker_positive_usize = worker_positive 64"

definition worker_positive_u64 :: "env_map \<Rightarrow> string \<Rightarrow> nat \<Rightarrow> (worker_config_error, nat) result" where
  "worker_positive_u64 = worker_positive 64"

definition worker_positive_u8 :: "env_map \<Rightarrow> string \<Rightarrow> nat \<Rightarrow> (worker_config_error, u8) result" where
  "worker_positive_u8 values name dflt = rbind (worker_positive 8 values name dflt) (\<lambda>value. Inr (of_nat value))"

definition worker_positive_u16 :: "env_map \<Rightarrow> string \<Rightarrow> nat \<Rightarrow> (worker_config_error, nat) result" where
  "worker_positive_u16 = worker_positive 16"

definition zero_or_positive_u8 :: "env_map \<Rightarrow> string \<Rightarrow> nat \<Rightarrow> (worker_config_error, u8) result" where
  "zero_or_positive_u8 values name dflt =
     (case map_of values name of
        None \<Rightarrow> Inr (of_nat dflt)
      | Some value \<Rightarrow> rbind (ok_or (WorkerInvalid name) (parse_uint 8 value)) (\<lambda>n. Inr (of_nat n)))"

definition crawler_config_from ::
    "(string \<Rightarrow> bool) \<Rightarrow> env_map \<Rightarrow> (worker_config_error, crawler_config) result" where
  "crawler_config_from header_ok values =
     (let config = CrawlerConfig_default;
          agent = worker_optional values ''WORKER_CRAWLER_USER_AGENT'' (user_agent config);
          robots_agent = worker_optional values ''WORKER_CRAWLER_ROBOTS_USER_AGENT'' (robots_user_agent config);
          owner = worker_optional values ''WORKER_CRAWLER_CONTACT'' (contact config) in
      rbind (worker_positive_millis values ''WORKER_CRAWLER_CONNECT_TIMEOUT_MS'' 5000) (\<lambda>connect.
      rbind (worker_positive_millis values ''WORKER_CRAWLER_READ_TIMEOUT_MS'' 15000) (\<lambda>reading.
      rbind (worker_positive_millis values ''WORKER_CRAWLER_TOTAL_TIMEOUT_MS'' 30000) (\<lambda>total.
      rbind (worker_positive_millis values ''WORKER_CRAWLER_DNS_TIMEOUT_MS'' 5000) (\<lambda>dns.
      rbind (worker_positive_usize values ''WORKER_CRAWLER_DNS_MAX_ADDRESSES'' 16) (\<lambda>dns_max.
      rbind (worker_positive_millis values ''WORKER_CRAWLER_TLS_TIMEOUT_MS'' 5000) (\<lambda>tls.
      rbind (worker_positive_usize values ''WORKER_CRAWLER_TLS_MAX_ADDRESSES'' 4) (\<lambda>tls_max.
      rbind (worker_positive_usize values ''WORKER_CRAWLER_MAX_REDIRECTS'' 10) (\<lambda>redirect_max.
      rbind (worker_positive_u64 values ''WORKER_CRAWLER_MAX_RESPONSE_BYTES'' (10 * 1024 * 1024)) (\<lambda>bytes.
      rbind (worker_positive_millis values ''WORKER_CRAWLER_POLITENESS_DELAY_MS'' 1000) (\<lambda>delay.
      (let config = config\<lparr>user_agent := agent, robots_user_agent := robots_agent, contact := owner,
             connect_timeout := connect, read_timeout := reading, total_timeout := total, dns_timeout := dns,
             dns_max_addresses := dns_max, tls_timeout := tls, tls_max_addresses := tls_max,
             max_redirects := redirect_max, max_response_bytes := bytes, politeness_delay := delay\<rparr> in
       rbind (map_err (\<lambda>_. WorkerInvalid ''worker crawler configuration'') (CrawlerConfig_validate header_ok config)) (\<lambda>_.
       Inr config)))))))))))))"

record geoip_database_config =
  geoip_path :: string
  geoip_version :: string

record worker_config =
  wc_bind_address :: sock_addr
  wc_database_url :: string
  wc_redis_url :: string
  wc_consumer_name :: crawl_job_consumer_name
  wc_worker_region :: string
  wc_log_filter :: string
  wc_max_concurrency :: nat
  wc_operation_timeout :: duration
  wc_error_backoff :: duration
  wc_heartbeat_interval :: duration
  wc_queue_config :: redis_streams_config
  wc_politeness_config :: redis_politeness_config
  wc_crawler_config :: crawler_config
  wc_artifact_root :: string
  wc_artifact_retention_days :: nat
  wc_scheduler_settings :: scheduler_settings
  wc_meilisearch_url :: url
  wc_meilisearch_master_key :: string
  wc_index_poll_interval :: duration
  wc_index_batch_size :: nat
  wc_index_max_attempts :: u8
  wc_index_retry_base :: duration
  wc_index_operation_timeout :: duration
  wc_reprocessing_poll_interval :: duration
  wc_reprocessing_retry_delay :: int
  wc_reprocessing_max_attempts :: nat
  wc_geoip_database :: "geoip_database_config option"

text \<open>\<open>time::Duration::try_from\<close> a standard duration: its seconds have to fit in an \<open>i64\<close>.\<close>

definition time_duration_try_from :: "duration \<Rightarrow> int option" where
  "time_duration_try_from d = (if d div 1000000000 < 2 ^ 63 then Some (int d) else None)"

definition geoip_config :: "env_map \<Rightarrow> (worker_config_error, geoip_database_config option) result" where
  "geoip_config values =
     (case non_blank values ''WORKER_GEOIP_DATABASE_PATH'' of
        None \<Rightarrow> Inr None
      | Some path \<Rightarrow>
          if path = [] then Inl (WorkerInvalid ''WORKER_GEOIP_DATABASE_PATH'')
          else rbind (worker_required values ''WORKER_GEOIP_DATABASE_VERSION'') (\<lambda>version.
               Inr (Some \<lparr>geoip_path = path, geoip_version = version\<rparr>)))"

definition worker_queue_config ::
    "env_map \<Rightarrow> duration \<Rightarrow> (worker_config_error, redis_streams_config) result" where
  "worker_queue_config values timeout =
     rbind (worker_positive_usize values ''WORKER_QUEUE_BATCH_SIZE'' 10) (\<lambda>batch.
     rbind (worker_positive_millis values ''WORKER_QUEUE_READ_BLOCK_MS'' 1000) (\<lambda>block_for.
     rbind (worker_positive_millis values ''WORKER_QUEUE_CLAIM_IDLE_MS'' 60000) (\<lambda>idle.
     rbind (worker_positive_usize values ''WORKER_QUEUE_MAX_DELIVERIES'' 5) (\<lambda>deliveries.
     rbind (map_err (\<lambda>_. WorkerInvalid ''worker queue read configuration'')
              (with_read_options RedisStreamsConfig_default batch block_for timeout)) (\<lambda>config.
     map_err (\<lambda>_. WorkerInvalid ''worker queue recovery configuration'')
       (with_recovery_policy config idle deliveries))))))"

definition worker_retry_settings :: "env_map \<Rightarrow> (worker_config_error, scheduler_settings) result" where
  "worker_retry_settings values =
     rbind (zero_or_positive_u8 values ''SCHEDULER_MAX_CRAWL_RETRIES'' 3) (\<lambda>max_retries.
     rbind (worker_positive_millis values ''SCHEDULER_CRAWL_RETRY_BASE_MS'' 300000) (\<lambda>retry_base.
     rbind (worker_positive_u8 values ''SCHEDULER_MAX_OUTBOX_PUBLISH_ATTEMPTS'' 5) (\<lambda>max_publish.
     rbind (worker_positive_millis values ''SCHEDULER_OUTBOX_RETRY_BASE_MS'' 5000) (\<lambda>publish_base.
     map_err (\<lambda>_. WorkerInvalid ''scheduler retry configuration'')
       (SchedulerSettings_new max_retries retry_base max_publish publish_base)))))"

definition WorkerConfig_from_pairs ::
    "(string \<Rightarrow> url option) \<Rightarrow> (string \<Rightarrow> bool) \<Rightarrow> (string \<times> string) list \<Rightarrow> (worker_config_error, worker_config) result" where
  "WorkerConfig_from_pairs url_parse header_ok pairs =
     (let values = collect_env pairs in
      rbind (ok_or (WorkerInvalid ''WORKER_BIND_ADDRESS'')
               (SocketAddr_parse (worker_optional values ''WORKER_BIND_ADDRESS'' ''0.0.0.0:3002''))) (\<lambda>bind_address.
      rbind (worker_required_url url_parse values ''DATABASE_URL'' [''postgres'', ''postgresql'']) (\<lambda>database_url.
      rbind (worker_required_url url_parse values ''REDIS_URL'' [''redis'', ''rediss'']) (\<lambda>redis_url.
      rbind (map_err (\<lambda>_. WorkerInvalid ''WORKER_CONSUMER_NAME'')
               (CrawlJobConsumerName_parse (worker_optional values ''WORKER_CONSUMER_NAME'' ''worker-local-1''))) (\<lambda>consumer.
      (let region = worker_optional values ''WORKER_REGION'' ''local'' in
      if blank region then Inl (WorkerInvalid ''WORKER_REGION'') else
      rbind (worker_positive_millis values ''WORKER_OPERATION_TIMEOUT_MS'' 5000) (\<lambda>timeout.
      rbind (worker_queue_config values timeout) (\<lambda>queue.
      rbind (map_err (\<lambda>_. WorkerInvalid ''worker politeness configuration'')
               (RedisPolitenessConfig_new
                  (worker_optional values ''WORKER_POLITENESS_KEY_PREFIX'' ''techatlas:crawl-politeness:v1'') timeout)) (\<lambda>politeness.
      rbind (crawler_config_from header_ok values) (\<lambda>crawler.
      (let root = worker_optional values ''WORKER_ARTIFACT_ROOT'' ''.techatlas/artifacts'' in
      if root = [] then Inl (WorkerInvalid ''WORKER_ARTIFACT_ROOT'') else
      rbind (worker_positive_u16 values ''WORKER_ARTIFACT_RETENTION_DAYS'' 30) (\<lambda>retention_days.
      rbind (worker_retry_settings values) (\<lambda>settings.
      rbind (rbind (worker_required_url url_parse values ''MEILISEARCH_URL'' [''http'', ''https'']) (\<lambda>u.
             ok_or (WorkerInvalid ''MEILISEARCH_URL'') (url_parse u))) (\<lambda>meilisearch.
      rbind (worker_required values ''MEILI_MASTER_KEY'') (\<lambda>master_key.
      rbind (geoip_config values) (\<lambda>geoip.
      rbind (worker_positive_millis values ''WORKER_REPROCESSING_POLL_INTERVAL_MS'' 1000) (\<lambda>reprocessing_poll.
      rbind (rbind (worker_positive_millis values ''WORKER_REPROCESSING_RETRY_DELAY_MS'' 5000) (\<lambda>d.
             ok_or (WorkerInvalid ''WORKER_REPROCESSING_RETRY_DELAY_MS'') (time_duration_try_from d))) (\<lambda>reprocessing_delay.
      rbind (worker_positive_u16 values ''WORKER_REPROCESSING_MAX_ATTEMPTS'' 3) (\<lambda>reprocessing_max.
      rbind (worker_positive_usize values ''WORKER_MAX_CONCURRENCY'' 4) (\<lambda>concurrency.
      rbind (worker_positive_millis values ''WORKER_ERROR_BACKOFF_MS'' 1000) (\<lambda>backoff.
      rbind (worker_positive_millis values ''WORKER_HEARTBEAT_INTERVAL_MS'' 15000) (\<lambda>heartbeat.
      rbind (worker_positive_millis values ''WORKER_INDEX_POLL_INTERVAL_MS'' 5000) (\<lambda>index_poll.
      rbind (worker_positive_usize values ''WORKER_INDEX_BATCH_SIZE'' 100) (\<lambda>index_batch.
      rbind (worker_positive_u8 values ''WORKER_INDEX_MAX_ATTEMPTS'' 5) (\<lambda>index_max.
      rbind (worker_positive_millis values ''WORKER_INDEX_RETRY_BASE_MS'' 1000) (\<lambda>index_base.
      rbind (worker_positive_millis values ''WORKER_INDEX_OPERATION_TIMEOUT_MS'' 10000) (\<lambda>index_timeout.
      Inr \<lparr>wc_bind_address = bind_address, wc_database_url = database_url, wc_redis_url = redis_url,
           wc_consumer_name = consumer, wc_worker_region = region,
           wc_log_filter = worker_optional values ''RUST_LOG'' ''techatlas_worker=info'',
           wc_max_concurrency = concurrency, wc_operation_timeout = timeout, wc_error_backoff = backoff,
           wc_heartbeat_interval = heartbeat, wc_queue_config = queue, wc_politeness_config = politeness,
           wc_crawler_config = crawler, wc_artifact_root = root, wc_artifact_retention_days = retention_days,
           wc_scheduler_settings = settings, wc_meilisearch_url = meilisearch, wc_meilisearch_master_key = master_key,
           wc_index_poll_interval = index_poll, wc_index_batch_size = index_batch, wc_index_max_attempts = index_max,
           wc_index_retry_base = index_base, wc_index_operation_timeout = index_timeout,
           wc_reprocessing_poll_interval = reprocessing_poll, wc_reprocessing_retry_delay = reprocessing_delay,
           wc_reprocessing_max_attempts = reprocessing_max, wc_geoip_database = geoip\<rparr>)))))))))))))))))))))))))))"

definition artifact_retention :: "worker_config \<Rightarrow> int" where
  "artifact_retention config = int (wc_artifact_retention_days config) * 86400 * 1000000000"

definition retry_delay :: "duration \<Rightarrow> u8 \<Rightarrow> duration" where
  "retry_delay base attempt =
     (let exponent = min (unat attempt - 1) 10 in
      case duration_checked_mul base (of_nat (2 ^ exponent)) of None \<Rightarrow> base | Some d \<Rightarrow> d)"

section \<open>Numbers survive printing\<close>

lemma parse_digits_chars: "parse_digits bits acc s = Some n \<Longrightarrow> \<forall>c \<in> set s. is_ascii_digit c"
  by (induction bits acc s rule: parse_digits.induct) (auto split: if_splits)

lemma parse_digits_append:
  "parse_digits bits acc (s @ t) = Option.bind (parse_digits bits acc s) (\<lambda>v. parse_digits bits v t)"
  by (induction bits acc s rule: parse_digits.induct) auto

lemma digit_char: "d < 10 \<Longrightarrow> is_ascii_digit (char_of (48 + d)) \<and> byte_val (char_of (48 + d) :: char) - 48 = d"
  for d :: nat
  by (simp add: is_ascii_digit_def byte_val_def)

lemma parse_digits_dec_str: "n < 2 ^ bits \<Longrightarrow> parse_digits bits 0 (dec_str n) = Some n"
proof (induction n rule: dec_str.induct)
  case (1 n)
  show ?case
  proof (cases "n < 10")
    case True
    with 1 show ?thesis by (subst dec_str.simps) (simp add: digit_char)
  next
    case False
    then have "n div 10 < 2 ^ bits" using 1(2) by (meson div_le_dividend le_less_trans)
    then have "parse_digits bits 0 (dec_str (n div 10)) = Some (n div 10)" using 1(1) False by blast
    moreover have "n mod 10 < 10" by simp
    ultimately show ?thesis
      using 1(2) False by (subst dec_str.simps) (simp add: parse_digits_append digit_char)
  qed
qed

lemma dec_str_hd: "dec_str n = c # cs \<Longrightarrow> c \<noteq> CHR ''+''"
  using dec_str_chars [of n] by (auto simp: addr_char_def is_ascii_digit_def byte_val_def)

lemma parse_uint_dec_str [simp]: "n < 2 ^ bits \<Longrightarrow> parse_uint bits (dec_str n) = Some n"
  using dec_str_hd [of n] dec_str_chars [of n] parse_digits_dec_str [of n bits]
  by (cases "dec_str n") (auto simp: parse_uint_def Let_def simp del: parse_digits.simps)

text \<open>A number is never blank: its first and last characters are ASCII and no whitespace.\<close>

lemma parse_uint_not_blank:
  assumes "parse_uint bits s = Some n"
  shows "\<not> blank s"
proof -
  have s: "s \<noteq> []" using assms by (auto simp: parse_uint_def)
  have "\<forall>c \<in> set s. is_ascii_digit c \<or> c = CHR ''+''"
    using assms s by (cases s) (auto simp: parse_uint_def Let_def dest: parse_digits_chars split: if_splits)
  then have "byte_val c < 0x80 \<and> \<not> ws1 c" if "c \<in> set s" for c
    using that by (auto simp: is_ascii_digit_def ws1_def byte_val_def)
  with s have "trim s = s" by (intro trim_ascii) auto
  with s show ?thesis by (simp add: blank_def)
qed

section \<open>The services agree\<close>

lemma non_blank_Some: "non_blank values name = Some v \<Longrightarrow> map_of values name = Some v \<and> \<not> blank v"
  by (auto simp: non_blank_def split: option.splits if_splits)

lemma blank_Nil [simp]: "blank []"
  by (simp add: blank_def)

lemma parse_agrees:
  assumes "sched_parse bits values name dflt = Inr x" and "dflt < 2 ^ bits"
    and "worker_positive bits values name dflt = Inr y"
  shows "x = y"
  using assms
  by (auto simp: sched_parse_def worker_positive_def sched_optional_def non_blank_def Let_def
      dest: parse_uint_not_blank split: option.splits if_splits)

lemma millis_agree:
  "sched_positive_millis values name dflt = Inr x \<Longrightarrow> worker_positive_millis values name dflt = Inr y \<Longrightarrow>
   dflt < 2 ^ 64 \<Longrightarrow> x = y"
  by (auto simp: sched_positive_millis_def worker_positive_millis_def dest: parse_agrees split: if_splits)

lemma positive_u8_agree:
  "sched_positive_u8 values name dflt = Inr x \<Longrightarrow> worker_positive_u8 values name dflt = Inr y \<Longrightarrow>
   dflt < 2 ^ 8 \<Longrightarrow> x = y"
  by (auto simp: sched_positive_u8_def worker_positive_u8_def dest: parse_agrees split: if_splits)

lemma retries_agree:
  "positive_u8_or_zero values name dflt = Inr x \<Longrightarrow> zero_or_positive_u8 values name dflt = Inr y \<Longrightarrow>
   dflt < 2 ^ 8 \<Longrightarrow> x = y"
  by (auto simp: positive_u8_or_zero_def zero_or_positive_u8_def sched_parse_def sched_optional_def non_blank_def
      dest: parse_uint_not_blank split: option.splits if_splits)

lemma scheduler_config_settings:
  assumes "SchedulerConfig_from_pairs pairs = Inr S" and "values = collect_env pairs"
  shows "\<exists>a b c d. positive_u8_or_zero values ''SCHEDULER_MAX_CRAWL_RETRIES'' 3 = Inr a
      \<and> sched_positive_millis values ''SCHEDULER_CRAWL_RETRY_BASE_MS'' 300000 = Inr b
      \<and> sched_positive_u8 values ''SCHEDULER_MAX_OUTBOX_PUBLISH_ATTEMPTS'' 5 = Inr c
      \<and> sched_positive_millis values ''SCHEDULER_OUTBOX_RETRY_BASE_MS'' 5000 = Inr d
      \<and> SchedulerSettings_new a b c d = Inr (sc_scheduler_settings S)"
  using assms by (auto simp: SchedulerConfig_from_pairs_def Let_def)

lemma scheduler_config_urls:
  assumes "SchedulerConfig_from_pairs pairs = Inr S" and "values = collect_env pairs"
  shows "non_blank values ''DATABASE_URL'' = Some (sc_database_url S)
    \<and> non_blank values ''REDIS_URL'' = Some (sc_redis_url S)"
  using assms by (auto simp: SchedulerConfig_from_pairs_def sched_required_url_def Let_def split: if_splits)

lemma scheduler_config_bounds:
  assumes "SchedulerConfig_from_pairs pairs = Inr S"
  shows "0 < sc_poll_interval S \<and> 0 < sc_batch_size S \<and> 0 < sc_operation_timeout S \<and> 0 < sc_stale_attempt_timeout S
    \<and> sc_adoption_snapshot_delay_minutes S < 24 * 60"
  using assms
  by (auto simp: SchedulerConfig_from_pairs_def sched_positive_millis_def sched_positive_usize_def bounded_minutes_def
      from_millis_def Let_def split: if_splits)

lemma worker_settings:
  assumes "worker_retry_settings values = Inr s"
  shows "\<exists>a b c d. zero_or_positive_u8 values ''SCHEDULER_MAX_CRAWL_RETRIES'' 3 = Inr a
      \<and> worker_positive_millis values ''SCHEDULER_CRAWL_RETRY_BASE_MS'' 300000 = Inr b
      \<and> worker_positive_u8 values ''SCHEDULER_MAX_OUTBOX_PUBLISH_ATTEMPTS'' 5 = Inr c
      \<and> worker_positive_millis values ''SCHEDULER_OUTBOX_RETRY_BASE_MS'' 5000 = Inr d
      \<and> SchedulerSettings_new a b c d = Inr s"
  using assms by (auto simp: worker_retry_settings_def)

lemma worker_positive_pos: "worker_positive bits values name dflt = Inr n \<Longrightarrow> 0 < n"
  by (auto simp: worker_positive_def Let_def split: if_splits)

lemma worker_millis_pos: "worker_positive_millis values name dflt = Inr n \<Longrightarrow> 0 < n"
  by (auto simp: worker_positive_millis_def from_millis_def dest: worker_positive_pos)

lemma worker_queue_config_bounds:
  "worker_queue_config values t = Inr q \<Longrightarrow>
   0 < batch_size q \<and> 0 < max_deliveries q \<and> read_block q \<le> operation_timeout q \<and> operation_timeout q = t"
  by (auto simp: worker_queue_config_def with_read_options_def with_recovery_policy_def split: if_splits)

lemma guard_eq_Inr [simp]: "(if b then Inl e else r) = Inr x \<longleftrightarrow> \<not> b \<and> r = Inr x"
  by simp

lemma worker_config_parts:
  assumes "WorkerConfig_from_pairs url_parse header_ok pairs = Inr W" and "values = collect_env pairs"
  shows "worker_retry_settings values = Inr (wc_scheduler_settings W)"
    and "map_of values ''DATABASE_URL'' = Some (wc_database_url W)"
    and "map_of values ''REDIS_URL'' = Some (wc_redis_url W)"
    and "\<exists>u. map_of values ''MEILISEARCH_URL'' = Some u \<and> url_parse u = Some (wc_meilisearch_url W)"
    and "non_blank values ''MEILI_MASTER_KEY'' = Some (wc_meilisearch_master_key W)"
    and "\<exists>t. worker_queue_config values t = Inr (wc_queue_config W)"
    and "0 < wc_max_concurrency W"
  using assms
  by (clarsimp simp: WorkerConfig_from_pairs_def worker_required_url_def worker_required_def worker_positive_usize_def
      Let_def; fastforce dest: worker_positive_pos)+

lemma app_config_parts:
  assumes "AppConfig_from_pairs url_parse pairs = Inr A" and "values = collect_env pairs"
  shows "non_blank values ''DATABASE_URL'' = Some (ac_database_url A)"
    and "non_blank values ''REDIS_URL'' = Some (ac_redis_url A)"
    and "\<exists>u. non_blank values ''MEILISEARCH_URL'' = Some u \<and> url_parse u = Some (ac_meilisearch_url A)"
    and "non_blank values ''MEILI_MASTER_KEY'' = Some (ac_meilisearch_master_key A)"
  using assms
  by (auto simp: AppConfig_from_pairs_def api_required_url_def api_required_def Let_def)

lemma shared_settings:
  assumes S: "SchedulerConfig_from_pairs pairs = Inr S" and W: "WorkerConfig_from_pairs url_parse header_ok pairs = Inr W"
  shows "sc_scheduler_settings S = wc_scheduler_settings W \<and> settings_ok (wc_scheduler_settings W)"
proof -
  let ?v = "collect_env pairs"
  obtain a b c d where s: "positive_u8_or_zero ?v ''SCHEDULER_MAX_CRAWL_RETRIES'' 3 = Inr a"
      "sched_positive_millis ?v ''SCHEDULER_CRAWL_RETRY_BASE_MS'' 300000 = Inr b"
      "sched_positive_u8 ?v ''SCHEDULER_MAX_OUTBOX_PUBLISH_ATTEMPTS'' 5 = Inr c"
      "sched_positive_millis ?v ''SCHEDULER_OUTBOX_RETRY_BASE_MS'' 5000 = Inr d"
      "SchedulerSettings_new a b c d = Inr (sc_scheduler_settings S)"
    using scheduler_config_settings [OF S refl] by blast
  obtain a' b' c' d' where w: "zero_or_positive_u8 ?v ''SCHEDULER_MAX_CRAWL_RETRIES'' 3 = Inr a'"
      "worker_positive_millis ?v ''SCHEDULER_CRAWL_RETRY_BASE_MS'' 300000 = Inr b'"
      "worker_positive_u8 ?v ''SCHEDULER_MAX_OUTBOX_PUBLISH_ATTEMPTS'' 5 = Inr c'"
      "worker_positive_millis ?v ''SCHEDULER_OUTBOX_RETRY_BASE_MS'' 5000 = Inr d'"
      "SchedulerSettings_new a' b' c' d' = Inr (wc_scheduler_settings W)"
    using worker_settings [OF worker_config_parts(1) [OF W refl]] by blast
  have "a = a'" "b = b'" "c = c'" "d = d'"
    using retries_agree [OF s(1) w(1)] millis_agree [OF s(2) w(2)] positive_u8_agree [OF s(3) w(3)]
      millis_agree [OF s(4) w(4)] by simp_all
  with s(5) w(5) have "sc_scheduler_settings S = wc_scheduler_settings W" by simp
  with SchedulerSettings_new_ok [OF w(5)] show ?thesis by simp
qed

text \<open>
  Whenever the API, the scheduler and the worker all accept one environment, they work on the same
  database, Redis and search index with the same key, and the worker decides on retries with exactly the
  settings of the scheduler, which are valid; the intervals, batch sizes and limits of the loops are
  positive, a queue read returns before its operation times out, and the daily capture starts within the day.
\<close>

theorem services_share_configuration:
  assumes "AppConfig_from_pairs url_parse pairs = Inr A"
    and "SchedulerConfig_from_pairs pairs = Inr S"
    and "WorkerConfig_from_pairs url_parse header_ok pairs = Inr W"
  shows "sc_scheduler_settings S = wc_scheduler_settings W \<and> settings_ok (wc_scheduler_settings W)
    \<and> ac_database_url A = sc_database_url S \<and> sc_database_url S = wc_database_url W
    \<and> ac_redis_url A = sc_redis_url S \<and> sc_redis_url S = wc_redis_url W
    \<and> ac_meilisearch_url A = wc_meilisearch_url W \<and> ac_meilisearch_master_key A = wc_meilisearch_master_key W
    \<and> 0 < sc_poll_interval S \<and> 0 < sc_batch_size S \<and> 0 < sc_stale_attempt_timeout S
    \<and> sc_adoption_snapshot_delay_minutes S < 24 * 60
    \<and> 0 < wc_max_concurrency W \<and> 0 < batch_size (wc_queue_config W)
    \<and> read_block (wc_queue_config W) \<le> operation_timeout (wc_queue_config W)"
proof -
  note a = app_config_parts [OF assms(1) refl]
  note s = scheduler_config_urls [OF assms(2) refl]
  note w = worker_config_parts [OF assms(3) refl]
  have "ac_meilisearch_url A = wc_meilisearch_url W" using a(3) w(4) by (auto dest: non_blank_Some)
  moreover have "sc_database_url S = wc_database_url W" "sc_redis_url S = wc_redis_url W"
    using s w(2,3) by (auto dest: non_blank_Some)
  moreover have "ac_database_url A = sc_database_url S" "ac_redis_url A = sc_redis_url S"
      "ac_meilisearch_master_key A = wc_meilisearch_master_key W" using s a(1,2,4) w(5) by auto
  ultimately show ?thesis
    using shared_settings [OF assms(2,3)] scheduler_config_bounds [OF assms(2)] w(6,7)
    by (auto dest: worker_queue_config_bounds)
qed

text \<open>Three services on one machine, with only the required variables set.\<close>

definition sample_url_parse :: "string \<Rightarrow> url option" where
  "sample_url_parse s =
     map_option (\<lambda>(scheme, host). \<lparr>url_scheme = scheme, url_username = [], url_password = None,
       url_host_of = Some (HostDomain host), url_port = None, url_path = ''/'', url_query = None, url_fragment = None\<rparr>)
       (split_once s ''://'')"

definition sample_variables :: "(string \<times> string) list" where
  "sample_variables =
     [(''DATABASE_URL'', ''postgres://db''), (''REDIS_URL'', ''redis://cache''),
      (''MEILISEARCH_URL'', ''http://search''), (''MEILI_MASTER_KEY'', ''k''),
      (''ADMIN_OIDC_ISSUER'', ''https://id''), (''ADMIN_OIDC_AUDIENCE'', ''a''), (''ADMIN_OIDC_JWKS_URL'', ''https://id'')]"

lemma Inr_projr: "is_ok r \<Longrightarrow> r = Inr (projr r)"
  by (cases r) (simp_all add: is_ok_def)

lemma sample_api_ok: "is_ok (AppConfig_from_pairs sample_url_parse sample_variables)"
  by code_simp

lemma sample_scheduler_ok: "is_ok (SchedulerConfig_from_pairs sample_variables)"
  by code_simp

lemma sample_worker_ok: "is_ok (WorkerConfig_from_pairs sample_url_parse (\<lambda>_. True) sample_variables)"
  by code_simp

theorem services_share_configuration_witness:
  "sc_scheduler_settings (projr (SchedulerConfig_from_pairs sample_variables))
     = wc_scheduler_settings (projr (WorkerConfig_from_pairs sample_url_parse (\<lambda>_. True) sample_variables))
   \<and> settings_ok (wc_scheduler_settings (projr (WorkerConfig_from_pairs sample_url_parse (\<lambda>_. True) sample_variables)))
   \<and> ac_database_url (projr (AppConfig_from_pairs sample_url_parse sample_variables))
     = sc_database_url (projr (SchedulerConfig_from_pairs sample_variables))"
  using services_share_configuration [OF Inr_projr [OF sample_api_ok] Inr_projr [OF sample_scheduler_ok]
      Inr_projr [OF sample_worker_ok]] by blast

section \<open>Blank values\<close>

lemma collect_env_sorted: "sorted_wrt (<) (map fst m) \<Longrightarrow>
    sorted_wrt (<) (map fst (foldl (\<lambda>m (k, v). btree_insert k v m) m pairs))
    \<and> map_of (foldl (\<lambda>m (k, v). btree_insert k v m) m pairs) = map_of m ++ map_of (rev pairs)"
proof (induction pairs arbitrary: m)
  case (Cons p pairs)
  obtain k v where p: "p = (k, v)" by (cases p)
  have "sorted_wrt (<) (map fst (btree_insert k v m))" using Cons.prems by simp
  from Cons.IH [OF this] Cons.prems show ?case by (simp add: p map_add_def fun_eq_iff split: option.splits)
qed simp

lemma map_of_collect_env: "map_of (collect_env pairs) = map_of (rev pairs)"
  using collect_env_sorted [of "[]" pairs] by (simp add: collect_env_def)

lemma map_of_filter_key: "map_of (filter (\<lambda>p. fst p \<noteq> k) ps) n = (if n = k then None else map_of ps n)"
  by (induction ps) auto

text \<open>Removing a blank variable changes nothing that is read through \<open>non_blank\<close>.\<close>

lemma non_blank_without:
  assumes "map_of (collect_env pairs) k = Some v" and "blank v"
  shows "non_blank (collect_env (filter (\<lambda>p. fst p \<noteq> k) pairs)) = non_blank (collect_env pairs)"
proof
  fix n
  show "non_blank (collect_env (filter (\<lambda>p. fst p \<noteq> k) pairs)) n = non_blank (collect_env pairs) n"
    using assms by (simp add: non_blank_def map_of_collect_env rev_filter map_of_filter_key)
qed

lemma sched_optional_cong: "non_blank m = non_blank m' \<Longrightarrow> sched_optional m = sched_optional m'"
  by (simp add: sched_optional_def fun_eq_iff)

lemma scheduler_config_cong:
  assumes "non_blank (collect_env p) = non_blank (collect_env q)"
  shows "SchedulerConfig_from_pairs p = SchedulerConfig_from_pairs q"
  by (simp add: SchedulerConfig_from_pairs_def sched_required_url_def sched_positive_millis_def sched_positive_usize_def
      sched_positive_u8_def positive_u8_or_zero_def bounded_minutes_def sched_parse_def
      sched_optional_cong [OF assms] assms Let_def)

lemma blank_not_number: "blank v \<Longrightarrow> parse_uint bits v = None"
  using parse_uint_not_blank [of bits v] by (cases "parse_uint bits v") auto

text \<open>
  A blank value of the crawl retry limit, even the empty one, keeps every worker from starting, while
  the scheduler reads the same variable as if it were not set.
\<close>

theorem blank_retry_limit_stops_workers:
  assumes "map_of (collect_env pairs) ''SCHEDULER_MAX_CRAWL_RETRIES'' = Some v" and "blank v"
  shows "\<not> is_ok (WorkerConfig_from_pairs url_parse header_ok pairs)
    \<and> SchedulerConfig_from_pairs pairs
      = SchedulerConfig_from_pairs (filter (\<lambda>p. fst p \<noteq> ''SCHEDULER_MAX_CRAWL_RETRIES'') pairs)"
proof
  have "worker_retry_settings (collect_env pairs) = Inl (WorkerInvalid ''SCHEDULER_MAX_CRAWL_RETRIES'')"
    using assms by (simp add: worker_retry_settings_def zero_or_positive_u8_def blank_not_number)
  then have "WorkerConfig_from_pairs url_parse header_ok pairs \<noteq> Inr W" for W
    using worker_config_parts(1) [of url_parse header_ok pairs W] by auto
  then show "\<not> is_ok (WorkerConfig_from_pairs url_parse header_ok pairs)"
    by (auto simp: is_ok_def split: sum.splits)
  show "SchedulerConfig_from_pairs pairs
      = SchedulerConfig_from_pairs (filter (\<lambda>p. fst p \<noteq> ''SCHEDULER_MAX_CRAWL_RETRIES'') pairs)"
    by (rule scheduler_config_cong) (rule non_blank_without [OF assms, symmetric])
qed

theorem blank_retry_limit_stops_workers_witness:
  "\<not> is_ok (WorkerConfig_from_pairs sample_url_parse (\<lambda>_. True) ((''SCHEDULER_MAX_CRAWL_RETRIES'', []) # sample_variables))
   \<and> is_ok (SchedulerConfig_from_pairs ((''SCHEDULER_MAX_CRAWL_RETRIES'', []) # sample_variables))"
proof -
  have "map_of (collect_env ((''SCHEDULER_MAX_CRAWL_RETRIES'', []) # sample_variables)) ''SCHEDULER_MAX_CRAWL_RETRIES'' = Some []"
    by code_simp
  note this [THEN blank_retry_limit_stops_workers, OF blank_Nil, of sample_url_parse "\<lambda>_. True"]
  moreover have "filter (\<lambda>p. fst p \<noteq> ''SCHEDULER_MAX_CRAWL_RETRIES'') ((''SCHEDULER_MAX_CRAWL_RETRIES'', []) # sample_variables)
      = sample_variables" by (simp add: sample_variables_def)
  ultimately show ?thesis using sample_scheduler_ok by simp
qed

end
