(* ===== verification/Adoption_Store.thy ===== *)
theory Adoption_Store
  imports Worker_Properties
begin

text \<open>
  The daily adoption projection (\<^verbatim>\<open>database/adoption_projection_repository.rs\<close>): the capture of the
  current technologies once a day and the rebuilding of past days from the snapshots.  A date is its number
  of days after 1970-01-01; the largest date of the \<^verbatim>\<open>time\<close> crate is 9999-12-31.  Each day of a rebuild is
  a transaction of its own, so an error keeps the days before it.
\<close>

section \<open>State\<close>

type_synonym date = int

definition DATE_MAX :: date where "DATE_MAX = 2932896"

definition NANOS_PER_DAY :: int where "NANOS_PER_DAY = 86400 * 1000000000"

definition next_day :: "date \<Rightarrow> date option" where
  "next_day day = (if day < DATE_MAX then Some (day + 1) else None)"

text \<open>\<open>with_time(MIDNIGHT).assume_utc()\<close>.\<close>

definition midnight_utc :: "date \<Rightarrow> instant" where
  "midnight_utc day = day * NANOS_PER_DAY"

record adoption_row =
  adr_observed_on :: date
  adr_technology_id :: uuid
  adr_domain_count :: nat
  adr_captured_at :: instant

text \<open>\<open>ad_created_at\<close> is the column \<^verbatim>\<open>technologies.created_at\<close>.\<close>

record adoption_db =
  ad_store :: store
  ad_created_at :: "uuid \<Rightarrow> instant"
  ad_daily :: "adoption_row list"

record adoption_capture_result =
  capture_inserted_rows :: nat
  capture_already_captured :: bool

record adoption_history_rebuild_result =
  rebuilt_days :: nat
  rebuild_inserted_rows :: nat

definition adoption_key :: "adoption_row \<Rightarrow> date \<times> uuid" where
  "adoption_key r = (adr_observed_on r, adr_technology_id r)"

text \<open>INSERT of several rows: the primary key is the day with the technology.\<close>

definition insert_daily :: "adoption_row list \<Rightarrow> adoption_row list \<Rightarrow> adoption_row list option" where
  "insert_daily rows new = (if distinct (map adoption_key (rows @ new)) then Some (rows @ new) else None)"

section \<open>Operations\<close>

definition current_domains :: "store \<Rightarrow> uuid \<Rightarrow> nat" where
  "current_domains st t = length (filter (\<lambda>c. cur_technology_id c = t) (st_current st))"

definition capture_daily_adoption ::
    "adoption_db \<Rightarrow> date \<Rightarrow> instant \<Rightarrow> (scheduler_repository_error, adoption_capture_result \<times> adoption_db) result" where
  "capture_daily_adoption d observed_on now =
     (if list_ex (\<lambda>r. adr_observed_on r = observed_on) (ad_daily d)
      then Inr (\<lparr>capture_inserted_rows = 0, capture_already_captured = True\<rparr>, d)
      else
        (let rows = map (\<lambda>t. \<lparr>adr_observed_on = observed_on, adr_technology_id = tech_id t,
                     adr_domain_count = current_domains (ad_store d) (tech_id t), adr_captured_at = now\<rparr>)
                    (st_technologies (ad_store d)) in
         rbind (sched (insert_daily (ad_daily d) rows)) (\<lambda>daily.
         Inr (\<lparr>capture_inserted_rows = length rows, capture_already_captured = False\<rparr>, d\<lparr>ad_daily := daily\<rparr>))))"

text \<open>
  \<open>DISTINCT ON (domain_id) \<dots> ORDER BY domain_id, captured_at DESC\<close>: of the snapshots of one domain captured at
  the same instant the database takes any; \<open>tie\<close> is its choice.
\<close>

definition latest_of :: "(uuid \<Rightarrow> nat) \<Rightarrow> snapshot_row list \<Rightarrow> uuid \<Rightarrow> snapshot_row option" where
  "latest_of tie snaps i =
     (case sort_key (\<lambda>s. (snap_captured_at s, tie (snap_id s))) (filter (\<lambda>s. snap_domain_id s = i) snaps) of
        [] \<Rightarrow> None
      | s # ss \<Rightarrow> Some (last (s # ss)))"

definition latest_snapshots :: "(uuid \<Rightarrow> nat) \<Rightarrow> store \<Rightarrow> instant \<Rightarrow> snapshot_row list" where
  "latest_snapshots tie st cutoff =
     (let snaps = filter (\<lambda>s. list_ex (\<lambda>r. dr_id r = snap_domain_id s \<and> dr_archived_at r = None) (db_domains (st_core st))
                              \<and> snap_captured_at s < cutoff) (st_snapshots st) in
      List.map_filter (latest_of tie snaps) (remdups (map snap_domain_id snaps)))"

definition observed_count :: "(uuid \<Rightarrow> nat) \<Rightarrow> store \<Rightarrow> instant \<Rightarrow> uuid \<Rightarrow> nat" where
  "observed_count tie st cutoff t =
     length (remdups (map snap_domain_id
       (filter (\<lambda>s. list_ex (\<lambda>x. dtr_snapshot_id x = snap_id s \<and> dtr_technology_id x = t) (st_detections st))
          (latest_snapshots tie st cutoff))))"

definition rebuilt_rows :: "(uuid \<Rightarrow> nat) \<Rightarrow> adoption_db \<Rightarrow> date \<Rightarrow> instant \<Rightarrow> adoption_row list" where
  "rebuilt_rows tie d day rebuilt_at =
     (let cutoff = midnight_utc (day + 1) in
      map (\<lambda>t. \<lparr>adr_observed_on = day, adr_technology_id = tech_id t,
                adr_domain_count = observed_count tie (ad_store d) cutoff (tech_id t), adr_captured_at = rebuilt_at\<rparr>)
        (filter (\<lambda>t. ad_created_at d (tech_id t) < cutoff) (st_technologies (ad_store d))))"

definition rebuild_day :: "(uuid \<Rightarrow> nat) \<Rightarrow> adoption_db \<Rightarrow> date \<Rightarrow> instant \<Rightarrow> (scheduler_repository_error, nat \<times> adoption_db) result" where
  "rebuild_day tie d day rebuilt_at =
     (let kept = filter (\<lambda>r. adr_observed_on r \<noteq> day) (ad_daily d); rows = rebuilt_rows tie d day rebuilt_at in
      rbind (sched (insert_daily kept rows)) (\<lambda>daily. Inr (length rows, d\<lparr>ad_daily := daily\<rparr>)))"

definition saturating_u64 :: "nat \<Rightarrow> nat" where
  "saturating_u64 n = min n (2 ^ 64 - 1)"

function rebuild_days ::
    "(uuid \<Rightarrow> nat) \<Rightarrow> date \<Rightarrow> instant \<Rightarrow> date \<Rightarrow> nat \<Rightarrow> nat \<Rightarrow> adoption_db \<Rightarrow>
     (scheduler_repository_error, adoption_history_rebuild_result) result \<times> adoption_db" where
  "rebuild_days tie to rebuilt_at day days rows d =
     (case next_day day of
        None \<Rightarrow> (Inl SchedUnavailable, d)
      | Some following \<Rightarrow>
          (case rebuild_day tie d day rebuilt_at of
             Inl e \<Rightarrow> (Inl e, d)
           | Inr (n, d) \<Rightarrow>
               (let days = saturating_u64 (days + 1); rows = saturating_u64 (rows + n) in
                if day = to then (Inr \<lparr>rebuilt_days = days, rebuild_inserted_rows = rows\<rparr>, d)
                else rebuild_days tie to rebuilt_at following days rows d)))"
  by pat_completeness auto

termination
  by (relation "measure (\<lambda>(tie, to, rebuilt_at, day, days, rows, d). nat (DATE_MAX - day))")
     (auto simp: next_day_def split: if_splits)

declare rebuild_days.simps [simp del]

definition rebuild_adoption_history ::
    "(uuid \<Rightarrow> nat) \<Rightarrow> adoption_db \<Rightarrow> date \<Rightarrow> date \<Rightarrow> instant \<Rightarrow>
     (scheduler_repository_error, adoption_history_rebuild_result) result \<times> adoption_db" where
  "rebuild_adoption_history tie d from to rebuilt_at = rebuild_days tie to rebuilt_at from 0 0 d"

section \<open>The rows of a day\<close>

definition day_rows :: "adoption_db \<Rightarrow> date \<Rightarrow> adoption_row list" where
  "day_rows d day = filter (\<lambda>r. adr_observed_on r = day) (ad_daily d)"

text \<open>
  The specification: a technology's count is the number of active domains whose latest snapshot before the
  end of the day detects it.
\<close>

definition latest_before :: "(uuid \<Rightarrow> nat) \<Rightarrow> store \<Rightarrow> instant \<Rightarrow> uuid \<Rightarrow> snapshot_row \<Rightarrow> bool" where
  "latest_before tie st cutoff i s \<longleftrightarrow>
     s \<in> set (st_snapshots st) \<and> snap_domain_id s = i \<and> snap_captured_at s < cutoff
     \<and> (\<forall>x \<in> set (st_snapshots st). snap_domain_id x = i \<longrightarrow> snap_captured_at x < cutoff \<longrightarrow>
          (snap_captured_at x, tie (snap_id x)) \<le> (snap_captured_at s, tie (snap_id s)))"

definition active_domain :: "store \<Rightarrow> uuid \<Rightarrow> bool" where
  "active_domain st i = list_ex (\<lambda>r. dr_id r = i \<and> dr_archived_at r = None) (db_domains (st_core st))"

definition detects :: "store \<Rightarrow> uuid \<Rightarrow> snapshot_row \<Rightarrow> bool" where
  "detects st t s = list_ex (\<lambda>x. dtr_snapshot_id x = snap_id s \<and> dtr_technology_id x = t) (st_detections st)"

definition adopting_domains :: "(uuid \<Rightarrow> nat) \<Rightarrow> store \<Rightarrow> instant \<Rightarrow> uuid \<Rightarrow> uuid set" where
  "adopting_domains tie st cutoff t =
     {i. active_domain st i \<and> (\<exists>s. latest_before tie st cutoff i s \<and> detects st t s)}"

lemma last_sort_key_max:
  fixes k :: "'a \<Rightarrow> 'b::linorder"
  assumes "x \<in> set xs"
  shows "k x \<le> k (last (sort_key k xs))"
proof -
  have ne: "sort_key k xs \<noteq> []" using assms by auto
  have "x \<in> set (sort_key k xs)" using assms by simp
  then obtain i where i: "i < length (sort_key k xs)" "sort_key k xs ! i = x" by (meson in_set_conv_nth)
  have "sorted (map k (sort_key k xs))" by simp
  then have "map k (sort_key k xs) ! i \<le> map k (sort_key k xs) ! (length (sort_key k xs) - 1)"
    using i ne by (intro sorted_nth_mono) auto
  with i ne show ?thesis by (simp add: last_conv_nth)
qed

lemma latest_of_Some:
  "latest_of tie snaps i = Some s \<Longrightarrow> s \<in> set snaps \<and> snap_domain_id s = i
    \<and> (\<forall>x \<in> set snaps. snap_domain_id x = i \<longrightarrow>
         (snap_captured_at x, tie (snap_id x)) \<le> (snap_captured_at s, tie (snap_id s)))"
proof -
  assume l: "latest_of tie snaps i = Some s"
  let ?k = "\<lambda>s. (snap_captured_at s, tie (snap_id s))" and ?xs = "filter (\<lambda>s. snap_domain_id s = i) snaps"
  have s: "s = last (sort_key ?k ?xs)" "sort_key ?k ?xs \<noteq> []"
    using l by (auto simp: latest_of_def split: list.splits)
  have "s \<in> set (sort_key ?k ?xs)" unfolding s(1) by (rule last_in_set [OF s(2)])
  then have "s \<in> set ?xs" by (simp only: set_sort)
  moreover have "\<forall>x \<in> set ?xs. ?k x \<le> ?k s" using last_sort_key_max [of _ ?xs ?k] s(1) by blast
  ultimately show ?thesis by auto
qed

lemma latest_of_ex: "i \<in> snap_domain_id ` set snaps \<Longrightarrow> \<exists>s. latest_of tie snaps i = Some s"
proof -
  assume "i \<in> snap_domain_id ` set snaps"
  then have "filter (\<lambda>s. snap_domain_id s = i) snaps \<noteq> []" by (auto simp: filter_empty_conv)
  then have "sort_key (\<lambda>s. (snap_captured_at s, tie (snap_id s))) (filter (\<lambda>s. snap_domain_id s = i) snaps) \<noteq> []"
    by (simp only: sort_key_Nil_iff not_False_eq_True)
  then show ?thesis by (auto simp: latest_of_def simp del: sort_key_Nil_iff split: list.splits)
qed

lemma set_map_filter: "set (List.map_filter f xs) = {y. \<exists>x \<in> set xs. f x = Some y}"
  by (induction xs) (auto simp: List.map_filter_simps split: option.splits)

text \<open>What the rebuild relies on: snapshot identifiers are a primary key, and ties are broken.\<close>

definition snapshots_ok :: "(uuid \<Rightarrow> nat) \<Rightarrow> store \<Rightarrow> bool" where
  "snapshots_ok tie st = (distinct (map snap_id (st_snapshots st)) \<and> inj_on tie (snap_id ` set (st_snapshots st)))"

lemma latest_before_unique:
  assumes "snapshots_ok tie st" and "latest_before tie st cutoff i s" and "latest_before tie st cutoff i x"
  shows "s = x"
proof -
  have "tie (snap_id s) = tie (snap_id x)"
    using assms(2,3) unfolding latest_before_def by (metis order_antisym prod.inject)
  then have "snap_id s = snap_id x"
    using assms by (auto simp: snapshots_ok_def latest_before_def dest: inj_onD)
  with assms show ?thesis
    by (auto simp: snapshots_ok_def latest_before_def distinct_map dest: inj_onD)
qed

lemma set_latest_snapshots:
  assumes "snapshots_ok tie st"
  shows "s \<in> set (latest_snapshots tie st cutoff) \<longleftrightarrow>
    active_domain st (snap_domain_id s) \<and> latest_before tie st cutoff (snap_domain_id s) s"
proof -
  define snaps where "snaps = filter (\<lambda>s. active_domain st (snap_domain_id s) \<and> snap_captured_at s < cutoff) (st_snapshots st)"
  have mem: "s \<in> set (latest_snapshots tie st cutoff) \<longleftrightarrow>
      (\<exists>i \<in> snap_domain_id ` set snaps. latest_of tie snaps i = Some s)" for s
    unfolding latest_snapshots_def snaps_def active_domain_def [symmetric] Let_def set_map_filter set_remdups set_map by blast
  have lb: "active_domain st i \<and> latest_before tie st cutoff i s" if "latest_of tie snaps i = Some s" for i s
    using latest_of_Some [OF that] by (auto simp: snaps_def latest_before_def)
  show ?thesis
  proof
    assume "s \<in> set (latest_snapshots tie st cutoff)"
    then obtain i where "latest_of tie snaps i = Some s" using mem by blast
    with lb [OF this] latest_of_Some [OF this] show
      "active_domain st (snap_domain_id s) \<and> latest_before tie st cutoff (snap_domain_id s) s" by auto
  next
    assume a: "active_domain st (snap_domain_id s) \<and> latest_before tie st cutoff (snap_domain_id s) s"
    then have i: "snap_domain_id s \<in> snap_domain_id ` set snaps" by (auto simp: snaps_def latest_before_def)
    then obtain x where x: "latest_of tie snaps (snap_domain_id s) = Some x" using latest_of_ex by blast
    from a lb [OF x] have "s = x" using latest_before_unique [OF assms] by blast
    with x i mem show "s \<in> set (latest_snapshots tie st cutoff)" by blast
  qed
qed

lemma latest_before_domain: "latest_before tie st cutoff i s \<Longrightarrow> snap_domain_id s = i"
  by (simp add: latest_before_def)

lemma observed_count_spec:
  assumes "snapshots_ok tie st"
  shows "observed_count tie st cutoff t = card (adopting_domains tie st cutoff t)"
proof -
  have "snap_domain_id ` {s \<in> set (latest_snapshots tie st cutoff). detects st t s} = adopting_domains tie st cutoff t"
  proof (intro set_eqI iffI)
    fix i assume "i \<in> adopting_domains tie st cutoff t"
    then obtain s where "active_domain st i" "latest_before tie st cutoff i s" "detects st t s" "snap_domain_id s = i"
      by (auto simp: adopting_domains_def dest: latest_before_domain)
    then show "i \<in> snap_domain_id ` {s \<in> set (latest_snapshots tie st cutoff). detects st t s}"
      by (intro rev_image_eqI [of s]) (auto simp: set_latest_snapshots [OF assms])
  qed (auto simp: set_latest_snapshots [OF assms] adopting_domains_def)
  then show ?thesis
    by (simp add: observed_count_def detects_def [symmetric] length_remdups_card_conv)
qed

section \<open>Rebuilding a range\<close>

definition spec_rows :: "(uuid \<Rightarrow> nat) \<Rightarrow> adoption_db \<Rightarrow> date \<Rightarrow> instant \<Rightarrow> adoption_row list" where
  "spec_rows tie d day now =
     map (\<lambda>t. \<lparr>adr_observed_on = day, adr_technology_id = tech_id t,
        adr_domain_count = card (adopting_domains tie (ad_store d) (midnight_utc (day + 1)) (tech_id t)),
        adr_captured_at = now\<rparr>)
       (filter (\<lambda>t. ad_created_at d (tech_id t) < midnight_utc (day + 1)) (st_technologies (ad_store d)))"

lemma rebuilt_rows_spec: "snapshots_ok tie (ad_store d) \<Longrightarrow> rebuilt_rows tie d day now = spec_rows tie d day now"
  by (simp add: rebuilt_rows_def spec_rows_def Let_def observed_count_spec)

definition daily_ok :: "adoption_db \<Rightarrow> bool" where
  "daily_ok d = (distinct (map tech_id (st_technologies (ad_store d))) \<and> distinct (map adoption_key (ad_daily d)))"

lemma spec_rows_day: "r \<in> set (spec_rows tie d day now) \<Longrightarrow> adr_observed_on r = day"
  by (auto simp: spec_rows_def)

lemma spec_rows_keys:
  assumes "distinct (map tech_id (st_technologies (ad_store d)))"
  shows "distinct (map adoption_key (spec_rows tie d day now))"
  using assms
  by (auto simp: spec_rows_def comp_def adoption_key_def distinct_map inj_on_def)

lemma rebuild_day_spec:
  assumes "snapshots_ok tie (ad_store d)" and "daily_ok d"
  shows "\<exists>d'. rebuild_day tie d day now = Inr (length (spec_rows tie d day now), d') \<and> daily_ok d'
    \<and> ad_store d' = ad_store d \<and> ad_created_at d' = ad_created_at d
    \<and> (\<forall>x. day_rows d' x = (if x = day then spec_rows tie d day now else day_rows d x))"
proof -
  let ?kept = "filter (\<lambda>r. adr_observed_on r \<noteq> day) (ad_daily d)" and ?rows = "spec_rows tie d day now"
  have "distinct (map adoption_key (?kept @ ?rows))"
    using assms(2) spec_rows_keys [of d tie day now] spec_rows_day [of _ tie d day now]
    by (auto simp: daily_ok_def distinct_map inj_on_def adoption_key_def)
  moreover have "filter (\<lambda>r. adr_observed_on r = x) (?kept @ ?rows) = (if x = day then ?rows else day_rows d x)" for x
    using spec_rows_day [of _ tie d day now] by (auto simp: day_rows_def filter_empty_conv filter_id_conv intro!: filter_cong)
  ultimately show ?thesis
    using assms
    by (auto simp: rebuild_day_def insert_daily_def rebuilt_rows_spec sched_def Let_def daily_ok_def day_rows_def ok_or_def)
qed

lemma saturating_add [simp]: "saturating_u64 (saturating_u64 a + b) = saturating_u64 (a + b)"
  by (auto simp: saturating_u64_def min_def)

text \<open>The last day a rebuild from \<open>day\<close> reaches: the end of the range, or the day before the last date.\<close>

definition last_rebuilt :: "date \<Rightarrow> date \<Rightarrow> date" where
  "last_rebuilt day to = (if day \<le> to \<and> to < DATE_MAX then to else DATE_MAX - 1)"

lemma spec_rows_cong:
  "ad_store d' = ad_store d \<Longrightarrow> ad_created_at d' = ad_created_at d \<Longrightarrow> spec_rows tie d' x now = spec_rows tie d x now"
  by (simp add: spec_rows_def)

lemma sum_from: "day < (to :: int) \<Longrightarrow> (\<Sum>x \<in> {day..to}. f x) = f day + (\<Sum>x \<in> {day + 1..to}. f x)"
proof -
  assume "day < to"
  then have "{day..to} = insert day {day + 1..to}" by auto
  then show ?thesis by simp
qed

lemma rebuild_days_spec:
  assumes "snapshots_ok tie (ad_store d)" and "daily_ok d" and "day \<le> DATE_MAX"
  shows "\<exists>d'. rebuild_days tie to now day days rows d =
      (if day \<le> to \<and> to < DATE_MAX
       then Inr \<lparr>rebuilt_days = saturating_u64 (days + nat (to - day + 1)),
                 rebuild_inserted_rows = saturating_u64 (rows + (\<Sum>x \<in> {day..to}. length (spec_rows tie d x now)))\<rparr>
       else Inl SchedUnavailable, d')
    \<and> daily_ok d' \<and> ad_store d' = ad_store d \<and> ad_created_at d' = ad_created_at d
    \<and> (\<forall>x. day_rows d' x = (if day \<le> x \<and> x \<le> last_rebuilt day to then spec_rows tie d x now else day_rows d x))"
  using assms
proof (induction tie to now day days rows d rule: rebuild_days.induct)
  case (1 tie to now day days rows d)
  show ?case
  proof (cases "day < DATE_MAX")
    case False
    with "1.prems"(3) have "day = DATE_MAX" by simp
    with "1.prems" show ?thesis
      by (subst rebuild_days.simps) (auto simp: next_day_def last_rebuilt_def)
  next
    case True
    then have nd: "next_day day = Some (day + 1)" by (simp add: next_day_def)
    obtain d1 where d1: "rebuild_day tie d day now = Inr (length (spec_rows tie d day now), d1)" "daily_ok d1"
        "ad_store d1 = ad_store d" "ad_created_at d1 = ad_created_at d"
        "\<forall>x. day_rows d1 x = (if x = day then spec_rows tie d day now else day_rows d x)"
      using rebuild_day_spec [OF "1.prems"(1,2)] by blast
    note cong = spec_rows_cong [OF d1(3,4)]
    show ?thesis
    proof (cases "day = to")
      case eq: True
      then show ?thesis
        using True nd d1 by (subst rebuild_days.simps) (auto simp: last_rebuilt_def Let_def)
    next
      case ne: False
      have step: "rebuild_days tie to now day days rows d = rebuild_days tie to now (day + 1)
          (saturating_u64 (days + 1)) (saturating_u64 (rows + length (spec_rows tie d day now))) d1"
        using nd d1(1) ne by (subst rebuild_days.simps) (simp add: Let_def)
      have lr: "last_rebuilt (day + 1) to = last_rebuilt day to" using ne by (auto simp: last_rebuilt_def)
      have dl: "day \<le> last_rebuilt day to" using True by (auto simp: last_rebuilt_def)
      have days: "days + 1 + nat (to - (day + 1) + 1) = days + nat (to - day + 1)" if "day \<le> to"
        using that by simp
      have sums: "rows + length (spec_rows tie d day now) + (\<Sum>x \<in> {day + 1..to}. length (spec_rows tie d x now))
          = rows + (\<Sum>x \<in> {day..to}. length (spec_rows tie d x now))" if "day \<le> to"
        using that ne by (simp add: sum_from)
      obtain d' where d': "rebuild_days tie to now (day + 1) (saturating_u64 (days + 1))
            (saturating_u64 (rows + length (spec_rows tie d day now))) d1 =
          (if day + 1 \<le> to \<and> to < DATE_MAX
           then Inr \<lparr>rebuilt_days = saturating_u64 (days + 1 + nat (to - (day + 1) + 1)),
                 rebuild_inserted_rows = saturating_u64 (rows + length (spec_rows tie d day now)
                   + (\<Sum>x \<in> {day + 1..to}. length (spec_rows tie d x now)))\<rparr>
           else Inl SchedUnavailable, d')"
        and keep: "daily_ok d' \<and> ad_store d' = ad_store d \<and> ad_created_at d' = ad_created_at d"
        and rows: "\<forall>x. day_rows d' x = (if day + 1 \<le> x \<and> x \<le> last_rebuilt day to then spec_rows tie d x now else day_rows d1 x)"
        using "1.IH" [OF nd d1(1) refl refl refl ne] "1.prems"(1) d1(2,3,4) True
        by (auto simp: cong lr)
      have "day_rows d' x = (if day \<le> x \<and> x \<le> last_rebuilt day to then spec_rows tie d x now else day_rows d x)" for x
        using rows d1(5) dl by (cases "x = day") auto
      moreover have "rebuild_days tie to now day days rows d =
          (if day \<le> to \<and> to < DATE_MAX
           then Inr \<lparr>rebuilt_days = saturating_u64 (days + nat (to - day + 1)),
                 rebuild_inserted_rows = saturating_u64 (rows + (\<Sum>x \<in> {day..to}. length (spec_rows tie d x now)))\<rparr>
           else Inl SchedUnavailable, d')"
      proof (cases "day \<le> to")
        case True
        with ne have "day + 1 \<le> to" by simp
        with True show ?thesis unfolding step d' days [OF True] sums [OF True] by simp
      next
        case False
        then show ?thesis unfolding step d' by simp
      qed
      ultimately show ?thesis using keep by (intro exI [of _ d'] conjI allI) auto
    qed
  qed
qed

text \<open>
  C23: A rebuild of the adoption history ends, whatever the range.  It succeeds exactly when the range
  does not end before it starts nor at the last representable date; then every day of the range holds one
  row for each technology known by the end of that day, counting the active domains whose latest snapshot
  up to then detects it, and other days are untouched.  Otherwise it fails only after every day up to the last
  date has been rewritten.
\<close>

theorem rebuild_matches_snapshots:
  assumes "snapshots_ok tie (ad_store d)" and "daily_ok d" and "from \<le> DATE_MAX"
    and "rebuild_adoption_history tie d from to now = (r, d')"
  shows "r = (if from \<le> to \<and> to < DATE_MAX
       then Inr \<lparr>rebuilt_days = saturating_u64 (nat (to - from + 1)),
                 rebuild_inserted_rows = saturating_u64 (\<Sum>x \<in> {from..to}. length (spec_rows tie d x now))\<rparr>
       else Inl SchedUnavailable)
    \<and> daily_ok d' \<and> ad_store d' = ad_store d
    \<and> day_rows d' x = (if from \<le> x \<and> x \<le> last_rebuilt from to then spec_rows tie d x now else day_rows d x)"
  using rebuild_days_spec [OF assms(1,2,3), of to now 0 0] assms(4)
  by (auto simp: rebuild_adoption_history_def)

section \<open>A sample history\<close>

text \<open>
  One active domain with two snapshots: php was detected by the first; the second detected nginx and could
  not observe php, which therefore stays among the current technologies.
\<close>

definition sample_snapshot :: "uuid \<Rightarrow> instant \<Rightarrow> snapshot_row" where
  "sample_snapshot i t = \<lparr>snap_id = i, snap_attempt_id = i, snap_domain_id = 0, snap_requested_url = ''https://c.com/'',
     snap_final_url = ''https://c.com/'', snap_redirect_chain = JArray [], snap_response_status = 200,
     snap_response_headers = JNull, snap_body_bytes = 4, snap_captured_at = t\<rparr>"

definition sample_detection :: "uuid \<Rightarrow> uuid \<Rightarrow> uuid \<Rightarrow> detection_row" where
  "sample_detection i s t = \<lparr>dtr_id = i, dtr_snapshot_id = s, dtr_technology_id = t, dtr_version_id = 6,
     dtr_confidence = 90, dtr_method = ''deterministic_rule'', dtr_observed_at = 0\<rparr>"

definition sample_seen :: store where
  "sample_seen = sample_store\<lparr>
     st_core := sample_core\<lparr>db_domains := [\<lparr>dr_id = 0, dr_canonical_domain = ''c.com'', dr_archived_at = None\<rparr>]\<rparr>,
     st_snapshots := [sample_snapshot 9 0], st_detections := [sample_detection 8 9 3]\<rparr>"

definition sample_unobserved :: successful_crawl_record where
  "sample_unobserved = sample_record\<lparr>
     rec_observations := [sample_observation ''nginx'' Detected, sample_observation ''php'' Unknown]\<rparr>"

definition sample_after :: store where
  "sample_after = sample_seen\<lparr>
     st_snapshots := [sample_snapshot 9 0, (sample_snapshot 4 9)\<lparr>snap_attempt_id := 3,
       snap_response_headers := JObject [(''server'', JString ''nginx'')]\<rparr>],
     st_detections := [sample_detection 8 9 3, (sample_detection 5 4 2)\<lparr>dtr_observed_at := 9\<rparr>],
     st_current := st_current sample_store @ [\<lparr>cur_domain_id = 0, cur_technology_id = 2, cur_detection_id = 5,
       cur_first_snapshot_id = 4, cur_last_snapshot_id = 4, cur_first_observed_at = 9, cur_last_observed_at = 9\<rparr>]\<rparr>"

lemma sample_after_reached:
  "map_sum (\<lambda>_. ()) (\<lambda>st. (st_technologies st, st_snapshots st, st_detections st, st_current st, db_domains (st_core st)))
      (record_success sample_env sample_seen sample_crawl_job sample_unobserved)
   = Inr (st_technologies sample_after, st_snapshots sample_after, st_detections sample_after, st_current sample_after,
      db_domains (st_core sample_after))"
  by code_simp

definition sample_adoption :: adoption_db where
  "sample_adoption = \<lparr>ad_store = sample_after, ad_created_at = (\<lambda>_. 0), ad_daily = []\<rparr>"

definition daily_count :: "adoption_db \<Rightarrow> date \<Rightarrow> uuid \<Rightarrow> nat list" where
  "daily_count d day t = map adr_domain_count (filter (\<lambda>r. adr_technology_id r = t) (day_rows d day))"

text \<open>The capture of the day counts php, its rebuild does not.\<close>

lemma captured_sample: "daily_count (snd (projr (capture_daily_adoption sample_adoption 0 10))) 0 3 = [1]"
  by code_simp

lemma rebuilt_sample: "daily_count (snd (rebuild_adoption_history unat sample_adoption 0 0 10)) 0 3 = [0]"
  by code_simp

theorem rebuild_matches_snapshots_witness:
  "fst (rebuild_adoption_history unat sample_adoption 0 0 10)
     = Inr \<lparr>rebuilt_days = 1, rebuild_inserted_rows = 2\<rparr>
   \<and> day_rows (snd (rebuild_adoption_history unat sample_adoption 0 0 10)) 0 = spec_rows unat sample_adoption 0 10"
proof -
  have "snapshots_ok unat (ad_store sample_adoption)" and "daily_ok sample_adoption"
    by (simp_all add: snapshots_ok_def daily_ok_def sample_adoption_def sample_after_def sample_seen_def sample_store_def
        sample_snapshot_def inj_on_def)
  moreover have "length (spec_rows unat sample_adoption 0 10) = 2"
    by (simp add: spec_rows_def sample_adoption_def sample_after_def sample_seen_def sample_store_def midnight_utc_def
        NANOS_PER_DAY_def)
  moreover obtain r d' where "rebuild_adoption_history unat sample_adoption 0 0 10 = (r, d')" by fastforce
  ultimately show ?thesis
    using rebuild_matches_snapshots [of unat sample_adoption 0 0 10 r d' 0]
    by (simp add: DATE_MAX_def last_rebuilt_def saturating_u64_def)
qed

end
