(* ===== verification/Scheduler_Service.thy ===== *)
theory Scheduler_Service
  imports Adoption_Store Config
begin

text \<open>
  One turn of the scheduler's loop (\<^verbatim>\<open>apps/scheduler/src/main.rs\<close>): stale attempts are recovered, due domains
  reserved, the outbox published to the queue, and the daily adoption captured.  Between two calls other
  processes may act on the database and on Redis (\<open>ss_between\<close>).  Metrics and logging are left out.
\<close>

section \<open>Services\<close>

record 'r scheduler_world =
  sw_adoption :: adoption_db
  sw_redis :: 'r

record 'r scheduler_services =
  ss_env :: env
  ss_between :: "'r scheduler_world \<Rightarrow> 'r scheduler_world"
  ss_locked :: "uuid \<Rightarrow> bool"
  ss_redis :: "'r redis"
  ss_queue_config :: redis_streams_config
  ss_wire_str :: "crawl_job_wire \<Rightarrow> string option"

datatype scheduler_runtime_error = RuntimeRepository scheduler_repository_error

definition sw_core :: "'r scheduler_world \<Rightarrow> db" where
  "sw_core w = st_core (ad_store (sw_adoption w))"

definition set_core :: "db \<Rightarrow> 'r scheduler_world \<Rightarrow> 'r scheduler_world" where
  "set_core d w = w\<lparr>sw_adoption := (sw_adoption w)\<lparr>ad_store := (ad_store (sw_adoption w))\<lparr>st_core := d\<rparr>\<rparr>\<rparr>"

lemma sw_core_set [simp]: "sw_core (set_core d w) = d" "sw_redis (set_core d w) = sw_redis w"
  "sw_core (w\<lparr>sw_redis := r\<rparr>) = sw_core w"
  by (simp_all add: sw_core_def set_core_def)

section \<open>The tick\<close>

definition publish_one ::
    "'r scheduler_services \<Rightarrow> scheduler_config \<Rightarrow> instant \<Rightarrow> pending_crawl_job \<Rightarrow> 'r scheduler_world \<Rightarrow>
     (scheduler_runtime_error, unit) result \<times> 'r scheduler_world" where
  "publish_one S config now pending w =
     (let job = pending_job pending in
      case publish (ss_redis S) (ss_queue_config S) (ss_wire_str S) job (sw_redis w) of
        (published, r) \<Rightarrow>
          (let w = ss_between S (w\<lparr>sw_redis := r\<rparr>) in
           case (case published of
                   Inr _ \<Rightarrow> mark_published (sw_core w) (job_id job) now
                 | Inl _ \<Rightarrow> record_publish_failure (ss_env S) (sw_core w) (job_id job) now (sc_scheduler_settings config)) of
             Inl e \<Rightarrow> (Inl (RuntimeRepository e), w)
           | Inr d \<Rightarrow> (Inr (), set_core d w)))"

fun publish_all ::
    "'r scheduler_services \<Rightarrow> scheduler_config \<Rightarrow> instant \<Rightarrow> pending_crawl_job list \<Rightarrow> 'r scheduler_world \<Rightarrow>
     (scheduler_runtime_error, unit) result \<times> 'r scheduler_world" where
  "publish_all S config now [] w = (Inr (), w)"
| "publish_all S config now (p # ps) w =
     (case publish_one S config now p w of
        (Inl e, w) \<Rightarrow> (Inl e, w)
      | (Inr _, w) \<Rightarrow> publish_all S config now ps w)"

text \<open>\<open>now.hour() * 60 + now.minute()\<close> and \<open>now.date()\<close> of a UTC instant.\<close>

definition minute_of_day :: "instant \<Rightarrow> int" where
  "minute_of_day now = now mod NANOS_PER_DAY div (60 * 1000000000)"

definition date_of :: "instant \<Rightarrow> date" where
  "date_of now = now div NANOS_PER_DAY"

definition capture_daily_adoption_if_due ::
    "'r scheduler_services \<Rightarrow> instant \<Rightarrow> nat \<Rightarrow> 'r scheduler_world \<Rightarrow>
     (scheduler_runtime_error, unit) result \<times> 'r scheduler_world" where
  "capture_daily_adoption_if_due S now delay_minutes w =
     (if minute_of_day now < int delay_minutes then (Inr (), w)
      else
        (let w = ss_between S w in
         case capture_daily_adoption (sw_adoption w) (date_of now) now of
           Inl e \<Rightarrow> (Inl (RuntimeRepository e), w)
         | Inr (_, a) \<Rightarrow> (Inr (), w\<lparr>sw_adoption := a\<rparr>)))"

definition scheduler_tick ::
    "'r scheduler_services \<Rightarrow> scheduler_config \<Rightarrow> instant \<Rightarrow> 'r scheduler_world \<Rightarrow>
     (scheduler_runtime_error, unit) result \<times> 'r scheduler_world" where
  "scheduler_tick S config now w =
     (let w = ss_between S w in
      case recover_stale_attempts (ss_env S) (sw_core w) now (sc_stale_attempt_timeout config) (sc_batch_size config)
             (sc_scheduler_settings config) of
        (Inl e, d) \<Rightarrow> (Inl (RuntimeRepository e), set_core d w)
      | (Inr _, d) \<Rightarrow>
          (let w = ss_between S (set_core d w) in
           case reserve_due (ss_env S) (ss_locked S) (sw_core w) now (sc_batch_size config) of
             Inl e \<Rightarrow> (Inl (RuntimeRepository e), w)
           | Inr (_, d) \<Rightarrow>
               (let w = ss_between S (set_core d w) in
                case pending_publications (sw_core w) now (sc_batch_size config) of
                  Inl e \<Rightarrow> (Inl (RuntimeRepository e), w)
                | Inr pending \<Rightarrow>
                    (case publish_all S config now pending w of
                       (Inl e, w) \<Rightarrow> (Inl e, w)
                     | (Inr _, w) \<Rightarrow>
                         capture_daily_adoption_if_due S now (sc_adoption_snapshot_delay_minutes config) w))))"

section \<open>New outbox rows are unpublished\<close>

definition outbox_grows :: "db \<Rightarrow> db \<Rightarrow> bool" where
  "outbox_grows d d' = (\<exists>bs. db_outbox d' = db_outbox d @ bs \<and> (\<forall>b \<in> set bs. obx_published_at b = None))"

lemma outbox_grows_refl: "db_outbox d' = db_outbox d \<Longrightarrow> outbox_grows d d'"
  by (simp add: outbox_grows_def)

lemma outbox_grows_trans: "outbox_grows d d1 \<Longrightarrow> outbox_grows d1 d2 \<Longrightarrow> outbox_grows d d2"
  by (auto simp: outbox_grows_def)

lemma tick_attempt_outbox: "set_attempt d i f = Inr d' \<Longrightarrow> db_outbox d' = db_outbox d"
  by (auto simp: set_attempt_def)

lemma set_policy_outbox: "set_policy d i f = Inr d' \<Longrightarrow> db_outbox d' = db_outbox d"
  by (auto simp: set_policy_def)

lemma insert_attempt_outbox: "insert_attempt_and_outbox E d job n t c = Inr d' \<Longrightarrow> outbox_grows d d'"
  by (auto simp: insert_attempt_and_outbox_Inr Let_def outbox_grows_def pending_outbox_def)

lemma record_failed_outbox: "record_failed E d a failure now settings = Inr d' \<Longrightarrow> outbox_grows d d'"
  by (auto simp: record_failed_def draw_uuid_def Let_def outbox_grows_def dest!: tick_attempt_outbox set_policy_outbox
      insert_attempt_outbox split: if_splits)

lemma record_attempt_outcome_outbox:
  "record_attempt_outcome E d j oc now settings = Inr d' \<Longrightarrow> outbox_grows d d'"
  by (auto simp: record_attempt_outcome_def intro: outbox_grows_refl dest!: tick_attempt_outbox set_policy_outbox
      dest: record_failed_outbox split: if_splits crawl_attempt_outcome.splits)

lemma expire_jobs_outbox: "outbox_grows d (snd (expire_jobs E failure now settings d js))"
proof (induction js arbitrary: d)
  case (Cons j js)
  show ?case
  proof (cases "record_attempt_outcome E d (CrawlJobId j) (OutcomeFailed failure) now settings")
    case (Inr d1)
    then show ?thesis using outbox_grows_trans [OF record_attempt_outcome_outbox [OF Inr] Cons.IH] by simp
  qed (simp add: outbox_grows_refl)
qed (simp add: outbox_grows_refl)

lemma recover_outbox: "recover_stale_attempts E d now stale_after limit settings = (r, d') \<Longrightarrow> outbox_grows d d'"
  using expire_jobs_outbox [of d E _ now settings]
  by (auto simp: recover_stale_attempts_def outbox_grows_refl split: if_splits sum.splits prod.splits) (metis snd_conv)+

lemma reserve_rows_outbox: "reserve_rows E now d is = Inr (jobs, d') \<Longrightarrow> outbox_grows d d'"
proof (induction "is" arbitrary: d jobs)
  case (Cons i "is")
  from Cons.prems obtain job d1 jobs1 where one: "reserve_one E now d i = Inr (job, d1)"
    and rest: "reserve_rows E now d1 is = Inr (jobs1, d')"
    by auto
  from one obtain d2 where "insert_attempt_and_outbox E (d\<lparr>db_drawn := db_drawn d + 1 + 1\<rparr>) job 1 now now = Inr d2"
    and "set_policy d2 i (reserve_policy now) = Inr d1"
    by (rule reserve_one_Inr)
  then have "outbox_grows d d1" by (auto simp: outbox_grows_def dest!: insert_attempt_outbox set_policy_outbox)
  with Cons.IH [OF rest] show ?case by (rule outbox_grows_trans [rotated])
qed (simp add: outbox_grows_refl)

lemma reserve_due_outbox: "reserve_due E locked d now limit = Inr (jobs, d') \<Longrightarrow> outbox_grows d d'"
  by (auto simp: reserve_due_def intro: outbox_grows_refl dest: reserve_rows_outbox split: if_splits)

section \<open>What one tick guarantees the others\<close>

text \<open>
  What the scheduler relies on of Redis: a payload that was added to the stream stays in its history,
  \<open>log\<close>, which other clients only extend.
\<close>

definition stream_log_ok :: "'r redis \<Rightarrow> redis_streams_config \<Rightarrow> ('r \<Rightarrow> string set) \<Rightarrow> bool" where
  "stream_log_ok rd config log =
     ((\<forall>st. log st \<subseteq> log (rd_between rd st))
      \<and> (\<forall>payload st. insert payload (log st) \<subseteq> log (snd (rd_xadd rd (stream_key config) [(PAYLOAD_FIELD, payload)] st))))"

definition row_job :: "outbox_row \<Rightarrow> crawl_job_v1" where
  "row_job b = \<lparr>job_id = CrawlJobId (obx_job_id b), job_domain_id = DomainId (obx_domain_id b),
     job_correlation_id = CorrelationId (obx_correlation_id b),
     job_idempotency_key = IdempotencyKey (trim (obx_idempotency_key b))\<rparr>"

text \<open>Every outbox row that is marked as published has its job in the history of the stream.\<close>

definition published_logged :: "'r scheduler_services \<Rightarrow> ('r \<Rightarrow> string set) \<Rightarrow> 'r scheduler_world \<Rightarrow> bool" where
  "published_logged S log w =
     (\<forall>b \<in> set (db_outbox (sw_core w)). obx_published_at b \<noteq> None \<longrightarrow>
        (\<exists>payload \<in> log (sw_redis w). ss_wire_str S (CrawlJobV1_serialize (row_job b)) = Some payload))"

definition outbox_idents :: "'r scheduler_world \<Rightarrow> (uuid \<times> uuid \<times> uuid \<times> uuid \<times> string) set" where
  "outbox_idents w = obx_ident ` set (db_outbox (sw_core w))"

definition guarantee :: "'r scheduler_services \<Rightarrow> ('r \<Rightarrow> string set) \<Rightarrow> 'r scheduler_world \<Rightarrow> 'r scheduler_world \<Rightarrow> bool" where
  "guarantee S log w w' =
     (sched_inv (sw_core w) \<and> published_logged S log w \<longrightarrow>
        sched_inv (sw_core w') \<and> published_logged S log w'
        \<and> outbox_idents w \<subseteq> outbox_idents w' \<and> log (sw_redis w) \<subseteq> log (sw_redis w'))"

lemma guarantee_refl [simp]: "guarantee S log w w"
  by (simp add: guarantee_def)

lemma guarantee_trans: "guarantee S log w w1 \<Longrightarrow> guarantee S log w1 w2 \<Longrightarrow> guarantee S log w w2"
  by (auto simp: guarantee_def)

lemma row_job_ident: "obx_ident b = obx_ident b' \<Longrightarrow> row_job b = row_job b'"
  by (simp add: obx_ident_def row_job_def)

lemma guarantee_grows:
  assumes "outbox_grows (sw_core w) d" and "sched_inv (sw_core w) \<Longrightarrow> sched_inv d"
  shows "guarantee S log w (set_core d w)"
  using assms by (auto simp: guarantee_def published_logged_def outbox_idents_def outbox_grows_def)

lemma row_to_pending_job_job: "row_to_pending_job b = Inr p \<Longrightarrow> pending_job p = row_job b"
  by (auto simp: row_to_pending_job_def row_job_def IdempotencyKey_parse_def Let_def map_err_def split: sum.splits if_splits)

lemma collect_results_from: "collect_results (map f xs) = Inr ys \<Longrightarrow> y \<in> set ys \<Longrightarrow> \<exists>x \<in> set xs. f x = Inr y"
  by (induction xs arbitrary: ys) auto

lemma pending_from_rows:
  assumes "pending_publications d now n = Inr ps" and "p \<in> set ps"
  shows "\<exists>b \<in> set (db_outbox d). pending_job p = row_job b"
proof -
  from assms obtain m where "collect_results (map row_to_pending_job
      (take m (sort_key (\<lambda>b. (obx_available_at b, obx_created_at b)) (filter (publishable now) (db_outbox d))))) = Inr ps"
    by (auto simp: pending_publications_def split: if_splits)
  from collect_results_from [OF this assms(2)] show ?thesis
    by (auto dest!: in_set_takeD dest: row_to_pending_job_job)
qed

lemma execute_log:
  assumes "stream_log_ok rd config log" and "execute rd f st = (res, st')" and "\<And>st. log st \<subseteq> log (snd (f st))"
  shows "log st \<subseteq> log st'"
proof -
  have 1: "log st \<subseteq> log (rd_between rd st)" using assms(1) by (simp add: stream_log_ok_def)
  have 2: "log (rd_between rd st) \<subseteq> log (snd (f (rd_between rd st)))" by (rule assms(3))
  show ?thesis using assms(2) 1 2
    by (auto simp: execute_def redis_call_def Let_def split: fate.splits prod.splits)
qed

lemma execute_Inr: "execute rd f st = (Inr x, st') \<Longrightarrow> f (rd_between rd st) = (x, st')"
  by (auto simp: execute_def redis_call_def Let_def split: fate.splits prod.splits)

lemma publish_log:
  assumes ok: "stream_log_ok rd config log" and "publish rd config wire_str job st = (res, st')"
  shows "log st \<subseteq> log st'
    \<and> (\<forall>r. res = Inr r \<longrightarrow> (\<exists>payload \<in> log st'. wire_str (CrawlJobV1_serialize job) = Some payload))"
proof (cases "wire_str (CrawlJobV1_serialize job)")
  case None
  with assms(2) show ?thesis by (auto simp: publish_def qfail_def)
next
  case (Some payload)
  let ?add = "rd_xadd rd (stream_key config) [(PAYLOAD_FIELD, payload)]"
  have add: "insert payload (log st) \<subseteq> log (snd (?add st))" for st using ok by (simp add: stream_log_ok_def)
  then have mono: "log st \<subseteq> log (snd (?add st))" for st by blast
  obtain c st1 where c: "connection rd st = (c, st1)" by fastforce
  then have l1: "log st \<subseteq> log st1" unfolding connection_def by (rule execute_log [OF ok]) simp
  show ?thesis
  proof (cases c)
    case (Inl e)
    with assms(2) Some c l1 show ?thesis by (auto simp: publish_def qbind_def)
  next
    case (Inr u)
    obtain x st2 where x: "execute rd ?add st1 = (x, st2)" by fastforce
    then have l2: "log st1 \<subseteq> log st2" by (rule execute_log [OF ok]) (rule mono)
    show ?thesis
    proof (cases x)
      case (Inl e)
      with assms(2) Some c \<open>c = Inr u\<close> x have "res = Inl e" "st' = st2" by (auto simp: publish_def qbind_def)
      with l1 l2 show ?thesis by auto
    next
      case (Inr i)
      have "?add (rd_between rd st1) = (i, st2)" using x Inr by (auto dest: execute_Inr)
      then have "payload \<in> log st2" using add [of "rd_between rd st1"] by simp
      moreover have "st' = st2"
        using assms(2) Some c \<open>c = Inr u\<close> x Inr
        by (cases i) (simp_all add: publish_def qbind_def qfail_def qreturn_def)
      ultimately show ?thesis using l1 l2 Some by auto
    qed
  qed
qed

lemma outbox_row_unique:
  assumes "sched_inv d" and "b \<in> set (db_outbox d)" and "x \<in> obx_ident ` set (db_outbox d)"
    and "obx_job_id b = fst (snd (snd x))"
  shows "obx_ident b = x"
proof -
  from assms(3) obtain b' where b': "b' \<in> set (db_outbox d)" "x = obx_ident b'" by blast
  have "distinct (map obx_job_id (db_outbox d))"
    using assms(1) ident_job_ids [of "db_attempts d" "db_outbox d"] by (simp add: sched_inv_def attempts_ok_def)
  moreover have "obx_job_id b = obx_job_id b'" using assms(4) b' by (simp add: obx_ident_def)
  ultimately have "b = b'" using assms(2) b'(1) by (auto simp: distinct_map dest: inj_onD)
  with b' show ?thesis by simp
qed

lemma update_outbox_Some:
  "update_outbox sel f bs = Some bs' \<Longrightarrow> bs' = map (\<lambda>b. if sel b then f b else b) bs"
  by (auto simp: update_outbox_def sql_simps)

lemma mark_published_rows:
  "mark_published d j now = Inr d' \<Longrightarrow> db_outbox d' = map (\<lambda>b. if obx_job_id b = crawl_job_id_as_uuid j
      \<and> obx_published_at b = None \<and> obx_terminal_failure_at b = None
      then b\<lparr>obx_published_at := Some now, obx_updated_at := now\<rparr> else b) (db_outbox d)"
  by (auto simp: mark_published_def sched_def Let_def dest: update_outbox_Some split: if_splits)

lemma ident_of_published [simp]: "obx_ident (b\<lparr>obx_published_at := t, obx_updated_at := u\<rparr>) = obx_ident b"
  by (simp add: obx_ident_def)

lemma publish_failure_published:
  assumes "record_publish_failure E d j now settings = Inr d'"
  shows "map (\<lambda>b. (obx_ident b, obx_published_at b)) (db_outbox d') = map (\<lambda>b. (obx_ident b, obx_published_at b)) (db_outbox d)"
  using assms
  by (auto simp: record_publish_failure_def sched_def obx_ident_def dest!: update_outbox_Some split: if_splits)

lemma guarantee_rows:
  assumes "map (\<lambda>b. (obx_ident b, obx_published_at b)) (db_outbox d) = map (\<lambda>b. (obx_ident b, obx_published_at b)) (db_outbox (sw_core w))"
    and "sched_inv (sw_core w) \<Longrightarrow> sched_inv d"
  shows "guarantee S log w (set_core d w)"
proof -
  have eq: "(\<lambda>b. (obx_ident b, obx_published_at b)) ` set (db_outbox d)
      = (\<lambda>b. (obx_ident b, obx_published_at b)) ` set (db_outbox (sw_core w))"
    using arg_cong [OF assms(1), of set] by simp
  have "obx_ident ` set (db_outbox d) = obx_ident ` set (db_outbox (sw_core w))"
    using arg_cong [OF eq, of "image fst"] by (simp add: image_image)
  moreover have "published_logged S log (set_core d w)" if pl: "published_logged S log w"
    unfolding published_logged_def sw_core_set
  proof (intro ballI impI)
    fix b assume b: "b \<in> set (db_outbox d)" "obx_published_at b \<noteq> None"
    have "(obx_ident b, obx_published_at b) \<in> (\<lambda>b. (obx_ident b, obx_published_at b)) ` set (db_outbox (sw_core w))"
      unfolding eq [symmetric] using b(1) by blast
    then obtain b' where "b' \<in> set (db_outbox (sw_core w))" "obx_ident b' = obx_ident b" "obx_published_at b' \<noteq> None"
      using b(2) by auto
    with pl show "\<exists>payload \<in> log (sw_redis w). ss_wire_str S (CrawlJobV1_serialize (row_job b)) = Some payload"
      unfolding published_logged_def by (metis row_job_ident)
  qed
  ultimately show ?thesis using assms(2) by (auto simp: guarantee_def outbox_idents_def)
qed

lemma published_logged_redis:
  "published_logged S log w \<Longrightarrow> log (sw_redis w) \<subseteq> log r \<Longrightarrow> published_logged S log (w\<lparr>sw_redis := r\<rparr>)"
  by (fastforce simp: published_logged_def)

text \<open>A job is marked as published only after the queue confirmed its entry.\<close>

lemma publish_one_guarantee:
  assumes rely: "\<And>w. guarantee S log w (ss_between S w)"
    and ok: "stream_log_ok (ss_redis S) (ss_queue_config S) log"
    and p: "pending_job p = row_job b0" "obx_ident b0 \<in> outbox_idents w"
    and run: "publish_one S config now p w = (r, w')"
  shows "guarantee S log w w'"
proof -
  obtain res st where pub: "publish (ss_redis S) (ss_queue_config S) (ss_wire_str S) (pending_job p) (sw_redis w) = (res, st)"
    by fastforce
  note pl = publish_log [OF ok pub]
  let ?w1 = "w\<lparr>sw_redis := st\<rparr>" and ?w2 = "ss_between S (w\<lparr>sw_redis := st\<rparr>)"
  have g1: "guarantee S log w ?w1"
    using conjunct1 [OF pl] by (auto simp: guarantee_def outbox_idents_def intro: published_logged_redis)
  have g2: "guarantee S log w ?w2" by (rule guarantee_trans [OF g1 rely])
  show ?thesis
  proof (cases res)
    case (Inl e)
    show ?thesis
    proof (cases "record_publish_failure (ss_env S) (sw_core ?w2) (job_id (pending_job p)) now (sc_scheduler_settings config)")
      case (Inl e')
      with run pub \<open>res = Inl e\<close> g2 show ?thesis by (simp add: publish_one_def Let_def)
    next
      case (Inr d)
      then have "guarantee S log ?w2 (set_core d ?w2)"
        by (intro guarantee_rows publish_failure_published [OF Inr] record_publish_failure_ok [OF _ Inr])
      with run pub \<open>res = Inl e\<close> Inr g2 show ?thesis by (auto simp: publish_one_def Let_def intro: guarantee_trans)
    qed
  next
    case (Inr i)
    show ?thesis
    proof (cases "mark_published (sw_core ?w2) (job_id (pending_job p)) now")
      case (Inl e')
      with run pub \<open>res = Inr i\<close> g2 show ?thesis by (simp add: publish_one_def Let_def)
    next
      case (Inr d)
      have w': "w' = set_core d ?w2" using run pub \<open>res = Inr i\<close> Inr by (simp add: publish_one_def Let_def)
      show ?thesis unfolding guarantee_def
      proof
        assume inv: "sched_inv (sw_core w) \<and> published_logged S log w"
        with g2 have inv2: "sched_inv (sw_core ?w2)" "published_logged S log ?w2"
            "outbox_idents w \<subseteq> outbox_idents ?w2" "log (sw_redis w) \<subseteq> log (sw_redis ?w2)"
          by (auto simp: guarantee_def)
        have "published_logged S log ?w1" "sched_inv (sw_core ?w1)" using g1 inv by (auto simp: guarantee_def)
        with rely [of ?w1] have st: "log st \<subseteq> log (sw_redis ?w2)" by (simp add: guarantee_def)
        note rows = mark_published_rows [OF Inr]
        have "\<exists>payload \<in> log (sw_redis ?w2). ss_wire_str S (CrawlJobV1_serialize (row_job b)) = Some payload"
          if b: "b \<in> set (db_outbox d)" "obx_published_at b \<noteq> None" for b
        proof -
          obtain b1 where b1: "b1 \<in> set (db_outbox (sw_core ?w2))" "obx_ident b = obx_ident b1"
              "obx_published_at b1 \<noteq> None \<or> obx_job_id b1 = obx_job_id b0"
            using b p(1) by (auto simp: rows row_job_def split: if_splits)
          show ?thesis
          proof (cases "obx_published_at b1 \<noteq> None")
            case True
            with inv2(2) b1(1) row_job_ident [OF b1(2)] show ?thesis by (simp add: published_logged_def)
          next
            case False
            have "obx_ident b0 \<in> obx_ident ` set (db_outbox (sw_core ?w2))"
              using inv2(3) p(2) unfolding outbox_idents_def by blast
            then have "obx_ident b1 = obx_ident b0"
              by (rule outbox_row_unique [OF inv2(1) b1(1)]) (use False b1(3) in \<open>simp add: obx_ident_def\<close>)
            then have "row_job b = pending_job p" using p(1) b1(2) row_job_ident by metis
            with pl \<open>res = Inr i\<close> st show ?thesis by auto
          qed
        qed
        moreover have "map obx_ident (db_outbox d) = map obx_ident (db_outbox (sw_core ?w2))" by (simp add: rows)
        then have "outbox_idents ?w2 \<subseteq> outbox_idents w'"
          unfolding outbox_idents_def w' sw_core_set by (metis order_refl set_map)
        moreover have "sched_inv d" by (rule mark_published_ok [OF inv2(1) Inr])
        ultimately show "sched_inv (sw_core w') \<and> published_logged S log w'
            \<and> outbox_idents w \<subseteq> outbox_idents w' \<and> log (sw_redis w) \<subseteq> log (sw_redis w')"
          using inv2(3,4) by (auto simp: w' published_logged_def)
      qed
    qed
  qed
qed

lemma publish_all_guarantee:
  assumes rely: "\<And>w. guarantee S log w (ss_between S w)"
    and ok: "stream_log_ok (ss_redis S) (ss_queue_config S) log"
    and "sched_inv (sw_core w) \<and> published_logged S log w"
    and "\<forall>p \<in> set ps. \<exists>b. pending_job p = row_job b \<and> obx_ident b \<in> outbox_idents w"
    and "publish_all S config now ps w = (r, w')"
  shows "guarantee S log w w'"
  using assms(3-)
proof (induction ps arbitrary: w)
  case (Cons p ps)
  obtain b where b: "pending_job p = row_job b" "obx_ident b \<in> outbox_idents w" using Cons.prems(2) by auto
  obtain r1 w1 where one: "publish_one S config now p w = (r1, w1)" by fastforce
  have g: "guarantee S log w w1" by (rule publish_one_guarantee [OF rely ok b one])
  with Cons.prems(1) have w1: "sched_inv (sw_core w1) \<and> published_logged S log w1" "outbox_idents w \<subseteq> outbox_idents w1"
    by (auto simp: guarantee_def)
  show ?case
  proof (cases r1)
    case (Inl e)
    with Cons.prems(3) one g show ?thesis by simp
  next
    case (Inr u)
    then have "publish_all S config now ps w1 = (r, w')" using Cons.prems(3) one by simp
    moreover have "\<forall>p \<in> set ps. \<exists>b. pending_job p = row_job b \<and> obx_ident b \<in> outbox_idents w1"
      using Cons.prems(2) w1(2) by fastforce
    ultimately show ?thesis using guarantee_trans [OF g Cons.IH] w1(1) by blast
  qed
qed simp

lemma capture_core: "capture_daily_adoption a day now = Inr (x, a') \<Longrightarrow> ad_store a' = ad_store a"
  by (auto simp: capture_daily_adoption_def Let_def split: if_splits)

lemma capture_if_due_guarantee:
  assumes rely: "\<And>w. guarantee S log w (ss_between S w)"
    and run: "capture_daily_adoption_if_due S now n w = (r, w')"
  shows "guarantee S log w w'"
proof (cases "minute_of_day now < int n")
  case True
  with run show ?thesis by (simp add: capture_daily_adoption_if_due_def)
next
  case False
  let ?w = "ss_between S w"
  show ?thesis
  proof (cases "capture_daily_adoption (sw_adoption ?w) (date_of now) now")
    case (Inl e)
    with run False rely [of w] show ?thesis by (simp add: capture_daily_adoption_if_due_def Let_def)
  next
    case (Inr xa)
    obtain x a where xa: "xa = (x, a)" by (cases xa)
    have w': "w' = ?w\<lparr>sw_adoption := a\<rparr>" using run False Inr xa by (simp add: capture_daily_adoption_if_due_def Let_def)
    have "sw_core w' = sw_core ?w" "sw_redis w' = sw_redis ?w"
      using capture_core [OF Inr [unfolded xa]] by (simp_all add: w' sw_core_def)
    then have "guarantee S log ?w w'" by (simp add: guarantee_def published_logged_def outbox_idents_def)
    with rely show ?thesis by (rule guarantee_trans)
  qed
qed

lemma scheduler_tick_guarantee:
  assumes rely: "\<And>w. guarantee S log w (ss_between S w)"
    and ok: "stream_log_ok (ss_redis S) (ss_queue_config S) log"
    and inv: "sched_inv (sw_core w) \<and> published_logged S log w"
    and run: "scheduler_tick S config now w = (r, w')"
  shows "guarantee S log w w'"
proof -
  let ?w1 = "ss_between S w" and ?n = "sc_batch_size config" and ?E = "ss_env S"
  obtain r1 d1 where rec: "recover_stale_attempts ?E (sw_core ?w1) now (sc_stale_attempt_timeout config) ?n
      (sc_scheduler_settings config) = (r1, d1)" by fastforce
  have "guarantee S log ?w1 (set_core d1 ?w1)"
    by (rule guarantee_grows [OF recover_outbox [OF rec]]) (rule recover_stale_ok [OF _ rec])
  then have g1: "guarantee S log w (set_core d1 ?w1)" using rely guarantee_trans by blast
  let ?w2 = "ss_between S (set_core d1 ?w1)"
  have g2: "guarantee S log w ?w2" by (rule guarantee_trans [OF g1 rely])
  show ?thesis
  proof (cases r1)
    case (Inl e)
    with run rec g1 show ?thesis by (simp add: scheduler_tick_def Let_def)
  next
    case r1: (Inr n)
    show ?thesis
    proof (cases "reserve_due ?E (ss_locked S) (sw_core ?w2) now ?n")
      case (Inl e)
      with run rec r1 g2 show ?thesis by (simp add: scheduler_tick_def Let_def)
    next
      case (Inr jd)
      obtain jobs d2 where jd: "jd = (jobs, d2)" by (cases jd)
      note res = Inr [unfolded jd]
      have "guarantee S log ?w2 (set_core d2 ?w2)"
        by (rule guarantee_grows [OF reserve_due_outbox [OF res]]) (rule reserve_due_ok [OF _ res])
      then have g2': "guarantee S log w (set_core d2 ?w2)" using g2 guarantee_trans by blast
      let ?w3 = "ss_between S (set_core d2 ?w2)"
      have g3: "guarantee S log w ?w3" by (rule guarantee_trans [OF g2' rely])
      show ?thesis
      proof (cases "pending_publications (sw_core ?w3) now ?n")
        case (Inl e)
        with run rec r1 res g3 show ?thesis by (simp add: scheduler_tick_def Let_def)
      next
        case pend: (Inr ps)
        obtain r4 w4 where pub: "publish_all S config now ps ?w3 = (r4, w4)" by fastforce
        have "guarantee S log ?w3 w4"
        proof (rule publish_all_guarantee [OF rely ok _ _ pub])
          show "sched_inv (sw_core ?w3) \<and> published_logged S log ?w3" using g3 inv by (auto simp: guarantee_def)
          show "\<forall>p \<in> set ps. \<exists>b. pending_job p = row_job b \<and> obx_ident b \<in> outbox_idents ?w3"
            unfolding outbox_idents_def using pending_from_rows [OF pend] by blast
        qed
        then have g4: "guarantee S log w w4" using g3 guarantee_trans by blast
        show ?thesis
        proof (cases r4)
          case (Inl e)
          with run rec r1 res pend pub g4 show ?thesis by (simp add: scheduler_tick_def Let_def)
        next
          case (Inr u)
          with run rec r1 res pend pub
          have "capture_daily_adoption_if_due S now (sc_adoption_snapshot_delay_minutes config) w4 = (r, w')"
            by (simp add: scheduler_tick_def Let_def)
          from guarantee_trans [OF g4 capture_if_due_guarantee [OF rely this]] show ?thesis .
        qed
      qed
    qed
  qed
qed

section \<open>The outbox is drained\<close>

text \<open>A job is settled at \<open>now\<close> when no outbox row of it is left to publish.\<close>

definition settled :: "instant \<Rightarrow> uuid \<Rightarrow> db \<Rightarrow> bool" where
  "settled now j d = (\<forall>b \<in> set (db_outbox d). obx_job_id b = j \<longrightarrow> \<not> publishable now b)"

lemma mark_published_settles:
  assumes "mark_published d j now = Inr d'"
  shows "settled now (crawl_job_id_as_uuid j) d'" and "settled now i d \<Longrightarrow> settled now i d'"
  using mark_published_rows [OF assms] by (auto simp: settled_def publishable_def)

text \<open>The row after a failed publication: given up, or due only after a positive delay.\<close>

lemma outbox_retry_delay_pos: "settings_ok s \<Longrightarrow> outbox_retry_delay s n = Some delay \<Longrightarrow> 0 < delay"
  by (auto simp: outbox_retry_delay_def exponential_delay_eq settings_ok_def split: if_splits)

lemma job_ids_distinct: "sched_inv d \<Longrightarrow> distinct (map obx_job_id (db_outbox d))"
  using ident_job_ids [of "db_attempts d" "db_outbox d"] by (simp add: sched_inv_def attempts_ok_def)

definition given_up :: "int \<Rightarrow> instant \<Rightarrow> outbox_row \<Rightarrow> outbox_row" where
  "given_up n now b = b\<lparr>obx_publish_attempt_count := n, obx_terminal_failure_at := Some now,
     obx_last_error_summary := Some publish_error, obx_updated_at := now\<rparr>"

definition put_off :: "int \<Rightarrow> instant \<Rightarrow> instant \<Rightarrow> outbox_row \<Rightarrow> outbox_row" where
  "put_off n t now b = b\<lparr>obx_publish_attempt_count := n, obx_next_publish_at := t,
     obx_last_error_summary := Some publish_error, obx_updated_at := now\<rparr>"

lemma publish_failure_rows:
  assumes "record_publish_failure E d j now settings = Inr d'"
    and "find (\<lambda>b. obx_job_id b = crawl_job_id_as_uuid j) (db_outbox d) = Some b"
    and "obx_published_at b = None" and "obx_terminal_failure_at b = None"
  shows "(\<exists>n. db_outbox d' = map (\<lambda>b. if obx_job_id b = crawl_job_id_as_uuid j then given_up n now b else b) (db_outbox d))
      \<or> (\<exists>n k delay t. outbox_retry_delay settings k = Some delay \<and> env_checked_add E now delay = Some t
          \<and> db_outbox d' = map (\<lambda>b. if obx_job_id b = crawl_job_id_as_uuid j then put_off n t now b else b) (db_outbox d))"
  using assms unfolding record_publish_failure_def given_up_def [symmetric] put_off_def [symmetric]
  by (auto simp: sched_def add_std_duration_def dest!: update_outbox_Some split: if_splits) metis+

lemma publish_failure_settles:
  assumes fail: "record_publish_failure E d j now settings = Inr d'"
    and ok: "env_ok E" "settings_ok settings" and inv: "sched_inv d"
  shows "settled now (crawl_job_id_as_uuid j) d' \<and> (settled now i d \<longrightarrow> settled now i d')"
proof -
  let ?j = "crawl_job_id_as_uuid j" and ?is = "\<lambda>b. obx_job_id b = crawl_job_id_as_uuid j"
  obtain b where b: "find ?is (db_outbox d) = Some b"
    using fail by (auto simp: record_publish_failure_def)
  then have mem: "b \<in> set (db_outbox d)" "obx_job_id b = ?j" by (auto simp: find_Some_iff)
  have uniq: "x = b" if "x \<in> set (db_outbox d)" "obx_job_id x = ?j" for x
    using job_ids_distinct [OF inv] mem that by (auto simp: distinct_map inj_on_def)
  have up: ?thesis if "db_outbox d' = map (\<lambda>b. if ?is b then f b else b) (db_outbox d)"
    and "\<And>b. \<not> publishable now (f b)" and "\<And>b. obx_job_id (f b) = obx_job_id b" for f
    using that by (fastforce simp: settled_def)
  show ?thesis
  proof (cases "obx_published_at b \<noteq> None \<or> obx_terminal_failure_at b \<noteq> None")
    case True
    with fail b have "d' = d" by (simp add: record_publish_failure_def)
    with True uniq show ?thesis by (auto simp: settled_def publishable_def)
  next
    case False
    then have none: "obx_published_at b = None" "obx_terminal_failure_at b = None" by simp_all
    from publish_failure_rows [OF fail b none] show ?thesis
    proof (elim disjE exE conjE)
      fix n assume "db_outbox d' = map (\<lambda>b. if ?is b then given_up n now b else b) (db_outbox d)"
      then show ?thesis by (rule up) (simp_all add: given_up_def publishable_def)
    next
      fix n k delay t
      assume delay: "outbox_retry_delay settings k = Some delay" and t: "env_checked_add E now delay = Some t"
        and rows: "db_outbox d' = map (\<lambda>b. if ?is b then put_off n t now b else b) (db_outbox d)"
      have "now < t" using env_add [OF ok(1) t] outbox_retry_delay_pos [OF ok(2) delay] by simp
      then show ?thesis by (intro up [OF rows]) (simp_all add: put_off_def publishable_def)
    qed
  qed
qed

text \<open>Without interference a turn of the publishing loop settles its job and unsettles none.\<close>

lemma publish_one_settles:
  assumes "publish_one S config now p w = (Inr u, w')" and "ss_between S = id" and "env_ok (ss_env S)"
    and "settings_ok (sc_scheduler_settings config)" and inv: "sched_inv (sw_core w)"
  shows "sched_inv (sw_core w') \<and> settled now (crawl_job_id_as_uuid (job_id (pending_job p))) (sw_core w')
    \<and> (\<forall>i. settled now i (sw_core w) \<longrightarrow> settled now i (sw_core w'))"
proof -
  obtain res st where pub: "publish (ss_redis S) (ss_queue_config S) (ss_wire_str S) (pending_job p) (sw_redis w) = (res, st)"
    by fastforce
  let ?j = "job_id (pending_job p)"
  show ?thesis
  proof (cases res)
    case (Inl e)
    with assms(1,2) pub obtain d where "record_publish_failure (ss_env S) (sw_core w) ?j now (sc_scheduler_settings config) = Inr d"
      "sw_core w' = d" by (auto simp: publish_one_def Let_def split: sum.splits)
    with publish_failure_settles [OF this(1) assms(3,4) inv] record_publish_failure_ok [OF inv this(1)]
    show ?thesis by auto
  next
    case (Inr i)
    with assms(1,2) pub obtain d where "mark_published (sw_core w) ?j now = Inr d" "sw_core w' = d"
      by (auto simp: publish_one_def Let_def split: sum.splits)
    with mark_published_settles [OF this(1)] mark_published_ok [OF inv this(1)] show ?thesis by auto
  qed
qed

lemma publish_all_settles:
  assumes "publish_all S config now ps w = (Inr u, w')" and "ss_between S = id" and "env_ok (ss_env S)"
    and "settings_ok (sc_scheduler_settings config)" and "sched_inv (sw_core w)"
  shows "(\<forall>p \<in> set ps. settled now (crawl_job_id_as_uuid (job_id (pending_job p))) (sw_core w'))
    \<and> (\<forall>i. settled now i (sw_core w) \<longrightarrow> settled now i (sw_core w'))"
  using assms
proof (induction ps arbitrary: w)
  case (Cons p ps)
  obtain v w1 where one: "publish_one S config now p w = (Inr v, w1)" and rest: "publish_all S config now ps w1 = (Inr u, w')"
    using Cons.prems(1) by (auto split: prod.splits sum.splits)
  note s = publish_one_settles [OF one Cons.prems(2-)]
  have "\<forall>i. settled now i (sw_core w1) \<longrightarrow> settled now i (sw_core w')"
    "\<forall>p \<in> set ps. settled now (crawl_job_id_as_uuid (job_id (pending_job p))) (sw_core w')"
    using Cons.IH [OF rest Cons.prems(2-4)] s by blast+
  with s show ?case by simp
qed simp

lemma collect_results_to: "collect_results (map f xs) = Inr ys \<Longrightarrow> x \<in> set xs \<Longrightarrow> \<exists>y \<in> set ys. f x = Inr y"
  by (induction xs arbitrary: ys) auto

definition publish_order :: "instant \<Rightarrow> db \<Rightarrow> outbox_row list" where
  "publish_order now d = sort_key (\<lambda>b. (obx_available_at b, obx_created_at b)) (filter (publishable now) (db_outbox d))"

lemma publish_pass:
  assumes pend: "pending_publications d now n = Inr ps" and n: "0 < n" and d: "sw_core w = d"
    and pub: "publish_all S config now ps w = (Inr u, w')" and "ss_between S = id" and "env_ok (ss_env S)"
    and "settings_ok (sc_scheduler_settings config)" and "sched_inv d"
    and b: "b \<in> set (db_outbox (sw_core w'))" "publishable now b"
  shows "obx_job_id b \<in> obx_job_id ` set (drop n (publish_order now d))"
proof -
  note s = publish_all_settles [OF pub assms(5-7)]
  have "\<not> settled now (obx_job_id b) (sw_core w')" using b by (auto simp: settled_def)
  then have unsettled: "\<not> settled now (obx_job_id b) d"
    and other: "\<forall>p \<in> set ps. crawl_job_id_as_uuid (job_id (pending_job p)) \<noteq> obx_job_id b"
    using s assms(8) d by auto
  from unsettled obtain b2 where b2: "b2 \<in> set (publish_order now d)" "obx_job_id b2 = obx_job_id b"
    by (auto simp: settled_def publish_order_def)
  have "collect_results (map row_to_pending_job (take n (publish_order now d))) = Inr ps"
    using pend n by (auto simp: pending_publications_def publish_order_def sched_def i64_try_from_def split: if_splits)
  then have "b2 \<notin> set (take n (publish_order now d))"
    using other b2(2) by (fastforce dest: collect_results_to row_to_pending_job_job simp: row_job_def)
  then have "b2 \<in> set (drop n (publish_order now d))"
    using b2(1) by (metis Un_iff append_take_drop_id set_append)
  with b2(2) show ?thesis by (metis imageI)
qed

section \<open>Properties\<close>

text \<open>
  C22: Whatever other processes do between its calls, as long as they keep this very contract, one tick of
  the scheduler, failed or not, keeps the scheduling invariant, loses no outbox row, and marks a job as published
  only when its message is in the history of the stream.
\<close>

theorem tick_publishes_before_marking:
  assumes "\<And>w. guarantee S log w (ss_between S w)"
    and "stream_log_ok (ss_redis S) (ss_queue_config S) log"
    and "sched_inv (sw_core w)" and "published_logged S log w"
    and "scheduler_tick S config now w = (r, w')"
  shows "sched_inv (sw_core w') \<and> published_logged S log w' \<and> outbox_idents w \<subseteq> outbox_idents w'"
  using scheduler_tick_guarantee [OF assms(1,2) _ assms(5)] assms(3,4) by (auto simp: guarantee_def)

text \<open>
  A tick that succeeds while nobody else acts leaves no outbox row to publish other than those that
  did not fit into its batch: every other row that was ready after the reservations is published, given up, or put off to
  a later time.
\<close>

theorem tick_drains_outbox:
  assumes "scheduler_tick S config now w = (Inr u, w')" and "ss_between S = id" and "env_ok (ss_env S)"
    and "settings_ok (sc_scheduler_settings config)" and "sched_inv (sw_core w)" and "0 < sc_batch_size config"
  shows "\<exists>n d1 jobs d2. recover_stale_attempts (ss_env S) (sw_core w) now (sc_stale_attempt_timeout config)
        (sc_batch_size config) (sc_scheduler_settings config) = (Inr n, d1)
    \<and> reserve_due (ss_env S) (ss_locked S) d1 now (sc_batch_size config) = Inr (jobs, d2)
    \<and> (\<forall>b \<in> set (db_outbox (sw_core w')). publishable now b \<longrightarrow>
         obx_job_id b \<in> obx_job_id ` set (drop (sc_batch_size config) (publish_order now d2)))"
proof -
  obtain n d1 where rec: "recover_stale_attempts (ss_env S) (sw_core w) now (sc_stale_attempt_timeout config)
      (sc_batch_size config) (sc_scheduler_settings config) = (Inr n, d1)"
    using assms(1,2) by (auto simp: scheduler_tick_def Let_def split: prod.splits sum.splits)
  obtain jobs d2 where res: "reserve_due (ss_env S) (ss_locked S) d1 now (sc_batch_size config) = Inr (jobs, d2)"
    using assms(1,2) rec by (auto simp: scheduler_tick_def Let_def split: prod.splits sum.splits)
  have inv: "sched_inv d2" by (rule reserve_due_ok [OF recover_stale_ok [OF assms(5) rec] res])
  let ?w = "set_core d2 (set_core d1 w)"
  obtain ps v w1 where pend: "pending_publications d2 now (sc_batch_size config) = Inr ps"
    and pub: "publish_all S config now ps ?w = (Inr v, w1)"
    and cap: "capture_daily_adoption_if_due S now (sc_adoption_snapshot_delay_minutes config) w1 = (Inr u, w')"
    using assms(1,2) rec res by (auto simp: scheduler_tick_def Let_def split: prod.splits sum.splits)
  have "sw_core w' = sw_core w1"
    using cap assms(2) by (auto simp: capture_daily_adoption_if_due_def sw_core_def Let_def dest: capture_core
        split: if_splits sum.splits)
  then have "obx_job_id b \<in> obx_job_id ` set (drop (sc_batch_size config) (publish_order now d2))"
    if "b \<in> set (db_outbox (sw_core w'))" "publishable now b" for b
    using publish_pass [OF pend assms(6) _ pub assms(2-4) inv] that by simp
  with rec res show ?thesis by blast
qed

text \<open>One queued job whose message has not been published yet, six minutes after midnight.\<close>

definition sample_tick_services :: "sample_server scheduler_services" where
  "sample_tick_services = \<lparr>ss_env = sample_env, ss_between = id, ss_locked = (\<lambda>_. False), ss_redis = sample_redis,
     ss_queue_config = RedisStreamsConfig_default, ss_wire_str = (\<lambda>_. Some ''job'')\<rparr>"

definition sample_tick_config :: scheduler_config where
  "sample_tick_config = \<lparr>sc_bind_address = SockV4 0 3001, sc_database_url = ''postgres://db'', sc_redis_url = ''redis://cache'',
     sc_log_filter = [], sc_poll_interval = 1, sc_batch_size = 1, sc_stale_attempt_timeout = 1, sc_operation_timeout = 1,
     sc_adoption_snapshot_delay_minutes = 5, sc_scheduler_settings = SchedulerSettings_default\<rparr>"

definition sample_tick_world :: "sample_server scheduler_world" where
  "sample_tick_world = \<lparr>sw_adoption = \<lparr>ad_store = sample_store, ad_created_at = (\<lambda>_. 0), ad_daily = []\<rparr>,
     sw_redis = sample_state 5000 None\<rparr>"

definition sample_log :: "sample_server \<Rightarrow> string set" where
  "sample_log st = {p. [(PAYLOAD_FIELD, p)] \<in> set (srv_dead st)}"

definition sample_ticked :: "sample_server scheduler_world" where
  "sample_ticked = snd (scheduler_tick sample_tick_services sample_tick_config 360000000000 sample_tick_world)"

lemma sample_tick_result:
  "fst (scheduler_tick sample_tick_services sample_tick_config 360000000000 sample_tick_world) = Inr ()"
  "map obx_published_at (db_outbox (sw_core sample_ticked)) = [Some 360000000000]"
  by code_simp+

lemma sample_log_ok: "stream_log_ok sample_redis RedisStreamsConfig_default sample_log"
  by (auto simp: stream_log_ok_def sample_log_def sample_redis_def)

lemma sample_core_inv: "sched_inv (sw_core sample_tick_world)"
proof -
  have "attempt_check sample_attempt" "outbox_check sample_outbox" "policy_check sample_policy"
    "att_ident sample_attempt = obx_ident sample_outbox" by code_simp+
  then show ?thesis
    by (simp add: sample_tick_world_def sw_core_def sample_store_def sample_core_def sched_inv_def attempts_ok_def
        policies_ok_def active_at_def sample_policy_def)
qed

theorem tick_publishes_before_marking_witness:
  "sched_inv (sw_core sample_ticked) \<and> published_logged sample_tick_services sample_log sample_ticked
   \<and> map obx_published_at (db_outbox (sw_core sample_ticked)) = [Some 360000000000]"
proof -
  obtain r where run: "scheduler_tick sample_tick_services sample_tick_config 360000000000 sample_tick_world = (r, sample_ticked)"
    unfolding sample_ticked_def by (metis prod.collapse)
  have "published_logged sample_tick_services sample_log sample_tick_world"
    by (simp add: published_logged_def sample_tick_world_def sw_core_def sample_store_def sample_core_def sample_outbox_def)
  moreover have "stream_log_ok (ss_redis sample_tick_services) (ss_queue_config sample_tick_services) sample_log"
    using sample_log_ok by (simp add: sample_tick_services_def)
  moreover have "guarantee sample_tick_services sample_log w (ss_between sample_tick_services w)" for w
    by (simp add: sample_tick_services_def)
  ultimately show ?thesis
    using tick_publishes_before_marking [OF _ _ sample_core_inv _ run] sample_tick_result(2) by blast
qed

theorem tick_drains_outbox_witness:
  "\<exists>n d1 jobs d2. recover_stale_attempts sample_env (sw_core sample_tick_world) 360000000000 1 1 SchedulerSettings_default
        = (Inr n, d1)
     \<and> reserve_due sample_env (\<lambda>_. False) d1 360000000000 1 = Inr (jobs, d2)
     \<and> obx_job_id ` set (filter (publishable 360000000000) (db_outbox (sw_core sample_ticked)))
        \<subseteq> obx_job_id ` set (drop 1 (publish_order 360000000000 d2))"
proof -
  have run: "scheduler_tick sample_tick_services sample_tick_config 360000000000 sample_tick_world = (Inr (), sample_ticked)"
    unfolding sample_ticked_def sample_tick_result(1) [symmetric] by simp
  have "ss_between sample_tick_services = id" "env_ok (ss_env sample_tick_services)"
      "settings_ok (sc_scheduler_settings sample_tick_config)" "0 < sc_batch_size sample_tick_config"
    using sample_env_ok by (simp_all add: sample_tick_services_def sample_tick_config_def settings_ok_def
        SchedulerSettings_default_def DEFAULT_CRAWL_RETRY_BASE_def DEFAULT_OUTBOX_RETRY_BASE_def
        DEFAULT_MAX_OUTBOX_PUBLISH_ATTEMPTS_def from_secs_def)
  from tick_drains_outbox [OF run this(1-3) sample_core_inv this(4)]
  show ?thesis by (auto simp: sample_tick_services_def sample_tick_config_def)
qed

end
