(* ===== verification/Csv_Import.thy ===== *)
theory Csv_Import
  imports Schedule_Invariants
begin

text \<open>
  CSV imports (\<^verbatim>\<open>models/csv_import.rs\<close>, \<^verbatim>\<open>database/csv_import_repository.rs\<close>): reading the document, the
  classification of its rows, and the single transaction that registers new domains, records the membership
  of every valid row in its source, and keeps a row for each line of the file.  The \<^verbatim>\<open>csv\<close> crate is a
  parameter: what its reader yields for the header and for the records after it.
\<close>

section \<open>Documents\<close>

record csv_reader =
  csv_headers :: "string \<Rightarrow> string list option"
  csv_records :: "string \<Rightarrow> string list option list"

datatype csv_import_parse_error = MissingDomainHeader | UnsupportedColumns | MalformedCsv | TooManyRows

record csv_import_row_input =
  csv_row_number :: nat
  csv_domain :: string

fun split_inclusive :: "char \<Rightarrow> string \<Rightarrow> string list" where
  "split_inclusive d [] = []"
| "split_inclusive d (c # s) =
     (if c = d then [c] # split_inclusive d s
      else case split_inclusive d s of [] \<Rightarrow> [[c]] | t # ts \<Rightarrow> (c # t) # ts)"

definition strip_byte :: "char \<Rightarrow> string \<Rightarrow> string" where
  "strip_byte c s = (if s \<noteq> [] \<and> last s = c then butlast s else s)"

definition contains_blank_data_line :: "string \<Rightarrow> bool" where
  "contains_blank_data_line input =
     list_ex (\<lambda>line. strip_byte (CHR 0x0D) (strip_byte (CHR 0x0A) line) = []) (drop 1 (split_inclusive (CHR 0x0A) input))"

definition BOM :: string where "BOM = [CHR 0xEF, CHR 0xBB, CHR 0xBF]"

fun trim_start_boms :: "string \<Rightarrow> string" where
  "trim_start_boms (a # b # c # s) = (if [a, b, c] = BOM then trim_start_boms s else a # b # c # s)"
| "trim_start_boms s = s"

fun csv_rows :: "nat \<Rightarrow> string list option list \<Rightarrow> (csv_import_parse_error, csv_import_row_input list) result" where
  "csv_rows index [] = Inr []"
| "csv_rows index (r # rs) =
     rbind (ok_or MalformedCsv r) (\<lambda>record.
     rbind (ok_or MalformedCsv (case record of [] \<Rightarrow> None | domain # _ \<Rightarrow> Some domain)) (\<lambda>domain.
     if index + 1 < 2 ^ 32 then
       rbind (csv_rows (index + 1) rs) (\<lambda>rows. Inr (\<lparr>csv_row_number = index + 1, csv_domain = domain\<rparr> # rows))
     else Inl TooManyRows))"

definition CsvDomainImport_parse ::
    "csv_reader \<Rightarrow> string \<Rightarrow> (csv_import_parse_error, csv_import_row_input list) result" where
  "CsvDomainImport_parse C input =
     rbind (ok_or MalformedCsv (csv_headers C input)) (\<lambda>headers.
     if headers = [] then Inl MissingDomainHeader
     else if length headers \<noteq> 1 then Inl UnsupportedColumns
     else
       (let header = trim_start_boms (trim (hd headers)) in
        if \<not> eq_ignore_ascii_case header ''domain'' then Inl MissingDomainHeader
        else if contains_blank_data_line input then Inl MalformedCsv
        else csv_rows 0 (csv_records C input)))"

section \<open>Commands and results\<close>

record csv_import_command =
  csv_source_name :: string
  csv_initiated_by :: string
  csv_document :: "csv_import_row_input list"

datatype csv_import_command_error = EmptySourceName | EmptyInitiator

definition CsvImportCommand_new ::
    "string \<Rightarrow> string \<Rightarrow> csv_import_row_input list \<Rightarrow> (csv_import_command_error, csv_import_command) result" where
  "CsvImportCommand_new source_name initiated_by document =
     (let source_name = trim source_name in
      if source_name = [] then Inl EmptySourceName
      else
        (let initiated_by = trim initiated_by in
         if initiated_by = [] then Inl EmptyInitiator
         else Inr \<lparr>csv_source_name = source_name, csv_initiated_by = initiated_by, csv_document = document\<rparr>))"

datatype csv_import_row_status = RowAccepted | RowDuplicate | RowRejected

fun csv_import_row_status_as_str :: "csv_import_row_status \<Rightarrow> string" where
  "csv_import_row_status_as_str RowAccepted = ''accepted''"
| "csv_import_row_status_as_str RowDuplicate = ''duplicate''"
| "csv_import_row_status_as_str RowRejected = ''rejected''"

datatype csv_import_row_error = EmptyDomain | InvalidDomain

fun csv_import_row_error_as_str :: "csv_import_row_error \<Rightarrow> string" where
  "csv_import_row_error_as_str EmptyDomain = ''empty_domain''"
| "csv_import_row_error_as_str InvalidDomain = ''invalid_domain''"

fun csv_import_row_error_summary :: "csv_import_row_error \<Rightarrow> string" where
  "csv_import_row_error_summary EmptyDomain = ''domain input is empty''"
| "csv_import_row_error_summary InvalidDomain = ''domain input is invalid''"

record csv_import_row_result =
  res_row_number :: nat
  res_input_domain :: string
  res_canonical_domain :: "string option"
  res_status :: csv_import_row_status
  res_domain_id :: "uuid option"
  res_error :: "csv_import_row_error option"

record csv_import_result =
  res_import_id :: uuid
  res_source_name :: string
  res_accepted :: nat
  res_duplicate :: nat
  res_rejected :: nat
  res_rows :: "csv_import_row_result list"

fun classify_domain_error :: "canonical_domain_error \<Rightarrow> csv_import_row_error" where
  "classify_domain_error CdEmpty = EmptyDomain"
| "classify_domain_error _ = InvalidDomain"

definition parse_row_domain ::
    "(string \<Rightarrow> url option) \<Rightarrow> string \<Rightarrow> (csv_import_row_error, canonical_domain) result" where
  "parse_row_domain url_parse input = map_err classify_domain_error (CanonicalDomain_parse url_parse input)"

section \<open>Tables\<close>

record source_row =
  src_id :: uuid
  src_kind :: string
  src_name :: string
  src_archived_at :: "instant option"

record import_row =
  imp_id :: uuid
  imp_source_id :: uuid
  imp_initiated_by :: string
  imp_status :: string
  imp_accepted :: nat
  imp_duplicate :: nat
  imp_rejected :: nat
  imp_started_at :: "instant option"
  imp_completed_at :: "instant option"
  imp_created_at :: instant

record csv_row =
  irw_import_id :: uuid
  irw_row_number :: nat
  irw_input_values :: json
  irw_canonical_domain :: "string option"
  irw_domain_id :: "uuid option"
  irw_status :: string
  irw_error_code :: "string option"
  irw_error_summary :: "string option"

record member_row =
  mem_domain_id :: uuid
  mem_source_id :: uuid
  mem_first_import_id :: "uuid option"
  mem_first_seen_at :: instant
  mem_last_seen_at :: instant

record import_db =
  im_core :: db
  im_sources :: "source_row list"
  im_imports :: "import_row list"
  im_rows :: "csv_row list"
  im_members :: "member_row list"

definition source_check :: "source_row \<Rightarrow> bool" where
  "source_check s = (src_kind s \<in> {''manual'', ''csv'', ''public_list''} \<and> 0 < chars_count (btrim (src_name s)))"

definition import_check :: "import_row \<Rightarrow> bool" where
  "import_check i =
     (0 < chars_count (btrim (imp_initiated_by i))
      \<and> imp_status i \<in> {''pending'', ''processing'', ''completed'', ''failed''}
      \<and> opt_ge (imp_started_at i) (imp_created_at i)
      \<and> (case imp_completed_at i of None \<Rightarrow> True
         | Some c \<Rightarrow> (case imp_started_at i of None \<Rightarrow> False | Some s \<Rightarrow> s \<le> c)))"

definition csv_row_check :: "env \<Rightarrow> csv_row \<Rightarrow> bool" where
  "csv_row_check E r =
     (0 < irw_row_number r
      \<and> (case irw_canonical_domain r of None \<Rightarrow> True | Some n \<Rightarrow> n = env_lower E n \<and> n = btrim n \<and> 0 < chars_count n)
      \<and> irw_status r \<in> {''pending'', ''accepted'', ''duplicate'', ''rejected''}
      \<and> ((irw_status r = ''pending'' \<and> irw_domain_id r = None \<and> irw_error_code r = None)
         \<or> (irw_status r \<in> {''accepted'', ''duplicate''} \<and> irw_domain_id r \<noteq> None \<and> irw_error_code r = None)
         \<or> (irw_status r = ''rejected'' \<and> irw_domain_id r = None \<and> irw_error_code r \<noteq> None))
      \<and> summary_bounded (irw_error_summary r))"

section \<open>The transaction\<close>

datatype csv_import_repository_error = CsvUnavailable

definition csv :: "'a option \<Rightarrow> (csv_import_repository_error, 'a) result" where
  "csv r = ok_or CsvUnavailable r"

definition active_csv_source :: "string \<Rightarrow> source_row \<Rightarrow> bool" where
  "active_csv_source name s = (src_kind s = ''csv'' \<and> src_archived_at s = None \<and> src_name s = name)"

definition find_or_create_source ::
    "env \<Rightarrow> string \<Rightarrow> import_db \<Rightarrow> (csv_import_repository_error, uuid \<times> import_db) result" where
  "find_or_create_source E name d =
     (let (i, core) = draw_uuid E (im_core d); d = d\<lparr>im_core := core\<rparr>;
          s = \<lparr>src_id = i, src_kind = ''csv'', src_name = name, src_archived_at = None\<rparr> in
      if \<not> source_check s then Inl CsvUnavailable
      else
        (case find (active_csv_source name) (im_sources d) of
           Some s \<Rightarrow> Inr (src_id s, d)
         | None \<Rightarrow>
             rbind (csv (sql_insert source_check (\<lambda>a b. src_id a = src_id b) s (im_sources d))) (\<lambda>sources.
             Inr (i, d\<lparr>im_sources := sources\<rparr>))))"

definition create_import ::
    "env \<Rightarrow> instant \<Rightarrow> uuid \<Rightarrow> string \<Rightarrow> import_db \<Rightarrow> (csv_import_repository_error, uuid \<times> import_db) result" where
  "create_import E db_now source_id initiated_by d =
     (let (i, core) = draw_uuid E (im_core d); d = d\<lparr>im_core := core\<rparr> in
      rbind (csv (sql_insert import_check (\<lambda>a b. imp_id a = imp_id b)
               \<lparr>imp_id = i, imp_source_id = source_id, imp_initiated_by = initiated_by, imp_status = ''processing'',
                imp_accepted = 0, imp_duplicate = 0, imp_rejected = 0, imp_started_at = Some db_now,
                imp_completed_at = None, imp_created_at = db_now\<rparr> (im_imports d))) (\<lambda>imports.
      Inr (i, d\<lparr>im_imports := imports\<rparr>)))"

text \<open>\<open>ON CONFLICT \<dots> DO NOTHING\<close>: an active domain of the same name makes the insertion return no row.\<close>

definition insert_domain_if_absent ::
    "env \<Rightarrow> instant \<Rightarrow> canonical_domain \<Rightarrow> crawl_policy \<Rightarrow> import_db \<Rightarrow>
     (csv_import_repository_error, uuid option \<times> import_db) result" where
  "insert_domain_if_absent E db_now c policy d =
     (let (i, core) = draw_uuid E (im_core d) in
      case insert_domain_row E \<lparr>dr_id = i, dr_canonical_domain = canonical_domain_as_str c, dr_archived_at = None\<rparr>
             (db_domains core) of
        Inl UniqueViolation \<Rightarrow> Inr (None, d\<lparr>im_core := core\<rparr>)
      | Inl OtherDatabaseError \<Rightarrow> Inl CsvUnavailable
      | Inr domains \<Rightarrow>
          rbind (csv (env_interval E (desired_interval policy))) (\<lambda>interval.
          rbind (map_err (\<lambda>_. CsvUnavailable)
                   (insert_policy_row (new_policy_row i (crawl_priority_as_str (priority policy)) interval db_now)
                      (db_policies core))) (\<lambda>policies.
          Inr (Some i, d\<lparr>im_core := core\<lparr>db_domains := domains, db_policies := policies\<rparr>\<rparr>))))"

definition find_active_domain_id ::
    "canonical_domain \<Rightarrow> import_db \<Rightarrow> (csv_import_repository_error, uuid) result" where
  "find_active_domain_id c d =
     csv (map_option dr_id (find (\<lambda>r. dr_canonical_domain r = canonical_domain_as_str c \<and> dr_archived_at r = None)
            (db_domains (im_core d))))"

definition upsert_source_membership ::
    "instant \<Rightarrow> uuid \<Rightarrow> uuid \<Rightarrow> uuid \<Rightarrow> import_db \<Rightarrow> (csv_import_repository_error, import_db) result" where
  "upsert_source_membership db_now domain_id source_id import_id d =
     (let sel = (\<lambda>m. mem_domain_id m = domain_id \<and> mem_source_id m = source_id) in
      if list_ex sel (im_members d) then
        rbind (csv (sql_update (\<lambda>m. mem_first_seen_at m \<le> mem_last_seen_at m) (\<lambda>_. False) sel
                 (\<lambda>m. m\<lparr>mem_last_seen_at := db_now\<rparr>) (im_members d))) (\<lambda>members.
        Inr (d\<lparr>im_members := members\<rparr>))
      else
        Inr (d\<lparr>im_members := im_members d @ [\<lparr>mem_domain_id = domain_id, mem_source_id = source_id,
               mem_first_import_id = Some import_id, mem_first_seen_at = db_now, mem_last_seen_at = db_now\<rparr>]\<rparr>))"

definition insert_row ::
    "env \<Rightarrow> uuid \<Rightarrow> nat \<Rightarrow> csv_import_row_result \<Rightarrow> import_db \<Rightarrow> (csv_import_repository_error, import_db) result" where
  "insert_row E import_id row_number r d =
     rbind (csv (sql_insert (csv_row_check E)
              (\<lambda>a b. irw_import_id a = irw_import_id b \<and> irw_row_number a = irw_row_number b)
              \<lparr>irw_import_id = import_id, irw_row_number = row_number,
               irw_input_values = JObject [(''domain'', JString (res_input_domain r))],
               irw_canonical_domain = res_canonical_domain r, irw_domain_id = res_domain_id r,
               irw_status = csv_import_row_status_as_str (res_status r),
               irw_error_code = map_option csv_import_row_error_as_str (res_error r),
               irw_error_summary = map_option csv_import_row_error_summary (res_error r)\<rparr> (im_rows d))) (\<lambda>rows.
     Inr (d\<lparr>im_rows := rows\<rparr>))"

definition process_row ::
    "env \<Rightarrow> instant \<Rightarrow> uuid \<Rightarrow> uuid \<Rightarrow> crawl_policy \<Rightarrow> csv_import_row_input \<Rightarrow> import_db \<Rightarrow>
     (csv_import_repository_error, csv_import_row_result \<times> import_db) result" where
  "process_row E db_now import_id source_id policy input d =
     (if csv_row_number input \<ge> 2 ^ 31 then Inl CsvUnavailable
      else
        rbind (case parse_row_domain (env_url_parse E) (csv_domain input) of
                 Inl e \<Rightarrow>
                   Inr (\<lparr>res_row_number = csv_row_number input, res_input_domain = csv_domain input,
                         res_canonical_domain = None, res_status = RowRejected, res_domain_id = None,
                         res_error = Some e\<rparr>, d)
               | Inr c \<Rightarrow>
                   rbind (insert_domain_if_absent E db_now c policy d) (\<lambda>(inserted, d).
                   rbind (case inserted of
                            Some i \<Rightarrow> Inr (i, RowAccepted)
                          | None \<Rightarrow> rbind (find_active_domain_id c d) (\<lambda>i. Inr (i, RowDuplicate))) (\<lambda>(i, status).
                   rbind (upsert_source_membership db_now i source_id import_id d) (\<lambda>d.
                   Inr (\<lparr>res_row_number = csv_row_number input, res_input_domain = csv_domain input,
                         res_canonical_domain = Some (canonical_domain_as_str c), res_status = status,
                         res_domain_id = Some i, res_error = None\<rparr>, d))))) (\<lambda>(result, d).
        rbind (insert_row E import_id (csv_row_number input) result d) (\<lambda>d. Inr (result, d))))"

definition checked_incr :: "nat \<Rightarrow> (csv_import_repository_error, nat) result" where
  "checked_incr n = (if n + 1 < 2 ^ 32 then Inr (n + 1) else Inl CsvUnavailable)"

definition count_row ::
    "csv_import_row_result \<Rightarrow> csv_import_result \<Rightarrow> (csv_import_repository_error, csv_import_result) result" where
  "count_row row r =
     rbind (case res_status row of
              RowAccepted \<Rightarrow> rbind (checked_incr (res_accepted r)) (\<lambda>n. Inr (r\<lparr>res_accepted := n\<rparr>))
            | RowDuplicate \<Rightarrow> rbind (checked_incr (res_duplicate r)) (\<lambda>n. Inr (r\<lparr>res_duplicate := n\<rparr>))
            | RowRejected \<Rightarrow> rbind (checked_incr (res_rejected r)) (\<lambda>n. Inr (r\<lparr>res_rejected := n\<rparr>))) (\<lambda>r.
     Inr (r\<lparr>res_rows := res_rows r @ [row]\<rparr>))"

fun process_rows ::
    "env \<Rightarrow> instant \<Rightarrow> uuid \<Rightarrow> uuid \<Rightarrow> crawl_policy \<Rightarrow> csv_import_row_input list \<Rightarrow> csv_import_result \<Rightarrow> import_db \<Rightarrow>
     (csv_import_repository_error, csv_import_result \<times> import_db) result" where
  "process_rows E db_now import_id source_id policy [] r d = Inr (r, d)"
| "process_rows E db_now import_id source_id policy (input # inputs) r d =
     rbind (process_row E db_now import_id source_id policy input d) (\<lambda>(row, d).
     rbind (count_row row r) (\<lambda>r. process_rows E db_now import_id source_id policy inputs r d))"

definition i32_try_from :: "nat \<Rightarrow> (csv_import_repository_error, nat) result" where
  "i32_try_from n = (if n < 2 ^ 31 then Inr n else Inl CsvUnavailable)"

definition complete_import ::
    "instant \<Rightarrow> csv_import_result \<Rightarrow> import_db \<Rightarrow> (csv_import_repository_error, import_db) result" where
  "complete_import db_now r d =
     rbind (i32_try_from (res_accepted r)) (\<lambda>accepted.
     rbind (i32_try_from (res_duplicate r)) (\<lambda>duplicate.
     rbind (i32_try_from (res_rejected r)) (\<lambda>rejected.
     rbind (csv (sql_update import_check (\<lambda>_. False) (\<lambda>i. imp_id i = res_import_id r)
              (\<lambda>i. i\<lparr>imp_status := ''completed'', imp_accepted := accepted, imp_duplicate := duplicate,
                     imp_rejected := rejected, imp_completed_at := Some db_now\<rparr>) (im_imports d))) (\<lambda>imports.
     Inr (d\<lparr>im_imports := imports\<rparr>)))))"

definition repository_import_csv ::
    "env \<Rightarrow> instant \<Rightarrow> csv_import_command \<Rightarrow> domain_creation_defaults \<Rightarrow> import_db \<Rightarrow>
     (csv_import_repository_error, csv_import_result \<times> import_db) result" where
  "repository_import_csv E db_now command defaults d =
     rbind (find_or_create_source E (csv_source_name command) d) (\<lambda>(source_id, d).
     rbind (create_import E db_now source_id (csv_initiated_by command) d) (\<lambda>(import_id, d).
     rbind (process_rows E db_now import_id source_id (defaults_crawl_policy defaults) (csv_document command)
              \<lparr>res_import_id = import_id, res_source_name = csv_source_name command, res_accepted = 0,
               res_duplicate = 0, res_rejected = 0, res_rows = []\<rparr> d) (\<lambda>(result, d).
     rbind (complete_import db_now result d) (\<lambda>d.
     rbind (csv (insert_audit
              \<lparr>aud_actor_subject = csv_initiated_by command, aud_action = ''import.created'', aud_domain_id = None,
               aud_resource_kind = ''import'', aud_resource_id = import_id,
               aud_metadata = JObject [(''accepted_row_count'', JInt (int (res_accepted result))),
                 (''duplicate_row_count'', JInt (int (res_duplicate result))),
                 (''rejected_row_count'', JInt (int (res_rejected result)))]\<rparr> (im_core d))) (\<lambda>core.
     Inr (result, d\<lparr>im_core := core\<rparr>))))))"

section \<open>The callers\<close>

datatype csv_import_service_error = InvalidCommand csv_import_command_error | CsvServiceUnavailable

definition CsvImportService_import ::
    "env \<Rightarrow> instant \<Rightarrow> domain_creation_defaults \<Rightarrow> string \<Rightarrow> string \<Rightarrow> csv_import_row_input list \<Rightarrow> import_db \<Rightarrow>
     (csv_import_service_error, csv_import_result \<times> import_db) result" where
  "CsvImportService_import E db_now defaults source_name initiated_by document d =
     rbind (map_err InvalidCommand (CsvImportCommand_new source_name initiated_by document)) (\<lambda>command.
     map_err (\<lambda>_. CsvServiceUnavailable) (repository_import_csv E db_now command defaults d))"

definition admin_import_csv ::
    "env \<Rightarrow> instant \<Rightarrow> string \<Rightarrow> string \<Rightarrow> csv_import_row_input list \<Rightarrow> import_db \<Rightarrow>
     (admin_operation_error, csv_import_result \<times> import_db) result" where
  "admin_import_csv E db_now source_name actor_subject document d =
     rbind (map_err (\<lambda>_. AdminValidation) (CsvImportCommand_new source_name actor_subject document)) (\<lambda>command.
     map_err (\<lambda>_. AdminUnavailable) (repository_import_csv E db_now command DomainCreationDefaults_default d))"

record admin_import_batch =
  bat_import_id :: string
  bat_source_name :: string
  bat_completed_at :: instant
  bat_domain_count :: nat

definition batch_of :: "env \<Rightarrow> import_db \<Rightarrow> import_row \<Rightarrow> source_row \<Rightarrow> (admin_operation_error, admin_import_batch) result" where
  "batch_of E d i s =
     rbind (ok_or AdminUnavailable (imp_completed_at i)) (\<lambda>completed.
     Inr \<lparr>bat_import_id = env_uuid_str E (imp_id i), bat_source_name = src_name s, bat_completed_at = completed,
          bat_domain_count = length (remdups (List.map_filter irw_domain_id
            (filter (\<lambda>r. irw_import_id r = imp_id i) (im_rows d))))\<rparr>)"

text \<open>\<open>ORDER BY completed_at DESC\<close> puts a missing completion first.\<close>

definition batch_key :: "import_row \<times> source_row \<Rightarrow> nat \<times> int \<times> int" where
  "batch_key p = (case imp_completed_at (fst p) of None \<Rightarrow> (0, 0, - uint (imp_id (fst p)))
                  | Some t \<Rightarrow> (1, - t, - uint (imp_id (fst p))))"

definition completed_import_batches ::
    "env \<Rightarrow> nat \<Rightarrow> import_db \<Rightarrow> (admin_operation_error, admin_import_batch list) result" where
  "completed_import_batches E limit d =
     rbind (ok_or AdminValidation (i64_try_from limit)) (\<lambda>limit.
     collect_results (map (\<lambda>(i, s). batch_of E d i s)
       (take limit (sort_key batch_key
          [(i, s). i \<leftarrow> filter (\<lambda>i. imp_status i = ''completed'') (im_imports d),
                   s \<leftarrow> filter (\<lambda>s. src_id s = imp_source_id i) (im_sources d)]))))"

section \<open>What a row does\<close>




definition same_core :: "db \<Rightarrow> db \<Rightarrow> bool" where
  "same_core d d' = (\<exists>n us. d' = d\<lparr>db_drawn := n, db_audit := us\<rparr>)"


lemma same_core_refl [simp]: "same_core d d"
  unfolding same_core_def by (intro exI [of _ "db_drawn d"] exI [of _ "db_audit d"]) simp











section \<open>What the rows do together\<close>













section \<open>The whole import\<close>














end
