(* ===== verification/Reprocessing.thy ===== *)
theory Reprocessing
  imports Worker_Service
begin

text \<open>
  Reprocessing (\<^verbatim>\<open>models/reprocessing.rs\<close>, \<^verbatim>\<open>database/reprocessing_repository.rs\<close>, the reprocessing operations
  of \<^verbatim>\<open>database/admin_workflow_repository.rs\<close> and \<open>ReprocessingProcessor\<close> of \<^verbatim>\<open>apps/worker/src/lib.rs\<close>): a run
  replays one version of a rule over every stored snapshot, one work item each.  An administrator
  starts a run, workers claim its items one at a time and record their outcome, and the last outcome
  finishes the run and derives the version changes.
\<close>

section \<open>Tables\<close>

record run_row =
  run_id :: uuid
  run_version_id :: uuid
  run_requested_by :: string
  run_idempotency_key :: string
  run_correlation_id :: uuid
  run_status :: string
  run_total :: int
  run_succeeded :: int
  run_failed :: int
  run_requested_at :: instant
  run_started_at :: "instant option"
  run_finished_at :: "instant option"

record item_row =
  wi_id :: uuid
  wi_run_id :: uuid
  wi_snapshot_id :: uuid
  wi_domain_id :: uuid
  wi_status :: string
  wi_attempt_count :: int
  wi_next_attempt_at :: instant
  wi_claimed_at :: "instant option"
  wi_failure_summary :: "string option"
  wi_completed_at :: "instant option"
  wi_created_at :: instant
  wi_updated_at :: instant

record reprocessed_observation_row =
  rob_run_id :: uuid
  rob_snapshot_id :: uuid
  rob_version_id :: uuid
  rob_status :: string
  rob_observed_at :: instant

record reprocessed_detection_row =
  rdt_id :: uuid
  rdt_run_id :: uuid
  rdt_snapshot_id :: uuid
  rdt_technology_id :: uuid
  rdt_version_id :: uuid
  rdt_confidence :: int
  rdt_method :: string
  rdt_technology_version :: "string option"
  rdt_observed_at :: instant

record version_change_row =
  vch_id :: uuid
  vch_run_id :: uuid
  vch_domain_id :: uuid
  vch_technology_id :: uuid
  vch_prior_snapshot_id :: uuid
  vch_current_snapshot_id :: uuid
  vch_prior_detection_id :: uuid
  vch_current_detection_id :: uuid
  vch_from_version :: string
  vch_to_version :: string
  vch_observed_at :: instant
  vch_created_at :: instant

record rp_db =
  rp_store :: store
  rp_runs :: "run_row list"
  rp_items :: "item_row list"
  rp_observations :: "reprocessed_observation_row list"
  rp_detections :: "reprocessed_detection_row list"
  rp_evidence :: "evidence_row list"
  rp_changes :: "version_change_row list"

definition run_check :: "run_row \<Rightarrow> bool" where
  "run_check r =
     (present (run_requested_by r)
      \<and> 1 \<le> chars_count (btrim (run_idempotency_key r)) \<and> chars_count (btrim (run_idempotency_key r)) \<le> 255
      \<and> run_status r \<in> {''queued'', ''running'', ''completed'', ''partial_failed''}
      \<and> 0 \<le> run_total r \<and> 0 \<le> run_succeeded r \<and> 0 \<le> run_failed r
      \<and> run_succeeded r + run_failed r \<le> run_total r
      \<and> ((run_status r \<in> {''queued'', ''running''} \<and> run_finished_at r = None)
         \<or> (run_status r \<in> {''completed'', ''partial_failed''} \<and> run_finished_at r \<noteq> None)))"

definition item_check :: "item_row \<Rightarrow> bool" where
  "item_check i =
     (wi_status i \<in> {''queued'', ''running'', ''succeeded'', ''dead_lettered''}
      \<and> 0 \<le> wi_attempt_count i \<and> wi_attempt_count i < 2 ^ 15
      \<and> summary_bounded (wi_failure_summary i)
      \<and> ((wi_status i \<in> {''queued'', ''running''} \<and> wi_completed_at i = None)
         \<or> (wi_status i = ''succeeded'' \<and> wi_completed_at i \<noteq> None \<and> wi_failure_summary i = None)
         \<or> (wi_status i = ''dead_lettered'' \<and> wi_completed_at i \<noteq> None \<and> wi_failure_summary i \<noteq> None)))"

definition reprocessed_detection_check :: "reprocessed_detection_row \<Rightarrow> bool" where
  "reprocessed_detection_check r =
     (0 \<le> rdt_confidence r \<and> rdt_confidence r \<le> 100 \<and> rdt_method r = ''deterministic_rule''
      \<and> (case rdt_technology_version r of None \<Rightarrow> True | Some v \<Rightarrow> 1 \<le> chars_count v \<and> chars_count v \<le> 128))"

definition update_runs :: "(run_row \<Rightarrow> bool) \<Rightarrow> (run_row \<Rightarrow> run_row) \<Rightarrow> rp_db \<Rightarrow> rp_db option" where
  "update_runs sel f d = map_option (\<lambda>rows. d\<lparr>rp_runs := rows\<rparr>) (sql_update run_check (\<lambda>_. False) sel f (rp_runs d))"

definition update_items :: "(item_row \<Rightarrow> bool) \<Rightarrow> (item_row \<Rightarrow> item_row) \<Rightarrow> rp_db \<Rightarrow> rp_db option" where
  "update_items sel f d = map_option (\<lambda>rows. d\<lparr>rp_items := rows\<rparr>) (sql_update item_check (\<lambda>_. False) sel f (rp_items d))"

definition rp_fresh_uuid :: "env \<Rightarrow> rp_db \<Rightarrow> uuid \<times> rp_db" where
  "rp_fresh_uuid E d = (case fresh_uuid E (rp_store d) of (i, st) \<Rightarrow> (i, d\<lparr>rp_store := st\<rparr>))"

section \<open>Claiming an item\<close>

datatype reprocessing_repository_error = ReprocessingUnavailable

definition rp :: "'a option \<Rightarrow> (reprocessing_repository_error, 'a) result" where
  "rp r = ok_or ReprocessingUnavailable r"

record reprocessing_work_item =
  rwi_id :: uuid
  rwi_run_id :: uuid
  rwi_snapshot_id :: uuid
  rwi_domain_id :: uuid
  rwi_technology_id :: uuid
  rwi_version_id :: uuid
  rwi_captured_at :: instant
  rwi_attempt_count :: u16
  rwi_response_headers :: "(string \<times> string) list"
  rwi_artifact :: "raw_artifact_metadata option"
  rwi_rule :: active_detection_rule

text \<open>\<open>Json<BTreeMap<String, String>>\<close>: an object whose members are all strings.\<close>

fun string_members :: "(string \<times> json) list \<Rightarrow> (string \<times> string) list \<Rightarrow> (string \<times> string) list option" where
  "string_members [] m = Some m"
| "string_members ((k, v) # members) m =
     (case as_str v of None \<Rightarrow> None | Some s \<Rightarrow> string_members members (btree_insert k s m))"

definition string_map :: "json \<Rightarrow> (string \<times> string) list option" where
  "string_map j = Option.bind (as_object j) (\<lambda>members. string_members members [])"

definition u64_of_i64 :: "int \<Rightarrow> u64 option" where
  "u64_of_i64 n = (if 0 \<le> n then Some (word_of_int n) else None)"

definition u16_of_i16 :: "int \<Rightarrow> u16 option" where
  "u16_of_i16 n = (if 0 \<le> n then Some (word_of_int n) else None)"

definition claimed_artifact :: "artifact_row option \<Rightarrow> (reprocessing_repository_error, raw_artifact_metadata option) result" where
  "claimed_artifact row =
     (case row of
        None \<Rightarrow> Inr None
      | Some a \<Rightarrow>
          if art_compression a \<noteq> ''zstd'' then Inl ReprocessingUnavailable
          else
            rbind (rp (u64_of_i64 (art_uncompressed_size a))) (\<lambda>uncompressed.
            rbind (rp (u64_of_i64 (art_compressed_size a))) (\<lambda>compressed.
            rbind (map_err (\<lambda>_. ReprocessingUnavailable)
                     (RawArtifactMetadata_response_body (art_storage_location a) (art_checksum a) Zstd uncompressed compressed
                        (art_retention_expires_at a))) (\<lambda>artifact.
            Inr (Some artifact)))))"

text \<open>The joins of the claiming query; \<open>locked\<close> are the items whose row another transaction holds.\<close>

definition left_join :: "'a list \<Rightarrow> 'a option list" where
  "left_join rows = (if rows = [] then [None] else map Some rows)"

type_synonym claim_row = "item_row \<times> snapshot_row \<times> artifact_row option \<times> technology_row \<times> category_row \<times> rule_row \<times> version_row"

definition claim_rows :: "uuid set \<Rightarrow> instant \<Rightarrow> rp_db \<Rightarrow> claim_row list" where
  "claim_rows locked now d =
     sort_key (\<lambda>(i, _). (wi_next_attempt_at i, wi_created_at i))
       [(i, s, a, t, c, r, v). i \<leftarrow> rp_items d,
          wi_status i = ''queued'' \<and> wi_next_attempt_at i \<le> now \<and> wi_id i \<notin> locked,
          run \<leftarrow> rp_runs d, run_id run = wi_run_id i,
          s \<leftarrow> st_snapshots (rp_store d), snap_id s = wi_snapshot_id i,
          a \<leftarrow> left_join (filter (\<lambda>a. art_snapshot_id a = snap_id s) (st_artifacts (rp_store d))),
          v \<leftarrow> st_versions (rp_store d), ver_id v = run_version_id run,
          r \<leftarrow> st_rules (rp_store d), rr_id r = ver_rule_id v,
          t \<leftarrow> st_technologies (rp_store d), tech_id t = rr_technology_id r,
          c \<leftarrow> st_categories (rp_store d), cat_id c = tech_category_id t]"

definition claimed_item :: "claim_row \<Rightarrow> (reprocessing_repository_error, reprocessing_work_item) result" where
  "claimed_item row =
     (case row of (i, s, a, t, c, r, v) \<Rightarrow>
        rbind (rp (string_map (snap_response_headers s))) (\<lambda>headers.
        rbind (claimed_artifact a) (\<lambda>artifact.
        rbind (rp (u16_of_i16 (wi_attempt_count i + 1))) (\<lambda>attempt_count.
        rbind (rp (u16_of_i16 (ver_version v))) (\<lambda>version.
        Inr \<lparr>rwi_id = wi_id i, rwi_run_id = wi_run_id i, rwi_snapshot_id = wi_snapshot_id i,
             rwi_domain_id = wi_domain_id i, rwi_technology_id = tech_id t, rwi_version_id = ver_id v,
             rwi_captured_at = snap_captured_at s, rwi_attempt_count = attempt_count,
             rwi_response_headers = headers, rwi_artifact = artifact,
             rwi_rule = \<lparr>active_technology_slug = tech_slug t, active_technology_category_slug = cat_slug c,
               active_rule_slug = rr_slug r, active_version = version, active_definition = ver_definition v\<rparr>\<rparr>)))))"

definition start_item :: "instant \<Rightarrow> item_row \<Rightarrow> item_row" where
  "start_item now i =
     i\<lparr>wi_status := ''running'', wi_attempt_count := wi_attempt_count i + 1, wi_claimed_at := Some now, wi_updated_at := now\<rparr>"

definition start_run :: "instant \<Rightarrow> run_row \<Rightarrow> run_row" where
  "start_run now r =
     r\<lparr>run_status := ''running'', run_started_at := (case run_started_at r of None \<Rightarrow> Some now | Some t \<Rightarrow> Some t)\<rparr>"

definition claim_next_reprocessing_item ::
    "uuid set \<Rightarrow> instant \<Rightarrow> rp_db \<Rightarrow> (reprocessing_repository_error, reprocessing_work_item option \<times> rp_db) result" where
  "claim_next_reprocessing_item locked now d =
     (case list_first (claim_rows locked now d) of
        None \<Rightarrow> Inr (None, d)
      | Some row \<Rightarrow>
          rbind (rp (update_items (\<lambda>i. wi_id i = wi_id (fst row)) (start_item now) d)) (\<lambda>d.
          rbind (rp (update_runs (\<lambda>r. run_id r = wi_run_id (fst row) \<and> run_status r = ''queued'') (start_run now) d)) (\<lambda>d.
          rbind (claimed_item row) (\<lambda>claimed. Inr (Some claimed, d)))))"

section \<open>Summarising a run\<close>

definition items_of :: "uuid \<Rightarrow> rp_db \<Rightarrow> item_row list" where
  "items_of run d = filter (\<lambda>i. wi_run_id i = run) (rp_items d)"

definition count_items :: "string list \<Rightarrow> uuid \<Rightarrow> rp_db \<Rightarrow> int" where
  "count_items statuses run d = int (length (filter (\<lambda>i. wi_status i \<in> set statuses) (items_of run d)))"

definition i32_of_count :: "int \<Rightarrow> (reprocessing_repository_error, int) result" where
  "i32_of_count n = (if n < 2 ^ 31 then Inr n else Inl ReprocessingUnavailable)"

text \<open>The observations of a run with what is joined to them, in the order of the window.\<close>

record ranked_row =
  rk_detection_id :: "uuid option"
  rk_snapshot_id :: uuid
  rk_domain_id :: uuid
  rk_technology_id :: uuid
  rk_version :: "string option"
  rk_observed_at :: instant

definition ranked_rows :: "uuid \<Rightarrow> rp_db \<Rightarrow> ranked_row list" where
  "ranked_rows run d =
     sort_key (\<lambda>x. (rk_observed_at x, uint (rk_snapshot_id x)))
       [\<lparr>rk_detection_id = map_option rdt_id det, rk_snapshot_id = rob_snapshot_id ob, rk_domain_id = snap_domain_id s,
         rk_technology_id = tech_id t, rk_version = Option.bind det rdt_technology_version,
         rk_observed_at = rob_observed_at ob\<rparr>.
        ob \<leftarrow> rp_observations d, rob_run_id ob = run,
        s \<leftarrow> st_snapshots (rp_store d), snap_id s = rob_snapshot_id ob,
        v \<leftarrow> st_versions (rp_store d), ver_id v = rob_version_id ob,
        r \<leftarrow> st_rules (rp_store d), rr_id r = ver_rule_id v,
        t \<leftarrow> st_technologies (rp_store d), tech_id t = rr_technology_id r,
        det \<leftarrow> left_join (filter (\<lambda>x. rdt_run_id x = rob_run_id ob \<and> rdt_snapshot_id x = rob_snapshot_id ob
          \<and> rdt_version_id x = rob_version_id ob) (rp_detections d))]"

text \<open>\<open>LAG(\<dots>) OVER (PARTITION BY \<dots>)\<close>: each row with the one before it in its partition.\<close>

fun lagged :: "('a \<Rightarrow> 'k) \<Rightarrow> ('k \<rightharpoonup> 'a) \<Rightarrow> 'a list \<Rightarrow> ('a option \<times> 'a) list" where
  "lagged key prior [] = []"
| "lagged key prior (x # xs) = (prior (key x), x) # lagged key (prior(key x \<mapsto> x)) xs"

definition partition_key :: "ranked_row \<Rightarrow> uuid \<times> uuid" where
  "partition_key x = (rk_domain_id x, rk_technology_id x)"

definition version_change :: "ranked_row option \<times> ranked_row \<Rightarrow> (ranked_row \<times> ranked_row \<times> string \<times> string) option" where
  "version_change p =
     (case p of (None, x) \<Rightarrow> None
      | (Some y, x) \<Rightarrow>
          (case (rk_version y, rk_version x) of
             (Some before, Some after) \<Rightarrow> if before \<noteq> after then Some (y, x, before, after) else None
           | _ \<Rightarrow> None))"

fun insert_version_changes ::
    "env \<Rightarrow> uuid \<Rightarrow> instant \<Rightarrow> (ranked_row \<times> ranked_row \<times> string \<times> string) list \<Rightarrow> rp_db \<Rightarrow>
     (reprocessing_repository_error, rp_db) result" where
  "insert_version_changes E run now [] d = Inr d"
| "insert_version_changes E run now ((y, x, before, after) # rows) d =
     (let (i, d) = rp_fresh_uuid E d in
      rbind (rp (rk_detection_id y)) (\<lambda>prior.
      rbind (rp (rk_detection_id x)) (\<lambda>current.
      rbind (if list_ex (\<lambda>c. vch_run_id c = run \<and> vch_current_detection_id c = current) (rp_changes d) then Inr d
             else rbind (rp (sql_insert (\<lambda>c. vch_from_version c \<noteq> vch_to_version c) (\<lambda>a b. vch_id a = vch_id b)
                    \<lparr>vch_id = i, vch_run_id = run, vch_domain_id = rk_domain_id x, vch_technology_id = rk_technology_id x,
                     vch_prior_snapshot_id = rk_snapshot_id y, vch_current_snapshot_id = rk_snapshot_id x,
                     vch_prior_detection_id = prior, vch_current_detection_id = current, vch_from_version = before,
                     vch_to_version = after, vch_observed_at = rk_observed_at x, vch_created_at = now\<rparr>
                    (rp_changes d))) (\<lambda>changes. Inr (d\<lparr>rp_changes := changes\<rparr>)))
        (insert_version_changes E run now rows))))"

definition summarise_run :: "int \<Rightarrow> int \<Rightarrow> int \<Rightarrow> int \<Rightarrow> instant \<Rightarrow> run_row \<Rightarrow> run_row" where
  "summarise_run n_total succeeded failed pending now r =
     r\<lparr>run_total := n_total, run_succeeded := succeeded, run_failed := failed,
       run_status := (if pending = 0 then (if failed = 0 then ''completed'' else ''partial_failed'') else ''running''),
       run_finished_at := (if pending = 0 then Some now else None)\<rparr>"

definition refresh_run :: "env \<Rightarrow> uuid \<Rightarrow> instant \<Rightarrow> rp_db \<Rightarrow> (reprocessing_repository_error, rp_db) result" where
  "refresh_run E run now d =
     (let pending = count_items [''queued'', ''running''] run d in
      rbind (i32_of_count (int (length (items_of run d)))) (\<lambda>n_total.
      rbind (i32_of_count (count_items [''succeeded''] run d)) (\<lambda>succeeded.
      rbind (i32_of_count (count_items [''dead_lettered''] run d)) (\<lambda>failed.
      rbind (rp (update_runs (\<lambda>r. run_id r = run) (summarise_run n_total succeeded failed pending now) d)) (\<lambda>d.
      if pending = 0 then
        insert_version_changes E run now
          (List.map_filter version_change (lagged partition_key Map.empty (ranked_rows run d))) d
      else Inr d)))))"

section \<open>Recording an outcome\<close>

definition insert_observation ::
    "reprocessing_work_item \<Rightarrow> rule_observation \<Rightarrow> rp_db \<Rightarrow> (reprocessing_repository_error, rp_db) result" where
  "insert_observation w ob d =
     rbind (rp (sql_insert (\<lambda>r. rob_status r \<in> {''detected'', ''confirmed_absent'', ''unknown''})
              (\<lambda>a b. rob_run_id a = rob_run_id b \<and> rob_snapshot_id a = rob_snapshot_id b \<and> rob_version_id a = rob_version_id b)
              \<lparr>rob_run_id = rwi_run_id w, rob_snapshot_id = rwi_snapshot_id w, rob_version_id = rwi_version_id w,
               rob_status = rule_observation_status_as_str (obs_status ob), rob_observed_at = rwi_captured_at w\<rparr>
              (rp_observations d))) (\<lambda>rows.
     Inr (d\<lparr>rp_observations := rows\<rparr>))"

definition insert_reprocessed_detection ::
    "env \<Rightarrow> reprocessing_work_item \<Rightarrow> detection \<Rightarrow> string option \<Rightarrow> rp_db \<Rightarrow>
     (reprocessing_repository_error, rp_db) result" where
  "insert_reprocessed_detection E w det version d =
     (let (i, d) = rp_fresh_uuid E d in
      rbind (rp (sql_insert reprocessed_detection_check
               (\<lambda>a b. rdt_id a = rdt_id b
                  \<or> (rdt_run_id a = rdt_run_id b \<and> rdt_snapshot_id a = rdt_snapshot_id b
                     \<and> rdt_technology_id a = rdt_technology_id b \<and> rdt_version_id a = rdt_version_id b))
               \<lparr>rdt_id = i, rdt_run_id = rwi_run_id w, rdt_snapshot_id = rwi_snapshot_id w,
                rdt_technology_id = rwi_technology_id w, rdt_version_id = rwi_version_id w,
                rdt_confidence = uint (confidence_get (det_confidence det)),
                rdt_method = detection_method_as_str (det_method det), rdt_technology_version = version,
                rdt_observed_at = rwi_captured_at w\<rparr> (rp_detections d))) (\<lambda>rows.
      rbind (rp (insert_evidences i (det_evidence det) (rp_evidence d))) (\<lambda>evidence.
      Inr (d\<lparr>rp_detections := rows, rp_evidence := evidence\<rparr>))))"

definition succeed_item :: "instant \<Rightarrow> item_row \<Rightarrow> item_row" where
  "succeed_item now i =
     i\<lparr>wi_status := ''succeeded'', wi_completed_at := Some now, wi_updated_at := now, wi_failure_summary := None\<rparr>"

definition record_reprocessing_success ::
    "env \<Rightarrow> reprocessing_work_item \<Rightarrow> rule_evaluation \<Rightarrow> instant \<Rightarrow> rp_db \<Rightarrow> (reprocessing_repository_error, rp_db) result" where
  "record_reprocessing_success E w evaluation completed_at d =
     rbind (insert_observation w (re_observation evaluation) d) (\<lambda>d.
     rbind (case re_detection evaluation of
              None \<Rightarrow> Inr d
            | Some det \<Rightarrow> insert_reprocessed_detection E w det (re_technology_version evaluation) d) (\<lambda>d.
     rbind (rp (update_items (\<lambda>i. wi_id i = rwi_id w \<and> wi_status i = ''running'') (succeed_item completed_at) d)) (\<lambda>d.
     refresh_run E (rwi_run_id w) completed_at d)))"

definition bounded_failure_summary :: "string \<Rightarrow> string" where
  "bounded_failure_summary summary = concat (take 1024 (utf8_chars (trim summary)))"

definition dead_letter_item :: "string \<Rightarrow> instant \<Rightarrow> item_row \<Rightarrow> item_row" where
  "dead_letter_item summary now i =
     i\<lparr>wi_status := ''dead_lettered'', wi_failure_summary := Some summary, wi_completed_at := Some now, wi_updated_at := now\<rparr>"

definition retry_item :: "string \<Rightarrow> instant \<Rightarrow> instant \<Rightarrow> item_row \<Rightarrow> item_row" where
  "retry_item summary retry_at now i =
     i\<lparr>wi_status := ''queued'', wi_failure_summary := Some summary, wi_next_attempt_at := retry_at,
       wi_claimed_at := None, wi_updated_at := now\<rparr>"

definition record_reprocessing_failure ::
    "env \<Rightarrow> uuid \<Rightarrow> string \<Rightarrow> instant \<Rightarrow> bool \<Rightarrow> instant \<Rightarrow> rp_db \<Rightarrow> (reprocessing_repository_error, rp_db) result" where
  "record_reprocessing_failure E item_id summary retry_at terminal completed_at d =
     rbind (rp (map_option wi_run_id (find (\<lambda>i. wi_id i = item_id) (rp_items d)))) (\<lambda>run.
     let summary = bounded_failure_summary summary in
     rbind (rp (update_items (\<lambda>i. wi_id i = item_id \<and> wi_status i = ''running'')
              (if terminal then dead_letter_item summary completed_at else retry_item summary retry_at completed_at) d)) (\<lambda>d.
     refresh_run E run completed_at d))"

section \<open>Starting and listing runs\<close>

record admin_reprocessing_run =
  arr_id :: string
  arr_rule_slug :: string
  arr_rule_version :: u16
  arr_status :: string
  arr_total :: nat
  arr_succeeded :: nat
  arr_failed :: nat
  arr_requested_at :: instant
  arr_started_at :: "instant option"
  arr_finished_at :: "instant option"

definition u32_of_i32 :: "int \<Rightarrow> nat option" where
  "u32_of_i32 n = (if 0 \<le> n then Some (nat n) else None)"

definition reprocessing_run_from_row ::
    "env \<Rightarrow> run_row \<times> rule_row \<times> version_row \<Rightarrow> (admin_operation_error, admin_reprocessing_run) result" where
  "reprocessing_run_from_row E row =
     (case row of (run, r, v) \<Rightarrow>
        rbind (admin (u16_of_i16 (ver_version v))) (\<lambda>version.
        rbind (admin (u32_of_i32 (run_total run))) (\<lambda>n_total.
        rbind (admin (u32_of_i32 (run_succeeded run))) (\<lambda>succeeded.
        rbind (admin (u32_of_i32 (run_failed run))) (\<lambda>failed.
        Inr \<lparr>arr_id = env_uuid_str E (run_id run), arr_rule_slug = rr_slug r, arr_rule_version = version,
             arr_status = run_status run, arr_total = n_total, arr_succeeded = succeeded, arr_failed = failed,
             arr_requested_at = run_requested_at run, arr_started_at = run_started_at run,
             arr_finished_at = run_finished_at run\<rparr>)))))"

definition run_join :: "(run_row \<Rightarrow> rule_row \<Rightarrow> bool) \<Rightarrow> rp_db \<Rightarrow> (run_row \<times> rule_row \<times> version_row) list" where
  "run_join P d =
     [(run, r, v). run \<leftarrow> rp_runs d, v \<leftarrow> st_versions (rp_store d), ver_id v = run_version_id run,
        r \<leftarrow> st_rules (rp_store d), rr_id r = ver_rule_id v \<and> P run r]"

definition reprocessing_run_by_id :: "env \<Rightarrow> uuid \<Rightarrow> rp_db \<Rightarrow> (admin_operation_error, admin_reprocessing_run) result" where
  "reprocessing_run_by_id E i d =
     rbind (admin (list_first (run_join (\<lambda>run _. run_id run = i) d))) (reprocessing_run_from_row E)"

definition reprocessing_runs ::
    "env \<Rightarrow> string option \<Rightarrow> nat \<Rightarrow> rp_db \<Rightarrow> (admin_operation_error, admin_reprocessing_run list) result" where
  "reprocessing_runs E rule_slug limit d =
     rbind (ok_or AdminValidation (i64_try_from limit)) (\<lambda>limit.
     collect_results (map (reprocessing_run_from_row E)
       (take limit (sort_key (\<lambda>(run, _). - run_requested_at run)
          (run_join (\<lambda>_ r. rule_slug = None \<or> rule_slug = Some (rr_slug r)) d)))))"

fun insert_items :: "env \<Rightarrow> uuid \<Rightarrow> instant \<Rightarrow> snapshot_row list \<Rightarrow> nat \<Rightarrow> rp_db \<Rightarrow> (admin_operation_error, nat \<times> rp_db) result" where
  "insert_items E run now [] n_total d = Inr (n_total, d)"
| "insert_items E run now (s # snapshots) n_total d =
     (let (i, d) = rp_fresh_uuid E d in
      if list_ex (\<lambda>x. wi_run_id x = run \<and> wi_snapshot_id x = snap_id s) (rp_items d) then
        insert_items E run now snapshots n_total d
      else
        rbind (admin (sql_insert item_check (\<lambda>a b. wi_id a = wi_id b)
                 \<lparr>wi_id = i, wi_run_id = run, wi_snapshot_id = snap_id s, wi_domain_id = snap_domain_id s,
                  wi_status = ''queued'', wi_attempt_count = 0, wi_next_attempt_at = now, wi_claimed_at = None,
                  wi_failure_summary = None, wi_completed_at = None, wi_created_at = now, wi_updated_at = now\<rparr>
                 (rp_items d))) (\<lambda>rows.
        insert_items E run now snapshots (n_total + 1) (d\<lparr>rp_items := rows\<rparr>)))"

definition set_total :: "nat \<Rightarrow> instant \<Rightarrow> run_row \<Rightarrow> run_row" where
  "set_total n_total now r =
     r\<lparr>run_total := int n_total, run_status := (if n_total = 0 then ''completed'' else run_status r),
       run_finished_at := (if n_total = 0 then Some now else None)\<rparr>"

definition create_run_items ::
    "env \<Rightarrow> uuid \<Rightarrow> string \<Rightarrow> u16 \<Rightarrow> string \<Rightarrow> instant \<Rightarrow> rp_db \<Rightarrow> (admin_operation_error, rp_db) result" where
  "create_run_items E run rule_slug rule_version actor now d =
     rbind (insert_items E run now (st_snapshots (rp_store d)) 0 d) (\<lambda>(n_total, d).
     rbind (if n_total < 2 ^ 31 then Inr n_total else Inl AdminUnavailable) (\<lambda>n_total.
     rbind (admin (update_runs (\<lambda>r. run_id r = run) (set_total n_total now) d)) (\<lambda>d.
     rbind (admin (insert_audit
              \<lparr>aud_actor_subject = actor, aud_action = ''detection_reprocessing.requested'', aud_domain_id = None,
               aud_resource_kind = ''detection_reprocessing_run'', aud_resource_id = run,
               aud_metadata = JObject [(''rule_slug'', JString rule_slug), (''rule_version'', JInt (uint rule_version)),
                 (''snapshot_count'', JInt (int n_total))]\<rparr> (st_core (rp_store d)))) (\<lambda>core.
     Inr (d\<lparr>rp_store := (rp_store d)\<lparr>st_core := core\<rparr>\<rparr>)))))"

definition rule_version_ids :: "string \<Rightarrow> int \<Rightarrow> rp_db \<Rightarrow> uuid list" where
  "rule_version_ids rule_slug version d =
     [ver_id v. v \<leftarrow> st_versions (rp_store d), r \<leftarrow> st_rules (rp_store d),
        rr_id r = ver_rule_id v \<and> rr_slug r = rule_slug \<and> ver_version v = version]"

definition start_reprocessing ::
    "env \<Rightarrow> string \<Rightarrow> u16 \<Rightarrow> string \<Rightarrow> string \<Rightarrow> instant \<Rightarrow> rp_db \<Rightarrow>
     (admin_operation_error, admin_reprocessing_run \<times> rp_db) result" where
  "start_reprocessing E rule_slug rule_version idempotency_key actor now d =
     (let idempotency_key = trim idempotency_key in
      if idempotency_key = [] \<or> length idempotency_key > 255 \<or> trim actor = [] then Inl AdminValidation
      else
        rbind (ok_or AdminValidation (i16_try_from rule_version)) (\<lambda>version.
        rbind (ok_or AdminNotFound (list_first (rule_version_ids rule_slug version d))) (\<lambda>version_id.
        let (i, d) = rp_fresh_uuid E d; (correlation, d) = rp_fresh_uuid E d;
            row = \<lparr>run_id = i, run_version_id = version_id, run_requested_by = actor, run_idempotency_key = idempotency_key,
              run_correlation_id = correlation, run_status = ''queued'', run_total = 0, run_succeeded = 0, run_failed = 0,
              run_requested_at = now, run_started_at = None, run_finished_at = None\<rparr> in
        if \<not> run_check row then Inl AdminUnavailable
        else
          rbind (case find (\<lambda>r. run_idempotency_key r = idempotency_key) (rp_runs d) of
                   None \<Rightarrow>
                     rbind (admin (sql_insert run_check (\<lambda>a b. run_id a = run_id b) row (rp_runs d))) (\<lambda>rows.
                     rbind (create_run_items E i rule_slug rule_version actor now (d\<lparr>rp_runs := rows\<rparr>)) (\<lambda>d. Inr (i, d)))
                 | Some existing \<Rightarrow>
                     if run_version_id existing \<noteq> version_id then Inl AdminConflict else Inr (run_id existing, d)) (\<lambda>(run, d).
          rbind (reprocessing_run_by_id E run d) (\<lambda>view. Inr (view, d))))))"

section \<open>The processor\<close>

fun raw_artifact_store_error_str :: "raw_artifact_store_error \<Rightarrow> string" where
  "raw_artifact_store_error_str StoreInvalidRoot = ''raw artifact store root is invalid''"
| "raw_artifact_store_error_str StoreInvalidLocation = ''raw artifact location is invalid''"
| "raw_artifact_store_error_str StoreNotFound = ''raw artifact was not found''"
| "raw_artifact_store_error_str StoreCompression = ''raw artifact compression failed''"
| "raw_artifact_store_error_str StoreIntegrity = ''raw artifact integrity verification failed''"
| "raw_artifact_store_error_str StoreUnsupportedCompression = ''raw artifact uses an unsupported compression format''"
| "raw_artifact_store_error_str StoreSize = ''raw artifact size cannot be represented''"
| "raw_artifact_store_error_str StoreUnavailable = ''raw artifact storage is unavailable''"
| "raw_artifact_store_error_str (StoreIo _) = ''raw artifact storage is unavailable''"

fun detector_error_str :: "detector_error \<Rightarrow> string" where
  "detector_error_str InvalidRuleDefinition = ''active rule definition is invalid''"
| "detector_error_str (InvalidDetection _) = ''the static detector catalogue produced an invalid detection''"

text \<open>\<open>rs_between\<close> is what other processes do to the database between the processor's two transactions.\<close>

record ('d, 'x) rp_services =
  rs_env :: env
  rs_between :: "rp_db \<Rightarrow> rp_db"
  rs_disk :: "'d disk"
  rs_codecs :: codecs
  rs_root :: string
  rs_document :: "string \<Rightarrow> html_document"
  rs_regex :: "'x regex_lib"
  rs_saturating_add :: "instant \<Rightarrow> int \<Rightarrow> instant"

record reprocessing_processor =
  rpp_max_attempts :: u16
  rpp_retry_delay :: int

definition rpp_record_failure ::
    "('d, 'x) rp_services \<Rightarrow> reprocessing_processor \<Rightarrow> instant \<Rightarrow> reprocessing_work_item \<Rightarrow> string \<Rightarrow> rp_db \<Rightarrow>
     (reprocessing_repository_error, rp_db) result" where
  "rpp_record_failure S p now w summary d =
     record_reprocessing_failure (rs_env S) (rwi_id w) summary (rs_saturating_add S now (rpp_retry_delay p))
       (rpp_max_attempts p \<le> rwi_attempt_count w) now d"

text \<open>What is recorded for a claimed item: the evaluation of its rule, or the text of an error.\<close>

definition evaluate_item ::
    "('d, 'x) rp_services \<Rightarrow> 'd \<Rightarrow> reprocessing_work_item \<Rightarrow> (string, rule_evaluation) result" where
  "evaluate_item S disk w =
     rbind (case rwi_artifact w of
              Some artifact \<Rightarrow>
                rbind (map_err raw_artifact_store_error_str
                         (retrieve_blocking (rs_disk S) (rs_codecs S) (rs_root S) artifact disk))
                  (\<lambda>contents. Inr (Parser.Captured contents))
            | None \<Rightarrow> Inr (InputUnavailable Parser.NotCaptured)) (\<lambda>html.
     map_err detector_error_str
       (evaluate_reprocessing (rs_regex S)
          (parse (rs_document S)
             \<lparr>bundle_html = html, bundle_headers = Parser.Captured (rwi_response_headers w),
              bundle_dns = InputUnavailable Parser.NotCaptured, bundle_tls = InputUnavailable Parser.NotCaptured\<rparr>)
          (rwi_rule w)))"

definition process_next ::
    "('d, 'x) rp_services \<Rightarrow> reprocessing_processor \<Rightarrow> uuid set \<Rightarrow> instant \<Rightarrow> instant \<Rightarrow> 'd \<Rightarrow> rp_db \<Rightarrow>
     (reprocessing_repository_error, bool) result \<times> rp_db" where
  "process_next S p locked now completed_at disk d =
     (case claim_next_reprocessing_item locked now d of
        Inl e \<Rightarrow> (Inl e, d)
      | Inr (None, d) \<Rightarrow> (Inr False, d)
      | Inr (Some w, d) \<Rightarrow>
          (let d = rs_between S d in
           case (case evaluate_item S disk w of
                   Inl summary \<Rightarrow> rpp_record_failure S p completed_at w summary d
                 | Inr evaluation \<Rightarrow> record_reprocessing_success (rs_env S) w evaluation completed_at d) of
             Inl e \<Rightarrow> (Inl e, d)
           | Inr d \<Rightarrow> (Inr True, d)))"

end
