(* ===== verification/Reprocessing_Properties.thy ===== *)
theory Reprocessing_Properties
  imports Reprocessing
begin

text \<open>
  What holds of reprocessing: the summary of every run is exact in all states that claims and outcomes
  of concurrent workers reach, an item whose worker disappeared is lost together with its run, and a
  run cannot be started against the constraints of the shipped schema.
\<close>

section \<open>What the operations change\<close>

lemma rp_eq_Inr [simp]: "rp r = Inr x \<longleftrightarrow> r = Some x"
  by (simp add: rp_def)

lemma update_runs_Some [sql_simps]:
  "update_runs sel f d = Some d' \<longleftrightarrow>
     (\<forall>r \<in> set (rp_runs d). sel r \<longrightarrow> run_check (f r)) \<and> d' = d\<lparr>rp_runs := map (\<lambda>r. if sel r then f r else r) (rp_runs d)\<rparr>"
  by (auto simp: update_runs_def sql_simps)

lemma update_items_Some [sql_simps]:
  "update_items sel f d = Some d' \<longleftrightarrow>
     (\<forall>i \<in> set (rp_items d). sel i \<longrightarrow> item_check (f i)) \<and> d' = d\<lparr>rp_items := map (\<lambda>i. if sel i then f i else i) (rp_items d)\<rparr>"
  by (auto simp: update_items_def sql_simps)

definition same_runs :: "rp_db \<Rightarrow> rp_db \<Rightarrow> bool" where
  "same_runs d d' = (rp_runs d' = rp_runs d \<and> rp_items d' = rp_items d \<and> rp_observations d' = rp_observations d)"

lemma same_runs_refl [simp]: "same_runs d d"
  by (simp add: same_runs_def)

lemma same_runs_trans: "same_runs a b \<Longrightarrow> same_runs b c \<Longrightarrow> same_runs a c"
  by (simp add: same_runs_def)

lemma same_runs_fresh: "rp_fresh_uuid E d = (i, d') \<Longrightarrow> same_runs d d'"
  by (auto simp: rp_fresh_uuid_def same_runs_def split: prod.splits)

lemma same_runs_changes: "same_runs d (d\<lparr>rp_changes := c\<rparr>)"
  by (simp add: same_runs_def)

lemma insert_version_changes_Inr: "insert_version_changes E run now rows d = Inr d' \<Longrightarrow> same_runs d d'"
proof (induction E run now rows d rule: insert_version_changes.induct)
  case (2 E run now y x before after rows d)
  obtain i d1 where f: "rp_fresh_uuid E d = (i, d1)" by (cases "rp_fresh_uuid E d")
  from "2.prems" obtain prior current d2 where c: "rk_detection_id y = Some prior" "rk_detection_id x = Some current"
    and s: "same_runs d1 d2" and r: "insert_version_changes E run now rows d2 = Inr d'"
    unfolding insert_version_changes.simps f Let_def prod.case rbind_eq_Inr
    by (force simp: same_runs_changes split: if_splits)
  have "same_runs d2 d'"
    by (rule "2.IH" [OF refl f [symmetric] r])
  then show ?case using same_runs_trans [OF same_runs_trans [OF same_runs_fresh [OF f] s]] by blast
qed simp

lemma refresh_run_Inr:
  assumes "refresh_run E run now d = Inr d'"
  shows "rp_items d' = rp_items d" "rp_observations d' = rp_observations d"
    "rp_runs d' = map (\<lambda>r. if run_id r = run then
        summarise_run (int (length (items_of run d))) (count_items [''succeeded''] run d) (count_items [''dead_lettered''] run d)
          (count_items [''queued'', ''running''] run d) now r else r) (rp_runs d)"
proof -
  obtain d1 where u: "d1 = d\<lparr>rp_runs := map (\<lambda>r. if run_id r = run then
        summarise_run (int (length (items_of run d))) (count_items [''succeeded''] run d) (count_items [''dead_lettered''] run d)
          (count_items [''queued'', ''running''] run d) now r else r) (rp_runs d)\<rparr>"
    and "same_runs d1 d'"
    using assms unfolding refresh_run_def Let_def rbind_eq_Inr
    by (auto simp: i32_of_count_def sql_simps dest: insert_version_changes_Inr split: if_splits)
  then show "rp_items d' = rp_items d" "rp_observations d' = rp_observations d"
    "rp_runs d' = map (\<lambda>r. if run_id r = run then
        summarise_run (int (length (items_of run d))) (count_items [''succeeded''] run d) (count_items [''dead_lettered''] run d)
          (count_items [''queued'', ''running''] run d) now r else r) (rp_runs d)"
    by (simp_all add: same_runs_def)
qed

lemma claim_Inr:
  assumes "claim_next_reprocessing_item locked now d = Inr (Some w, d')"
  obtains i where "i \<in> set (rp_items d)" "wi_status i = ''queued''" "rwi_id w = wi_id i" "rwi_run_id w = wi_run_id i"
    "rwi_snapshot_id w = wi_snapshot_id i"
    "rp_items d' = map (\<lambda>x. if wi_id x = wi_id i then start_item now x else x) (rp_items d)"
    "rp_runs d' = map (\<lambda>r. if run_id r = wi_run_id i \<and> run_status r = ''queued'' then start_run now r else r) (rp_runs d)"
    "rp_observations d' = rp_observations d"
proof -
  obtain row where f: "list_first (claim_rows locked now d) = Some row"
    using assms by (auto simp: claim_next_reprocessing_item_def split: option.splits)
  obtain i s a t c r v where row: "row = (i, s, a, t, c, r, v)" by (cases row)
  have "row \<in> set (claim_rows locked now d)" using f by (auto simp: list_first_Some)
  then have "i \<in> set (rp_items d)" "wi_status i = ''queued''" by (auto simp: claim_rows_def row)
  moreover have "rwi_id w = wi_id i" "rwi_run_id w = wi_run_id i" "rwi_snapshot_id w = wi_snapshot_id i"
    "rp_items d' = map (\<lambda>x. if wi_id x = wi_id i then start_item now x else x) (rp_items d)"
    "rp_runs d' = map (\<lambda>r. if run_id r = wi_run_id i \<and> run_status r = ''queued'' then start_run now r else r) (rp_runs d)"
    "rp_observations d' = rp_observations d"
    using assms by (auto simp: claim_next_reprocessing_item_def f row claimed_item_def sql_simps)
  ultimately show thesis by (rule that)
qed

lemma insert_reprocessed_detection_Inr:
  "insert_reprocessed_detection E w det version d = Inr d' \<Longrightarrow> same_runs d d'"
  by (auto simp: insert_reprocessed_detection_def Let_def same_runs_def dest!: same_runs_fresh split: prod.splits)

lemma success_Inr:
  assumes "record_reprocessing_success E w evaluation now d = Inr d'"
  obtains d1 ob where
    "rob_run_id ob = rwi_run_id w" "rob_snapshot_id ob = rwi_snapshot_id w" "rp_observations d' = rp_observations d @ [ob]"
    "rp_items d1 = map (\<lambda>i. if wi_id i = rwi_id w \<and> wi_status i = ''running'' then succeed_item now i else i) (rp_items d)"
    "rp_runs d1 = rp_runs d" "rp_observations d1 = rp_observations d @ [ob]"
    "refresh_run E (rwi_run_id w) now d1 = Inr d'" "rp_items d' = rp_items d1"
proof -
  obtain a b c where a: "insert_observation w (re_observation evaluation) d = Inr a"
    and det: "(case re_detection evaluation of None \<Rightarrow> Inr a
            | Some det \<Rightarrow> insert_reprocessed_detection E w det (re_technology_version evaluation) a) = Inr b"
    and c: "update_items (\<lambda>i. wi_id i = rwi_id w \<and> wi_status i = ''running'') (succeed_item now) b = Some c"
    and r: "refresh_run E (rwi_run_id w) now c = Inr d'"
    using assms unfolding record_reprocessing_success_def rbind_eq_Inr rp_eq_Inr by blast
  have b: "same_runs a b"
    using det by (cases "re_detection evaluation") (auto dest: insert_reprocessed_detection_Inr)
  define ob where "ob = \<lparr>rob_run_id = rwi_run_id w, rob_snapshot_id = rwi_snapshot_id w, rob_version_id = rwi_version_id w,
    rob_status = rule_observation_status_as_str (obs_status (re_observation evaluation)), rob_observed_at = rwi_captured_at w\<rparr>"
  have ob: "rob_run_id ob = rwi_run_id w" "rob_snapshot_id ob = rwi_snapshot_id w"
    "a = d\<lparr>rp_observations := rp_observations d @ [ob]\<rparr>"
    using a by (auto simp: insert_observation_def sql_simps ob_def)
  show thesis
    by (rule that [of ob c]) (use ob b c r refresh_run_Inr [OF r] in \<open>auto simp: same_runs_def sql_simps\<close>)
qed

lemma failure_Inr:
  assumes "record_reprocessing_failure E k summary retry_at terminal now d = Inr d'"
  obtains d1 i f where "find (\<lambda>i. wi_id i = k) (rp_items d) = Some i"
    "rp_items d1 = map (\<lambda>i. if wi_id i = k \<and> wi_status i = ''running'' then f i else i) (rp_items d)"
    "rp_runs d1 = rp_runs d" "rp_observations d1 = rp_observations d" "refresh_run E (wi_run_id i) now d1 = Inr d'"
    "f = (if terminal then dead_letter_item (bounded_failure_summary summary) now
          else retry_item (bounded_failure_summary summary) retry_at now)"
proof -
  define f where "f = (if terminal then dead_letter_item (bounded_failure_summary summary) now
          else retry_item (bounded_failure_summary summary) retry_at now)"
  obtain i d1 where f: "find (\<lambda>i. wi_id i = k) (rp_items d) = Some i"
    and u: "update_items (\<lambda>i. wi_id i = k \<and> wi_status i = ''running'') f d = Some d1"
    and r: "refresh_run E (wi_run_id i) now d1 = Inr d'"
    using assms unfolding record_reprocessing_failure_def rbind_eq_Inr Let_def f_def by auto
  show thesis
    by (rule that [OF f _ _ _ r f_def]) (use u in \<open>simp_all add: sql_simps\<close>)
qed

section \<open>Workers and the database\<close>

text \<open>
  The state is the database and the items workers are working on.  Other transactions may change the rest of
  the store at any time; a worker may disappear with its item.
\<close>

inductive rp_step :: "rp_db \<times> reprocessing_work_item list \<Rightarrow> rp_db \<times> reprocessing_work_item list \<Rightarrow> bool" where
  claim: "claim_next_reprocessing_item locked now d = Inr (Some w, d') \<Longrightarrow> rp_step (d, held) (d', w # held)"
| success: "w \<in> set held \<Longrightarrow> record_reprocessing_success E w evaluation now d = Inr d' \<Longrightarrow>
    rp_step (d, held) (d', remove1 w held)"
| failure: "w \<in> set held \<Longrightarrow> record_reprocessing_failure E (rwi_id w) summary retry_at terminal now d = Inr d' \<Longrightarrow>
    rp_step (d, held) (d', remove1 w held)"
| lost: "w \<in> set held \<Longrightarrow> rp_step (d, held) (d, remove1 w held)"
| start: "start_reprocessing E slug version key actor now d = Inr (view, d') \<Longrightarrow> rp_step (d, held) (d', held)"
| others: "rp_step (d, held) (d\<lparr>rp_store := st\<rparr>, held)"

text \<open>Runs as \<open>start_reprocessing\<close> inserts them: every item queued, and a run without items complete.\<close>

definition rp_fresh :: "rp_db \<Rightarrow> bool" where
  "rp_fresh d =
     (distinct (map wi_id (rp_items d)) \<and> distinct (map (\<lambda>i. (wi_run_id i, wi_snapshot_id i)) (rp_items d))
      \<and> list_all (\<lambda>i. wi_status i = ''queued'') (rp_items d) \<and> rp_observations d = []
      \<and> list_all (\<lambda>r. run_total r = int (length (items_of (run_id r) d)) \<and> run_succeeded r = 0 \<and> run_failed r = 0
           \<and> (if items_of (run_id r) d = [] then run_status r = ''completed'' \<and> run_finished_at r \<noteq> None
              else run_status r = ''queued'' \<and> run_finished_at r = None)) (rp_runs d))"

inductive rp_reachable :: "rp_db \<times> reprocessing_work_item list \<Rightarrow> bool" where
  init: "rp_fresh d \<Longrightarrow> rp_reachable (d, [])"
| step: "rp_reachable s \<Longrightarrow> rp_step s s' \<Longrightarrow> rp_reachable s'"

inductive_cases rp_stepE: "rp_step (d, held) s'"

section \<open>The invariant\<close>

definition run_exact :: "rp_db \<Rightarrow> run_row \<Rightarrow> bool" where
  "run_exact d r =
     (run_total r = int (length (items_of (run_id r) d))
      \<and> run_succeeded r = count_items [''succeeded''] (run_id r) d
      \<and> run_failed r = count_items [''dead_lettered''] (run_id r) d
      \<and> (run_finished_at r = None \<longleftrightarrow> 0 < count_items [''queued'', ''running''] (run_id r) d)
      \<and> (run_status r = ''completed'' \<longleftrightarrow> count_items [''queued'', ''running''] (run_id r) d = 0 \<and> run_failed r = 0)
      \<and> (run_status r = ''partial_failed'' \<longleftrightarrow> count_items [''queued'', ''running''] (run_id r) d = 0 \<and> 0 < run_failed r))"

definition has_observation :: "rp_db \<Rightarrow> item_row \<Rightarrow> bool" where
  "has_observation d i = (\<exists>ob \<in> set (rp_observations d). rob_run_id ob = wi_run_id i \<and> rob_snapshot_id ob = wi_snapshot_id i)"

definition holds :: "rp_db \<Rightarrow> reprocessing_work_item \<Rightarrow> bool" where
  "holds d w = (\<exists>i \<in> set (rp_items d). wi_id i = rwi_id w \<and> wi_status i = ''running''
     \<and> wi_run_id i = rwi_run_id w \<and> wi_snapshot_id i = rwi_snapshot_id w)"

definition rp_inv :: "rp_db \<times> reprocessing_work_item list \<Rightarrow> bool" where
  "rp_inv s =
     (case s of (d, held) \<Rightarrow>
        distinct (map wi_id (rp_items d)) \<and> distinct (map (\<lambda>i. (wi_run_id i, wi_snapshot_id i)) (rp_items d))
        \<and> (\<forall>r \<in> set (rp_runs d). run_exact d r)
        \<and> (\<forall>i \<in> set (rp_items d). wi_status i = ''succeeded'' \<longleftrightarrow> has_observation d i)
        \<and> distinct (map rwi_id held) \<and> (\<forall>w \<in> set held. holds d w))"

lemma count_items_nonneg [simp]: "0 \<le> count_items S run d"
  by (simp add: count_items_def)

lemma count_items_pos: "0 < count_items S run d \<longleftrightarrow> (\<exists>i \<in> set (rp_items d). wi_run_id i = run \<and> wi_status i \<in> set S)"
  by (auto simp: count_items_def items_of_def filter_empty_conv)

lemma items_of_map:
  assumes "rp_items d' = map g (rp_items d)" and "\<And>i. wi_run_id (g i) = wi_run_id i"
  shows "items_of run d' = map g (items_of run d)"
  using assms by (simp add: items_of_def filter_map comp_def)

lemma count_items_map:
  assumes "rp_items d' = map g (rp_items d)" and "\<And>i. wi_run_id (g i) = wi_run_id i"
    and "\<And>i. i \<in> set (rp_items d) \<Longrightarrow> wi_run_id i = run \<Longrightarrow> wi_status (g i) \<in> set S \<longleftrightarrow> wi_status i \<in> set S"
  shows "count_items S run d' = count_items S run d"
proof -
  have "filter (\<lambda>i. wi_status (g i) \<in> set S) (items_of run d) = filter (\<lambda>i. wi_status i \<in> set S) (items_of run d)"
    by (rule filter_cong) (use assms(3) in \<open>auto simp: items_of_def\<close>)
  then show ?thesis
    by (simp add: count_items_def items_of_map [OF assms(1,2)] filter_map comp_def)
qed

lemma run_exact_items: "rp_items d' = rp_items d \<Longrightarrow> run_exact d' r = run_exact d r"
  by (simp add: run_exact_def count_items_def items_of_def)

text \<open>A run none of whose items changed, and the run that was summarised.\<close>

lemma run_exact_other:
  assumes "run_exact d r" and "rp_items d' = map g (rp_items d)" and "\<And>i. wi_run_id (g i) = wi_run_id i"
    and "\<And>i. i \<in> set (rp_items d) \<Longrightarrow> wi_run_id i = run_id r \<Longrightarrow> wi_status (g i) = wi_status i"
  shows "run_exact d' r"
proof -
  have "count_items S (run_id r) d' = count_items S (run_id r) d" for S
    by (rule count_items_map [OF assms(2,3)]) (use assms(4) in auto)
  with assms(1) show ?thesis
    by (simp add: run_exact_def items_of_map [OF assms(2,3)])
qed

lemma summarised_exact:
  "run_id r = run \<Longrightarrow> run_exact d (summarise_run (int (length (items_of run d))) (count_items [''succeeded''] run d)
     (count_items [''dead_lettered''] run d) (count_items [''queued'', ''running''] run d) now r)"
  using count_items_nonneg [of "[''dead_lettered'']" run d] count_items_nonneg [of "[''queued'', ''running'']" run d]
  by (auto simp: run_exact_def summarise_run_def order_le_less simp del: count_items_nonneg)

lemma refresh_exact:
  assumes "refresh_run E run now d = Inr d'"
    and "\<And>r. r \<in> set (rp_runs d) \<Longrightarrow> run_id r \<noteq> run \<Longrightarrow> run_exact d r"
    and "r \<in> set (rp_runs d')"
  shows "run_exact d' r"
proof -
  have "run_exact d r"
    using assms(2,3) refresh_run_Inr(3) [OF assms(1)] by (auto intro: summarised_exact split: if_splits)
  then show ?thesis using run_exact_items [OF refresh_run_Inr(1) [OF assms(1)]] by simp
qed

text \<open>A statement that updates the one item with identifier \<open>k\<close>.\<close>

lemma updated_keys:
  assumes "\<And>i. k (g i) = k i"
  shows "map k (map g xs) = map k xs"
  using assms by simp

lemma holds_map:
  assumes "holds d w" and "rp_items d' = map g (rp_items d)"
    and "\<And>i. i \<in> set (rp_items d) \<Longrightarrow> wi_id i = rwi_id w \<Longrightarrow> g i = i"
  shows "holds d' w"
  using assms unfolding holds_def by force

lemma start_item_fields [simp]:
  "wi_id (start_item now i) = wi_id i" "wi_run_id (start_item now i) = wi_run_id i"
  "wi_snapshot_id (start_item now i) = wi_snapshot_id i" "wi_status (start_item now i) = ''running''"
  by (simp_all add: start_item_def)

lemma start_run_fields [simp]:
  "run_id (start_run now r) = run_id r" "run_total (start_run now r) = run_total r"
  "run_succeeded (start_run now r) = run_succeeded r" "run_failed (start_run now r) = run_failed r"
  "run_status (start_run now r) = ''running''" "run_finished_at (start_run now r) = run_finished_at r"
  by (simp_all add: start_run_def)

lemma succeed_item_fields [simp]:
  "wi_id (succeed_item now i) = wi_id i" "wi_run_id (succeed_item now i) = wi_run_id i"
  "wi_snapshot_id (succeed_item now i) = wi_snapshot_id i" "wi_status (succeed_item now i) = ''succeeded''"
  by (simp_all add: succeed_item_def)

lemma claim_exact:
  assumes "run_exact d r" and "i \<in> set (rp_items d)" and "wi_status i = ''queued''" and "distinct (map wi_id (rp_items d))"
    and items: "rp_items d' = map (\<lambda>x. if wi_id x = wi_id i then start_item now x else x) (rp_items d)"
  shows "run_exact d' (if run_id r = wi_run_id i \<and> run_status r = ''queued'' then start_run now r else r)"
proof -
  have same: "x = i" if "x \<in> set (rp_items d)" "wi_id x = wi_id i" for x
    using distinct_map_eq [OF assms(4) that(1) assms(2) that(2)] .
  have count: "count_items S (run_id r) d' = count_items S (run_id r) d"
    if "''running'' \<in> set S \<longleftrightarrow> ''queued'' \<in> set S" for S
    by (rule count_items_map [OF items]) (use that assms(3) in \<open>auto dest: same\<close>)
  have "length (items_of (run_id r) d') = length (items_of (run_id r) d)"
    by (subst items_of_map [OF items]) auto
  then have "run_exact d' r"
    using assms(1) by (simp add: run_exact_def count)
  moreover have "0 < count_items [''queued'', ''running''] (run_id r) d'" if "run_id r = wi_run_id i"
    using that assms(2,3) by (subst count) (auto simp: count_items_pos)
  ultimately show ?thesis by (auto simp: run_exact_def)
qed

lemma claim_keeps_inv:
  assumes inv: "rp_inv (d, held)" and c: "claim_next_reprocessing_item locked now d = Inr (Some w, d')"
  shows "rp_inv (d', w # held)"
proof -
  obtain i where i: "i \<in> set (rp_items d)" "wi_status i = ''queued''" "rwi_id w = wi_id i" "rwi_run_id w = wi_run_id i"
    "rwi_snapshot_id w = wi_snapshot_id i"
    and items: "rp_items d' = map (\<lambda>x. if wi_id x = wi_id i then start_item now x else x) (rp_items d)"
    and runs: "rp_runs d' = map (\<lambda>r. if run_id r = wi_run_id i \<and> run_status r = ''queued'' then start_run now r else r) (rp_runs d)"
    and obs: "rp_observations d' = rp_observations d"
    by (rule claim_Inr [OF c])
  have dist: "distinct (map wi_id (rp_items d))" using inv by (simp add: rp_inv_def)
  have same: "x = i" if "x \<in> set (rp_items d)" "wi_id x = wi_id i" for x
    using distinct_map_eq [OF dist that(1) i(1) that(2)] .
  have keys: "map wi_id (rp_items d') = map wi_id (rp_items d)"
    "map (\<lambda>i. (wi_run_id i, wi_snapshot_id i)) (rp_items d') = map (\<lambda>i. (wi_run_id i, wi_snapshot_id i)) (rp_items d)"
    unfolding items by (auto intro!: updated_keys)
  have "\<forall>r \<in> set (rp_runs d'). run_exact d' r"
    unfolding runs using inv claim_exact [OF _ i(1,2) dist items] by (fastforce simp: rp_inv_def)
  moreover have "\<forall>x \<in> set (rp_items d'). wi_status x = ''succeeded'' \<longleftrightarrow> has_observation d' x"
  proof
    fix x assume "x \<in> set (rp_items d')"
    then obtain y where y: "y \<in> set (rp_items d)" "x = (if wi_id y = wi_id i then start_item now y else y)"
      by (auto simp: items)
    have "has_observation d' x \<longleftrightarrow> has_observation d y"
      using y(2) by (auto simp: has_observation_def obs)
    moreover have "wi_status y = ''succeeded'' \<longleftrightarrow> has_observation d y"
      using inv y(1) by (simp add: rp_inv_def)
    ultimately show "wi_status x = ''succeeded'' \<longleftrightarrow> has_observation d' x"
      using y i(2) same [OF y(1)] by (auto split: if_splits)
  qed
  moreover have other: "rwi_id v \<noteq> wi_id i" if "v \<in> set held" for v
    using inv that i same by (fastforce simp: rp_inv_def holds_def)
  then have "holds d' v" if "v \<in> set held" for v
    by (intro holds_map [OF _ items]) (use inv that other in \<open>auto simp: rp_inv_def\<close>)
  moreover have "holds d' w"
  proof -
    have "start_item now i \<in> set (rp_items d')"
      unfolding items using i(1) by (auto intro!: image_eqI [of _ _ i])
    with i show ?thesis unfolding holds_def by (intro bexI [of _ "start_item now i"]) simp_all
  qed
  moreover have "rwi_id w \<notin> rwi_id ` set held"
    using other i(3) by (metis imageE)
  ultimately show ?thesis
    using inv keys by (auto simp: rp_inv_def)
qed

text \<open>An outcome of a held item: \<open>f\<close> is what the statement does to its row, \<open>d1\<close> the database before the run is summarised.\<close>

lemma outcome_keeps_inv:
  assumes inv: "rp_inv (d, held)" and w: "w \<in> set held"
    and items: "rp_items d1 = map (\<lambda>i. if wi_id i = rwi_id w \<and> wi_status i = ''running'' then f i else i) (rp_items d)"
    and runs: "rp_runs d1 = rp_runs d" and r: "refresh_run E (rwi_run_id w) now d1 = Inr d'"
    and f: "\<And>i. wi_id (f i) = wi_id i" "\<And>i. wi_run_id (f i) = wi_run_id i" "\<And>i. wi_snapshot_id (f i) = wi_snapshot_id i"
    and obs: "\<And>i. i \<in> set (rp_items d) \<Longrightarrow>
       has_observation d1 i \<longleftrightarrow> (has_observation d i \<or> (wi_id i = rwi_id w \<and> wi_status (f i) = ''succeeded''))"
  shows "rp_inv (d', remove1 w held)"
proof -
  obtain i where i: "i \<in> set (rp_items d)" "wi_id i = rwi_id w" "wi_status i = ''running''" "wi_run_id i = rwi_run_id w"
    using inv w by (auto simp: rp_inv_def holds_def)
  have dist: "distinct (map wi_id (rp_items d))" using inv by (simp add: rp_inv_def)
  have same: "x = i" if "x \<in> set (rp_items d)" "wi_id x = rwi_id w" for x
    using distinct_map_eq [OF dist that(1) i(1)] that i by simp
  have items': "rp_items d' = rp_items d1" "rp_observations d' = rp_observations d1"
    using refresh_run_Inr [OF r] by simp_all
  have keys: "map wi_id (rp_items d') = map wi_id (rp_items d)"
    "map (\<lambda>i. (wi_run_id i, wi_snapshot_id i)) (rp_items d') = map (\<lambda>i. (wi_run_id i, wi_snapshot_id i)) (rp_items d)"
    unfolding items' items using f by (auto intro!: updated_keys)
  have "run_exact d1 x" if "x \<in> set (rp_runs d1)" "run_id x \<noteq> rwi_run_id w" for x
  proof (rule run_exact_other [OF _ items])
    show "run_exact d x" using inv that(1) runs by (simp add: rp_inv_def)
  next
    fix y assume "y \<in> set (rp_items d)" "wi_run_id y = run_id x"
    then have "wi_id y \<noteq> rwi_id w" using same [of y] that(2) i(4) by auto
    then show "wi_status (if wi_id y = rwi_id w \<and> wi_status y = ''running'' then f y else y) = wi_status y" by simp
  qed (simp add: f)
  then have "\<forall>x \<in> set (rp_runs d'). run_exact d' x"
    using refresh_exact [OF r] by blast
  moreover have "\<forall>x \<in> set (rp_items d'). wi_status x = ''succeeded'' \<longleftrightarrow> has_observation d' x"
  proof
    fix x assume "x \<in> set (rp_items d')"
    then obtain y where y: "y \<in> set (rp_items d)" "x = (if wi_id y = rwi_id w \<and> wi_status y = ''running'' then f y else y)"
      by (auto simp: items' items)
    have "has_observation d' x \<longleftrightarrow> has_observation d1 y"
      using y(2) f by (auto simp: has_observation_def items')
    moreover have "wi_status y = ''succeeded'' \<longleftrightarrow> has_observation d y"
      using inv y(1) by (simp add: rp_inv_def)
    ultimately show "wi_status x = ''succeeded'' \<longleftrightarrow> has_observation d' x"
      using y obs [OF y(1)] same [OF y(1)] i by (auto split: if_splits)
  qed
  moreover have other: "rwi_id v \<noteq> rwi_id w" if "v \<in> set (remove1 w held)" for v
    using inv that w distinct_map_eq [of rwi_id held v w] by (auto simp: rp_inv_def distinct_map)
  then have "holds d' v" if "v \<in> set (remove1 w held)" for v
    using inv that notin_set_remove1 by (intro holds_map [where d = d, OF _ trans [OF items'(1) items]]) (auto simp: rp_inv_def)
  moreover have "distinct (map rwi_id (remove1 w held))"
    using inv by (auto simp: rp_inv_def distinct_map inj_on_def)
  ultimately show ?thesis
    using inv keys by (simp add: rp_inv_def)
qed

lemma success_keeps_inv:
  assumes inv: "rp_inv (d, held)" and w: "w \<in> set held" and s: "record_reprocessing_success E w evaluation now d = Inr d'"
  shows "rp_inv (d', remove1 w held)"
proof -
  obtain d1 ob where ob: "rob_run_id ob = rwi_run_id w" "rob_snapshot_id ob = rwi_snapshot_id w"
    and items: "rp_items d1 = map (\<lambda>i. if wi_id i = rwi_id w \<and> wi_status i = ''running'' then succeed_item now i else i) (rp_items d)"
    and runs: "rp_runs d1 = rp_runs d" and obs: "rp_observations d1 = rp_observations d @ [ob]"
    and r: "refresh_run E (rwi_run_id w) now d1 = Inr d'"
    by (rule success_Inr [OF s])
  obtain j where j: "j \<in> set (rp_items d)" "wi_id j = rwi_id w" "wi_run_id j = rwi_run_id w" "wi_snapshot_id j = rwi_snapshot_id w"
    using inv w by (auto simp: rp_inv_def holds_def)
  have key: "wi_id i = rwi_id w \<longleftrightarrow> wi_run_id i = rwi_run_id w \<and> wi_snapshot_id i = rwi_snapshot_id w"
    if "i \<in> set (rp_items d)" for i
    using inv j that distinct_map_eq [of wi_id "rp_items d" i j]
      distinct_map_eq [of "\<lambda>i. (wi_run_id i, wi_snapshot_id i)" "rp_items d" i j] by (auto simp: rp_inv_def)
  show ?thesis
    by (rule outcome_keeps_inv [OF inv w items runs r]) (use ob obs key in \<open>auto simp: has_observation_def\<close>)
qed

lemma failure_keeps_inv:
  assumes inv: "rp_inv (d, held)" and w: "w \<in> set held"
    and s: "record_reprocessing_failure E (rwi_id w) summary retry_at terminal now d = Inr d'"
  shows "rp_inv (d', remove1 w held)"
proof -
  obtain d1 i f where i: "find (\<lambda>i. wi_id i = rwi_id w) (rp_items d) = Some i"
    and items: "rp_items d1 = map (\<lambda>i. if wi_id i = rwi_id w \<and> wi_status i = ''running'' then f i else i) (rp_items d)"
    and runs: "rp_runs d1 = rp_runs d" and obs: "rp_observations d1 = rp_observations d"
    and r: "refresh_run E (wi_run_id i) now d1 = Inr d'"
    and f: "f = (if terminal then dead_letter_item (bounded_failure_summary summary) now
          else retry_item (bounded_failure_summary summary) retry_at now)"
    by (rule failure_Inr [OF s])
  have "i \<in> set (rp_items d)" "wi_id i = rwi_id w"
    using i by (auto simp: find_Some_iff)
  have "wi_run_id i = rwi_run_id w"
  proof -
    obtain j where j: "j \<in> set (rp_items d)" "wi_id j = rwi_id w" "wi_run_id j = rwi_run_id w"
      using inv w by (auto simp: rp_inv_def holds_def)
    have "distinct (map wi_id (rp_items d))" using inv by (simp add: rp_inv_def)
    from distinct_map_eq [OF this \<open>i \<in> set (rp_items d)\<close> j(1)] j \<open>wi_id i = rwi_id w\<close> show ?thesis by simp
  qed
  then show ?thesis
    by (intro outcome_keeps_inv [OF inv w items runs])
       (use r obs in \<open>auto simp: f dead_letter_item_def retry_item_def has_observation_def\<close>)
qed

section \<open>Starting a run\<close>

lemma admin_eq [simp]:
  "admin r = Inr x \<longleftrightarrow> r = Some x" "admin r = Inl e \<longleftrightarrow> r = None \<and> e = AdminUnavailable"
  by (auto simp: admin_def)

lemma insert_items_Inl: "insert_items E run now snapshots n d = Inl e \<Longrightarrow> e = AdminUnavailable"
  by (induction E run now snapshots n d rule: insert_items.induct) (auto simp: Let_def rbind_eq_Inl split: prod.splits if_splits)

text \<open>The audit record of a started run violates the constraint on the kinds of resources.\<close>

lemma create_run_items_fails: "create_run_items E run slug version actor now d = Inl AdminUnavailable"
proof (cases "insert_items E run now (st_snapshots (rp_store d)) 0 d")
  case (Inl e)
  then show ?thesis by (simp add: create_run_items_def insert_items_Inl [OF Inl])
next
  case (Inr p)
  then show ?thesis
    by (cases p) (auto simp: create_run_items_def rbind_eq_Inl insert_audit_def audit_check_def)
qed

lemma start_closed:
  assumes "\<forall>r \<in> set (rp_runs d). run_idempotency_key r \<noteq> trim key"
  shows "start_reprocessing E slug version key actor now d =
    (if trim key = [] \<or> length (trim key) > 255 \<or> trim actor = [] \<or> i16_try_from version = None then Inl AdminValidation
     else if rule_version_ids slug (uint version) d = [] then Inl AdminNotFound
     else Inl AdminUnavailable)"
proof -
  obtain i d1 where u1: "rp_fresh_uuid E d = (i, d1)" by (cases "rp_fresh_uuid E d")
  obtain j d2 where u2: "rp_fresh_uuid E d1 = (j, d2)" by (cases "rp_fresh_uuid E d1")
  have "rp_runs d2 = rp_runs d"
    using same_runs_fresh [OF u1] same_runs_fresh [OF u2] by (simp add: same_runs_def)
  with assms have f: "find (\<lambda>r. run_idempotency_key r = trim key) (rp_runs d2) = None"
    by (auto simp: find_None_iff)
  show ?thesis
    by (cases "rule_version_ids slug (uint version) d")
       (auto simp: start_reprocessing_def Let_def u1 u2 f create_run_items_fails i16_try_from_def list_first_def admin_def
          sql_insert_def)
qed

lemma start_Inr:
  assumes "start_reprocessing E slug version key actor now d = Inr (view, d')"
  shows "same_runs d d'"
proof -
  obtain i d1 where u1: "rp_fresh_uuid E d = (i, d1)" by (cases "rp_fresh_uuid E d")
  obtain j d2 where u2: "rp_fresh_uuid E d1 = (j, d2)" by (cases "rp_fresh_uuid E d1")
  have s: "same_runs d d2"
    by (rule same_runs_trans [OF same_runs_fresh [OF u1] same_runs_fresh [OF u2]])
  have "\<exists>r \<in> set (rp_runs d). run_idempotency_key r = trim key"
    by (rule ccontr) (use start_closed [of d key E slug version actor now] assms in \<open>auto split: if_splits\<close>)
  with s have "find (\<lambda>r. run_idempotency_key r = trim key) (rp_runs d2) \<noteq> None"
    by (auto simp: find_None_iff same_runs_def)
  with assms s show ?thesis
    by (auto simp: start_reprocessing_def Let_def u1 u2 split: if_splits option.splits)
qed

section \<open>Reachable states\<close>

lemma same_runs_inv: "same_runs d d' \<Longrightarrow> rp_inv (d, held) \<Longrightarrow> rp_inv (d', held)"
  by (auto simp: rp_inv_def same_runs_def run_exact_def count_items_def items_of_def has_observation_def holds_def)

lemma drop_keeps_inv: "rp_inv (d, held) \<Longrightarrow> rp_inv (d, remove1 w held)"
  by (auto simp: rp_inv_def distinct_map inj_on_def dest: notin_set_remove1)

lemma step_keeps_inv: "rp_step s s' \<Longrightarrow> rp_inv s \<Longrightarrow> rp_inv s'"
proof (induction rule: rp_step.induct)
  case (start E slug version key actor now d view d' held)
  then show ?case by (auto intro: same_runs_inv start_Inr)
next
  case (others d held st)
  then show ?case by (rule same_runs_inv [rotated]) (simp add: same_runs_def)
qed (blast intro: claim_keeps_inv success_keeps_inv failure_keeps_inv drop_keeps_inv)+

lemma fresh_inv: "rp_fresh d \<Longrightarrow> rp_inv (d, [])"
proof -
  assume fresh: "rp_fresh d"
  have queued: "wi_status i = ''queued''" if "i \<in> set (rp_items d)" for i
    using fresh that by (auto simp: rp_fresh_def list_all_iff)
  have none: "count_items S run d = 0" if "''queued'' \<notin> set S" for S run
    using queued that by (auto simp: count_items_def items_of_def filter_empty_conv)
  have all: "0 < count_items [''queued'', ''running''] run d \<longleftrightarrow> items_of run d \<noteq> []" for run
    using queued by (auto simp: count_items_pos items_of_def filter_empty_conv)
  have nil: "count_items [''queued'', ''running''] run d = 0 \<longleftrightarrow> items_of run d = []" for run
    using all [of run] count_items_nonneg [of "[''queued'', ''running'']" run d] by linarith
  have "run_exact d r" if "r \<in> set (rp_runs d)" for r
    using fresh that by (auto simp: rp_fresh_def list_all_iff run_exact_def none all nil split: if_splits)
  with fresh queued show ?thesis
    by (auto simp: rp_inv_def rp_fresh_def has_observation_def)
qed

lemma rp_reachable_inv: "rp_reachable s \<Longrightarrow> rp_inv s"
  by (induction rule: rp_reachable.induct) (auto intro: fresh_inv step_keeps_inv)

text \<open>An item that is running in the database while no worker works on it.\<close>

definition abandoned :: "uuid \<Rightarrow> uuid \<Rightarrow> rp_db \<times> reprocessing_work_item list \<Rightarrow> bool" where
  "abandoned k run s =
     ((\<exists>i \<in> set (rp_items (fst s)). wi_id i = k \<and> wi_run_id i = run \<and> wi_status i = ''running'')
      \<and> k \<notin> rwi_id ` set (snd s))"

lemma abandoned_map:
  assumes "abandoned k run (d, held)" and "rp_items d' = map g (rp_items d)"
    and "\<And>i. wi_id i = k \<Longrightarrow> wi_status i = ''running'' \<Longrightarrow> g i = i" and "k \<notin> rwi_id ` set held'"
  shows "abandoned k run (d', held')"
  using assms unfolding abandoned_def by force

lemma held_other: "abandoned k run (d, held) \<Longrightarrow> w \<in> set held \<Longrightarrow> k \<noteq> rwi_id w"
  by (auto simp: abandoned_def)

lemma held_remove: "k \<notin> rwi_id ` set held \<Longrightarrow> k \<notin> rwi_id ` set (remove1 w held)"
  using set_remove1_subset [of w held] by blast

lemma step_keeps_abandoned: "rp_step s s' \<Longrightarrow> rp_inv s \<Longrightarrow> abandoned k run s \<Longrightarrow> abandoned k run s'"
proof (induction rule: rp_step.induct)
  case (claim locked now d w d' held)
  obtain i where i: "i \<in> set (rp_items d)" "wi_status i = ''queued''" "rwi_id w = wi_id i"
    and items: "rp_items d' = map (\<lambda>x. if wi_id x = wi_id i then start_item now x else x) (rp_items d)"
    by (rule claim_Inr [OF claim(1)])
  obtain x where x: "x \<in> set (rp_items d)" "wi_id x = k" "wi_status x = ''running''"
    using claim(3) by (auto simp: abandoned_def)
  have "distinct (map wi_id (rp_items d))" using claim(2) by (simp add: rp_inv_def)
  from distinct_map_eq [OF this i(1) x(1)] i x have "wi_id i \<noteq> k" by auto
  then show ?case
    by (intro abandoned_map [OF claim(3) items]) (use i claim(3) in \<open>auto simp: abandoned_def\<close>)
next
  case (success w held E evaluation now d d')
  have items: "rp_items d' = map (\<lambda>i. if wi_id i = rwi_id w \<and> wi_status i = ''running'' then succeed_item now i else i) (rp_items d)"
    by (rule success_Inr [OF success(2)]) simp
  show ?case
    by (rule abandoned_map [OF success(4) items])
       (use held_other [OF success(4,1)] success(4) held_remove in \<open>auto simp: abandoned_def\<close>)
next
  case (failure w held E summary retry_at terminal now d d')
  obtain d1 i f where "find (\<lambda>i. wi_id i = rwi_id w) (rp_items d) = Some i"
    "rp_items d1 = map (\<lambda>i. if wi_id i = rwi_id w \<and> wi_status i = ''running'' then f i else i) (rp_items d)"
    "rp_runs d1 = rp_runs d" "rp_observations d1 = rp_observations d" and r: "refresh_run E (wi_run_id i) now d1 = Inr d'"
    and "f = (if terminal then dead_letter_item (bounded_failure_summary summary) now
          else retry_item (bounded_failure_summary summary) retry_at now)"
    by (rule failure_Inr [OF failure(2)])
  with refresh_run_Inr(1) [OF r]
  have items: "rp_items d' = map (\<lambda>i. if wi_id i = rwi_id w \<and> wi_status i = ''running'' then f i else i) (rp_items d)" by simp
  show ?case
    by (rule abandoned_map [OF failure(4) items])
       (use held_other [OF failure(4,1)] failure(4) held_remove in \<open>auto simp: abandoned_def\<close>)
next
  case (lost w held d)
  then show ?case using held_remove by (fastforce simp: abandoned_def)
next
  case (start E slug version key actor now d view d' held)
  then show ?case using start_Inr [OF start(1)] by (simp add: abandoned_def same_runs_def)
next
  case (others d held st)
  then show ?case by (simp add: abandoned_def)
qed

lemma steps_keep_abandoned:
  assumes "rp_step\<^sup>*\<^sup>* s s'" and "rp_inv s" and "abandoned k run s"
  shows "rp_inv s' \<and> abandoned k run s'"
  using assms by (induction rule: rtranclp_induct) (auto intro: step_keeps_inv step_keeps_abandoned)



section \<open>Properties\<close>


text \<open>
  C26: an item that is running while no worker works on it, because its worker stopped or failed to record the
  outcome, is never claimed again: it stays running for ever, and its run is never finished.
\<close>

theorem abandoned_item_blocks_run:
  assumes "rp_reachable (d, held)" and "abandoned k run (d, held)" and "rp_step\<^sup>*\<^sup>* (d, held) (d', held')"
  shows "(\<exists>i \<in> set (rp_items d'). wi_id i = k \<and> wi_run_id i = run \<and> wi_status i = ''running'')
    \<and> (\<forall>r \<in> set (rp_runs d'). run_id r = run \<longrightarrow>
          run_finished_at r = None \<and> run_status r \<noteq> ''completed'' \<and> run_status r \<noteq> ''partial_failed'')"
proof -
  have inv: "rp_inv (d', held')" and a: "abandoned k run (d', held')"
    using steps_keep_abandoned [OF assms(3) rp_reachable_inv [OF assms(1)] assms(2)] by simp_all
  then obtain i where i: "i \<in> set (rp_items d')" "wi_id i = k" "wi_run_id i = run" "wi_status i = ''running''"
    by (auto simp: abandoned_def)
  then have "0 < count_items [''queued'', ''running''] run d'"
    by (auto simp: count_items_pos)
  then show ?thesis
    using inv i by (auto simp: rp_inv_def run_exact_def)
qed

text \<open>
  C27: no new run can be started: for a key that no run has, a valid request for an existing version of a rule
  ends with the service reported as unavailable, since the audit record it writes names a kind of resource that
  the constraint of \<^verbatim>\<open>admin_audit_events\<close> does not list.
\<close>

theorem reprocessing_cannot_start:
  assumes "\<forall>r \<in> set (rp_runs d). run_idempotency_key r \<noteq> trim key"
  shows "start_reprocessing E slug version key actor now d =
    (if trim key = [] \<or> length (trim key) > 255 \<or> trim actor = [] \<or> i16_try_from version = None then Inl AdminValidation
     else if rule_version_ids slug (uint version) d = [] then Inl AdminNotFound
     else Inl AdminUnavailable)"
  by (rule start_closed [OF assms])

definition sample_rp :: rp_db where
  "sample_rp = \<lparr>
     rp_store = sample_store\<lparr>st_snapshots := [\<lparr>snap_id = 20, snap_attempt_id = 3, snap_domain_id = 0,
       snap_requested_url = ''https://c.com/'', snap_final_url = ''https://c.com/'', snap_redirect_chain = JArray [],
       snap_response_status = 200, snap_response_headers = JObject [(''server'', JString ''nginx'')], snap_body_bytes = 4,
       snap_captured_at = 9\<rparr>]\<rparr>,
     rp_runs = [\<lparr>run_id = 22, run_version_id = 6, run_requested_by = ''ops'', run_idempotency_key = ''again'',
       run_correlation_id = 23, run_status = ''queued'', run_total = 1, run_succeeded = 0, run_failed = 0,
       run_requested_at = 10, run_started_at = None, run_finished_at = None\<rparr>],
     rp_items = [\<lparr>wi_id = 21, wi_run_id = 22, wi_snapshot_id = 20, wi_domain_id = 0, wi_status = ''queued'',
       wi_attempt_count = 0, wi_next_attempt_at = 10, wi_claimed_at = None, wi_failure_summary = None,
       wi_completed_at = None, wi_created_at = 10, wi_updated_at = 10\<rparr>],
     rp_observations = [], rp_detections = [], rp_evidence = [], rp_changes = []\<rparr>"

lemma sample_rp_fresh: "rp_fresh sample_rp"
  by code_simp

definition sample_rp_claimed :: "(reprocessing_repository_error, reprocessing_work_item option \<times> rp_db) result" where
  "sample_rp_claimed = claim_next_reprocessing_item {} 11 sample_rp"

lemma sample_rp_claim:
  "case sample_rp_claimed of
     Inr (Some w, d) \<Rightarrow> rwi_id w = 21 \<and> map run_id (rp_runs d) = [22]
       \<and> list_ex (\<lambda>i. wi_id i = 21 \<and> wi_run_id i = 22 \<and> wi_status i = ''running'') (rp_items d)
   | _ \<Rightarrow> False"
  by code_simp

lemma sample_rp_claimedE:
  obtains w d where "claim_next_reprocessing_item {} 11 sample_rp = Inr (Some w, d)" "map run_id (rp_runs d) = [22]"
    "list_ex (\<lambda>i. wi_id i = 21 \<and> wi_run_id i = 22 \<and> wi_status i = ''running'') (rp_items d)"
  using sample_rp_claim by (auto simp: sample_rp_claimed_def split: sum.splits option.splits)



theorem abandoned_item_blocks_run_witness:
  "\<exists>d r. rp_step\<^sup>*\<^sup>* (sample_rp, []) (d, []) \<and> list_ex (\<lambda>i. wi_id i = 21 \<and> wi_status i = ''running'') (rp_items d)
     \<and> rp_runs d = [r] \<and> run_finished_at r = None"
proof -
  obtain w d where c: "claim_next_reprocessing_item {} 11 sample_rp = Inr (Some w, d)" "map run_id (rp_runs d) = [22]"
    "list_ex (\<lambda>i. wi_id i = 21 \<and> wi_run_id i = 22 \<and> wi_status i = ''running'') (rp_items d)"
    by (rule sample_rp_claimedE)
  obtain r where r: "rp_runs d = [r]" "run_id r = 22" using c(2) by (auto simp: map_eq_Cons_conv)
  note steps = rp_step.claim [OF c(1), where held = "[]"] rp_step.lost [of w "[w]" d]
  have "rp_reachable (d, [])"
    using rp_reachable.step [OF rp_reachable.step [OF rp_reachable.init [OF sample_rp_fresh] steps(1)] steps(2)] by simp
  moreover have "abandoned 21 22 (d, [])"
    using c(3) by (auto simp: abandoned_def list_ex_iff)
  moreover have "rp_step\<^sup>*\<^sup>* (sample_rp, []) (d, [])"
    using steps by (auto intro: rtranclp.rtrancl_into_rtrancl)
  ultimately show ?thesis
    using abandoned_item_blocks_run [of d "[]" 21 22 d "[]"] r by (auto simp: list_ex_iff)
qed

theorem reprocessing_cannot_start_witness:
  "start_reprocessing sample_env ''nginx-server'' 1 ''again'' ''ops'' 11 (sample_rp\<lparr>rp_runs := []\<rparr>) = Inl AdminUnavailable"
proof -
  have "trim ''again'' = ''again''" "trim ''ops'' = ''ops''" "rule_version_ids ''nginx-server'' 1 sample_rp = [6]"
    by code_simp+
  then show ?thesis
    by (subst reprocessing_cannot_start) (simp_all add: rule_version_ids_def i16_try_from_def)
qed

end
