(* ===== verification/Search.thy ===== *)
theory Search
  imports Reprocessing Config
begin

text \<open>
  Search (\<^verbatim>\<open>crates/search/src/lib.rs\<close>, \<^verbatim>\<open>models/search.rs\<close>, \<^verbatim>\<open>database/search_index_repository.rs\<close> and the indexer of
  \<^verbatim>\<open>apps/worker/src/main.rs\<close>): the documents of the index, requests to Meilisearch and the reading of its
  answers, and the outbox of domains to index.  The HTTP client, the joining of URLs and the JSON form of
  instants are parameters.
\<close>

section \<open>Documents\<close>

record search_technology_projection =
  stp_slug :: string
  stp_category_slug :: string
  stp_confidence :: u8
  stp_last_observed_at :: instant

record search_domain_projection =
  sdp_domain_id :: uuid
  sdp_canonical_domain :: string
  sdp_technologies :: "search_technology_projection list"
  sdp_last_crawled_at :: "instant option"
  sdp_country_code :: "string option"
  sdp_updated_at :: instant

record domain_search_document =
  doc_id :: string
  doc_domain :: string
  doc_technology_slugs :: "string list"
  doc_category_slugs :: "string list"
  doc_technologies :: "search_technology_projection list"
  doc_last_crawled_at :: "instant option"
  doc_last_crawled_at_unix :: "int option"
  doc_country_code :: "string option"
  doc_max_confidence :: u8
  doc_updated_at :: instant

definition unix_timestamp :: "instant \<Rightarrow> int" where
  "unix_timestamp t = t div 1000000000"

text \<open>\<open>dedup\<close> on a sorted vector, and \<open>Iterator::max\<close> with a default.\<close>

definition max_or_zero :: "u8 list \<Rightarrow> u8" where
  "max_or_zero xs = fold max xs 0"

definition DomainSearchDocument_from :: "(uuid \<Rightarrow> string) \<Rightarrow> search_domain_projection \<Rightarrow> domain_search_document" where
  "DomainSearchDocument_from uuid_str p =
     (let technologies = sort_key stp_slug (sdp_technologies p) in
      \<lparr>doc_id = uuid_str (sdp_domain_id p), doc_domain = sdp_canonical_domain p,
       doc_technology_slugs = map stp_slug technologies,
       doc_category_slugs = remdups_adj (sort (map stp_category_slug technologies)),
       doc_technologies = technologies, doc_last_crawled_at = sdp_last_crawled_at p,
       doc_last_crawled_at_unix = map_option unix_timestamp (sdp_last_crawled_at p),
       doc_country_code = sdp_country_code p, doc_max_confidence = max_or_zero (map stp_confidence technologies),
       doc_updated_at = sdp_updated_at p\<rparr>)"

section \<open>The service\<close>

datatype search_index_error = InvalidBaseUrl | SearchClient | SearchUnavailable | SearchRejected

fun search_index_error_str :: "search_index_error \<Rightarrow> string" where
  "search_index_error_str InvalidBaseUrl = ''Meilisearch base URL is invalid''"
| "search_index_error_str SearchClient = ''Meilisearch client could not be initialised''"
| "search_index_error_str SearchUnavailable = ''Meilisearch is unavailable''"
| "search_index_error_str SearchRejected = ''Meilisearch rejected an index task''"

datatype http_method = Get | Post | Patch | Delete

record meili_request =
  rq_method :: http_method
  rq_url :: string
  rq_body :: "json option"

text \<open>
  \<open>ml_send\<close> sends a request with the master key: \<open>None\<close> when the transport fails, otherwise the status and the
  body read as JSON.  \<open>ml_join\<close> joins a path to the base URL.
\<close>

record 'h meili =
  ml_send :: "meili_request \<Rightarrow> 'h \<Rightarrow> (nat \<times> json option) option \<times> 'h"
  ml_sleep :: "duration \<Rightarrow> 'h \<Rightarrow> 'h"
  ml_join :: "string \<Rightarrow> string option"
  ml_time_json :: "instant \<Rightarrow> json"
  ml_time_parse :: "json \<Rightarrow> instant option"

definition DOMAIN_INDEX_UID :: string where "DOMAIN_INDEX_UID = ''techatlas-domains-v1''"

definition FACET_FIELDS :: "string list" where "FACET_FIELDS = [''technology_slugs'', ''category_slugs'', ''country_code'']"

definition MAX_FACET_VALUES :: nat where "MAX_FACET_VALUES = 100"

definition task_poll_interval :: duration where "task_poll_interval = 100 * 1000000"

definition is_success :: "nat \<Rightarrow> bool" where
  "is_success status = (200 \<le> status \<and> status < 300)"

type_synonym ('a, 'h) search_action = "((search_index_error, 'a) result \<times> 'h) option"

text \<open>Sequencing with \<open>?\<close>; \<open>None\<close> is a call that never returns.\<close>

definition sbind :: "('a, 'h) search_action \<Rightarrow> ('a \<Rightarrow> 'h \<Rightarrow> ('b, 'h) search_action) \<Rightarrow> ('b, 'h) search_action" where
  "sbind m f = (case m of None \<Rightarrow> None | Some (Inl e, h) \<Rightarrow> Some (Inl e, h) | Some (Inr x, h) \<Rightarrow> f x h)"

definition join_url :: "'h meili \<Rightarrow> string \<Rightarrow> 'h \<Rightarrow> (string, 'h) search_action" where
  "join_url M path h = Some (ok_or InvalidBaseUrl (ml_join M path), h)"

definition send :: "'h meili \<Rightarrow> meili_request \<Rightarrow> 'h \<Rightarrow> (nat \<times> json option, 'h) search_action" where
  "send M r h = (case ml_send M r h of (response, h) \<Rightarrow> Some (ok_or SearchUnavailable response, h))"

definition success_json :: "nat \<times> json option \<Rightarrow> 'h \<Rightarrow> (json, 'h) search_action" where
  "success_json response h =
     (if \<not> is_success (fst response) then Some (Inl SearchRejected, h)
      else Some (ok_or SearchRejected (snd response), h))"

definition json_get :: "json \<Rightarrow> string \<Rightarrow> json option" where
  "json_get j name = Option.bind (as_object j) (\<lambda>members. map_of members name)"

partial_function (option) poll_task :: "'h meili \<Rightarrow> string \<Rightarrow> 'h \<Rightarrow> (unit, 'h) search_action" where
  "poll_task M url h =
     (case sbind (send M \<lparr>rq_method = Get, rq_url = url, rq_body = None\<rparr> h) success_json of
        None \<Rightarrow> None
      | Some (Inl e, h) \<Rightarrow> Some (Inl e, h)
      | Some (Inr task, h) \<Rightarrow>
          (let status = Option.bind (json_get task ''status'') as_str in
           if status = Some ''succeeded'' then Some (Inr (), h)
           else if status = Some ''failed'' \<or> status = Some ''canceled'' then Some (Inl SearchRejected, h)
           else poll_task M url (ml_sleep M task_poll_interval h)))"

definition wait_for_task :: "'h meili \<Rightarrow> u64 \<Rightarrow> 'h \<Rightarrow> (unit, 'h) search_action" where
  "wait_for_task M task_uid h =
     sbind (join_url M (''tasks/'' @ dec_str (unat task_uid)) h) (\<lambda>url. poll_task M url)"

definition await_answer :: "'h meili \<Rightarrow> nat \<times> json option \<Rightarrow> 'h \<Rightarrow> (unit, 'h) search_action" where
  "await_answer M response h =
     sbind (success_json response h) (\<lambda>task h.
       case Option.bind (json_get task ''taskUid'') as_u64 of
         Some task_uid \<Rightarrow> wait_for_task M task_uid h
       | None \<Rightarrow> Some (Inr (), h))"

definition request_task :: "'h meili \<Rightarrow> meili_request \<Rightarrow> 'h \<Rightarrow> (unit, 'h) search_action" where
  "request_task M r h = sbind (send M r h) (await_answer M)"

definition index_url :: "'h meili \<Rightarrow> 'h \<Rightarrow> (string, 'h) search_action" where
  "index_url M h = join_url M (''indexes/'' @ DOMAIN_INDEX_UID) h"

definition should_delete_existing_index :: "nat \<Rightarrow> (search_index_error, bool) result" where
  "should_delete_existing_index status =
     (if is_success status then Inr True else if status = 404 then Inr False else Inl SearchRejected)"

definition strings_json :: "string list \<Rightarrow> json" where
  "strings_json xs = JArray (map JString xs)"

definition recreate :: "'h meili \<Rightarrow> 'h \<Rightarrow> (unit, 'h) search_action" where
  "recreate M h =
     sbind (index_url M h) (\<lambda>url h.
     sbind (send M \<lparr>rq_method = Get, rq_url = url, rq_body = None\<rparr> h) (\<lambda>existing h.
     sbind (Some (should_delete_existing_index (fst existing), h)) (\<lambda>delete h.
     sbind (if delete
            then sbind (send M \<lparr>rq_method = Delete, rq_url = url, rq_body = None\<rparr> h) (await_answer M)
            else Some (Inr (), h)) (\<lambda>_ h.
     sbind (join_url M ''indexes'' h) (\<lambda>create_url h.
     sbind (request_task M \<lparr>rq_method = Post, rq_url = create_url,
              rq_body = Some (JObject [(''primaryKey'', JString ''id''), (''uid'', JString DOMAIN_INDEX_UID)])\<rparr> h) (\<lambda>_ h.
     sbind (join_url M (''indexes/'' @ DOMAIN_INDEX_UID @ ''/settings'') h) (\<lambda>settings_url h.
     request_task M \<lparr>rq_method = Patch, rq_url = settings_url,
       rq_body = Some (JObject
         [(''faceting'', JObject [(''maxValuesPerFacet'', JInt (int MAX_FACET_VALUES))]),
          (''filterableAttributes'', strings_json [''technology_slugs'', ''category_slugs'', ''country_code'',
             ''max_confidence'', ''last_crawled_at_unix'']),
          (''searchableAttributes'', strings_json [''domain'', ''technology_slugs'']),
          (''sortableAttributes'', strings_json [''last_crawled_at'', ''updated_at''])])\<rparr> h)))))))"

definition option_json :: "('a \<Rightarrow> json) \<Rightarrow> 'a option \<Rightarrow> json" where
  "option_json f x = (case x of None \<Rightarrow> JNull | Some y \<Rightarrow> f y)"

definition technology_json :: "'h meili \<Rightarrow> search_technology_projection \<Rightarrow> json" where
  "technology_json M t =
     JObject [(''slug'', JString (stp_slug t)), (''category_slug'', JString (stp_category_slug t)),
              (''confidence'', JInt (uint (stp_confidence t))),
              (''last_observed_at'', ml_time_json M (stp_last_observed_at t))]"

definition document_json :: "'h meili \<Rightarrow> domain_search_document \<Rightarrow> json" where
  "document_json M d =
     JObject [(''id'', JString (doc_id d)), (''domain'', JString (doc_domain d)),
       (''technology_slugs'', strings_json (doc_technology_slugs d)), (''category_slugs'', strings_json (doc_category_slugs d)),
       (''technologies'', JArray (map (technology_json M) (doc_technologies d))),
       (''last_crawled_at'', option_json (ml_time_json M) (doc_last_crawled_at d)),
       (''last_crawled_at_unix'', option_json JInt (doc_last_crawled_at_unix d)),
       (''country_code'', option_json JString (doc_country_code d)),
       (''max_confidence'', JInt (uint (doc_max_confidence d))), (''updated_at'', ml_time_json M (doc_updated_at d))]"

definition upsert_documents :: "'h meili \<Rightarrow> domain_search_document list \<Rightarrow> 'h \<Rightarrow> (unit, 'h) search_action" where
  "upsert_documents M documents h =
     (if documents = [] then Some (Inr (), h)
      else
        sbind (join_url M (''indexes/'' @ DOMAIN_INDEX_UID @ ''/documents?primaryKey=id'') h) (\<lambda>url.
        request_task M \<lparr>rq_method = Post, rq_url = url, rq_body = Some (JArray (map (document_json M) documents))\<rparr>))"

section \<open>Queries\<close>

datatype domain_search_sort = Relevance | LastCrawledDesc | UpdatedDesc

record domain_search_query =
  dsq_query :: "string option"
  dsq_technology_slugs :: "string list"
  dsq_category_slugs :: "string list"
  dsq_country_codes :: "string list"
  dsq_crawled_since :: "instant option"
  dsq_min_confidence :: "u8 option"
  dsq_limit :: nat
  dsq_offset :: nat
  dsq_sort :: domain_search_sort

record domain_search_hit =
  hit_canonical_domain :: string
  hit_technology_slugs :: "string list"
  hit_category_slugs :: "string list"
  hit_country_code :: "string option"
  hit_max_confidence :: u8
  hit_last_crawled_at :: "instant option"
  hit_updated_at :: instant

record domain_search_page =
  page_hits :: "domain_search_hit list"
  page_estimated_total_hits :: u64
  page_technology_facets :: "(string \<times> u64) list"
  page_category_facets :: "(string \<times> u64) list"
  page_country_facets :: "(string \<times> u64) list"

text \<open>\<open>str::replace\<close> of one character.\<close>

definition replace_char :: "char \<Rightarrow> string \<Rightarrow> string \<Rightarrow> string" where
  "replace_char c by s = concat (map (\<lambda>x. if x = c then by else [x]) s)"

definition BACKSLASH :: char where "BACKSLASH = CHR 0x5C"

definition QUOTE :: char where "QUOTE = CHR 0x27"

definition escape_filter :: "string \<Rightarrow> string" where
  "escape_filter v = replace_char QUOTE [BACKSLASH, QUOTE] (replace_char BACKSLASH [BACKSLASH, BACKSLASH] v)"

definition equality_filter :: "string \<Rightarrow> string \<Rightarrow> string" where
  "equality_filter name v = name @ '' = '' @ [QUOTE] @ escape_filter v @ [QUOTE]"

definition int_str :: "int \<Rightarrow> string" where
  "int_str n = (if n < 0 then ''-'' @ dec_str (nat (- n)) else dec_str (nat n))"

definition search_filters :: "domain_search_query \<Rightarrow> string list" where
  "search_filters q =
     map (equality_filter ''technology_slugs'') (dsq_technology_slugs q)
     @ map (equality_filter ''category_slugs'') (dsq_category_slugs q)
     @ map (equality_filter ''country_code'') (dsq_country_codes q)
     @ (case dsq_crawled_since q of None \<Rightarrow> [] | Some t \<Rightarrow> [''last_crawled_at_unix >= '' @ int_str (unix_timestamp t)])
     @ (case dsq_min_confidence q of None \<Rightarrow> [] | Some c \<Rightarrow> [''max_confidence >= '' @ dec_str (unat c)])"

fun search_sort :: "domain_search_sort \<Rightarrow> string option" where
  "search_sort Relevance = None"
| "search_sort LastCrawledDesc = Some ''last_crawled_at:desc''"
| "search_sort UpdatedDesc = Some ''updated_at:desc''"

definition search_request_body :: "domain_search_query \<Rightarrow> string list \<Rightarrow> string option \<Rightarrow> json" where
  "search_request_body q filters sort_by =
     JObject [(''facets'', strings_json FACET_FIELDS), (''filter'', strings_json filters),
       (''limit'', JInt (int (dsq_limit q))), (''offset'', JInt (int (dsq_offset q))),
       (''q'', JString (case dsq_query q of None \<Rightarrow> [] | Some s \<Rightarrow> s)),
       (''sort'', strings_json (case sort_by of None \<Rightarrow> [] | Some s \<Rightarrow> [s]))]"

section \<open>Reading an answer\<close>

text \<open>Fields with \<open>#[serde(default)]\<close>, and fields of type \<open>Option\<close>.\<close>

definition default_field :: "'a \<Rightarrow> (json \<Rightarrow> 'a option) \<Rightarrow> (string \<times> json) list \<Rightarrow> string \<Rightarrow> 'a option" where
  "default_field d f members name = (case map_of members name of None \<Rightarrow> Some d | Some j \<Rightarrow> f j)"

definition option_field :: "(json \<Rightarrow> 'a option) \<Rightarrow> (string \<times> json) list \<Rightarrow> string \<Rightarrow> 'a option option" where
  "option_field f members name =
     (case map_of members name of None \<Rightarrow> Some None | Some JNull \<Rightarrow> Some None | Some j \<Rightarrow> map_option Some (f j))"

fun all_some :: "'a option list \<Rightarrow> 'a list option" where
  "all_some [] = Some []"
| "all_some (x # xs) = Option.bind x (\<lambda>y. map_option ((#) y) (all_some xs))"

definition json_strings :: "json \<Rightarrow> string list option" where
  "json_strings j = Option.bind (as_array j) (\<lambda>xs. all_some (map as_str xs))"

fun u64_members :: "(string \<times> json) list \<Rightarrow> (string \<times> u64) list \<Rightarrow> (string \<times> u64) list option" where
  "u64_members [] m = Some m"
| "u64_members ((k, v) # members) m =
     (case as_u64 v of None \<Rightarrow> None | Some n \<Rightarrow> u64_members members (btree_insert k n m))"

definition u64_map :: "json \<Rightarrow> (string \<times> u64) list option" where
  "u64_map j = Option.bind (as_object j) (\<lambda>members. u64_members members [])"

definition read_hit :: "'h meili \<Rightarrow> json \<Rightarrow> domain_search_hit option" where
  "read_hit M j =
     Option.bind (as_object j) (\<lambda>members.
     Option.bind (Option.bind (map_of members ''domain'') as_str) (\<lambda>domain.
     Option.bind (default_field [] json_strings members ''technology_slugs'') (\<lambda>technologies.
     Option.bind (default_field [] json_strings members ''category_slugs'') (\<lambda>categories.
     Option.bind (option_field as_str members ''country_code'') (\<lambda>country.
     Option.bind (Option.bind (Option.bind (map_of members ''max_confidence'') as_u64) u8_of_u64) (\<lambda>confidence.
     Option.bind (option_field (ml_time_parse M) members ''last_crawled_at'') (\<lambda>crawled.
     Option.bind (Option.bind (map_of members ''updated_at'') (ml_time_parse M)) (\<lambda>updated.
     Some \<lparr>hit_canonical_domain = domain, hit_technology_slugs = technologies, hit_category_slugs = categories,
           hit_country_code = country, hit_max_confidence = confidence, hit_last_crawled_at = crawled,
           hit_updated_at = updated\<rparr>))))))))"

definition read_facets :: "json \<Rightarrow> ((string \<times> u64) list \<times> (string \<times> u64) list \<times> (string \<times> u64) list) option" where
  "read_facets j =
     Option.bind (as_object j) (\<lambda>members.
     Option.bind (default_field [] u64_map members ''technology_slugs'') (\<lambda>technologies.
     Option.bind (default_field [] u64_map members ''category_slugs'') (\<lambda>categories.
     Option.bind (default_field [] u64_map members ''country_code'') (\<lambda>countries.
     Some (technologies, categories, countries)))))"

definition read_page :: "'h meili \<Rightarrow> json \<Rightarrow> domain_search_page option" where
  "read_page M j =
     Option.bind (as_object j) (\<lambda>members.
     Option.bind (Option.bind (Option.bind (map_of members ''hits'') as_array) (\<lambda>hits. all_some (map (read_hit M) hits))) (\<lambda>hits.
     Option.bind (default_field 0 as_u64 members ''estimatedTotalHits'') (\<lambda>estimated.
     Option.bind (default_field ([], [], []) read_facets members ''facetDistribution'') (\<lambda>(technologies, categories, countries).
     Some \<lparr>page_hits = hits, page_estimated_total_hits = estimated, page_technology_facets = technologies,
           page_category_facets = categories, page_country_facets = countries\<rparr>))))"

definition search :: "'h meili \<Rightarrow> domain_search_query \<Rightarrow> 'h \<Rightarrow> (domain_search_page, 'h) search_action" where
  "search M q h =
     sbind (join_url M (''indexes/'' @ DOMAIN_INDEX_UID @ ''/search'') h) (\<lambda>url h.
     sbind (send M \<lparr>rq_method = Post, rq_url = url,
              rq_body = Some (search_request_body q (search_filters q) (search_sort (dsq_sort q)))\<rparr> h) (\<lambda>response h.
     sbind (success_json response h) (\<lambda>answer h. Some (ok_or SearchRejected (read_page M answer), h))))"

section \<open>Filters\<close>


lemma quote_not_backslash [simp]: "QUOTE \<noteq> BACKSLASH" "BACKSLASH \<noteq> QUOTE"
  by (simp_all add: QUOTE_def BACKSLASH_def)

lemma escape_filter_Nil [simp]: "escape_filter [] = []"
  by (simp add: escape_filter_def replace_char_def)

lemma escape_filter_Cons [simp]:
  "escape_filter (c # v) =
     (if c = BACKSLASH then [BACKSLASH, BACKSLASH] else if c = QUOTE then [BACKSLASH, QUOTE] else [c]) @ escape_filter v"
  by (simp add: escape_filter_def replace_char_def)



section \<open>Polling a task\<close>

text \<open>The state after \<open>n\<close> polls and pauses, and the status the next poll would read.\<close>

definition task_query :: "string \<Rightarrow> meili_request" where
  "task_query url = \<lparr>rq_method = Get, rq_url = url, rq_body = None\<rparr>"

fun polled :: "'h meili \<Rightarrow> string \<Rightarrow> nat \<Rightarrow> 'h \<Rightarrow> 'h" where
  "polled M url 0 h = h"
| "polled M url (Suc n) h = polled M url n (ml_sleep M task_poll_interval (snd (ml_send M (task_query url) h)))"

definition task_status :: "'h meili \<Rightarrow> string \<Rightarrow> 'h \<Rightarrow> (search_index_error, string option) result" where
  "task_status M url h =
     (case fst (ml_send M (task_query url) h) of
        None \<Rightarrow> Inl SearchUnavailable
      | Some (status, body) \<Rightarrow>
          if \<not> is_success status then Inl SearchRejected
          else rbind (ok_or SearchRejected body) (\<lambda>task. Inr (Option.bind (json_get task ''status'') as_str)))"

definition final_status :: "(search_index_error, string option) result \<Rightarrow> (search_index_error, unit) result option" where
  "final_status s =
     (case s of
        Inl e \<Rightarrow> Some (Inl e)
      | Inr status \<Rightarrow>
          if status = Some ''succeeded'' then Some (Inr ())
          else if status = Some ''failed'' \<or> status = Some ''canceled'' then Some (Inl SearchRejected)
          else None)"

lemma poll_task_step:
  "poll_task M url h =
     (case final_status (task_status M url h) of
        Some r \<Rightarrow> Some (r, snd (ml_send M (task_query url) h))
      | None \<Rightarrow> poll_task M url (ml_sleep M task_poll_interval (snd (ml_send M (task_query url) h))))"
proof -
  obtain response h' where s: "ml_send M \<lparr>rq_method = Get, rq_url = url, rq_body = None\<rparr> h = (response, h')"
    by (cases "ml_send M \<lparr>rq_method = Get, rq_url = url, rq_body = None\<rparr> h")
  show ?thesis
  proof (cases response)
    case None
    then show ?thesis
      by (subst poll_task.simps) (simp add: s sbind_def send_def task_status_def task_query_def final_status_def)
  next
    case (Some p)
    obtain status body where p: "p = (status, body)" by (cases p)
    show ?thesis
      by (subst poll_task.simps, cases body)
         (simp_all add: s Some p sbind_def send_def success_json_def task_status_def task_query_def final_status_def Let_def)
  qed
qed

text \<open>
  Waiting for a task of the index returns as soon as a poll reads a final status or fails: if the first such poll is
  the one after \<open>n\<close> pauses, the wait ends with its outcome in the state after it, success being reported only for
  a task that succeeded.  A task that never leaves the queue is waited for without end, since the loop has no bound of its own.
\<close>

theorem waiting_ends_with_the_task:
  assumes "\<forall>i < n. final_status (task_status M url (polled M url i h)) = None"
    and "final_status (task_status M url (polled M url n h)) = Some r"
  shows "poll_task M url h = Some (r, snd (ml_send M (task_query url) (polled M url n h)))
    \<and> (r = Inr () \<longleftrightarrow> task_status M url (polled M url n h) = Inr (Some ''succeeded''))"
proof
  show "poll_task M url h = Some (r, snd (ml_send M (task_query url) (polled M url n h)))"
    using assms
  proof (induction n arbitrary: h)
    case 0
    then show ?case by (subst poll_task_step) simp
  next
    case (Suc n)
    let ?h = "ml_sleep M task_poll_interval (snd (ml_send M (task_query url) h))"
    have "final_status (task_status M url h) = None" using Suc.prems(1) [rule_format, of 0] by simp
    then have "poll_task M url h = poll_task M url ?h" by (subst poll_task_step) simp
    moreover have "\<forall>i < n. final_status (task_status M url (polled M url i ?h)) = None"
      using Suc.prems(1) by (metis Suc_mono polled.simps(2))
    ultimately show ?case using Suc.IH [of ?h] Suc.prems(2) by simp
  qed
  show "r = Inr () \<longleftrightarrow> task_status M url (polled M url n h) = Inr (Some ''succeeded'')"
    using assms(2) by (auto simp: final_status_def split: sum.splits if_splits)
qed

text \<open>A server whose task succeeds on the third poll, for the state counting the pauses.\<close>

definition sample_meili :: "nat meili" where
  "sample_meili = \<lparr>ml_send = (\<lambda>r n. (Some (200, Some (JObject [(''status'', JString (if n < 2 then ''enqueued'' else ''succeeded''))])), n)),
     ml_sleep = (\<lambda>_ n. n + 1), ml_join = Some, ml_time_json = JInt, ml_time_parse = (\<lambda>_. None)\<rparr>"

lemma sample_polled: "polled sample_meili url n h = h + n"
  by (induction n arbitrary: h) (simp_all add: sample_meili_def)

lemma sample_status:
  "task_status sample_meili url h = Inr (Some (if h < 2 then ''enqueued'' else ''succeeded''))"
  by (simp add: task_status_def sample_meili_def is_success_def json_get_def)

theorem waiting_ends_with_the_task_witness:
  "poll_task sample_meili ''tasks/1'' 0 = Some (Inr (), 2)"
proof -
  have a: "\<forall>i < 2. final_status (task_status sample_meili ''tasks/1'' (polled sample_meili ''tasks/1'' i 0)) = None"
    by (simp add: sample_polled sample_status final_status_def)
  have b: "final_status (task_status sample_meili ''tasks/1'' (polled sample_meili ''tasks/1'' 2 0)) = Some (Inr ())"
    by (simp add: sample_polled sample_status final_status_def)
  have c: "snd (ml_send sample_meili (task_query ''tasks/1'') (polled sample_meili ''tasks/1'' 2 0)) = 2"
    by (simp only: sample_polled) (simp add: sample_meili_def)
  show ?thesis using conjunct1 [OF waiting_ends_with_the_task [OF a b]] unfolding c .
qed

end
