(* ===== verification/Search_Index.thy ===== *)
theory Search_Index
  imports Search
begin

text \<open>
  The outbox of the search index (\<^verbatim>\<open>database/search_index_repository.rs\<close>) and the indexer of
  \<^verbatim>\<open>apps/worker/src/main.rs\<close>.  Every successful crawl puts its domain into the outbox (\<open>upsert_search\<close>); an indexer
  claims rows, sends the current projection of each domain to the index, and deletes the row or schedules
  another attempt.  Each statement is a transaction of its own.
\<close>

section \<open>Tables\<close>

record search_state_row =
  sst_last_success_at :: "instant option"
  sst_last_failure_at :: "instant option"
  sst_last_failure_summary :: "string option"
  sst_updated_at :: instant

text \<open>The \<open>updated_at\<close> columns of domains and of current technologies are kept beside the rows of \<open>store\<close>.\<close>

record search_db =
  sd_store :: store
  sd_domain_updated :: "uuid \<Rightarrow> instant"
  sd_current_updated :: "uuid \<times> uuid \<Rightarrow> instant"
  sd_state :: search_state_row

datatype search_index_repository_error = SearchIndexUnavailable

definition si :: "'a option \<Rightarrow> (search_index_repository_error, 'a) result" where
  "si r = ok_or SearchIndexUnavailable r"

record search_index_job =
  sij_id :: uuid
  sij_domain_id :: uuid
  sij_attempt_count :: u8

record search_index_lag =
  lag_pending_age :: "int option"
  lag_dead_count :: nat

section \<open>Claiming\<close>

definition ready :: "instant \<Rightarrow> duration \<Rightarrow> search_row \<Rightarrow> bool" where
  "ready now lease r =
     ((sea_status r \<in> {''pending'', ''retry''} \<and> sea_next_attempt_at r \<le> now)
      \<or> (sea_status r = ''processing'' \<and> (case sea_claimed_at r of None \<Rightarrow> False | Some c \<Rightarrow> c \<le> now - int lease)))"

definition claimed_ids :: "uuid set \<Rightarrow> instant \<Rightarrow> duration \<Rightarrow> nat \<Rightarrow> search_db \<Rightarrow> uuid list" where
  "claimed_ids locked now lease limit d =
     map sea_id (take limit (sort_key (\<lambda>r. (sea_next_attempt_at r, sea_created_at r))
       (filter (\<lambda>r. ready now lease r \<and> sea_id r \<notin> locked) (st_search (sd_store d)))))"

definition claim_search_row :: "instant \<Rightarrow> search_row \<Rightarrow> search_row" where
  "claim_search_row now r =
     r\<lparr>sea_status := ''processing'', sea_claimed_at := Some now, sea_attempt_count := sea_attempt_count r + 1, sea_updated_at := now\<rparr>"

definition u8_of_i16 :: "int \<Rightarrow> u8 option" where
  "u8_of_i16 n = (if 0 \<le> n \<and> n < 2 ^ 8 then Some (word_of_int n) else None)"

definition job_of_row :: "search_row \<Rightarrow> (search_index_repository_error, search_index_job) result" where
  "job_of_row r =
     rbind (si (u8_of_i16 (sea_attempt_count r))) (\<lambda>attempt_count.
     Inr \<lparr>sij_id = sea_id r, sij_domain_id = sea_domain_id r, sij_attempt_count = attempt_count\<rparr>)"

definition set_search :: "search_row list \<Rightarrow> search_db \<Rightarrow> search_db" where
  "set_search rows d = d\<lparr>sd_store := (sd_store d)\<lparr>st_search := rows\<rparr>\<rparr>"

definition search_update :: "(search_row \<Rightarrow> bool) \<Rightarrow> (search_row \<Rightarrow> search_row) \<Rightarrow> search_db \<Rightarrow> search_db option" where
  "search_update sel f d =
     map_option (\<lambda>rows. set_search rows d)
       (sql_update (\<lambda>r. search_check r \<and> sea_attempt_count r < 2 ^ 15) (\<lambda>_. False) sel f (st_search (sd_store d)))"

text \<open>The update is committed before its rows are read into jobs, so a row that is not a job stays claimed.\<close>

definition claim_ready ::
    "env \<Rightarrow> uuid set \<Rightarrow> instant \<Rightarrow> duration \<Rightarrow> nat \<Rightarrow> search_db \<Rightarrow>
     (search_index_repository_error, search_index_job list) result \<times> search_db" where
  "claim_ready E locked now lease limit d =
     (case (if time_duration_try_from lease = None then None else Option.bind (i64_try_from limit) (\<lambda>_. env_interval E lease)) of
        None \<Rightarrow> (Inl SearchIndexUnavailable, d)
      | Some lease \<Rightarrow>
          (let ids = claimed_ids locked now lease limit d in
           case search_update (\<lambda>r. sea_id r \<in> set ids) (claim_search_row now) d of
             None \<Rightarrow> (Inl SearchIndexUnavailable, d)
           | Some d' \<Rightarrow> (collect_results (map job_of_row (filter (\<lambda>r. sea_id r \<in> set ids) (st_search (sd_store d')))), d')))"

section \<open>Projections\<close>

definition latest_country :: "uuid \<Rightarrow> store \<Rightarrow> string option" where
  "latest_country domain_id st =
     map_option (\<lambda>(c, s). cty_country_code c)
       (list_first (sort_key (\<lambda>(c, s). - snap_captured_at s)
          [(c, s). c \<leftarrow> st_countries st, s \<leftarrow> st_snapshots st, snap_id s = cty_snapshot_id c \<and> snap_domain_id s = domain_id]))"

definition projected_technologies ::
    "env \<Rightarrow> uuid \<Rightarrow> store \<Rightarrow> (search_index_repository_error, search_technology_projection list) result" where
  "projected_technologies E domain_id st =
     collect_results (map (\<lambda>(x, t, c, det).
         rbind (si (u8_of_i16 (dtr_confidence det))) (\<lambda>confidence.
         Inr \<lparr>stp_slug = tech_slug t, stp_category_slug = cat_slug c, stp_confidence = confidence,
              stp_last_observed_at = cur_last_observed_at x\<rparr>))
       (sort_key (\<lambda>(x, t, c, det). env_collate E (tech_slug t))
         [(x, t, c, det). x \<leftarrow> st_current st, cur_domain_id x = domain_id,
            t \<leftarrow> st_technologies st, tech_id t = cur_technology_id x,
            c \<leftarrow> st_categories st, cat_id c = tech_category_id t,
            det \<leftarrow> st_detections st, dtr_id det = cur_detection_id x]))"

definition projection_updated_at :: "uuid \<Rightarrow> search_db \<Rightarrow> instant" where
  "projection_updated_at domain_id d =
     (case map (\<lambda>x. sd_current_updated d (cur_domain_id x, cur_technology_id x))
             (filter (\<lambda>x. cur_domain_id x = domain_id) (st_current (sd_store d))) of
        [] \<Rightarrow> sd_domain_updated d domain_id
      | t # ts \<Rightarrow> fold max ts t)"

definition projection ::
    "env \<Rightarrow> uuid \<Rightarrow> search_db \<Rightarrow> (search_index_repository_error, search_domain_projection option) result" where
  "projection E domain_id d =
     (let st = sd_store d in
      case list_first [(r, p). r \<leftarrow> db_domains (st_core st), dr_id r = domain_id \<and> dr_archived_at r = None,
                               p \<leftarrow> db_policies (st_core st), pol_domain_id p = dr_id r] of
        None \<Rightarrow> Inr None
      | Some (r, p) \<Rightarrow>
          rbind (projected_technologies E domain_id st) (\<lambda>technologies.
          Inr (Some \<lparr>sdp_domain_id = domain_id, sdp_canonical_domain = dr_canonical_domain r, sdp_technologies = technologies,
                     sdp_last_crawled_at = pol_last_successful_crawl_at p, sdp_country_code = latest_country domain_id st,
                     sdp_updated_at = projection_updated_at domain_id d\<rparr>)))"

definition all_projections :: "env \<Rightarrow> search_db \<Rightarrow> (search_index_repository_error, search_domain_projection list) result" where
  "all_projections E d =
     rbind (collect_results (map (\<lambda>r. projection E (dr_id r) d)
       (sort_key (\<lambda>r. env_collate E (dr_canonical_domain r))
          (filter (\<lambda>r. dr_archived_at r = None) (db_domains (st_core (sd_store d))))))) (\<lambda>ps.
     Inr (List.map_filter id ps))"

section \<open>Outcomes\<close>

definition claimed_row :: "search_index_job \<Rightarrow> search_row \<Rightarrow> bool" where
  "claimed_row job r = (sea_id r = sij_id job \<and> sea_status r = ''processing'')"

definition complete ::
    "search_index_job \<Rightarrow> instant \<Rightarrow> search_db \<Rightarrow> (search_index_repository_error, search_db) result" where
  "complete job now d =
     (let rows = st_search (sd_store d) in
      if length (filter (claimed_row job) rows) \<noteq> 1 then Inl SearchIndexUnavailable
      else
        Inr ((set_search (filter (\<lambda>r. \<not> claimed_row job r) rows) d)
               \<lparr>sd_state := (sd_state d)\<lparr>sst_last_success_at := Some now, sst_updated_at := now\<rparr>\<rparr>))"

definition fail_search_row :: "string \<Rightarrow> instant \<Rightarrow> duration \<Rightarrow> string \<Rightarrow> search_row \<Rightarrow> search_row" where
  "fail_search_row status now retry_after summary r =
     r\<lparr>sea_status := status, sea_next_attempt_at := now + int retry_after, sea_claimed_at := None,
       sea_last_error := Some summary, sea_updated_at := now\<rparr>"

definition fail ::
    "env \<Rightarrow> search_index_job \<Rightarrow> instant \<Rightarrow> duration \<Rightarrow> u8 \<Rightarrow> string \<Rightarrow> search_db \<Rightarrow>
     (search_index_repository_error, search_db) result" where
  "fail E job now retry_after max_attempts summary d =
     rbind (si (time_duration_try_from retry_after)) (\<lambda>_.
     let status = (if max_attempts \<le> sij_attempt_count job then ''dead'' else ''retry'');
         summary = bounded_failure_summary summary in
     rbind (si (env_interval E retry_after)) (\<lambda>retry_after.
     rbind (si (search_update (claimed_row job) (fail_search_row status now retry_after summary) d)) (\<lambda>d'.
     if length (filter (claimed_row job) (st_search (sd_store d))) \<noteq> 1 then Inl SearchIndexUnavailable
     else
       Inr (d'\<lparr>sd_state := (sd_state d)\<lparr>sst_last_failure_at := Some now, sst_last_failure_summary := Some summary,
                 sst_updated_at := now\<rparr>\<rparr>))))"

definition lag :: "instant \<Rightarrow> search_db \<Rightarrow> search_index_lag" where
  "lag now d =
     (let rows = st_search (sd_store d) in
      \<lparr>lag_pending_age = (case map sea_created_at rows of [] \<Rightarrow> None | t # ts \<Rightarrow> Some (now - fold min ts t)),
       lag_dead_count = length (filter (\<lambda>r. sea_status r = ''dead'') rows)\<rparr>)"

section \<open>The indexer\<close>

text \<open>\<open>ix_between\<close> is what other processes do between two transactions of the indexer.\<close>

record 'h indexer =
  ix_env :: env
  ix_meili :: "'h meili"
  ix_between :: "search_db \<Rightarrow> search_db"

record index_times =
  ixt_now :: instant
  ixt_done :: "uuid \<Rightarrow> instant"

text \<open>A warning that an outcome could not be recorded leaves the database as it is.\<close>

definition or_unchanged :: "(search_index_repository_error, search_db) result \<Rightarrow> search_db \<Rightarrow> search_db" where
  "or_unchanged r d = (case r of Inl _ \<Rightarrow> d | Inr d' \<Rightarrow> d')"

definition index_domain :: "'h indexer \<Rightarrow> search_index_job \<Rightarrow> search_db \<Rightarrow> 'h \<Rightarrow> (unit, 'h) search_action" where
  "index_domain I job d h =
     (case projection (ix_env I) (sij_domain_id job) d of
        Inr (Some p) \<Rightarrow> upsert_documents (ix_meili I) [DomainSearchDocument_from (env_uuid_str (ix_env I)) p] h
      | Inr None \<Rightarrow> Some (Inr (), h)
      | Inl _ \<Rightarrow> Some (Inl SearchUnavailable, h))"

definition index_job ::
    "'h indexer \<Rightarrow> worker_config \<Rightarrow> instant \<Rightarrow> search_index_job \<Rightarrow> search_db \<Rightarrow> 'h \<Rightarrow> (search_db \<times> 'h) option" where
  "index_job I config now job d h =
     (case index_domain I job d h of
        None \<Rightarrow> None
      | Some (r, h) \<Rightarrow>
          (let d = ix_between I d in
           Some (or_unchanged
             (case r of
                Inr _ \<Rightarrow> complete job now d
              | Inl e \<Rightarrow> fail (ix_env I) job now (retry_delay (wc_index_retry_base config) (sij_attempt_count job))
                           (wc_index_max_attempts config) (search_index_error_str e) d) d, h)))"

fun index_jobs ::
    "'h indexer \<Rightarrow> worker_config \<Rightarrow> (uuid \<Rightarrow> instant) \<Rightarrow> search_index_job list \<Rightarrow> search_db \<Rightarrow> 'h \<Rightarrow> (search_db \<times> 'h) option" where
  "index_jobs I config clock [] d h = Some (d, h)"
| "index_jobs I config clock (job # jobs) d h =
     Option.bind (index_job I config (clock (sij_id job)) job (ix_between I d) h) (\<lambda>(d, h). index_jobs I config clock jobs d h)"

definition index_pass ::
    "'h indexer \<Rightarrow> worker_config \<Rightarrow> uuid set \<Rightarrow> index_times \<Rightarrow> search_db \<Rightarrow> 'h \<Rightarrow> (search_db \<times> 'h) option" where
  "index_pass I config locked ts d h =
     (case claim_ready (ix_env I) locked (ixt_now ts) (wc_index_operation_timeout config) (wc_index_batch_size config) d of
        (Inl e, d) \<Rightarrow> Some (d, h)
      | (Inr jobs, d) \<Rightarrow> index_jobs I config (ixt_done ts) jobs d h)"

section \<open>What a claim leaves\<close>

definition search_ok :: "search_row list \<Rightarrow> bool" where
  "search_ok rows = (distinct (map sea_id rows) \<and> distinct (map sea_domain_id rows))"

lemma si_eq_Inr [simp]: "si r = Inr x \<longleftrightarrow> r = Some x"
  by (simp add: si_def)

lemma claim_search_row_fields [simp]:
  "sea_id (claim_search_row now r) = sea_id r" "sea_domain_id (claim_search_row now r) = sea_domain_id r"
  "sea_status (claim_search_row now r) = ''processing''"
  by (simp_all add: claim_search_row_def)

lemma set_search_rows [simp]: "st_search (sd_store (set_search rows d)) = rows"
  by (simp add: set_search_def)

lemma collect_results_mem:
  "collect_results (map f xs) = Inr ys \<Longrightarrow> y \<in> set ys \<Longrightarrow> \<exists>x \<in> set xs. f x = Inr y"
  by (induction xs arbitrary: ys) (auto simp: rbind_eq_Inr)

lemma claim_ready_Inr:
  assumes "claim_ready E locked now lease limit d = (Inr jobs, d')"
  obtains ids where "st_search (sd_store d') =
      map (\<lambda>r. if sea_id r \<in> set ids then claim_search_row now r else r) (st_search (sd_store d))"
    "\<And>job. job \<in> set jobs \<Longrightarrow> \<exists>r \<in> set (st_search (sd_store d')). sea_id r = sij_id job
       \<and> sea_domain_id r = sij_domain_id job \<and> sea_status r = ''processing''"
proof -
  obtain lease' where l: "(if time_duration_try_from lease = None then None
      else Option.bind (i64_try_from limit) (\<lambda>_. env_interval E lease)) = Some lease'"
    using assms unfolding claim_ready_def by (auto split: option.splits)
  define ids where "ids = claimed_ids locked now lease' limit d"
  obtain d1 where u: "search_update (\<lambda>r. sea_id r \<in> set ids) (claim_search_row now) d = Some d1"
    using assms unfolding claim_ready_def l by (auto simp: Let_def ids_def split: option.splits)
  have j: "collect_results (map job_of_row (filter (\<lambda>r. sea_id r \<in> set ids) (st_search (sd_store d1)))) = Inr jobs" and d': "d' = d1"
    using assms u unfolding claim_ready_def l by (auto simp: Let_def ids_def)
  have rows: "st_search (sd_store d') = map (\<lambda>r. if sea_id r \<in> set ids then claim_search_row now r else r) (st_search (sd_store d))"
    using u by (auto simp: d' search_update_def sql_simps)
  show thesis
  proof (rule that [OF rows])
    fix job assume "job \<in> set jobs"
    from collect_results_mem [OF j this]
    obtain r where r: "r \<in> set (st_search (sd_store d'))" "sea_id r \<in> set ids" "job_of_row r = Inr job"
      by (auto simp: d')
    then have "sea_status r = ''processing''" by (auto simp: rows)
    with r show "\<exists>r \<in> set (st_search (sd_store d')). sea_id r = sij_id job
       \<and> sea_domain_id r = sij_domain_id job \<and> sea_status r = ''processing''"
      by (intro bexI [of _ r]) (auto simp: job_of_row_def)
  qed
qed

lemma claim_keeps_ok:
  assumes "claim_ready E locked now lease limit d = (Inr jobs, d')" and "search_ok (st_search (sd_store d))"
  shows "search_ok (st_search (sd_store d'))"
proof -
  obtain ids where rows: "st_search (sd_store d') =
      map (\<lambda>r. if sea_id r \<in> set ids then claim_search_row now r else r) (st_search (sd_store d))"
    by (rule claim_ready_Inr [OF assms(1)]) blast
  have "map sea_id (st_search (sd_store d')) = map sea_id (st_search (sd_store d))"
    "map sea_domain_id (st_search (sd_store d')) = map sea_domain_id (st_search (sd_store d))"
    by (auto simp: rows)
  with assms(2) show ?thesis by (simp add: search_ok_def)
qed

lemma distinct_singleton: "distinct xs \<Longrightarrow> set xs = {x} \<Longrightarrow> xs = [x]"
  by (cases xs; cases "tl xs") auto

lemma claimed_unique:
  assumes "search_ok rows" and "r \<in> set rows" and "claimed_row job r"
  shows "filter (claimed_row job) rows = [r]"
proof -
  have d: "distinct (map sea_id rows)" using assms(1) by (simp add: search_ok_def)
  have "x = r" if "x \<in> set rows" "claimed_row job x" for x
    by (rule distinct_map_eq [OF d that(1) assms(2)]) (use that(2) assms(3) in \<open>simp add: claimed_row_def\<close>)
  then have "set (filter (claimed_row job) rows) = {r}" using assms(2,3) unfolding set_filter by blast
  have "distinct (filter (claimed_row job) rows)" using d by (simp add: distinct_map)
  then show ?thesis by (rule distinct_singleton) (rule \<open>set (filter (claimed_row job) rows) = {r}\<close>)
qed

lemma complete_claimed:
  assumes "search_ok (st_search (sd_store d))" and r: "r \<in> set (st_search (sd_store d))" "claimed_row job r"
  obtains d' where "complete job t d = Inr d'"
    "st_search (sd_store d') = filter (\<lambda>r. \<not> claimed_row job r) (st_search (sd_store d))"
    "sea_domain_id r \<notin> sea_domain_id ` set (st_search (sd_store d'))"
proof -
  define d' where "d' = (set_search (filter (\<lambda>r. \<not> claimed_row job r) (st_search (sd_store d))) d)
               \<lparr>sd_state := (sd_state d)\<lparr>sst_last_success_at := Some t, sst_updated_at := t\<rparr>\<rparr>"
  have "complete job t d = Inr d'"
    using claimed_unique [OF assms] by (simp add: complete_def d'_def Let_def)
  moreover have rows: "st_search (sd_store d') = filter (\<lambda>r. \<not> claimed_row job r) (st_search (sd_store d))"
    by (simp add: d'_def set_search_def)
  moreover have "sea_domain_id r \<notin> sea_domain_id ` set (st_search (sd_store d'))"
  proof
    assume "sea_domain_id r \<in> sea_domain_id ` set (st_search (sd_store d'))"
    then obtain x where x: "x \<in> set (st_search (sd_store d))" "\<not> claimed_row job x" "sea_domain_id x = sea_domain_id r"
      by (auto simp: rows)
    have "distinct (map sea_domain_id (st_search (sd_store d)))" using assms(1) by (simp add: search_ok_def)
    from distinct_map_eq [OF this x(1) r(1) x(3)] x r show False by simp
  qed
  ultimately show thesis by (rule that)
qed

lemma complete_unclaimed:
  "filter (claimed_row job) (st_search (sd_store d)) = [] \<Longrightarrow> complete job t d = Inl SearchIndexUnavailable"
  by (simp add: complete_def Let_def)

lemma fail_unclaimed:
  assumes "filter (claimed_row job) (st_search (sd_store d)) = []"
  shows "fail E job t delay limit summary d = Inl SearchIndexUnavailable"
  using assms by (auto simp: fail_def si_def Let_def rbind_def ok_or_def split: option.splits sum.splits)

section \<open>Crawls recorded meanwhile\<close>

fun record_updates :: "env \<Rightarrow> (uuid \<times> instant) list \<Rightarrow> store \<Rightarrow> (crawl_worker_repository_error, store) result" where
  "record_updates E [] st = Inr st"
| "record_updates E ((domain_id, now) # updates) st =
     rbind (upsert_search E domain_id now st) (record_updates E updates)"

definition reset_row :: "instant \<Rightarrow> search_row \<Rightarrow> search_row" where
  "reset_row now r = r\<lparr>sea_status := ''pending'', sea_attempt_count := 0, sea_next_attempt_at := now,
                       sea_claimed_at := None, sea_last_error := None, sea_updated_at := now\<rparr>"

lemma upsert_search_Inr:
  assumes "upsert_search E m now st = Inr st'" and ok: "search_ok (st_search st)" and r: "r \<in> set (st_search st)"
  shows "search_ok (st_search st') \<and> (if sea_domain_id r = m then reset_row now r else r) \<in> set (st_search st')"
proof -
  obtain i st1 where u: "fresh_uuid E st = (i, st1)" by (cases "fresh_uuid E st")
  have st1: "st_search st1 = st_search st"
    using u by (auto simp: fresh_uuid_def split: prod.splits)
  show ?thesis
  proof (cases "list_ex (\<lambda>r. sea_domain_id r = m) (st_search st)")
    case True
    then have rows: "st_search st' = map (\<lambda>r. if sea_domain_id r = m then reset_row now r else r) (st_search st)"
      using assms(1) by (auto simp: upsert_search_def u st1 Let_def wk_def sql_simps reset_row_def)
    have "map sea_id (st_search st') = map sea_id (st_search st)" "map sea_domain_id (st_search st') = map sea_domain_id (st_search st)"
      by (auto simp: rows reset_row_def)
    then have "search_ok (st_search st')" using ok unfolding search_ok_def by (simp only:)
    with r show ?thesis by (auto simp: rows)
  next
    case False
    then obtain new where new: "st_search st' = st_search st @ [new]" "sea_domain_id new = m" "\<forall>x \<in> set (st_search st). sea_id new \<noteq> sea_id x"
      using assms(1) by (auto simp: upsert_search_def u st1 Let_def wk_def sql_simps)
    with False ok r show ?thesis by (auto simp: search_ok_def list_ex_iff)
  qed
qed

lemma record_updates_Inr:
  assumes "record_updates E updates st = Inr st'" and "search_ok (st_search st)" and "r \<in> set (st_search st)"
  shows "search_ok (st_search st') \<and>
    (\<exists>r' \<in> set (st_search st'). sea_id r' = sea_id r \<and> sea_domain_id r' = sea_domain_id r
       \<and> (if sea_domain_id r \<in> fst ` set updates then sea_status r' = ''pending'' else r' = r))"
  using assms
proof (induction E updates st arbitrary: r rule: record_updates.induct)
  case (2 E m now updates st)
  obtain st1 where st1: "upsert_search E m now st = Inr st1" and rest: "record_updates E updates st1 = Inr st'"
    using "2.prems"(1) by (auto simp: rbind_eq_Inr)
  let ?r = "if sea_domain_id r = m then reset_row now r else r"
  have u: "search_ok (st_search st1)" "?r \<in> set (st_search st1)"
    using upsert_search_Inr [OF st1 "2.prems"(2,3)] by simp_all
  have f: "sea_id ?r = sea_id r" "sea_domain_id ?r = sea_domain_id r" "sea_domain_id r = m \<Longrightarrow> sea_status ?r = ''pending''"
    by (simp_all add: reset_row_def)
  show ?case
  proof (cases "sea_domain_id r = m")
    case True
    with "2.IH" [OF rest u] f show ?thesis by (cases "m \<in> fst ` set updates") auto
  next
    case False
    then have "?r = r" by simp
    with "2.IH" [OF rest u] False show ?thesis by (cases "sea_domain_id r \<in> fst ` set updates") auto
  qed
qed auto

section \<open>Properties\<close>

text \<open>The three fates of a claimed job, told from the row \<open>r\<close> of its id after the crawls.\<close>

lemma same_search_row:
  assumes "search_ok rows" and "r \<in> set rows" and "x \<in> set rows" and "sea_id x = sea_id r"
  shows "x = r"
  using assms distinct_map_eq [of sea_id rows x r] by (simp add: search_ok_def)

lemma completion_of_untouched_row:
  assumes "search_ok (st_search (sd_store d))" and "r \<in> set (st_search (sd_store d))" and "claimed_row job r"
    and "sea_domain_id r = sij_domain_id job"
  shows "\<exists>d'. complete job t d = Inr d' \<and> sij_domain_id job \<notin> sea_domain_id ` set (st_search (sd_store d'))"
proof -
  obtain d' where "complete job t d = Inr d'" "sea_domain_id r \<notin> sea_domain_id ` set (st_search (sd_store d'))"
    by (rule complete_claimed [OF assms(1-3)])
  with assms(4) show ?thesis by auto
qed

lemma completion_of_pending_row:
  assumes "search_ok (st_search (sd_store d))" and "r \<in> set (st_search (sd_store d))"
    and "sea_id r = sij_id job" and "sea_status r = ''pending''"
  shows "complete job t d = Inl SearchIndexUnavailable" and "fail E job t delay max_attempts summary d = Inl SearchIndexUnavailable"
proof -
  have "\<not> claimed_row job x" if x: "x \<in> set (st_search (sd_store d))" for x
  proof
    assume c: "claimed_row job x"
    then have "x = r" by (intro same_search_row [OF assms(1,2) x]) (simp add: claimed_row_def assms(3))
    with c assms(4) show False by (simp add: claimed_row_def)
  qed
  then have none: "filter (claimed_row job) (st_search (sd_store d)) = []" by (simp add: filter_empty_conv)
  show "complete job t d = Inl SearchIndexUnavailable" by (rule complete_unclaimed [OF none])
  show "fail E job t delay max_attempts summary d = Inl SearchIndexUnavailable" by (rule fail_unclaimed [OF none])
qed

lemma completion_after_second_claim:
  assumes ok: "search_ok (st_search (sd_store d))" and r: "r \<in> set (st_search (sd_store d))" "sea_id r = sij_id job"
      "sea_domain_id r = sij_domain_id job"
    and c: "claim_ready E locked now lease limit d = (Inr jobs, d1)" and j: "job' \<in> set jobs" "sij_id job' = sij_id job"
  shows "\<exists>d2. complete job t d1 = Inr d2 \<and> sij_domain_id job \<notin> sea_domain_id ` set (st_search (sd_store d2))
    \<and> complete job' t' d2 = Inl SearchIndexUnavailable"
proof -
  obtain ids x where rows: "st_search (sd_store d1) =
      map (\<lambda>r. if sea_id r \<in> set ids then claim_search_row now r else r) (st_search (sd_store d))"
    and x: "x \<in> set (st_search (sd_store d1))" "sea_id x = sij_id job'" "sea_status x = ''processing''"
    by (rule claim_ready_Inr [OF c]) (use j(1) in blast)
  obtain y where y: "y \<in> set (st_search (sd_store d))" "x = (if sea_id y \<in> set ids then claim_search_row now y else y)"
    using x(1) unfolding rows by auto
  then have "sea_id y = sea_id r" using x(2) j(2) r(2) by (auto split: if_splits)
  from same_search_row [OF ok r(1) y(1) this] y(2) r(3) have same: "sea_domain_id x = sij_domain_id job" by simp
  have ok1: "search_ok (st_search (sd_store d1))" by (rule claim_keeps_ok [OF c ok])
  have cl: "claimed_row job x" using x j by (simp add: claimed_row_def)
  obtain d2 where d2: "complete job t d1 = Inr d2" "st_search (sd_store d2) = filter (\<lambda>r. \<not> claimed_row job r) (st_search (sd_store d1))"
    "sea_domain_id x \<notin> sea_domain_id ` set (st_search (sd_store d2))"
    by (rule complete_claimed [OF ok1 x(1) cl])
  have "filter (claimed_row job') (st_search (sd_store d2)) = []"
    using j(2) by (auto simp: d2(2) claimed_row_def filter_empty_conv)
  with d2 same show ?thesis using complete_unclaimed by auto
qed

text \<open>
  C28: a job of the indexer is completed exactly when no crawl of its domain was recorded since the claim: then
  the outbox row is deleted; otherwise completion and failure are both refused and the row stays pending, so the new
  results are indexed again.  This protection ends when the row is claimed a second time: the first indexer's
  completion then deletes the row although it indexed older results, and the second one's completion is refused.
\<close>

theorem completion_respects_new_crawls:
  assumes ok: "search_ok (st_search (sd_store d))"
    and claim: "claim_ready E locked now lease limit d = (Inr jobs, d1)" "job \<in> set jobs"
    and updates: "record_updates E updates (sd_store d1) = Inr st2"
  shows "(sij_domain_id job \<notin> fst ` set updates \<longrightarrow>
      (\<exists>d3. complete job t (d1\<lparr>sd_store := st2\<rparr>) = Inr d3
         \<and> sij_domain_id job \<notin> sea_domain_id ` set (st_search (sd_store d3))))
    \<and> (sij_domain_id job \<in> fst ` set updates \<longrightarrow>
      complete job t (d1\<lparr>sd_store := st2\<rparr>) = Inl SearchIndexUnavailable
      \<and> fail E job t delay max_attempts summary (d1\<lparr>sd_store := st2\<rparr>) = Inl SearchIndexUnavailable
      \<and> (\<exists>r \<in> set (st_search st2). sea_domain_id r = sij_domain_id job \<and> sea_status r = ''pending''))
    \<and> (\<forall>locked' now' jobs' d3 job'. claim_ready E locked' now' lease limit (d1\<lparr>sd_store := st2\<rparr>) = (Inr jobs', d3) \<longrightarrow>
      job' \<in> set jobs' \<longrightarrow> sij_id job' = sij_id job \<longrightarrow>
      (\<exists>d4. complete job t d3 = Inr d4 \<and> sij_domain_id job \<notin> sea_domain_id ` set (st_search (sd_store d4))
         \<and> complete job' t' d4 = Inl SearchIndexUnavailable))"
proof -
  let ?d2 = "d1\<lparr>sd_store := st2\<rparr>"
  obtain r where r: "r \<in> set (st_search (sd_store d1))" "sea_id r = sij_id job" "sea_domain_id r = sij_domain_id job"
    "sea_status r = ''processing''"
    by (rule claim_ready_Inr [OF claim(1)]) (use claim(2) in blast)
  have ok1: "search_ok (st_search (sd_store d1))" by (rule claim_keeps_ok [OF claim(1) ok])
  obtain r' where ok2: "search_ok (st_search st2)" and r': "r' \<in> set (st_search st2)" "sea_id r' = sij_id job"
    "sea_domain_id r' = sij_domain_id job"
    "if sij_domain_id job \<in> fst ` set updates then sea_status r' = ''pending'' else r' = r"
    using record_updates_Inr [OF updates ok1 r(1)] r by auto
  have ok2': "search_ok (st_search (sd_store ?d2))" and r2: "r' \<in> set (st_search (sd_store ?d2))"
    using ok2 r'(1) by simp_all
  have fresh: "\<exists>d3. complete job t ?d2 = Inr d3 \<and> sij_domain_id job \<notin> sea_domain_id ` set (st_search (sd_store d3))"
    if "sij_domain_id job \<notin> fst ` set updates"
    by (rule completion_of_untouched_row [OF ok2' r2]) (use r r' that in \<open>simp_all add: claimed_row_def\<close>)
  have stale: "complete job t ?d2 = Inl SearchIndexUnavailable
      \<and> fail E job t delay max_attempts summary ?d2 = Inl SearchIndexUnavailable
      \<and> (\<exists>r \<in> set (st_search st2). sea_domain_id r = sij_domain_id job \<and> sea_status r = ''pending'')"
    if "sij_domain_id job \<in> fst ` set updates"
  proof -
    have "sea_status r' = ''pending''" using r'(4) that by simp
    with completion_of_pending_row [OF ok2' r2 r'(2) this] r' show ?thesis by blast
  qed
  note again = completion_after_second_claim [OF ok2' r2 r'(2,3)]
  show ?thesis using fresh stale again by blast
qed

definition sample_search_db :: search_db where
  "sample_search_db = \<lparr>sd_store = sample_store\<lparr>st_search := [\<lparr>sea_id = 30, sea_domain_id = 0, sea_status = ''pending'',
       sea_attempt_count = 0, sea_next_attempt_at = 5, sea_claimed_at = None, sea_last_error = None,
       sea_last_indexed_at = None, sea_created_at = 5, sea_updated_at = 5\<rparr>]\<rparr>,
     sd_domain_updated = (\<lambda>_. 0), sd_current_updated = (\<lambda>_. 0),
     sd_state = \<lparr>sst_last_success_at = None, sst_last_failure_at = None, sst_last_failure_summary = None, sst_updated_at = 0\<rparr>\<rparr>"

definition sample_search_claim :: "(search_index_repository_error, search_index_job list) result \<times> search_db" where
  "sample_search_claim = claim_ready sample_env {} 10 1000 5 sample_search_db"

lemma sample_search_run:
  "case sample_search_claim of
     (Inr [job], d) \<Rightarrow> sij_domain_id job = 0 \<and> is_ok (record_updates sample_env [(0, 12)] (sd_store d))
   | _ \<Rightarrow> False"
  by code_simp

theorem completion_respects_new_crawls_witness:
  "\<exists>job d st. claim_ready sample_env {} 10 1000 5 sample_search_db = (Inr [job], d)
     \<and> record_updates sample_env [(0, 12)] (sd_store d) = Inr st
     \<and> complete job 13 (d\<lparr>sd_store := st\<rparr>) = Inl SearchIndexUnavailable
     \<and> (\<exists>r \<in> set (st_search st). sea_domain_id r = 0 \<and> sea_status r = ''pending'')"
proof -
  obtain job d st where c: "claim_ready sample_env {} 10 1000 5 sample_search_db = (Inr [job], d)"
    and dom: "sij_domain_id job = 0" and st: "record_updates sample_env [(0, 12)] (sd_store d) = Inr st"
    using sample_search_run by (auto simp: sample_search_claim_def is_ok_iff split: prod.splits sum.splits list.splits)
  have "search_ok (st_search (sd_store sample_search_db))"
    by (simp add: search_ok_def sample_search_db_def)
  from completion_respects_new_crawls [OF this c _ st, of job 13 1 3 "''x''"] c dom st show ?thesis by auto
qed

end
