(* ===== verification/Public_Read.thy ===== *)
theory Public_Read
  imports Reprocessing Search_Index Adoption_Store
begin

text \<open>
  The public reads of domains and technologies (\<^verbatim>\<open>database/public_read_repository.rs\<close> with the response
  types of \<^verbatim>\<open>models/public.rs\<close>): profiles, change and crawl histories, the technology library and the
  comparison of domains.  The reads change nothing; each is a function of the tables.  Every listing is cut
  into pages by \<open>cut_page\<close>, whose cursors are studied by the locale \<open>cursor_listing\<close>.
\<close>

section \<open>Tables and environment\<close>

record provider_row =
  prv_id :: uuid
  prv_slug :: string
  prv_display_name :: string

record provider_mapping_row =
  pmr_technology_id :: uuid
  pmr_provider_id :: uuid

text \<open>
  The tables of the service with the daily adoption and the provider catalogue; the columns
  \<^verbatim>\<open>domains.created_at\<close>, \<^verbatim>\<open>technologies.display_name\<close> and \<^verbatim>\<open>technology_categories.display_name\<close> are
  kept beside the rows.
\<close>

record pub_db =
  pub_rp :: rp_db
  pub_daily :: "adoption_row list"
  pub_providers :: "provider_row list"
  pub_mappings :: "provider_mapping_row list"
  pub_domain_created :: "uuid \<Rightarrow> instant"
  pub_technology_name :: "uuid \<Rightarrow> string"
  pub_category_name :: "uuid \<Rightarrow> string"

abbreviation pub_store :: "pub_db \<Rightarrow> store" where
  "pub_store d \<equiv> rp_store (pub_rp d)"

abbreviation pub_core :: "pub_db \<Rightarrow> db" where
  "pub_core d \<equiv> st_core (pub_store d)"

text \<open>
  \<open>pe_display\<close> is \<^verbatim>\<open>OffsetDateTime::to_string\<close>, \<open>pe_day\<close> the database's form YYYY-MM-DD of a date, and \<open>pe_tie\<close> the
  order the database gives to rows that its ORDER BY leaves equal.
\<close>

record pub_env =
  pe_env :: env
  pe_display :: "instant \<Rightarrow> string"
  pe_day :: "date \<Rightarrow> string"
  pe_tie :: "uuid \<Rightarrow> nat"

abbreviation collate :: "pub_env \<Rightarrow> string \<Rightarrow> string" where
  "collate P \<equiv> env_collate (pe_env P)"

datatype public_read_error = ReadUnavailable

definition pr :: "'a option \<Rightarrow> (public_read_error, 'a) result" where
  "pr r = ok_or ReadUnavailable r"

lemma pr_eq_Inr [simp]: "pr r = Inr x \<longleftrightarrow> r = Some x"
  by (simp add: pr_def)

lemma pr_Some [simp]: "pr (Some x) = Inr x"
  by (simp add: pr_def)

text \<open>A COUNT is a BIGINT and is read into a \<open>u64\<close>; \<open>date_trunc\<close> works in a session whose time zone is UTC.\<close>

definition count_from_row :: "int \<Rightarrow> (public_read_error, u64) result" where
  "count_from_row n = pr (u64_of_i64 n)"

lemma count_from_row_length [simp]: "count_from_row (int n) = Inr (word_of_int (int n))"
  by (simp add: count_from_row_def pr_def u64_of_i64_def)

definition date_trunc_day :: "instant \<Rightarrow> date" where
  "date_trunc_day t = t div NANOS_PER_DAY"

section \<open>Pages\<close>

record 'a public_page =
  pp_items :: "'a list"
  pp_next_cursor :: "string option"

text \<open>The bound \<open>LIMIT\<close>: one row more than the page shows.\<close>

definition fetch_limit :: "nat \<Rightarrow> (public_read_error, nat) result" where
  "fetch_limit limit = pr (i64_try_from (min (limit + 1) (2 ^ 64 - 1)))"

definition cut_page :: "('a \<Rightarrow> string) \<Rightarrow> nat \<Rightarrow> 'a list \<Rightarrow> 'a public_page" where
  "cut_page key limit items =
     (if length items > limit then \<lparr>pp_items = butlast items, pp_next_cursor = Some (key (last items))\<rparr>
      else \<lparr>pp_items = items, pp_next_cursor = None\<rparr>)"

definition after_cursor :: "pub_env \<Rightarrow> string option \<Rightarrow> string \<Rightarrow> bool" where
  "after_cursor P cursor s = (case cursor of None \<Rightarrow> True | Some c \<Rightarrow> collate P c < collate P s)"

definition before_cursor :: "instant option \<Rightarrow> instant \<Rightarrow> bool" where
  "before_cursor cursor t = (case cursor of None \<Rightarrow> True | Some c \<Rightarrow> t < c)"

section \<open>Domains\<close>

definition public_domain_id :: "canonical_domain \<Rightarrow> pub_db \<Rightarrow> uuid option" where
  "public_domain_id name d =
     map_option dr_id (find (\<lambda>r. dr_canonical_domain r = canonical_domain_as_str name \<and> dr_archived_at r = None)
       (db_domains (pub_core d)))"

record public_evidence =
  pev_source :: string
  pev_key :: string
  pev_value :: string

record public_technology =
  pt_slug :: string
  pt_display_name :: string
  pt_category_slug :: string
  pt_category_name :: string
  pt_confidence :: u8
  pt_method :: string
  pt_rule_version :: u16
  pt_first_observed_at :: instant
  pt_last_observed_at :: instant
  pt_evidence :: "public_evidence list"

record public_domain_profile =
  pdp_canonical_domain :: string
  pdp_first_indexed_at :: instant
  pdp_last_crawled_at :: "instant option"
  pdp_country_code :: "string option"
  pdp_technologies :: "public_technology list"

definition profile_evidence :: "pub_env \<Rightarrow> uuid \<Rightarrow> store \<Rightarrow> public_evidence list" where
  "profile_evidence P detection st =
     map (\<lambda>e. \<lparr>pev_source = evr_source e, pev_key = evr_key e, pev_value = evr_value e\<rparr>)
       (sort_key (\<lambda>e. (collate P (evr_source e), collate P (evr_key e), collate P (evr_value e)))
         (filter (\<lambda>e. evr_detection_id e = detection) (st_evidence st)))"

definition profile_technologies :: "pub_env \<Rightarrow> uuid \<Rightarrow> pub_db \<Rightarrow> (public_read_error, public_technology list) result" where
  "profile_technologies P domain_id d =
     (let st = pub_store d in
      collect_results (map (\<lambda>(x, t, c, det, v).
          rbind (pr (u8_of_i16 (dtr_confidence det))) (\<lambda>confidence.
          rbind (pr (u16_of_i16 (ver_version v))) (\<lambda>version.
          Inr \<lparr>pt_slug = tech_slug t, pt_display_name = pub_technology_name d (tech_id t), pt_category_slug = cat_slug c,
               pt_category_name = pub_category_name d (cat_id c), pt_confidence = confidence, pt_method = dtr_method det,
               pt_rule_version = version, pt_first_observed_at = cur_first_observed_at x,
               pt_last_observed_at = cur_last_observed_at x, pt_evidence = profile_evidence P (dtr_id det) st\<rparr>)))
        (sort_key (\<lambda>(x, t, c, det, v). (collate P (cat_slug c), collate P (tech_slug t)))
          [(x, t, c, det, v). x \<leftarrow> st_current st, cur_domain_id x = domain_id,
             t \<leftarrow> st_technologies st, tech_id t = cur_technology_id x,
             c \<leftarrow> st_categories st, cat_id c = tech_category_id t,
             det \<leftarrow> st_detections st, dtr_id det = cur_detection_id x,
             v \<leftarrow> st_versions st, ver_id v = dtr_version_id det])))"

definition domain_profile :: "pub_env \<Rightarrow> canonical_domain \<Rightarrow> pub_db \<Rightarrow> (public_read_error, public_domain_profile option) result" where
  "domain_profile P name d =
     (case list_first [(r, p). r \<leftarrow> db_domains (pub_core d),
                          dr_canonical_domain r = canonical_domain_as_str name \<and> dr_archived_at r = None,
                          p \<leftarrow> db_policies (pub_core d), pol_domain_id p = dr_id r] of
        None \<Rightarrow> Inr None
      | Some (r, p) \<Rightarrow>
          rbind (profile_technologies P (dr_id r) d) (\<lambda>technologies.
          Inr (Some \<lparr>pdp_canonical_domain = dr_canonical_domain r, pdp_first_indexed_at = pub_domain_created d (dr_id r),
                     pdp_last_crawled_at = pol_last_successful_crawl_at p,
                     pdp_country_code = latest_country (dr_id r) (pub_store d), pdp_technologies = technologies\<rparr>)))"

record public_change =
  pch_kind :: string
  pch_category_slug :: string
  pch_from_technology_slug :: "string option"
  pch_to_technology_slug :: "string option"
  pch_technology_slug :: "string option"
  pch_from_version :: "string option"
  pch_to_version :: "string option"
  pch_reprocessing_run_id :: "string option"
  pch_observed_at :: instant

definition joined_slugs :: "uuid option \<Rightarrow> store \<Rightarrow> string option list" where
  "joined_slugs i st = left_join (map tech_slug (filter (\<lambda>t. Some (tech_id t) = i) (st_technologies st)))"

text \<open>The two halves of the union: technology changes and version changes, with the ids of their rows.\<close>

definition technology_change_rows :: "uuid \<Rightarrow> store \<Rightarrow> (uuid \<times> public_change) list" where
  "technology_change_rows domain_id st =
     [(chr_id h, \<lparr>pch_kind = chr_kind h, pch_category_slug = cat_slug c, pch_from_technology_slug = from_slug,
        pch_to_technology_slug = to_slug, pch_technology_slug = None, pch_from_version = None, pch_to_version = None,
        pch_reprocessing_run_id = None, pch_observed_at = chr_observed_at h\<rparr>).
      h \<leftarrow> st_changes st, chr_domain_id h = domain_id, c \<leftarrow> st_categories st, cat_id c = chr_category_id h,
      from_slug \<leftarrow> joined_slugs (chr_from_technology_id h) st, to_slug \<leftarrow> joined_slugs (chr_to_technology_id h) st]"

definition version_change_rows :: "pub_env \<Rightarrow> uuid \<Rightarrow> rp_db \<Rightarrow> (uuid \<times> public_change) list" where
  "version_change_rows P domain_id d =
     [(vch_id h, \<lparr>pch_kind = ''version_changed'', pch_category_slug = cat_slug c, pch_from_technology_slug = Some (tech_slug t),
        pch_to_technology_slug = Some (tech_slug t), pch_technology_slug = Some (tech_slug t),
        pch_from_version = Some (vch_from_version h), pch_to_version = Some (vch_to_version h),
        pch_reprocessing_run_id = Some (env_uuid_str (pe_env P) (vch_run_id h)), pch_observed_at = vch_observed_at h\<rparr>).
      h \<leftarrow> rp_changes d, vch_domain_id h = domain_id, t \<leftarrow> st_technologies (rp_store d), tech_id t = vch_technology_id h,
      c \<leftarrow> st_categories (rp_store d), cat_id c = tech_category_id t]"

definition domain_changes ::
    "pub_env \<Rightarrow> canonical_domain \<Rightarrow> instant option \<Rightarrow> nat \<Rightarrow> pub_db \<Rightarrow> (public_read_error, public_change public_page) result" where
  "domain_changes P name cursor limit d =
     (case public_domain_id name d of
        None \<Rightarrow> Inr \<lparr>pp_items = [], pp_next_cursor = None\<rparr>
      | Some domain_id \<Rightarrow>
          rbind (fetch_limit limit) (\<lambda>n.
          Inr (cut_page (\<lambda>c. pe_display P (pch_observed_at c)) limit
            (map snd (take n (sort_key (\<lambda>(i, c). (- pch_observed_at c, pe_tie P i))
              (filter (\<lambda>(i, c). before_cursor cursor (pch_observed_at c))
                (technology_change_rows domain_id (pub_store d) @ version_change_rows P domain_id (pub_rp d)))))))))"

record public_crawl =
  pcr_id :: string
  pcr_requested_url :: string
  pcr_final_url :: string
  pcr_response_status :: u16
  pcr_captured_at :: instant

definition crawl_from_row :: "pub_env \<Rightarrow> snapshot_row \<Rightarrow> (public_read_error, public_crawl) result" where
  "crawl_from_row P s =
     rbind (pr (u16_of_i16 (snap_response_status s))) (\<lambda>status.
     Inr \<lparr>pcr_id = env_uuid_str (pe_env P) (snap_id s), pcr_requested_url = snap_requested_url s,
          pcr_final_url = snap_final_url s, pcr_response_status = status, pcr_captured_at = snap_captured_at s\<rparr>)"

definition domain_crawls ::
    "pub_env \<Rightarrow> canonical_domain \<Rightarrow> instant option \<Rightarrow> nat \<Rightarrow> pub_db \<Rightarrow> (public_read_error, public_crawl public_page) result" where
  "domain_crawls P name cursor limit d =
     (case public_domain_id name d of
        None \<Rightarrow> Inr \<lparr>pp_items = [], pp_next_cursor = None\<rparr>
      | Some domain_id \<Rightarrow>
          rbind (fetch_limit limit) (\<lambda>n.
          rbind (collect_results (map (crawl_from_row P) (take n (sort_key (\<lambda>s. (- snap_captured_at s, pe_tie P (snap_id s)))
              (filter (\<lambda>s. snap_domain_id s = domain_id \<and> before_cursor cursor (snap_captured_at s))
                (st_snapshots (pub_store d))))))) (\<lambda>items.
          Inr (cut_page (\<lambda>c. pe_display P (pcr_captured_at c)) limit items))))"

record public_redirect =
  prd_from_url :: string
  prd_to_url :: string
  prd_status :: u16

record public_dns_observation =
  pdn_source :: string
  pdn_observed_at :: instant
  pdn_availability :: string
  pdn_unavailable_reason :: "string option"
  pdn_queried_name :: "string option"
  pdn_addresses :: "string list"

record public_tls_observation =
  ptl_source :: string
  ptl_observed_at :: instant
  ptl_availability :: string
  ptl_unavailable_reason :: "string option"
  ptl_validation_status :: "string option"
  ptl_protocol :: "string option"
  ptl_cipher_suite :: "string option"
  ptl_certificate_subject :: "string option"
  ptl_certificate_issuer :: "string option"
  ptl_subject_alternative_names :: "string list"
  ptl_certificate_not_before :: "instant option"
  ptl_certificate_not_after :: "instant option"

record public_crawl_detail =
  pcd_crawl :: public_crawl
  pcd_response_headers :: "(string \<times> string) list"
  pcd_redirect_chain :: "public_redirect list"
  pcd_country_code :: "string option"
  pcd_dns :: public_dns_observation
  pcd_tls :: public_tls_observation

definition availability_str :: "string option \<Rightarrow> string" where
  "availability_str reason = (if reason \<noteq> None then ''unavailable'' else ''available'')"

definition dns_from_row :: "dns_row option \<Rightarrow> instant \<Rightarrow> (public_read_error, public_dns_observation) result" where
  "dns_from_row row fallback_observed_at =
     (case row of
        None \<Rightarrow> Inr \<lparr>pdn_source = ''not_captured'', pdn_observed_at = fallback_observed_at, pdn_availability = ''unavailable'',
                     pdn_unavailable_reason = Some ''not_captured'', pdn_queried_name = None, pdn_addresses = []\<rparr>
      | Some r \<Rightarrow>
          rbind (pr (json_strings (JArray (dnr_addresses r)))) (\<lambda>addrs.
          Inr \<lparr>pdn_source = dnr_source r, pdn_observed_at = dnr_observed_at r,
               pdn_availability = availability_str (dnr_unavailable_reason r),
               pdn_unavailable_reason = dnr_unavailable_reason r, pdn_queried_name = dnr_queried_name r,
               pdn_addresses = addrs\<rparr>))"

definition tls_from_row :: "tls_row option \<Rightarrow> instant \<Rightarrow> (public_read_error, public_tls_observation) result" where
  "tls_from_row row fallback_observed_at =
     (case row of
        None \<Rightarrow> Inr \<lparr>ptl_source = ''not_captured'', ptl_observed_at = fallback_observed_at, ptl_availability = ''unavailable'',
                     ptl_unavailable_reason = Some ''not_captured'', ptl_validation_status = None, ptl_protocol = None,
                     ptl_cipher_suite = None, ptl_certificate_subject = None, ptl_certificate_issuer = None,
                     ptl_subject_alternative_names = [], ptl_certificate_not_before = None,
                     ptl_certificate_not_after = None\<rparr>
      | Some r \<Rightarrow>
          rbind (pr (json_strings (JArray (tlr_names r)))) (\<lambda>names.
          Inr \<lparr>ptl_source = tlr_source r, ptl_observed_at = tlr_observed_at r,
               ptl_availability = availability_str (tlr_unavailable_reason r),
               ptl_unavailable_reason = tlr_unavailable_reason r, ptl_validation_status = tlr_validation_status r,
               ptl_protocol = tlr_protocol r, ptl_cipher_suite = tlr_cipher_suite r,
               ptl_certificate_subject = tlr_certificate_subject r, ptl_certificate_issuer = tlr_certificate_issuer r,
               ptl_subject_alternative_names = names, ptl_certificate_not_before = tlr_not_before r,
               ptl_certificate_not_after = tlr_not_after r\<rparr>))"

definition redirect_of_json :: "json \<Rightarrow> public_redirect option" where
  "redirect_of_json value =
     Option.bind (Option.bind (json_get value ''from_url'') as_str) (\<lambda>from_url.
     Option.bind (Option.bind (json_get value ''to_url'') as_str) (\<lambda>to_url.
     Option.bind (Option.bind (json_get value ''status'') as_u64) (\<lambda>status.
     Option.bind (u16_try_from (uint status)) (\<lambda>status.
     Some \<lparr>prd_from_url = from_url, prd_to_url = to_url, prd_status = status\<rparr>))))"

definition crawl_detail ::
    "pub_env \<Rightarrow> canonical_domain \<Rightarrow> string \<Rightarrow> pub_db \<Rightarrow> (public_read_error, public_crawl_detail option) result" where
  "crawl_detail P name crawl_id d =
     (let st = pub_store d in
      case public_domain_id name d of
        None \<Rightarrow> Inr None
      | Some domain_id \<Rightarrow>
          rbind (pr (env_uuid_parse (pe_env P) crawl_id)) (\<lambda>crawl_id.
          case list_first [(s, dns, tls). s \<leftarrow> st_snapshots st, snap_id s = crawl_id \<and> snap_domain_id s = domain_id,
                             dns \<leftarrow> left_join (filter (\<lambda>r. dnr_snapshot_id r = snap_id s) (st_dns st)),
                             tls \<leftarrow> left_join (filter (\<lambda>r. tlr_snapshot_id r = snap_id s) (st_tls st))] of
            None \<Rightarrow> Inr None
          | Some (s, dns, tls) \<Rightarrow>
              rbind (pr (string_map (snap_response_headers s))) (\<lambda>headers.
              rbind (pr (as_array (snap_redirect_chain s))) (\<lambda>values.
              rbind (collect_results (map (\<lambda>v. pr (redirect_of_json v)) values)) (\<lambda>redirects.
              (let country = map_option cty_country_code (find (\<lambda>c. cty_snapshot_id c = crawl_id) (st_countries st)) in
               rbind (dns_from_row dns (snap_captured_at s)) (\<lambda>dns.
               rbind (tls_from_row tls (snap_captured_at s)) (\<lambda>tls.
               rbind (crawl_from_row P s) (\<lambda>crawl.
               Inr (Some \<lparr>pcd_crawl = crawl, pcd_response_headers = headers, pcd_redirect_chain = redirects,
                          pcd_country_code = country, pcd_dns = dns, pcd_tls = tls\<rparr>))))))))))"

section \<open>Technologies\<close>

datatype public_technology_trend = Growing | Declining | Stable

fun public_technology_trend_as_str :: "public_technology_trend \<Rightarrow> string" where
  "public_technology_trend_as_str Growing = ''growing''"
| "public_technology_trend_as_str Declining = ''declining''"
| "public_technology_trend_as_str Stable = ''stable''"

definition trend_from_net_change :: "int \<Rightarrow> public_technology_trend" where
  "trend_from_net_change net_change = (if net_change > 0 then Growing else if net_change < 0 then Declining else Stable)"

text \<open>The common table expressions \<^verbatim>\<open>change_deltas\<close> and \<^verbatim>\<open>trend_scores\<close>, and COALESCE(net_change, 0).\<close>

definition change_deltas :: "instant \<Rightarrow> store \<Rightarrow> (uuid \<times> int) list" where
  "change_deltas since st =
     [(t, 1). h \<leftarrow> st_changes st, since \<le> chr_observed_at h \<and> chr_kind h \<in> {''added'', ''migrated''},
        t \<leftarrow> (case chr_to_technology_id h of None \<Rightarrow> [] | Some t \<Rightarrow> [t])]
     @ [(t, -1). h \<leftarrow> st_changes st, since \<le> chr_observed_at h \<and> chr_kind h \<in> {''removed'', ''migrated''},
          t \<leftarrow> (case chr_from_technology_id h of None \<Rightarrow> [] | Some t \<Rightarrow> [t])]"

definition trend_scores :: "instant \<Rightarrow> store \<Rightarrow> (uuid \<times> int) list" where
  "trend_scores since st =
     (let deltas = change_deltas since st in
      map (\<lambda>t. (t, sum_list (map snd (filter (\<lambda>x. fst x = t) deltas)))) (remdups (map fst deltas)))"

definition net_change_of :: "instant \<Rightarrow> store \<Rightarrow> uuid \<Rightarrow> int" where
  "net_change_of since st t = (case map_of (trend_scores since st) t of None \<Rightarrow> 0 | Some n \<Rightarrow> n)"

record public_technology_library_item =
  pli_slug :: string
  pli_display_name :: string
  pli_category_slug :: string
  pli_category_name :: string
  pli_adoption_count :: u64
  pli_net_change :: int
  pli_trend :: public_technology_trend

record public_technology_category =
  ptc_slug :: string
  ptc_display_name :: string

record public_technology_library_page =
  plp_items :: "public_technology_library_item list"
  plp_categories :: "public_technology_category list"
  plp_next_cursor :: "string option"

definition technology_library_item_from_row ::
    "pub_db \<Rightarrow> instant \<Rightarrow> technology_row \<times> category_row \<Rightarrow> (public_read_error, public_technology_library_item) result" where
  "technology_library_item_from_row d since row =
     (case row of (t, c) \<Rightarrow>
        (let net_change = net_change_of since (pub_store d) (tech_id t) in
         rbind (count_from_row (int (current_domains (pub_store d) (tech_id t)))) (\<lambda>adoption_count.
         Inr \<lparr>pli_slug = tech_slug t, pli_display_name = pub_technology_name d (tech_id t), pli_category_slug = cat_slug c,
              pli_category_name = pub_category_name d (cat_id c), pli_adoption_count = adoption_count,
              pli_net_change = net_change, pli_trend = trend_from_net_change net_change\<rparr>)))"

definition library_having :: "string option \<Rightarrow> int \<Rightarrow> bool" where
  "library_having trend net_change =
     (case trend of None \<Rightarrow> True
      | Some s \<Rightarrow> (s = ''growing'' \<and> net_change > 0) \<or> (s = ''declining'' \<and> net_change < 0) \<or> (s = ''stable'' \<and> net_change = 0))"

definition library_rows ::
    "pub_env \<Rightarrow> string option \<Rightarrow> public_technology_trend option \<Rightarrow> string option \<Rightarrow> instant \<Rightarrow> pub_db \<Rightarrow> (technology_row \<times> category_row) list" where
  "library_rows P category trend cursor since d =
     (let st = pub_store d in
      sort_key (\<lambda>(t, c). collate P (tech_slug t))
        [(t, c). t \<leftarrow> st_technologies st, c \<leftarrow> st_categories st, cat_id c = tech_category_id t
           \<and> (case category of None \<Rightarrow> True | Some s \<Rightarrow> cat_slug c = s) \<and> after_cursor P cursor (tech_slug t)
           \<and> library_having (map_option public_technology_trend_as_str trend) (net_change_of since st (tech_id t))])"

definition technologies ::
    "pub_env \<Rightarrow> string option \<Rightarrow> public_technology_trend option \<Rightarrow> string option \<Rightarrow> nat \<Rightarrow> instant \<Rightarrow> pub_db \<Rightarrow>
     (public_read_error, public_technology_library_page) result" where
  "technologies P category trend cursor limit since d =
     (let categories = map (\<lambda>c. \<lparr>ptc_slug = cat_slug c, ptc_display_name = pub_category_name d (cat_id c)\<rparr>)
            (sort_key (\<lambda>c. collate P (cat_slug c)) (st_categories (pub_store d))) in
      rbind (fetch_limit limit) (\<lambda>n.
      rbind (collect_results (map (technology_library_item_from_row d since) (take n (library_rows P category trend cursor since d)))) (\<lambda>items.
      (let page = cut_page pli_slug limit items in
       Inr \<lparr>plp_items = pp_items page, plp_categories = categories, plp_next_cursor = pp_next_cursor page\<rparr>))))"

record public_domain_summary =
  pds_canonical_domain :: string
  pds_last_crawled_at :: "instant option"

definition domain_summary_from_row :: "domain_row \<times> instant option \<Rightarrow> public_domain_summary" where
  "domain_summary_from_row row =
     (case row of (r, crawled) \<Rightarrow> \<lparr>pds_canonical_domain = dr_canonical_domain r, pds_last_crawled_at = crawled\<rparr>)"

text \<open>The rows of the query: no condition excludes archived domains.\<close>

definition technology_domain_rows :: "pub_env \<Rightarrow> string \<Rightarrow> string option \<Rightarrow> pub_db \<Rightarrow> (domain_row \<times> instant option) list" where
  "technology_domain_rows P technology cursor d =
     (let st = pub_store d in
      sort_key (\<lambda>(r, _). collate P (dr_canonical_domain r))
        [(r, pol_last_successful_crawl_at p). x \<leftarrow> st_current st,
           t \<leftarrow> st_technologies st, tech_id t = cur_technology_id x \<and> tech_slug t = technology,
           r \<leftarrow> db_domains (st_core st), dr_id r = cur_domain_id x \<and> after_cursor P cursor (dr_canonical_domain r),
           p \<leftarrow> db_policies (st_core st), pol_domain_id p = dr_id r])"

definition technology_domains ::
    "pub_env \<Rightarrow> string \<Rightarrow> string option \<Rightarrow> nat \<Rightarrow> pub_db \<Rightarrow> (public_read_error, public_domain_summary public_page option) result" where
  "technology_domains P technology cursor limit d =
     (if find (\<lambda>t. tech_slug t = technology) (st_technologies (pub_store d)) = None then Inr None
      else
        rbind (fetch_limit limit) (\<lambda>n.
        Inr (Some (cut_page pds_canonical_domain limit
          (map domain_summary_from_row (take n (technology_domain_rows P technology cursor d)))))))"

record public_technology_history_point =
  pth_day :: string
  pth_net_change :: int

record public_related_technology =
  prt_slug :: string
  prt_display_name :: string
  prt_category_slug :: string
  prt_category_name :: string
  prt_shared_domain_count :: u64

record public_technology_profile =
  ptp_slug :: string
  ptp_display_name :: string
  ptp_category_slug :: string
  ptp_category_name :: string
  ptp_adoption_count :: u64
  ptp_net_change :: int
  ptp_trend :: public_technology_trend
  ptp_history :: "public_technology_history_point list"
  ptp_related_technologies :: "public_related_technology list"
  ptp_domains :: "public_domain_summary public_page"

text \<open>The changes that brought the technology to a domain and those that took it away.\<close>

definition gained :: "instant \<Rightarrow> uuid \<Rightarrow> store \<Rightarrow> change_row list" where
  "gained since t st =
     filter (\<lambda>h. since \<le> chr_observed_at h \<and> chr_to_technology_id h = Some t \<and> chr_kind h \<in> {''added'', ''migrated''}) (st_changes st)"

definition lost :: "instant \<Rightarrow> uuid \<Rightarrow> store \<Rightarrow> change_row list" where
  "lost since t st =
     filter (\<lambda>h. since \<le> chr_observed_at h \<and> chr_from_technology_id h = Some t \<and> chr_kind h \<in> {''removed'', ''migrated''}) (st_changes st)"

definition technology_history :: "pub_env \<Rightarrow> instant \<Rightarrow> uuid \<Rightarrow> store \<Rightarrow> public_technology_history_point list" where
  "technology_history P since t st =
     (let deltas = map (\<lambda>h. (date_trunc_day (chr_observed_at h), 1)) (gained since t st)
                   @ map (\<lambda>h. (date_trunc_day (chr_observed_at h), -1)) (lost since t st) in
      map (\<lambda>day. \<lparr>pth_day = pe_day P day, pth_net_change = sum_list (map snd (filter (\<lambda>x. fst x = day) deltas))\<rparr>)
        (sort (remdups (map fst deltas))))"

definition shared_domains :: "uuid \<Rightarrow> uuid \<Rightarrow> store \<Rightarrow> nat" where
  "shared_domains t other st =
     length (remdups [cur_domain_id y. x \<leftarrow> st_current st, cur_technology_id x = t,
        y \<leftarrow> st_current st, cur_domain_id y = cur_domain_id x \<and> cur_technology_id y \<noteq> t \<and> cur_technology_id y = other])"

definition related_technologies :: "pub_env \<Rightarrow> uuid \<Rightarrow> pub_db \<Rightarrow> (public_read_error, public_related_technology list) result" where
  "related_technologies P t d =
     (let st = pub_store d in
      collect_results (map (\<lambda>(u, c).
          rbind (count_from_row (int (shared_domains t (tech_id u) st))) (\<lambda>count.
          Inr \<lparr>prt_slug = tech_slug u, prt_display_name = pub_technology_name d (tech_id u), prt_category_slug = cat_slug c,
               prt_category_name = pub_category_name d (cat_id c), prt_shared_domain_count = count\<rparr>))
        (take 6 (sort_key (\<lambda>(u, c). (- int (shared_domains t (tech_id u) st), collate P (tech_slug u)))
          [(u, c). u \<leftarrow> st_technologies st, 0 < shared_domains t (tech_id u) st,
             c \<leftarrow> st_categories st, cat_id c = tech_category_id u]))))"

definition technology_profile ::
    "pub_env \<Rightarrow> string \<Rightarrow> string option \<Rightarrow> nat \<Rightarrow> instant \<Rightarrow> pub_db \<Rightarrow> (public_read_error, public_technology_profile option) result" where
  "technology_profile P technology cursor limit trend_since d =
     (let st = pub_store d in
      case list_first [(t, c). t \<leftarrow> st_technologies st, tech_slug t = technology, c \<leftarrow> st_categories st, cat_id c = tech_category_id t] of
        None \<Rightarrow> Inr None
      | Some (t, c) \<Rightarrow>
          (let net_change = int (length (gained trend_since (tech_id t) st)) - int (length (lost trend_since (tech_id t) st)) in
           rbind (related_technologies P (tech_id t) d) (\<lambda>related.
           rbind (technology_domains P technology cursor limit d) (\<lambda>found.
           rbind (pr found) (\<lambda>domains.
           rbind (count_from_row (int (current_domains st (tech_id t)))) (\<lambda>adoption_count.
           Inr (Some \<lparr>ptp_slug = tech_slug t, ptp_display_name = pub_technology_name d (tech_id t),
                      ptp_category_slug = cat_slug c, ptp_category_name = pub_category_name d (cat_id c),
                      ptp_adoption_count = adoption_count, ptp_net_change = net_change,
                      ptp_trend = trend_from_net_change net_change,
                      ptp_history = technology_history P trend_since (tech_id t) st,
                      ptp_related_technologies = related, ptp_domains = domains\<rparr>)))))))"

section \<open>Comparison\<close>

record public_comparison_cell =
  pcc_category_slug :: string
  pcc_canonical_domain :: string
  pcc_technology_slug :: "string option"
  pcc_state :: string
  pcc_last_observed_at :: "instant option"

type_synonym comparison_row = "string \<times> string \<times> policy_row option \<times> current_row option \<times> technology_row option"

definition category_id_of :: "string \<Rightarrow> store \<Rightarrow> uuid option" where
  "category_id_of slug st = map_option cat_id (find (\<lambda>k. cat_slug k = slug) (st_categories st))"

definition option_rows :: "('a \<Rightarrow> 'b list) \<Rightarrow> 'a option \<Rightarrow> 'b list" where
  "option_rows f x = (case x of None \<Rightarrow> [] | Some y \<Rightarrow> f y)"

definition comparison_rows :: "string list \<Rightarrow> store \<Rightarrow> comparison_row list" where
  "comparison_rows names st =
     [(name, category, p, x, t). name \<leftarrow> names, category \<leftarrow> map cat_slug (st_categories st),
        r \<leftarrow> left_join (filter (\<lambda>r. dr_canonical_domain r = name \<and> dr_archived_at r = None) (db_domains (st_core st))),
        p \<leftarrow> left_join (option_rows (\<lambda>r. filter (\<lambda>p. pol_domain_id p = dr_id r) (db_policies (st_core st))) r),
        x \<leftarrow> left_join (option_rows (\<lambda>r. filter (\<lambda>x. cur_domain_id x = dr_id r) (st_current st)) r),
        t \<leftarrow> left_join (option_rows (\<lambda>x. filter (\<lambda>t. tech_id t = cur_technology_id x
               \<and> Some (tech_category_id t) = category_id_of category st) (st_technologies st)) x)]"

definition comparison_state :: "instant \<Rightarrow> instant option \<Rightarrow> instant option \<Rightarrow> string" where
  "comparison_state stale_before observed crawl =
     (if observed = None then ''unknown''
      else if (case crawl of None \<Rightarrow> True | Some at \<Rightarrow> at < stale_before) then ''stale'' else ''current'')"

definition comparison_cell :: "instant \<Rightarrow> comparison_row \<Rightarrow> public_comparison_cell" where
  "comparison_cell stale_before row =
     (case row of (name, category, p, x, t) \<Rightarrow>
        (let observed = map_option cur_last_observed_at x in
         \<lparr>pcc_category_slug = category, pcc_canonical_domain = name, pcc_technology_slug = map_option tech_slug t,
          pcc_state = comparison_state stale_before observed (Option.bind p pol_last_successful_crawl_at),
          pcc_last_observed_at = observed\<rparr>))"

text \<open>NULL sorts after every slug.\<close>

definition comparison ::
    "pub_env \<Rightarrow> canonical_domain list \<Rightarrow> instant \<Rightarrow> pub_db \<Rightarrow> (public_read_error, public_comparison_cell list) result" where
  "comparison P domains stale_before d =
     Inr (map (comparison_cell stale_before)
       (sort_key (\<lambda>(name, category, _, _, t).
            (collate P category, collate P name, t = None, case t of None \<Rightarrow> [] | Some t \<Rightarrow> collate P (tech_slug t)))
         (comparison_rows (map canonical_domain_as_str domains) (pub_store d))))"

end
