(* ===== verification/Public_Pages.thy ===== *)
theory Public_Pages
  imports Public_Read Worker_Properties
begin

text \<open>
  What the public reads promise: the pages of a listing and the cursors between them, the technology
  library, and the comparison of domains.
\<close>

section \<open>Following cursors\<close>

text \<open>A client asks for the page after each cursor it was given until a page has none.\<close>

fun walk_cursors :: "nat \<Rightarrow> (string option \<Rightarrow> ('e, 'a list \<times> string option) result) \<Rightarrow> string option \<Rightarrow> 'a list option" where
  "walk_cursors 0 get cursor = None"
| "walk_cursors (Suc n) get cursor =
     (case get cursor of
        Inl _ \<Rightarrow> None
      | Inr (items, None) \<Rightarrow> Some items
      | Inr (items, Some c) \<Rightarrow> map_option ((@) items) (walk_cursors n get (Some c)))"

definition kept_positions :: "nat \<Rightarrow> nat set" where
  "kept_positions limit = {i. i mod (limit + 1) \<noteq> limit}"

lemma kept_shift: "{j. j + (limit + 1) \<in> kept_positions limit} = kept_positions limit"
  unfolding kept_positions_def by (simp only: mod_add_self2 mem_Collect_eq)

lemma nths_kept_short: "length xs \<le> limit \<Longrightarrow> nths xs (kept_positions limit) = xs"
  by (rule nths_all) (auto simp: kept_positions_def)

lemma nths_kept_step:
  assumes "limit < length xs"
  shows "nths xs (kept_positions limit) = take limit xs @ nths (drop (limit + 1) xs) (kept_positions limit)"
proof -
  have split: "xs = (take limit xs @ [xs ! limit]) @ drop (limit + 1) xs"
    using assms by (simp add: id_take_nth_drop [symmetric])
  have "nths (take limit xs @ [xs ! limit]) (kept_positions limit) = take limit xs"
    using assms nths_kept_short [of "take limit xs" limit] by (simp add: nths_append min_def kept_positions_def)
  moreover have "length (take limit xs @ [xs ! limit]) = limit + 1" using assms by simp
  ultimately show ?thesis
    by (subst split, subst nths_append) (simp only: kept_shift)
qed

text \<open>
  A listing in strictly increasing order of a key, the rows after a cursor being those with a larger key.
\<close>

locale cursor_listing =
  fixes wf :: "'s \<Rightarrow> bool"
    and listing :: "'s \<Rightarrow> string option \<Rightarrow> 'a list"
    and key :: "'a \<Rightarrow> string"
    and ord :: "string \<Rightarrow> 'o::linorder"
  assumes listing_after: "wf st \<Longrightarrow> listing st (Some c) = filter (\<lambda>x. ord c < ord (key x)) (listing st None)"
    and listing_sorted: "wf st \<Longrightarrow> sorted_wrt (<) (map (\<lambda>x. ord (key x)) (listing st None))"
begin

definition page_of :: "'s \<Rightarrow> nat \<Rightarrow> string option \<Rightarrow> 'a list \<times> string option" where
  "page_of st limit cursor =
     (let page = cut_page key limit (take (limit + 1) (listing st cursor)) in (pp_items page, pp_next_cursor page))"

lemma listing_from:
  assumes "wf st" and "listing st None = ys @ x # zs"
  shows "listing st (Some (key x)) = zs"
proof -
  have s: "sorted_wrt (<) (map (\<lambda>x. ord (key x)) (ys @ x # zs))" using listing_sorted [OF assms(1)] assms(2) by simp
  then have "\<forall>y \<in> set ys. \<not> ord (key x) < ord (key y)" "\<forall>z \<in> set zs. ord (key x) < ord (key z)"
    by (auto simp: sorted_wrt_append dest: less_not_sym)
  then show ?thesis by (simp add: listing_after [OF assms(1)] assms(2))
qed

lemma page_of_last: "length (listing st cursor) \<le> limit \<Longrightarrow> page_of st limit cursor = (listing st cursor, None)"
  by (simp add: page_of_def cut_page_def)

lemma page_of_full:
  assumes "limit < length (listing st cursor)"
  shows "page_of st limit cursor = (take limit (listing st cursor), Some (key (listing st cursor ! limit)))"
proof -
  have "take (limit + 1) (listing st cursor) = take limit (listing st cursor) @ [listing st cursor ! limit]"
    using assms by (simp add: take_Suc_conv_app_nth)
  then show ?thesis using assms by (simp add: page_of_def cut_page_def)
qed

lemma walk_from:
  assumes wf: "wf st" and get: "\<And>cursor. get cursor = Inr (page_of st limit cursor)"
    and "listing st None = ys @ listing st cursor" and "length (listing st cursor) < fuel"
  shows "walk_cursors fuel get cursor = Some (nths (listing st cursor) (kept_positions limit))"
  using assms(3,4)
proof (induction fuel arbitrary: cursor ys)
  case (Suc fuel)
  let ?l = "listing st cursor"
  show ?case
  proof (cases "limit < length ?l")
    case True
    have split: "?l = take limit ?l @ ?l ! limit # drop (limit + 1) ?l"
      using True by (simp add: id_take_nth_drop [symmetric])
    then have whole: "listing st None = (ys @ take limit ?l) @ ?l ! limit # drop (limit + 1) ?l"
      using Suc.prems(1) by (metis append.assoc)
    have rest: "listing st (Some (key (?l ! limit))) = drop (limit + 1) ?l" by (rule listing_from [OF wf whole])
    have "walk_cursors fuel get (Some (key (?l ! limit))) = Some (nths (drop (limit + 1) ?l) (kept_positions limit))"
      using Suc.IH [of "ys @ take limit ?l @ [?l ! limit]" "Some (key (?l ! limit))"] whole Suc.prems(2) True
      by (simp add: rest)
    then show ?thesis using nths_kept_step [OF True] by (simp add: get [of cursor] page_of_full [OF True])
  next
    case False
    then show ?thesis by (simp add: get page_of_last nths_kept_short)
  qed
qed simp

lemma walk_skips:
  assumes "wf st" and "\<And>cursor. get cursor = Inr (page_of st limit cursor)" and "length (listing st None) < fuel"
  shows "walk_cursors fuel get None = Some (nths (listing st None) (kept_positions limit))"
  using walk_from [OF assms(1,2), of "[]" None fuel] assms(3) by simp

end

lemma fetch_limit_ok: "limit < 2 ^ 63 - 1 \<Longrightarrow> fetch_limit limit = Inr (limit + 1)"
  by (simp add: fetch_limit_def i64_try_from_def)

section \<open>The technology library\<close>

definition library_item :: "pub_db \<Rightarrow> instant \<Rightarrow> technology_row \<times> category_row \<Rightarrow> public_technology_library_item" where
  "library_item d since = (\<lambda>(t, c).
     (let net_change = net_change_of since (pub_store d) (tech_id t) in
      \<lparr>pli_slug = tech_slug t, pli_display_name = pub_technology_name d (tech_id t), pli_category_slug = cat_slug c,
       pli_category_name = pub_category_name d (cat_id c),
       pli_adoption_count = word_of_int (int (current_domains (pub_store d) (tech_id t))),
       pli_net_change = net_change, pli_trend = trend_from_net_change net_change\<rparr>))"

lemma library_item_row: "technology_library_item_from_row d since = (\<lambda>row. Inr (library_item d since row))"
  by (auto simp: technology_library_item_from_row_def library_item_def Let_def)

lemma library_item_slug [simp]: "pli_slug (library_item d since row) = tech_slug (fst row)"
  by (simp add: library_item_def Let_def split: prod.split)

text \<open>Slugs and category ids are unique and the collation tells slugs apart.\<close>

definition library_ok :: "pub_env \<Rightarrow> pub_db \<Rightarrow> bool" where
  "library_ok P d =
     (inj (collate P) \<and> distinct (map tech_slug (st_technologies (pub_store d))) \<and> distinct (map cat_id (st_categories (pub_store d))))"

lemma distinct_join:
  assumes "distinct (map f xs)" and "\<And>x. length (g x) \<le> 1" and "\<And>x y. y \<in> set (g x) \<Longrightarrow> k y = f x"
  shows "distinct (map k (concat (map g xs)))"
  using assms(1)
proof (induction xs)
  case (Cons x xs)
  have "distinct (map k (g x))" using assms(2) [of x] by (cases "g x") auto
  moreover have "k y \<noteq> k z" if "y \<in> set (g x)" "z \<in> set (concat (map g xs))" for y z
    using that Cons.prems assms(3) by auto
  ultimately show ?case using Cons by (auto simp: disjoint_iff)
qed simp

lemma distinct_map_sort_key: "distinct (map k (sort_key f xs)) = distinct (map k xs)"
  by (simp add: distinct_map)

lemma length_filter_distinct: "distinct (map f xs) \<Longrightarrow> length (filter (\<lambda>x. f x = a \<and> Q x) xs) \<le> 1"
proof (induction xs)
  case (Cons x xs)
  have "filter (\<lambda>y. f y = a \<and> Q y) xs = []" if "f x = a"
    using Cons.prems that by (auto simp: filter_empty_conv image_iff)
  with Cons show ?case by auto
qed simp

lemma join_as_filter:
  "concat (map (\<lambda>c. if Q c then [(t, c)] else []) cs) = map (Pair t) (filter Q cs)"
  by (induction cs) auto

lemma library_rows_after:
  "library_rows P category trend (Some c) since d =
     filter (\<lambda>row. collate P c < collate P (tech_slug (fst row))) (library_rows P category trend None since d)"
  unfolding library_rows_def Let_def filter_sort join_as_filter
  by (rule arg_cong [of _ _ "sort_key _"])
     (auto simp: filter_concat after_cursor_def filter_map o_def intro!: arg_cong [of _ _ concat] map_cong filter_cong)

lemma library_rows_sorted:
  assumes "library_ok P d"
  shows "sorted_wrt (<) (map (\<lambda>row. collate P (tech_slug (fst row))) (library_rows P category trend cursor since d))"
proof -
  let ?k = "\<lambda>row :: technology_row \<times> category_row. collate P (tech_slug (fst row))"
  have inj: "distinct (map (\<lambda>t. collate P (tech_slug t)) (st_technologies (pub_store d)))"
    using assms by (auto simp: library_ok_def distinct_map inj_on_def inj_def)
  have cat: "distinct (map cat_id (st_categories (pub_store d)))" using assms by (simp add: library_ok_def)
  have "distinct (map ?k (library_rows P category trend cursor since d))"
    unfolding library_rows_def Let_def join_as_filter distinct_map_sort_key
    by (rule distinct_join [OF inj]) (use cat in \<open>auto intro: length_filter_distinct [OF cat, simplified]\<close>)
  moreover have "sorted (map ?k (library_rows P category trend cursor since d))"
    unfolding library_rows_def Let_def by (simp add: case_prod_unfold)
  ultimately show ?thesis by (simp add: strict_sorted_iff)
qed

interpretation library: cursor_listing
  "library_ok P" "\<lambda>d cursor. map (library_item d since) (library_rows P category trend cursor since d)" pli_slug "collate P"
  for P category trend since
  by unfold_locales (simp_all add: library_rows_after filter_map o_def library_rows_sorted)

text \<open>A page of the library as its items and its cursor.\<close>

abbreviation library_page ::
    "pub_env \<Rightarrow> string option \<Rightarrow> public_technology_trend option \<Rightarrow> nat \<Rightarrow> instant \<Rightarrow> pub_db \<Rightarrow> string option \<Rightarrow>
     (public_read_error, public_technology_library_item list \<times> string option) result" where
  "library_page P category trend limit since d cursor \<equiv>
     rbind (technologies P category trend cursor limit since d) (\<lambda>page. Inr (plp_items page, plp_next_cursor page))"

lemma library_page_of:
  "limit < 2 ^ 63 - 1 \<Longrightarrow> library_page P category trend limit since d cursor = Inr (library.page_of since P category trend d limit cursor)"
  by (simp add: technologies_def library_item_row fetch_limit_ok library.page_of_def Let_def take_map)

text \<open>
  C35: a client that follows the cursors of the technology library from its first page to its last does not see
  every technology: each page's cursor is the key of a row that the page leaves out, and the next page starts
  strictly after it.  With pages of \<open>limit\<close> items exactly the rows at the positions \<open>limit\<close>, \<open>2 * limit + 1\<close>, ... of the
  filtered and sorted listing are never returned.
\<close>

theorem library_pages_skip_boundaries:
  assumes "library_ok P d" and "limit < 2 ^ 63 - 1"
  shows "walk_cursors (Suc (length (library_rows P category trend None since d)))
       (library_page P category trend limit since d) None =
     Some (nths (map (library_item d since) (library_rows P category trend None since d)) {i. i mod (limit + 1) \<noteq> limit})"
  unfolding kept_positions_def [symmetric]
  by (rule library.walk_skips [OF assms(1) library_page_of [OF assms(2)]]) simp

section \<open>Trends\<close>

lemma sum_list_update:
  fixes g :: "'k \<Rightarrow> int"
  shows "distinct ks \<Longrightarrow> a \<in> set ks \<Longrightarrow> sum_list (map (\<lambda>k. if a = k then n + g k else g k) ks) = n + sum_list (map g ks)"
proof (induction ks)
  case (Cons k ks)
  show ?case
  proof (cases "a = k")
    case True
    have "map (\<lambda>k. if a = k then n + g k else g k) ks = map g ks"
      using Cons.prems True by auto
    with True show ?thesis by (simp del: map_eq_conv)
  next
    case False
    with Cons show ?thesis by simp
  qed
qed simp

lemma sum_list_groups:
  fixes xs :: "('k \<times> int) list"
  assumes "distinct ks" and "fst ` set xs \<subseteq> set ks"
  shows "sum_list (map (\<lambda>k. sum_list (map snd (filter (\<lambda>x. fst x = k) xs))) ks) = sum_list (map snd xs)"
  using assms(2)
proof (induction xs)
  case (Cons x xs)
  have "sum_list (map (\<lambda>k. sum_list (map snd (filter (\<lambda>y. fst y = k) (x # xs)))) ks) =
      sum_list (map (\<lambda>k. if fst x = k then snd x + sum_list (map snd (filter (\<lambda>y. fst y = k) xs))
                          else sum_list (map snd (filter (\<lambda>y. fst y = k) xs))) ks)"
    by (intro arg_cong [of _ _ sum_list] map_cong) auto
  also have "\<dots> = sum_list (map snd (x # xs))"
    using Cons by (subst sum_list_update [OF assms(1)]) auto
  finally show ?case .
qed simp

lemma grouped_sum:
  fixes xs :: "('k \<times> int) list"
  shows "sum_list (map snd (filter (\<lambda>x. fst x = k) xs)) =
     (case map_of (map (\<lambda>k. (k, sum_list (map snd (filter (\<lambda>x. fst x = k) xs)))) (remdups (map fst xs))) k of None \<Rightarrow> 0 | Some n \<Rightarrow> n)"
proof (cases "k \<in> fst ` set xs")
  case True
  then show ?thesis by (simp add: map_of_map_restrict)
next
  case False
  then have "filter (\<lambda>x. fst x = k) xs = []" by (force simp: filter_empty_conv)
  with False show ?thesis by (simp add: map_of_map_restrict)
qed

lemma net_change_sum:
  "net_change_of since st t = sum_list (map snd (filter (\<lambda>x. fst x = t) (change_deltas since st)))"
  unfolding net_change_of_def trend_scores_def Let_def by (rule grouped_sum [symmetric])

lemma sum_gained:
  "sum_list (map snd (filter (\<lambda>x. fst x = t) [(u, n :: int). h \<leftarrow> hs, Q h, u \<leftarrow> (case f h of None \<Rightarrow> [] | Some u \<Rightarrow> [u])])) =
     n * int (length (filter (\<lambda>h. Q h \<and> f h = Some t) hs))"
  by (induction hs) (auto simp: algebra_simps split: option.split)

lemma net_change_gained_lost:
  "net_change_of since st t = int (length (gained since t st)) - int (length (lost since t st))"
proof -
  have g: "gained since t st = filter (\<lambda>h. (since \<le> chr_observed_at h \<and> chr_kind h \<in> {''added'', ''migrated''}) \<and> chr_to_technology_id h = Some t) (st_changes st)"
    and l: "lost since t st = filter (\<lambda>h. (since \<le> chr_observed_at h \<and> chr_kind h \<in> {''removed'', ''migrated''}) \<and> chr_from_technology_id h = Some t) (st_changes st)"
    unfolding gained_def lost_def by (auto intro!: filter_cong)
  show ?thesis
    unfolding net_change_sum change_deltas_def filter_append map_append sum_list_append sum_gained g l by simp
qed

lemma history_sum:
  "sum_list (map pth_net_change (technology_history P since t st)) = int (length (gained since t st)) - int (length (lost since t st))"
proof -
  let ?ds = "map (\<lambda>h. (date_trunc_day (chr_observed_at h), 1)) (gained since t st)
    @ map (\<lambda>h. (date_trunc_day (chr_observed_at h), -1 :: int)) (lost since t st)"
  have "sum_list (map pth_net_change (technology_history P since t st)) =
      sum_list (map (\<lambda>k. sum_list (map snd (filter (\<lambda>x. fst x = k) ?ds))) (sort (remdups (map fst ?ds))))"
    unfolding technology_history_def Let_def map_map o_def by simp
  also have "\<dots> = sum_list (map snd ?ds)"
    by (rule sum_list_groups) auto
  also have "\<dots> = int (length (gained since t st)) - int (length (lost since t st))"
    by (simp add: o_def sum_list_triv)
  finally show ?thesis .
qed

lemma trend_str_matches:
  "library_having (Some (public_technology_trend_as_str tr)) n \<longleftrightarrow> trend_from_net_change n = tr"
  by (cases tr) (auto simp: library_having_def trend_from_net_change_def)

text \<open>
  C36: the profile of a technology and the technology library agree although they count by different queries: the
  profile's net change is the library's score of the technology, the points of its history add up to it, and
  the library lists the technology under a trend exactly when that is the trend of the profile.
\<close>

theorem profile_agrees_with_library:
  assumes "technology_profile P technology cursor limit since d = Inr (Some profile)"
  shows "\<exists>t c. t \<in> set (st_technologies (pub_store d)) \<and> tech_slug t = technology \<and> ptp_category_slug profile = cat_slug c
    \<and> ptp_net_change profile = net_change_of since (pub_store d) (tech_id t)
    \<and> sum_list (map pth_net_change (ptp_history profile)) = ptp_net_change profile
    \<and> (\<forall>trend. ((t, c) \<in> set (library_rows P (Some (cat_slug c)) (Some trend) None since d)) = (ptp_trend profile = trend))"
proof -
  let ?rows = "[(t, c). t \<leftarrow> st_technologies (pub_store d), tech_slug t = technology, c \<leftarrow> st_categories (pub_store d), cat_id c = tech_category_id t]"
  obtain t c where f: "list_first ?rows = Some (t, c)"
    using assms by (auto simp: technology_profile_def Let_def split: option.splits)
  then have "(t, c) \<in> set ?rows" by (cases ?rows) (auto simp: list_first_def)
  then have tc: "t \<in> set (st_technologies (pub_store d))" "tech_slug t = technology" "c \<in> set (st_categories (pub_store d))"
    "cat_id c = tech_category_id t" by auto
  have p: "ptp_category_slug profile = cat_slug c" "ptp_history profile = technology_history P since (tech_id t) (pub_store d)"
    "ptp_net_change profile = net_change_of since (pub_store d) (tech_id t)"
    "ptp_trend profile = trend_from_net_change (net_change_of since (pub_store d) (tech_id t))"
    using assms unfolding technology_profile_def Let_def f by (auto simp: net_change_gained_lost)
  have "((t, c) \<in> set (library_rows P (Some (cat_slug c)) (Some trend) None since d)) = (ptp_trend profile = trend)" for trend
    using tc by (auto simp: library_rows_def Let_def p trend_str_matches after_cursor_def)
  with tc p show ?thesis by (auto simp: history_sum net_change_gained_lost intro!: exI [of _ t] exI [of _ c])
qed

section \<open>Comparison\<close>

lemma left_join_mem: "y \<in> set (left_join xs) \<longleftrightarrow> (y = None \<and> xs = []) \<or> (\<exists>x \<in> set xs. y = Some x)"
  by (auto simp: left_join_def)

lemma left_join_single: "(\<And>y. y \<in> set xs \<longleftrightarrow> y = x) \<Longrightarrow> z \<in> set (left_join xs) \<longleftrightarrow> z = Some x"
  unfolding left_join_mem by (metis empty_iff empty_set)

lemma find_distinct_key: "distinct (map f xs) \<Longrightarrow> x \<in> set xs \<Longrightarrow> find (\<lambda>y. f y = f x) xs = Some x"
  by (induction xs) auto

lemma comparison_rows_mem:
  "(name, category, p, x, t) \<in> set (comparison_rows names st) \<longleftrightarrow>
     name \<in> set names \<and> category \<in> cat_slug ` set (st_categories st)
     \<and> (\<exists>r. r \<in> set (left_join (filter (\<lambda>r. dr_canonical_domain r = name \<and> dr_archived_at r = None) (db_domains (st_core st))))
          \<and> p \<in> set (left_join (option_rows (\<lambda>r. filter (\<lambda>p. pol_domain_id p = dr_id r) (db_policies (st_core st))) r))
          \<and> x \<in> set (left_join (option_rows (\<lambda>r. filter (\<lambda>x. cur_domain_id x = dr_id r) (st_current st)) r))
          \<and> t \<in> set (left_join (option_rows (\<lambda>x. filter (\<lambda>t. tech_id t = cur_technology_id x
               \<and> Some (tech_category_id t) = category_id_of category st) (st_technologies st)) x)))"
  unfolding comparison_rows_def by auto blast

lemma comparison_cells:
  "comparison P names stale_before d = Inr cells \<Longrightarrow>
   set cells = comparison_cell stale_before ` set (comparison_rows (map canonical_domain_as_str names) (pub_store d))"
  unfolding comparison_def by auto

lemma active_row_unique:
  assumes "domains_unique db" and "r \<in> set (active_rows db)"
  shows "r' \<in> set (filter (\<lambda>x. dr_canonical_domain x = dr_canonical_domain r \<and> dr_archived_at x = None) (db_domains db)) \<longleftrightarrow> r' = r"
  using assms distinct_map_eq [of dr_canonical_domain "active_rows db" r' r]
  by (auto simp: domains_unique_def active_rows_def)

text \<open>
  C37: in a comparison a domain that has any current technology is never shown as unknown, in no category: for
  a category in which it has none, each of its technologies of other categories gives a cell without a
  technology that still carries that technology's observation time and the state current or stale.  A cell that does
  name a technology names one that the domain uses in that category.
\<close>

theorem comparison_reports_foreign_technologies:
  assumes cells: "comparison P names stale_before d = Inr cells"
    and unique: "domains_unique (pub_core d)" "policies_match (pub_core d)"
      "distinct (map tech_id (st_technologies (pub_store d)))" "distinct (map cat_slug (st_categories (pub_store d)))"
    and domain: "name \<in> set names" "r \<in> set (active_rows (pub_core d))" "dr_canonical_domain r = canonical_domain_as_str name"
      "p \<in> set (db_policies (pub_core d))" "pol_domain_id p = dr_id r"
    and current: "x \<in> set (st_current (pub_store d))" "cur_domain_id x = dr_id r"
      "t \<in> set (st_technologies (pub_store d))" "tech_id t = cur_technology_id x"
  shows "(\<forall>cell \<in> set cells. pcc_canonical_domain cell = canonical_domain_as_str name \<longrightarrow> pcc_state cell \<noteq> ''unknown'')
    \<and> (\<forall>c \<in> set (st_categories (pub_store d)).
         \<lparr>pcc_category_slug = cat_slug c, pcc_canonical_domain = canonical_domain_as_str name,
          pcc_technology_slug = (if tech_category_id t = cat_id c then Some (tech_slug t) else None),
          pcc_state = (case pol_last_successful_crawl_at p of None \<Rightarrow> ''stale''
                       | Some at \<Rightarrow> if at < stale_before then ''stale'' else ''current''),
          pcc_last_observed_at = Some (cur_last_observed_at x)\<rparr> \<in> set cells)"
proof -
  let ?st = "pub_store d" let ?name = "canonical_domain_as_str name"
  have row: "z \<in> set (left_join (filter (\<lambda>x. dr_canonical_domain x = ?name \<and> dr_archived_at x = None) (db_domains (pub_core d)))) \<longleftrightarrow> z = Some r" for z
    using left_join_single [OF active_row_unique [OF unique(1) domain(2)]] domain(3) by simp
  have known: "pcc_state cell \<noteq> ''unknown''" if mem: "cell \<in> set cells" and its: "pcc_canonical_domain cell = ?name" for cell
  proof -
    obtain n category q y u where c: "cell = comparison_cell stale_before (n, category, q, y, u)"
      and m: "(n, category, q, y, u) \<in> set (comparison_rows (map canonical_domain_as_str names) ?st)"
      using mem unfolding comparison_cells [OF cells] by auto
    have "n = ?name" using its by (simp add: c comparison_cell_def Let_def)
    with m have "y \<in> set (left_join (filter (\<lambda>x. cur_domain_id x = dr_id r) (st_current ?st)))"
      by (auto simp: comparison_rows_mem row option_rows_def)
    with current(1,2) have "y \<noteq> None" by (auto simp: left_join_mem filter_empty_conv)
    then show ?thesis by (auto simp: c comparison_cell_def comparison_state_def Let_def split: option.split)
  qed
  have shown: "comparison_cell stale_before (?name, cat_slug c, Some p, Some x, if tech_category_id t = cat_id c then Some t else None) \<in> set cells"
    if c: "c \<in> set (st_categories ?st)" for c
  proof -
    have "find (\<lambda>k. cat_slug k = cat_slug c) (st_categories ?st) = Some c"
      using unique(4) c by (rule find_distinct_key)
    then have id: "category_id_of (cat_slug c) ?st = Some (cat_id c)" by (simp add: category_id_of_def)
    have same: "u = t" if "u \<in> set (st_technologies ?st)" "tech_id u = cur_technology_id x" for u
      using unique(3) distinct_map_eq [of tech_id "st_technologies ?st" u t] that current by simp
    let ?t = "if tech_category_id t = cat_id c then Some t else None"
    let ?ts = "filter (\<lambda>t. tech_id t = cur_technology_id x \<and> Some (tech_category_id t) = Some (cat_id c)) (st_technologies ?st)"
    have "?ts = []" if "tech_category_id t \<noteq> cat_id c"
      unfolding filter_empty_conv using same that by blast
    then have "?t \<in> set (left_join ?ts)"
      using current(3,4) by (simp add: left_join_mem)
    moreover have "Some x \<in> set (left_join (filter (\<lambda>x. cur_domain_id x = dr_id r) (st_current ?st)))"
      "Some p \<in> set (left_join (filter (\<lambda>p. pol_domain_id p = dr_id r) (db_policies (pub_core d))))"
      using current(1,2) domain(4,5) by (simp_all add: left_join_mem)
    ultimately have "(?name, cat_slug c, Some p, Some x, ?t) \<in> set (comparison_rows (map canonical_domain_as_str names) ?st)"
      unfolding comparison_rows_mem id row option_rows_def using c domain(1) by simp
    then show ?thesis unfolding comparison_cells [OF cells] by blast
  qed
  show ?thesis
  proof (intro conjI ballI impI)
    fix c assume "c \<in> set (st_categories ?st)"
    from shown [OF this] show "\<lparr>pcc_category_slug = cat_slug c, pcc_canonical_domain = ?name,
          pcc_technology_slug = (if tech_category_id t = cat_id c then Some (tech_slug t) else None),
          pcc_state = (case pol_last_successful_crawl_at p of None \<Rightarrow> ''stale''
                       | Some at \<Rightarrow> if at < stale_before then ''stale'' else ''current''),
          pcc_last_observed_at = Some (cur_last_observed_at x)\<rparr> \<in> set cells"
      by (auto simp: comparison_cell_def comparison_state_def Let_def split: option.splits if_splits)
  qed (rule known)
qed

section \<open>Samples\<close>

text \<open>One domain with php, three technologies in two categories, and two changes.\<close>

definition sample_pub_env :: pub_env where
  "sample_pub_env = \<lparr>pe_env = sample_env, pe_display = (\<lambda>t. ''1970-01-01 0:00:00.0 +00:00:00''), pe_day = (\<lambda>_. ''1970-01-01''),
     pe_tie = unat\<rparr>"

definition sample_pub :: pub_db where
  "sample_pub = \<lparr>pub_rp = \<lparr>rp_store = sample_store\<lparr>
       st_core := sample_core\<lparr>db_domains := [\<lparr>dr_id = 0, dr_canonical_domain = ''c.com'', dr_archived_at = None\<rparr>]\<rparr>,
       st_categories := [\<lparr>cat_id = 1, cat_slug = ''web''\<rparr>, \<lparr>cat_id = 11, cat_slug = ''cms''\<rparr>],
       st_technologies := [\<lparr>tech_id = 2, tech_category_id = 1, tech_slug = ''nginx''\<rparr>,
         \<lparr>tech_id = 3, tech_category_id = 1, tech_slug = ''php''\<rparr>, \<lparr>tech_id = 12, tech_category_id = 11, tech_slug = ''drupal''\<rparr>],
       st_changes := [\<lparr>chr_id = 40, chr_domain_id = 0, chr_kind = ''added'', chr_category_id = 1, chr_prior_snapshot_id = None,
         chr_current_snapshot_id = 9, chr_prior_detection_id = None, chr_current_detection_id = Some 8,
         chr_from_technology_id = None, chr_to_technology_id = Some 3, chr_observed_at = 0\<rparr>,
         \<lparr>chr_id = 41, chr_domain_id = 0, chr_kind = ''added'', chr_category_id = 1, chr_prior_snapshot_id = None,
         chr_current_snapshot_id = 9, chr_prior_detection_id = None, chr_current_detection_id = Some 8,
         chr_from_technology_id = None, chr_to_technology_id = Some 2, chr_observed_at = 0\<rparr>]\<rparr>,
       rp_runs = [], rp_items = [], rp_observations = [], rp_detections = [], rp_evidence = [], rp_changes = []\<rparr>,
     pub_daily = [], pub_providers = [], pub_mappings = [], pub_domain_created = (\<lambda>_. 0), pub_technology_name = (\<lambda>_. ''T''),
     pub_category_name = (\<lambda>_. ''C'')\<rparr>"

lemma sample_library_ok: "library_ok sample_pub_env sample_pub"
proof -
  have "distinct (map tech_slug (st_technologies (pub_store sample_pub)))" "distinct (map cat_id (st_categories (pub_store sample_pub)))"
    by code_simp+
  then show ?thesis using sample_env_collate by (simp add: library_ok_def sample_pub_env_def)
qed

lemma sample_library_rows:
  "map (tech_slug \<circ> fst) (library_rows sample_pub_env None None None 0 sample_pub) = [''drupal'', ''nginx'', ''php'']"
  by code_simp

theorem library_pages_skip_boundaries_witness:
  "map_option (map pli_slug) (walk_cursors 4 (library_page sample_pub_env None None 1 0 sample_pub) None) =
     Some [''drupal'', ''php'']"
proof -
  let ?rows = "library_rows sample_pub_env None None None 0 sample_pub"
  have "length ?rows = 3" using arg_cong [OF sample_library_rows, of length] by simp
  then have four: "Suc (length ?rows) = 4" by simp
  have "(1::nat) < 2 ^ 63 - 1" by simp
  from library_pages_skip_boundaries [OF sample_library_ok this, of None None 0]
  have "walk_cursors 4 (library_page sample_pub_env None None 1 0 sample_pub) None =
      Some (nths (map (library_item sample_pub 0) ?rows) {i. i mod (1 + 1) \<noteq> 1})"
    unfolding four .
  then have "map_option (map pli_slug) (walk_cursors 4 (library_page sample_pub_env None None 1 0 sample_pub) None) =
      Some (map pli_slug (nths (map (library_item sample_pub 0) ?rows) {i. i mod (1 + 1) \<noteq> 1}))"
    by (simp only: option.map)
  also have "map pli_slug (nths (map (library_item sample_pub 0) ?rows) {i. i mod (1 + 1) \<noteq> 1}) =
      nths (map (tech_slug \<circ> fst) ?rows) {i. i mod (1 + 1) \<noteq> 1}"
    by (simp add: nths_map o_def)
  finally show ?thesis by (simp add: sample_library_rows nths_Cons)
qed

lemma sample_profile: "\<exists>p. technology_profile sample_pub_env ''php'' None 5 0 sample_pub = Inr (Some p)"
proof -
  have "case technology_profile sample_pub_env ''php'' None 5 0 sample_pub of Inr (Some p) \<Rightarrow> True | _ \<Rightarrow> False" by code_simp
  then show ?thesis by (auto split: sum.splits option.splits)
qed

theorem profile_agrees_with_library_witness:
  "\<exists>p t c. technology_profile sample_pub_env ''php'' None 5 0 sample_pub = Inr (Some p)
     \<and> tech_slug t = ''php'' \<and> ptp_net_change p = net_change_of 0 (pub_store sample_pub) (tech_id t)
     \<and> sum_list (map pth_net_change (ptp_history p)) = ptp_net_change p
     \<and> ((t, c) \<in> set (library_rows sample_pub_env (Some (cat_slug c)) (Some Growing) None 0 sample_pub)) = (ptp_trend p = Growing)"
  using sample_profile profile_agrees_with_library [of sample_pub_env "''php''" None 5 0 sample_pub] by blast

theorem comparison_reports_foreign_technologies_witness:
  "\<exists>cells. comparison sample_pub_env [CanonicalDomain ''c.com''] 0 sample_pub = Inr cells
     \<and> \<lparr>pcc_category_slug = ''cms'', pcc_canonical_domain = ''c.com'', pcc_technology_slug = None, pcc_state = ''stale'',
         pcc_last_observed_at = Some 0\<rparr> \<in> set cells"
proof -
  let ?st = "pub_store sample_pub"
  obtain cells where cells: "comparison sample_pub_env [CanonicalDomain ''c.com''] 0 sample_pub = Inr cells"
    by (simp add: comparison_def)
  have unique: "domains_unique (pub_core sample_pub)" "policies_match (pub_core sample_pub)"
    "distinct (map tech_id (st_technologies ?st))" "distinct (map cat_slug (st_categories ?st))"
    by code_simp+
  have "\<lparr>pcc_category_slug = cat_slug (st_categories ?st ! 1), pcc_canonical_domain = canonical_domain_as_str (CanonicalDomain ''c.com''),
      pcc_technology_slug = (if tech_category_id (st_technologies ?st ! 1) = cat_id (st_categories ?st ! 1) then Some (tech_slug (st_technologies ?st ! 1)) else None),
      pcc_state = (case pol_last_successful_crawl_at sample_policy of None \<Rightarrow> ''stale'' | Some at \<Rightarrow> if at < 0 then ''stale'' else ''current''),
      pcc_last_observed_at = Some (cur_last_observed_at (hd (st_current ?st)))\<rparr> \<in> set cells"
    using comparison_reports_foreign_technologies [OF cells unique, of "CanonicalDomain ''c.com''" "hd (db_domains (pub_core sample_pub))"
        sample_policy "hd (st_current ?st)" "st_technologies ?st ! 1"]
    by (simp add: sample_pub_def sample_store_def sample_core_def sample_policy_def active_rows_def)
  with cells show ?thesis
    by (simp add: sample_pub_def sample_store_def sample_policy_def)
qed

end
