(* ===== verification/Public_Analytics.thy ===== *)
theory Public_Analytics
  imports Public_Pages
begin

text \<open>
  The analytics of \<^verbatim>\<open>database/public_read_repository.rs\<close>: counts, rankings, movers, adoption history, trends of
  changes, discovery and provider profiles.
\<close>

section \<open>Counts\<close>

record public_analytics_overview =
  pao_domain_count :: u64
  pao_technology_count :: u64
  pao_current_detection_count :: u64
  pao_country_count :: u64

definition analytics_overview :: "pub_db \<Rightarrow> (public_read_error, public_analytics_overview) result" where
  "analytics_overview d =
     (let st = pub_store d in
      rbind (count_from_row (int (length (filter (\<lambda>r. dr_archived_at r = None) (db_domains (st_core st)))))) (\<lambda>domains.
      rbind (count_from_row (int (length (st_technologies st)))) (\<lambda>technologies.
      rbind (count_from_row (int (length (st_current st)))) (\<lambda>current.
      rbind (count_from_row (int (length (remdups (map cty_country_code (st_countries st)))))) (\<lambda>countries.
      Inr \<lparr>pao_domain_count = domains, pao_technology_count = technologies, pao_current_detection_count = current,
           pao_country_count = countries\<rparr>)))))"

record public_adoption =
  pad_slug :: string
  pad_count :: u64

text \<open>The groups by slug are the technologies, slugs being unique.\<close>

definition adoption :: "pub_env \<Rightarrow> pub_db \<Rightarrow> (public_read_error, public_adoption list) result" where
  "adoption P d =
     (let st = pub_store d in
      collect_results (map (\<lambda>t. rbind (count_from_row (int (current_domains st (tech_id t)))) (\<lambda>cnt.
          Inr \<lparr>pad_slug = tech_slug t, pad_count = cnt\<rparr>))
        (sort_key (\<lambda>t. (- int (current_domains st (tech_id t)), collate P (tech_slug t))) (st_technologies st))))"

section \<open>Adoption history\<close>

datatype public_adoption_history_status = HistoryReady | InsufficientHistory

record public_adoption_point =
  pap_day :: string
  pap_count :: u64

record public_adoption_series =
  pas_slug :: string
  pas_display_name :: string
  pas_points :: "public_adoption_point list"

record public_adoption_history =
  pah_status :: public_adoption_history_status
  pah_available_from :: "string option"
  pah_available_to :: "string option"
  pah_series :: "public_adoption_series list"

definition list_min :: "'a::linorder list \<Rightarrow> 'a option" where
  "list_min xs = (case xs of [] \<Rightarrow> None | x # xs \<Rightarrow> Some (fold min xs x))"

definition list_max :: "'a::linorder list \<Rightarrow> 'a option" where
  "list_max xs = (case xs of [] \<Rightarrow> None | x # xs \<Rightarrow> Some (fold max xs x))"

definition days_since :: "date \<Rightarrow> pub_db \<Rightarrow> adoption_row list" where
  "days_since since d = filter (\<lambda>r. since \<le> adr_observed_on r) (pub_daily d)"

text \<open>\<^verbatim>\<open>top_technologies\<close> in the order of their priority, and \<^verbatim>\<open>chosen_technologies\<close> with the requested one last.\<close>

definition top_technologies :: "date \<Rightarrow> pub_db \<Rightarrow> uuid list" where
  "top_technologies since d =
     (case list_max (map adr_observed_on (days_since since d)) of
        None \<Rightarrow> []
      | Some latest \<Rightarrow>
          map adr_technology_id (take 5 (sort_key (\<lambda>r. (- int (adr_domain_count r), uint (adr_technology_id r)))
            (filter (\<lambda>r. adr_observed_on r = latest) (pub_daily d)))))"

definition chosen_technologies :: "date \<Rightarrow> string option \<Rightarrow> pub_db \<Rightarrow> (uuid \<times> nat) list" where
  "chosen_technologies since technology d =
     (let top = top_technologies since d in
      zip top [1..<Suc (length top)]
      @ [(tech_id t, 6). t \<leftarrow> st_technologies (pub_store d), Some (tech_slug t) = technology \<and> tech_id t \<notin> set top])"

definition history_rows :: "date \<Rightarrow> string option \<Rightarrow> pub_db \<Rightarrow> (nat \<times> adoption_row \<times> technology_row) list" where
  "history_rows since technology d =
     sort_key (\<lambda>(n, r, t). (n, adr_observed_on r))
       [(n, r, t). r \<leftarrow> days_since since d, (i, n) \<leftarrow> chosen_technologies since technology d, i = adr_technology_id r,
          t \<leftarrow> st_technologies (pub_store d), tech_id t = adr_technology_id r]"

text \<open>The loop over the rows: a point joins the last series when that has the row's slug.\<close>

definition push_point :: "string \<Rightarrow> string \<Rightarrow> public_adoption_point \<Rightarrow> public_adoption_series list \<Rightarrow> public_adoption_series list" where
  "push_point slug name point series =
     (if series \<noteq> [] \<and> pas_slug (last series) = slug
      then butlast series @ [(last series)\<lparr>pas_points := pas_points (last series) @ [point]\<rparr>]
      else series @ [\<lparr>pas_slug = slug, pas_display_name = name, pas_points = [point]\<rparr>])"

fun collect_series ::
    "pub_env \<Rightarrow> pub_db \<Rightarrow> (nat \<times> adoption_row \<times> technology_row) list \<Rightarrow> public_adoption_series list \<Rightarrow>
     (public_read_error, public_adoption_series list) result" where
  "collect_series P d [] series = Inr series"
| "collect_series P d ((n, r, t) # rows) series =
     rbind (count_from_row (int (adr_domain_count r))) (\<lambda>cnt.
     collect_series P d rows
       (push_point (tech_slug t) (pub_technology_name d (tech_id t)) \<lparr>pap_day = pe_day P (adr_observed_on r), pap_count = cnt\<rparr> series))"

definition adoption_history ::
    "pub_env \<Rightarrow> date \<Rightarrow> string option \<Rightarrow> pub_db \<Rightarrow> (public_read_error, public_adoption_history) result" where
  "adoption_history P since technology d =
     (let days = map adr_observed_on (days_since since d) in
      rbind (count_from_row (int (length (remdups days)))) (\<lambda>day_count.
      rbind (collect_series P d (history_rows since technology d) []) (\<lambda>series.
      Inr \<lparr>pah_status = (if day_count \<ge> 2 then HistoryReady else InsufficientHistory),
           pah_available_from = map_option (pe_day P) (list_min days), pah_available_to = map_option (pe_day P) (list_max days),
           pah_series = series\<rparr>)))"

section \<open>Rankings\<close>

record public_analytics_rank =
  par_slug :: string
  par_display_name :: string
  par_count :: u64

record public_country_rank =
  pkr_country_code :: string
  pkr_count :: u64

record public_analytics_rankings =
  pak_technologies :: "public_analytics_rank list"
  pak_categories :: "public_analytics_rank list"
  pak_countries :: "public_country_rank list"
  pak_providers :: "public_analytics_rank list"

definition analytics_rank_from_row :: "string \<times> string \<times> nat \<Rightarrow> (public_read_error, public_analytics_rank) result" where
  "analytics_rank_from_row row =
     (case row of (slug, name, cnt) \<Rightarrow>
        rbind (count_from_row (int cnt)) (\<lambda>cnt. Inr \<lparr>par_slug = slug, par_display_name = name, par_count = cnt\<rparr>))"

definition country_rank_from_row :: "string \<times> nat \<Rightarrow> (public_read_error, public_country_rank) result" where
  "country_rank_from_row row =
     (case row of (code, cnt) \<Rightarrow>
        rbind (count_from_row (int cnt)) (\<lambda>cnt. Inr \<lparr>pkr_country_code = code, pkr_count = cnt\<rparr>))"

definition ranked :: "pub_env \<Rightarrow> nat \<Rightarrow> (string \<times> string \<times> nat) list \<Rightarrow> (string \<times> string \<times> nat) list" where
  "ranked P limit rows = take limit (sort_key (\<lambda>(slug, name, cnt). (- int cnt, collate P slug)) rows)"

definition category_domains :: "uuid \<Rightarrow> store \<Rightarrow> nat" where
  "category_domains c st =
     length (remdups [cur_domain_id x. t \<leftarrow> st_technologies st, tech_category_id t = c,
        x \<leftarrow> st_current st, cur_technology_id x = tech_id t])"

definition provider_domains :: "uuid \<Rightarrow> pub_db \<Rightarrow> nat" where
  "provider_domains i d =
     length (remdups [cur_domain_id x. m \<leftarrow> pub_mappings d, pmr_provider_id m = i,
        x \<leftarrow> st_current (pub_store d), cur_technology_id x = pmr_technology_id m])"

text \<open>DISTINCT ON the domain: the country observed with its latest snapshot.\<close>

definition latest_countries :: "pub_env \<Rightarrow> store \<Rightarrow> string list" where
  "latest_countries P st =
     (let rows = [(s, c). c \<leftarrow> st_countries st, s \<leftarrow> st_snapshots st, snap_id s = cty_snapshot_id c,
                    r \<leftarrow> db_domains (st_core st), dr_id r = snap_domain_id s \<and> dr_archived_at r = None] in
      List.map_filter (\<lambda>i. map_option (\<lambda>(s, c). cty_country_code c)
          (list_first (sort_key (\<lambda>(s, c). (- snap_captured_at s, pe_tie P (snap_id s))) (filter (\<lambda>(s, c). snap_domain_id s = i) rows))))
        (remdups (map (\<lambda>(s, c). snap_domain_id s) rows)))"

definition analytics_rankings :: "pub_env \<Rightarrow> nat \<Rightarrow> pub_db \<Rightarrow> (public_read_error, public_analytics_rankings) result" where
  "analytics_rankings P limit d =
     (let st = pub_store d; countries = latest_countries P st in
      rbind (pr (i64_try_from limit)) (\<lambda>n.
      rbind (collect_results (map analytics_rank_from_row (ranked P n
        (map (\<lambda>t. (tech_slug t, pub_technology_name d (tech_id t), current_domains st (tech_id t))) (st_technologies st))))) (\<lambda>technologies.
      rbind (collect_results (map analytics_rank_from_row (ranked P n
        (map (\<lambda>c. (cat_slug c, pub_category_name d (cat_id c), category_domains (cat_id c) st)) (st_categories st))))) (\<lambda>categories.
      rbind (collect_results (map country_rank_from_row (take n
        (sort_key (\<lambda>(code, cnt). (- int cnt, collate P code))
          (map (\<lambda>code. (code, count_list countries code)) (remdups countries)))))) (\<lambda>country_ranks.
      rbind (collect_results (map analytics_rank_from_row (ranked P n
        (map (\<lambda>p. (prv_slug p, prv_display_name p, provider_domains (prv_id p) d)) (pub_providers d))))) (\<lambda>providers.
      Inr \<lparr>pak_technologies = technologies, pak_categories = categories, pak_countries = country_ranks,
           pak_providers = providers\<rparr>))))))"

section \<open>Movers\<close>

record public_analytics_technology_mover =
  ptm_slug :: string
  ptm_display_name :: string
  ptm_category_slug :: string
  ptm_category_name :: string
  ptm_adoption_count :: u64
  ptm_net_change :: int

record public_analytics_provider_mover =
  ppm_slug :: string
  ppm_display_name :: string
  ppm_adoption_count :: u64
  ppm_net_change :: int

record public_analytics_movers =
  pam_growing_technologies :: "public_analytics_technology_mover list"
  pam_declining_technologies :: "public_analytics_technology_mover list"
  pam_growing_providers :: "public_analytics_provider_mover list"
  pam_declining_providers :: "public_analytics_provider_mover list"

text \<open>The two texts spliced into the query: the comparison with zero and the direction of the order.\<close>

definition moves :: "bool \<Rightarrow> int \<Rightarrow> bool" where
  "moves growing net_change = (if growing then net_change > 0 else net_change < 0)"

definition mover_order :: "bool \<Rightarrow> int \<Rightarrow> int" where
  "mover_order growing net_change = (if growing then - net_change else net_change)"

definition technology_mover_from_row ::
    "pub_db \<Rightarrow> int \<times> technology_row \<times> category_row \<Rightarrow> (public_read_error, public_analytics_technology_mover) result" where
  "technology_mover_from_row d row =
     (case row of (n, t, c) \<Rightarrow>
        rbind (count_from_row (int (current_domains (pub_store d) (tech_id t)))) (\<lambda>cnt.
        Inr \<lparr>ptm_slug = tech_slug t, ptm_display_name = pub_technology_name d (tech_id t), ptm_category_slug = cat_slug c,
             ptm_category_name = pub_category_name d (cat_id c), ptm_adoption_count = cnt, ptm_net_change = n\<rparr>))"

definition technology_movers ::
    "pub_env \<Rightarrow> instant \<Rightarrow> nat \<Rightarrow> bool \<Rightarrow> pub_db \<Rightarrow> (public_read_error, public_analytics_technology_mover list) result" where
  "technology_movers P since limit growing d =
     (let st = pub_store d in
      rbind (pr (i64_try_from limit)) (\<lambda>limit.
      collect_results (map (technology_mover_from_row d)
        (take limit (sort_key (\<lambda>(n, t, c). (mover_order growing n, collate P (tech_slug t)))
          [(n, t, c). (i, n) \<leftarrow> trend_scores since st, moves growing n, t \<leftarrow> st_technologies st, tech_id t = i,
             c \<leftarrow> st_categories st, cat_id c = tech_category_id t])))))"

definition provider_deltas :: "instant \<Rightarrow> pub_db \<Rightarrow> (uuid \<times> int) list" where
  "provider_deltas since d =
     [(pmr_provider_id m, n). (i, n) \<leftarrow> change_deltas since (pub_store d), m \<leftarrow> pub_mappings d, pmr_technology_id m = i]"

definition provider_scores :: "instant \<Rightarrow> pub_db \<Rightarrow> (uuid \<times> int) list" where
  "provider_scores since d =
     (let deltas = provider_deltas since d in
      map (\<lambda>i. (i, sum_list (map snd (filter (\<lambda>x. fst x = i) deltas)))) (remdups (map fst deltas)))"

definition provider_mover_from_row ::
    "pub_db \<Rightarrow> int \<times> provider_row \<Rightarrow> (public_read_error, public_analytics_provider_mover) result" where
  "provider_mover_from_row d row =
     (case row of (n, p) \<Rightarrow>
        rbind (count_from_row (int (provider_domains (prv_id p) d))) (\<lambda>cnt.
        Inr \<lparr>ppm_slug = prv_slug p, ppm_display_name = prv_display_name p, ppm_adoption_count = cnt, ppm_net_change = n\<rparr>))"

definition provider_movers ::
    "pub_env \<Rightarrow> instant \<Rightarrow> nat \<Rightarrow> bool \<Rightarrow> pub_db \<Rightarrow> (public_read_error, public_analytics_provider_mover list) result" where
  "provider_movers P since limit growing d =
     rbind (pr (i64_try_from limit)) (\<lambda>limit.
     collect_results (map (provider_mover_from_row d)
       (take limit (sort_key (\<lambda>(n, p). (mover_order growing n, collate P (prv_slug p)))
         [(n, p). (i, n) \<leftarrow> provider_scores since d, moves growing n, p \<leftarrow> pub_providers d, prv_id p = i]))))"

definition analytics_movers :: "pub_env \<Rightarrow> instant \<Rightarrow> nat \<Rightarrow> pub_db \<Rightarrow> (public_read_error, public_analytics_movers) result" where
  "analytics_movers P since limit d =
     rbind (technology_movers P since limit True d) (\<lambda>growing_technologies.
     rbind (technology_movers P since limit False d) (\<lambda>declining_technologies.
     rbind (provider_movers P since limit True d) (\<lambda>growing_providers.
     rbind (provider_movers P since limit False d) (\<lambda>declining_providers.
     Inr \<lparr>pam_growing_technologies = growing_technologies, pam_declining_technologies = declining_technologies,
          pam_growing_providers = growing_providers, pam_declining_providers = declining_providers\<rparr>))))"

section \<open>Trends and discovery\<close>

record public_change_trend =
  pct_day :: string
  pct_added :: u64
  pct_removed :: u64
  pct_migrated :: u64

definition kind_count :: "string \<Rightarrow> change_row list \<Rightarrow> int" where
  "kind_count kind hs = int (length (filter (\<lambda>h. chr_kind h = kind) hs))"

definition change_trends :: "pub_env \<Rightarrow> instant \<Rightarrow> pub_db \<Rightarrow> (public_read_error, public_change_trend list) result" where
  "change_trends P since d =
     (let hs = filter (\<lambda>h. since \<le> chr_observed_at h) (st_changes (pub_store d)) in
      collect_results (map (\<lambda>day.
          (let today = filter (\<lambda>h. date_trunc_day (chr_observed_at h) = day) hs in
           rbind (count_from_row (kind_count ''added'' today)) (\<lambda>added.
           rbind (count_from_row (kind_count ''removed'' today)) (\<lambda>removed.
           rbind (count_from_row (kind_count ''migrated'' today)) (\<lambda>migrated.
           Inr \<lparr>pct_day = pe_day P day, pct_added = added, pct_removed = removed, pct_migrated = migrated\<rparr>)))))
        (sort (remdups (map (\<lambda>h. date_trunc_day (chr_observed_at h)) hs)))))"

record public_technology_migration =
  pmg_from_slug :: string
  pmg_from_display_name :: string
  pmg_to_slug :: string
  pmg_to_display_name :: string
  pmg_domain_count :: u64

record public_analytics_domain =
  pan_canonical_domain :: string
  pan_first_indexed_at :: instant

record public_frequent_crawl_domain =
  pfc_canonical_domain :: string
  pfc_crawl_count :: u64
  pfc_last_crawled_at :: instant

record public_analytics_discovery =
  pdi_large_migrations :: "public_technology_migration list"
  pdi_newest_domains :: "public_analytics_domain list"
  pdi_frequently_crawled_domains :: "public_frequent_crawl_domain list"

definition migrated_domains :: "instant \<Rightarrow> technology_row \<Rightarrow> technology_row \<Rightarrow> store \<Rightarrow> nat" where
  "migrated_domains since f t st =
     length (remdups (map chr_domain_id (filter (\<lambda>h. chr_kind h = ''migrated'' \<and> since \<le> chr_observed_at h
       \<and> chr_from_technology_id h = Some (tech_id f) \<and> chr_to_technology_id h = Some (tech_id t)) (st_changes st))))"

definition large_migrations :: "pub_env \<Rightarrow> instant \<Rightarrow> nat \<Rightarrow> pub_db \<Rightarrow> (public_read_error, public_technology_migration list) result" where
  "large_migrations P since limit d =
     (let st = pub_store d in
      collect_results (map (\<lambda>(f, t). rbind (count_from_row (int (migrated_domains since f t st))) (\<lambda>cnt.
          Inr \<lparr>pmg_from_slug = tech_slug f, pmg_from_display_name = pub_technology_name d (tech_id f),
               pmg_to_slug = tech_slug t, pmg_to_display_name = pub_technology_name d (tech_id t), pmg_domain_count = cnt\<rparr>))
        (take limit (sort_key (\<lambda>(f, t). (- int (migrated_domains since f t st), collate P (tech_slug f), collate P (tech_slug t)))
          [(f, t). f \<leftarrow> st_technologies st, t \<leftarrow> st_technologies st, 0 < migrated_domains since f t st]))))"

definition captures :: "domain_row \<Rightarrow> store \<Rightarrow> instant list" where
  "captures r st = map snap_captured_at (filter (\<lambda>s. snap_domain_id s = dr_id r) (st_snapshots st))"

definition newest_domains :: "pub_env \<Rightarrow> nat \<Rightarrow> pub_db \<Rightarrow> public_analytics_domain list" where
  "newest_domains P limit d =
     (let st = pub_store d in
      map (\<lambda>(first, name). \<lparr>pan_canonical_domain = name, pan_first_indexed_at = first\<rparr>)
        (take limit (sort_key (\<lambda>(first, name). (- first, collate P name))
          [(first, dr_canonical_domain r). r \<leftarrow> db_domains (st_core st), dr_archived_at r = None,
             first \<leftarrow> (case list_min (captures r st) of None \<Rightarrow> [] | Some t \<Rightarrow> [t])])))"

definition frequently_crawled_domains ::
    "pub_env \<Rightarrow> instant \<Rightarrow> nat \<Rightarrow> pub_db \<Rightarrow> (public_read_error, public_frequent_crawl_domain list) result" where
  "frequently_crawled_domains P since limit d =
     (let st = pub_store d; recent = (\<lambda>r. filter (\<lambda>t. since \<le> t) (captures r st)) in
      collect_results (map (\<lambda>(n, latest, name). rbind (count_from_row (int n)) (\<lambda>cnt.
          Inr \<lparr>pfc_canonical_domain = name, pfc_crawl_count = cnt, pfc_last_crawled_at = latest\<rparr>))
        (take limit (sort_key (\<lambda>(n, latest, name). (- int n, - latest, collate P name))
          [(length (recent r), latest, dr_canonical_domain r). r \<leftarrow> db_domains (st_core st), dr_archived_at r = None,
             latest \<leftarrow> (case list_max (recent r) of None \<Rightarrow> [] | Some t \<Rightarrow> [t])]))))"

definition analytics_discovery ::
    "pub_env \<Rightarrow> instant \<Rightarrow> nat \<Rightarrow> pub_db \<Rightarrow> (public_read_error, public_analytics_discovery) result" where
  "analytics_discovery P since limit d =
     rbind (pr (i64_try_from limit)) (\<lambda>limit.
     rbind (large_migrations P since limit d) (\<lambda>migrations.
     rbind (frequently_crawled_domains P since limit d) (\<lambda>frequent.
     Inr \<lparr>pdi_large_migrations = migrations, pdi_newest_domains = newest_domains P limit d,
          pdi_frequently_crawled_domains = frequent\<rparr>)))"

section \<open>Providers\<close>

record public_provider_profile =
  ppp_slug :: string
  ppp_display_name :: string
  ppp_adoption_count :: u64
  ppp_net_change :: int
  ppp_trend :: public_technology_trend
  ppp_technologies :: "public_technology_library_item list"
  ppp_domains :: "public_domain_summary public_page"

definition provider_technology_rows :: "pub_env \<Rightarrow> uuid \<Rightarrow> pub_db \<Rightarrow> (technology_row \<times> category_row) list" where
  "provider_technology_rows P i d =
     (let st = pub_store d in
      sort_key (\<lambda>(t, c). collate P (tech_slug t))
        [(t, c). m \<leftarrow> pub_mappings d, pmr_provider_id m = i, t \<leftarrow> st_technologies st, tech_id t = pmr_technology_id m,
           c \<leftarrow> st_categories st, cat_id c = tech_category_id t])"

text \<open>The groups by domain and crawl time; a domain has at most one policy.\<close>

definition provider_domain_rows :: "pub_env \<Rightarrow> uuid \<Rightarrow> string option \<Rightarrow> pub_db \<Rightarrow> (domain_row \<times> instant option) list" where
  "provider_domain_rows P i cursor d =
     (let st = pub_store d in
      sort_key (\<lambda>(r, _). collate P (dr_canonical_domain r))
        [(r, Option.bind p pol_last_successful_crawl_at). r \<leftarrow> db_domains (st_core st),
           dr_archived_at r = None \<and> after_cursor P cursor (dr_canonical_domain r)
           \<and> list_ex (\<lambda>x. cur_domain_id x = dr_id r
                \<and> list_ex (\<lambda>m. pmr_provider_id m = i \<and> pmr_technology_id m = cur_technology_id x) (pub_mappings d)) (st_current st),
           p \<leftarrow> left_join (filter (\<lambda>p. pol_domain_id p = dr_id r) (db_policies (st_core st)))])"

definition provider_net_change :: "instant \<Rightarrow> uuid \<Rightarrow> pub_db \<Rightarrow> int" where
  "provider_net_change since i d = sum_list (map snd (filter (\<lambda>x. fst x = i) (provider_deltas since d)))"

definition provider_profile ::
    "pub_env \<Rightarrow> string \<Rightarrow> string option \<Rightarrow> nat \<Rightarrow> instant \<Rightarrow> pub_db \<Rightarrow> (public_read_error, public_provider_profile option) result" where
  "provider_profile P provider cursor limit trend_since d =
     (case find (\<lambda>p. prv_slug p = provider) (pub_providers d) of
        None \<Rightarrow> Inr None
      | Some p \<Rightarrow>
          rbind (count_from_row (int (provider_domains (prv_id p) d))) (\<lambda>cnt.
          (let net_change = provider_net_change trend_since (prv_id p) d in
           rbind (fetch_limit limit) (\<lambda>n.
           rbind (collect_results (map (technology_library_item_from_row d trend_since) (provider_technology_rows P (prv_id p) d))) (\<lambda>technologies.
           Inr (Some \<lparr>ppp_slug = prv_slug p, ppp_display_name = prv_display_name p, ppp_adoption_count = cnt,
                      ppp_net_change = net_change, ppp_trend = trend_from_net_change net_change, ppp_technologies = technologies,
                      ppp_domains = cut_page pds_canonical_domain limit
                        (map domain_summary_from_row (take n (provider_domain_rows P (prv_id p) cursor d)))\<rparr>))))))"

section \<open>Pages of provider domains\<close>

lemma provider_domain_rows_after:
  "provider_domain_rows P i (Some c) d =
     filter (\<lambda>row. collate P c < collate P (dr_canonical_domain (fst row))) (provider_domain_rows P i None d)"
  unfolding provider_domain_rows_def Let_def filter_sort
  by (rule arg_cong [of _ _ "sort_key _"])
     (auto simp: filter_concat after_cursor_def filter_map o_def intro!: arg_cong [of _ _ concat] map_cong)

definition provider_listing_ok :: "pub_env \<Rightarrow> pub_db \<Rightarrow> bool" where
  "provider_listing_ok P d = (inj (collate P) \<and> domains_unique (pub_core d) \<and> policies_match (pub_core d))"

lemma concat_map_if: "concat (map (\<lambda>r. if Q r then g r else []) rs) = concat (map g (filter Q rs))"
  by (induction rs) auto

lemma length_left_join: "length xs \<le> 1 \<Longrightarrow> length (left_join xs) \<le> 1"
  by (auto simp: left_join_def)

lemma provider_domain_rows_sorted:
  assumes "provider_listing_ok P d"
  shows "sorted_wrt (<) (map (\<lambda>row. collate P (dr_canonical_domain (fst row))) (provider_domain_rows P i cursor d))"
proof -
  let ?k = "\<lambda>row :: domain_row \<times> instant option. collate P (dr_canonical_domain (fst row))"
  have "distinct (map (\<lambda>r. collate P (dr_canonical_domain r)) (active_rows (pub_core d)))"
    using assms by (auto simp: provider_listing_ok_def domains_unique_def distinct_map inj_on_def inj_def)
  then have active: "distinct (map (\<lambda>r. collate P (dr_canonical_domain r)) (filter (\<lambda>r. dr_archived_at r = None \<and> Q r) (db_domains (pub_core d))))" for Q
    using distinct_map_filter [of "\<lambda>r. collate P (dr_canonical_domain r)" "active_rows (pub_core d)" Q]
    by (simp add: active_rows_def filter_filter)
  have pol: "distinct (map pol_domain_id (db_policies (pub_core d)))"
    using assms by (simp add: provider_listing_ok_def policies_match_def)
  have one: "length (left_join (filter (\<lambda>p. pol_domain_id p = dr_id r) (db_policies (pub_core d)))) \<le> 1" for r
    using length_filter_distinct [OF pol, of "dr_id r" "\<lambda>_. True"] by (intro length_left_join) simp
  have "distinct (map ?k (provider_domain_rows P i cursor d))"
    unfolding provider_domain_rows_def Let_def distinct_map_sort_key concat_map_if
    by (rule distinct_join [OF active]) (use one in auto)
  moreover have "sorted (map ?k (provider_domain_rows P i cursor d))"
    unfolding provider_domain_rows_def Let_def by (simp add: case_prod_unfold)
  ultimately show ?thesis by (simp add: strict_sorted_iff)
qed

lemma domain_summary_key [simp]: "pds_canonical_domain (domain_summary_from_row row) = dr_canonical_domain (fst row)"
  by (simp add: domain_summary_from_row_def split: prod.split)

interpretation provider_listing: cursor_listing
  "provider_listing_ok P" "\<lambda>d cursor. map domain_summary_from_row (provider_domain_rows P i cursor d)" pds_canonical_domain "collate P"
  for P i
  by unfold_locales (simp_all add: provider_domain_rows_after filter_map o_def provider_domain_rows_sorted)

section \<open>Provider trends\<close>

lemma provider_deltas_sum:
  "sum_list (map snd (filter (\<lambda>x. fst x = i) [(pmr_provider_id m, n :: int). (t, n) \<leftarrow> ds, m \<leftarrow> ms, pmr_technology_id m = t])) =
     sum_list (map (\<lambda>m. sum_list (map snd (filter (\<lambda>x. fst x = pmr_technology_id m) ds))) (filter (\<lambda>m. pmr_provider_id m = i) ms))"
proof (induction ds)
  case (Cons x ds)
  obtain t n where x: "x = (t, n)" by force
  have one: "sum_list (map snd (filter (\<lambda>x. fst x = i) [(pmr_provider_id m, n). m \<leftarrow> ms, pmr_technology_id m = t])) =
      sum_list (map (\<lambda>m. if pmr_technology_id m = t then n else 0) (filter (\<lambda>m. pmr_provider_id m = i) ms))"
    by (induction ms) auto
  have split: "sum_list (map (\<lambda>m. sum_list (map snd (filter (\<lambda>y. fst y = pmr_technology_id m) (x # ds)))) ps) =
      sum_list (map (\<lambda>m. if pmr_technology_id m = t then n else 0) ps)
      + sum_list (map (\<lambda>m. sum_list (map snd (filter (\<lambda>y. fst y = pmr_technology_id m) ds))) ps)" for ps
    by (induction ps) (auto simp: x)
  show ?case unfolding split using Cons one by (simp add: x)
qed simp

text \<open>Foreign keys and unique ids of the catalogue.\<close>

definition provider_catalogue_ok :: "pub_db \<Rightarrow> bool" where
  "provider_catalogue_ok d =
     (let st = pub_store d in
      distinct (map tech_id (st_technologies st)) \<and> distinct (map cat_id (st_categories st))
      \<and> (\<forall>m \<in> set (pub_mappings d). pmr_technology_id m \<in> tech_id ` set (st_technologies st))
      \<and> (\<forall>t \<in> set (st_technologies st). tech_category_id t \<in> cat_id ` set (st_categories st)))"

lemma filter_key_single:
  assumes "distinct (map f xs)" and "x \<in> set xs"
  shows "filter (\<lambda>y. f y = f x) xs = [x]"
  using assms
proof (induction xs)
  case (Cons y ys)
  have "filter (\<lambda>z. f z = f y) ys = []" using Cons.prems by (auto simp: filter_empty_conv image_iff)
  with Cons show ?case by auto
qed simp

lemma sum_list_sort_key: "sum_list (map g (sort_key f xs)) = sum_list (map (g :: _ \<Rightarrow> int) xs)"
  by (metis mset_map mset_sort sum_mset_sum_list)

lemma provider_rows_sum:
  assumes ok: "provider_catalogue_ok d"
  shows "sum_list (map (\<lambda>(t, c). g (tech_id t)) (provider_technology_rows P i d)) =
     sum_list (map (\<lambda>m. g (pmr_technology_id m) :: int) (filter (\<lambda>m. pmr_provider_id m = i) (pub_mappings d)))"
proof -
  let ?st = "pub_store d"
  let ?row = "\<lambda>m. [(t, c). t \<leftarrow> st_technologies ?st, tech_id t = pmr_technology_id m, c \<leftarrow> st_categories ?st, cat_id c = tech_category_id t]"
  have row: "map (\<lambda>(t, c). g (tech_id t)) (?row m) = [g (pmr_technology_id m)]" if mem: "m \<in> set (pub_mappings d)" for m
  proof -
    obtain t where t: "t \<in> set (st_technologies ?st)" "tech_id t = pmr_technology_id m"
      using ok mem by (force simp: provider_catalogue_ok_def Let_def)
    obtain c where c: "c \<in> set (st_categories ?st)" "cat_id c = tech_category_id t"
      using ok t by (force simp: provider_catalogue_ok_def Let_def)
    have "filter (\<lambda>u. tech_id u = pmr_technology_id m) (st_technologies ?st) = [t]"
      "filter (\<lambda>k. cat_id k = tech_category_id t) (st_categories ?st) = [c]"
      using filter_key_single [of tech_id _ t] filter_key_single [of cat_id _ c] ok t c by (simp_all add: provider_catalogue_ok_def Let_def)
    then show ?thesis unfolding concat_map_if join_as_filter by (simp add: t)
  qed
  have "map (\<lambda>(t, c). g (tech_id t)) (concat (map ?row ms)) = map (\<lambda>m. g (pmr_technology_id m)) ms"
    if "set ms \<subseteq> set (pub_mappings d)" for ms
    using that by (induction ms) (simp_all add: row)
  from this [of "filter (\<lambda>m. pmr_provider_id m = i) (pub_mappings d)"] show ?thesis
    unfolding provider_technology_rows_def Let_def sum_list_sort_key concat_map_if [of "\<lambda>m. pmr_provider_id m = i"] by simp
qed

text \<open>
  The net change of a provider is the sum of the net changes of the technologies its profile lists, and it is
  the score by which the provider is ranked among the movers.
\<close>

theorem provider_trend_is_sum_of_technologies:
  assumes ok: "provider_catalogue_ok d" and profile: "provider_profile P provider cursor limit since d = Inr (Some profile)"
  shows "ppp_net_change profile = sum_list (map pli_net_change (ppp_technologies profile))
    \<and> (\<exists>p. find (\<lambda>p. prv_slug p = provider) (pub_providers d) = Some p
         \<and> ppp_net_change profile = (case map_of (provider_scores since d) (prv_id p) of None \<Rightarrow> 0 | Some n \<Rightarrow> n))"
proof -
  obtain p where p: "find (\<lambda>p. prv_slug p = provider) (pub_providers d) = Some p"
    "ppp_net_change profile = provider_net_change since (prv_id p) d"
    "ppp_technologies profile = map (library_item d since) (provider_technology_rows P (prv_id p) d)"
    using profile by (auto simp: provider_profile_def library_item_row Let_def split: option.splits)
  have "sum_list (map pli_net_change (ppp_technologies profile)) =
      sum_list (map (\<lambda>(t, c). net_change_of since (pub_store d) (tech_id t)) (provider_technology_rows P (prv_id p) d))"
    by (simp add: p(3) library_item_def Let_def o_def case_prod_unfold)
  also have "\<dots> = ppp_net_change profile"
    unfolding p(2) provider_net_change_def provider_deltas_def provider_deltas_sum net_change_sum by (rule provider_rows_sum [OF ok])
  finally have "ppp_net_change profile = sum_list (map pli_net_change (ppp_technologies profile))" ..
  moreover have "provider_net_change since (prv_id p) d = (case map_of (provider_scores since d) (prv_id p) of None \<Rightarrow> 0 | Some n \<Rightarrow> n)"
    unfolding provider_scores_def provider_net_change_def Let_def by (rule grouped_sum)
  ultimately show ?thesis using p by auto
qed

definition sample_provider_db :: pub_db where
  "sample_provider_db = sample_pub\<lparr>pub_providers := [\<lparr>prv_id = 50, prv_slug = ''acme'', prv_display_name = ''Acme''\<rparr>],
     pub_mappings := [\<lparr>pmr_technology_id = 2, pmr_provider_id = 50\<rparr>, \<lparr>pmr_technology_id = 3, pmr_provider_id = 50\<rparr>]\<rparr>"

lemma sample_provider_ok: "provider_catalogue_ok sample_provider_db"
  by code_simp

lemma sample_provider_profile:
  "case provider_profile sample_pub_env ''acme'' None 5 0 sample_provider_db of Inr (Some p) \<Rightarrow> ppp_net_change p = 2 | _ \<Rightarrow> False"
  by code_simp

theorem provider_trend_is_sum_of_technologies_witness:
  "\<exists>p. provider_profile sample_pub_env ''acme'' None 5 0 sample_provider_db = Inr (Some p) \<and> ppp_net_change p = 2
     \<and> ppp_net_change p = sum_list (map pli_net_change (ppp_technologies p))"
proof -
  obtain p where p: "provider_profile sample_pub_env ''acme'' None 5 0 sample_provider_db = Inr (Some p)" "ppp_net_change p = 2"
    using sample_provider_profile by (auto split: sum.splits option.splits)
  with provider_trend_is_sum_of_technologies [OF sample_provider_ok p(1)] show ?thesis by blast
qed

end
