(* ===== verification/Public_History.thy ===== *)
theory Public_History
  imports Public_Analytics
begin

text \<open>
  The adoption history of the analytics: the single pass over the joined rows builds one series per chosen technology,
  its points in the order of the days.
\<close>

section \<open>The chosen technologies\<close>

text \<open>The primary key of the daily table, and unique ids and slugs of technologies.\<close>

definition daily_ok :: "pub_db \<Rightarrow> bool" where
  "daily_ok d =
     (distinct (map adoption_key (pub_daily d)) \<and> distinct (map tech_id (st_technologies (pub_store d)))
      \<and> distinct (map tech_slug (st_technologies (pub_store d))))"

lemma length_top: "length (top_technologies since d) \<le> 5"
  by (simp add: top_technologies_def split: option.split)

lemma distinct_top: "daily_ok d \<Longrightarrow> distinct (top_technologies since d)"
proof -
  assume ok: "daily_ok d"
  have "distinct (map adr_technology_id (filter (\<lambda>r. adr_observed_on r = day) (pub_daily d)))" for day
    using ok by (auto simp: daily_ok_def distinct_map inj_on_def adoption_key_def)
  then have "distinct (map adr_technology_id (take 5 (sort_key f (filter (\<lambda>r. adr_observed_on r = day) (pub_daily d)))))"
    for day and f :: "adoption_row \<Rightarrow> int \<times> int"
    by (simp add: distinct_take distinct_map_sort_key flip: take_map)
  then show ?thesis by (simp add: top_technologies_def split: option.split)
qed

lemma comprehension_filter: "concat (map (\<lambda>x. if Q x then [f x] else []) xs) = map f (filter Q xs)"
  by (induction xs) auto

lemma requested_single:
  assumes "daily_ok d"
  shows "length (filter (\<lambda>t. Some (tech_slug t) = technology \<and> Q t) (st_technologies (pub_store d))) \<le> 1"
proof (cases technology)
  case (Some slug)
  then show ?thesis
    using assms length_filter_distinct [of tech_slug "st_technologies (pub_store d)" slug Q] by (simp add: daily_ok_def)
qed simp

lemma technology_single: "daily_ok d \<Longrightarrow> length (filter (\<lambda>t. tech_id t = i) (st_technologies (pub_store d))) \<le> 1"
  using length_filter_distinct [of tech_id "st_technologies (pub_store d)" i "\<lambda>_. True"] by (simp add: daily_ok_def)

lemma chosen_alt:
  "chosen_technologies since technology d =
     zip (top_technologies since d) [1..<Suc (length (top_technologies since d))]
     @ map (\<lambda>t. (tech_id t, 6)) (filter (\<lambda>t. Some (tech_slug t) = technology \<and> tech_id t \<notin> set (top_technologies since d))
         (st_technologies (pub_store d)))"
  unfolding chosen_technologies_def Let_def comprehension_filter ..

lemma short_list: "length xs \<le> 1 \<Longrightarrow> xs = [] \<or> (\<exists>x. xs = [x])"
  by (cases xs) auto

lemma chosen_priorities:
  assumes "daily_ok d"
  shows "sorted_wrt (<) (map snd (chosen_technologies since technology d))"
proof -
  define req where "req = filter (\<lambda>t. Some (tech_slug t) = technology \<and> tech_id t \<notin> set (top_technologies since d)) (st_technologies (pub_store d))"
  have "req = [] \<or> (\<exists>t. req = [t])"
    unfolding req_def by (intro short_list requested_single assms)
  then show ?thesis
    unfolding chosen_alt req_def [symmetric] using length_top [of since d] by (auto simp: sorted_wrt_append simp del: upt_Suc)
qed

lemma chosen_ids:
  assumes "daily_ok d"
  shows "distinct (map fst (chosen_technologies since technology d))"
  using short_list [OF requested_single [OF assms, of technology "\<lambda>t. tech_id t \<notin> set (top_technologies since d)"]] distinct_top [OF assms]
  unfolding chosen_alt by (auto simp: filter_eq_Cons_iff simp del: upt_Suc)

section \<open>The order of the rows\<close>

definition technology_days :: "date \<Rightarrow> uuid \<Rightarrow> pub_db \<Rightarrow> adoption_row list" where
  "technology_days since i d = sort_key adr_observed_on (filter (\<lambda>r. adr_technology_id r = i) (days_since since d))"

text \<open>One group per chosen technology that exists: its priority, the technology and its days.\<close>

definition history_groups :: "date \<Rightarrow> string option \<Rightarrow> pub_db \<Rightarrow> (nat \<times> technology_row \<times> adoption_row list) list" where
  "history_groups since technology d =
     [(n, t, technology_days since i d). (i, n) \<leftarrow> chosen_technologies since technology d,
        t \<leftarrow> filter (\<lambda>t. tech_id t = i) (st_technologies (pub_store d))]"

definition group_rows :: "nat \<times> technology_row \<times> adoption_row list \<Rightarrow> (nat \<times> adoption_row \<times> technology_row) list" where
  "group_rows = (\<lambda>(n, t, rs). map (\<lambda>r. (n, r, t)) rs)"

lemma group_rows_Nil [simp]: "group_rows (n, t, []) = []"
  by (simp add: group_rows_def)

lemma mset_concat_swap:
  "mset (concat (map (\<lambda>x. concat (map (\<lambda>y. f x y) ys)) xs)) = mset (concat (map (\<lambda>y. concat (map (\<lambda>x. f x y) xs)) ys))"
proof (induction xs)
  case Nil
  then show ?case by (induction ys) auto
next
  case (Cons x xs)
  have "mset (concat (map (\<lambda>y. f x y @ g y) ys)) = mset (concat (map (f x) ys)) + mset (concat (map g ys))" for g
    by (induction ys) (auto simp: ac_simps)
  with Cons show ?case by (simp add: o_def)
qed

lemma group_rows_mset:
  "mset (concat (map group_rows (history_groups since technology d))) =
   mset [(n, r, t). r \<leftarrow> days_since since d, (i, n) \<leftarrow> chosen_technologies since technology d, i = adr_technology_id r,
          t \<leftarrow> st_technologies (pub_store d), tech_id t = adr_technology_id r]"
proof -
  let ?ts = "st_technologies (pub_store d)" let ?rs = "days_since since d"
  have each: "mset (concat (map group_rows (map (\<lambda>t. (n, t, technology_days since i d)) (filter (\<lambda>t. tech_id t = i) ?ts)))) =
      mset (concat (map (\<lambda>r. if i = adr_technology_id r then [(n, r, t). t \<leftarrow> ?ts, tech_id t = adr_technology_id r] else []) ?rs))" for i n
  proof -
    have "mset (concat (map (\<lambda>t. map (\<lambda>r. (n, r, t)) (technology_days since i d)) us)) =
        mset (concat (map (\<lambda>t. concat (map (\<lambda>r. if i = adr_technology_id r then [(n, r, t)] else []) ?rs)) us))" for us
      by (induction us) (auto simp: technology_days_def comprehension_filter eq_commute mset_map)
    also have "mset (concat (map (\<lambda>t. concat (map (\<lambda>r. if i = adr_technology_id r then [(n, r, t)] else []) ?rs)) us)) =
        mset (concat (map (\<lambda>r. concat (map (\<lambda>t. if i = adr_technology_id r then [(n, r, t)] else []) us)) ?rs))" for us
      by (rule mset_concat_swap)
    finally have groups: "mset (concat (map (\<lambda>t. map (\<lambda>r. (n, r, t)) (technology_days since i d)) us)) =
        mset (concat (map (\<lambda>r. map (\<lambda>t. (n, r, t)) (filter (\<lambda>t. i = adr_technology_id r) us)) ?rs))" for us
      unfolding comprehension_filter .
    have rows: "(\<lambda>r. map (\<lambda>t. (n, r, t)) (filter (\<lambda>t. i = adr_technology_id r) (filter (\<lambda>t. tech_id t = i) ?ts))) =
        (\<lambda>r. if i = adr_technology_id r then [(n, r, t). t \<leftarrow> ?ts, tech_id t = adr_technology_id r] else [])"
      unfolding comprehension_filter by (auto simp: filter_filter)
    show ?thesis using groups [of "filter (\<lambda>t. tech_id t = i) ?ts"] unfolding rows by (simp add: group_rows_def o_def)
  qed
  have "mset (concat (map group_rows (concat (map (\<lambda>(i, n). map (\<lambda>t. (n, t, technology_days since i d)) (filter (\<lambda>t. tech_id t = i) ?ts)) cs)))) =
      mset (concat (map (\<lambda>c. concat (map (\<lambda>r. if fst c = adr_technology_id r then [(snd c, r, t). t \<leftarrow> ?ts, tech_id t = adr_technology_id r] else []) ?rs)) cs))" for cs
    by (induction cs) (simp_all add: each case_prod_unfold del: map_map)
  also have "\<dots> cs = mset (concat (map (\<lambda>r. concat (map (\<lambda>c. if fst c = adr_technology_id r then [(snd c, r, t). t \<leftarrow> ?ts, tech_id t = adr_technology_id r] else []) cs)) ?rs))" for cs
    by (rule mset_concat_swap)
  finally show ?thesis unfolding history_groups_def by (simp add: case_prod_unfold)
qed

lemma sorted_join:
  assumes "sorted_wrt Q (map f xs)" and "\<And>x. length (g x) \<le> 1" and "\<And>x y. y \<in> set (g x) \<Longrightarrow> k y = f x"
  shows "sorted_wrt Q (map k (concat (map g xs)))"
  using assms(1)
proof (induction xs)
  case (Cons x xs)
  from short_list [OF assms(2)] have "g x = [] \<or> (\<exists>y. g x = [y])" by blast
  with Cons assms(3) show ?case by (auto simp: sorted_wrt_append)
qed simp

lemma sorted_groups:
  assumes "sorted_wrt (<) (map fst gs)" and "\<And>n t rs. (n, t, rs) \<in> set gs \<Longrightarrow> sorted (map adr_observed_on rs)"
  shows "sorted (map (\<lambda>(n, r, t). (n, adr_observed_on r)) (concat (map group_rows gs)))"
  using assms
proof (induction gs)
  case (Cons g gs)
  obtain n t rs where g: "g = (n, t, rs)" by (cases g) auto
  have "sorted (map (\<lambda>(n, r, t). (n, adr_observed_on r)) (group_rows g))"
    using Cons.prems(2) [of n t rs] by (simp add: g group_rows_def o_def sorted_map)
  moreover have "sorted (map (\<lambda>(n, r, t). (n, adr_observed_on r)) (concat (map group_rows gs)))"
    by (rule Cons.IH) (use Cons.prems in auto)
  moreover have "a \<le> b" if "a \<in> (\<lambda>(n, r, t). (n, adr_observed_on r)) ` set (group_rows g)"
      "b \<in> (\<lambda>(n, r, t). (n, adr_observed_on r)) ` set (concat (map group_rows gs))" for a b
    using that Cons.prems(1) by (fastforce simp: g group_rows_def less_eq_prod_def)
  ultimately show ?case by (simp only: list.map concat.simps map_append sorted_append set_map) blast
qed simp

lemma history_groups_sorted:
  assumes "daily_ok d"
  shows "sorted_wrt (<) (map fst (history_groups since technology d))"
  unfolding history_groups_def
proof (rule sorted_join [OF chosen_priorities [OF assms]])
  fix x :: "uuid \<times> nat"
  show "length (case x of (i, n) \<Rightarrow> map (\<lambda>t. (n, t, technology_days since i d)) (filter (\<lambda>t. tech_id t = i) (st_technologies (pub_store d)))) \<le> 1"
    using technology_single [OF assms, of "fst x"] by (simp add: case_prod_unfold)
qed auto

lemma history_rows_groups:
  assumes ok: "daily_ok d"
  shows "history_rows since technology d = concat (map group_rows (history_groups since technology d))"
  unfolding history_rows_def
proof (rule sort_key_inj_key_eq)
  let ?rows = "[(n, r, t). r \<leftarrow> days_since since d, (i, n) \<leftarrow> chosen_technologies since technology d, i = adr_technology_id r,
      t \<leftarrow> st_technologies (pub_store d), tech_id t = adr_technology_id r]"
  show "mset ?rows = mset (concat (map group_rows (history_groups since technology d)))"
    by (rule group_rows_mset [symmetric])
  show "sorted (map (\<lambda>(n, r, t). (n, adr_observed_on r)) (concat (map group_rows (history_groups since technology d))))"
    by (rule sorted_groups [OF history_groups_sorted [OF ok]]) (auto simp: history_groups_def technology_days_def)
  have snd: "distinct (map snd (chosen_technologies since technology d))"
    using chosen_priorities [OF ok, of since technology] by (simp add: strict_sorted_iff)
  show "inj_on (\<lambda>(n, r, t). (n, adr_observed_on r)) (set ?rows)"
  proof (rule inj_onI)
    fix x y assume xy: "x \<in> set ?rows" "y \<in> set ?rows" "(\<lambda>(n, r, t). (n, adr_observed_on r)) x = (\<lambda>(n, r, t). (n, adr_observed_on r)) y"
    from xy(1) obtain n r t where x: "x = (n, r, t)" "r \<in> set (pub_daily d)" "(adr_technology_id r, n) \<in> set (chosen_technologies since technology d)"
      "t \<in> set (st_technologies (pub_store d))" "tech_id t = adr_technology_id r" by (auto simp: days_since_def)
    from xy(2) obtain m q u where y: "y = (m, q, u)" "q \<in> set (pub_daily d)" "(adr_technology_id q, m) \<in> set (chosen_technologies since technology d)"
      "u \<in> set (st_technologies (pub_store d))" "tech_id u = adr_technology_id q" by (auto simp: days_since_def)
    have eq: "n = m" "adr_observed_on r = adr_observed_on q" using xy(3) by (simp_all add: x y)
    then have same: "adr_technology_id r = adr_technology_id q"
      using distinct_map_eq [OF snd x(3) y(3)] by simp
    then have "r = q"
      using ok eq distinct_map_eq [of adoption_key "pub_daily d" r q] x y by (simp add: daily_ok_def adoption_key_def)
    moreover have "t = u"
      using ok same distinct_map_eq [of tech_id "st_technologies (pub_store d)" t u] x y by (simp add: daily_ok_def)
    ultimately show "x = y" by (simp add: x y eq)
  qed
qed

section \<open>The series\<close>

definition point_of :: "pub_env \<Rightarrow> adoption_row \<Rightarrow> public_adoption_point" where
  "point_of P r = \<lparr>pap_day = pe_day P (adr_observed_on r), pap_count = word_of_int (int (adr_domain_count r))\<rparr>"

definition series_of :: "pub_env \<Rightarrow> pub_db \<Rightarrow> nat \<times> technology_row \<times> adoption_row list \<Rightarrow> public_adoption_series" where
  "series_of P d = (\<lambda>(n, t, rs). \<lparr>pas_slug = tech_slug t, pas_display_name = pub_technology_name d (tech_id t), pas_points = map (point_of P) rs\<rparr>)"

lemma push_same: "pas_slug s = slug \<Longrightarrow> push_point slug name p (series @ [s]) = series @ [s\<lparr>pas_points := pas_points s @ [p]\<rparr>]"
  by (simp add: push_point_def)

lemma push_new: "series = [] \<or> pas_slug (last series) \<noteq> slug \<Longrightarrow>
    push_point slug name p series = series @ [\<lparr>pas_slug = slug, pas_display_name = name, pas_points = [p]\<rparr>]"
  by (auto simp: push_point_def)

lemma collect_series_extend:
  "pas_slug s = tech_slug t \<Longrightarrow>
   collect_series P d (group_rows (n, t, rs) @ rows) (series @ [s]) =
   collect_series P d rows (series @ [s\<lparr>pas_points := pas_points s @ map (point_of P) rs\<rparr>])"
proof (induction rs arbitrary: s)
  case (Cons r rs)
  then show ?case by (simp add: group_rows_def push_same point_of_def)
qed (simp add: group_rows_def)

lemma collect_series_group:
  assumes "rs \<noteq> []" and "series = [] \<or> pas_slug (last series) \<noteq> tech_slug t"
  shows "collect_series P d (group_rows (n, t, rs) @ rows) series = collect_series P d rows (series @ [series_of P d (n, t, rs)])"
proof -
  obtain r rs' where rs: "rs = r # rs'" using assms(1) by (cases rs) auto
  have "collect_series P d (group_rows (n, t, rs) @ rows) series =
      collect_series P d (group_rows (n, t, rs') @ rows)
        (series @ [\<lparr>pas_slug = tech_slug t, pas_display_name = pub_technology_name d (tech_id t), pas_points = [point_of P r]\<rparr>])"
    by (simp add: rs group_rows_def push_new [OF assms(2)] point_of_def)
  then show ?thesis by (simp add: collect_series_extend series_of_def rs)
qed

lemma collect_series_groups:
  assumes "distinct (map (\<lambda>(n, t, rs). tech_slug t) gs)"
    and "series = [] \<or> pas_slug (last series) \<notin> (\<lambda>(n, t, rs). tech_slug t) ` set gs"
  shows "collect_series P d (concat (map group_rows gs)) series =
     Inr (series @ map (series_of P d) (filter (\<lambda>(n, t, rs). rs \<noteq> []) gs))"
  using assms
proof (induction gs arbitrary: series)
  case (Cons g gs)
  obtain n t rs where g: "g = (n, t, rs)" by (cases g) auto
  show ?case
  proof (cases "rs = []")
    case True
    then show ?thesis using Cons.prems Cons.IH [of series] by (auto simp: g)
  next
    case False
    have new: "series = [] \<or> pas_slug (last series) \<noteq> tech_slug t" using Cons.prems(2) by (auto simp: g)
    have "collect_series P d (concat (map group_rows gs)) (series @ [series_of P d g]) =
        Inr ((series @ [series_of P d g]) @ map (series_of P d) (filter (\<lambda>(n, t, rs). rs \<noteq> []) gs))"
      using Cons.prems(1) by (intro Cons.IH) (auto simp: g series_of_def)
    with collect_series_group [OF False new, of P d n] False show ?thesis by (simp add: g)
  qed
qed simp

lemma distinct_map_coarser:
  "distinct (map f xs) \<Longrightarrow> (\<And>x y. x \<in> set xs \<Longrightarrow> y \<in> set xs \<Longrightarrow> g x = g y \<Longrightarrow> f x = f y) \<Longrightarrow> distinct (map g xs)"
  unfolding distinct_map inj_on_def by blast

lemma history_group_slugs:
  assumes "daily_ok d"
  shows "distinct (map (\<lambda>(n, t, rs). tech_slug t) (history_groups since technology d))"
proof -
  let ?id = "\<lambda>(n :: nat, t, rs :: adoption_row list). tech_id t"
  have "distinct (map ?id (history_groups since technology d))"
    unfolding history_groups_def
  proof (rule distinct_join [OF chosen_ids [OF assms]])
    fix x :: "uuid \<times> nat"
    show "length (case x of (i, n) \<Rightarrow> map (\<lambda>t. (n, t, technology_days since i d)) (filter (\<lambda>t. tech_id t = i) (st_technologies (pub_store d)))) \<le> 1"
      using technology_single [OF assms, of "fst x"] by (simp add: case_prod_unfold)
  qed auto
  then show ?thesis
  proof (rule distinct_map_coarser)
    fix x y assume xy: "x \<in> set (history_groups since technology d)" "y \<in> set (history_groups since technology d)"
      "(case x of (n, t, rs) \<Rightarrow> tech_slug t) = (case y of (n, t, rs) \<Rightarrow> tech_slug t)"
    from xy(1,2) have "fst (snd x) \<in> set (st_technologies (pub_store d))" "fst (snd y) \<in> set (st_technologies (pub_store d))"
      by (auto simp: history_groups_def)
    with xy(3) have "fst (snd x) = fst (snd y)"
      using assms distinct_map_eq [of tech_slug "st_technologies (pub_store d)" "fst (snd x)" "fst (snd y)"]
      by (simp add: daily_ok_def case_prod_unfold)
    then show "?id x = ?id y" by (simp add: case_prod_unfold)
  qed
qed

text \<open>
  C38: the adoption history has exactly one series for each chosen technology that has a count in the period: the
  up to five technologies with most domains on the latest day, and the requested technology when it is not one of them, in
  this order; the points of a series are all its counts of the period, in the order of the days.
\<close>

theorem adoption_history_series:
  assumes ok: "daily_ok d" and history: "adoption_history P since technology d = Inr history"
  shows "pah_series history =
    [\<lparr>pas_slug = tech_slug t, pas_display_name = pub_technology_name d (tech_id t),
       pas_points = map (\<lambda>r. \<lparr>pap_day = pe_day P (adr_observed_on r), pap_count = word_of_int (int (adr_domain_count r))\<rparr>)
         (technology_days since i d)\<rparr>.
     (i, n) \<leftarrow> chosen_technologies since technology d, technology_days since i d \<noteq> [],
     t \<leftarrow> filter (\<lambda>t. tech_id t = i) (st_technologies (pub_store d))]"
proof -
  have "collect_series P d (history_rows since technology d) [] =
      Inr (map (series_of P d) (filter (\<lambda>(n, t, rs). rs \<noteq> []) (history_groups since technology d)))"
    unfolding history_rows_groups [OF ok] using collect_series_groups [OF history_group_slugs [OF ok], of "[]"] by simp
  with history have "pah_series history = map (series_of P d) (filter (\<lambda>(n, t, rs). rs \<noteq> []) (history_groups since technology d))"
    by (auto simp: adoption_history_def Let_def)
  also have "\<dots> = concat (map (\<lambda>(i, n). if technology_days since i d \<noteq> []
      then map (\<lambda>t. series_of P d (n, t, technology_days since i d)) (filter (\<lambda>t. tech_id t = i) (st_technologies (pub_store d))) else [])
      (chosen_technologies since technology d))"
    unfolding history_groups_def by (auto simp: filter_concat map_concat filter_map o_def intro!: arg_cong [of _ _ concat])
  finally show ?thesis unfolding series_of_def point_of_def [abs_def] prod.case .
qed

text \<open>Three days of two technologies.\<close>

definition sample_daily :: pub_db where
  "sample_daily = sample_pub\<lparr>pub_daily :=
     [\<lparr>adr_observed_on = 11, adr_technology_id = 3, adr_domain_count = 4, adr_captured_at = 0\<rparr>,
      \<lparr>adr_observed_on = 10, adr_technology_id = 2, adr_domain_count = 1, adr_captured_at = 0\<rparr>,
      \<lparr>adr_observed_on = 10, adr_technology_id = 3, adr_domain_count = 3, adr_captured_at = 0\<rparr>]\<rparr>"

lemma sample_daily_ok: "daily_ok sample_daily"
  by code_simp

lemma sample_history: "is_ok (adoption_history sample_pub_env 0 (Some ''nginx'') sample_daily)"
  by code_simp

theorem adoption_history_series_witness:
  "\<exists>h. adoption_history sample_pub_env 0 (Some ''nginx'') sample_daily = Inr h
     \<and> pah_series h =
       [\<lparr>pas_slug = tech_slug t, pas_display_name = pub_technology_name sample_daily (tech_id t),
          pas_points = map (\<lambda>r. \<lparr>pap_day = pe_day sample_pub_env (adr_observed_on r), pap_count = word_of_int (int (adr_domain_count r))\<rparr>)
            (technology_days 0 i sample_daily)\<rparr>.
        (i, n) \<leftarrow> chosen_technologies 0 (Some ''nginx'') sample_daily, technology_days 0 i sample_daily \<noteq> [],
        t \<leftarrow> filter (\<lambda>t. tech_id t = i) (st_technologies (pub_store sample_daily))]"
  using sample_history adoption_history_series [OF sample_daily_ok, of sample_pub_env 0 "Some ''nginx''"]
  unfolding is_ok_iff by blast

end
