(* ===== verification/Public_Api.thy ===== *)
theory Public_Api
  imports Public_Analytics Refresh_Store Config Artifact_Store
begin

text \<open>
  The handlers of the public HTTP API (\<^verbatim>\<open>apps/api/src/public.rs\<close>): the checks of their parameters, the reads they
  call and the responses their errors become.  Path and query extractors of the web framework are the
  arguments of a handler; \<open>now\<close> is the clock of the request.
\<close>

section \<open>Environment and errors\<close>

text \<open>
  \<open>ae_form\<close> is \<^verbatim>\<open>url::form_urlencoded::parse\<close>, \<open>ae_from_unix\<close> is \<^verbatim>\<open>OffsetDateTime::from_unix_timestamp\<close> and \<open>ae_rfc3339\<close> is
  formatting with \<^verbatim>\<open>Rfc3339\<close>.
\<close>

record api_env =
  ae_pub :: pub_env
  ae_form :: "string \<Rightarrow> (string \<times> string) list"
  ae_from_unix :: "int \<Rightarrow> instant option"
  ae_rfc3339 :: "instant \<Rightarrow> string option"

datatype public_api_error = ApiValidation | ApiNotFound | ApiRefreshUnavailable | ApiRateLimited nat | ApiUnavailable

record error_response =
  er_status :: nat
  er_code :: string
  er_message :: string
  er_retry_after :: "string option"

text \<open>\<open>HeaderValue::from_str\<close>: visible ASCII characters, spaces and tabs.\<close>

definition header_value_ok :: "string \<Rightarrow> bool" where
  "header_value_ok s = list_all (\<lambda>c. byte_val c = 9 \<or> (32 \<le> byte_val c \<and> byte_val c < 127)) s"

fun public_into_response :: "public_api_error \<Rightarrow> error_response" where
  "public_into_response ApiValidation =
     \<lparr>er_status = 422, er_code = ''validation_error'', er_message = ''request input is invalid'', er_retry_after = None\<rparr>"
| "public_into_response ApiNotFound =
     \<lparr>er_status = 404, er_code = ''resource_not_found'', er_message = ''the public resource was not found'', er_retry_after = None\<rparr>"
| "public_into_response ApiRefreshUnavailable =
     \<lparr>er_status = 409, er_code = ''refresh_unavailable'', er_message = ''public refresh is not available for this domain'',
      er_retry_after = None\<rparr>"
| "public_into_response (ApiRateLimited n) =
     \<lparr>er_status = 429, er_code = ''rate_limited'', er_message = ''the public refresh request rate limit has been exceeded'',
      er_retry_after = (if header_value_ok (dec_str n) then Some (dec_str n) else None)\<rparr>"
| "public_into_response ApiUnavailable =
     \<lparr>er_status = 503, er_code = ''service_unavailable'', er_message = ''the public read service is unavailable'', er_retry_after = None\<rparr>"

fun map_read :: "public_read_error \<Rightarrow> public_api_error" where
  "map_read ReadUnavailable = ApiUnavailable"

fun map_refresh :: "public_refresh_error \<Rightarrow> public_api_error" where
  "map_refresh RefreshNotFound = ApiNotFound"
| "map_refresh RefreshDisabled = ApiRefreshUnavailable"
| "map_refresh (RateLimited n) = ApiRateLimited n"
| "map_refresh RefreshUnavailable = ApiUnavailable"

section \<open>Parameters\<close>

definition DEFAULT_PAGE_SIZE :: nat where "DEFAULT_PAGE_SIZE = 50"

definition MAX_PAGE_SIZE :: nat where "MAX_PAGE_SIZE = 100"

definition TECHNOLOGY_TREND_WINDOW_DAYS :: int where "TECHNOLOGY_TREND_WINDOW_DAYS = 30"

definition ANALYTICS_RANK_LIMIT :: nat where "ANALYTICS_RANK_LIMIT = 10"

definition ANALYTICS_MOVER_LIMIT :: nat where "ANALYTICS_MOVER_LIMIT = 5"

definition ANALYTICS_DISCOVERY_LIMIT :: nat where "ANALYTICS_DISCOVERY_LIMIT = 10"

text \<open>\<open>str::parse::<i64>\<close>: an optional sign and digits within the range.\<close>

definition parse_i64 :: "string \<Rightarrow> int option" where
  "parse_i64 s =
     (if take 1 s = ''-''
      then (if drop 1 s = [] then None
            else Option.bind (parse_digits 64 0 (drop 1 s)) (\<lambda>n. if n \<le> 2 ^ 63 then Some (- int n) else None))
      else map_option int (parse_uint 63 s))"

definition api_domain :: "api_env \<Rightarrow> string \<Rightarrow> (public_api_error, canonical_domain) result" where
  "api_domain A value = map_err (\<lambda>_. ApiValidation) (CanonicalDomain_parse (env_url_parse (pe_env (ae_pub A))) value)"

definition analytics_since :: "instant \<Rightarrow> u16 option \<Rightarrow> (public_api_error, instant) result" where
  "analytics_since now since_days =
     (let days = unwrap_or 30 since_days in
      if days = 0 \<or> days > 365 then Inl ApiValidation else Inr (now - uint days * NANOS_PER_DAY))"

definition parse_time :: "api_env \<Rightarrow> string option \<Rightarrow> (public_api_error, instant option) result" where
  "parse_time A value =
     (case value of
        None \<Rightarrow> Inr None
      | Some s \<Rightarrow> rbind (ok_or ApiValidation (Option.bind (parse_i64 s) (ae_from_unix A))) (\<lambda>t. Inr (Some t)))"

definition page_limit :: "nat option \<Rightarrow> (public_api_error, nat) result" where
  "page_limit limit =
     (let limit = unwrap_or DEFAULT_PAGE_SIZE limit in
      if 1 \<le> limit \<and> limit \<le> MAX_PAGE_SIZE then Inr limit else Inl ApiValidation)"

definition technology_trend :: "string option \<Rightarrow> (public_api_error, public_technology_trend option) result" where
  "technology_trend value =
     (case value of
        None \<Rightarrow> Inr None
      | Some s \<Rightarrow>
          if s = ''growing'' then Inr (Some Growing) else if s = ''declining'' then Inr (Some Declining)
          else if s = ''stable'' then Inr (Some Stable) else Inl ApiValidation)"

definition api_valid_slug :: "string \<Rightarrow> bool" where
  "api_valid_slug value =
     (value \<noteq> [] \<and> length value \<le> 64
      \<and> list_all (\<lambda>c. is_ascii_lowercase c \<or> is_ascii_digit c \<or> c = CHR ''-'') value)"

definition validate_slugs :: "string list \<Rightarrow> (public_api_error, string list) result" where
  "validate_slugs values =
     (if length values > 20 \<or> list_ex (\<lambda>v. \<not> api_valid_slug v) values then Inl ApiValidation else Inr values)"

definition validate_countries :: "string list \<Rightarrow> (public_api_error, string list) result" where
  "validate_countries values =
     (if length values > 20 \<or> list_ex (\<lambda>v. length v \<noteq> 2 \<or> \<not> list_all is_ascii_uppercase v) values
      then Inl ApiValidation else Inr values)"

section \<open>Search\<close>

record search_query =
  sq_q :: "string option"
  sq_technology :: "string list option"
  sq_category :: "string list option"
  sq_country :: "string list option"
  sq_crawled_since :: "int option"
  sq_min_confidence :: "u8 option"
  sq_limit :: "nat option"
  sq_offset :: "nat option"
  sq_sort :: "string option"

definition empty_search_query :: search_query where
  "empty_search_query = \<lparr>sq_q = None, sq_technology = None, sq_category = None, sq_country = None, sq_crawled_since = None,
     sq_min_confidence = None, sq_limit = None, sq_offset = None, sq_sort = None\<rparr>"

definition set_once :: "'a option \<Rightarrow> 'a \<Rightarrow> (public_api_error, 'a option) result" where
  "set_once target value = (if target \<noteq> None then Inl ApiValidation else Inr (Some value))"

definition push_value :: "string list option \<Rightarrow> string \<Rightarrow> string list option" where
  "push_value target value = Some (unwrap_or [] target @ [value])"

definition parsed_once :: "'a option \<Rightarrow> 'a option \<Rightarrow> (public_api_error, 'a option) result" where
  "parsed_once target parsed = rbind (ok_or ApiValidation parsed) (set_once target)"

definition search_parameter :: "string \<times> string \<Rightarrow> search_query \<Rightarrow> (public_api_error, search_query) result" where
  "search_parameter pair query =
     (case pair of (key, value) \<Rightarrow>
        if key = ''q'' then rbind (set_once (sq_q query) value) (\<lambda>x. Inr (query\<lparr>sq_q := x\<rparr>))
        else if key = ''technology'' then Inr (query\<lparr>sq_technology := push_value (sq_technology query) value\<rparr>)
        else if key = ''category'' then Inr (query\<lparr>sq_category := push_value (sq_category query) value\<rparr>)
        else if key = ''country'' then Inr (query\<lparr>sq_country := push_value (sq_country query) value\<rparr>)
        else if key = ''crawled_since''
        then rbind (parsed_once (sq_crawled_since query) (parse_i64 value)) (\<lambda>x. Inr (query\<lparr>sq_crawled_since := x\<rparr>))
        else if key = ''min_confidence''
        then rbind (parsed_once (sq_min_confidence query) (map_option of_nat (parse_uint 8 value))) (\<lambda>x. Inr (query\<lparr>sq_min_confidence := x\<rparr>))
        else if key = ''limit''
        then rbind (parsed_once (sq_limit query) (parse_uint 64 value)) (\<lambda>x. Inr (query\<lparr>sq_limit := x\<rparr>))
        else if key = ''offset''
        then rbind (parsed_once (sq_offset query) (parse_uint 64 value)) (\<lambda>x. Inr (query\<lparr>sq_offset := x\<rparr>))
        else if key = ''sort'' then rbind (set_once (sq_sort query) value) (\<lambda>x. Inr (query\<lparr>sq_sort := x\<rparr>))
        else Inr query)"

fun search_parameters :: "(string \<times> string) list \<Rightarrow> search_query \<Rightarrow> (public_api_error, search_query) result" where
  "search_parameters [] query = Inr query"
| "search_parameters (p # ps) query = rbind (search_parameter p query) (search_parameters ps)"

definition parse_search_query :: "api_env \<Rightarrow> string option \<Rightarrow> (public_api_error, search_query) result" where
  "parse_search_query A raw_query =
     (case raw_query of None \<Rightarrow> Inr empty_search_query | Some raw \<Rightarrow> search_parameters (ae_form A raw) empty_search_query)"

definition search_sort_of :: "string \<Rightarrow> (public_api_error, domain_search_sort) result" where
  "search_sort_of s =
     (if s = ''relevance'' then Inr Relevance else if s = ''last_crawled_desc'' then Inr LastCrawledDesc
      else if s = ''updated_desc'' then Inr UpdatedDesc else Inl ApiValidation)"

text \<open>The checks of \<open>search_domains\<close> before the search is called.\<close>

definition search_request :: "api_env \<Rightarrow> string option \<Rightarrow> (public_api_error, domain_search_query) result" where
  "search_request A raw_query =
     rbind (parse_search_query A raw_query) (\<lambda>query.
     rbind (page_limit (sq_limit query)) (\<lambda>limit.
     (let offset = unwrap_or 0 (sq_offset query) in
      if offset > 10000 then Inl ApiValidation
      else
        rbind (search_sort_of (unwrap_or ''relevance'' (sq_sort query))) (\<lambda>sort.
        (let q = map_option trim (option_filter (\<lambda>v. trim v \<noteq> []) (sq_q query)) in
         if (case q of None \<Rightarrow> False | Some v \<Rightarrow> length v > 200) then Inl ApiValidation
         else
           rbind (validate_slugs (unwrap_or [] (sq_technology query))) (\<lambda>technology_slugs.
           rbind (validate_slugs (unwrap_or [] (sq_category query))) (\<lambda>category_slugs.
           rbind (validate_countries (unwrap_or [] (sq_country query))) (\<lambda>country_codes.
           rbind (case sq_crawled_since query of
                    None \<Rightarrow> Inr None
                  | Some n \<Rightarrow> rbind (ok_or ApiValidation (ae_from_unix A n)) (\<lambda>t. Inr (Some t))) (\<lambda>crawled_since.
           Inr \<lparr>dsq_query = q, dsq_technology_slugs = technology_slugs, dsq_category_slugs = category_slugs,
                dsq_country_codes = country_codes, dsq_crawled_since = crawled_since,
                dsq_min_confidence = sq_min_confidence query, dsq_limit = limit, dsq_offset = offset, dsq_sort = sort\<rparr>)))))))))"

record public_domain_search_hit =
  psh_canonical_domain :: string
  psh_technology_slugs :: "string list"
  psh_category_slugs :: "string list"
  psh_country_code :: "string option"
  psh_max_confidence :: u8
  psh_last_crawled_at :: "string option"
  psh_updated_at :: string

record public_domain_search_page =
  psp_results :: "public_domain_search_hit list"
  psp_estimated_total_hits :: u64
  psp_technology_facets :: "(string \<times> u64) list"
  psp_category_facets :: "(string \<times> u64) list"
  psp_country_facets :: "(string \<times> u64) list"
  psp_limit :: nat
  psp_offset :: nat
  psp_query_at :: string

definition format_timestamp :: "api_env \<Rightarrow> instant \<Rightarrow> (public_api_error, string) result" where
  "format_timestamp A t = ok_or ApiUnavailable (ae_rfc3339 A t)"

definition format_option :: "api_env \<Rightarrow> instant option \<Rightarrow> (public_api_error, string option) result" where
  "format_option A t = (case t of None \<Rightarrow> Inr None | Some t \<Rightarrow> rbind (format_timestamp A t) (\<lambda>s. Inr (Some s)))"

definition search_hit_response :: "api_env \<Rightarrow> domain_search_hit \<Rightarrow> (public_api_error, public_domain_search_hit) result" where
  "search_hit_response A hit =
     rbind (format_option A (hit_last_crawled_at hit)) (\<lambda>last_crawled.
     rbind (format_timestamp A (hit_updated_at hit)) (\<lambda>updated.
     Inr \<lparr>psh_canonical_domain = hit_canonical_domain hit, psh_technology_slugs = hit_technology_slugs hit,
          psh_category_slugs = hit_category_slugs hit, psh_country_code = hit_country_code hit,
          psh_max_confidence = hit_max_confidence hit, psh_last_crawled_at = last_crawled, psh_updated_at = updated\<rparr>))"

definition search_page_response ::
    "api_env \<Rightarrow> domain_search_page \<Rightarrow> nat \<Rightarrow> nat \<Rightarrow> instant \<Rightarrow> (public_api_error, public_domain_search_page) result" where
  "search_page_response A page limit offset now =
     rbind (collect_results (map (search_hit_response A) (page_hits page))) (\<lambda>results.
     rbind (format_timestamp A now) (\<lambda>query_at.
     Inr \<lparr>psp_results = results, psp_estimated_total_hits = page_estimated_total_hits page,
          psp_technology_facets = page_technology_facets page, psp_category_facets = page_category_facets page,
          psp_country_facets = page_country_facets page, psp_limit = limit, psp_offset = offset, psp_query_at = query_at\<rparr>))"

definition search_domains ::
    "api_env \<Rightarrow> 'h meili \<Rightarrow> string option \<Rightarrow> instant \<Rightarrow> 'h \<Rightarrow> ((public_api_error, public_domain_search_page) result \<times> 'h) option" where
  "search_domains A M raw_query now h =
     (case search_request A raw_query of
        Inl e \<Rightarrow> Some (Inl e, h)
      | Inr query \<Rightarrow>
          map_option (\<lambda>(found, h). (rbind (map_err (\<lambda>_. ApiUnavailable) found) (\<lambda>page.
            search_page_response A page (dsq_limit query) (dsq_offset query) now), h)) (search M query h))"

section \<open>Domains and technologies\<close>

record page_query =
  pq_cursor :: "string option"
  pq_limit :: "nat option"

abbreviation reads :: "api_env \<Rightarrow> pub_env" where
  "reads A \<equiv> ae_pub A"

definition found_or_404 :: "(public_read_error, 'a option) result \<Rightarrow> (public_api_error, 'a) result" where
  "found_or_404 r = rbind (map_err map_read r) (ok_or ApiNotFound)"

definition api_domain_profile :: "api_env \<Rightarrow> string \<Rightarrow> pub_db \<Rightarrow> (public_api_error, public_domain_profile) result" where
  "api_domain_profile A name d = rbind (api_domain A name) (\<lambda>domain. found_or_404 (domain_profile (reads A) domain d))"

definition ensure_domain :: "api_env \<Rightarrow> canonical_domain \<Rightarrow> pub_db \<Rightarrow> (public_api_error, unit) result" where
  "ensure_domain A domain d = rbind (found_or_404 (domain_profile (reads A) domain d)) (\<lambda>_. Inr ())"

definition api_domain_changes ::
    "api_env \<Rightarrow> string \<Rightarrow> page_query \<Rightarrow> pub_db \<Rightarrow> (public_api_error, public_change public_page) result" where
  "api_domain_changes A name query d =
     rbind (api_domain A name) (\<lambda>domain.
     rbind (ensure_domain A domain d) (\<lambda>_.
     rbind (parse_time A (pq_cursor query)) (\<lambda>cursor.
     rbind (page_limit (pq_limit query)) (\<lambda>limit.
     map_err map_read (domain_changes (reads A) domain cursor limit d)))))"

definition api_domain_crawls ::
    "api_env \<Rightarrow> string \<Rightarrow> page_query \<Rightarrow> pub_db \<Rightarrow> (public_api_error, public_crawl public_page) result" where
  "api_domain_crawls A name query d =
     rbind (api_domain A name) (\<lambda>domain.
     rbind (ensure_domain A domain d) (\<lambda>_.
     rbind (parse_time A (pq_cursor query)) (\<lambda>cursor.
     rbind (page_limit (pq_limit query)) (\<lambda>limit.
     map_err map_read (domain_crawls (reads A) domain cursor limit d)))))"

definition api_crawl_detail :: "api_env \<Rightarrow> string \<Rightarrow> string \<Rightarrow> pub_db \<Rightarrow> (public_api_error, public_crawl_detail) result" where
  "api_crawl_detail A name crawl_id d =
     rbind (api_domain A name) (\<lambda>domain. found_or_404 (crawl_detail (reads A) domain crawl_id d))"

text \<open>The refresh is the only handler that writes; \<open>cooldown_hours\<close> is the configured u16.\<close>

definition api_request_refresh ::
    "api_env \<Rightarrow> u16 \<Rightarrow> string \<Rightarrow> instant \<Rightarrow> db \<Rightarrow> (public_api_error, (nat \<times> public_refresh_request) \<times> db) result" where
  "api_request_refresh A cooldown_hours name now d =
     rbind (api_domain A name) (\<lambda>domain.
     rbind (map_err map_refresh
              (request_refresh (pe_env (reads A)) d domain now (from_secs (unat cooldown_hours * 3600)))) (\<lambda>(request, d).
     Inr ((202, request), d)))"

record technology_library_query =
  tlq_category :: "string option"
  tlq_trend :: "string option"
  tlq_cursor :: "string option"
  tlq_limit :: "nat option"

definition trend_since :: "instant \<Rightarrow> instant" where
  "trend_since now = now - TECHNOLOGY_TREND_WINDOW_DAYS * NANOS_PER_DAY"

definition api_technologies ::
    "api_env \<Rightarrow> technology_library_query \<Rightarrow> instant \<Rightarrow> pub_db \<Rightarrow> (public_api_error, public_technology_library_page) result" where
  "api_technologies A query now d =
     (if (case tlq_category query of None \<Rightarrow> False | Some s \<Rightarrow> \<not> api_valid_slug s) then Inl ApiValidation
      else
        rbind (technology_trend (tlq_trend query)) (\<lambda>trend.
        rbind (page_limit (tlq_limit query)) (\<lambda>limit.
        map_err map_read (technologies (reads A) (tlq_category query) trend (tlq_cursor query) limit (trend_since now) d))))"

definition api_technology_domains ::
    "api_env \<Rightarrow> string \<Rightarrow> page_query \<Rightarrow> pub_db \<Rightarrow> (public_api_error, public_domain_summary public_page) result" where
  "api_technology_domains A slug query d =
     (if \<not> api_valid_slug slug then Inl ApiValidation
      else
        rbind (page_limit (pq_limit query)) (\<lambda>limit.
        found_or_404 (technology_domains (reads A) slug (pq_cursor query) limit d)))"

definition api_technology_profile ::
    "api_env \<Rightarrow> string \<Rightarrow> page_query \<Rightarrow> instant \<Rightarrow> pub_db \<Rightarrow> (public_api_error, public_technology_profile) result" where
  "api_technology_profile A slug query now d =
     (if \<not> api_valid_slug slug then Inl ApiValidation
      else
        rbind (page_limit (pq_limit query)) (\<lambda>limit.
        found_or_404 (technology_profile (reads A) slug (pq_cursor query) limit (trend_since now) d)))"

definition api_provider_profile ::
    "api_env \<Rightarrow> string \<Rightarrow> page_query \<Rightarrow> instant \<Rightarrow> pub_db \<Rightarrow> (public_api_error, public_provider_profile) result" where
  "api_provider_profile A slug query now d =
     (if \<not> api_valid_slug slug then Inl ApiValidation
      else
        rbind (page_limit (pq_limit query)) (\<lambda>limit.
        found_or_404 (provider_profile (reads A) slug (pq_cursor query) limit (trend_since now) d)))"

section \<open>Comparison and analytics\<close>

definition parse_compare_query :: "api_env \<Rightarrow> string option \<Rightarrow> string list option" where
  "parse_compare_query A raw_query =
     (case raw_query of
        None \<Rightarrow> None
      | Some raw \<Rightarrow> fold (\<lambda>(key, value) acc. if key = ''domain'' then push_value acc value else acc) (ae_form A raw) None)"

record public_comparison_response =
  pcp_domains :: "string list"
  pcp_cells :: "public_comparison_cell list"

text \<open>The quadratic search for a repeated domain.\<close>

definition has_repetition :: "'a list \<Rightarrow> bool" where
  "has_repetition xs = list_ex (\<lambda>(i, x). list_ex (\<lambda>y. y = x) (drop (i + 1) xs)) (zip [0..<length xs] xs)"

definition compare ::
    "api_env \<Rightarrow> u16 \<Rightarrow> string option \<Rightarrow> instant \<Rightarrow> pub_db \<Rightarrow> (public_api_error, public_comparison_response) result" where
  "compare A stale_after_days raw_query now d =
     (let values = unwrap_or [] (parse_compare_query A raw_query) in
      if \<not> (2 \<le> length values \<and> length values \<le> 10) then Inl ApiValidation
      else
        rbind (collect_results (map (api_domain A) values)) (\<lambda>domains.
        if has_repetition domains then Inl ApiValidation
        else
          rbind (map_err map_read (comparison (reads A) domains (now - uint stale_after_days * NANOS_PER_DAY) d)) (\<lambda>cells.
          Inr \<lparr>pcp_domains = map canonical_domain_as_str domains, pcp_cells = cells\<rparr>)))"

definition api_analytics_overview :: "pub_db \<Rightarrow> (public_api_error, public_analytics_overview) result" where
  "api_analytics_overview d = map_err map_read (analytics_overview d)"

definition analytics_adoption :: "api_env \<Rightarrow> pub_db \<Rightarrow> (public_api_error, public_adoption list) result" where
  "analytics_adoption A d = map_err map_read (adoption (reads A) d)"

definition analytics_adoption_history ::
    "api_env \<Rightarrow> u16 option \<Rightarrow> string option \<Rightarrow> instant \<Rightarrow> pub_db \<Rightarrow> (public_api_error, public_adoption_history) result" where
  "analytics_adoption_history A since_days technology now d =
     rbind (analytics_since now since_days) (\<lambda>since.
     if (case technology of None \<Rightarrow> False | Some s \<Rightarrow> \<not> api_valid_slug s) then Inl ApiValidation
     else map_err map_read (adoption_history (reads A) (date_trunc_day since) technology d))"

definition api_analytics_rankings :: "api_env \<Rightarrow> pub_db \<Rightarrow> (public_api_error, public_analytics_rankings) result" where
  "api_analytics_rankings A d = map_err map_read (analytics_rankings (reads A) ANALYTICS_RANK_LIMIT d)"

definition api_analytics_movers ::
    "api_env \<Rightarrow> u16 option \<Rightarrow> instant \<Rightarrow> pub_db \<Rightarrow> (public_api_error, public_analytics_movers) result" where
  "api_analytics_movers A since_days now d =
     rbind (analytics_since now since_days) (\<lambda>since. map_err map_read (analytics_movers (reads A) since ANALYTICS_MOVER_LIMIT d))"

definition analytics_changes ::
    "api_env \<Rightarrow> u16 option \<Rightarrow> instant \<Rightarrow> pub_db \<Rightarrow> (public_api_error, public_change_trend list) result" where
  "analytics_changes A since_days now d =
     rbind (analytics_since now since_days) (\<lambda>since. map_err map_read (change_trends (reads A) since d))"

definition api_analytics_discovery ::
    "api_env \<Rightarrow> u16 option \<Rightarrow> instant \<Rightarrow> pub_db \<Rightarrow> (public_api_error, public_analytics_discovery) result" where
  "api_analytics_discovery A since_days now d =
     rbind (analytics_since now since_days) (\<lambda>since.
     map_err map_read (analytics_discovery (reads A) since ANALYTICS_DISCOVERY_LIMIT d))"

section \<open>Properties\<close>

lemma digit_not_space [simp]: "\<not> is_ascii_digit (CHR '' '')"
  by (simp add: is_ascii_digit_def byte_val_def)

lemma parse_i64_space:
  assumes "CHR '' '' \<in> set s"
  shows "parse_i64 s = None"
proof -
  have none: "parse_digits bits acc (drop n s) = None" if "take n s = ''-'' \<or> take n s = ''+'' \<or> n = 0" for bits acc n
  proof (rule ccontr)
    assume "parse_digits bits acc (drop n s) \<noteq> None"
    then have "list_all is_ascii_digit (drop n s)" unfolding list_all_iff using parse_digits_chars by blast
    moreover have "CHR '' '' \<in> set (drop n s)"
    proof -
      have "CHR '' '' \<in> set (take n s) \<union> set (drop n s)" using assms by (simp flip: set_append)
      with that show ?thesis by auto
    qed
    ultimately show False by (simp add: list_all_iff) (metis digit_not_space)
  qed
  show ?thesis
    using none [of 1] none [of 0] by (auto simp: parse_i64_def parse_uint_def Let_def)
qed

lemma cut_page_cursor: "pp_next_cursor (cut_page key limit items) = Some c \<Longrightarrow> \<exists>x. c = key x"
  by (auto simp: cut_page_def split: if_splits)

lemma domain_changes_cursor:
  "domain_changes P name cursor limit d = Inr page \<Longrightarrow> pp_next_cursor page = Some c \<Longrightarrow> \<exists>t. c = pe_display P t"
  by (auto simp: domain_changes_def dest!: cut_page_cursor split: option.splits)

lemma domain_crawls_cursor:
  "domain_crawls P name cursor limit d = Inr page \<Longrightarrow> pp_next_cursor page = Some c \<Longrightarrow> \<exists>t. c = pe_display P t"
  by (auto simp: domain_crawls_def dest!: cut_page_cursor split: option.splits)

lemma parse_time_space: "CHR '' '' \<in> set c \<Longrightarrow> parse_time A (Some c) = Inl ApiValidation"
  by (simp add: parse_time_def parse_i64_space)

text \<open>
  C39: the histories of a domain cannot be read beyond their first page: the cursor that a page of changes or of
  crawls gives is the display text of a time, which has spaces between date, time and offset, while the
  handlers read a cursor as a count of seconds.  Asking for the next page with the given cursor is always refused
  with a validation error, whatever the limit.
\<close>

theorem history_cursors_are_refused:
  assumes spaces: "\<And>t. CHR '' '' \<in> set (pe_display (ae_pub A) t)"
  shows "(api_domain_changes A name query d = Inr change_page \<longrightarrow> pp_next_cursor change_page = Some c \<longrightarrow>
       api_domain_changes A name \<lparr>pq_cursor = Some c, pq_limit = limit\<rparr> d = Inl ApiValidation)
    \<and> (api_domain_crawls A name query d = Inr crawl_page \<longrightarrow> pp_next_cursor crawl_page = Some c \<longrightarrow>
       api_domain_crawls A name \<lparr>pq_cursor = Some c, pq_limit = limit\<rparr> d = Inl ApiValidation)"
proof (intro conjI impI)
  assume "api_domain_changes A name query d = Inr change_page" "pp_next_cursor change_page = Some c"
  then obtain domain cursor n where ok: "api_domain A name = Inr domain" "ensure_domain A domain d = Inr ()"
    and "domain_changes (reads A) domain cursor n d = Inr change_page"
    by (auto simp: api_domain_changes_def)
  then obtain t where "c = pe_display (reads A) t" using \<open>pp_next_cursor change_page = Some c\<close> domain_changes_cursor by blast
  with ok spaces show "api_domain_changes A name \<lparr>pq_cursor = Some c, pq_limit = limit\<rparr> d = Inl ApiValidation"
    by (simp add: api_domain_changes_def parse_time_space)
next
  assume "api_domain_crawls A name query d = Inr crawl_page" "pp_next_cursor crawl_page = Some c"
  then obtain domain cursor n where ok: "api_domain A name = Inr domain" "ensure_domain A domain d = Inr ()"
    and "domain_crawls (reads A) domain cursor n d = Inr crawl_page"
    by (auto simp: api_domain_crawls_def)
  then obtain t where "c = pe_display (reads A) t" using \<open>pp_next_cursor crawl_page = Some c\<close> domain_crawls_cursor by blast
  with ok spaces show "api_domain_crawls A name \<lparr>pq_cursor = Some c, pq_limit = limit\<rparr> d = Inl ApiValidation"
    by (simp add: api_domain_crawls_def parse_time_space)
qed

definition sample_api :: api_env where
  "sample_api = \<lparr>ae_pub = sample_pub_env, ae_form = (\<lambda>s. if s = [] then [] else [(''technology'', s), (''limit'', ''7'')]),
     ae_from_unix = (\<lambda>n. if \<bar>n\<bar> < 253402300800 then Some (n * 1000000000) else None), ae_rfc3339 = (\<lambda>_. Some ''1970-01-01T00:00:00Z'')\<rparr>"

lemma sample_changes_page:
  "(case api_domain_changes sample_api ''c.com'' \<lparr>pq_cursor = None, pq_limit = Some 1\<rparr> sample_pub of
      Inr page \<Rightarrow> pp_next_cursor page \<noteq> None \<and> length (pp_items page) = 1 | Inl _ \<Rightarrow> False)"
  by code_simp

theorem history_cursors_are_refused_witness:
  "\<exists>page c. api_domain_changes sample_api ''c.com'' \<lparr>pq_cursor = None, pq_limit = Some 1\<rparr> sample_pub = Inr page
     \<and> pp_next_cursor page = Some c
     \<and> api_domain_changes sample_api ''c.com'' \<lparr>pq_cursor = Some c, pq_limit = Some 1\<rparr> sample_pub = Inl ApiValidation"
proof -
  have "CHR '' '' \<in> set (pe_display (ae_pub sample_api) t)" for t
    by (simp add: sample_api_def sample_pub_env_def)
  moreover obtain page c where "api_domain_changes sample_api ''c.com'' \<lparr>pq_cursor = None, pq_limit = Some 1\<rparr> sample_pub = Inr page"
    "pp_next_cursor page = Some c"
    using sample_changes_page by (auto split: sum.splits)
  ultimately show ?thesis using history_cursors_are_refused [of sample_api] by blast
qed

lemma rbind_InrE: "rbind r f = Inr y \<Longrightarrow> (\<And>x. r = Inr x \<Longrightarrow> f x = Inr y \<Longrightarrow> Q) \<Longrightarrow> Q"
  by auto

lemma if_InrE: "(if b then Inl e else r) = Inr y \<Longrightarrow> (\<not> b \<Longrightarrow> r = Inr y \<Longrightarrow> Q) \<Longrightarrow> Q"
  by (auto split: if_splits)

lemma Inr_InrE: "Inr x = Inr y \<Longrightarrow> (x = y \<Longrightarrow> Q) \<Longrightarrow> Q"
  by simp

lemma page_limit_bounds: "page_limit limit = Inr n \<Longrightarrow> 1 \<le> n \<and> n \<le> 100"
  by (auto simp: page_limit_def MAX_PAGE_SIZE_def Let_def split: if_splits)

lemma valid_slug_char: "api_valid_slug s \<Longrightarrow> c \<in> set s \<Longrightarrow> is_ascii_lowercase c \<or> is_ascii_digit c \<or> c = CHR ''-''"
  by (auto simp: api_valid_slug_def list_all_iff)

lemma replace_char_absent: "c \<notin> set s \<Longrightarrow> replace_char c r s = s"
  by (induction s) (auto simp: replace_char_def)

lemma escape_plain: "QUOTE \<notin> set s \<Longrightarrow> BACKSLASH \<notin> set s \<Longrightarrow> escape_filter s = s"
  by (simp add: escape_filter_def replace_char_absent)

lemma escape_valid_slug: "api_valid_slug s \<Longrightarrow> escape_filter s = s"
  by (rule escape_plain)
     (auto dest!: valid_slug_char simp: QUOTE_def BACKSLASH_def is_ascii_lowercase_def is_ascii_digit_def byte_val_def)

lemma escape_country: "list_all is_ascii_uppercase s \<Longrightarrow> escape_filter s = s"
  by (rule escape_plain) (auto simp: list_all_iff QUOTE_def BACKSLASH_def is_ascii_uppercase_def byte_val_def)

lemma validate_slugs_Inr [simp]: "validate_slugs vs = Inr ws \<longleftrightarrow> ws = vs \<and> length vs \<le> 20 \<and> list_all api_valid_slug vs"
  by (auto simp: validate_slugs_def list_all_iff list_ex_iff)

lemma validate_countries_Inr [simp]:
  "validate_countries vs = Inr ws \<longleftrightarrow> ws = vs \<and> length vs \<le> 20 \<and> list_all (\<lambda>v. length v = 2 \<and> list_all is_ascii_uppercase v) vs"
  by (auto simp: validate_countries_def list_all_iff list_ex_iff)

text \<open>
  C40: whatever query string a client sends, a search that reaches the index asks for 1 to 100 hits from an offset of
  at most 10000, with a trimmed text of 1 to 200 bytes or none, at most 20 technologies, categories and countries each,
  and filters that contain the client's values literally: none of them needs escaping, so at most 62 filters
  are sent.
\<close>

theorem search_requests_are_bounded:
  assumes "search_request A raw_query = Inr q"
  shows "1 \<le> dsq_limit q \<and> dsq_limit q \<le> 100 \<and> dsq_offset q \<le> 10000
    \<and> (\<forall>s. dsq_query q = Some s \<longrightarrow> s \<noteq> [] \<and> length s \<le> 200 \<and> trim s = s)
    \<and> length (search_filters q) \<le> 62
    \<and> (\<forall>v \<in> set (dsq_technology_slugs q) \<union> set (dsq_category_slugs q) \<union> set (dsq_country_codes q). escape_filter v = v \<and> length v \<le> 64)"
  using assms unfolding search_request_def Let_def
proof (elim rbind_InrE if_InrE Inr_InrE, hypsubst_thin, unfold domain_search_query.select_convs)
  fix query limit sort technologies categories countries since
  let ?q = "\<lparr>dsq_query = map_option trim (option_filter (\<lambda>v. trim v \<noteq> []) (sq_q query)), dsq_technology_slugs = technologies,
      dsq_category_slugs = categories, dsq_country_codes = countries, dsq_crawled_since = since,
      dsq_min_confidence = sq_min_confidence query, dsq_limit = limit, dsq_offset = unwrap_or 0 (sq_offset query), dsq_sort = sort\<rparr>"
  assume l: "page_limit (sq_limit query) = Inr limit" and off: "\<not> 10000 < unwrap_or 0 (sq_offset query)"
    and words: "\<not> (case map_option trim (option_filter (\<lambda>v. trim v \<noteq> []) (sq_q query)) of None \<Rightarrow> False | Some v \<Rightarrow> 200 < length v)"
    and lists: "validate_slugs (unwrap_or [] (sq_technology query)) = Inr technologies"
      "validate_slugs (unwrap_or [] (sq_category query)) = Inr categories"
      "validate_countries (unwrap_or [] (sq_country query)) = Inr countries"
  have "length (search_filters ?q) \<le> 62"
    using lists by (auto simp: search_filters_def split: option.split)
  moreover have "escape_filter v = v \<and> length v \<le> 64" if "v \<in> set technologies \<union> set categories \<union> set countries" for v
    using that lists by (auto simp: list_all_iff escape_valid_slug escape_country api_valid_slug_def [of v])
  ultimately show "1 \<le> limit \<and> limit \<le> 100 \<and> unwrap_or 0 (sq_offset query) \<le> 10000
    \<and> (\<forall>s. map_option trim (option_filter (\<lambda>v. trim v \<noteq> []) (sq_q query)) = Some s \<longrightarrow> s \<noteq> [] \<and> length s \<le> 200 \<and> trim s = s)
    \<and> length (search_filters ?q) \<le> 62
    \<and> (\<forall>v \<in> set technologies \<union> set categories \<union> set countries. escape_filter v = v \<and> length v \<le> 64)"
    using page_limit_bounds [OF l] off words by (auto split: option.splits)
qed

lemma sample_search_request: "is_ok (search_request sample_api (Some ''nginx''))"
  by code_simp

theorem search_requests_are_bounded_witness:
  "\<exists>q. search_request sample_api (Some ''nginx'') = Inr q \<and> dsq_limit q \<le> 100 \<and> length (search_filters q) \<le> 62"
  using sample_search_request search_requests_are_bounded [of sample_api "Some ''nginx''"] by (auto simp: is_ok_iff)

end
