(* ===== verification/Rule_Admin.thy ===== *)
theory Rule_Admin
  imports Detector
begin

text \<open>
  The administrator's checks of a detection rule (\<^verbatim>\<open>apps/api/src/admin_operations.rs\<close>): the validation of a draft
  definition and its trial on fixture signals.  The properties relate them to the detector that evaluates published
  definitions in the workers.
\<close>

section \<open>Errors\<close>

datatype admin_api_error =
    AaUnauthorized | AaForbidden | AaValidation | AaDuplicate | AaConflict | AaNotFound | AaRateLimited nat | AaUnavailable

definition av :: "'a option \<Rightarrow> (admin_api_error, 'a) result" where
  "av r = ok_or AaValidation r"

lemma av_eq_Inr [simp]: "av r = Inr x \<longleftrightarrow> r = Some x"
  by (simp add: av_def)

lemma av_simps [simp]: "av None = Inl AaValidation" "av (Some x) = Inr x"
  by (simp_all add: av_def)

section \<open>Validation\<close>

record rule_fixture_signal =
  fx_source :: string
  fx_key :: string
  fx_value :: string

definition known_source :: "string \<Rightarrow> bool" where
  "known_source s = (s \<in> {''html'', ''header'', ''script'', ''dns'', ''tls''})"

definition known_matcher :: "string \<Rightarrow> bool" where
  "known_matcher s = (s \<in> {''equals_ignore_case'', ''contains_ignore_case'', ''present''})"

definition within_100 :: "u64 \<Rightarrow> bool" where
  "within_100 n = (1 \<le> n \<and> n \<le> 100)"

definition member_str :: "(string \<times> json) list \<Rightarrow> string \<Rightarrow> string option" where
  "member_str obj name = Option.bind (map_of obj name) as_str"

definition member_u64 :: "(string \<times> json) list \<Rightarrow> string \<Rightarrow> u64 option" where
  "member_u64 obj name = Option.bind (map_of obj name) as_u64"

definition valid_key :: "string \<Rightarrow> bool" where
  "valid_key key = (trim key \<noteq> [] \<and> length key \<le> 128)"

definition validate_signal :: "json \<Rightarrow> (admin_api_error, unit) result" where
  "validate_signal s =
     rbind (av (as_object s)) (\<lambda>obj.
     rbind (av (option_filter known_source (member_str obj ''source''))) (\<lambda>_.
     rbind (av (option_filter valid_key (member_str obj ''key''))) (\<lambda>_.
     rbind (av (option_filter known_matcher (member_str obj ''match''))) (\<lambda>matcher.
     rbind (av (option_filter within_100 (member_u64 obj ''weight''))) (\<lambda>_.
     if matcher \<noteq> ''present''
        \<and> option_filter (\<lambda>v. trim v \<noteq> [] \<and> length v \<le> 2048) (member_str obj ''value'') = None
     then Inl AaValidation else Inr ())))))"

fun validate_signals :: "json list \<Rightarrow> (admin_api_error, unit) result" where
  "validate_signals [] = Inr ()"
| "validate_signals (s # ss) = rbind (validate_signal s) (\<lambda>_. validate_signals ss)"

definition validate_version_evidence :: "'r regex_lib \<Rightarrow> json \<Rightarrow> (admin_api_error, unit) result" where
  "validate_version_evidence rx value =
     rbind (av (as_object value)) (\<lambda>obj.
     rbind (av (option_filter known_source (member_str obj ''source''))) (\<lambda>_.
     rbind (av (option_filter valid_key (member_str obj ''key''))) (\<lambda>_.
     rbind (av (option_filter (\<lambda>p. p \<noteq> [] \<and> length p \<le> 256) (member_str obj ''pattern''))) (\<lambda>pattern.
     rbind (av (rx_new rx pattern)) (\<lambda>regex.
     if rx_captures_len rx regex \<noteq> 2 \<or> length (remdups (map fst obj)) \<noteq> 3 then Inl AaValidation else Inr ())))))"

definition validate_rule_definition :: "'r regex_lib \<Rightarrow> json \<Rightarrow> (admin_api_error, unit) result" where
  "validate_rule_definition rx definition =
     rbind (av (as_object definition)) (\<lambda>obj.
     rbind (av (option_filter within_100 (member_u64 obj ''threshold''))) (\<lambda>_.
     rbind (av (option_filter (\<lambda>signals. signals \<noteq> [] \<and> length signals \<le> 64) (Option.bind (map_of obj ''signals'') as_array))) (\<lambda>signals.
     rbind (validate_signals signals) (\<lambda>_.
     case map_of obj ''version_evidence'' of None \<Rightarrow> Inr () | Some v \<Rightarrow> validate_version_evidence rx v))))"

text \<open>\<open>json_parse\<close> is \<^verbatim>\<open>serde_json::from_str\<close>.\<close>

definition parse_rule_definition :: "(string \<Rightarrow> json option) \<Rightarrow> 'r regex_lib \<Rightarrow> string \<Rightarrow> (admin_api_error, json) result" where
  "parse_rule_definition json_parse rx value =
     (if length value > 32768 then Inl AaValidation
      else
        rbind (av (json_parse value)) (\<lambda>definition.
        rbind (validate_rule_definition rx definition) (\<lambda>_. Inr definition)))"

section \<open>Trial on a fixture\<close>

definition fixture_matches :: "string \<Rightarrow> string \<Rightarrow> string \<Rightarrow> string option \<Rightarrow> rule_fixture_signal \<Rightarrow> bool" where
  "fixture_matches source key matcher expected sig =
     (fx_source sig = source \<and> eq_ignore_ascii_case (fx_key sig) key
      \<and> (if matcher = ''present'' then fx_value sig \<noteq> []
         else if matcher = ''equals_ignore_case''
         then (case expected of None \<Rightarrow> False | Some v \<Rightarrow> eq_ignore_ascii_case (fx_value sig) v)
         else if matcher = ''contains_ignore_case''
         then (case expected of None \<Rightarrow> False | Some v \<Rightarrow> contains_str (to_ascii_lowercase (fx_value sig)) (to_ascii_lowercase v))
         else False))"

fun fixture_confidence :: "json list \<Rightarrow> rule_fixture_signal list \<Rightarrow> u8 \<Rightarrow> (admin_api_error, u8) result" where
  "fixture_confidence [] fixture confidence = Inr confidence"
| "fixture_confidence (s # ss) fixture confidence =
     rbind (av (as_object s)) (\<lambda>obj.
     rbind (av (member_str obj ''source'')) (\<lambda>source.
     rbind (av (member_str obj ''key'')) (\<lambda>key.
     rbind (av (member_str obj ''match'')) (\<lambda>matcher.
     if list_ex (fixture_matches source key matcher (member_str obj ''value'')) fixture
     then rbind (av (Option.bind (member_u64 obj ''weight'') u8_of_u64)) (\<lambda>weight.
          fixture_confidence ss fixture (min (saturating_add confidence weight) 100))
     else fixture_confidence ss fixture confidence))))"

definition evaluate_rule_fixture ::
    "'r regex_lib \<Rightarrow> json \<Rightarrow> rule_fixture_signal list \<Rightarrow> (admin_api_error, u8 \<times> u8) result" where
  "evaluate_rule_fixture rx definition fixture =
     rbind (validate_rule_definition rx definition) (\<lambda>_.
     rbind (av (as_object definition)) (\<lambda>obj.
     rbind (av (Option.bind (member_u64 obj ''threshold'') u8_of_u64)) (\<lambda>threshold.
     rbind (av (Option.bind (map_of obj ''signals'') as_array)) (\<lambda>signals.
     rbind (fixture_confidence signals fixture 0) (\<lambda>confidence.
     Inr (confidence, threshold))))))"

section \<open>The trial predicts the detector\<close>

text \<open>The fixture an administrator would write down for parsed artifacts.\<close>

definition fixture_of :: "parsed_artifacts \<Rightarrow> rule_fixture_signal list" where
  "fixture_of parsed =
     map (\<lambda>e. \<lparr>fx_source = artifact_source_name (ne_source e), fx_key = ne_key e, fx_value = ne_value e\<rparr>) (pa_evidence parsed)"

lemma known_source_name: "known_source s \<Longrightarrow> \<exists>a. s = artifact_source_name a"
  unfolding known_source_def by (metis artifact_source_name.simps emptyE insertE)

lemma artifact_source_name_inject [simp]: "artifact_source_name a = artifact_source_name b \<longleftrightarrow> a = b"
  by (metis Inr_inject parse_source_name)

lemma within_100_u8:
  assumes "within_100 n"
  shows "u8_of_u64 n = Some (ucast n)" "(ucast n :: u8) > 0"
proof -
  have n: "unat n \<le> 100" "unat n > 0"
    using assms by (auto simp: within_100_def word_le_nat_alt)
  then show "u8_of_u64 n = Some (ucast n)"
    by (simp add: u8_of_u64_def word_le_nat_alt)
  show "(ucast n :: u8) > 0"
    using n by (simp add: word_less_nat_alt unsigned_ucast_eq take_bit_eq_mod)
qed

lemma member_u8_within:
  "member_u64 obj name = Some n \<Longrightarrow> within_100 n \<Longrightarrow> member_u8 obj name = Inr (ucast n)"
  by (simp add: member_u8_def member_u64_def within_100_u8)

text \<open>What an accepted signal consists of.\<close>

definition signal_parts :: "json \<Rightarrow> (string \<times> json) list \<Rightarrow> artifact_source \<Rightarrow> string \<Rightarrow> string \<Rightarrow> u64 \<Rightarrow> bool" where
  "signal_parts s obj source key matcher weight \<longleftrightarrow>
     as_object s = Some obj \<and> member_str obj ''source'' = Some (artifact_source_name source)
     \<and> member_str obj ''key'' = Some key \<and> valid_key key
     \<and> member_str obj ''match'' = Some matcher
     \<and> member_u64 obj ''weight'' = Some weight \<and> within_100 weight"

lemma validate_signal_parts:
  assumes "validate_signal s = Inr ()"
  obtains obj source key matcher weight where "signal_parts s obj source key matcher weight"
proof -
  obtain obj name key matcher weight where parts: "as_object s = Some obj" "member_str obj ''source'' = Some name"
      "known_source name" "member_str obj ''key'' = Some key" "valid_key key" "member_str obj ''match'' = Some matcher"
      "member_u64 obj ''weight'' = Some weight" "within_100 weight"
    using assms unfolding validate_signal_def by (auto simp del: split_paired_Ex)
  from known_source_name [OF parts(3)] obtain source where "name = artifact_source_name source" ..
  with parts show thesis by (intro that [of obj source key matcher weight]) (simp add: signal_parts_def)
qed

lemma fixture_item_matches:
  "fixture_matches (artifact_source_name source) key matcher expected
     \<lparr>fx_source = artifact_source_name (ne_source e), fx_key = ne_key e, fx_value = ne_value e\<rparr> \<longleftrightarrow>
   ne_source e = source \<and> eq_ignore_ascii_case (ne_key e) key \<and> matches_dynamic (ne_value e) matcher expected"
  by (cases expected) (simp_all add: fixture_matches_def matches_dynamic_def contains_ignore_case_def)

lemma fixture_of_matches:
  "list_ex (fixture_matches (artifact_source_name source) key matcher expected) (fixture_of parsed) \<longleftrightarrow>
   filter (\<lambda>e. ne_source e = source \<and> eq_ignore_ascii_case (ne_key e) key \<and> matches_dynamic (ne_value e) matcher expected)
     (pa_evidence parsed) \<noteq> []"
  by (auto simp: fixture_of_def list_ex_iff filter_empty_conv fixture_item_matches)

lemma add_matches_cases:
  "add_matches weight matched (c, m) = r \<Longrightarrow>
   (\<exists>e. r = Inl (InvalidDetection e))
   \<or> (\<exists>m'. r = Inr (if matched = [] then c else min (saturating_add c weight) 100, m'))"
proof -
  assume r: "add_matches weight matched (c, m) = r"
  have "collect_results (map to_detection_evidence matched) = Inl e \<Longrightarrow> \<exists>x. e = InvalidDetection x" for e
    by (induction matched) (auto simp: rbind_eq_Inl to_detection_evidence_def map_err_def split: sum.splits)
  then show ?thesis
    using r by (cases "collect_results (map to_detection_evidence matched)") (auto simp: add_matches_def MAX_CONFIDENCE_def)
qed

lemma trial_signals:
  assumes "validate_signals signals = Inr ()"
  shows "\<exists>c'. fixture_confidence signals (fixture_of parsed) c = Inr c'
     \<and> ((\<exists>e. evaluate_active_signals signals parsed (c, m) cov = Inl (InvalidDetection e))
        \<or> (\<exists>m' cov'. evaluate_active_signals signals parsed (c, m) cov = Inr ((c', m'), cov')))"
  using assms
proof (induction signals arbitrary: c m cov)
  case (Cons s signals)
  from Cons.prems obtain obj source key matcher weight where parts: "signal_parts s obj source key matcher weight"
    and rest: "validate_signals signals = Inr ()"
    by (auto elim: validate_signal_parts)
  let ?items = "filter (\<lambda>e. ne_source e = source \<and> eq_ignore_ascii_case (ne_key e) key
      \<and> matches_dynamic (ne_value e) matcher (member_str obj ''value'')) (pa_evidence parsed)"
  let ?c = "if ?items = [] then c else min (saturating_add c (ucast weight)) 100"
  have trial: "fixture_confidence (s # signals) (fixture_of parsed) c = fixture_confidence signals (fixture_of parsed) ?c"
    using parts by (simp add: signal_parts_def fixture_of_matches within_100_u8)
  have detector: "evaluate_active_signals (s # signals) parsed (c, m) cov =
      rbind (add_matches (ucast weight) ?items (c, m)) (\<lambda>st.
        evaluate_active_signals signals parsed st (cov \<and> availability parsed source = Available))"
    using parts member_u8_within [of obj "''weight''" weight]
    by (simp add: signal_parts_def member_str_def valid_key_def Let_def)
  from add_matches_cases [OF refl, of "ucast weight" ?items c m] show ?case
  proof (elim disjE exE)
    fix e assume "add_matches (ucast weight) ?items (c, m) = Inl (InvalidDetection e)"
    with Cons.IH [OF rest, of ?c m cov] show ?thesis unfolding trial detector by auto
  next
    fix m' assume "add_matches (ucast weight) ?items (c, m) = Inr (?c, m')"
    with Cons.IH [OF rest, of ?c m' "cov \<and> availability parsed source = Available"] show ?thesis
      unfolding trial detector by simp
  qed
qed simp

text \<open>An accepted definition: its threshold and its signals are what both sides read.\<close>

lemma validate_rule_parts:
  assumes "validate_rule_definition rx d = Inr ()"
  obtains obj threshold signals where "as_object d = Some obj" "member_u64 obj ''threshold'' = Some threshold"
    "within_100 threshold" "Option.bind (map_of obj ''signals'') as_array = Some signals" "signals \<noteq> []"
    "validate_signals signals = Inr ()"
    "case map_of obj ''version_evidence'' of None \<Rightarrow> True | Some v \<Rightarrow> validate_version_evidence rx v = Inr ()"
  using assms unfolding validate_rule_definition_def
  by (auto split: option.splits)

lemma version_evidence_accepted:
  assumes "validate_version_evidence rx v = Inr ()" "map_of obj ''version_evidence'' = Some v"
  shows "\<exists>version. extract_dynamic_version rx obj parsed = Inr version"
proof -
  obtain ev name key pattern regex where parts: "as_object v = Some ev" "member_str ev ''source'' = Some name"
      "known_source name" "member_str ev ''key'' = Some key" "valid_key key" "member_str ev ''pattern'' = Some pattern"
      "pattern \<noteq> [] \<and> length pattern \<le> 256" "rx_new rx pattern = Some regex" "rx_captures_len rx regex = 2"
    using assms(1) unfolding validate_version_evidence_def by (auto split: if_splits)
  from known_source_name [OF parts(3)] obtain source where "name = artifact_source_name source" ..
  with parts assms(2) show ?thesis
    by (simp add: extract_dynamic_version_def member_str_def valid_key_def)
qed

lemma version_extraction:
  assumes "case map_of obj ''version_evidence'' of None \<Rightarrow> True | Some v \<Rightarrow> validate_version_evidence rx v = Inr ()"
  shows "\<exists>version. extract_dynamic_version rx obj parsed = Inr version"
proof (cases "map_of obj ''version_evidence''")
  case None
  then show ?thesis by (simp add: extract_dynamic_version_def)
next
  case (Some v)
  with assms version_evidence_accepted show ?thesis by fastforce
qed

lemma conclude_error:
  "conclude technology category rule version threshold confidence matched coverage = Inl e \<Longrightarrow> \<exists>x. e = InvalidDetection x"
  by (auto simp: conclude_def rbind_eq_Inl map_err_eq_Inl split: if_splits)

lemma conclude_decides:
  assumes "conclude technology category rule version threshold confidence matched coverage = Inr (d, ob)"
  shows "map_option det_confidence d = (if threshold \<le> confidence then Some (DetectionConfidence confidence) else None)"
  using assms
  by (auto simp: conclude_def Detection_new_def DetectionConfidence_new_def Let_def split: if_splits)

lemma trial_and_detector:
  assumes "validate_rule_definition rx (active_definition rule) = Inr ()"
  shows "\<exists>confidence threshold.
     evaluate_rule_fixture rx (active_definition rule) (fixture_of parsed) = Inr (confidence, threshold)
     \<and> (case evaluate_active_rule rx rule parsed of
          Inl e \<Rightarrow> e \<noteq> InvalidRuleDefinition
        | Inr evaluation \<Rightarrow>
            map_option det_confidence (re_detection evaluation)
              = (if threshold \<le> confidence then Some (DetectionConfidence confidence) else None))"
proof -
  from assms obtain obj threshold signals where parts: "as_object (active_definition rule) = Some obj"
      "member_u64 obj ''threshold'' = Some threshold" "within_100 threshold"
      "Option.bind (map_of obj ''signals'') as_array = Some signals" "signals \<noteq> []"
    and signals: "validate_signals signals = Inr ()"
    and version: "case map_of obj ''version_evidence'' of None \<Rightarrow> True | Some v \<Rightarrow> validate_version_evidence rx v = Inr ()"
    by (rule validate_rule_parts)
  from trial_signals [OF signals, of parsed 0 "[]" True] obtain c
    where c: "fixture_confidence signals (fixture_of parsed) 0 = Inr c"
      and detector: "(\<exists>e. evaluate_active_signals signals parsed (0, []) True = Inl (InvalidDetection e))
        \<or> (\<exists>m' cov'. evaluate_active_signals signals parsed (0, []) True = Inr ((c, m'), cov'))" by blast
  have trial: "evaluate_rule_fixture rx (active_definition rule) (fixture_of parsed) = Inr (c, ucast threshold)"
    using assms parts c by (simp add: evaluate_rule_fixture_def within_100_u8)
  obtain v where "extract_dynamic_version rx obj parsed = Inr v"
    using version_extraction [OF version] by blast
  then have "case evaluate_active_rule rx rule parsed of
          Inl e \<Rightarrow> e \<noteq> InvalidRuleDefinition
        | Inr evaluation \<Rightarrow>
            map_option det_confidence (re_detection evaluation)
              = (if ucast threshold \<le> c then Some (DetectionConfidence c) else None)"
    using detector parts member_u8_within [of obj "''threshold''" threshold]
    by (auto simp: evaluate_active_rule_def rbind_eq_Inl dest!: conclude_error conclude_decides split: sum.splits prod.splits)
  with trial show ?thesis by blast
qed

lemma validated_definition_evaluates:
  "validate_rule_definition rx (active_definition rule) = Inr () \<Longrightarrow>
   evaluate_active_rule rx rule parsed \<noteq> Inl InvalidRuleDefinition"
  using trial_and_detector [of rx rule parsed] by auto

text \<open>
  C30: The trial an administrator runs before publishing a rule predicts the workers.  For a definition the validation
  accepts and any parsed artifacts, the detector never rejects the definition itself (what can still fail are the slugs,
  the version number and the evidence, which are not part of it); the trial on the fixture with the same items succeeds;
  and whenever the detector completes, it reports a detection exactly when the trial's confidence reaches the threshold,
  with that confidence.
\<close>

theorem trial_predicts_detector:
  assumes "validate_rule_definition rx (active_definition rule) = Inr ()"
  shows "\<exists>confidence threshold.
     evaluate_rule_fixture rx (active_definition rule) (fixture_of parsed) = Inr (confidence, threshold)
     \<and> (case evaluate_active_rule rx rule parsed of
          Inl e \<Rightarrow> e \<noteq> InvalidRuleDefinition
        | Inr evaluation \<Rightarrow>
            map_option det_confidence (re_detection evaluation)
              = (if threshold \<le> confidence then Some (DetectionConfidence confidence) else None))"
  using assms by (rule trial_and_detector)

text \<open>A definition with one signal of each matcher, and artifacts with a matching header and a script.\<close>

definition no_regex :: "unit regex_lib" where
  "no_regex = \<lparr>rx_new = (\<lambda>_. None), rx_captures_len = (\<lambda>_. 0), rx_capture = (\<lambda>_ _. None)\<rparr>"

definition sample_definition :: json where
  "sample_definition =
     JObject [(''threshold'', JInt 80),
       (''signals'', JArray
          [JObject [(''source'', JString ''header''), (''key'', JString ''server''), (''match'', JString ''equals_ignore_case''),
                    (''value'', JString ''Caddy''), (''weight'', JInt 50)],
           JObject [(''source'', JString ''script''), (''key'', JString ''src''), (''match'', JString ''present''), (''weight'', JInt 40)]])]"

definition sample_rule :: active_detection_rule where
  "sample_rule = \<lparr>active_technology_slug = ''caddy'', active_technology_category_slug = ''hosting'',
     active_rule_slug = ''caddy-v1'', active_version = 2, active_definition = sample_definition\<rparr>"

definition sample_artifacts :: parsed_artifacts where
  "sample_artifacts = \<lparr>pa_evidence =
       [\<lparr>ne_source = ArtHeader, ne_key = ''Server'', ne_value = ''caddy''\<rparr>,
        \<lparr>ne_source = ArtScript, ne_key = ''src'', ne_value = ''/app.js''\<rparr>],
     pa_availability = (\<lambda>_. Some Available)\<rparr>"

lemma sample_definition_valid: "validate_rule_definition no_regex sample_definition = Inr ()"
proof -
  have trims: "trim ''server'' = ''server''" "trim ''src'' = ''src''" "trim ''Caddy'' = ''Caddy''" by code_simp+
  show ?thesis
    by (simp add: sample_definition_def validate_rule_definition_def validate_signal_def member_str_def member_u64_def
        known_source_def known_matcher_def valid_key_def within_100_def word_le_nat_alt trims)
qed

lemma sample_trial: "evaluate_rule_fixture no_regex sample_definition (fixture_of sample_artifacts) = Inr (90, 80)"
proof -
  have names: "eq_ignore_ascii_case ''Server'' ''server''" "eq_ignore_ascii_case ''caddy'' ''Caddy''"
      "eq_ignore_ascii_case ''src'' ''src''" by code_simp+
  have "fixture_confidence (the (Option.bind (map_of (the (as_object sample_definition)) ''signals'') as_array))
      (fixture_of sample_artifacts) 0 = Inr 90"
    by (simp add: sample_definition_def sample_artifacts_def fixture_of_def fixture_matches_def member_str_def member_u64_def
        u8_of_u64_def saturating_add_def names min_def)
  then show ?thesis
    using sample_definition_valid by (simp add: evaluate_rule_fixture_def sample_definition_def member_u64_def u8_of_u64_def)
qed

theorem trial_predicts_detector_witness:
  "evaluate_rule_fixture no_regex sample_definition (fixture_of sample_artifacts) = Inr (90, 80)
   \<and> map_sum id (map_option det_confidence \<circ> re_detection) (evaluate_active_rule no_regex sample_rule sample_artifacts)
       = Inr (Some (DetectionConfidence 90))"
proof -
  have d: "active_definition sample_rule = sample_definition" by (simp add: sample_rule_def)
  have "is_ok (evaluate_active_rule no_regex sample_rule sample_artifacts)" by code_simp
  then obtain e where "evaluate_active_rule no_regex sample_rule sample_artifacts = Inr e"
    by (cases "evaluate_active_rule no_regex sample_rule sample_artifacts") auto
  with trial_predicts_detector [of no_regex sample_rule sample_artifacts] sample_trial sample_definition_valid show ?thesis
    by (auto simp: d)
qed

end
