(* ===== verification/Rule_Store.thy ===== *)
theory Rule_Store
  imports Rule_Admin Reprocessing
begin

text \<open>
  The life of a detection rule under administration: drafts, their trial, publication as an immutable version, and
  activation (the \<open>AdminDetectionRuleOperations\<close> of \<^verbatim>\<open>database/admin_workflow_repository.rs\<close> and the handlers of
  \<^verbatim>\<open>apps/api/src/admin_operations.rs\<close> that call them).  An operation returns its result and the database it leaves:
  a failed transaction leaves it unchanged, but what follows a commit, or has no transaction, may fail late.
\<close>

section \<open>Tables\<close>

record draft_row =
  dft_rule_id :: uuid
  dft_definition :: json
  dft_updated_by :: string
  dft_updated_at :: instant
  dft_tested_at :: "instant option"

text \<open>
  The catalogue of the store with the drafts; the columns \<open>published_at\<close> of versions and \<open>display_name\<close> of technologies
  are kept beside it.
\<close>

record rule_db =
  rd_store :: store
  rd_drafts :: "draft_row list"
  rd_published_at :: "uuid \<Rightarrow> instant"
  rd_display_name :: "uuid \<Rightarrow> string"

definition is_object :: "json \<Rightarrow> bool" where
  "is_object j = (as_object j \<noteq> None)"

definition draft_check :: "draft_row \<Rightarrow> bool" where
  "draft_check r = (is_object (dft_definition r) \<and> present (dft_updated_by r))"

definition version_check :: "version_row \<Rightarrow> bool" where
  "version_check v = (0 < ver_version v \<and> ver_version v < 2 ^ 15 \<and> is_object (ver_definition v))"

definition insert_version :: "version_row \<Rightarrow> version_row list \<Rightarrow> version_row list option" where
  "insert_version = sql_insert version_check
     (\<lambda>a b. ver_id a = ver_id b \<or> (ver_rule_id a = ver_rule_id b \<and> ver_version a = ver_version b))"

text \<open>The trigger on \<open>detection_rules\<close>: an active version belongs to its rule.\<close>

definition active_version_valid :: "version_row list \<Rightarrow> rule_row \<Rightarrow> bool" where
  "active_version_valid versions r =
     (case rr_active_version_id r of
        None \<Rightarrow> True
      | Some i \<Rightarrow> list_ex (\<lambda>v. ver_id v = i \<and> ver_rule_id v = rr_id r) versions)"

definition audit_rule :: "string \<Rightarrow> string \<Rightarrow> uuid \<Rightarrow> json \<Rightarrow> rule_db \<Rightarrow> rule_db option" where
  "audit_rule actor action rule_id metadata d =
     map_option (\<lambda>core. d\<lparr>rd_store := (rd_store d)\<lparr>st_core := core\<rparr>\<rparr>)
       (insert_audit \<lparr>aud_actor_subject = actor, aud_action = action, aud_domain_id = None,
          aud_resource_kind = ''detection_rule'', aud_resource_id = rule_id, aud_metadata = metadata\<rparr> (st_core (rd_store d)))"

definition in_transaction :: "(admin_operation_error, 'a \<times> rule_db) result \<Rightarrow> rule_db \<Rightarrow> (admin_operation_error, 'a) result \<times> rule_db" where
  "in_transaction r d = (case r of Inl e \<Rightarrow> (Inl e, d) | Inr (x, d') \<Rightarrow> (Inr x, d'))"

section \<open>Reading rules\<close>

record admin_detection_rule_version =
  arv_version :: u16
  arv_definition :: json
  arv_published_at :: instant
  arv_is_active :: bool

record admin_detection_rule =
  adr_rule_slug :: string
  adr_technology_slug :: string
  adr_technology_name :: string
  adr_active_version :: "u16 option"
  adr_draft_definition :: "json option"
  adr_draft_updated_at :: "instant option"
  adr_versions :: "admin_detection_rule_version list"

definition rule_of_slug :: "string \<Rightarrow> rule_db \<Rightarrow> rule_row option" where
  "rule_of_slug slug d = find (\<lambda>r. rr_slug r = slug) (st_rules (rd_store d))"

definition draft_of :: "uuid \<Rightarrow> rule_db \<Rightarrow> draft_row option" where
  "draft_of rule_id d = find (\<lambda>x. dft_rule_id x = rule_id) (rd_drafts d)"

definition versions_of :: "uuid \<Rightarrow> rule_db \<Rightarrow> version_row list" where
  "versions_of rule_id d = filter (\<lambda>v. ver_rule_id v = rule_id) (st_versions (rd_store d))"

definition rule_version_from_row ::
    "rule_db \<Rightarrow> uuid option \<Rightarrow> version_row \<Rightarrow> (admin_operation_error, admin_detection_rule_version) result" where
  "rule_version_from_row d active v =
     rbind (admin (u16_of_i16 (ver_version v))) (\<lambda>version.
     Inr \<lparr>arv_version = version, arv_definition = ver_definition v, arv_published_at = rd_published_at d (ver_id v),
          arv_is_active = (Some (ver_id v) = active)\<rparr>)"

definition rule_by_slug :: "string \<Rightarrow> rule_db \<Rightarrow> (admin_operation_error, admin_detection_rule) result" where
  "rule_by_slug slug d =
     rbind (ok_or AdminNotFound
              (list_first [(r, t). r \<leftarrow> st_rules (rd_store d), rr_slug r = slug,
                                   t \<leftarrow> st_technologies (rd_store d), tech_id t = rr_technology_id r])) (\<lambda>(r, t).
     rbind (collect_results
              (map (rule_version_from_row d (rr_active_version_id r))
                 (rev (sort_key ver_version (versions_of (rr_id r) d))))) (\<lambda>versions.
     Inr \<lparr>adr_rule_slug = rr_slug r, adr_technology_slug = tech_slug t, adr_technology_name = rd_display_name d (tech_id t),
          adr_active_version = map_option arv_version (find arv_is_active versions),
          adr_draft_definition = map_option dft_definition (draft_of (rr_id r) d),
          adr_draft_updated_at = map_option dft_updated_at (draft_of (rr_id r) d),
          adr_versions = versions\<rparr>))"

definition rules :: "env \<Rightarrow> rule_db \<Rightarrow> (admin_operation_error, admin_detection_rule list) result" where
  "rules E d =
     collect_results (map (\<lambda>slug. rule_by_slug slug d) (sort_key (env_collate E) (map rr_slug (st_rules (rd_store d)))))"

section \<open>Drafts\<close>

definition upsert_draft :: "draft_row \<Rightarrow> rule_db \<Rightarrow> rule_db option" where
  "upsert_draft row d =
     (if \<not> draft_check row then None
      else if draft_of (dft_rule_id row) d = None then Some (d\<lparr>rd_drafts := rd_drafts d @ [row]\<rparr>)
      else Some (d\<lparr>rd_drafts := map (\<lambda>x. if dft_rule_id x = dft_rule_id row then row else x) (rd_drafts d)\<rparr>))"

definition save_draft ::
    "string \<Rightarrow> json \<Rightarrow> string \<Rightarrow> instant \<Rightarrow> rule_db \<Rightarrow> (admin_operation_error, admin_detection_rule) result \<times> rule_db" where
  "save_draft slug definition actor now d =
     (case in_transaction
        (rbind (ok_or AdminNotFound (rule_of_slug slug d)) (\<lambda>r.
         rbind (admin (upsert_draft \<lparr>dft_rule_id = rr_id r, dft_definition = definition, dft_updated_by = actor,
                  dft_updated_at = now, dft_tested_at = None\<rparr> d)) (\<lambda>d.
         rbind (admin (audit_rule actor ''detection_rule.draft_saved'' (rr_id r) (JObject []) d)) (\<lambda>d.
         Inr ((), d))))) d of
        (Inl e, d) \<Rightarrow> (Inl e, d)
      | (Inr _, d) \<Rightarrow> (rule_by_slug slug d, d))"

text \<open>No transaction: the mark stays even when the audit record cannot be written.\<close>

definition mark_draft_tested ::
    "string \<Rightarrow> string \<Rightarrow> instant \<Rightarrow> rule_db \<Rightarrow> (admin_operation_error, unit) result \<times> rule_db" where
  "mark_draft_tested slug actor now d =
     (let marked = (\<lambda>x. list_ex (\<lambda>r. rr_id r = dft_rule_id x \<and> rr_slug r = slug) (st_rules (rd_store d)));
          d' = d\<lparr>rd_drafts := map (\<lambda>x. if marked x then x\<lparr>dft_tested_at := Some now\<rparr> else x) (rd_drafts d)\<rparr> in
      if \<not> list_ex marked (rd_drafts d) then (Inl AdminNotFound, d)
      else
        (case rule_of_slug slug d' of
           None \<Rightarrow> (Inl AdminNotFound, d')
         | Some r \<Rightarrow>
             (case audit_rule actor ''detection_rule.draft_tested'' (rr_id r) (JObject []) d' of
                None \<Rightarrow> (Inl AdminUnavailable, d')
              | Some d' \<Rightarrow> (Inr (), d'))))"

section \<open>Publication and activation\<close>

definition rd_fresh :: "env \<Rightarrow> rule_db \<Rightarrow> uuid \<times> rule_db" where
  "rd_fresh E d = (case fresh_uuid E (rd_store d) of (i, st) \<Rightarrow> (i, d\<lparr>rd_store := st\<rparr>))"

text \<open>
  \<open>COALESCE(MAX(version), 0) + 1\<close>, an \<open>INTEGER\<close> since the literals are; \<open>read_i16\<close> is what the database driver gives when
  the program asks for it as an \<open>i16\<close>.
\<close>

definition next_version :: "uuid \<Rightarrow> rule_db \<Rightarrow> int" where
  "next_version rule_id d = foldr max (map ver_version (versions_of rule_id d)) 0 + 1"

definition publish_transaction ::
    "env \<Rightarrow> (int \<Rightarrow> int option) \<Rightarrow> string \<Rightarrow> string \<Rightarrow> instant \<Rightarrow> rule_db \<Rightarrow> (admin_operation_error, int \<times> rule_db) result" where
  "publish_transaction E read_i16 slug actor now d =
     rbind (ok_or AdminNotFound
              (list_first [(r, x). r \<leftarrow> st_rules (rd_store d), rr_slug r = slug,
                                   x \<leftarrow> rd_drafts d, dft_rule_id x = rr_id r \<and> dft_tested_at x \<noteq> None])) (\<lambda>(r, x).
     rbind (admin (read_i16 (next_version (rr_id r) d))) (\<lambda>version.
     let (i, d) = rd_fresh E d in
     rbind (admin (insert_version \<lparr>ver_id = i, ver_rule_id = rr_id r, ver_version = version, ver_definition = dft_definition x\<rparr>
              (st_versions (rd_store d)))) (\<lambda>versions.
     let d = d\<lparr>rd_store := (rd_store d)\<lparr>st_versions := versions\<rparr>, rd_published_at := (rd_published_at d)(i := now),
               rd_drafts := filter (\<lambda>y. dft_rule_id y \<noteq> rr_id r) (rd_drafts d)\<rparr> in
     rbind (admin (audit_rule actor ''detection_rule.published'' (rr_id r) (JObject [(''version'', JInt version)]) d)) (\<lambda>d.
     Inr (version, d)))))"

definition publish_draft ::
    "env \<Rightarrow> (int \<Rightarrow> int option) \<Rightarrow> string \<Rightarrow> string \<Rightarrow> instant \<Rightarrow> rule_db \<Rightarrow>
     (admin_operation_error, admin_detection_rule_version) result \<times> rule_db" where
  "publish_draft E read_i16 slug actor now d =
     (case in_transaction (publish_transaction E read_i16 slug actor now d) d of
        (Inl e, d) \<Rightarrow> (Inl e, d)
      | (Inr version, d) \<Rightarrow>
          (rbind (admin (u16_of_i16 version)) (\<lambda>version.
           rbind (rule_by_slug slug d) (\<lambda>rule.
           rbind (admin (map_option arv_definition (find (\<lambda>v. arv_version v = version) (adr_versions rule)))) (\<lambda>definition.
           Inr \<lparr>arv_version = version, arv_definition = definition, arv_published_at = now, arv_is_active = False\<rparr>))), d))"

definition set_active_transaction ::
    "string \<Rightarrow> u16 option \<Rightarrow> string \<Rightarrow> rule_db \<Rightarrow> (admin_operation_error, unit \<times> rule_db) result" where
  "set_active_transaction slug version actor d =
     rbind (ok_or AdminNotFound (rule_of_slug slug d)) (\<lambda>r.
     rbind (case version of
              None \<Rightarrow> Inr None
            | Some w \<Rightarrow>
                rbind (ok_or AdminValidation (i16_try_from w)) (\<lambda>n.
                rbind (ok_or AdminNotFound (find (\<lambda>v. ver_version v = n) (versions_of (rr_id r) d))) (\<lambda>v.
                Inr (Some (ver_id v))))) (\<lambda>active.
     rbind (admin (sql_update (active_version_valid (st_versions (rd_store d))) (\<lambda>_. False) (\<lambda>q. rr_id q = rr_id r)
              (\<lambda>q. q\<lparr>rr_active_version_id := active\<rparr>) (st_rules (rd_store d)))) (\<lambda>rows.
     rbind (admin (audit_rule actor (if version = None then ''detection_rule.deactivated'' else ''detection_rule.activated'')
              (rr_id r) (JObject [(''version'', case version of None \<Rightarrow> JNull | Some w \<Rightarrow> JInt (uint w))])
              (d\<lparr>rd_store := (rd_store d)\<lparr>st_rules := rows\<rparr>\<rparr>))) (\<lambda>d.
     Inr ((), d)))))"

definition set_active_version ::
    "string \<Rightarrow> u16 option \<Rightarrow> string \<Rightarrow> rule_db \<Rightarrow> (admin_operation_error, unit) result \<times> rule_db" where
  "set_active_version slug version actor d = in_transaction (set_active_transaction slug version actor d) d"

section \<open>The trial handler\<close>

fun map_operation :: "admin_operation_error \<Rightarrow> admin_api_error" where
  "map_operation AdminNotFound = AaNotFound"
| "map_operation AdminValidation = AaValidation"
| "map_operation AdminConflict = AaConflict"
| "map_operation AdminUnavailable = AaUnavailable"

record rule_fixture_test_response =
  rft_passed :: bool
  rft_confidence :: u8
  rft_threshold :: u8

text \<open>What the handler reads and computes before it writes.\<close>

definition trial_of ::
    "env \<Rightarrow> 'r regex_lib \<Rightarrow> string \<Rightarrow> rule_fixture_signal list \<Rightarrow> rule_db \<Rightarrow> (admin_api_error, u8 \<times> u8) result" where
  "trial_of E rx slug signals d =
     (if length signals > 128 then Inl AaValidation
      else
        rbind (map_err map_operation (rules E d)) (\<lambda>all.
        rbind (ok_or AaNotFound (find (\<lambda>r. adr_rule_slug r = slug) all)) (\<lambda>rule.
        rbind (ok_or AaConflict (adr_draft_definition rule)) (\<lambda>definition.
        evaluate_rule_fixture rx definition signals))))"

text \<open>\<open>others\<close> is what other requests do to the database between the handler's reading and its marking.\<close>

definition test_rule_draft ::
    "env \<Rightarrow> 'r regex_lib \<Rightarrow> (rule_db \<Rightarrow> rule_db) \<Rightarrow> string \<Rightarrow> rule_fixture_signal list \<Rightarrow> string \<Rightarrow> instant \<Rightarrow> rule_db \<Rightarrow>
     (admin_api_error, rule_fixture_test_response) result \<times> rule_db" where
  "test_rule_draft E rx others slug signals subject now d =
     (case trial_of E rx slug signals d of
        Inl e \<Rightarrow> (Inl e, others d)
      | Inr (confidence, threshold) \<Rightarrow>
          (let response = \<lparr>rft_passed = (confidence \<ge> threshold), rft_confidence = confidence, rft_threshold = threshold\<rparr>;
               d = others d in
           if confidence \<ge> threshold
           then (case mark_draft_tested slug subject now d of
                   (Inl e, d) \<Rightarrow> (Inl (map_operation e), d)
                 | (Inr _, d) \<Rightarrow> (Inr response, d))
           else (Inr response, d)))"

section \<open>Requests in any order\<close>

text \<open>
  The statements the handlers issue, one at a time and from any number of administrators; the second component holds
  the rules whose trial has passed in a handler that has not yet marked the draft.
\<close>

inductive rule_step ::
    "env \<Rightarrow> 'r regex_lib \<Rightarrow> (string \<Rightarrow> json option) \<Rightarrow> (int \<Rightarrow> int option) \<Rightarrow>
     rule_db \<times> string list \<Rightarrow> rule_db \<times> string list \<Rightarrow> bool"
  for E rx json_parse read_i16 where
  save: "parse_rule_definition json_parse rx body = Inr definition \<Longrightarrow>
     rule_step E rx json_parse read_i16 (d, pending) (snd (save_draft slug definition actor now d), pending)"
| trial: "trial_of E rx slug signals d = Inr (confidence, threshold) \<Longrightarrow> threshold \<le> confidence \<Longrightarrow>
     rule_step E rx json_parse read_i16 (d, pending) (d, slug # pending)"
| mark: "slug \<in> set pending \<Longrightarrow>
     rule_step E rx json_parse read_i16 (d, pending) (snd (mark_draft_tested slug actor now d), remove1 slug pending)"
| publish: "rule_step E rx json_parse read_i16 (d, pending) (snd (publish_draft E read_i16 slug actor now d), pending)"
| activate: "rule_step E rx json_parse read_i16 (d, pending) (snd (set_active_version slug version actor d), pending)"

text \<open>Versions outside \<open>V\<close> and all drafts hold definitions that satisfy \<open>ok\<close>.\<close>

definition definitions_ok :: "(json \<Rightarrow> bool) \<Rightarrow> version_row set \<Rightarrow> rule_db \<Rightarrow> bool" where
  "definitions_ok ok V d \<longleftrightarrow>
     (\<forall>v \<in> set (st_versions (rd_store d)). v \<in> V \<or> ok (ver_definition v)) \<and> (\<forall>x \<in> set (rd_drafts d). ok (dft_definition x))"

lemma audit_rule_keeps:
  "audit_rule actor action i m d = Some d' \<Longrightarrow>
     st_versions (rd_store d') = st_versions (rd_store d) \<and> rd_drafts d' = rd_drafts d"
  by (auto simp: audit_rule_def)

lemma definitions_ok_audit:
  "audit_rule actor action i m d = Some d' \<Longrightarrow> definitions_ok ok V d' = definitions_ok ok V d"
  by (auto simp: definitions_ok_def dest!: audit_rule_keeps)

lemma definitions_ok_transaction:
  "definitions_ok ok V d \<Longrightarrow> (\<And>x d'. r = Inr (x, d') \<Longrightarrow> definitions_ok ok V d') \<Longrightarrow> definitions_ok ok V (snd (in_transaction r d))"
  by (auto simp: in_transaction_def split: sum.splits)

lemma upsert_draft_ok:
  "upsert_draft row d = Some d' \<Longrightarrow> ok (dft_definition row) \<Longrightarrow> definitions_ok ok V d \<Longrightarrow> definitions_ok ok V d'"
  by (auto simp: upsert_draft_def definitions_ok_def split: if_splits)

lemma snd_after_transaction:
  "snd (case in_transaction r d of (Inl e, d) \<Rightarrow> (Inl e, d) | (Inr x, d) \<Rightarrow> (f x d, d)) = snd (in_transaction r d)"
  by (auto split: prod.splits sum.splits)

lemma save_draft_ok:
  assumes "ok definition" "definitions_ok ok V d"
  shows "definitions_ok ok V (snd (save_draft slug definition actor now d))"
  unfolding save_draft_def snd_after_transaction
proof (rule definitions_ok_transaction [OF assms(2)])
  fix x d'
  assume "rbind (ok_or AdminNotFound (rule_of_slug slug d)) (\<lambda>r.
      rbind (admin (upsert_draft \<lparr>dft_rule_id = rr_id r, dft_definition = definition, dft_updated_by = actor,
               dft_updated_at = now, dft_tested_at = None\<rparr> d)) (\<lambda>d.
      rbind (admin (audit_rule actor ''detection_rule.draft_saved'' (rr_id r) (JObject []) d)) (\<lambda>d. Inr ((), d)))) = Inr (x, d')"
  then show "definitions_ok ok V d'"
    using assms upsert_draft_ok [where ok = ok and V = V] by (auto simp: admin_def definitions_ok_audit)
qed

lemma mark_draft_ok:
  assumes "definitions_ok ok V d"
  shows "definitions_ok ok V (snd (mark_draft_tested slug actor now d))"
proof -
  have "definitions_ok ok V (d\<lparr>rd_drafts := map (\<lambda>x. if c x then x\<lparr>dft_tested_at := Some now\<rparr> else x) (rd_drafts d)\<rparr>)" for c
    using assms by (auto simp: definitions_ok_def)
  then show ?thesis
    using assms by (auto simp: mark_draft_tested_def Let_def definitions_ok_audit split: option.splits)
qed

lemma list_first_in: "list_first xs = Some x \<Longrightarrow> x \<in> set xs"
  by (cases xs) (auto simp: list_first_def)

lemma publish_ok:
  assumes "definitions_ok ok V d" "publish_transaction E read_i16 slug actor now d = Inr (version, d')"
  shows "definitions_ok ok V d'"
proof -
  obtain r x where x: "x \<in> set (rd_drafts d)"
    and new: "\<forall>v \<in> set (st_versions (rd_store d')). v \<in> set (st_versions (rd_store d)) \<or> ver_definition v = dft_definition x"
    and drafts: "rd_drafts d' = filter (\<lambda>y. dft_rule_id y \<noteq> rr_id (r :: rule_row)) (rd_drafts d)"
    using assms(2)
    by (auto simp: publish_transaction_def admin_def rd_fresh_def fresh_uuid_def insert_version_def sql_simps Let_def
        dest!: list_first_in audit_rule_keeps split: prod.splits)
  then show ?thesis
    using assms(1) by (auto simp: definitions_ok_def)
qed

lemma set_active_ok:
  assumes "definitions_ok ok V d" "set_active_transaction slug version actor d = Inr (u, d')"
  shows "definitions_ok ok V d'"
  using assms by (auto simp: set_active_transaction_def admin_def definitions_ok_def dest!: audit_rule_keeps)

lemma rule_step_ok:
  assumes "rule_step E rx json_parse read_i16 s s'"
    and "definitions_ok (\<lambda>def. validate_rule_definition rx def = Inr ()) V (fst s)"
  shows "definitions_ok (\<lambda>def. validate_rule_definition rx def = Inr ()) V (fst s')"
  using assms
proof cases
  case (save body defn d pending slug actor now)
  then have "validate_rule_definition rx defn = Inr ()"
    by (auto simp: parse_rule_definition_def split: if_splits)
  with save assms(2) show ?thesis by (simp add: save_draft_ok)
next
  case (publish d pending slug actor now)
  with assms(2) show ?thesis
    unfolding publish_draft_def snd_after_transaction by (auto intro: definitions_ok_transaction publish_ok)
next
  case (activate d pending slug version actor)
  with assms(2) show ?thesis
    unfolding set_active_version_def by (auto intro: definitions_ok_transaction set_active_ok)
qed (use assms(2) in \<open>auto simp: mark_draft_ok\<close>)

text \<open>
  C31: No published rule stops the workers.  Start from any catalogue without drafts and let administrators save, try,
  publish and activate in any order, interleaved statement by statement: every version published on the way holds a
  definition on which the workers' evaluation never fails as an invalid definition, whatever artifacts it is given.
\<close>

theorem published_rules_evaluate:
  assumes "(rule_step E rx json_parse read_i16)\<^sup>*\<^sup>* (d, []) (d', pending)" and "rd_drafts d = []"
    and "v \<in> set (st_versions (rd_store d'))" "v \<notin> set (st_versions (rd_store d))"
    and "active_definition rule = ver_definition v"
  shows "evaluate_active_rule rx rule parsed \<noteq> Inl InvalidRuleDefinition"
proof -
  have "definitions_ok (\<lambda>def. validate_rule_definition rx def = Inr ()) (set (st_versions (rd_store d))) (fst (d', pending))"
    using assms(1)
  proof (induction rule: rtranclp_induct)
    case base
    show ?case using assms(2) by (simp add: definitions_ok_def)
  next
    case (step s s')
    then show ?case using rule_step_ok by blast
  qed
  then have "validate_rule_definition rx (active_definition rule) = Inr ()"
    using assms(3-5) by (auto simp: definitions_ok_def)
  then show ?thesis by (rule validated_definition_evaluates)
qed

lemma find_map_keeping:
  "(\<And>x. P (f x) = P x) \<Longrightarrow> find P (map f xs) = map_option f (find P xs)"
  by (induction xs) auto

lemma find_append_None: "find P xs = None \<Longrightarrow> find P (xs @ ys) = find P ys"
  by (induction xs) (auto split: if_splits)

lemma upsert_draft_stores:
  assumes "upsert_draft row d = Some d'"
  shows "draft_of (dft_rule_id row) d' = Some row \<and> rd_store d' = rd_store d"
proof (cases "draft_of (dft_rule_id row) d")
  case None
  with assms show ?thesis by (auto simp: upsert_draft_def draft_of_def find_append_None split: if_splits)
next
  case (Some x)
  let ?f = "\<lambda>y. if dft_rule_id y = dft_rule_id row then row else y"
  have "find (\<lambda>y. dft_rule_id y = dft_rule_id row) (map ?f (rd_drafts d)) = map_option ?f (draft_of (dft_rule_id row) d)"
    unfolding draft_of_def by (rule find_map_keeping) auto
  also have "\<dots> = Some row"
    using Some by (auto simp: draft_of_def find_Some_iff)
  finally show ?thesis
    using assms Some by (auto simp: upsert_draft_def draft_of_def split: if_splits)
qed

lemma save_draft_stores:
  assumes "save_draft slug defn editor t d = (Inr saved, d1)"
  obtains r where "rule_of_slug slug d1 = Some r"
    "draft_of (rr_id r) d1 = Some \<lparr>dft_rule_id = rr_id r, dft_definition = defn, dft_updated_by = editor,
       dft_updated_at = t, dft_tested_at = None\<rparr>"
proof -
  let ?row = "\<lambda>r. \<lparr>dft_rule_id = rr_id r, dft_definition = defn, dft_updated_by = editor, dft_updated_at = t, dft_tested_at = None\<rparr>"
  from assms obtain r d' where r: "rule_of_slug slug d = Some r" and u: "upsert_draft (?row r) d = Some d'"
    and a: "audit_rule editor ''detection_rule.draft_saved'' (rr_id r) (JObject []) d' = Some d1"
    by (auto simp: save_draft_def in_transaction_def admin_def split: sum.splits prod.splits)
  have "rd_drafts d1 = rd_drafts d'" "st_rules (rd_store d1) = st_rules (rd_store d')"
    using a by (auto simp: audit_rule_def)
  with r upsert_draft_stores [OF u] show ?thesis
    by (intro that [of r]) (simp_all add: rule_of_slug_def draft_of_def)
qed

lemma mark_draft_stores:
  assumes r: "rule_of_slug slug d = Some r" and x: "draft_of (rr_id r) d = Some x" and actor: "btrim actor \<noteq> []"
  obtains d' where "mark_draft_tested slug actor now d = (Inr (), d')" "rule_of_slug slug d' = Some r"
    "draft_of (rr_id r) d' = Some (x\<lparr>dft_tested_at := Some now\<rparr>)"
proof -
  define marked where "marked x = list_ex (\<lambda>r. rr_id r = dft_rule_id x \<and> rr_slug r = slug) (st_rules (rd_store d))"
    for x :: draft_row
  define d1 where "d1 = d\<lparr>rd_drafts := map (\<lambda>x. if marked x then x\<lparr>dft_tested_at := Some now\<rparr> else x) (rd_drafts d)\<rparr>"
  have x': "x \<in> set (rd_drafts d)" "dft_rule_id x = rr_id r"
    using x by (auto simp: draft_of_def find_Some_iff)
  moreover have "r \<in> set (st_rules (rd_store d))" "rr_slug r = slug"
    using r by (auto simp: rule_of_slug_def find_Some_iff)
  ultimately have "marked x" by (auto simp: marked_def list_ex_iff)
  with x' have m: "marked x" "list_ex marked (rd_drafts d)" by (auto simp: list_ex_iff)
  have r1: "rule_of_slug slug d1 = Some r" using r by (simp add: rule_of_slug_def d1_def)
  have "draft_of (rr_id r) d1 = map_option (\<lambda>x. if marked x then x\<lparr>dft_tested_at := Some now\<rparr> else x) (draft_of (rr_id r) d)"
    unfolding draft_of_def d1_def by simp (rule find_map_keeping, simp)
  then have x1: "draft_of (rr_id r) d1 = Some (x\<lparr>dft_tested_at := Some now\<rparr>)" using x m(1) by simp
  obtain d' where a: "audit_rule actor ''detection_rule.draft_tested'' (rr_id r) (JObject []) d1 = Some d'"
    using actor by (simp add: audit_rule_def insert_audit_def audit_check_def)
  have "mark_draft_tested slug actor now d = (Inr (), d')"
    using m(2) r1 a by (simp add: mark_draft_tested_def Let_def flip: marked_def d1_def)
  moreover have "rule_of_slug slug d' = Some r" "draft_of (rr_id r) d' = Some (x\<lparr>dft_tested_at := Some now\<rparr>)"
    using r1 x1 a by (auto simp: audit_rule_def rule_of_slug_def draft_of_def)
  ultimately show ?thesis by (rule that)
qed

text \<open>
  C32: A trial can mark a draft it never saw.  The trial handler reads the draft, evaluates it, and then marks whatever
  draft the rule has: when another administrator saves a new definition in between, the handler reports success for
  the old one and marks the new one as tested, ready to be published, whatever its own trial would have said.
\<close>

theorem stale_trial_marks_new_draft:
  assumes "trial_of E rx slug signals d = Inr (confidence, threshold)" "threshold \<le> confidence"
    and "save_draft slug defn editor t1 d = (Inr saved, d1)" and "btrim subject \<noteq> []"
  shows "\<exists>response d2 r x.
     test_rule_draft E rx (\<lambda>d. snd (save_draft slug defn editor t1 d)) slug signals subject t2 d = (Inr response, d2)
     \<and> rft_passed response \<and> rule_of_slug slug d2 = Some r \<and> draft_of (rr_id r) d2 = Some x
     \<and> dft_definition x = defn \<and> dft_tested_at x = Some t2"
proof -
  from assms(3) obtain r where r: "rule_of_slug slug d1 = Some r"
      "draft_of (rr_id r) d1 = Some \<lparr>dft_rule_id = rr_id r, dft_definition = defn, dft_updated_by = editor,
         dft_updated_at = t1, dft_tested_at = None\<rparr>"
    by (rule save_draft_stores)
  obtain d2 where d2: "mark_draft_tested slug subject t2 d1 = (Inr (), d2)" "rule_of_slug slug d2 = Some r"
      "draft_of (rr_id r) d2 = Some \<lparr>dft_rule_id = rr_id r, dft_definition = defn, dft_updated_by = editor,
         dft_updated_at = t1, dft_tested_at = Some t2\<rparr>"
    by (rule mark_draft_stores [OF r assms(4), where now = t2]) simp
  then show ?thesis
    using assms by (simp add: test_rule_draft_def Let_def)
qed

section \<open>A catalogue with one rule\<close>

definition sample_rule_db :: rule_db where
  "sample_rule_db = \<lparr>
     rd_store = \<lparr>st_core = empty_db, st_categories = [\<lparr>cat_id = 1, cat_slug = ''hosting''\<rparr>],
       st_technologies = [\<lparr>tech_id = 2, tech_category_id = 1, tech_slug = ''caddy''\<rparr>],
       st_rules = [\<lparr>rr_id = 4, rr_technology_id = 2, rr_slug = ''caddy-v1'', rr_active_version_id = None\<rparr>],
       st_versions = [], st_snapshots = [], st_countries = [], st_dns = [], st_tls = [], st_artifacts = [],
       st_detections = [], st_evidence = [], st_rule_observations = [], st_current = [], st_changes = [], st_search = []\<rparr>,
     rd_drafts = [], rd_published_at = (\<lambda>_. 0), rd_display_name = (\<lambda>_. ''Caddy'')\<rparr>"

definition sample_drafted :: rule_db where
  "sample_drafted = snd (save_draft ''caddy-v1'' sample_definition ''ops'' 1 sample_rule_db)"

definition sample_tested :: rule_db where
  "sample_tested = snd (mark_draft_tested ''caddy-v1'' ''ops'' 2 sample_drafted)"

definition sample_published :: rule_db where
  "sample_published = snd (publish_draft sample_env Some ''caddy-v1'' ''ops'' 3 sample_tested)"

lemma sample_drafted_rules:
  "rules sample_env sample_drafted = Inr [\<lparr>adr_rule_slug = ''caddy-v1'', adr_technology_slug = ''caddy'',
     adr_technology_name = ''Caddy'', adr_active_version = None, adr_draft_definition = Some sample_definition,
     adr_draft_updated_at = Some 1, adr_versions = []\<rparr>]"
  by code_simp

lemma sample_drafted_trial:
  "trial_of sample_env no_regex ''caddy-v1'' (fixture_of sample_artifacts) sample_drafted = Inr (90, 80)"
  using sample_trial
  by (simp add: trial_of_def sample_drafted_rules fixture_of_def sample_artifacts_def)

theorem published_rules_evaluate_witness:
  "map ver_definition (st_versions (rd_store sample_published)) = [sample_definition]
   \<and> evaluate_active_rule no_regex sample_rule sample_artifacts \<noteq> Inl InvalidRuleDefinition"
proof -
  let ?step = "rule_step sample_env no_regex (\<lambda>_. Some sample_definition) Some"
  have "?step (sample_rule_db, []) (sample_drafted, [])"
    unfolding sample_drafted_def
    by (rule rule_step.save [where body = "[]"]) (simp add: parse_rule_definition_def sample_definition_valid)
  moreover have "?step (sample_drafted, []) (sample_drafted, [''caddy-v1''])"
    by (rule rule_step.trial [OF sample_drafted_trial]) simp
  moreover have "?step (sample_drafted, [''caddy-v1'']) (sample_tested, [])"
    using rule_step.mark [where slug = "''caddy-v1''" and pending = "[''caddy-v1'']"] by (simp add: sample_tested_def)
  moreover have "?step (sample_tested, []) (sample_published, [])"
    unfolding sample_published_def by (rule rule_step.publish)
  ultimately have steps: "?step\<^sup>*\<^sup>* (sample_rule_db, []) (sample_published, [])"
    by (meson rtranclp.rtrancl_into_rtrancl rtranclp.rtrancl_refl)
  have versions: "map ver_definition (st_versions (rd_store sample_published)) = [sample_definition]"
    by code_simp
  then obtain v where "v \<in> set (st_versions (rd_store sample_published))" "ver_definition v = sample_definition"
    by (auto simp: map_eq_Cons_conv)
  with published_rules_evaluate [OF steps, of v sample_rule sample_artifacts] versions show ?thesis
    by (simp add: sample_rule_db_def sample_rule_def)
qed

definition weak_definition :: json where
  "weak_definition =
     JObject [(''threshold'', JInt 100),
       (''signals'', JArray [JObject [(''source'', JString ''script''), (''key'', JString ''src''),
          (''match'', JString ''present''), (''weight'', JInt 10)]])]"

theorem stale_trial_marks_new_draft_witness:
  "\<exists>response d2 r x.
     test_rule_draft sample_env no_regex (\<lambda>d. snd (save_draft ''caddy-v1'' weak_definition ''dev'' 2 d)) ''caddy-v1''
       (fixture_of sample_artifacts) ''ops'' 3 sample_drafted = (Inr response, d2)
     \<and> rft_passed response \<and> rule_of_slug ''caddy-v1'' d2 = Some r \<and> draft_of (rr_id r) d2 = Some x
     \<and> dft_definition x = weak_definition \<and> dft_tested_at x = Some 3"
proof -
  have "is_ok (fst (save_draft ''caddy-v1'' weak_definition ''dev'' 2 sample_drafted))" by code_simp
  then obtain saved where "save_draft ''caddy-v1'' weak_definition ''dev'' 2 sample_drafted =
      (Inr saved, snd (save_draft ''caddy-v1'' weak_definition ''dev'' 2 sample_drafted))"
    by (cases "save_draft ''caddy-v1'' weak_definition ''dev'' 2 sample_drafted") (auto simp: is_ok_def split: sum.splits)
  from stale_trial_marks_new_draft [OF sample_drafted_trial _ this, of "''ops''" 3] show ?thesis
    by (simp add: btrim_def)
qed

end
