(* ===== verification/Admin_Auth.thy ===== *)
theory Admin_Auth
  imports Rule_Admin Public_Api
begin

text \<open>
  Administrator authorisation (\<^verbatim>\<open>apps/api/src/admin_auth.rs\<close>): bearer tokens checked against the identity provider's
  keys, permissions, and the rate limiter per subject.  The JWT and JWK code is a library: decoding a token's header,
  turning a published key into a decoding key and checking a token with it are parameters, as is the provider's reply
  to a request for its keys.
\<close>

section \<open>Principals\<close>

datatype admin_permission = View | Operate

record admin_principal =
  pri_subject :: string
  pri_permissions :: "string list"

definition AdminPrincipal_new :: "string \<Rightarrow> string list \<Rightarrow> admin_principal" where
  "AdminPrincipal_new subject permissions = \<lparr>pri_subject = subject, pri_permissions = dedup (sort permissions)\<rparr>"

fun permits :: "admin_principal \<Rightarrow> admin_permission \<Rightarrow> bool" where
  "permits p View = list_ex (\<lambda>x. x = ''admin:read'' \<or> x = ''admin:operate'') (pri_permissions p)"
| "permits p Operate = list_ex (\<lambda>x. x = ''admin:operate'') (pri_permissions p)"

datatype admin_authorization_error = AuthUnauthorized | AuthForbidden | AuthRateLimited nat | AuthUnavailable

section \<open>The rate limiter\<close>

definition RATE_LIMIT_WINDOW :: int where "RATE_LIMIT_WINDOW = 60 * 1000000000"

definition JWKS_CACHE_TTL :: int where "JWKS_CACHE_TTL = 300 * 1000000000"

record subject_rate_limiter =
  rl_reads_per_minute :: nat
  rl_mutations_per_minute :: nat
  rl_accepted_at :: "string \<rightharpoonup> instant list"

definition SubjectRateLimiter_new :: "u32 \<Rightarrow> u32 \<Rightarrow> subject_rate_limiter" where
  "SubjectRateLimiter_new per_minute mutations =
     \<lparr>rl_reads_per_minute = unat per_minute, rl_mutations_per_minute = unat mutations, rl_accepted_at = Map.empty\<rparr>"

definition limiter_key :: "string \<Rightarrow> bool \<Rightarrow> string" where
  "limiter_key subject mutation = (if mutation then ''mutation'' else ''read'') @ '':'' @ subject"

definition limiter_limit :: "subject_rate_limiter \<Rightarrow> bool \<Rightarrow> nat" where
  "limiter_limit rl mutation = (if mutation then rl_mutations_per_minute rl else rl_reads_per_minute rl)"

definition seconds_ceil :: "int \<Rightarrow> nat" where
  "seconds_ceil duration = max (nat (duration div 1000000000) + (if duration mod 1000000000 > 0 then 1 else 0)) 1"

text \<open>
  \<open>now\<close> is read from the monotonic clock; \<open>duration_since\<close> and \<open>saturating_duration_since\<close> give zero for a later instant.
  The map is updated on every path: expired entries leave the queue before the limit is compared.  Instants are
  unbounded, so that adding the window to one never overflows.
\<close>

definition expired :: "instant \<Rightarrow> instant \<Rightarrow> bool" where
  "expired now at = (max (now - at) 0 \<ge> RATE_LIMIT_WINDOW)"

definition check_rate ::
    "instant \<Rightarrow> string \<Rightarrow> bool \<Rightarrow> subject_rate_limiter \<Rightarrow> (admin_authorization_error, unit) result \<times> subject_rate_limiter" where
  "check_rate now subject mutation rl =
     (let key = limiter_key subject mutation;
          accepted = dropWhile (expired now) (case rl_accepted_at rl key of None \<Rightarrow> [] | Some q \<Rightarrow> q) in
      if length accepted \<ge> limiter_limit rl mutation
      then (Inl (AuthRateLimited
              (case accepted of [] \<Rightarrow> 1 | at # _ \<Rightarrow> seconds_ceil (max (at + RATE_LIMIT_WINDOW - now) 0))),
            rl\<lparr>rl_accepted_at := (rl_accepted_at rl)(key \<mapsto> accepted)\<rparr>)
      else (Inr (), rl\<lparr>rl_accepted_at := (rl_accepted_at rl)(key \<mapsto> accepted @ [now])\<rparr>))"

section \<open>Authentication\<close>

datatype jwt_algorithm = RS256 | OtherAlgorithm

record ('jwk, 'key) jwt_lib =
  jl_decode_header :: "string \<Rightarrow> (jwt_algorithm \<times> string option) option"
  jl_key_id :: "'jwk \<Rightarrow> string option"
  jl_from_jwk :: "'jwk \<Rightarrow> 'key option"
  jl_decode :: "string \<Rightarrow> 'key \<Rightarrow> string \<Rightarrow> string \<Rightarrow> (string \<times> string list) option"

text \<open>The reply to a request for the keys: no answer, or a status with the keys the body holds.\<close>

datatype 'jwk jwks_reply = NoReply | Reply nat "'jwk list option"

record 'jwk cached_jwks =
  cj_value :: "'jwk list"
  cj_expires_at :: instant

text \<open>The clock readings of one authorisation: at the cache, when a reply is stored, at the limiter.\<close>

record clock =
  ck_cache :: instant
  ck_stored :: instant
  ck_limiter :: instant

record 'jwk oidc_authorizer =
  oa_issuer :: string
  oa_audience :: string
  oa_keys :: "'jwk cached_jwks option"
  oa_rate_limiter :: subject_rate_limiter

definition strip_prefix :: "string \<Rightarrow> string \<Rightarrow> string option" where
  "strip_prefix p s = (if take (length p) s = p then Some (drop (length p) s) else None)"

definition bearer_token :: "(string \<Rightarrow> string option) \<Rightarrow> (admin_authorization_error, string) result" where
  "bearer_token headers =
     ok_or AuthUnauthorized
       (option_filter (\<lambda>token. token \<noteq> [])
          (Option.bind (option_filter header_value_ok (headers ''authorization'')) (strip_prefix ''Bearer '')))"

definition refresh_keys ::
    "'jwk jwks_reply \<Rightarrow> instant \<Rightarrow> 'jwk oidc_authorizer \<Rightarrow>
     (admin_authorization_error, 'jwk list) result \<times> 'jwk oidc_authorizer" where
  "refresh_keys reply now oa =
     (case reply of
        NoReply \<Rightarrow> (Inl AuthUnavailable, oa)
      | Reply status body \<Rightarrow>
          if \<not> (200 \<le> status \<and> status < 300) then (Inl AuthUnavailable, oa)
          else (case body of
                  None \<Rightarrow> (Inl AuthUnavailable, oa)
                | Some keys \<Rightarrow>
                    if keys = [] then (Inl AuthUnavailable, oa)
                    else (Inr keys, oa\<lparr>oa_keys := Some \<lparr>cj_value = keys, cj_expires_at = now + JWKS_CACHE_TTL\<rparr>\<rparr>)))"

definition key_with_id :: "('jwk, 'key) jwt_lib \<Rightarrow> string \<Rightarrow> 'jwk list \<Rightarrow> 'jwk option" where
  "key_with_id jl key_id keys = find (\<lambda>key. jl_key_id jl key = Some key_id) keys"

definition cached_key :: "('jwk, 'key) jwt_lib \<Rightarrow> string \<Rightarrow> instant \<Rightarrow> 'jwk oidc_authorizer \<Rightarrow> 'jwk option" where
  "cached_key jl key_id now oa =
     (case oa_keys oa of
        None \<Rightarrow> None
      | Some keys \<Rightarrow> if cj_expires_at keys > now then key_with_id jl key_id (cj_value keys) else None)"

definition key_for ::
    "('jwk, 'key) jwt_lib \<Rightarrow> 'jwk jwks_reply \<Rightarrow> clock \<Rightarrow> string \<Rightarrow> 'jwk oidc_authorizer \<Rightarrow>
     (admin_authorization_error, 'key) result \<times> 'jwk oidc_authorizer" where
  "key_for jl reply ck key_id oa =
     (case cached_key jl key_id (ck_cache ck) oa of
        Some key \<Rightarrow> (ok_or AuthUnauthorized (jl_from_jwk jl key), oa)
      | None \<Rightarrow>
          (case refresh_keys reply (ck_stored ck) oa of
             (Inl e, oa) \<Rightarrow> (Inl e, oa)
           | (Inr keys, oa) \<Rightarrow>
               (rbind (ok_or AuthUnauthorized (key_with_id jl key_id keys)) (\<lambda>key.
                  ok_or AuthUnauthorized (jl_from_jwk jl key)), oa)))"

definition authenticate ::
    "('jwk, 'key) jwt_lib \<Rightarrow> 'jwk jwks_reply \<Rightarrow> clock \<Rightarrow> (string \<Rightarrow> string option) \<Rightarrow> 'jwk oidc_authorizer \<Rightarrow>
     (admin_authorization_error, admin_principal) result \<times> 'jwk oidc_authorizer" where
  "authenticate jl reply ck headers oa =
     (case rbind (bearer_token headers) (\<lambda>token.
           rbind (ok_or AuthUnauthorized (jl_decode_header jl token)) (\<lambda>(alg, kid).
           if alg \<noteq> RS256 then Inl AuthUnauthorized
           else rbind (ok_or AuthUnauthorized kid) (\<lambda>key_id. Inr (token, key_id)))) of
        Inl e \<Rightarrow> (Inl e, oa)
      | Inr (token, key_id) \<Rightarrow>
          (case key_for jl reply ck key_id oa of
             (Inl e, oa) \<Rightarrow> (Inl e, oa)
           | (Inr key, oa) \<Rightarrow>
               (rbind (ok_or AuthUnauthorized (jl_decode jl token key (oa_issuer oa) (oa_audience oa))) (\<lambda>(sub, permissions).
                if trim sub = [] then Inl AuthUnauthorized else Inr (AdminPrincipal_new sub permissions)), oa)))"

definition authorize_admin ::
    "('jwk, 'key) jwt_lib \<Rightarrow> 'jwk jwks_reply \<Rightarrow> clock \<Rightarrow> (string \<Rightarrow> string option) \<Rightarrow> admin_permission \<Rightarrow> 'jwk oidc_authorizer \<Rightarrow>
     (admin_authorization_error, admin_principal) result \<times> 'jwk oidc_authorizer" where
  "authorize_admin jl reply ck headers permission oa =
     (case authenticate jl reply ck headers oa of
        (Inl e, oa) \<Rightarrow> (Inl e, oa)
      | (Inr who, oa) \<Rightarrow>
          if \<not> permits who permission then (Inl AuthForbidden, oa)
          else (case check_rate (ck_limiter ck) (pri_subject who) (permission = Operate) (oa_rate_limiter oa) of
                  (Inl e, rl) \<Rightarrow> (Inl e, oa\<lparr>oa_rate_limiter := rl\<rparr>)
                | (Inr _, rl) \<Rightarrow> (Inr who, oa\<lparr>oa_rate_limiter := rl\<rparr>)))"

section \<open>The limiter over time\<close>

text \<open>A sequence of checks, and the times at which it accepted one kind of request of one subject.\<close>

type_synonym rate_request = "instant \<times> string \<times> bool"

definition run_check_rate :: "rate_request \<Rightarrow> subject_rate_limiter \<Rightarrow> (admin_authorization_error, unit) result \<times> subject_rate_limiter" where
  "run_check_rate req rl = (case req of (now, subject, mutation) \<Rightarrow> check_rate now subject mutation rl)"

fun limiter_after :: "rate_request list \<Rightarrow> subject_rate_limiter \<Rightarrow> subject_rate_limiter" where
  "limiter_after [] rl = rl"
| "limiter_after (req # reqs) rl = limiter_after reqs (snd (run_check_rate req rl))"

fun accepted_times :: "string \<Rightarrow> bool \<Rightarrow> rate_request list \<Rightarrow> subject_rate_limiter \<Rightarrow> instant list" where
  "accepted_times subject mutation [] rl = []"
| "accepted_times subject mutation (req # reqs) rl =
     (if snd req = (subject, mutation) \<and> is_ok (fst (run_check_rate req rl)) then [fst req] else [])
       @ accepted_times subject mutation reqs (snd (run_check_rate req rl))"

definition limiter_queue :: "string \<Rightarrow> bool \<Rightarrow> subject_rate_limiter \<Rightarrow> instant list" where
  "limiter_queue subject mutation rl = (case rl_accepted_at rl (limiter_key subject mutation) of None \<Rightarrow> [] | Some q \<Rightarrow> q)"

lemma limiter_key_inject [simp]: "limiter_key s m = limiter_key s' m' \<longleftrightarrow> s = s' \<and> m = m'"
  by (auto simp: limiter_key_def)

lemma limiter_limit_kept [simp]: "limiter_limit (snd (check_rate now s m rl)) m' = limiter_limit rl m'"
  by (simp add: check_rate_def limiter_limit_def Let_def)

lemma limiter_queue_other:
  "(s, m) \<noteq> (s', m') \<Longrightarrow> limiter_queue s m (snd (check_rate now s' m' rl)) = limiter_queue s m rl"
  by (auto simp: check_rate_def limiter_queue_def Let_def)

lemma check_rate_queue:
  defines "rest now s m rl \<equiv> dropWhile (expired now) (limiter_queue s m rl)"
  shows "is_ok (fst (check_rate now s m rl)) \<longleftrightarrow> length (rest now s m rl) < limiter_limit rl m"
    and "limiter_queue s m (snd (check_rate now s m rl)) =
           (if length (rest now s m rl) < limiter_limit rl m then rest now s m rl @ [now] else rest now s m rl)"
  by (simp_all add: check_rate_def limiter_queue_def rest_def Let_def is_ok_def)

text \<open>Times are spaced when any one and the \<open>n\<close>-th after it are a window apart.\<close>

definition spaced :: "nat \<Rightarrow> instant list \<Rightarrow> bool" where
  "spaced n ts \<longleftrightarrow> (\<forall>i. i + n < length ts \<longrightarrow> ts ! i + RATE_LIMIT_WINDOW \<le> ts ! (i + n))"

lemma spaced_Cons:
  assumes "spaced n (t # ts)"
  shows "spaced n ts"
  unfolding spaced_def
proof (intro allI impI)
  fix i assume "i + n < length ts"
  then show "ts ! i + RATE_LIMIT_WINDOW \<le> ts ! (i + n)"
    using assms [unfolded spaced_def, rule_format, of "Suc i"] by simp
qed

lemma spaced_window:
  "sorted ts \<Longrightarrow> spaced n ts \<Longrightarrow> length (filter (\<lambda>t. w \<le> t \<and> t < w + RATE_LIMIT_WINDOW) ts) \<le> n"
proof (induction ts)
  case (Cons t ts)
  show ?case
  proof (cases "w \<le> t")
    case True
    have "x \<notin> {w..<w + RATE_LIMIT_WINDOW}" if "x \<in> set (drop n (t # ts))" for x
    proof -
      from that obtain i where "i < length (drop n (t # ts))" "x = drop n (t # ts) ! i"
        unfolding in_set_conv_nth by blast
      then have i: "i + n < length (t # ts)" "x = (t # ts) ! (i + n)"
        by (simp_all add: less_diff_conv add.commute)
      moreover have "t \<le> (t # ts) ! i" using Cons.prems(1) i(1) by (cases i) auto
      ultimately show ?thesis using Cons.prems(2) True by (force simp: spaced_def)
    qed
    then have "filter (\<lambda>t. w \<le> t \<and> t < w + RATE_LIMIT_WINDOW) (drop n (t # ts)) = []"
      by (auto simp: filter_empty_conv)
    then have "filter (\<lambda>t. w \<le> t \<and> t < w + RATE_LIMIT_WINDOW) (t # ts)
        = filter (\<lambda>t. w \<le> t \<and> t < w + RATE_LIMIT_WINDOW) (take n (t # ts))"
      by (metis append_take_drop_id filter_append append_Nil2)
    then show ?thesis
      by (metis length_filter_le length_take min.cobounded2 order_trans)
  next
    case False
    with Cons spaced_Cons show ?thesis by auto
  qed
qed simp

text \<open>
  The queue of a subject is what is left of the history of accepted requests after removing entries that have left
  the window.
\<close>

definition history_ok :: "nat \<Rightarrow> instant \<Rightarrow> instant list \<Rightarrow> instant list \<Rightarrow> bool" where
  "history_ok limit now history queue \<longleftrightarrow>
     sorted history \<and> spaced limit history \<and> (\<forall>t \<in> set history. t \<le> now) \<and> length queue \<le> limit
     \<and> (\<exists>gone. history = gone @ queue \<and> (\<forall>t \<in> set gone. t + RATE_LIMIT_WINDOW \<le> now))"

lemma history_ok_later: "history_ok limit now history queue \<Longrightarrow> now \<le> now' \<Longrightarrow> history_ok limit now' history queue"
  unfolding history_ok_def by fastforce

lemma history_ok_drop:
  assumes "history_ok limit now history queue"
  shows "history_ok limit now history (dropWhile (expired now) queue)"
proof -
  from assms obtain gone where gone: "history = gone @ queue" "\<forall>t \<in> set gone. t + RATE_LIMIT_WINDOW \<le> now"
    by (auto simp: history_ok_def)
  have "history = (gone @ takeWhile (expired now) queue) @ dropWhile (expired now) queue"
    using gone(1) by simp
  moreover have "\<forall>t \<in> set (gone @ takeWhile (expired now) queue). t + RATE_LIMIT_WINDOW \<le> now"
    using gone(2) by (auto dest!: set_takeWhileD simp: expired_def RATE_LIMIT_WINDOW_def max_def split: if_splits)
  ultimately show ?thesis
    using assms length_dropWhile_le [of "expired now" queue] unfolding history_ok_def
    by (blast intro: order_trans)
qed

lemma history_ok_push:
  assumes "history_ok limit now history queue" "length queue < limit"
  shows "history_ok limit now (history @ [now]) (queue @ [now])"
proof -
  from assms obtain gone where gone: "history = gone @ queue" "\<forall>t \<in> set gone. t + RATE_LIMIT_WINDOW \<le> now"
    by (auto simp: history_ok_def)
  have "spaced limit (history @ [now])"
    unfolding spaced_def
  proof (intro allI impI)
    fix i assume i: "i + limit < length (history @ [now])"
    show "(history @ [now]) ! i + RATE_LIMIT_WINDOW \<le> (history @ [now]) ! (i + limit)"
    proof (cases "i + limit < length history")
      case True
      with assms(1) show ?thesis by (simp add: history_ok_def spaced_def nth_append)
    next
      case False
      with i assms(2) gone(1) have "i < length gone" "i + limit = length history" by auto
      with gone show ?thesis by (auto simp: nth_append)
    qed
  qed
  with assms gone show ?thesis
    unfolding history_ok_def by (auto simp: sorted_append)
qed

lemma history_ok_check:
  assumes "history_ok (limiter_limit rl m) now history (limiter_queue s m rl)"
  shows "history_ok (limiter_limit rl m) now
     (history @ (if is_ok (fst (check_rate now s m rl)) then [now] else []))
     (limiter_queue s m (snd (check_rate now s m rl)))"
  using history_ok_drop [OF assms] history_ok_push by (simp add: check_rate_queue)

lemma history_ok_run:
  assumes "history_ok (limiter_limit rl m) now history (limiter_queue s m rl)"
    and "sorted (map fst reqs)" "\<forall>req \<in> set reqs. now \<le> fst req"
  shows "\<exists>now'. now' \<in> insert now (fst ` set reqs)
     \<and> history_ok (limiter_limit rl m) now' (history @ accepted_times s m reqs rl) (limiter_queue s m (limiter_after reqs rl))
     \<and> limiter_limit (limiter_after reqs rl) m = limiter_limit rl m"
  using assms
proof (induction reqs arbitrary: rl now history)
  case (Cons req reqs)
  obtain t s' m' where req: "req = (t, s', m')" by (cases req)
  let ?rl = "snd (check_rate t s' m' rl)"
  let ?new = "if (s', m') = (s, m) \<and> is_ok (fst (check_rate t s' m' rl)) then [t] else []"
  have "history_ok (limiter_limit rl m) t history (limiter_queue s m rl)"
    using Cons.prems(1,3) req by (auto intro: history_ok_later)
  then have "history_ok (limiter_limit ?rl m) t (history @ ?new) (limiter_queue s m ?rl)"
    using history_ok_check [of rl m t history s] limiter_queue_other [of s m s' m' t rl]
    by (cases "(s', m') = (s, m)") auto
  then show ?case
    using Cons.IH [of ?rl t "history @ ?new"] Cons.prems(2) req by (auto simp: run_check_rate_def split: if_splits)
qed auto

lemma new_limiter [simp]:
  "limiter_limit (SubjectRateLimiter_new r k) m = (if m then unat k else unat r)"
  "limiter_queue s m (SubjectRateLimiter_new r k) = []"
  by (simp_all add: limiter_limit_def limiter_queue_def SubjectRateLimiter_new_def)

lemma history_ok_new:
  assumes "sorted (map fst reqs)" and "\<forall>req \<in> set reqs. fst req \<le> now"
  shows "history_ok (if m then unat k else unat r) now (accepted_times s m reqs (SubjectRateLimiter_new r k))
     (limiter_queue s m (limiter_after reqs (SubjectRateLimiter_new r k)))"
    and "limiter_limit (limiter_after reqs (SubjectRateLimiter_new r k)) m = (if m then unat k else unat r)"
proof -
  define start where "start = Min (insert now (fst ` set reqs))"
  have "start \<le> now" "\<forall>req \<in> set reqs. start \<le> fst req"
    by (auto simp: start_def)
  moreover have "history_ok (if m then unat k else unat r) start [] (limiter_queue s m (SubjectRateLimiter_new r k))"
    by (simp add: history_ok_def spaced_def)
  ultimately obtain now' where "now' \<in> insert start (fst ` set reqs)"
    and h: "history_ok (if m then unat k else unat r) now' (accepted_times s m reqs (SubjectRateLimiter_new r k))
     (limiter_queue s m (limiter_after reqs (SubjectRateLimiter_new r k)))"
    and l: "limiter_limit (limiter_after reqs (SubjectRateLimiter_new r k)) m = (if m then unat k else unat r)"
    using history_ok_run [of "SubjectRateLimiter_new r k" m start "[]" s reqs] assms(1) by auto
  then have "now' \<le> now" using assms(2) \<open>start \<le> now\<close> by auto
  with h show "history_ok (if m then unat k else unat r) now (accepted_times s m reqs (SubjectRateLimiter_new r k))
     (limiter_queue s m (limiter_after reqs (SubjectRateLimiter_new r k)))"
    by (rule history_ok_later)
  show "limiter_limit (limiter_after reqs (SubjectRateLimiter_new r k)) m = (if m then unat k else unat r)" by (rule l)
qed

lemma seconds_ceil_covers: "d \<le> int (seconds_ceil d) * 1000000000"
proof -
  define q r where "q = d div 1000000000" and "r = d mod 1000000000"
  have d: "d = q * 1000000000 + r" "0 \<le> r" "r < 1000000000" by (simp_all add: q_def r_def)
  have "q + (if r > 0 then 1 else 0) \<le> int (seconds_ceil d)"
    by (auto simp: seconds_ceil_def q_def r_def)
  then show ?thesis using d by (auto split: if_splits)
qed

text \<open>A refused request leaves a queue whose head expires within the announced time.\<close>

lemma wait_admits:
  assumes "length (limiter_queue s m rl) \<le> limiter_limit rl m" "0 < limiter_limit rl m"
    and "check_rate now s m rl = (Inl (AuthRateLimited n), rl')" "now + int n * 1000000000 \<le> later"
  shows "is_ok (fst (check_rate later s m rl'))"
proof -
  define rest where "rest = dropWhile (expired now) (limiter_queue s m rl)"
  have full: "limiter_limit rl m \<le> length rest"
    using check_rate_queue(1) [of now s m rl] assms(3) by (simp add: rest_def is_ok_def)
  have queue: "limiter_queue s m rl' = rest" "limiter_limit rl' m = limiter_limit rl m"
    using check_rate_queue(2) [of s m now rl] limiter_limit_kept [of now s m rl m] assms(3) full by (simp_all add: rest_def)
  from full assms(2) obtain at ats where at: "rest = at # ats" by (cases rest) auto
  then have n: "n = seconds_ceil (max (at + RATE_LIMIT_WINDOW - now) 0)"
    using assms(3) full by (auto simp: check_rate_def Let_def rest_def limiter_queue_def split: if_splits option.splits)
  have "at + RATE_LIMIT_WINDOW - now \<le> int n * 1000000000"
    using seconds_ceil_covers [of "max (at + RATE_LIMIT_WINDOW - now) 0"] unfolding n by simp
  with assms(4) have "expired later at" by (simp add: expired_def)
  then have "length (dropWhile (expired later) rest) \<le> length ats"
    by (simp add: at length_dropWhile_le)
  also have "length ats < limiter_limit rl m"
    using assms(1) length_dropWhile_le [of "expired now" "limiter_queue s m rl"] at by (simp add: rest_def)
  finally show ?thesis by (simp add: check_rate_queue queue)
qed

text \<open>
  C33: The rate limiter keeps its word.  Over any sequence of checks at non-decreasing times, the requests accepted for
  one subject and one kind (reads or mutations) in any window of sixty seconds number at most the configured limit,
  whatever other subjects do.  And a refusal's retry time is enough: after any such sequence, a subject that is refused
  with \<open>n\<close> seconds and comes back that much later, with no request between, is admitted, provided the limit is not zero.
\<close>

theorem rate_limit_enforced:
  assumes "sorted (map fst reqs)"
  shows "length (filter (\<lambda>t. w \<le> t \<and> t < w + RATE_LIMIT_WINDOW)
           (accepted_times subject mutation reqs (SubjectRateLimiter_new r k))) \<le> (if mutation then unat k else unat r)
     \<and> (\<forall>now later n rl'. (\<forall>req \<in> set reqs. fst req \<le> now)
          \<and> check_rate now subject mutation (limiter_after reqs (SubjectRateLimiter_new r k)) = (Inl (AuthRateLimited n), rl')
          \<and> (if mutation then unat k else unat r) > 0 \<and> now + int n * 1000000000 \<le> later
          \<longrightarrow> is_ok (fst (check_rate later subject mutation rl')))"
proof (intro conjI allI impI)
  define latest where "latest = Max (insert 0 (fst ` set reqs))"
  have "\<forall>req \<in> set reqs. fst req \<le> latest" by (simp add: latest_def)
  from history_ok_new(1) [OF assms this, of mutation k r subject]
  show "length (filter (\<lambda>t. w \<le> t \<and> t < w + RATE_LIMIT_WINDOW)
      (accepted_times subject mutation reqs (SubjectRateLimiter_new r k))) \<le> (if mutation then unat k else unat r)"
    unfolding history_ok_def by (blast intro: spaced_window)
next
  fix now later n rl'
  assume a: "(\<forall>req \<in> set reqs. fst req \<le> now)
    \<and> check_rate now subject mutation (limiter_after reqs (SubjectRateLimiter_new r k)) = (Inl (AuthRateLimited n), rl')
    \<and> (if mutation then unat k else unat r) > 0 \<and> now + int n * 1000000000 \<le> later"
  then show "is_ok (fst (check_rate later subject mutation rl'))"
    using history_ok_new(1) [OF assms, of now mutation k r subject] history_ok_new(2) [OF assms, of now r k mutation]
    by (intro wait_admits [of subject mutation "limiter_after reqs (SubjectRateLimiter_new r k)" now n rl' later])
       (simp_all add: history_ok_def)
qed

text \<open>Two reads per minute: the third in a minute is refused for 40 seconds, and a mutation is counted on its own.\<close>

definition sample_requests :: "rate_request list" where
  "sample_requests =
     [(0, ''ops'', False), (10000000000, ''ops'', False), (20000000000, ''ops'', False), (20000000000, ''ops'', True),
      (20000000000, ''dev'', False), (60000000000, ''ops'', False)]"

theorem rate_limit_enforced_witness:
  "accepted_times ''ops'' False sample_requests (SubjectRateLimiter_new 2 1) = [0, 10000000000, 60000000000]
   \<and> length (filter (\<lambda>t. 5 \<le> t \<and> t < 5 + RATE_LIMIT_WINDOW)
       (accepted_times ''ops'' False sample_requests (SubjectRateLimiter_new 2 1))) \<le> 2
   \<and> fst (check_rate 61000000000 ''ops'' False (limiter_after sample_requests (SubjectRateLimiter_new 2 1)))
       = Inl (AuthRateLimited 9)
   \<and> is_ok (fst (check_rate 70000000000 ''ops'' False
       (snd (check_rate 61000000000 ''ops'' False (limiter_after sample_requests (SubjectRateLimiter_new 2 1))))))"
proof -
  let ?rl = "limiter_after sample_requests (SubjectRateLimiter_new 2 1)"
  have s: "sorted (map fst sample_requests)" "\<forall>req \<in> set sample_requests. fst req \<le> 61000000000"
    by (simp_all add: sample_requests_def)
  have nine: "fst (check_rate 61000000000 ''ops'' False ?rl) = Inl (AuthRateLimited 9)"
    by code_simp
  then have refused: "check_rate 61000000000 ''ops'' False ?rl =
      (Inl (AuthRateLimited 9), snd (check_rate 61000000000 ''ops'' False ?rl))"
    by (metis prod.collapse)
  then have "is_ok (fst (check_rate 70000000000 ''ops'' False (snd (check_rate 61000000000 ''ops'' False ?rl))))"
    using conjunct2 [OF rate_limit_enforced [OF s(1), of 5 "''ops''" False 2 1], THEN spec, THEN spec, THEN spec, THEN spec,
        of 61000000000 9 "snd (check_rate 61000000000 ''ops'' False ?rl)" 70000000000] s(2)
    by simp
  moreover have "accepted_times ''ops'' False sample_requests (SubjectRateLimiter_new 2 1) = [0, 10000000000, 60000000000]"
    by code_simp
  ultimately show ?thesis
    using conjunct1 [OF rate_limit_enforced [OF s(1), of 5 "''ops''" False 2 1]] nine by (intro conjI) simp_all
qed

end
