(* ===== verification/Admin_Store.thy ===== *)
theory Admin_Store
  imports Public_Pages Csv_Import Refresh_Store
begin

text \<open>
  The administrator's repositories: crawl attempts and recrawls (\<^verbatim>\<open>database/admin_workflow_repository.rs\<close>), crawl
  policies and the audit trail (\<^verbatim>\<open>database/admin_repository.rs\<close>), and the operations overview with the workers'
  heartbeats (\<^verbatim>\<open>database/admin_operations_repository.rs\<close>), over the models of \<^verbatim>\<open>models/src/admin.rs\<close>.
\<close>

section \<open>Crawl attempts\<close>

fun admin_crawl_retry_state_as_str :: "admin_crawl_retry_state \<Rightarrow> string" where
  "admin_crawl_retry_state_as_str InProgress = ''in_progress''"
| "admin_crawl_retry_state_as_str AutomaticRetryScheduled = ''automatic_retry_scheduled''"
| "admin_crawl_retry_state_as_str ManualRetryAvailable = ''manual_retry_available''"
| "admin_crawl_retry_state_as_str ManualRetryBlocked = ''manual_retry_blocked''"
| "admin_crawl_retry_state_as_str NotApplicable = ''not_applicable''"

fun retry_state :: "attempt_status \<Rightarrow> string option \<Rightarrow> bool \<Rightarrow> bool \<Rightarrow> admin_crawl_retry_state" where
  "retry_state Queued code terminal later = InProgress"
| "retry_state Running code terminal later = InProgress"
| "retry_state Failed code terminal later =
     (if later \<or> \<not> terminal then AutomaticRetryScheduled
      else if retry_blocking_code code then ManualRetryBlocked
      else ManualRetryAvailable)"
| "retry_state Cancelled code terminal later = ManualRetryBlocked"
| "retry_state Succeeded code terminal later = NotApplicable"

definition has_later_attempt :: "db \<Rightarrow> attempt_row \<Rightarrow> bool" where
  "has_later_attempt d a =
     list_ex (\<lambda>b. att_domain_id b = att_domain_id a \<and> att_queued_at a < att_queued_at b) (db_attempts d)"

definition row_to_attempt ::
    "env \<Rightarrow> db \<Rightarrow> attempt_row \<times> domain_row \<times> policy_row \<Rightarrow> (admin_operation_error, admin_crawl_attempt) result" where
  "row_to_attempt E d row =
     (case row of (a, r, p) \<Rightarrow>
        let state = retry_state (att_status a) (att_failure_code a) (pol_terminal_failure_at p \<noteq> None) (has_later_attempt d a) in
        rbind (admin (u16_of_i16 (att_number a))) (\<lambda>number.
        Inr \<lparr>aca_job_id = env_uuid_str E (att_job_id a), aca_canonical_domain = dr_canonical_domain r,
             aca_attempt_number = number, aca_status = att_status a, aca_queued_at = att_queued_at a,
             aca_finished_at = att_finished_at a, aca_failure_code = att_failure_code a,
             aca_failure_summary = att_failure_summary a, aca_retry_state = state,
             aca_retry_eligible = (state = ManualRetryAvailable)\<rparr>))"

definition attempt_rows :: "db \<Rightarrow> (attempt_row \<times> domain_row \<times> policy_row) list" where
  "attempt_rows d =
     sort_key (\<lambda>(a, _). - att_queued_at a)
       [(a, r, p). a \<leftarrow> db_attempts d, r \<leftarrow> db_domains d, dr_id r = att_domain_id a,
                   p \<leftarrow> db_policies d, pol_domain_id p = att_domain_id a]"

definition crawl_attempts :: "env \<Rightarrow> nat \<Rightarrow> db \<Rightarrow> (admin_operation_error, admin_crawl_attempt list) result" where
  "crawl_attempts E limit d =
     rbind (ok_or AdminValidation (i64_try_from limit)) (\<lambda>limit.
     collect_results (map (row_to_attempt E d) (take limit (attempt_rows d))))"

section \<open>Recrawls\<close>

definition idle :: "db \<Rightarrow> policy_row \<Rightarrow> bool" where
  "idle d p = (\<not> list_ex (\<lambda>a. att_domain_id a = pol_domain_id p \<and> active_status (att_status a)) (db_attempts d))"

definition crawl_now :: "instant \<Rightarrow> policy_row \<Rightarrow> policy_row" where
  "crawl_now now p = p\<lparr>pol_next_crawl_at := Some now, pol_updated_at := now\<rparr>"

definition schedule_selected :: "(policy_row \<Rightarrow> bool) \<Rightarrow> instant \<Rightarrow> db \<Rightarrow> (admin_operation_error, uuid list \<times> db) result" where
  "schedule_selected sel now d =
     rbind (admin (update_policies sel (crawl_now now) (db_policies d))) (\<lambda>policies.
     Inr (map pol_domain_id (filter sel (db_policies d)), d\<lparr>db_policies := policies\<rparr>))"

definition needs_country :: "store \<Rightarrow> policy_row \<Rightarrow> bool" where
  "needs_country st p =
     (pol_is_enabled p
      \<and> list_ex (\<lambda>s. snap_domain_id s = pol_domain_id p) (st_snapshots st)
      \<and> \<not> list_ex (\<lambda>c. list_ex (\<lambda>s. snap_id s = cty_snapshot_id c \<and> snap_domain_id s = pol_domain_id p) (st_snapshots st))
           (st_countries st)
      \<and> idle (st_core st) p)"

definition schedule_country_enrichment_recrawl ::
    "string \<Rightarrow> instant \<Rightarrow> store \<Rightarrow> (admin_operation_error, nat \<times> store) result" where
  "schedule_country_enrichment_recrawl actor now st =
     rbind (schedule_selected (needs_country st) now (st_core st)) (\<lambda>(ids, core).
     rbind (admin (i64_try_from (length ids))) (\<lambda>scheduled.
     rbind (admin (insert_audit
              \<lparr>aud_actor_subject = actor, aud_action = ''country_enrichment.recrawl_requested'', aud_domain_id = None,
               aud_resource_kind = ''country_enrichment'', aud_resource_id = 0,
               aud_metadata = JObject [(''scheduled_domain_count'', JInt (int scheduled))]\<rparr> core)) (\<lambda>core.
     Inr (scheduled, st\<lparr>st_core := core\<rparr>))))"

record admin_import_batch_recrawl =
  ibr_import_id :: string
  ibr_source_name :: string
  ibr_requested :: nat
  ibr_scheduled :: nat
  ibr_skipped :: nat

definition import_domain_ids :: "uuid \<Rightarrow> import_db \<Rightarrow> uuid list" where
  "import_domain_ids i d = List.map_filter irw_domain_id (filter (\<lambda>r. irw_import_id r = i) (im_rows d))"

definition imported_and_idle :: "uuid \<Rightarrow> import_db \<Rightarrow> policy_row \<Rightarrow> bool" where
  "imported_and_idle i d p =
     (pol_is_enabled p
      \<and> list_ex (\<lambda>row. irw_import_id row = i \<and> irw_domain_id row = Some (pol_domain_id p)
            \<and> list_ex (\<lambda>r. dr_id r = pol_domain_id p \<and> dr_archived_at r = None) (db_domains (im_core d))) (im_rows d)
      \<and> idle (im_core d) p)"

definition checked_sub :: "nat \<Rightarrow> nat \<Rightarrow> nat option" where
  "checked_sub a b = (if b \<le> a then Some (a - b) else None)"

definition schedule_import_batch_recrawl ::
    "env \<Rightarrow> string \<Rightarrow> string \<Rightarrow> instant \<Rightarrow> import_db \<Rightarrow> (admin_operation_error, admin_import_batch_recrawl \<times> import_db) result" where
  "schedule_import_batch_recrawl E import_id actor now d =
     rbind (ok_or AdminValidation (env_uuid_parse E import_id)) (\<lambda>i.
     rbind (ok_or AdminNotFound
              (list_first [(m, s). m \<leftarrow> im_imports d, imp_id m = i \<and> imp_status m = ''completed'',
                                   s \<leftarrow> im_sources d, src_id s = imp_source_id m])) (\<lambda>(m, s).
     let requested = length (remdups (import_domain_ids i d)) in
     rbind (schedule_selected (imported_and_idle i d) now (im_core d)) (\<lambda>(ids, core).
     rbind (admin (checked_sub requested (length ids))) (\<lambda>skipped.
     rbind (admin (i64_try_from requested)) (\<lambda>_.
     rbind (admin (insert_audit
              \<lparr>aud_actor_subject = actor, aud_action = ''import.recrawl_requested'', aud_domain_id = None,
               aud_resource_kind = ''import'', aud_resource_id = i,
               aud_metadata = JObject [(''requested_domain_count'', JInt (int requested)),
                 (''scheduled_domain_count'', JInt (int (length ids))), (''skipped_domain_count'', JInt (int skipped))]\<rparr> core)) (\<lambda>core.
     Inr (\<lparr>ibr_import_id = env_uuid_str E i, ibr_source_name = src_name s, ibr_requested = requested,
           ibr_scheduled = length ids, ibr_skipped = skipped\<rparr>, d\<lparr>im_core := core\<rparr>)))))))"

section \<open>Policies\<close>

record admin_crawl_policy =
  acp_is_enabled :: bool
  acp_priority :: string
  acp_desired_interval_hours :: u16

definition AdminCrawlPolicy_new :: "bool \<Rightarrow> crawl_priority \<Rightarrow> u16 \<Rightarrow> (admin_operation_error, admin_crawl_policy) result" where
  "AdminCrawlPolicy_new is_enabled prio hours =
     (if \<not> (1 \<le> hours \<and> hours \<le> 8760) then Inl AdminValidation
      else Inr \<lparr>acp_is_enabled = is_enabled, acp_priority = crawl_priority_as_str prio, acp_desired_interval_hours = hours\<rparr>)"

definition parse_priority :: "string \<Rightarrow> crawl_priority option" where
  "parse_priority s =
     (if s = ''high'' then Some High else if s = ''medium'' then Some Medium else if s = ''low'' then Some Low else None)"

definition priority_enum :: "admin_crawl_policy \<Rightarrow> (admin_operation_error, crawl_priority) result" where
  "priority_enum policy = ok_or AdminValidation (parse_priority (acp_priority policy))"

definition update_policy ::
    "env \<Rightarrow> instant \<Rightarrow> canonical_domain \<Rightarrow> admin_crawl_policy \<Rightarrow> string \<Rightarrow> db \<Rightarrow> (admin_operation_error, admin_crawl_policy \<times> db) result" where
  "update_policy E db_now name policy actor d =
     rbind (priority_enum policy) (\<lambda>prio.
     rbind (ok_or AdminValidation (env_interval E (from_secs (unat (acp_desired_interval_hours policy) * 60 * 60)))) (\<lambda>interval.
     rbind (ok_or AdminNotFound
              (find (\<lambda>r. dr_canonical_domain r = canonical_domain_as_str name \<and> dr_archived_at r = None) (db_domains d))) (\<lambda>r.
     rbind (admin (update_policies (\<lambda>p. pol_domain_id p = dr_id r)
              (\<lambda>p. p\<lparr>pol_is_enabled := acp_is_enabled policy, pol_priority := crawl_priority_as_str prio,
                    pol_desired_interval := interval, pol_updated_at := db_now\<rparr>) (db_policies d))) (\<lambda>policies.
     rbind (admin (insert_audit
              \<lparr>aud_actor_subject = actor, aud_action = ''domain.policy_updated'', aud_domain_id = Some (dr_id r),
               aud_resource_kind = ''domain'', aud_resource_id = dr_id r,
               aud_metadata = JObject [(''is_enabled'', JBool (acp_is_enabled policy)),
                 (''priority'', JString (crawl_priority_as_str prio)),
                 (''desired_interval_hours'', JInt (uint (acp_desired_interval_hours policy)))]\<rparr>
              (d\<lparr>db_policies := policies\<rparr>))) (\<lambda>d.
     Inr (policy, d))))))"

section \<open>The audit trail\<close>

record admin_audit_event =
  aae_id :: string
  aae_actor_subject :: string
  aae_action :: string
  aae_resource_kind :: string
  aae_resource_id :: string
  aae_occurred_at :: instant

record admin_audit_cursor =
  aac_occurred_at :: instant
  aac_id :: string

definition AdminAuditCursor_new :: "instant \<Rightarrow> string \<Rightarrow> (admin_operation_error, admin_audit_cursor) result" where
  "AdminAuditCursor_new occurred_at i =
     (if trim i = [] then Inl AdminValidation else Inr \<lparr>aac_occurred_at = occurred_at, aac_id = i\<rparr>)"

text \<open>
  The columns the database fills in itself, \<open>id\<close> and \<open>occurred_at\<close>: \<open>stamp\<close> gives them for the \<open>n\<close>-th row of the table.
\<close>

type_synonym audit_stamp = "nat \<Rightarrow> uuid \<times> instant"

definition audit_table :: "audit_stamp \<Rightarrow> db \<Rightarrow> (instant \<times> uuid \<times> audit_row) list" where
  "audit_table stamp d = map (\<lambda>(n, a). (snd (stamp n), fst (stamp n), a)) (enumerate 0 (db_audit d))"

definition audit_key :: "instant \<times> uuid \<times> audit_row \<Rightarrow> int \<times> int" where
  "audit_key row = (case row of (t, i, _) \<Rightarrow> (- t, - uint i))"

definition audit_rows :: "audit_stamp \<Rightarrow> (instant \<times> uuid) option \<Rightarrow> db \<Rightarrow> (instant \<times> uuid \<times> audit_row) list" where
  "audit_rows stamp cursor d =
     sort_key audit_key
       (filter (\<lambda>(t, i, _). case cursor of None \<Rightarrow> True | Some (t', i') \<Rightarrow> t < t' \<or> (t = t' \<and> i < i')) (audit_table stamp d))"

definition audit_event_from_row :: "env \<Rightarrow> instant \<times> uuid \<times> audit_row \<Rightarrow> admin_audit_event" where
  "audit_event_from_row E row =
     (case row of (t, i, a) \<Rightarrow>
        \<lparr>aae_id = env_uuid_str E i, aae_actor_subject = aud_actor_subject a, aae_action = aud_action a,
         aae_resource_kind = aud_resource_kind a, aae_resource_id = env_uuid_str E (aud_resource_id a), aae_occurred_at = t\<rparr>)"

definition audit_events ::
    "env \<Rightarrow> audit_stamp \<Rightarrow> admin_audit_cursor option \<Rightarrow> nat \<Rightarrow> db \<Rightarrow>
     (admin_operation_error, admin_audit_event list \<times> admin_audit_cursor option) result" where
  "audit_events E stamp cursor limit d =
     rbind (case cursor of
              None \<Rightarrow> Inr None
            | Some c \<Rightarrow> rbind (ok_or AdminValidation (env_uuid_parse E (aac_id c))) (\<lambda>i. Inr (Some (aac_occurred_at c, i)))) (\<lambda>after.
     rbind (admin (i64_try_from (min (limit + 1) (2 ^ 64 - 1)))) (\<lambda>n.
     let events = map (audit_event_from_row E) (take n (audit_rows stamp after d)) in
     if length events > limit
     then let events = butlast events in
          rbind (case events of
                   [] \<Rightarrow> Inr None
                 | _ \<Rightarrow> rbind (AdminAuditCursor_new (aae_occurred_at (last events)) (aae_id (last events))) (\<lambda>c. Inr (Some c)))
            (\<lambda>next. Inr (events, next))
     else Inr (events, None)))"

section \<open>Heartbeats\<close>

record heartbeat_row =
  hb_worker_name :: string
  hb_region :: string
  hb_in_flight_work :: int
  hb_completed_total :: int
  hb_last_heartbeat_at :: instant

record worker_heartbeat =
  wh_name :: string
  wh_region :: string
  wh_in_flight_work :: u32
  wh_observed_at :: instant

definition heartbeat_check :: "heartbeat_row \<Rightarrow> bool" where
  "heartbeat_check r =
     (present (hb_worker_name r) \<and> present (hb_region r) \<and> 0 \<le> hb_in_flight_work r
      \<and> 0 \<le> hb_completed_total r \<and> hb_completed_total r < 2 ^ 63)"

definition i32_of_u32 :: "u32 \<Rightarrow> int option" where
  "i32_of_u32 w = (if uint w < 2 ^ 31 then Some (uint w) else None)"

text \<open>\<open>ON CONFLICT (worker_name) DO UPDATE\<close>: \<open>completed\<close> is what is added to an existing total, and the total of a new row.\<close>

definition upsert_heartbeat ::
    "int \<Rightarrow> worker_heartbeat \<Rightarrow> heartbeat_row list \<Rightarrow> (admin_operation_error, heartbeat_row list) result" where
  "upsert_heartbeat completed h rows =
     rbind (ok_or AdminValidation (i32_of_u32 (wh_in_flight_work h))) (\<lambda>in_flight.
     let row = \<lparr>hb_worker_name = wh_name h, hb_region = wh_region h, hb_in_flight_work = in_flight,
           hb_completed_total = completed, hb_last_heartbeat_at = wh_observed_at h\<rparr> in
     if \<not> heartbeat_check row then Inl AdminUnavailable
     else if list_ex (\<lambda>r. hb_worker_name r = wh_name h) rows
     then admin (sql_update heartbeat_check (\<lambda>_. False) (\<lambda>r. hb_worker_name r = wh_name h)
            (\<lambda>r. row\<lparr>hb_completed_total := hb_completed_total r + completed\<rparr>) rows)
     else Inr (rows @ [row]))"

definition heartbeat :: "worker_heartbeat \<Rightarrow> heartbeat_row list \<Rightarrow> (admin_operation_error, heartbeat_row list) result" where
  "heartbeat h rows = upsert_heartbeat 0 h rows"

definition record_completion :: "worker_heartbeat \<Rightarrow> heartbeat_row list \<Rightarrow> (admin_operation_error, heartbeat_row list) result" where
  "record_completion h rows = upsert_heartbeat 1 h rows"

section \<open>The overview\<close>

datatype admin_activity_kind = Discovery | ActivitySuccess | System

record admin_throughput_point =
  atp_observed_at :: instant
  atp_completed_count :: u64

record admin_worker =
  awk_name :: string
  awk_region :: string
  awk_in_flight_work :: u32
  awk_completed_total :: u64
  awk_last_heartbeat_at :: instant

record admin_operations_activity =
  act_id :: string
  act_title :: string
  act_description :: string
  act_occurred_at :: instant
  act_kind :: admin_activity_kind

record admin_operations_overview =
  aoo_domain_count :: u64
  aoo_technology_count :: u64
  aoo_current_detection_count :: u64
  aoo_successful_crawl_count :: u64
  aoo_scheduled_crawl_count :: u64
  aoo_throughput :: "admin_throughput_point list"
  aoo_workers :: "admin_worker list"
  aoo_activity :: "admin_operations_activity list"

definition admin_count :: "nat \<Rightarrow> (admin_operation_error, u64) result" where
  "admin_count n = admin (u64_of_i64 (int n))"

definition NANOS_PER_HOUR :: int where "NANOS_PER_HOUR = 3600 * 1000000000"

definition date_trunc_hour :: "instant \<Rightarrow> instant" where
  "date_trunc_hour t = t div NANOS_PER_HOUR * NANOS_PER_HOUR"

definition throughput_hours :: "instant \<Rightarrow> db \<Rightarrow> instant list" where
  "throughput_hours since d =
     List.map_filter (\<lambda>a. case att_finished_at a of
         None \<Rightarrow> None
       | Some t \<Rightarrow> if att_status a = Succeeded \<and> since \<le> t then Some (date_trunc_hour t) else None) (db_attempts d)"

definition throughput :: "instant \<Rightarrow> db \<Rightarrow> (admin_operation_error, admin_throughput_point list) result" where
  "throughput since d =
     (let hours = throughput_hours since d in
      collect_results (map (\<lambda>h.
        rbind (admin_count (length (filter (\<lambda>x. x = h) hours))) (\<lambda>n.
        Inr \<lparr>atp_observed_at = h, atp_completed_count = n\<rparr>)) (sort (remdups hours))))"

definition u32_of_int4 :: "int \<Rightarrow> u32 option" where
  "u32_of_int4 n = (if 0 \<le> n then Some (word_of_int n) else None)"

definition admin_worker_from_row :: "heartbeat_row \<Rightarrow> (admin_operation_error, admin_worker) result" where
  "admin_worker_from_row r =
     rbind (admin (u32_of_int4 (hb_in_flight_work r))) (\<lambda>in_flight.
     rbind (admin (u64_of_i64 (hb_completed_total r))) (\<lambda>completed.
     Inr \<lparr>awk_name = hb_worker_name r, awk_region = hb_region r, awk_in_flight_work = in_flight,
          awk_completed_total = completed, awk_last_heartbeat_at = hb_last_heartbeat_at r\<rparr>))"

definition admin_workers :: "env \<Rightarrow> heartbeat_row list \<Rightarrow> (admin_operation_error, admin_worker list) result" where
  "admin_workers E rows =
     collect_results (map admin_worker_from_row
       (sort_key (\<lambda>r. (- hb_last_heartbeat_at r, env_collate E (hb_worker_name r))) rows))"

text \<open>The union of audit events and successful crawls: id as text, action, kind of resource and time.\<close>

definition activity_rows :: "env \<Rightarrow> audit_stamp \<Rightarrow> db \<Rightarrow> (string \<times> string \<times> string \<times> instant) list" where
  "activity_rows E stamp d =
     map (\<lambda>(t, i, a). (env_uuid_str E i, aud_action a, aud_resource_kind a, t)) (audit_table stamp d)
     @ List.map_filter (\<lambda>a. if att_status a = Succeeded
          then map_option (\<lambda>t. (env_uuid_str E (att_id a), ''crawl.completed'', ''crawl'', t)) (att_finished_at a) else None) (db_attempts d)"

definition newest_first :: "env \<Rightarrow> (string \<times> string \<times> string \<times> instant) list \<Rightarrow> (string \<times> string \<times> string \<times> instant) list" where
  "newest_first E rows = rev (sort_key (\<lambda>(i, _, _, t). (t, env_collate E i)) rows)"

definition activity_from_row :: "string \<times> string \<times> string \<times> instant \<Rightarrow> admin_operations_activity" where
  "activity_from_row row =
     (case row of (i, action, resource_kind, t) \<Rightarrow>
        let completed = (action = ''crawl.completed'') in
        \<lparr>act_id = i,
         act_title = (if completed then ''crawl completed'' else map (\<lambda>c. if c = CHR ''.'' then CHR '' '' else c) action),
         act_description = (if completed then ''successful crawl recorded'' else resource_kind @ '' operation recorded''),
         act_occurred_at = t,
         act_kind = (if completed then ActivitySuccess else if contains_str action ''import'' then Discovery else System)\<rparr>)"

definition overview ::
    "env \<Rightarrow> audit_stamp \<Rightarrow> instant \<Rightarrow> heartbeat_row list \<Rightarrow> store \<Rightarrow> (admin_operation_error, admin_operations_overview) result" where
  "overview E stamp now heartbeats st =
     (let d = st_core st in
      rbind (throughput (now - 24 * NANOS_PER_HOUR) d) (\<lambda>points.
      rbind (admin_workers E heartbeats) (\<lambda>workers.
      rbind (admin_count (length (filter (\<lambda>r. dr_archived_at r = None) (db_domains d)))) (\<lambda>domains.
      rbind (admin_count (length (st_technologies st))) (\<lambda>techs.
      rbind (admin_count (length (st_current st))) (\<lambda>current.
      rbind (admin_count (length (filter (\<lambda>a. att_status a = Succeeded) (db_attempts d)))) (\<lambda>crawls.
      rbind (admin_count (length (filter (\<lambda>p. pol_is_enabled p
               \<and> (case pol_next_crawl_at p of None \<Rightarrow> False | Some t \<Rightarrow> t > now)) (db_policies d)))) (\<lambda>scheduled.
      Inr \<lparr>aoo_domain_count = domains, aoo_technology_count = techs, aoo_current_detection_count = current,
           aoo_successful_crawl_count = crawls, aoo_scheduled_crawl_count = scheduled, aoo_throughput = points,
           aoo_workers = workers,
           aoo_activity = map activity_from_row (take 8 (newest_first E (activity_rows E stamp d)))\<rparr>))))))))"

end
