(* ===== verification/Admin_Properties.thy ===== *)
theory Admin_Properties
  imports Admin_Store
begin

text \<open>
  What the administrator's views promise: which attempts can be retried, and what a recrawl of an import schedules.
\<close>

section \<open>Retries\<close>




text \<open>A domain whose first attempt and its retry both failed.\<close>

definition failed_attempt :: "uuid \<Rightarrow> uuid \<Rightarrow> int \<Rightarrow> instant \<Rightarrow> attempt_row" where
  "failed_attempt i job number at =
     \<lparr>att_id = i, att_domain_id = 102, att_job_id = job, att_correlation_id = 9, att_idempotency_key = ''k'' @ replicate (nat number) CHR ''1'',
      att_number = number, att_status = Failed, att_queued_at = at, att_started_at = Some at, att_finished_at = Some (at + 1),
      att_failure_code = Some ''network_timeout'', att_failure_summary = None, att_created_at = at\<rparr>"



section \<open>Recrawl of an import\<close>

lemma scheduled_le_requested:
  assumes "distinct (map pol_domain_id (db_policies (im_core d)))"
  shows "length (filter (imported_and_idle i d) (db_policies (im_core d))) \<le> length (remdups (import_domain_ids i d))"
proof -
  let ?sel = "filter (imported_and_idle i d) (db_policies (im_core d))"
  have "distinct (map pol_domain_id ?sel)" using assms by (simp add: distinct_map_filter)
  then have "length ?sel = card (set (map pol_domain_id ?sel))" by (metis distinct_card length_map)
  also have "\<dots> \<le> card (set (import_domain_ids i d))"
  proof (rule card_mono)
    show "set (map pol_domain_id ?sel) \<subseteq> set (import_domain_ids i d)"
      by (force simp: imported_and_idle_def import_domain_ids_def list_ex_iff map_filter_def)
  qed simp
  finally show ?thesis by (simp add: length_remdups_card_conv)
qed

text \<open>
  Recrawling an import.  When the policies are keyed by domain, the counts are exact and the subtraction behind
  the skipped count never fails: the import's distinct domains are requested, the enabled policies of its active domains
  without a queued or running attempt are scheduled, the difference is skipped, and exactly the scheduled policies become
  due now.
\<close>

theorem import_recrawl_counts:
  assumes "distinct (map pol_domain_id (db_policies (im_core d)))"
    and "env_uuid_parse E import_id = Some i"
    and "list_first [(m, s). m \<leftarrow> im_imports d, imp_id m = i \<and> imp_status m = ''completed'',
                             s \<leftarrow> im_sources d, src_id s = imp_source_id m] = Some (m, s)"
    and "\<forall>p \<in> set (db_policies (im_core d)). policy_check p \<and> pol_created_at p \<le> now"
    and "length (im_rows d) < 2 ^ 63" "btrim actor \<noteq> []"
  shows "\<exists>outcome d'. schedule_import_batch_recrawl E import_id actor now d = Inr (outcome, d')
     \<and> ibr_requested outcome = card (set (import_domain_ids i d))
     \<and> ibr_scheduled outcome = card {pol_domain_id p | p. p \<in> set (db_policies (im_core d)) \<and> imported_and_idle i d p}
     \<and> ibr_scheduled outcome + ibr_skipped outcome = ibr_requested outcome
     \<and> db_policies (im_core d') = map (\<lambda>p. if imported_and_idle i d p then crawl_now now p else p) (db_policies (im_core d))"
proof -
  let ?P = "db_policies (im_core d)"
  have upd: "update_policies (imported_and_idle i d) (crawl_now now) ?P
      = Some (map (\<lambda>p. if imported_and_idle i d p then crawl_now now p else p) ?P)"
    using assms(4) by (auto simp: update_policies_def sql_simps policy_check_def crawl_now_def opt_ge_def)
  have "length (remdups (import_domain_ids i d)) \<le> length (im_rows d)"
    unfolding import_domain_ids_def map_filter_def
    by (rule order_trans [OF length_remdups_leq]) (simp only: length_map, meson length_filter_le order_trans)
  then have fits: "i64_try_from (length (remdups (import_domain_ids i d))) = Some (length (remdups (import_domain_ids i d)))"
    using assms(5) by (simp add: i64_try_from_def)
  have sched: "length (filter (imported_and_idle i d) ?P) = card {pol_domain_id p | p. p \<in> set ?P \<and> imported_and_idle i d p}"
  proof -
    have "distinct (map pol_domain_id (filter (imported_and_idle i d) ?P))" using assms(1) by (simp add: distinct_map_filter)
    then have "card (set (map pol_domain_id (filter (imported_and_idle i d) ?P))) = length (filter (imported_and_idle i d) ?P)"
      by (metis distinct_card length_map)
    moreover have "set (map pol_domain_id (filter (imported_and_idle i d) ?P)) = {pol_domain_id p | p. p \<in> set ?P \<and> imported_and_idle i d p}"
      by auto
    ultimately show ?thesis by simp
  qed
  show ?thesis
    using assms(2,3,6) upd fits scheduled_le_requested [OF assms(1), of i] sched
    by (simp add: schedule_import_batch_recrawl_def schedule_selected_def admin_def checked_sub_def insert_audit_def
        audit_check_def length_remdups_card_conv Let_def)
qed

text \<open>An import of two domains, one of them with a queued attempt.\<close>

definition sample_import_row :: "nat \<Rightarrow> uuid option \<Rightarrow> csv_row" where
  "sample_import_row n i = \<lparr>irw_import_id = 5, irw_row_number = n, irw_input_values = JNull, irw_canonical_domain = None,
     irw_domain_id = i, irw_status = ''accepted'', irw_error_code = None, irw_error_summary = None\<rparr>"

definition sample_imported :: import_db where
  "sample_imported = \<lparr>
     im_core = sample_db\<lparr>db_attempts := [(failed_attempt 103 7 1 10)\<lparr>att_status := Queued\<rparr>]\<rparr>,
     im_sources = [\<lparr>src_id = 1, src_kind = ''csv'', src_name = ''list'', src_archived_at = None\<rparr>],
     im_imports = [\<lparr>imp_id = 5, imp_source_id = 1, imp_initiated_by = ''ops'', imp_status = ''completed'', imp_accepted = 2,
       imp_duplicate = 1, imp_rejected = 1, imp_started_at = Some 1, imp_completed_at = Some 2, imp_created_at = 1\<rparr>],
     im_rows = [sample_import_row 1 (Some 101), sample_import_row 2 (Some 102), sample_import_row 3 (Some 101), sample_import_row 4 None],
     im_members = []\<rparr>"

theorem import_recrawl_counts_witness:
  "\<exists>outcome d'. schedule_import_batch_recrawl sample_env ''u11111'' ''ops'' 30 sample_imported = Inr (outcome, d')
     \<and> ibr_requested outcome = 2 \<and> ibr_scheduled outcome = 1 \<and> ibr_skipped outcome = 1"
proof -
  let ?d = sample_imported and ?P = "db_policies (im_core sample_imported)"
  obtain m s where ms: "list_first [(m, s). m \<leftarrow> im_imports ?d, imp_id m = 5 \<and> imp_status m = ''completed'',
                             s \<leftarrow> im_sources ?d, src_id s = imp_source_id m] = Some (m, s)"
    by (simp add: sample_imported_def list_first_def)
  have P: "?P = [new_policy_row 101 ''high'' 1000 0, new_policy_row 102 ''low'' 1000 0]"
    by (simp add: sample_imported_def sample_db_def)
  have sel: "imported_and_idle 5 ?d (new_policy_row 101 ''high'' 1000 0)" "\<not> imported_and_idle 5 ?d (new_policy_row 102 ''low'' 1000 0)"
    by code_simp+
  have "{pol_domain_id p | p. p \<in> set ?P \<and> imported_and_idle 5 ?d p} = pol_domain_id ` {p \<in> set ?P. imported_and_idle 5 ?d p}"
    by auto
  also have "{p \<in> set ?P. imported_and_idle 5 ?d p} = {new_policy_row 101 ''high'' 1000 0}"
    using sel by (auto simp: P)
  finally have one: "{pol_domain_id p | p. p \<in> set ?P \<and> imported_and_idle 5 ?d p} = {101}"
    by (simp add: new_policy_row_def)
  have ids: "import_domain_ids 5 ?d = [101, 102, 101]" by code_simp
  have checks: "\<forall>p \<in> set ?P. policy_check p \<and> pol_created_at p \<le> 30"
    by (auto simp: P new_policy_row_def policy_check_def opt_ge_def)
  have keys: "distinct (map pol_domain_id ?P)" by (simp add: P new_policy_row_def)
  have parsed: "env_uuid_parse sample_env ''u11111'' = Some 5" by (simp add: sample_env_def)
  have rows: "length (im_rows ?d) < 2 ^ 63" by (simp add: sample_imported_def)
  have "btrim ''ops'' \<noteq> []" by code_simp
  from import_recrawl_counts [OF keys parsed ms checks rows this] obtain outcome d' where
      "schedule_import_batch_recrawl sample_env ''u11111'' ''ops'' 30 ?d = Inr (outcome, d')"
      "ibr_requested outcome = card (set (import_domain_ids 5 ?d))" "ibr_scheduled outcome = card {101 :: uuid}"
      "ibr_scheduled outcome + ibr_skipped outcome = ibr_requested outcome"
    unfolding one by blast
  moreover have "card {101, 102 :: uuid} = 2" by simp
  ultimately show ?thesis by (simp add: ids insert_commute)
qed

end
