(* ===== verification/Spec2Isabelle.thy ===== *)
theory Spec2Isabelle
  imports
    TA_Prelude Scheduling Detection_Model Projection Domain_Model Tables Domain_Store
    Schedule_Store Refresh_Store Schedule_Invariants Schedule_Properties
    Std_Net Crawler_Net Crawler_Robots Crawler_Fetch Parser Json Detector Queue
    Worker_Model Worker_Store Worker_Properties Artifact_Store Worker_Service
    Config Adoption_Store Scheduler_Service Csv_Import
    Reprocessing Reprocessing_Properties Search Search_Index
    Public_Read Public_Pages Public_Analytics Public_History Public_Api
    Rule_Admin Rule_Store Admin_Auth Admin_Store Admin_Properties
begin

text \<open>
  A verification of TechAtlas, a service that crawls registered domains and records the
  technologies they use.

  \<^bold>\<open>The program.\<close>  Domains are registered through the domain service
  (\<^verbatim>\<open>crates/models/src/lib.rs\<close>) and stored by \<^verbatim>\<open>crates/database\<close> in Postgres.  The scheduler
  reserves due domains, writes a crawl attempt and an outbox row in one transaction, and publishes
  the outbox to a queue.  A worker claims the attempt of a job, acquires the site with the crawler
  (\<^verbatim>\<open>crates/crawler\<close>: address safety, robots rules, bounded redirects), extracts facts, evaluates
  detection rules and records a success, from which the projection of current technologies and its
  change log are derived, or a failure, which is retried with exponential delays.

  \<^bold>\<open>Theories and what they model.\<close>
  \<^item> \<open>TA_Prelude\<close>: results, Rust strings as UTF-8 bytes with trimming, splitting and searching,
    sorting and removing duplicates.
  \<^item> \<open>Scheduling\<close> (\<^verbatim>\<open>models/scheduler.rs\<close>, \<^verbatim>\<open>models/crawl_job.rs\<close>): retry settings and delays, failures,
    the crawl job and its wire form.
  \<^item> \<open>Detection_Model\<close> and \<open>Projection\<close> (\<^verbatim>\<open>models/detection.rs\<close>, \<^verbatim>\<open>models/projection.rs\<close>): slugs,
    evidence, detections, and \<open>derive_projection\<close> with its abstract specification \<open>next_slugs\<close>.
  \<^item> \<open>Domain_Model\<close> (\<^verbatim>\<open>models/lib.rs\<close>): canonical domains, crawl policies, the domain service, and the
    locale \<open>domain_listing\<close>, the contract of a repository under which pagination is proved.
  \<^item> \<open>Tables\<close>: the rows of the migrations under \<^verbatim>\<open>database/migrations\<close>, their constraints as guards
    of INSERT and UPDATE, and the environment record \<open>env\<close> for what lies outside the repository.
  \<^item> \<open>Domain_Store\<close> (\<^verbatim>\<open>database/domain_repository.rs\<close>): creation, lookup and listing; the
    interpretation of \<open>domain_listing\<close> on the Postgres repository.
  \<^item> \<open>Schedule_Store\<close> (\<^verbatim>\<open>database/scheduler_repository.rs\<close>, \<^verbatim>\<open>claim_attempt\<close> and \<^verbatim>\<open>record_failure\<close> of
    \<^verbatim>\<open>database/worker_repository.rs\<close>) and \<open>Refresh_Store\<close> (\<^verbatim>\<open>database/public_refresh_repository.rs\<close>, the
    crawl request and manual retry of \<^verbatim>\<open>database/admin_workflow_repository.rs\<close>): every writer of
    crawl attempts, outbox and policies.
  \<^item> \<open>Schedule_Invariants\<close>, \<open>Schedule_Properties\<close>: these operations as the step relation \<open>sched_step\<close>,
    its reachable states, and what they satisfy.
  \<^item> \<open>Crawler_Net\<close>, \<open>Crawler_Robots\<close>, \<open>Crawler_Fetch\<close> (\<^verbatim>\<open>crates/crawler/src/lib.rs\<close>): configuration,
    crawl URLs, public addresses, header filtering and bounded bodies; robots parsing and matching;
    the redirect loop, TLS probing and error mapping.  \<open>Std_Net\<close> holds the addresses of the standard
    library and their printing, \<open>Json\<close> the JSON values of \<open>serde_json\<close> and their accessors.
  \<^item> \<open>Parser\<close> (\<^verbatim>\<open>crates/parser/src/lib.rs\<close>): the evidence extracted from HTML, headers, scripts, DNS and TLS.
  \<^item> \<open>Detector\<close> (\<^verbatim>\<open>crates/detector/src/lib.rs\<close>): the built-in catalogue, scoring, the evaluation of rules
    stored as JSON, and version extraction.
  \<^item> \<open>Queue\<close> (\<^verbatim>\<open>crates/queue/src/lib.rs\<close>): publication, delivery, reclaiming, dead letters, acknowledgement
    and the politeness lease, over a Redis server given as a record of functions.
  \<^item> \<open>Worker_Model\<close> (\<^verbatim>\<open>models/worker.rs\<close>): the records of a successful crawl and their constructors.
    \<open>Worker_Store\<close> (\<^verbatim>\<open>database/worker_repository.rs\<close>): the active rules and the success transaction, on
    the catalogue and result tables beside those of \<open>Tables\<close>; \<open>Worker_Properties\<close>: what it does to them.
  \<^item> \<open>Artifact_Store\<close> (\<^verbatim>\<open>crates/storage/src/lib.rs\<close>, the redaction of \<^verbatim>\<open>crates/crawler\<close>): which bodies are
    kept, their content-addressed storage and verified retrieval.
  \<^item> \<open>Worker_Service\<close> (\<^verbatim>\<open>apps/worker/src/lib.rs\<close>): the processing of one delivery across all of the above,
    with what other processes do to the database in between as a parameter, and its acknowledgement.
  \<^item> \<open>Config\<close> (\<^verbatim>\<open>crates/common/src/lib.rs\<close>, the configuration of \<^verbatim>\<open>apps/scheduler\<close> and \<^verbatim>\<open>apps/worker\<close>): the
    settings read from the environment, with every check and error.
  \<^item> \<open>Scheduler_Service\<close> (\<^verbatim>\<open>apps/scheduler/src/main.rs\<close>): one tick, with the steps of other processes
    between its transactions as a parameter; \<open>Adoption_Store\<close>
    (\<^verbatim>\<open>database/adoption_projection_repository.rs\<close>): the daily capture and the rebuilding of past days.
  \<^item> \<open>Csv_Import\<close> (\<^verbatim>\<open>models/csv_import.rs\<close>, \<^verbatim>\<open>database/csv_import_repository.rs\<close>): documents, commands and
    the import transaction, on the import tables beside those of \<open>Tables\<close>.
  \<^item> \<open>Reprocessing\<close> (\<^verbatim>\<open>models/reprocessing.rs\<close>, \<^verbatim>\<open>database/reprocessing_repository.rs\<close>, the runs of
    \<^verbatim>\<open>database/admin_workflow_repository.rs\<close>, \<open>ReprocessingProcessor\<close> of \<^verbatim>\<open>apps/worker\<close>): runs, work items and
    their outcomes; \<open>Reprocessing_Properties\<close>: the workers as the step relation \<open>rp_step\<close> and its invariant.
  \<^item> \<open>Search\<close> (\<^verbatim>\<open>crates/search/src/lib.rs\<close>): documents, filters, requests to Meilisearch and its answers, over an
    HTTP client given as a record of functions; \<open>Search_Index\<close> (\<^verbatim>\<open>database/search_index_repository.rs\<close>, the indexer
    of \<^verbatim>\<open>apps/worker/src/main.rs\<close>): the outbox of domains to index.
  \<^item> \<open>Public_Read\<close>, \<open>Public_Analytics\<close> (\<^verbatim>\<open>database/public_read_repository.rs\<close>, \<^verbatim>\<open>models/public.rs\<close>): every public query
    as a function of the tables; \<open>Public_Pages\<close>, \<open>Public_History\<close>: the locale \<open>cursor_listing\<close> of pages and cursors, the
    technology library, profiles, comparison and the adoption history.
  \<^item> \<open>Public_Api\<close> (\<^verbatim>\<open>apps/api/src/public.rs\<close>): the public handlers, from their parameters to their responses.
  \<^item> \<open>Rule_Admin\<close> (\<^verbatim>\<open>apps/api/src/admin_operations.rs\<close>): the validation of rule definitions and their trial;
    \<open>Rule_Store\<close> (\<^verbatim>\<open>database/admin_workflow_repository.rs\<close>): drafts, publication and activation, with the step
    relation \<open>rule_step\<close> of administrators whose statements interleave.
  \<^item> \<open>Admin_Auth\<close> (\<^verbatim>\<open>apps/api/src/admin_auth.rs\<close>): tokens, keys, permissions and the rate limiter.
  \<^item> \<open>Admin_Store\<close> (\<^verbatim>\<open>database/admin_workflow_repository.rs\<close>, \<^verbatim>\<open>database/admin_repository.rs\<close>,
    \<^verbatim>\<open>database/admin_operations_repository.rs\<close>): attempts, recrawls, policies, the audit trail, heartbeats and the
    overview; \<open>Admin_Properties\<close>: which attempts are retried, and what a recrawl schedules.

  \<^bold>\<open>Conventions.\<close>  \<open>Result\<close> is a sum type with the error on the left.  Durations are
  nanoseconds, instants are integers at the resolution the database stores.  A transaction is one
  atomic function from database to database; a failed statement fails the whole transaction and
  changes nothing.  Rows that SKIP LOCKED would pass over are a parameter, so every set of
  concurrently held rows is covered.  Random UUIDs are drawn from a sequence of the environment, and
  a collision fails on the primary key as it does in the database.  Crates outside the repository
  (url, http, DNS, TLS, scraper, regex, Redis, JSON Web Tokens, the limits and texts of time,
  the decoding of column types) are functions given as arguments; their
  documented behaviour is assumed by name (\<open>env_ok\<close>, \<open>host_reads_back\<close>) where a theorem needs it.

  \<^bold>\<open>Bounds.\<close>  The redirect loop carries a termination proof (the redirect limit less the
  redirects followed), so no fuel is involved.  \<open>walk_pages\<close> follows page cursors with one more step
  than there are domains, and \<open>walk_cursors\<close> with one more than there are rows, which is shown to be enough.  Sizes are natural numbers with the
  64-bit and 63-bit limits of the code written out where it checks them.

  \<^bold>\<open>What is shown.\<close>  The scheduling invariant over all reachable states, the monotone life of
  attempts, urgency of reservations, the retry rule, and the loss of a domain whose job could not
  be published; safety of everything the crawler contacts and the bound on its requests; the
  robots matcher against wildcard semantics and the choice of the deciding rule; the address
  classifier against CIDR blocks; pagination, creation and lookup of domains; the refinement of the
  technology projection and of its change log, in memory and by the transaction that stores it; the
  success of a job recorded at most once; the verdict of every detection rule and the inputs on which
  evaluation fails; spacing and termination of politeness leases and dead letters at most once; that a
  delivery is acknowledged only after its attempt has finished and a job is marked as published only
  after it was; the round trip of stored artifacts; agreement of the services' configurations; the
  counts of a rebuilt adoption history; the classification of imported rows; exact summaries of
  reprocessing runs, and how a run is lost or cannot start; that a crawl recorded while its domain is
  indexed is indexed again, filters that no value escapes, and the end of waiting for a task; delays, wire forms, slugs
  and evidence.  Of the public reads: which rows the cursors of a listing skip, agreement of profiles with the
  library, the cells of a comparison, the series of the adoption history, net changes of providers, the refusal of history
  cursors and the bounds of search requests.  Of administration: that the trial of a rule predicts the
  detector, that no published rule stops the workers, that a trial can mark a draft it never saw, that the rate limiter
  admits no more than its limit in any window, which attempts a retry accepts against what the list says, and the
  counts of an import recrawl.

  \<^bold>\<open>What is not modelled.\<close>  Tracing, HTTP routing, OpenAPI text and the dashboard; the rustls and
  reqwest glue beyond their results; the regular expressions that redact stored HTML; the administrator handlers
  that only authorise and pass on to the modelled repositories; the command line.
\<close>

end
